(* ===== verification/Prelude.thy ===== *)
theory Prelude
  imports Main "HOL-Library.AList"
begin

text \<open>
  Shared vocabulary of the development.

  \<^item> \<open>error\<close>: the exception classes of \<open>contracts/index.ts\<close> the modelled code
    throws, with their message.
  \<^item> \<open>json\<close>: values of TypeScript type \<open>unknown\<close> and \<open>Record<string, unknown>\<close>.
  \<^item> \<open>'a res\<close>: the outcome of a pure function that may throw.
  \<^item> \<open>('s, 'a) op\<close>: a method that reads and writes the state \<open>'s\<close> and may throw. As in
    JavaScript, the writes made before a throw are kept.
  \<^item> JavaScript string, sort and number helpers. A string is a list of code units; the
    model covers code units below 256, so the long dash of some messages is written \<open>-\<close>.
  \<^item> \<open>keeps R m\<close>: the state before and after \<open>m\<close> are related by \<open>R\<close>; the locale
    \<open>evolution\<close> gives the composition rules once for every reflexive, transitive \<open>R\<close>.
\<close>

named_theorems op_defs
named_theorems keeps_rules
named_theorems core_rules

section \<open>Errors and unknown values\<close>

datatype error =
    ValidationError string
  | StateTransitionError string
  | NotFoundError string
  | PermissionDeniedError string
  | ExecutionDeniedError string string
  | WorkforceError string
  | AgentExecutionError string string string
  | ForeignError string

text \<open>\<open>Error.message\<close>; an \<open>AgentExecutionError\<close> formats agent id and reason in front,
  and an \<open>ExecutionDeniedError\<close> carries a code besides its message.\<close>

fun message :: "error \<Rightarrow> string" where
  "message (ValidationError m) = m"
| "message (StateTransitionError m) = m"
| "message (NotFoundError m) = m"
| "message (PermissionDeniedError m) = m"
| "message (ExecutionDeniedError c m) = m"
| "message (WorkforceError m) = m"
| "message (AgentExecutionError agentId reason m) = ''['' @ agentId @ '':'' @ reason @ ''] '' @ m"
| "message (ForeignError m) = m"

datatype json =
    JUndefined
  | JNull
  | JBool bool
  | JNum int
  | JStr string
  | JArr "json list"
  | JObj "(string \<times> json) list"

type_synonym fields = "(string \<times> json) list"

text \<open>Milliseconds since the epoch; the model's form of \<open>Date.now()\<close> and of ISO timestamps.\<close>

type_synonym timestamp = int

section \<open>Outcomes and stateful operations\<close>

type_synonym 'a res = "error + 'a"
type_synonym ('s, 'a) op = "'s \<Rightarrow> 'a res \<times> 's"

fun bindE :: "'a res \<Rightarrow> ('a \<Rightarrow> 'b res) \<Rightarrow> 'b res" where
  "bindE (Inl e) f = Inl e"
| "bindE (Inr x) f = f x"

text \<open>\<open>if (bad) throw e;\<close>\<close>

definition throw_if :: "bool \<Rightarrow> error \<Rightarrow> unit res" where
  "throw_if bad e = (if bad then Inl e else Inr ())"

text \<open>Statements in sequence: the first one that throws decides.\<close>

fun checks :: "unit res list \<Rightarrow> unit res" where
  "checks [] = Inr ()"
| "checks (Inl e # cs) = Inl e"
| "checks (Inr u # cs) = checks cs"

definition returnS :: "'a \<Rightarrow> ('s, 'a) op" where
  "returnS x s = (Inr x, s)"

definition throwS :: "error \<Rightarrow> ('s, 'a) op" where
  "throwS e s = (Inl e, s)"

definition bindS :: "('s, 'a) op \<Rightarrow> ('a \<Rightarrow> ('s, 'b) op) \<Rightarrow> ('s, 'b) op" where
  "bindS m f s = (case m s of (Inl e, t) \<Rightarrow> (Inl e, t) | (Inr x, t) \<Rightarrow> f x t)"

definition thenS :: "('s, 'a) op \<Rightarrow> ('s, 'b) op \<Rightarrow> ('s, 'b) op" where
  "thenS m k = bindS m (\<lambda>_. k)"

definition getsS :: "('s \<Rightarrow> 'a) \<Rightarrow> ('s, 'a) op" where
  "getsS f s = (Inr (f s), s)"

definition modifyS :: "('s \<Rightarrow> 's) \<Rightarrow> ('s, unit) op" where
  "modifyS g s = (Inr (), g s)"

definition liftE :: "'a res \<Rightarrow> ('s, 'a) op" where
  "liftE r s = (r, s)"

definition catchS :: "('s, 'a) op \<Rightarrow> (error \<Rightarrow> ('s, 'a) op) \<Rightarrow> ('s, 'a) op" where
  "catchS m h s = (case m s of (Inl e, t) \<Rightarrow> h e t | (Inr x, t) \<Rightarrow> (Inr x, t))"

fun for_each :: "'x list \<Rightarrow> ('x \<Rightarrow> ('s, unit) op) \<Rightarrow> ('s, unit) op" where
  "for_each [] body = returnS ()"
| "for_each (x # xs) body = thenS (body x) (for_each xs body)"

fun mapS :: "('x \<Rightarrow> ('s, 'a) op) \<Rightarrow> 'x list \<Rightarrow> ('s, 'a list) op" where
  "mapS f [] = returnS []"
| "mapS f (x # xs) = bindS (f x) (\<lambda>y. bindS (mapS f xs) (\<lambda>ys. returnS (y # ys)))"

lemmas op_simps = returnS_def throwS_def bindS_def thenS_def getsS_def modifyS_def liftE_def catchS_def

lemma checks_Inr_iff: "checks cs = Inr () \<longleftrightarrow> (\<forall>c \<in> set cs. c = Inr ())"
  by (induction cs rule: checks.induct) auto

lemma checks_cases: "checks cs = Inr () \<or> (\<exists>e. checks cs = Inl e \<and> Inl e \<in> set cs)"
  by (induction cs rule: checks.induct) auto

lemma throw_if_Inr [simp]: "throw_if bad e = Inr () \<longleftrightarrow> \<not> bad"
  by (simp add: throw_if_def)

lemma throw_if_Inl [simp]: "throw_if bad e = Inl e' \<longleftrightarrow> bad \<and> e' = e"
  by (auto simp: throw_if_def)

lemma bindE_Inr_iff: "bindE r f = Inr y \<longleftrightarrow> (\<exists>x. r = Inr x \<and> f x = Inr y)"
  by (cases r) auto

lemma bindS_Inr_iff:
  "bindS m f s = (Inr y, u) \<longleftrightarrow> (\<exists>x t. m s = (Inr x, t) \<and> f x t = (Inr y, u))"
  by (auto simp: bindS_def split: prod.splits sum.splits)

lemma bindS_Inr: "m s = (Inr x, t) \<Longrightarrow> bindS m f s = f x t"
  by (simp add: bindS_def)

lemma bindS_Inl: "m s = (Inl e, t) \<Longrightarrow> bindS m f s = (Inl e, t)"
  by (simp add: bindS_def)

lemma bindS_cases:
  obtains (throws) e t where "m s = (Inl e, t)" "bindS m f s = (Inl e, t)"
  | (returns) x t where "m s = (Inr x, t)" "bindS m f s = f x t"
  by (cases "m s"; cases "fst (m s)") (auto simp: bindS_def)

lemma returnS_apply [simp]: "returnS x s = (Inr x, s)"
  by (simp add: returnS_def)

lemma throwS_apply [simp]: "throwS e s = (Inl e, s)"
  by (simp add: throwS_def)

lemma getsS_apply [simp]: "getsS f s = (Inr (f s), s)"
  by (simp add: getsS_def)

lemma modifyS_apply [simp]: "modifyS g s = (Inr (), g s)"
  by (simp add: modifyS_def)

lemma liftE_apply [simp]: "liftE r s = (r, s)"
  by (simp add: liftE_def)

section \<open>Two-state properties of operations\<close>

definition keeps :: "('s \<Rightarrow> 's \<Rightarrow> bool) \<Rightarrow> ('s, 'a) op \<Rightarrow> bool" where
  "keeps R m \<longleftrightarrow> (\<forall>s. R s (snd (m s)))"

lemma keepsI: "(\<And>s. R s (snd (m s))) \<Longrightarrow> keeps R m"
  by (simp add: keeps_def)

lemma keepsD: "keeps R m \<Longrightarrow> m s = (r, t) \<Longrightarrow> R s t"
  by (metis keeps_def snd_conv)

text \<open>
  The interface between a component's frame condition and the code that calls it: any
  reflexive and transitive relation between the states before and after a call.
\<close>

locale evolution =
  fixes R :: "'s \<Rightarrow> 's \<Rightarrow> bool"
  assumes refl: "R s s"
    and trans: "R s t \<Longrightarrow> R t u \<Longrightarrow> R s u"
begin

lemma keeps_returnS: "keeps R (returnS x)"
  by (simp add: keeps_def refl)

lemma keeps_throwS: "keeps R (throwS e)"
  by (simp add: keeps_def refl)

lemma keeps_getsS: "keeps R (getsS f)"
  by (simp add: keeps_def refl)

lemma keeps_liftE: "keeps R (liftE r)"
  by (simp add: keeps_def refl)

lemma keeps_bindS:
  assumes m: "keeps R m" and f: "\<And>x. keeps R (f x)"
  shows "keeps R (bindS m f)"
proof (rule keepsI)
  fix s
  obtain r t where ms: "m s = (r, t)" by fastforce
  from m ms have st: "R s t" by (rule keepsD)
  show "R s (snd (bindS m f s))"
  proof (cases r)
    case (Inl e)
    with ms st show ?thesis by (simp add: bindS_def)
  next
    case (Inr x)
    have "R t (snd (f x t))" using f by (simp add: keeps_def)
    with st have "R s (snd (f x t))" by (rule trans)
    with ms Inr show ?thesis by (simp add: bindS_def)
  qed
qed

lemma keeps_thenS: "keeps R m \<Longrightarrow> keeps R k \<Longrightarrow> keeps R (thenS m k)"
  by (simp add: thenS_def keeps_bindS)

lemma keeps_catchS:
  assumes m: "keeps R m" and h: "\<And>e. keeps R (h e)"
  shows "keeps R (catchS m h)"
proof (rule keepsI)
  fix s
  obtain r t where ms: "m s = (r, t)" by fastforce
  from m ms have st: "R s t" by (rule keepsD)
  show "R s (snd (catchS m h s))"
  proof (cases r)
    case (Inl e)
    have "R t (snd (h e t))" using h by (simp add: keeps_def)
    with st have "R s (snd (h e t))" by (rule trans)
    with ms Inl show ?thesis by (simp add: catchS_def)
  next
    case (Inr x)
    with ms st show ?thesis by (simp add: catchS_def)
  qed
qed

lemma keeps_for_each: "(\<And>x. x \<in> set xs \<Longrightarrow> keeps R (body x)) \<Longrightarrow> keeps R (for_each xs body)"
  by (induction xs) (auto intro: keeps_returnS keeps_thenS)

lemma keeps_mapS: "(\<And>x. x \<in> set xs \<Longrightarrow> keeps R (f x)) \<Longrightarrow> keeps R (mapS f xs)"
  by (induction xs) (auto intro!: keeps_returnS keeps_bindS)

lemma keeps_if: "keeps R m \<Longrightarrow> keeps R k \<Longrightarrow> keeps R (if b then m else k)"
  by simp

lemma keeps_case_option:
  "keeps R m \<Longrightarrow> (\<And>x. keeps R (f x)) \<Longrightarrow> keeps R (case v of None \<Rightarrow> m | Some x \<Rightarrow> f x)"
  by (cases v) auto

lemmas keeps_intros = keeps_returnS keeps_throwS keeps_getsS keeps_liftE keeps_bindS keeps_thenS
  keeps_catchS keeps_for_each keeps_mapS keeps_if keeps_case_option

end

section \<open>JavaScript maps, sorting and text\<close>

text \<open>
  A JavaScript \<open>Map\<close> (and a plain object) keeps insertion order; setting an existing key
  replaces the value in place. That is the library's \<open>AList.update\<close> on an association
  list with distinct keys. \<open>spread a b\<close> is \<open>{...a, ...b}\<close>.
\<close>

abbreviation map_set :: "'k \<Rightarrow> 'v \<Rightarrow> ('k \<times> 'v) list \<Rightarrow> ('k \<times> 'v) list" where
  "map_set \<equiv> AList.update"

definition spread :: "('k \<times> 'v) list \<Rightarrow> ('k \<times> 'v) list \<Rightarrow> ('k \<times> 'v) list" where
  "spread a b = foldl (\<lambda>m (k, v). map_set k v m) a b"

lemma keys_map_set: "fst ` set (map_set k v m) = insert k (fst ` set m)"
  by (induction m) auto

lemma distinct_map_set: "distinct (map fst m) \<Longrightarrow> distinct (map fst (map_set k v m))"
  by (simp add: AList.distinct_update)

lemma spread_conv: "map_of (spread a b) = map_of a ++ map_of (rev b)"
proof (induction b arbitrary: a)
  case Nil
  then show ?case by (simp add: spread_def)
next
  case (Cons p b)
  obtain k v where p: "p = (k, v)" by fastforce
  have "map_of (spread a (p # b)) = map_of (map_set k v a) ++ map_of (rev b)"
    using Cons.IH [of "map_set k v a"] by (simp add: spread_def p)
  then show ?case by (simp add: p AList.update_conv' map_add_upd_left)
qed

lemma spread_Nil [simp]: "spread a [] = a"
  by (simp add: spread_def)

text \<open>
  \<open>Array.prototype.sort\<close> with a comparison function is stable; only the sign of the
  comparison matters.
\<close>

fun js_insert :: "('a \<Rightarrow> 'a \<Rightarrow> int) \<Rightarrow> 'a \<Rightarrow> 'a list \<Rightarrow> 'a list" where
  "js_insert cmp x [] = [x]"
| "js_insert cmp x (y # ys) = (if cmp x y \<le> 0 then x # y # ys else y # js_insert cmp x ys)"

definition js_sort :: "('a \<Rightarrow> 'a \<Rightarrow> int) \<Rightarrow> 'a list \<Rightarrow> 'a list" where
  "js_sort cmp xs = foldr (js_insert cmp) xs []"

lemma set_js_insert [simp]: "set (js_insert cmp x ys) = insert x (set ys)"
  by (induction ys) auto

lemma set_js_sort [simp]: "set (js_sort cmp xs) = set xs"
  by (induction xs) (auto simp: js_sort_def)

lemma length_js_insert [simp]: "length (js_insert cmp x ys) = Suc (length ys)"
  by (induction ys) auto

lemma length_js_sort [simp]: "length (js_sort cmp xs) = length xs"
  by (induction xs) (auto simp: js_sort_def)

lemma js_sort_empty_iff [simp]: "js_sort cmp xs = [] \<longleftrightarrow> xs = []"
  by (metis length_0_conv length_js_sort)

lemma distinct_js_insert: "distinct (js_insert cmp x ys) \<longleftrightarrow> x \<notin> set ys \<and> distinct ys"
  by (induction ys) auto

lemma distinct_js_sort [simp]: "distinct (js_sort cmp xs) \<longleftrightarrow> distinct xs"
proof (induction xs)
  case Nil
  show ?case by (simp add: js_sort_def)
next
  case (Cons x xs)
  have "js_sort cmp (x # xs) = js_insert cmp x (js_sort cmp xs)"
    by (simp add: js_sort_def)
  with Cons show ?case by (simp add: distinct_js_insert)
qed

text \<open>\<open>Array.prototype.find\<close> and \<open>findIndex\<close>.\<close>

fun js_find :: "('a \<Rightarrow> bool) \<Rightarrow> 'a list \<Rightarrow> 'a option" where
  "js_find p [] = None"
| "js_find p (x # xs) = (if p x then Some x else js_find p xs)"

lemma js_find_Some: "js_find p xs = Some x \<Longrightarrow> x \<in> set xs \<and> p x"
  by (induction xs) (auto split: if_splits)

lemma js_find_None: "js_find p xs = None \<longleftrightarrow> (\<forall>x \<in> set xs. \<not> p x)"
  by (induction xs) auto

lemma js_find_unique:
  "distinct (map k xs) \<Longrightarrow> x \<in> set xs \<Longrightarrow> js_find (\<lambda>y. k y = k x) xs = Some x"
  by (induction xs) (auto simp: image_iff)

text \<open>\<open>[...new Set(xs)]\<close>: the first occurrence of each value stays.\<close>

definition js_unique :: "'a list \<Rightarrow> 'a list" where
  "js_unique xs = rev (remdups (rev xs))"

lemma set_js_unique [simp]: "set (js_unique xs) = set xs"
  by (simp add: js_unique_def)

lemma distinct_js_unique [simp]: "distinct (js_unique xs)"
  by (simp add: js_unique_def)

text \<open>White space and line terminators as \<open>String.prototype.trim\<close> strips them.\<close>

definition js_space :: "char \<Rightarrow> bool" where
  "js_space c \<longleftrightarrow> c \<in> {CHR 0x09, CHR 0x0A, CHR 0x0B, CHR 0x0C, CHR 0x0D, CHR 0x20, CHR 0xA0}"

definition js_trim :: "string \<Rightarrow> string" where
  "js_trim s = rev (dropWhile js_space (rev (dropWhile js_space s)))"

lemma js_trim_empty_iff: "js_trim s = [] \<longleftrightarrow> (\<forall>c \<in> set s. js_space c)"
proof
  assume trim: "js_trim s = []"
  show "\<forall>c \<in> set s. js_space c"
  proof (rule ccontr)
    assume "\<not> (\<forall>c \<in> set s. js_space c)"
    then have ne: "dropWhile js_space s \<noteq> []" by simp
    then have "\<not> js_space (hd (dropWhile js_space s))" by (rule hd_dropWhile)
    moreover have "hd (dropWhile js_space s) \<in> set (rev (dropWhile js_space s))"
      using ne by simp
    moreover have "\<forall>c \<in> set (rev (dropWhile js_space s)). js_space c"
      using trim unfolding js_trim_def rev_is_Nil_conv dropWhile_eq_Nil_conv .
    ultimately show False by blast
  qed
next
  assume "\<forall>c \<in> set s. js_space c"
  then have "dropWhile js_space s = []" by simp
  then show "js_trim s = []" by (simp only: js_trim_def dropWhile.simps rev.simps)
qed

fun js_startsWith :: "string \<Rightarrow> string \<Rightarrow> bool" where
  "js_startsWith s [] = True"
| "js_startsWith [] (c # cs) = False"
| "js_startsWith (d # ds) (c # cs) = (d = c \<and> js_startsWith ds cs)"

lemma js_startsWith_iff: "js_startsWith s p \<longleftrightarrow> (\<exists>t. s = p @ t)"
  by (induction s p rule: js_startsWith.induct) auto

fun js_join :: "string \<Rightarrow> string list \<Rightarrow> string" where
  "js_join sep [] = ''''"
| "js_join sep [x] = x"
| "js_join sep (x # y # zs) = x @ sep @ js_join sep (y # zs)"

text \<open>\<open>Number.prototype.toString(base)\<close> on natural numbers.\<close>

definition digit :: "nat \<Rightarrow> char" where
  "digit d = ''0123456789abcdefghijklmnopqrstuvwxyz'' ! d"

fun to_base :: "nat \<Rightarrow> nat \<Rightarrow> string" where
  "to_base b n = (if n < b \<or> b < 2 then [digit n] else to_base b (n div b) @ [digit (n mod b)])"

declare to_base.simps [simp del]

definition show_nat :: "nat \<Rightarrow> string" where
  "show_nat n = to_base 10 n"

definition show_int :: "int \<Rightarrow> string" where
  "show_int i = (if i < 0 then ''-'' @ show_nat (nat (- i)) else show_nat (nat i))"

lemma digit_inj: "m < 36 \<Longrightarrow> n < 36 \<Longrightarrow> digit m = digit n \<Longrightarrow> m = n"
proof -
  assume m: "m < 36" and n: "n < 36" and eq: "digit m = digit n"
  let ?ds = "''0123456789abcdefghijklmnopqrstuvwxyz''"
  have "distinct ?ds" and "length ?ds = 36" by simp_all
  with m n eq show ?thesis
    unfolding digit_def by (metis nth_eq_iff_index_eq)
qed

lemma to_base_not_Nil [simp]: "to_base b n \<noteq> []" "[] \<noteq> to_base b n"
  by (subst to_base.simps; simp)+

lemma to_base_inj:
  assumes b: "2 \<le> b" "b \<le> 36"
  shows "to_base b m = to_base b n \<Longrightarrow> m = n"
  using b
proof (induction b m arbitrary: n rule: to_base.induct)
  case (1 b m)
  have m: "to_base b m = (if m < b then [digit m] else to_base b (m div b) @ [digit (m mod b)])"
    and n: "to_base b n = (if n < b then [digit n] else to_base b (n div b) @ [digit (n mod b)])"
    using "1.prems"(2) by (simp_all add: to_base.simps [of b m] to_base.simps [of b n])
  have small: "x mod b < 36" for x
    using "1.prems"(2,3) mod_less_divisor [of b x] by linarith
  show ?case
  proof (cases "m < b")
    case True
    with "1.prems"(1) m n have "n < b"
      by (auto split: if_splits)
    with True "1.prems" m n show ?thesis
      by (auto intro!: digit_inj)
  next
    case False
    with "1.prems"(1) m n have big: "\<not> n < b"
      by (auto split: if_splits)
    with False "1.prems"(1) m n have "to_base b (m div b) = to_base b (n div b)"
      and "digit (m mod b) = digit (n mod b)" by simp_all
    then have "m div b = n div b" and "m mod b = n mod b"
      using "1.IH" False "1.prems"(2,3) digit_inj [OF small small] by auto
    then show ?thesis by (metis div_mult_mod_eq)
  qed
qed

lemma show_nat_inj: "show_nat m = show_nat n \<longleftrightarrow> m = n"
  using to_base_inj [of 10 m n] by (auto simp: show_nat_def)

lemma digit_neq_underscore: "d < 36 \<Longrightarrow> digit d \<noteq> CHR ''_''"
proof -
  assume d: "d < 36"
  have "digit d \<in> set ''0123456789abcdefghijklmnopqrstuvwxyz''"
    unfolding digit_def using d by (intro nth_mem) simp
  then show ?thesis by auto
qed

lemma to_base_no_underscore: "b \<le> 36 \<Longrightarrow> 2 \<le> b \<Longrightarrow> CHR ''_'' \<notin> set (to_base b n)"
proof (induction b n rule: to_base.induct)
  case (1 b n)
  have "n mod b < 36" using "1.prems" mod_less_divisor [of b n] by linarith
  with 1 show ?case
    by (subst to_base.simps) (auto dest: digit_neq_underscore [THEN not_sym])
qed

end
