(* ===== verification/Shared.thy ===== *)
theory Shared
  imports Prelude
begin

text \<open>
  \<open>core/shared.ts\<close>: the process-wide identifier counter and the clock.

  The clock is not under the program's control: \<open>time_at n\<close> is the result of its
  \<open>n\<close>-th reading and \<open>ticks\<close> counts the readings. \<open>PROCESS_TAG\<close> is random per
  process and constant afterwards.
\<close>

record world =
  seq :: nat
  process_tag :: string
  ticks :: nat
  time_at :: "nat \<Rightarrow> timestamp"

definition createId :: "string \<Rightarrow> ('x world_scheme, string) op" where
  "createId prefix s =
     (let n = seq s + 1
      in (Inr (prefix @ ''_'' @ to_base 36 n @ ''_'' @ process_tag s), s\<lparr>seq := n\<rparr>))"

definition now :: "('x world_scheme, timestamp) op" where
  "now s = (Inr (time_at s (ticks s)), s\<lparr>ticks := Suc (ticks s)\<rparr>)"

text \<open>The id the counter value \<open>n\<close> yields.\<close>

definition id_of :: "string \<Rightarrow> string \<Rightarrow> nat \<Rightarrow> string" where
  "id_of prefix tag n = prefix @ ''_'' @ to_base 36 n @ ''_'' @ tag"

lemma createId_eq:
  "createId prefix s = (Inr (id_of prefix (process_tag s) (Suc (seq s))), s\<lparr>seq := Suc (seq s)\<rparr>)"
  by (simp add: createId_def id_of_def Let_def)

lemma id_of_inj: "id_of prefix tag m = id_of prefix tag n \<longleftrightarrow> m = n"
proof
  assume "id_of prefix tag m = id_of prefix tag n"
  then have "to_base 36 m = to_base 36 n" by (simp add: id_of_def)
  then show "m = n" by (rule to_base_inj [rotated 2]) simp_all
qed simp

lemma id_of_not_Nil: "id_of prefix tag n \<noteq> []"
  by (simp add: id_of_def)

text \<open>
  No key of a store is an id the counter has still to produce. It holds of a store that is
  empty, or filled by another process (another tag), or filled through \<open>createId\<close>.
\<close>

definition ids_fresh :: "string \<Rightarrow> string \<Rightarrow> nat \<Rightarrow> string set \<Rightarrow> bool" where
  "ids_fresh prefix tag n ks \<longleftrightarrow> (\<forall>m > n. id_of prefix tag m \<notin> ks)"

lemma ids_fresh_next: "ids_fresh prefix tag n ks \<Longrightarrow> id_of prefix tag (Suc n) \<notin> ks"
  by (simp add: ids_fresh_def)

lemma ids_fresh_insert:
  "ids_fresh prefix tag n ks \<Longrightarrow> ids_fresh prefix tag (Suc n) (insert (id_of prefix tag (Suc n)) ks)"
  by (auto simp: ids_fresh_def id_of_inj)

lemma ids_fresh_mono: "ids_fresh prefix tag n ks \<Longrightarrow> n \<le> m \<Longrightarrow> ids_fresh prefix tag m ks"
  by (auto simp: ids_fresh_def)

lemma ids_fresh_empty: "ids_fresh prefix tag n {}"
  by (simp add: ids_fresh_def)

end
