(* ===== verification/Contracts.thy ===== *)
theory Contracts
  imports Prelude
begin

text \<open>
  The data model and the pure validators of \<open>contracts/index.ts\<close>.

  String-literal unions are datatypes, interfaces are records, and an optional field
  \<open>f?: T\<close> has type \<open>T option\<close>. Values are typed as TypeScript types them, so a
  \<open>typeof\<close>, \<open>Array.isArray\<close> or \<open>isRecord\<close> test of a statically typed field is true
  by typing and has no counterpart; every other test of a validator is written out, in the
  order of the source, because the first failing one decides the message.
\<close>

section \<open>Enumerations\<close>

datatype Priority = Low | Normal | High | Critical

datatype Environment = Local | Test | Staging | Production

datatype PermissionAction =
  ARead | AWrite | AExecute | ADeploy | AExternalCommunication | ASecretAccess

datatype PermissionEffect = Allow | Deny

datatype TaskStatus =
    TCreated | TQueued | TRunning | TBlocked | TAwaitingApproval | TCompleted | TFailed | TCancelled

datatype HandoffStatus = HProposed | HAccepted | HRejected

datatype ApprovalStatus = Requested | Approved | Rejected | Expired

definition ENVIRONMENTS :: "Environment list" where
  "ENVIRONMENTS = [Local, Test, Staging, Production]"

definition PERMISSION_ACTIONS :: "PermissionAction list" where
  "PERMISSION_ACTIONS = [ARead, AWrite, AExecute, ADeploy, AExternalCommunication, ASecretAccess]"

definition TASK_STATUSES :: "TaskStatus list" where
  "TASK_STATUSES =
     [TCreated, TQueued, TRunning, TBlocked, TAwaitingApproval, TCompleted, TFailed, TCancelled]"

definition SOFTWARE_FACTORY_ENVIRONMENT_CODES :: "string list" where
  "SOFTWARE_FACTORY_ENVIRONMENT_CODES =
     [''none'', ''docker'', ''vs-code'', ''visual-studio'', ''android-studio'', ''xcode'', ''unity'', ''unreal'']"

fun priority_str :: "Priority \<Rightarrow> string" where
  "priority_str Low = ''low''"
| "priority_str Normal = ''normal''"
| "priority_str High = ''high''"
| "priority_str Critical = ''critical''"

fun environment_str :: "Environment \<Rightarrow> string" where
  "environment_str Local = ''local''"
| "environment_str Test = ''test''"
| "environment_str Staging = ''staging''"
| "environment_str Production = ''production''"

fun action_str :: "PermissionAction \<Rightarrow> string" where
  "action_str ARead = ''read''"
| "action_str AWrite = ''write''"
| "action_str AExecute = ''execute''"
| "action_str ADeploy = ''deploy''"
| "action_str AExternalCommunication = ''external_communication''"
| "action_str ASecretAccess = ''secret_access''"

fun task_status_str :: "TaskStatus \<Rightarrow> string" where
  "task_status_str TCreated = ''created''"
| "task_status_str TQueued = ''queued''"
| "task_status_str TRunning = ''running''"
| "task_status_str TBlocked = ''blocked''"
| "task_status_str TAwaitingApproval = ''awaiting_approval''"
| "task_status_str TCompleted = ''completed''"
| "task_status_str TFailed = ''failed''"
| "task_status_str TCancelled = ''cancelled''"

fun handoff_status_str :: "HandoffStatus \<Rightarrow> string" where
  "handoff_status_str HProposed = ''proposed''"
| "handoff_status_str HAccepted = ''accepted''"
| "handoff_status_str HRejected = ''rejected''"

fun approval_status_str :: "ApprovalStatus \<Rightarrow> string" where
  "approval_status_str Requested = ''requested''"
| "approval_status_str Approved = ''approved''"
| "approval_status_str Rejected = ''rejected''"
| "approval_status_str Expired = ''expired''"

lemma all_environments [simp]: "e \<in> set ENVIRONMENTS"
  by (cases e) (simp_all add: ENVIRONMENTS_def)

lemma all_actions [simp]: "a \<in> set PERMISSION_ACTIONS"
  by (cases a) (simp_all add: PERMISSION_ACTIONS_def)

section \<open>Records\<close>

record PermissionGrant =
  grant_effect :: PermissionEffect
  grant_action :: PermissionAction
  grant_agentId :: "string option"
  grant_projectId :: "string option"
  grant_toolId :: "string option"
  grant_environment :: "Environment option"
  grant_reason :: "string option"

record PermissionRequest =
  req_action :: PermissionAction
  req_agentId :: string
  req_projectId :: string
  req_toolId :: "string option"
  req_environment :: Environment

record PermissionDecision =
  allowed :: bool
  decision_reason :: string
  matched :: "PermissionGrant option"

record RequiredPermission =
  rp_action :: PermissionAction
  rp_toolId :: "string option"

record ModelPolicy =
  mp_provider :: "string option"
  mp_model :: "string option"
  mp_maxOutputTokens :: "int option"

record Agent =
  agent_id :: string
  agent_organizationId :: "string option"
  agent_workspaceId :: "string option"
  agent_name :: string
  agent_description :: string
  capabilities :: "string list"
  allowedTools :: "string list"
  allowedProjects :: "string list"
  supportedTaskTypes :: "string list"
  permissions :: "PermissionGrant list"
  modelPolicy :: "ModelPolicy option"
  agent_metadata :: "fields option"

record EnvironmentExecutionContext =
  ec_code :: string
  ec_instanceId :: string
  ec_hostId :: string
  ec_descriptorId :: "string option"

record AgentExecutionContext =
  ctx_environment :: "EnvironmentExecutionContext option"

record Task =
  task_id :: string
  task_type :: string
  task_description :: string
  task_projectId :: string
  assignedAgentId :: "string option"
  task_priority :: Priority
  task_status :: TaskStatus
  task_input :: json
  task_output :: json
  task_errors :: "string list"
  task_requiredPermissions :: "RequiredPermission list"
  task_approvalId :: "string option"
  task_createdAt :: timestamp
  task_updatedAt :: timestamp
  task_metadata :: fields
  task_programId :: "string option"
  task_workstreamId :: "string option"
  task_objective :: "string option"
  task_requirements :: "string list"
  task_dependencies :: "string list"
  task_requiredCapabilities :: "string list"
  task_environmentRequirements :: "string list"
  task_modelRequirements :: "fields option"
  task_completionCriteria :: "string list"
  task_riskClass :: "string option"
  task_executionContext :: "AgentExecutionContext option"

record TaskDraft =
  td_type :: string
  td_description :: string
  td_projectId :: string
  td_input :: json
  td_priority :: "Priority option"
  td_requiredPermissions :: "RequiredPermission list option"
  td_metadata :: "fields option"
  td_programId :: "string option"
  td_workstreamId :: "string option"
  td_objective :: "string option"
  td_requirements :: "string list option"
  td_dependencies :: "string list option"
  td_requiredCapabilities :: "string list option"
  td_environmentRequirements :: "string list option"
  td_modelRequirements :: "fields option"
  td_completionCriteria :: "string list option"
  td_riskClass :: "string option"
  td_executionContext :: "AgentExecutionContext option"

record DestinationQualification =
  dq_qualified :: bool
  dq_matchedCapabilities :: "string list"
  dq_missingCapabilities :: "string list"
  dq_reasonCodes :: "string list"
  dq_descriptorVersion :: int
  dq_evaluatedAt :: timestamp

record Handoff =
  handoff_id :: string
  handoff_taskId :: string
  handoff_projectId :: "string option"
  sourceAgentId :: string
  destinationAgentId :: string
  handoff_status :: HandoffStatus
  handoff_context :: fields
  completedWork :: string
  remainingWork :: string
  acceptanceCriteria :: "string list"
  artifacts :: "string list"
  risks :: "string list"
  handoff_requiredCapabilities :: "string list option"
  sourceAssignmentId :: "string option"
  destinationQualification :: "DestinationQualification option"
  acceptedBy :: "string option"
  handoff_createdAt :: timestamp
  resolvedAt :: "timestamp option"
  resolution :: "string option"

record HandoffDraft =
  hd_taskId :: string
  hd_projectId :: "string option"
  hd_sourceAgentId :: string
  hd_destinationAgentId :: string
  hd_context :: "fields option"
  hd_completedWork :: string
  hd_remainingWork :: string
  hd_acceptanceCriteria :: "string list"
  hd_artifacts :: "string list option"
  hd_risks :: "string list option"
  hd_requiredCapabilities :: "string list option"
  hd_sourceAssignmentId :: "string option"

record Approval =
  approval_id :: string
  approval_action :: string
  requestedBy :: string
  approval_reason :: string
  approval_status :: ApprovalStatus
  requestedAt :: timestamp
  decidedBy :: "string option"
  decidedAt :: "timestamp option"
  expiresAt :: "timestamp option"
  decisionMetadata :: fields

record ApprovalRequestDraft =
  ad_action :: string
  ad_requestedBy :: string
  ad_reason :: string
  ad_expiresAt :: "timestamp option"
  ad_metadata :: "fields option"

record ApprovalRequirement =
  ar_required :: bool
  ar_action :: "string option"
  ar_reason :: "string option"
  ar_expiresAt :: "timestamp option"

record AuditEvent =
  ev_id :: string
  ev_type :: string
  ev_timestamp :: timestamp
  ev_taskId :: "string option"
  ev_agentId :: "string option"
  ev_projectId :: "string option"
  ev_data :: fields

record AuditEventFields =
  af_taskId :: "string option"
  af_agentId :: "string option"
  af_projectId :: "string option"
  af_data :: fields

section \<open>Validators\<close>

text \<open>\<open>v ?? d\<close> and the empty-string falsiness tests of JavaScript on optional strings.\<close>

definition or_else :: "'a option \<Rightarrow> 'a \<Rightarrow> 'a" where
  "or_else v d = (case v of None \<Rightarrow> d | Some x \<Rightarrow> x)"

lemma or_else_simps [simp]: "or_else None d = d" "or_else (Some x) d = x"
  by (simp_all add: or_else_def)

definition truthy :: "string option \<Rightarrow> bool" where
  "truthy v = (case v of None \<Rightarrow> False | Some s \<Rightarrow> s \<noteq> [])"

lemma truthy_simps [simp]: "\<not> truthy None" "truthy (Some s) \<longleftrightarrow> s \<noteq> []"
  by (simp_all add: truthy_def)

text \<open>\<open>v !== undefined && p(v)\<close>.\<close>

definition defined_and :: "('a \<Rightarrow> bool) \<Rightarrow> 'a option \<Rightarrow> bool" where
  "defined_and p v = (case v of None \<Rightarrow> False | Some x \<Rightarrow> p x)"

lemma defined_and_simps [simp]: "\<not> defined_and p None" "defined_and p (Some x) \<longleftrightarrow> p x"
  by (simp_all add: defined_and_def)

definition json_or_null :: "json \<Rightarrow> json" where
  "json_or_null v = (if v = JUndefined then JNull else v)"

definition jstr_opt :: "string option \<Rightarrow> json" where
  "jstr_opt v = (case v of None \<Rightarrow> JUndefined | Some s \<Rightarrow> JStr s)"

definition jstrs :: "string list \<Rightarrow> json" where
  "jstrs xs = JArr (map JStr xs)"

definition requireText :: "string \<Rightarrow> string \<Rightarrow> unit res" where
  "requireText v field = throw_if (js_trim v = []) (ValidationError (field @ '' is required''))"

text \<open>\<open>requireText\<close> on a value of type \<open>string | undefined\<close>.\<close>

definition requireText_opt :: "string option \<Rightarrow> string \<Rightarrow> unit res" where
  "requireText_opt v field = (case v of None \<Rightarrow> Inl (ValidationError (field @ '' is required''))
     | Some s \<Rightarrow> requireText s field)"

definition check_all :: "('a \<Rightarrow> unit res) \<Rightarrow> 'a list \<Rightarrow> unit res" where
  "check_all f xs = checks (map f xs)"

definition check_indexed :: "(nat \<Rightarrow> 'a \<Rightarrow> unit res) \<Rightarrow> 'a list \<Rightarrow> unit res" where
  "check_indexed f xs = checks (map (\<lambda>(i, x). f i x) (enumerate 0 xs))"

lemma requireText_Inr [simp]: "requireText v field = Inr () \<longleftrightarrow> js_trim v \<noteq> []"
  by (simp add: requireText_def)

lemma check_all_Inr [simp]: "check_all f xs = Inr () \<longleftrightarrow> (\<forall>x \<in> set xs. f x = Inr ())"
  by (simp add: check_all_def checks_Inr_iff)

lemma check_indexed_Inr [simp]:
  "check_indexed f xs = Inr () \<longleftrightarrow> (\<forall>i < length xs. f i (xs ! i) = Inr ())"
proof -
  have "(\<forall>c \<in> set (enumerate 0 xs). (case c of (i, x) \<Rightarrow> f i x) = Inr ()) \<longleftrightarrow>
      (\<forall>i < length xs. f i (xs ! i) = Inr ())"
    by (simp add: all_set_conv_all_nth nth_enumerate_eq)
  then show ?thesis by (simp add: check_indexed_def checks_Inr_iff)
qed

definition validatePermissionGrant :: "PermissionGrant \<Rightarrow> string \<Rightarrow> unit res" where
  "validatePermissionGrant g field = checks
     [throw_if (grant_effect g \<noteq> Allow \<and> grant_effect g \<noteq> Deny)
        (ValidationError (field @ ''.effect must be \"allow\" or \"deny\"'')),
      throw_if (grant_action g \<notin> set PERMISSION_ACTIONS)
        (ValidationError (field @ ''.action is not a known permission action''))]"

definition validateAgent :: "'x Agent_scheme \<Rightarrow> unit res" where
  "validateAgent a = checks
     [requireText (agent_id a) ''agent.id'',
      requireText (agent_name a) ''agent.name'',
      requireText (agent_description a) ''agent.description'',
      throw_if (length (capabilities a) = 0) (ValidationError ''agent.capabilities must not be empty''),
      check_indexed (\<lambda>i g. validatePermissionGrant g (''agent.permissions['' @ show_nat i @ '']''))
        (permissions a)]"

definition noBlankEntries :: "string list option \<Rightarrow> string \<Rightarrow> unit res" where
  "noBlankEntries v field = (case v of None \<Rightarrow> Inr ()
     | Some entries \<Rightarrow> check_all (\<lambda>entry. throw_if (js_trim entry = [])
         (ValidationError (''task.'' @ field @ '' must not contain blank values''))) entries)"

definition validateTaskDraft :: "TaskDraft \<Rightarrow> unit res" where
  "validateTaskDraft d = checks
     [requireText (td_type d) ''task.type'',
      requireText (td_description d) ''task.description'',
      requireText (td_projectId d) ''task.projectId'',
      throw_if (defined_and (\<lambda>p. p \<notin> {Low, Normal, High, Critical}) (td_priority d))
        (ValidationError ''task.priority must be a known priority''),
      noBlankEntries (td_dependencies d) ''dependencies'',
      noBlankEntries (td_requirements d) ''requirements'',
      noBlankEntries (td_requiredCapabilities d) ''requiredCapabilities'',
      noBlankEntries (td_environmentRequirements d) ''environmentRequirements'',
      noBlankEntries (td_completionCriteria d) ''completionCriteria'',
      check_all (\<lambda>code. throw_if (code \<notin> set SOFTWARE_FACTORY_ENVIRONMENT_CODES)
          (ValidationError (''task.environmentRequirements contains unknown code: '' @ code)))
        (or_else (td_environmentRequirements d) []),
      check_all (\<lambda>p. checks
          [throw_if (rp_action p \<notin> set PERMISSION_ACTIONS)
             (ValidationError ''task.requiredPermissions contains an unknown action''),
           (case rp_toolId p of None \<Rightarrow> Inr ()
            | Some t \<Rightarrow> requireText t ''task.requiredPermissions.toolId'')])
        (or_else (td_requiredPermissions d) [])]"

definition js_alnum :: "char \<Rightarrow> bool" where
  "js_alnum c = (let n = (of_char c :: nat) in
     (48 \<le> n \<and> n \<le> 57) \<or> (65 \<le> n \<and> n \<le> 90) \<or> (97 \<le> n \<and> n \<le> 122))"

text \<open>\<open>/^[A-Za-z0-9][A-Za-z0-9<extra>]*$/\<close>.\<close>

definition ident_pattern :: "string \<Rightarrow> string \<Rightarrow> bool" where
  "ident_pattern extra s = (case s of [] \<Rightarrow> False
     | c # cs \<Rightarrow> js_alnum c \<and> list_all (\<lambda>d. js_alnum d \<or> d \<in> set extra) cs)"

definition FORBIDDEN_RESOURCE_KEYS :: "string list" where
  "FORBIDDEN_RESOURCE_KEYS = [''__proto__'', ''constructor'', ''prototype'']"

definition isSafeResourceId :: "string \<Rightarrow> bool" where
  "isSafeResourceId v \<longleftrightarrow> length v > 0 \<and> length v \<le> 64 \<and>
     v \<notin> set FORBIDDEN_RESOURCE_KEYS \<and> ident_pattern ''._-'' v"

definition validateHandoffDraft :: "HandoffDraft \<Rightarrow> unit res" where
  "validateHandoffDraft d = checks
     [requireText (hd_taskId d) ''handoff.taskId'',
      requireText (hd_sourceAgentId d) ''handoff.sourceAgentId'',
      requireText (hd_destinationAgentId d) ''handoff.destinationAgentId'',
      requireText (hd_completedWork d) ''handoff.completedWork'',
      requireText (hd_remainingWork d) ''handoff.remainingWork'',
      throw_if (hd_sourceAgentId d = hd_destinationAgentId d)
        (ValidationError ''handoff source and destination agents must differ''),
      throw_if (length (hd_acceptanceCriteria d) = 0)
        (ValidationError ''handoff.acceptanceCriteria must not be empty''),
      throw_if (defined_and (\<lambda>p. \<not> isSafeResourceId p) (hd_projectId d))
        (ValidationError ''handoff.projectId is invalid''),
      check_all (\<lambda>c. requireText c ''handoff.requiredCapabilities entry'')
        (or_else (hd_requiredCapabilities d) []),
      throw_if (defined_and (\<lambda>a. \<not> isSafeResourceId a) (hd_sourceAssignmentId d))
        (ValidationError ''handoff.sourceAssignmentId is invalid'')]"

definition validateApprovalRequest :: "ApprovalRequestDraft \<Rightarrow> unit res" where
  "validateApprovalRequest d = checks
     [requireText (ad_action d) ''approval.action'',
      requireText (ad_requestedBy d) ''approval.requestedBy'',
      requireText (ad_reason d) ''approval.reason'']"

text \<open>What an accepted handoff draft satisfies.\<close>

lemma validateHandoffDraft_InrD:
  assumes "validateHandoffDraft d = Inr ()"
  shows "hd_sourceAgentId d \<noteq> hd_destinationAgentId d" "hd_acceptanceCriteria d \<noteq> []"
    "js_trim (hd_taskId d) \<noteq> []"
    "hd_projectId d = Some p \<Longrightarrow> isSafeResourceId p"
  using assms by (auto simp: validateHandoffDraft_def checks_Inr_iff)

lemma validateTaskDraft_InrD:
  assumes "validateTaskDraft d = Inr ()"
  shows "js_trim (td_type d) \<noteq> []" "js_trim (td_projectId d) \<noteq> []"
    "c \<in> set (or_else (td_environmentRequirements d) []) \<Longrightarrow> c \<in> set SOFTWARE_FACTORY_ENVIRONMENT_CODES"
  using assms by (auto simp: validateTaskDraft_def checks_Inr_iff)

end
