(* ===== verification/Repository.thy ===== *)
theory Repository
  imports Prelude
begin

text \<open>
  The persistence layer: \<open>contracts/persistence.ts\<close>,
  \<open>core/persistence/in-memory-repository.ts\<close> and
  \<open>core/persistence/cached-repository.ts\<close>.

  \<^item> \<open>repository\<close> is the \<open>Repository<T>\<close> interface: its operations and the laws the core
    systems rely on.
  \<^item> \<open>mem_*\<close> is \<open>InMemoryRepository\<close>: an insertion-ordered map. Structured-clone copies
    are the identity on the model's immutable values.
  \<^item> \<open>cached_*\<close> is \<open>CachedRepository\<close>: reads from memory, writes queued to an
    asynchronous backing store. The backing store is code outside the core; it appears as
    the map it holds, under the documented meaning of \<open>AsyncRepository\<close>.
\<close>

section \<open>The interface\<close>

locale repository =
  fixes key :: "'e \<Rightarrow> string"
    and inv :: "'r \<Rightarrow> bool"
    and upsert :: "'e \<Rightarrow> 'r \<Rightarrow> 'r"
    and findById :: "string \<Rightarrow> 'r \<Rightarrow> 'e option"
    and list :: "'r \<Rightarrow> 'e list"
    and delete :: "string \<Rightarrow> 'r \<Rightarrow> bool \<times> 'r"
    and clear :: "'r \<Rightarrow> 'r"
  assumes inv_upsert: "inv r \<Longrightarrow> inv (upsert e r)"
    and inv_delete: "inv r \<Longrightarrow> inv (snd (delete i r))"
    and inv_clear: "inv r \<Longrightarrow> inv (clear r)"
    and find_upsert: "inv r \<Longrightarrow> findById i (upsert e r) = (if i = key e then Some e else findById i r)"
    and find_delete: "inv r \<Longrightarrow> findById i (snd (delete j r)) = (if i = j then None else findById i r)"
    and delete_existed: "inv r \<Longrightarrow> fst (delete j r) \<longleftrightarrow> findById j r \<noteq> None"
    and find_clear: "inv r \<Longrightarrow> findById i (clear r) = None"
    and find_key: "inv r \<Longrightarrow> findById i r = Some e \<Longrightarrow> key e = i"
    and list_find: "inv r \<Longrightarrow> e \<in> set (list r) \<longleftrightarrow> findById (key e) r = Some e"
    and list_distinct: "inv r \<Longrightarrow> distinct (map key (list r))"
    and list_order: "inv r \<Longrightarrow> map key (list (upsert e r)) =
          (if findById (key e) r = None then map key (list r) @ [key e] else map key (list r))"
begin

lemma find_upsert_same: "inv r \<Longrightarrow> findById (key e) (upsert e r) = Some e"
  by (simp add: find_upsert)

lemma find_upsert_other: "inv r \<Longrightarrow> i \<noteq> key e \<Longrightarrow> findById i (upsert e r) = findById i r"
  by (simp add: find_upsert)

lemma list_upsert_set:
  assumes r: "inv r"
  shows "set (list (upsert e r)) = insert e {x \<in> set (list r). key x \<noteq> key e}"
  using r inv_upsert [OF r, of e] by (auto simp: list_find find_upsert split: if_splits)

lemma list_delete_set:
  assumes r: "inv r"
  shows "set (list (snd (delete i r))) = {x \<in> set (list r). key x \<noteq> i}"
  using r inv_delete [OF r, of i] by (auto simp: list_find find_delete split: if_splits)

lemma list_clear: "inv r \<Longrightarrow> list (clear r) = []"
proof -
  assume r: "inv r"
  have "e \<notin> set (list (clear r))" for e
    using list_find [OF inv_clear [OF r], of e] find_clear [OF r] by simp
  then show ?thesis by (cases "list (clear r)") auto
qed

lemma find_in_list: "inv r \<Longrightarrow> findById i r = Some e \<Longrightarrow> e \<in> set (list r)"
  using find_key list_find by blast

lemma length_upsert:
  assumes r: "inv r"
  shows "length (list (upsert e r)) =
    (if findById (key e) r = None then Suc (length (list r)) else length (list r))"
proof -
  have "length (list (upsert e r)) = length (map key (list (upsert e r)))" by simp
  with list_order [OF r, of e] show ?thesis by simp
qed

end

section \<open>In-memory repository\<close>

type_synonym 'e repo = "(string \<times> 'e) list"

definition mem_upsert :: "('e \<Rightarrow> string) \<Rightarrow> 'e \<Rightarrow> 'e repo \<Rightarrow> 'e repo" where
  "mem_upsert key e r = map_set (key e) e r"

definition mem_findById :: "string \<Rightarrow> 'e repo \<Rightarrow> 'e option" where
  "mem_findById i r = map_of r i"

definition mem_list :: "'e repo \<Rightarrow> 'e list" where
  "mem_list r = map snd r"

definition mem_delete :: "string \<Rightarrow> 'e repo \<Rightarrow> bool \<times> 'e repo" where
  "mem_delete i r = (map_of r i \<noteq> None, AList.delete i r)"

definition mem_clear :: "'e repo \<Rightarrow> 'e repo" where
  "mem_clear r = []"

text \<open>Keys are distinct and every entity is stored under its own id.\<close>

definition repo_ok :: "('e \<Rightarrow> string) \<Rightarrow> 'e repo \<Rightarrow> bool" where
  "repo_ok key r \<longleftrightarrow> distinct (map fst r) \<and> (\<forall>(k, v) \<in> set r. key v = k)"

lemma repo_ok_Nil [simp]: "repo_ok key []"
  by (simp add: repo_ok_def)

lemma set_map_set_subset: "set (map_set k v r) \<subseteq> insert (k, v) (set r)"
  by (induction r) auto

lemma repo_ok_upsert: "repo_ok key r \<Longrightarrow> repo_ok key (mem_upsert key e r)"
  using set_map_set_subset [of "key e" e r]
  by (auto simp: repo_ok_def mem_upsert_def AList.distinct_update)

lemma repo_ok_delete: "repo_ok key r \<Longrightarrow> repo_ok key (snd (mem_delete i r))"
  by (auto simp: repo_ok_def mem_delete_def AList.delete_eq distinct_map_filter split: prod.splits)

lemma mem_find_key: "repo_ok key r \<Longrightarrow> mem_findById i r = Some e \<Longrightarrow> key e = i"
  by (auto simp: repo_ok_def mem_findById_def dest: map_of_SomeD)

lemma mem_find_upsert [simp]:
  "mem_findById i (mem_upsert key e r) = (if i = key e then Some e else mem_findById i r)"
  by (simp add: mem_findById_def mem_upsert_def AList.update_conv')

lemma mem_list_find:
  assumes "repo_ok key r"
  shows "e \<in> set (mem_list r) \<longleftrightarrow> mem_findById (key e) r = Some e"
  using assms by (force simp: repo_ok_def mem_list_def mem_findById_def)

lemma mem_keys: "repo_ok key r \<Longrightarrow> map key (mem_list r) = map fst r"
  by (auto simp: repo_ok_def mem_list_def)

lemma map_fst_map_set:
  "map fst (map_set k v r) = (if k \<in> fst ` set r then map fst r else map fst r @ [k])"
  by (induction r) auto

interpretation mem: repository key "repo_ok key" "mem_upsert key" mem_findById mem_list mem_delete mem_clear
  for key :: "'e \<Rightarrow> string"
proof unfold_locales
  fix r :: "'e repo" and e :: 'e
  assume r: "repo_ok key r"
  show "map key (mem_list (mem_upsert key e r)) =
      (if mem_findById (key e) r = None then map key (mem_list r) @ [key e] else map key (mem_list r))"
    using r repo_ok_upsert [OF r, of e]
    by (simp add: mem_keys mem_upsert_def map_fst_map_set mem_findById_def map_of_eq_None_iff)
next
  fix r :: "'e repo"
  assume r: "repo_ok key r"
  then show "distinct (map key (mem_list r))" by (simp add: mem_keys) (simp add: repo_ok_def)
qed (auto simp: repo_ok_upsert repo_ok_delete mem_list_find mem_clear_def mem_find_key,
     auto simp: mem_findById_def mem_delete_def AList.delete_conv')

text \<open>
  Two stores side by side: the entity under every key that was present is still present and
  its status has moved along the lifecycle relation \<open>step\<close> only. Used by every stateful
  component of the core.
\<close>

definition evolves :: "('e \<Rightarrow> 'st) \<Rightarrow> ('st \<Rightarrow> 'st \<Rightarrow> bool) \<Rightarrow> 'e repo \<Rightarrow> 'e repo \<Rightarrow> bool" where
  "evolves status step r r' \<longleftrightarrow>
     (\<forall>i e. mem_findById i r = Some e \<longrightarrow>
        (\<exists>e'. mem_findById i r' = Some e' \<and> step\<^sup>*\<^sup>* (status e) (status e')))"

lemma evolves_refl [simp]: "evolves status step r r"
  by (auto simp: evolves_def)

lemma evolves_trans: "evolves status step r s \<Longrightarrow> evolves status step s t \<Longrightarrow> evolves status step r t"
  unfolding evolves_def by (meson rtranclp_trans)

lemma evolves_upsert:
  assumes "\<And>old. mem_findById (key e) r = Some old \<Longrightarrow> step\<^sup>*\<^sup>* (status old) (status e)"
  shows "evolves status step r (mem_upsert key e r)"
  using assms by (auto simp: evolves_def)

lemma evolvesD:
  "evolves status step r r' \<Longrightarrow> mem_findById i r = Some e \<Longrightarrow>
   \<exists>e'. mem_findById i r' = Some e' \<and> step\<^sup>*\<^sup>* (status e) (status e')"
  by (simp add: evolves_def)

lemma rtranclp_stuck: "step\<^sup>*\<^sup>* a b \<Longrightarrow> (\<And>c. \<not> step a c) \<Longrightarrow> b = a"
  by (metis converse_rtranclpE)

end
