(* ===== verification/Audit_Log.thy ===== *)
theory Audit_Log
  imports Shared Contracts Repository "HOL-Library.Sublist"
begin

text \<open>
  \<open>core/audit/audit-log.ts\<close>. The log keeps its events in memory, writes each to its sink and,
  when one is configured, upserts it into a durable repository. Ids come from the process-local
  counter, so \<open>record\<close> draws ids until one is neither in the log nor in the repository; the
  loop is \<open>free_seq\<close>, which terminates because only finitely many ids are taken.
\<close>

record audit_state = world +
  events :: "AuditEvent list"
  sink_events :: "AuditEvent list"
  audit_repo :: "AuditEvent repo option"

record AuditQuery =
  aq_type :: "string option"
  aq_taskId :: "string option"
  aq_agentId :: "string option"
  aq_projectId :: "string option"

lemma finite_taken: "finite {m. n < m \<and> id_of pfx tag m \<in> set used}"
proof (rule finite_subset)
  show "{m. n < m \<and> id_of pfx tag m \<in> set used} \<subseteq> id_of pfx tag -` set used" by auto
  show "finite (id_of pfx tag -` set used)"
    by (rule finite_vimageI) (simp_all add: inj_on_def id_of_inj)
qed

function free_seq :: "string \<Rightarrow> string list \<Rightarrow> nat \<Rightarrow> nat" where
  "free_seq tag used n =
     (if id_of ''audit'' tag (Suc n) \<in> set used then free_seq tag used (Suc n) else Suc n)"
  by pat_completeness auto
termination
proof (relation "measure (\<lambda>(tag, used, n). card {m. n < m \<and> id_of ''audit'' tag m \<in> set used})")
  fix tag used n
  assume taken: "id_of ''audit'' tag (Suc n) \<in> set used"
  have "{m. Suc n < m \<and> id_of ''audit'' tag m \<in> set used} \<subset> {m. n < m \<and> id_of ''audit'' tag m \<in> set used}"
    using taken by auto
  then have "card {m. Suc n < m \<and> id_of ''audit'' tag m \<in> set used}
      < card {m. n < m \<and> id_of ''audit'' tag m \<in> set used}"
    by (rule psubset_card_mono [OF finite_taken])
  then show "((tag, used, Suc n), tag, used, n)
      \<in> measure (\<lambda>(tag, used, n). card {m. n < m \<and> id_of ''audit'' tag m \<in> set used})"
    by simp
qed simp

declare free_seq.simps [simp del]

lemma free_seq_gt: "n < free_seq tag used n"
  by (induction tag used n rule: free_seq.induct) (subst free_seq.simps, auto)

lemma free_seq_free: "id_of ''audit'' tag (free_seq tag used n) \<notin> set used"
  by (induction tag used n rule: free_seq.induct) (subst free_seq.simps, auto)

definition taken_audit_ids :: "'x audit_state_scheme \<Rightarrow> string list" where
  "taken_audit_ids s = map ev_id (events s) @
     (case audit_repo s of None \<Rightarrow> [] | Some r \<Rightarrow> map fst r)"

text \<open>The constructor: a durable repository's events are loaded into the log.\<close>

definition open_log :: "AuditEvent repo option \<Rightarrow> 'x audit_state_scheme \<Rightarrow> 'x audit_state_scheme" where
  "open_log r s = s\<lparr>audit_repo := r, sink_events := [],
     events := (case r of None \<Rightarrow> [] | Some rep \<Rightarrow> mem_list rep)\<rparr>"

definition record_event :: "string \<Rightarrow> AuditEventFields \<Rightarrow> ('x audit_state_scheme, AuditEvent) op" where
  "record_event type f s =
     (let n = free_seq (process_tag s) (taken_audit_ids s) (seq s);
          event = \<lparr>ev_id = id_of ''audit'' (process_tag s) n, ev_type = type,
                   ev_timestamp = time_at s (ticks s), ev_taskId = af_taskId f,
                   ev_agentId = af_agentId f, ev_projectId = af_projectId f, ev_data = af_data f\<rparr>
      in (Inr event,
          s\<lparr>seq := n, ticks := Suc (ticks s), events := events s @ [event],
            sink_events := sink_events s @ [event],
            audit_repo := map_option (mem_upsert ev_id event) (audit_repo s)\<rparr>))"

definition query :: "AuditQuery \<Rightarrow> 'x audit_state_scheme \<Rightarrow> AuditEvent list" where
  "query q s = filter (\<lambda>e.
     (aq_type q = None \<or> aq_type q = Some (ev_type e)) \<and>
     (aq_taskId q = None \<or> aq_taskId q = ev_taskId e) \<and>
     (aq_agentId q = None \<or> aq_agentId q = ev_agentId e) \<and>
     (aq_projectId q = None \<or> aq_projectId q = ev_projectId e)) (events s)"

text \<open>Statement form: record and drop the returned event.\<close>

definition audit :: "string \<Rightarrow> string option \<Rightarrow> string option \<Rightarrow> string option \<Rightarrow> fields
    \<Rightarrow> ('x audit_state_scheme, unit) op" where
  "audit type taskId agentId projectId data = thenS
     (record_event type \<lparr>af_taskId = taskId, af_agentId = agentId, af_projectId = projectId, af_data = data\<rparr>)
     (returnS ())"

section \<open>The log only grows\<close>

text \<open>Append-only, in the log, the sink and the durable repository; ids never repeat.\<close>

definition durable_keeps :: "AuditEvent repo option \<Rightarrow> AuditEvent repo option \<Rightarrow> bool" where
  "durable_keeps a b \<longleftrightarrow>
     (\<forall>i e. Option.bind a (mem_findById i) = Some e \<longrightarrow> Option.bind b (mem_findById i) = Some e)"

definition audit_grows :: "'x audit_state_scheme \<Rightarrow> 'y audit_state_scheme \<Rightarrow> bool" where
  "audit_grows s t \<longleftrightarrow>
     prefix (events s) (events t) \<and>
     durable_keeps (audit_repo s) (audit_repo t) \<and>
     (distinct (map ev_id (events s)) \<longrightarrow> distinct (map ev_id (events t))) \<and>
     seq s \<le> seq t \<and> process_tag t = process_tag s"

interpretation audit_growth: evolution "audit_grows :: 'x audit_state_scheme \<Rightarrow> 'x audit_state_scheme \<Rightarrow> bool"
proof
  fix s t u :: "'x audit_state_scheme"
  show "audit_grows s s" by (simp add: audit_grows_def durable_keeps_def)
  assume st: "audit_grows s t" and tu: "audit_grows t u"
  have "durable_keeps (audit_repo s) (audit_repo u)"
    using st tu by (simp add: audit_grows_def durable_keeps_def)
  moreover have "prefix (events s) (events u)"
    using st tu prefix_order.trans by (auto simp: audit_grows_def)
  ultimately show "audit_grows s u"
    using st tu by (simp add: audit_grows_def)
qed

lemma record_event_id_fresh:
  assumes "record_event type f s = (Inr event, t)"
  shows "ev_id event \<notin> ev_id ` set (events s)"
    and "audit_repo s = Some r \<Longrightarrow> mem_findById (ev_id event) r = None"
proof -
  have "ev_id event \<notin> set (taken_audit_ids s)"
    using assms free_seq_free by (auto simp: record_event_def Let_def)
  then show "ev_id event \<notin> ev_id ` set (events s)"
    and "audit_repo s = Some r \<Longrightarrow> mem_findById (ev_id event) r = None"
    by (auto simp: taken_audit_ids_def mem_findById_def map_of_eq_None_iff)
qed

lemma record_event_grows: "keeps audit_grows (record_event type f)"
proof (rule keepsI)
  fix s :: "'x audit_state_scheme"
  obtain event t where run: "record_event type f s = (Inr event, t)"
    by (simp add: record_event_def Let_def)
  note fresh = record_event_id_fresh [OF run]
  have "events t = events s @ [event]"
    and "audit_repo t = map_option (mem_upsert ev_id event) (audit_repo s)"
    and "seq s \<le> seq t" "process_tag t = process_tag s"
    using run free_seq_gt [of "seq s" "process_tag s" "taken_audit_ids s"]
    by (auto simp: record_event_def Let_def)
  then show "audit_grows s (snd (record_event type f s))"
    using fresh run
    by (cases "audit_repo s") (auto simp: audit_grows_def durable_keeps_def)
qed

lemma audit_audit_grows [keeps_rules]: "keeps audit_grows (audit type t a p d)"
  unfolding audit_def by (intro audit_growth.keeps_intros record_event_grows)

text \<open>What the statement form changes: nothing but the audit and world fields.\<close>

lemma audit_returns [simp]: "fst (audit type t a p d s) = Inr ()"
  by (simp add: audit_def record_event_def thenS_def bindS_def Let_def)

lemma audit_more [simp]: "audit_state.more (snd (audit type t a p d s)) = audit_state.more s"
  by (simp add: audit_def record_event_def thenS_def bindS_def Let_def)

lemma createId_more [simp]: "world.more (snd (createId pfx s)) = world.more s"
  by (simp add: createId_eq)

end
