(* ===== verification/Lifecycle.thy ===== *)
theory Lifecycle
  imports Repository Shared
begin

text \<open>
  The contract shared by every component that keeps entities with a status in a repository:
  tasks, approvals, handoffs, workflows, leases and assignments. An entity's status moves
  along the edges of \<open>allowed\<close> only, its \<open>frozen\<close> fields never change, and it is never
  lost. The relation is stated once on the stores before and after a call; the locale proves
  that it composes (it is an \<open>evolution\<close>), what it says of terminal states, and the one
  obligation a single-write operation has to meet.
\<close>

definition lifecycle_step :: "('st \<Rightarrow> 'st list) \<Rightarrow> 'st \<times> 'im \<Rightarrow> 'st \<times> 'im \<Rightarrow> bool" where
  "lifecycle_step allowed a b \<longleftrightarrow> fst b \<in> set (allowed (fst a)) \<and> snd b = snd a"

definition lifecycle_keeps ::
  "('s \<Rightarrow> bool) \<Rightarrow> ('e \<Rightarrow> 'st) \<Rightarrow> ('e \<Rightarrow> 'im) \<Rightarrow> ('st \<Rightarrow> 'st list) \<Rightarrow> ('s \<Rightarrow> 'e repo) \<Rightarrow> 's \<Rightarrow> 's \<Rightarrow> bool"
where
  "lifecycle_keeps ok status frozen allowed store s t \<longleftrightarrow>
     (ok s \<longrightarrow> ok t \<and>
        evolves (\<lambda>e. (status e, frozen e)) (lifecycle_step allowed) (store s) (store t))"

lemma lifecycle_step_frozen: "(lifecycle_step allowed)\<^sup>*\<^sup>* a b \<Longrightarrow> snd b = snd a"
  by (induction rule: rtranclp_induct) (auto simp: lifecycle_step_def)

lemma lifecycle_step_path:
  "(lifecycle_step allowed)\<^sup>*\<^sup>* a b \<Longrightarrow> (\<lambda>x y. y \<in> set (allowed x))\<^sup>*\<^sup>* (fst a) (fst b)"
proof (induction rule: rtranclp_induct)
  case base
  show ?case by simp
next
  case (step y z)
  then show ?case by (auto simp: lifecycle_step_def intro: rtranclp.rtrancl_into_rtrancl)
qed

locale lifecycle =
  fixes key :: "'e \<Rightarrow> string"
    and status :: "'e \<Rightarrow> 'st"
    and frozen :: "'e \<Rightarrow> 'im"
    and allowed :: "'st \<Rightarrow> 'st list"
    and store :: "'s \<Rightarrow> 'e repo"
    and ok :: "'s \<Rightarrow> bool"
  assumes no_self_loop: "a \<notin> set (allowed a)"
    and ok_repo_ok: "ok s \<Longrightarrow> repo_ok key (store s)"
begin

text \<open>Every call between \<open>s\<close> and \<open>t\<close>, in any number and order, is one evolution.\<close>

lemma keeps_refl: "lifecycle_keeps ok status frozen allowed store s s"
  by (simp add: lifecycle_keeps_def)

lemma keeps_trans:
  "lifecycle_keeps ok status frozen allowed store s t \<Longrightarrow>
   lifecycle_keeps ok status frozen allowed store t u \<Longrightarrow>
   lifecycle_keeps ok status frozen allowed store s u"
  by (auto simp: lifecycle_keeps_def intro: evolves_trans)

lemma keeps_same_store:
  "store t = store s \<Longrightarrow> (ok s \<Longrightarrow> ok t) \<Longrightarrow> lifecycle_keeps ok status frozen allowed store s t"
  by (simp add: lifecycle_keeps_def)

text \<open>The obligation of an operation that writes one entity.\<close>

lemma keeps_write:
  assumes "store t = mem_upsert key e (store s)"
    and ok: "ok s \<Longrightarrow> ok t"
    and edge: "\<And>old. ok s \<Longrightarrow> mem_findById (key e) (store s) = Some old \<Longrightarrow>
          frozen e = frozen old \<and> (status e = status old \<or> status e \<in> set (allowed (status old)))"
  shows "lifecycle_keeps ok status frozen allowed store s t"
proof -
  have "(lifecycle_step allowed)\<^sup>*\<^sup>* (status old, frozen old) (status e, frozen e)"
    if "ok s" "mem_findById (key e) (store s) = Some old" for old
  proof (cases "status e = status old")
    case True
    with edge [OF that] show ?thesis by simp
  next
    case False
    with edge [OF that] have "lifecycle_step allowed (status old, frozen old) (status e, frozen e)"
      by (simp add: lifecycle_step_def)
    then show ?thesis by (rule r_into_rtranclp)
  qed
  then show ?thesis
    by (auto simp: lifecycle_keeps_def assms(1) ok intro: evolves_upsert)
qed

lemma survives:
  assumes "lifecycle_keeps ok status frozen allowed store s t" "ok s"
    and "mem_findById i (store s) = Some e"
  obtains e' where "mem_findById i (store t) = Some e'" "frozen e' = frozen e"
    "(\<lambda>x y. y \<in> set (allowed x))\<^sup>*\<^sup>* (status e) (status e')"
proof -
  from assms obtain e' where e': "mem_findById i (store t) = Some e'"
    and path: "(lifecycle_step allowed)\<^sup>*\<^sup>* (status e, frozen e) (status e', frozen e')"
    unfolding lifecycle_keeps_def by (blast dest: evolvesD)
  from path have "frozen e' = frozen e" by (auto dest: lifecycle_step_frozen)
  moreover from path have "(\<lambda>x y. y \<in> set (allowed x))\<^sup>*\<^sup>* (status e) (status e')"
    by (auto dest: lifecycle_step_path)
  ultimately show thesis using e' by (intro that)
qed

text \<open>A terminal status is final.\<close>

lemma terminal_final:
  assumes "lifecycle_keeps ok status frozen allowed store s t" "ok s"
    and "mem_findById i (store s) = Some e" "allowed (status e) = []"
  shows "\<exists>e'. mem_findById i (store t) = Some e' \<and> status e' = status e \<and> frozen e' = frozen e"
proof -
  obtain e' where e': "mem_findById i (store t) = Some e'" "frozen e' = frozen e"
    and path: "(\<lambda>x y. y \<in> set (allowed x))\<^sup>*\<^sup>* (status e) (status e')"
    using assms(1-3) by (rule survives)
  from path have "status e' = status e"
    by (rule rtranclp_stuck) (simp add: assms(4))
  with e' show ?thesis by blast
qed

end

text \<open>A lifecycle's relation is an evolution, so the composition rules come for free.\<close>

sublocale lifecycle \<subseteq> evo: evolution "lifecycle_keeps ok status frozen allowed store"
  by unfold_locales (rule keeps_refl, erule (1) keeps_trans)

section \<open>Stores keyed by the process counter\<close>

text \<open>
  The common case: ids come from \<open>createId\<close> without a test for a used id, so the store has
  to stay ahead of the counter. A call either leaves the store alone, adds one entity under
  an id drawn during the call, or rewrites one entity along an edge.
\<close>

definition store_ok ::
  "('e \<Rightarrow> string) \<Rightarrow> string \<Rightarrow> ('x world_scheme \<Rightarrow> 'e repo) \<Rightarrow> 'x world_scheme \<Rightarrow> bool" where
  "store_ok key pfx store s \<longleftrightarrow>
     repo_ok key (store s) \<and> ids_fresh pfx (process_tag s) (seq s) (fst ` set (store s))"

definition counter_moves :: "'x world_scheme \<Rightarrow> 'x world_scheme \<Rightarrow> bool" where
  "counter_moves s t \<longleftrightarrow> process_tag t = process_tag s \<and> seq s \<le> seq t"

definition drawn :: "string \<Rightarrow> 'x world_scheme \<Rightarrow> 'x world_scheme \<Rightarrow> string \<Rightarrow> bool" where
  "drawn pfx s t i \<longleftrightarrow> (\<exists>n. seq s < n \<and> n \<le> seq t \<and> i = id_of pfx (process_tag s) n)"

definition store_write ::
  "('e \<Rightarrow> string) \<Rightarrow> ('e \<Rightarrow> 'st) \<Rightarrow> ('e \<Rightarrow> 'im) \<Rightarrow> ('st \<Rightarrow> 'st list) \<Rightarrow> ('x world_scheme \<Rightarrow> 'e repo) \<Rightarrow>
   string \<Rightarrow> 'x world_scheme \<Rightarrow> 'x world_scheme \<Rightarrow> 'e \<Rightarrow> bool" where
  "store_write key status frozen allowed store pfx s t e \<longleftrightarrow>
     store t = mem_upsert key e (store s) \<and>
     (drawn pfx s t (key e) \<or>
      (\<exists>old. mem_findById (key e) (store s) = Some old \<and> frozen e = frozen old \<and>
         (status e = status old \<or> status e \<in> set (allowed (status old)))))"

lemma mem_keys_upsert: "fst ` set (mem_upsert key e r) = insert (key e) (fst ` set r)"
  by (simp add: mem_upsert_def keys_map_set)

lemma mem_find_in_keys: "mem_findById i r = Some e \<Longrightarrow> i \<in> fst ` set r"
  by (force simp: mem_findById_def dest: map_of_SomeD)

lemma mem_upsert_twice: "key d = key e \<Longrightarrow> mem_upsert key e (mem_upsert key d r) = mem_upsert key e r"
  unfolding mem_upsert_def by (induction r) auto

lemma counter_moves_refl [simp]: "counter_moves s s"
  by (simp add: counter_moves_def)

lemma drawn_fresh: "store_ok key pfx store s \<Longrightarrow> drawn pfx s t i \<Longrightarrow> mem_findById i (store s) = None"
  by (auto simp: store_ok_def drawn_def ids_fresh_def mem_findById_def map_of_eq_None_iff)

lemma drawn_keys:
  "ids_fresh pfx (process_tag s) (seq s) ks \<Longrightarrow> drawn pfx s t i \<Longrightarrow>
   ids_fresh pfx (process_tag s) (seq t) (insert i ks)"
  by (auto simp: ids_fresh_def drawn_def id_of_inj)

lemma store_ok_same: "store_ok key pfx store s \<Longrightarrow> counter_moves s t \<Longrightarrow> store t = store s \<Longrightarrow> store_ok key pfx store t"
  by (auto simp: store_ok_def counter_moves_def intro: ids_fresh_mono)

locale counted_lifecycle =
  fixes key :: "'e \<Rightarrow> string"
    and status :: "'e \<Rightarrow> 'st"
    and frozen :: "'e \<Rightarrow> 'im"
    and allowed :: "'st \<Rightarrow> 'st list"
    and store :: "'x world_scheme \<Rightarrow> 'e repo"
    and pfx :: string
  assumes irreflexive: "a \<notin> set (allowed a)"

sublocale counted_lifecycle \<subseteq> lifecycle key status frozen allowed store "store_ok key pfx store"
  by unfold_locales (simp_all add: irreflexive store_ok_def)

context counted_lifecycle
begin

lemma write_ok:
  assumes "store_write key status frozen allowed store pfx s t e"
    and "counter_moves s t" "store_ok key pfx store s"
  shows "store_ok key pfx store t"
proof (cases "drawn pfx s t (key e)")
  case True
  with assms show ?thesis
    by (auto simp: store_ok_def store_write_def counter_moves_def repo_ok_upsert mem_keys_upsert
        intro: drawn_keys)
next
  case False
  with assms(1) have "key e \<in> fst ` set (store s)"
    by (auto simp: store_write_def intro: mem_find_in_keys)
  with assms show ?thesis
    by (auto simp: store_ok_def store_write_def counter_moves_def repo_ok_upsert mem_keys_upsert
        insert_absorb intro: ids_fresh_mono)
qed

lemma keeps_store_write:
  assumes "store_write key status frozen allowed store pfx s t e" and "counter_moves s t"
  shows "lifecycle_keeps (store_ok key pfx store) status frozen allowed store s t"
proof (rule keeps_write [of _ e])
  show "store t = mem_upsert key e (store s)"
    using assms(1) by (simp add: store_write_def)
  show "store_ok key pfx store s \<Longrightarrow> store_ok key pfx store t"
    by (rule write_ok [OF assms])
  fix old
  assume "store_ok key pfx store s" "mem_findById (key e) (store s) = Some old"
  moreover from this have "\<not> drawn pfx s t (key e)" by (auto dest: drawn_fresh)
  ultimately show "frozen e = frozen old \<and> (status e = status old \<or> status e \<in> set (allowed (status old)))"
    using assms(1) by (auto simp: store_write_def)
qed

lemma keeps_untouched:
  "counter_moves s t \<Longrightarrow> store t = store s \<Longrightarrow>
   lifecycle_keeps (store_ok key pfx store) status frozen allowed store s t"
  by (rule keeps_same_store) (auto intro: store_ok_same)

lemma keeps_frame:
  "(\<And>s. counter_moves s (snd (m s)) \<and> store (snd (m s)) = store s) \<Longrightarrow>
   keeps (lifecycle_keeps (store_ok key pfx store) status frozen allowed store) m"
  by (rule keepsI) (blast intro: keeps_untouched)

text \<open>The usual shape of a mutating method: read, guard, read the clock, write once.\<close>

lemma keeps_guarded_update:
  assumes "\<And>s. (counter_moves s (snd (m s)) \<and> store (snd (m s)) = store s) \<or>
      (counter_moves s (snd (m s)) \<and> (\<exists>e. store_write key status frozen allowed store pfx s (snd (m s)) e))"
  shows "keeps (lifecycle_keeps (store_ok key pfx store) status frozen allowed store) m"
proof (rule keepsI)
  fix s
  from assms [of s] show "lifecycle_keeps (store_ok key pfx store) status frozen allowed store s (snd (m s))"
    by (blast intro: keeps_untouched keeps_store_write)
qed

lemma keeps_creation:
  assumes "\<And>s. counter_moves s (snd (m s)) \<and> (store (snd (m s)) = store s \<or>
      (\<exists>e. store (snd (m s)) = mem_upsert key e (store s) \<and> drawn pfx s (snd (m s)) (key e)))"
  shows "keeps (lifecycle_keeps (store_ok key pfx store) status frozen allowed store) m"
  by (rule keeps_guarded_update) (use assms in \<open>fastforce simp: store_write_def\<close>)

lemma keeps_when_ok:
  "(store_ok key pfx store s \<Longrightarrow> lifecycle_keeps (store_ok key pfx store) status frozen allowed store s t)
   \<Longrightarrow> lifecycle_keeps (store_ok key pfx store) status frozen allowed store s t"
  by (auto simp: lifecycle_keeps_def)

lemma keeps_read_write:
  fixes g :: "('x world_scheme, 'e) op" and w :: "'e \<Rightarrow> ('x world_scheme, unit) op"
  assumes guard: "\<And>s. snd (g s) = s"
    and found: "\<And>s a. fst (g s) = Inr a \<Longrightarrow> \<exists>i. mem_findById i (store s) = Some a"
    and edge: "\<And>s a at. fst (g s) = Inr a \<Longrightarrow> key (f a at) = key a \<and> frozen (f a at) = frozen a \<and>
        (status (f a at) = status a \<or> status (f a at) \<in> set (allowed (status a)))"
    and w: "\<And>e s. counter_moves s (snd (w e s)) \<and> store (snd (w e s)) = mem_upsert key e (store s)"
    and tick: "\<And>s n. store (s\<lparr>ticks := n\<rparr>) = store s"
  shows "keeps (lifecycle_keeps (store_ok key pfx store) status frozen allowed store)
    (bindS g (\<lambda>a. bindS now (\<lambda>at. thenS (w (f a at)) (returnS (f a at)))))"
    (is "keeps ?R ?m")
proof (rule keepsI, rule keeps_when_ok)
  fix s
  assume ok: "store_ok key pfx store s"
  obtain r where r: "g s = (r, s)" using guard [of s] by (metis prod.collapse)
  show "?R s (snd (?m s))"
  proof (cases r)
    case (Inl e)
    with r show ?thesis by (simp add: bindS_def keeps_refl)
  next
    case (Inr a)
    let ?u = "s\<lparr>ticks := Suc (ticks s)\<rparr>" and ?e = "f a (time_at s (ticks s))"
    have a: "fst (g s) = Inr a" using r Inr by simp
    obtain x t where wt: "w ?e ?u = (x, t)" by fastforce
    have run: "snd (?m s) = t"
      using r Inr wt by (cases x) (simp_all add: bindS_def thenS_def now_def)
    have t: "store t = mem_upsert key ?e (store s)" and moves: "counter_moves s t"
      using w [of ?u ?e] wt by (simp_all add: tick counter_moves_def)
    obtain i where i: "mem_findById i (store s) = Some a" using found [OF a] by blast
    moreover have "key a = i" using ok i by (auto simp: store_ok_def intro: mem_find_key)
    ultimately have "store_write key status frozen allowed store pfx s t ?e"
      using edge [OF a, of "time_at s (ticks s)"] t by (auto simp: store_write_def)
    then show ?thesis unfolding run using moves by (rule keeps_store_write)
  qed
qed

end

end
