(* ===== verification/Tasks.thy ===== *)
theory Tasks
  imports Audit_Log Lifecycle
begin

text \<open>
  \<open>core/tasks/task-system.ts\<close>: the deterministic task lifecycle. The component's state is its
  repository, the field \<open>tasks\<close>.
\<close>

record task_state = audit_state +
  tasks :: "Task repo"

fun TRANSITIONS :: "TaskStatus \<Rightarrow> TaskStatus list" where
  "TRANSITIONS TCreated = [TQueued, TCancelled]"
| "TRANSITIONS TQueued = [TRunning, TBlocked, TAwaitingApproval, TCancelled]"
| "TRANSITIONS TRunning = [TBlocked, TAwaitingApproval, TCompleted, TFailed, TCancelled]"
| "TRANSITIONS TBlocked = [TQueued, TRunning, TCancelled]"
| "TRANSITIONS TAwaitingApproval = [TRunning, TQueued, TFailed, TCancelled]"
| "TRANSITIONS TCompleted = []"
| "TRANSITIONS TFailed = [TQueued]"
| "TRANSITIONS TCancelled = []"

text \<open>
  \<open>TransitionPatch\<close>. The code tests \<open>"approvalId" in patch\<close> and \<open>"output" in patch\<close>, so
  presence of these keys is separate from their value.
\<close>

record TransitionPatch =
  patch_assignedAgentId :: "string option"
  patch_approvalId :: "string option option"
  patch_output :: "json option"
  patch_metadata :: "fields option"
  patch_error :: "string option"

definition no_patch :: TransitionPatch where
  "no_patch = \<lparr>patch_assignedAgentId = None, patch_approvalId = None, patch_output = None,
     patch_metadata = None, patch_error = None\<rparr>"

definition upsert_task :: "Task \<Rightarrow> ('x task_state_scheme, unit) op" where
  "upsert_task t = modifyS (\<lambda>s. s\<lparr>tasks := mem_upsert task_id t (tasks s)\<rparr>)"

text \<open>The object literal of \<open>create\<close>.\<close>

definition new_task :: "TaskDraft \<Rightarrow> string \<Rightarrow> timestamp \<Rightarrow> Task" where
  "new_task d taskId timestamp =
     \<lparr>task_id = taskId, task_type = td_type d, task_description = td_description d,
      task_projectId = td_projectId d, assignedAgentId = None,
      task_priority = or_else (td_priority d) Normal, task_status = TCreated,
      task_input = json_or_null (td_input d), task_output = JUndefined, task_errors = [],
      task_requiredPermissions = or_else (td_requiredPermissions d) [],
      task_approvalId = None, task_createdAt = timestamp, task_updatedAt = timestamp,
      task_metadata = or_else (td_metadata d) [], task_programId = td_programId d,
      task_workstreamId = td_workstreamId d, task_objective = td_objective d,
      task_requirements = or_else (td_requirements d) [],
      task_dependencies = or_else (td_dependencies d) [],
      task_requiredCapabilities = or_else (td_requiredCapabilities d) [],
      task_environmentRequirements = or_else (td_environmentRequirements d) [],
      task_modelRequirements = td_modelRequirements d,
      task_completionCriteria = or_else (td_completionCriteria d) [],
      task_riskClass = td_riskClass d, task_executionContext = td_executionContext d\<rparr>"

definition task_create :: "('x task_state_scheme, string) op \<Rightarrow> TaskDraft \<Rightarrow> ('x task_state_scheme, Task) op" where
  "task_create newId d =
     thenS (liftE (validateTaskDraft d))
     (bindS now (\<lambda>timestamp.
      bindS newId (\<lambda>taskId.
      if js_trim taskId = [] then throwS (ValidationError ''task.id factory returned an empty id'')
      else bindS (getsS (\<lambda>s. mem_findById taskId (tasks s))) (\<lambda>existing.
      if existing \<noteq> None then throwS (StateTransitionError (''task id collision: '' @ taskId))
      else
        let task = new_task d taskId timestamp
        in thenS (upsert_task task) (returnS task)))))"

text \<open>The default id factory.\<close>

definition task_newId :: "('x task_state_scheme, string) op" where
  "task_newId = createId ''task''"

definition task_get :: "string \<Rightarrow> ('x task_state_scheme, Task option) op" where
  "task_get i = getsS (\<lambda>s. mem_findById i (tasks s))"

definition task_require :: "string \<Rightarrow> ('x task_state_scheme, Task) op" where
  "task_require i s = (case mem_findById i (tasks s) of
     None \<Rightarrow> (Inl (NotFoundError (''unknown task: '' @ i)), s)
   | Some t \<Rightarrow> (Inr t, s))"

definition task_list :: "('x task_state_scheme, Task list) op" where
  "task_list = getsS (\<lambda>s. mem_list (tasks s))"

definition task_delete :: "string \<Rightarrow> ('x task_state_scheme, bool) op" where
  "task_delete i s = (let (existed, r) = mem_delete i (tasks s) in (Inr existed, s\<lparr>tasks := r\<rparr>))"

definition canTransition :: "TaskStatus \<Rightarrow> TaskStatus \<Rightarrow> bool" where
  "canTransition from to \<longleftrightarrow> to \<in> set (TRANSITIONS from)"

definition apply_patch :: "Task \<Rightarrow> TaskStatus \<Rightarrow> timestamp \<Rightarrow> TransitionPatch \<Rightarrow> Task" where
  "apply_patch task to at patch = task\<lparr>
     task_status := to,
     task_updatedAt := at,
     assignedAgentId := (case patch_assignedAgentId patch of None \<Rightarrow> assignedAgentId task | a \<Rightarrow> a),
     task_approvalId := or_else (patch_approvalId patch) (task_approvalId task),
     task_output := or_else (patch_output patch) (task_output task),
     task_metadata := (case patch_metadata patch of None \<Rightarrow> task_metadata task
                       | Some m \<Rightarrow> spread (task_metadata task) m),
     task_errors := (if truthy (patch_error patch)
                     then task_errors task @ [or_else (patch_error patch) []] else task_errors task)\<rparr>"

definition task_transition :: "string \<Rightarrow> TaskStatus \<Rightarrow> TransitionPatch \<Rightarrow> ('x task_state_scheme, Task) op" where
  "task_transition i to patch = bindS (task_require i) (\<lambda>task.
     if \<not> canTransition (task_status task) to
     then throwS (StateTransitionError (''invalid task transition: '' @ task_status_str (task_status task)
            @ '' -> '' @ task_status_str to))
     else bindS now (\<lambda>at.
       let next = apply_patch task to at patch
       in thenS (upsert_task next) (returnS next)))"

definition task_assign :: "string \<Rightarrow> string \<Rightarrow> ('x task_state_scheme, Task) op" where
  "task_assign i agentId = task_transition i TRunning (no_patch\<lparr>patch_assignedAgentId := Some agentId\<rparr>)"

definition task_complete :: "string \<Rightarrow> json \<Rightarrow> ('x task_state_scheme, Task) op" where
  "task_complete i output = task_transition i TCompleted (no_patch\<lparr>patch_output := Some output\<rparr>)"

definition task_fail :: "string \<Rightarrow> string \<Rightarrow> ('x task_state_scheme, Task) op" where
  "task_fail i err = task_transition i TFailed (no_patch\<lparr>patch_error := Some err\<rparr>)"

definition task_cancel :: "string \<Rightarrow> ('x task_state_scheme, Task) op" where
  "task_cancel i = task_transition i TCancelled no_patch"

section \<open>The lifecycle\<close>

text \<open>What no operation may change once a task exists.\<close>

definition task_frozen :: "Task \<Rightarrow> string \<times> string \<times> RequiredPermission list \<times> timestamp" where
  "task_frozen t = (task_projectId t, task_type t, task_requiredPermissions t, task_createdAt t)"

abbreviation tasks_keep :: "'x task_state_scheme \<Rightarrow> 'x task_state_scheme \<Rightarrow> bool" where
  "tasks_keep \<equiv> lifecycle_keeps (\<lambda>s. repo_ok task_id (tasks s)) task_status task_frozen TRANSITIONS tasks"

interpretation task_life: lifecycle task_id task_status task_frozen TRANSITIONS
    "tasks :: 'x task_state_scheme \<Rightarrow> Task repo" "\<lambda>s. repo_ok task_id (tasks s)"
proof
  fix a show "a \<notin> set (TRANSITIONS a)" by (cases a) auto
qed

lemma apply_patch_simps [simp]:
  "task_id (apply_patch t to at p) = task_id t"
  "task_status (apply_patch t to at p) = to"
  "task_frozen (apply_patch t to at p) = task_frozen t"
  "task_projectId (apply_patch t to at p) = task_projectId t"
  by (simp_all add: apply_patch_def task_frozen_def)

text \<open>The three ways a transition can go.\<close>

lemma task_transition_cases:
  obtains (unknown) "mem_findById i (tasks s) = None"
      "task_transition i to p s = (Inl (NotFoundError (''unknown task: '' @ i)), s)"
  | (illegal) t e where "mem_findById i (tasks s) = Some t" "\<not> canTransition (task_status t) to"
      "task_transition i to p s = (Inl (StateTransitionError e), s)"
  | (moved) t t' where "mem_findById i (tasks s) = Some t" "canTransition (task_status t) to"
      "t' = apply_patch t to (time_at s (ticks s)) p"
      "task_transition i to p s = (Inr t', s\<lparr>ticks := Suc (ticks s), tasks := mem_upsert task_id t' (tasks s)\<rparr>)"
proof (cases "mem_findById i (tasks s)")
  case None
  then show thesis by (intro unknown) (simp_all add: task_transition_def task_require_def op_simps)
next
  case (Some t)
  show thesis
  proof (cases "canTransition (task_status t) to")
    case True
    with Some show thesis
      by (intro moved [OF Some True refl])
        (simp add: task_transition_def task_require_def upsert_task_def now_def op_simps Let_def)
  next
    case False
    with Some show thesis
      by (intro illegal [OF Some False])
        (simp add: task_transition_def task_require_def op_simps)
  qed
qed

lemma task_transition_Inr:
  assumes "task_transition i to p s = (Inr t', s')"
  obtains t where "mem_findById i (tasks s) = Some t" "canTransition (task_status t) to"
    "t' = apply_patch t to (time_at s (ticks s)) p"
    "s' = s\<lparr>ticks := Suc (ticks s), tasks := mem_upsert task_id t' (tasks s)\<rparr>"
  using assms by (cases rule: task_transition_cases [of i s to p]) auto

lemma task_transition_Inl: "task_transition i to p s = (Inl e, s') \<Longrightarrow> s' = s"
  by (cases rule: task_transition_cases [of i s to p]) auto

lemma task_transition_ok:
  assumes "mem_findById i (tasks s) = Some t" "canTransition (task_status t) to"
  shows "task_transition i to p s =
    (Inr (apply_patch t to (time_at s (ticks s)) p),
     s\<lparr>ticks := Suc (ticks s), tasks := mem_upsert task_id (apply_patch t to (time_at s (ticks s)) p) (tasks s)\<rparr>)"
  using assms by (cases rule: task_transition_cases [of i s to p]) auto

lemma keeps_task_transition [keeps_rules]: "keeps tasks_keep (task_transition i to p)"
proof (rule keepsI)
  fix s :: "'x task_state_scheme"
  show "tasks_keep s (snd (task_transition i to p s))"
  proof (cases rule: task_transition_cases [of i s to p])
    case (moved t t')
    show ?thesis
    proof (rule task_life.keeps_write [of _ t'])
      fix old
      assume ok: "repo_ok task_id (tasks s)" and old: "mem_findById (task_id t') (tasks s) = Some old"
      from ok moved(1) have "task_id t = i" by (rule mem_find_key)
      with old moved(1,3) have "old = t" by simp
      with moved(2,3) show "task_frozen t' = task_frozen old \<and>
          (task_status t' = task_status old \<or> task_status t' \<in> set (TRANSITIONS (task_status old)))"
        by (simp add: canTransition_def)
    qed (use moved in \<open>simp_all add: repo_ok_upsert\<close>)
  qed (simp_all add: task_life.keeps_refl)
qed

lemma keeps_task_ops [keeps_rules]:
  "keeps tasks_keep (task_assign i a)" "keeps tasks_keep (task_complete i v)"
  "keeps tasks_keep (task_fail i m)" "keeps tasks_keep (task_cancel i)"
  by (simp_all add: task_assign_def task_complete_def task_fail_def task_cancel_def keeps_task_transition)

text \<open>An operation that leaves the task store alone.\<close>

lemma keeps_tasks_frame: "(\<And>s. tasks (snd (m s)) = tasks s) \<Longrightarrow> keeps tasks_keep m"
  by (rule keepsI) (simp add: task_life.keeps_same_store)

lemma tasks_createId [simp]: "tasks (snd (createId pfx s)) = tasks s"
  by (simp add: createId_eq)

lemma tasks_now [simp]: "tasks (snd (now s)) = tasks s"
  by (simp add: now_def)

lemma tasks_audit [simp]: "tasks (snd (audit ty a b c d s)) = tasks s"
  by (simp add: audit_def record_event_def op_simps Let_def)

text \<open>Creation either fails and stores nothing, or adds one task under an unused id.\<close>

lemma task_create_cases:
  assumes frame: "\<And>s. tasks (snd (newId s)) = tasks s"
  obtains (failed) e s' where "task_create newId d s = (Inl e, s')" "tasks s' = tasks s"
  | (created) i at s' where "task_create newId d s = (Inr (new_task d i at), s')"
      "tasks s' = mem_upsert task_id (new_task d i at) (tasks s)"
      "mem_findById i (tasks s) = None" "js_trim i \<noteq> []" "validateTaskDraft d = Inr ()"
proof (cases "validateTaskDraft d")
  case (Inl e)
  then show thesis by (intro failed [of e s]) (simp_all add: task_create_def op_simps)
next
  case (Inr u)
  obtain at s1 where n: "now s = (Inr at, s1)" "tasks s1 = tasks s" by (simp add: now_def)
  obtain r s2 where i: "newId s1 = (r, s2)" by fastforce
  with frame [of s1] n have s2: "tasks s2 = tasks s" by simp
  show thesis
  proof (cases r)
    case (Inl e)
    with Inr n i s2 \<open>validateTaskDraft d = Inr u\<close> show thesis
      by (intro failed [of e s2]) (simp_all add: task_create_def op_simps)
  next
    case (Inr taskId)
    show thesis
    proof (cases "js_trim taskId = [] \<or> mem_findById taskId (tasks s2) \<noteq> None")
      case True
      with Inr \<open>validateTaskDraft d = Inr u\<close> n i s2 show thesis
        by (cases "task_create newId d s")
          (auto simp: task_create_def op_simps split: if_splits intro: failed)
    next
      case False
      then have free: "mem_findById taskId (tasks s) = None" and nb: "js_trim taskId \<noteq> []"
        using s2 by auto
      show thesis
        by (rule created [of taskId at "snd (task_create newId d s)"])
          (use Inr \<open>validateTaskDraft d = Inr u\<close> n i s2 free nb in
            \<open>simp_all add: task_create_def upsert_task_def op_simps Let_def new_task_def\<close>)
    qed
  qed
qed

lemma new_task_simps [simp]:
  "task_id (new_task d i at) = i" "task_status (new_task d i at) = TCreated"
  "task_type (new_task d i at) = td_type d" "task_projectId (new_task d i at) = td_projectId d"
  "task_requiredPermissions (new_task d i at) = or_else (td_requiredPermissions d) []"
  "task_requiredCapabilities (new_task d i at) = or_else (td_requiredCapabilities d) []"
  by (simp_all add: new_task_def)

lemma keeps_task_create [keeps_rules]:
  fixes newId :: "('x task_state_scheme, string) op"
  assumes "\<And>s. tasks (snd (newId s)) = tasks s"
  shows "keeps tasks_keep (task_create newId d)"
proof (rule keepsI)
  fix s :: "'x task_state_scheme"
  show "tasks_keep s (snd (task_create newId d s))"
    using assms
  proof (cases rule: task_create_cases [of newId d s])
    case (failed e s')
    then show ?thesis by (simp add: task_life.keeps_same_store)
  next
    case (created i at s')
    then show ?thesis by (intro task_life.keeps_write [of _ "new_task d i at"]) (auto simp: repo_ok_upsert)
  qed
qed

end
