(* ===== verification/Approvals.thy ===== *)
theory Approvals
  imports Tasks
begin

text \<open>
  \<open>core/approvals/approval-system.ts\<close>: human approval records. A record is requested once and
  decided, or expired, at most once; nothing here approves by itself.
\<close>

record approval_state = task_state +
  approvals :: "Approval repo"

datatype Decision = DecideApproved | DecideRejected

fun decision_status :: "Decision \<Rightarrow> ApprovalStatus" where
  "decision_status DecideApproved = Approved"
| "decision_status DecideRejected = Rejected"

definition upsert_approval :: "Approval \<Rightarrow> ('x approval_state_scheme, unit) op" where
  "upsert_approval a = modifyS (\<lambda>s. s\<lparr>approvals := mem_upsert approval_id a (approvals s)\<rparr>)"

definition new_approval :: "ApprovalRequestDraft \<Rightarrow> string \<Rightarrow> timestamp \<Rightarrow> Approval" where
  "new_approval d i at =
     \<lparr>approval_id = i, approval_action = ad_action d, requestedBy = ad_requestedBy d,
      approval_reason = ad_reason d, approval_status = Requested, requestedAt = at,
      decidedBy = None, decidedAt = None, expiresAt = ad_expiresAt d,
      decisionMetadata = or_else (ad_metadata d) []\<rparr>"

definition approval_request :: "ApprovalRequestDraft \<Rightarrow> ('x approval_state_scheme, Approval) op" where
  "approval_request d =
     thenS (liftE (validateApprovalRequest d))
     (bindS (createId ''approval'') (\<lambda>i.
      bindS now (\<lambda>at.
      let approval = new_approval d i at
      in thenS (upsert_approval approval) (returnS approval))))"

definition approval_get :: "string \<Rightarrow> ('x approval_state_scheme, Approval option) op" where
  "approval_get i = getsS (\<lambda>s. mem_findById i (approvals s))"

definition approval_require :: "string \<Rightarrow> ('x approval_state_scheme, Approval) op" where
  "approval_require i s = (case mem_findById i (approvals s) of
     None \<Rightarrow> (Inl (NotFoundError (''unknown approval: '' @ i)), s)
   | Some a \<Rightarrow> (Inr a, s))"

definition approval_list :: "('x approval_state_scheme, Approval list) op" where
  "approval_list = getsS (\<lambda>s. mem_list (approvals s))"

definition approval_pending :: "('x approval_state_scheme, Approval list) op" where
  "approval_pending = getsS (\<lambda>s. filter (\<lambda>a. approval_status a = Requested) (mem_list (approvals s)))"

definition mustBePending :: "string \<Rightarrow> ('x approval_state_scheme, Approval) op" where
  "mustBePending i = bindS (approval_require i) (\<lambda>a.
     if approval_status a \<noteq> Requested
     then throwS (StateTransitionError (''approval '' @ i @ '' is not pending (status: ''
            @ approval_status_str (approval_status a) @ '')''))
     else returnS a)"

definition approval_decide ::
  "string \<Rightarrow> Decision \<Rightarrow> string \<Rightarrow> fields \<Rightarrow> ('x approval_state_scheme, Approval) op" where
  "approval_decide i decision who metadata = bindS (mustBePending i) (\<lambda>a.
     bindS now (\<lambda>at.
     let next = a\<lparr>approval_status := decision_status decision, decidedBy := Some who,
                  decidedAt := Some at, decisionMetadata := spread (decisionMetadata a) metadata\<rparr>
     in thenS (upsert_approval next) (returnS next)))"

definition approval_expire :: "string \<Rightarrow> ('x approval_state_scheme, Approval) op" where
  "approval_expire i = bindS (mustBePending i) (\<lambda>a.
     bindS now (\<lambda>at.
     let next = a\<lparr>approval_status := Expired, decidedAt := Some at\<rparr>
     in thenS (upsert_approval next) (returnS next)))"

definition stale :: "timestamp \<Rightarrow> Approval \<Rightarrow> bool" where
  "stale asOf a = defined_and (\<lambda>e. e \<le> asOf) (expiresAt a)"

definition expireStale :: "timestamp \<Rightarrow> ('x approval_state_scheme, Approval list) op" where
  "expireStale asOf = bindS approval_pending (\<lambda>ps.
     mapS (\<lambda>a. approval_expire (approval_id a)) (filter (stale asOf) ps))"

section \<open>The lifecycle\<close>

fun APPROVAL_EDGES :: "ApprovalStatus \<Rightarrow> ApprovalStatus list" where
  "APPROVAL_EDGES Requested = [Approved, Rejected, Expired]"
| "APPROVAL_EDGES Approved = []"
| "APPROVAL_EDGES Rejected = []"
| "APPROVAL_EDGES Expired = []"

definition approval_frozen :: "Approval \<Rightarrow> string \<times> string \<times> string \<times> timestamp \<times> timestamp option" where
  "approval_frozen a =
     (approval_action a, requestedBy a, approval_reason a, requestedAt a, expiresAt a)"

text \<open>Requests do not check for a used id, so the store must be ahead of the counter.\<close>

abbreviation approvals_ok :: "'x approval_state_scheme \<Rightarrow> bool" where
  "approvals_ok \<equiv> store_ok approval_id ''approval'' approvals"

abbreviation approvals_keep :: "'x approval_state_scheme \<Rightarrow> 'x approval_state_scheme \<Rightarrow> bool" where
  "approvals_keep \<equiv> lifecycle_keeps approvals_ok approval_status approval_frozen APPROVAL_EDGES approvals"

interpretation approval_life: counted_lifecycle approval_id approval_status approval_frozen APPROVAL_EDGES
    "approvals :: 'x approval_state_scheme \<Rightarrow> Approval repo" "''approval''"
proof
  fix a show "a \<notin> set (APPROVAL_EDGES a)" by (cases a) auto
qed

lemma new_approval_simps [simp]:
  "approval_id (new_approval d i at) = i" "approval_status (new_approval d i at) = Requested"
  by (simp_all add: new_approval_def)

lemma approval_request_eq:
  "validateApprovalRequest d = Inr () \<Longrightarrow>
   approval_request d s =
     (let a = new_approval d (id_of ''approval'' (process_tag s) (Suc (seq s))) (time_at s (ticks s))
      in (Inr a, s\<lparr>seq := Suc (seq s), ticks := Suc (ticks s),
            approvals := mem_upsert approval_id a (approvals s)\<rparr>))"
  by (simp add: approval_request_def upsert_approval_def createId_eq now_def op_simps Let_def)

lemma approval_request_Inl: "validateApprovalRequest d = Inl e \<Longrightarrow> approval_request d s = (Inl e, s)"
  by (simp add: approval_request_def op_simps)

lemma keeps_approval_request [keeps_rules]: "keeps approvals_keep (approval_request d)"
proof (rule approval_life.keeps_creation)
  fix s :: "'x approval_state_scheme"
  let ?t = "snd (approval_request d s)"
  show "counter_moves s ?t \<and> (approvals ?t = approvals s \<or>
      (\<exists>e. approvals ?t = mem_upsert approval_id e (approvals s) \<and> drawn ''approval'' s ?t (approval_id e)))"
  proof (cases "validateApprovalRequest d")
    case (Inl e)
    then show ?thesis by (simp add: approval_request_Inl)
  next
    case (Inr u)
    let ?a = "new_approval d (id_of ''approval'' (process_tag s) (Suc (seq s))) (time_at s (ticks s))"
    have "approvals ?t = mem_upsert approval_id ?a (approvals s)" "counter_moves s ?t"
      "drawn ''approval'' s ?t (approval_id ?a)"
      using Inr by (auto simp: approval_request_eq Let_def counter_moves_def drawn_def)
    then show ?thesis by blast
  qed
qed

text \<open>A decision is taken on a pending record only, and writes it once.\<close>

lemma mustBePending_cases:
  obtains (failed) e where "mustBePending i s = (Inl e, s)"
  | (found) a where "mustBePending i s = (Inr a, s)" "mem_findById i (approvals s) = Some a"
      "approval_status a = Requested"
proof (cases "mem_findById i (approvals s)")
  case None
  then show thesis by (intro failed) (simp add: mustBePending_def approval_require_def op_simps)
next
  case (Some a)
  then show thesis
    by (cases "approval_status a = Requested")
      (auto simp: mustBePending_def approval_require_def op_simps intro: failed found)
qed

lemma mustBePending_state: "snd (mustBePending i s) = s"
  by (cases rule: mustBePending_cases [of i s]) simp_all

lemma mustBePending_found:
  "fst (mustBePending i s) = Inr a \<Longrightarrow>
     mem_findById i (approvals s) = Some a \<and> approval_status a = Requested"
  by (cases rule: mustBePending_cases [of i s]) simp_all

lemma upsert_approval_writes:
  "counter_moves s (snd (upsert_approval a s)) \<and>
   approvals (snd (upsert_approval a s)) = mem_upsert approval_id a (approvals s)"
  by (simp add: upsert_approval_def counter_moves_def)

lemma mustBePending_settled:
  "mem_findById i (approvals s) = Some a \<Longrightarrow> approval_status a \<noteq> Requested \<Longrightarrow>
   \<exists>e. mustBePending i s = (Inl (StateTransitionError e), s)"
  by (auto simp: mustBePending_def approval_require_def op_simps)

lemma approval_decided_final:
  assumes ok: "repo_ok approval_id (approvals s)" and run: "approval_decide i dec who md s = (Inr a, t)"
  shows "(\<exists>e. approval_decide i dec' who' md' t = (Inl (StateTransitionError e), t)) \<and>
    (\<exists>e. approval_expire i t = (Inl (StateTransitionError e), t)) \<and>
    mem_findById i (approvals t) = Some a \<and> approval_status a = decision_status dec"
proof (cases rule: mustBePending_cases [of i s])
  case (failed e)
  with run show ?thesis by (simp add: approval_decide_def op_simps)
next
  case (found b)
  have "approval_id b = i" using ok found(2) by (rule mem_find_key)
  then have a: "mem_findById i (approvals t) = Some a" "approval_status a = decision_status dec"
    using run found by (auto simp: approval_decide_def now_def upsert_approval_def op_simps Let_def)
  then have "approval_status a \<noteq> Requested" by (cases dec) simp_all
  with a obtain e where "mustBePending i t = (Inl (StateTransitionError e), t)"
    using mustBePending_settled by blast
  then show ?thesis using a by (simp add: approval_decide_def approval_expire_def op_simps)
qed

lemma settles_once:
  assumes "\<And>a at. approval_id (f a at) = approval_id a \<and> approval_frozen (f a at) = approval_frozen a
      \<and> approval_status (f a at) \<in> {Approved, Rejected, Expired}"
  shows "keeps approvals_keep (bindS (mustBePending i) (\<lambda>a. bindS now (\<lambda>at.
      thenS (upsert_approval (f a at)) (returnS (f a at)))))"
proof (rule approval_life.keeps_read_write)
  fix s :: "'x approval_state_scheme" and a at
  assume "fst (mustBePending i s) = Inr a"
  then have "approval_status a = Requested" by (simp add: mustBePending_found)
  then show "approval_id (f a at) = approval_id a \<and> approval_frozen (f a at) = approval_frozen a \<and>
      (approval_status (f a at) = approval_status a \<or>
       approval_status (f a at) \<in> set (APPROVAL_EDGES (approval_status a)))"
    using assms [of a at] by auto
qed (auto simp: mustBePending_state upsert_approval_writes dest: mustBePending_found)

lemma keeps_approval_decide [keeps_rules]: "keeps approvals_keep (approval_decide i dec who md)"
  unfolding approval_decide_def Let_def
  by (rule settles_once) (cases dec; simp add: approval_frozen_def)

lemma keeps_approval_expire [keeps_rules]: "keeps approvals_keep (approval_expire i)"
  unfolding approval_expire_def Let_def by (rule settles_once) (simp add: approval_frozen_def)

lemma keeps_expireStale [keeps_rules]: "keeps approvals_keep (expireStale asOf)"
  unfolding expireStale_def approval_pending_def
  by (intro approval_life.evo.keeps_intros keeps_approval_expire)

text \<open>Nothing here touches a task.\<close>

lemma approval_tasks [simp]:
  "tasks (snd (approval_request d s)) = tasks s"
  "tasks (snd (approval_decide i dec who md s)) = tasks s"
  "tasks (snd (approval_expire i s)) = tasks s"
  by (auto simp: approval_request_def approval_decide_def approval_expire_def mustBePending_def
      approval_require_def upsert_approval_def createId_eq now_def op_simps Let_def
      split: sum.splits option.splits)

lemma mapS_frame:
  assumes "\<And>x s. f (snd (g x s)) = f s"
  shows "f (snd (mapS g xs s)) = f s"
proof (induction xs arbitrary: s)
  case Nil
  then show ?case by simp
next
  case (Cons x xs)
  obtain r t where gx: "g x s = (r, t)" by fastforce
  have ft: "f t = f s" using assms [of x s] gx by simp
  obtain q u where rest: "mapS g xs t = (q, u)" by fastforce
  have "f u = f s" using Cons.IH [of t] rest ft by simp
  with gx rest ft show ?case by (cases r; cases q) (simp_all add: bindS_def)
qed

lemma expireStale_tasks [simp]: "tasks (snd (expireStale asOf s)) = tasks s"
  by (simp add: expireStale_def approval_pending_def bindS_def mapS_frame)

lemma approvals_frames:
  "counter_moves s (snd (now s)) \<and> approvals (snd (now s)) = approvals s"
  "counter_moves s (snd (createId pfx s)) \<and> approvals (snd (createId pfx s)) = approvals s"
  "counter_moves s (snd (audit ty t a p d s)) \<and> approvals (snd (audit ty t a p d s)) = approvals s"
  by (auto simp: counter_moves_def now_def createId_eq audit_def record_event_def op_simps Let_def
      intro: less_imp_le [OF free_seq_gt])

lemma approvals_frame_transition:
  "counter_moves s (snd (task_transition i to patch s)) \<and>
   approvals (snd (task_transition i to patch s)) = approvals s"
  by (cases rule: task_transition_cases [of i s to patch]) (simp_all add: counter_moves_def)

lemmas keeps_approvals_frame [keeps_rules] =
  approvals_frames [THEN approval_life.keeps_frame] approvals_frame_transition [THEN approval_life.keeps_frame]

end
