(* ===== verification/Json.thy ===== *)
theory Json
  imports Prelude
begin

text \<open>
  JavaScript text helpers of the modelled code: \<open>String.prototype.split\<close> on one character,
  \<open>JSON.stringify\<close> of a string, and the key-sorted rendering \<open>stableStringify\<close> of
  \<open>core/registry/agent-registry.ts\<close>. Numbers of the model are whole numbers.
\<close>

fun js_split :: "char \<Rightarrow> string \<Rightarrow> string list" where
  "js_split c [] = [[]]"
| "js_split c (d # ds) =
     (if d = c then [] # js_split c ds
      else case js_split c ds of [] \<Rightarrow> [[d]] | x # xs \<Rightarrow> (d # x) # xs)"

lemma js_split_not_Nil [simp]: "js_split c s \<noteq> []"
  by (induction s) (auto split: list.splits)

lemma js_join_Cons_Cons: "xs \<noteq> [] \<Longrightarrow> js_join sep (x # xs) = x @ sep @ js_join sep xs"
  by (cases xs) simp_all

lemma js_join_split: "js_join [c] (js_split c s) = s"
proof (induction s)
  case Nil
  show ?case by simp
next
  case (Cons d ds)
  then show ?case
    by (cases "js_split c ds"; cases "tl (js_split c ds)")
      (auto simp: js_join_Cons_Cons split: list.splits)
qed

lemma js_split_parts: "p \<in> set (js_split c s) \<Longrightarrow> c \<notin> set p"
  by (induction s arbitrary: p) (auto split: if_splits list.splits)

lemma js_split_atom: "c \<notin> set s \<Longrightarrow> js_split c s = [s]"
  by (induction s) auto

lemma js_split_append: "js_split c (s @ c # t) = js_split c s @ js_split c t"
proof (induction s)
  case (Cons d ds)
  then show ?case by (cases "js_split c ds") auto
qed simp

definition json_escape :: "char \<Rightarrow> string" where
  "json_escape c = (let n = (of_char c :: nat) in
     if n = 0x22 \<or> n = 0x5C then [CHR 0x5C, c]
     else if n = 8 then CHR 0x5C # ''b''
     else if n = 9 then CHR 0x5C # ''t''
     else if n = 10 then CHR 0x5C # ''n''
     else if n = 12 then CHR 0x5C # ''f''
     else if n = 13 then CHR 0x5C # ''r''
     else if n < 32 then CHR 0x5C # ''u00'' @ [digit (n div 16), digit (n mod 16)]
     else [c])"

definition json_quote :: "string \<Rightarrow> string" where
  "json_quote s = CHR 0x22 # concat (map json_escape s) @ [CHR 0x22]"

text \<open>Key-sorted JSON. An \<open>undefined\<close> renders as \<open>null\<close>; two bookkeeping keys are left out.\<close>

definition bookkeeping_key :: "string \<Rightarrow> bool" where
  "bookkeeping_key k \<longleftrightarrow> k = ''createdAt'' \<or> k = ''updatedAt''"

function stableStringify :: "(string \<Rightarrow> string \<Rightarrow> int) \<Rightarrow> json \<Rightarrow> string" where
  "stableStringify lc JUndefined = ''null''"
| "stableStringify lc JNull = ''null''"
| "stableStringify lc (JBool b) = (if b then ''true'' else ''false'')"
| "stableStringify lc (JNum i) = show_int i"
| "stableStringify lc (JStr s) = json_quote s"
| "stableStringify lc (JArr vs) = ''['' @ js_join '','' (map (stableStringify lc) vs) @ '']''"
| "stableStringify lc (JObj kvs) =
     ''{'' @ js_join '',''
       (map (\<lambda>(k, v). json_quote k @ '':'' @ stableStringify lc v)
          (js_sort (\<lambda>(a, _) (b, _). lc a b) (filter (\<lambda>(k, _). \<not> bookkeeping_key k) kvs))) @ ''}''"
  by pat_completeness auto
termination
proof (relation "measure (size \<circ> snd)")
  fix lc :: "string \<Rightarrow> string \<Rightarrow> int" and kvs :: fields and p k v
  assume "p \<in> set (js_sort (\<lambda>(a, _) (b, _). lc a b) (filter (\<lambda>(k, _). \<not> bookkeeping_key k) kvs))"
    and "(k, v) = p"
  then have "(k, v) \<in> set kvs" by auto
  then have "size v < Suc (size_list (size_prod (\<lambda>_. 0) size) kvs)"
    by (induction kvs) auto
  then show "((lc, v), (lc, JObj kvs)) \<in> measure (size \<circ> snd)" by simp
qed (auto simp: less_Suc_eq_le intro: size_list_estimation')

text \<open>
  \<open>JSON.stringify\<close>: \<open>undefined\<close> has no rendering, is left out of objects and is \<open>null\<close> in
  arrays. \<open>utf8_length\<close> is the length of the \<open>TextEncoder\<close> encoding of code units below 256.
\<close>

fun json_stringify :: "json \<Rightarrow> string option" where
  "json_stringify JUndefined = None"
| "json_stringify JNull = Some ''null''"
| "json_stringify (JBool b) = Some (if b then ''true'' else ''false'')"
| "json_stringify (JNum i) = Some (show_int i)"
| "json_stringify (JStr s) = Some (json_quote s)"
| "json_stringify (JArr vs) = Some (''['' @ js_join '',''
     (map (\<lambda>v. case json_stringify v of None \<Rightarrow> ''null'' | Some s \<Rightarrow> s) vs) @ '']'')"
| "json_stringify (JObj kvs) = Some (''{'' @ js_join '',''
     (concat (map (\<lambda>(k, v). case json_stringify v of None \<Rightarrow> [] | Some s \<Rightarrow> [json_quote k @ '':'' @ s]) kvs)) @ ''}'')"

definition utf8_length :: "string \<Rightarrow> nat" where
  "utf8_length s = sum_list (map (\<lambda>c. if (of_char c :: nat) < 128 then 1 else 2) s)"

lemma json_stringify_None: "json_stringify v = None \<longleftrightarrow> v = JUndefined"
  by (cases v) auto

lemma utf8_length_bounds: "length s \<le> utf8_length s \<and> utf8_length s \<le> 2 * length s"
  by (induction s) (auto simp: utf8_length_def)

section \<open>Lower case\<close>

definition code_unit :: "char \<Rightarrow> nat" where
  "code_unit c = of_char c"

text \<open>\<open>toLowerCase\<close> on code units below 256.\<close>

definition js_lower_char :: "char \<Rightarrow> char" where
  "js_lower_char c = (let n = code_unit c in
     if (65 \<le> n \<and> n \<le> 90) \<or> (192 \<le> n \<and> n \<le> 222 \<and> n \<noteq> 215) then char_of (n + 32) else c)"

definition js_lower :: "string \<Rightarrow> string" where
  "js_lower s = map js_lower_char s"

end
