(* ===== verification/Capabilities.thy ===== *)
theory Capabilities
  imports Contracts Json
begin

text \<open>
  \<open>contracts/capabilities.ts\<close>: the grammar of hierarchical capability ids, the registry of
  known ids with the legacy labels, and the satisfaction relation.
\<close>

section \<open>Grammar\<close>

definition MAX_CAPABILITY_SEGMENTS :: nat where
  "MAX_CAPABILITY_SEGMENTS = 3"

definition MAX_CAPABILITY_ID_LENGTH :: nat where
  "MAX_CAPABILITY_ID_LENGTH = 96"

definition lower_alnum :: "char \<Rightarrow> bool" where
  "lower_alnum c = (let n = (of_char c :: nat) in (48 \<le> n \<and> n \<le> 57) \<or> (97 \<le> n \<and> n \<le> 122))"

text \<open>\<open>/^[a-z0-9]+(?:_[a-z0-9]+)*$/\<close>: non-empty groups separated by single underscores.\<close>

definition CAPABILITY_SEGMENT_PATTERN :: "string \<Rightarrow> bool" where
  "CAPABILITY_SEGMENT_PATTERN s \<longleftrightarrow>
     list_all (\<lambda>g. g \<noteq> [] \<and> list_all lower_alnum g) (js_split (CHR ''_'') s)"

definition parseCapabilityId :: "string \<Rightarrow> string list option" where
  "parseCapabilityId i =
     (if length i = 0 \<or> length i > MAX_CAPABILITY_ID_LENGTH then None
      else let segments = js_split (CHR ''.'') i in
        if length segments > MAX_CAPABILITY_SEGMENTS then None
        else if list_ex (\<lambda>s. \<not> CAPABILITY_SEGMENT_PATTERN s) segments then None
        else Some segments)"

definition isCapabilityId :: "string \<Rightarrow> bool" where
  "isCapabilityId i \<longleftrightarrow> parseCapabilityId i \<noteq> None"

definition parentCapability :: "string \<Rightarrow> string option" where
  "parentCapability i = (case parseCapabilityId i of
     None \<Rightarrow> None
   | Some segments \<Rightarrow> if length segments < 2 then None else Some (js_join ''.'' (butlast segments)))"

definition rootCapability :: "string \<Rightarrow> string option" where
  "rootCapability i = map_option hd (parseCapabilityId i)"

section \<open>Known capabilities\<close>

record CapabilityDefinition =
  cap_id :: string
  cap_description :: string

definition CAPABILITY_TAXONOMY :: "CapabilityDefinition list" where
  "CAPABILITY_TAXONOMY = map (\<lambda>(i, d). \<lparr>cap_id = i, cap_description = d\<rparr>)
    [(''project'', ''Project-level planning and coordination.''),
     (''project.management'', ''Interpret objectives, decompose work, track progress.''),
     (''project.coordination'', ''Sequence specialists and manage handoffs.''),
     (''architecture'', ''System structure and boundaries.''),
     (''architecture.system'', ''System analysis, boundaries, integration points.''),
     (''architecture.decision'', ''Author governed architecture decision records.''),
     (''architecture.technology_selection'', ''Requirements-driven technology evaluation and selection.''),
     (''software'', ''Software construction.''),
     (''software.general'', ''Cross-stack implementation, integration and refactoring.''),
     (''software.frontend'', ''UI implementation, component design, accessibility.''),
     (''software.backend'', ''APIs, domain services, persistence, authorization.''),
     (''software.testing'', ''Test authoring and test execution.''),
     (''software.review'', ''Independent inspection of changes and evidence.''),
     (''software.security'', ''Security and compliance analysis.''),
     (''design'', ''Visual and interaction design.''),
     (''design.ui'', ''Design systems, hierarchy, layout, component design.''),
     (''design.interaction'', ''Interaction and motion specification.''),
     (''integration'', ''Connections to external systems.''),
     (''integration.github'', ''Governed source control: status, diff, branch, commit, push, PR.''),
     (''deployment'', ''Build, release and verify software artifacts.''),
     (''deployment.firebase'', ''Governed Firebase build, deploy and health verification.''),
     (''data'', ''Data engineering and analytics (future specialist).''),
     (''media.graphics'', ''3D and real-time graphics (future specialist).''),
     (''media.motion'', ''Motion and interaction engineering (future specialist).''),
     (''finance'', ''Finance and accounting work (future specialist).''),
     (''legal'', ''Legal and regulatory compliance (future specialist).''),
     (''research'', ''Research and knowledge synthesis (future specialist).'')]"

definition TAXONOMY_IDS :: "string list" where
  "TAXONOMY_IDS = map cap_id CAPABILITY_TAXONOMY"

definition isKnownCapability :: "string \<Rightarrow> bool" where
  "isKnownCapability i \<longleftrightarrow> i \<in> set TAXONOMY_IDS"

definition CAPABILITY_ALIASES :: "(string \<times> string) list" where
  "CAPABILITY_ALIASES =
    [(''control_plane_analysis'', ''research''),
     (''software_analysis'', ''software.general''),
     (''project-management'', ''project.management''),
     (''coordination'', ''project.coordination''),
     (''architecture'', ''architecture.system''),
     (''design'', ''design.ui''),
     (''tech-selection'', ''architecture.technology_selection''),
     (''coding'', ''software.general''),
     (''debugging'', ''software.general''),
     (''frontend'', ''software.frontend''),
     (''ui-development'', ''software.frontend''),
     (''backend'', ''software.backend''),
     (''api-development'', ''software.backend''),
     (''ui-design'', ''design.ui''),
     (''code-review'', ''software.review''),
     (''testing'', ''software.testing''),
     (''security-audit'', ''software.security''),
     (''git'', ''integration.github''),
     (''ci-cd'', ''deployment''),
     (''firebase'', ''deployment.firebase'')]"

text \<open>
  A label that names a member every object inherits (\<open>constructor\<close>) finds a value that is
  not a string, which no known id equals; the lookup is \<open>None\<close> here with the same result.
\<close>

definition canonicalizeCapability :: "string \<Rightarrow> string option" where
  "canonicalizeCapability raw =
     (let trimmed = js_trim raw in
      if trimmed = [] then None
      else if isKnownCapability trimmed then Some trimmed
      else case map_of CAPABILITY_ALIASES trimmed of
             None \<Rightarrow> None
           | Some aliased \<Rightarrow> if isKnownCapability aliased then Some aliased else None)"

fun canonicalize_from :: "string \<Rightarrow> string list \<Rightarrow> string list \<Rightarrow> string list res" where
  "canonicalize_from field seen [] = Inr seen"
| "canonicalize_from field seen (entry # raw) = (case canonicalizeCapability entry of
     None \<Rightarrow> Inl (ValidationError (field @ '' contains unknown capability: '' @ json_quote entry))
   | Some canonical \<Rightarrow>
       canonicalize_from field (if canonical \<in> set seen then seen else seen @ [canonical]) raw)"

definition canonicalizeCapabilities :: "string list \<Rightarrow> string \<Rightarrow> string list res" where
  "canonicalizeCapabilities raw field = canonicalize_from field [] raw"

section \<open>Satisfaction\<close>

definition capabilitySatisfies :: "string \<Rightarrow> string \<Rightarrow> bool" where
  "capabilitySatisfies offered required =
     (if offered = required then True
      else if \<not> isCapabilityId offered \<or> \<not> isCapabilityId required then False
      else js_startsWith required (offered @ ''.''))"

definition satisfiedCapabilities :: "string list \<Rightarrow> string list \<Rightarrow> string list" where
  "satisfiedCapabilities offered required =
     filter (\<lambda>r. list_ex (\<lambda>o'. capabilitySatisfies o' r) offered) required"

definition missingCapabilities :: "string list \<Rightarrow> string list \<Rightarrow> string list" where
  "missingCapabilities offered required =
     filter (\<lambda>r. \<not> list_ex (\<lambda>o'. capabilitySatisfies o' r) offered) required"

section \<open>Facts\<close>

lemma parse_segments: "parseCapabilityId i = Some segs \<Longrightarrow> js_join ''.'' segs = i \<and> segs = js_split (CHR ''.'') i"
  by (auto simp: parseCapabilityId_def Let_def js_join_split split: if_splits)

lemma known_ids_valid: "list_all isCapabilityId TAXONOMY_IDS"
  by (simp add: TAXONOMY_IDS_def CAPABILITY_TAXONOMY_def isCapabilityId_def parseCapabilityId_def
      MAX_CAPABILITY_ID_LENGTH_def MAX_CAPABILITY_SEGMENTS_def CAPABILITY_SEGMENT_PATTERN_def lower_alnum_def)

lemma known_is_capability: "isKnownCapability i \<Longrightarrow> isCapabilityId i"
  using known_ids_valid by (auto simp: isKnownCapability_def list_all_iff)

lemma aliases_known: "list_all (\<lambda>(l, c). isKnownCapability c) CAPABILITY_ALIASES"
  by (simp add: CAPABILITY_ALIASES_def isKnownCapability_def TAXONOMY_IDS_def CAPABILITY_TAXONOMY_def)

lemma canonicalize_known: "canonicalizeCapability raw = Some c \<Longrightarrow> isKnownCapability c"
  by (auto simp: canonicalizeCapability_def Let_def split: if_splits option.splits)

lemma known_ids_trimmed: "list_all (\<lambda>i. js_trim i = i \<and> i \<noteq> []) TAXONOMY_IDS"
  by (simp add: TAXONOMY_IDS_def CAPABILITY_TAXONOMY_def js_trim_def js_space_def)

lemma canonicalize_fixpoint: "isKnownCapability c \<Longrightarrow> canonicalizeCapability c = Some c"
  using known_ids_trimmed by (auto simp: canonicalizeCapability_def isKnownCapability_def list_all_iff)

lemma canonicalize_from_Inr:
  "canonicalize_from field seen raw = Inr cs \<Longrightarrow> distinct seen \<Longrightarrow>
     distinct cs \<and> set cs = set seen \<union> {c. \<exists>e \<in> set raw. canonicalizeCapability e = Some c}"
proof (induction field seen raw rule: canonicalize_from.induct)
  case (2 field seen entry raw)
  then show ?case by (auto split: option.splits if_splits)
qed simp

lemma canonicalize_from_total:
  "(\<exists>cs. canonicalize_from field seen raw = Inr cs) \<longleftrightarrow>
     (\<forall>e \<in> set raw. canonicalizeCapability e \<noteq> None)"
  by (induction field seen raw rule: canonicalize_from.induct) (auto split: option.splits)

lemma canonicalizeCapabilities_Inr:
  assumes "canonicalizeCapabilities raw field = Inr cs"
  shows "distinct cs" "c \<in> set cs \<Longrightarrow> isKnownCapability c"
    "set cs = {c. \<exists>e \<in> set raw. canonicalizeCapability e = Some c}"
  using canonicalize_from_Inr [OF assms [unfolded canonicalizeCapabilities_def]]
  by (auto dest: canonicalize_known)

text \<open>Satisfaction is the ancestor order on ids, extended by equality.\<close>

lemma satisfies_iff:
  "capabilitySatisfies a b \<longleftrightarrow>
     a = b \<or> (isCapabilityId a \<and> isCapabilityId b \<and> (\<exists>t. b = a @ ''.'' @ t))"
  by (auto simp: capabilitySatisfies_def js_startsWith_iff)

lemma satisfies_refl [simp]: "capabilitySatisfies a a"
  by (simp add: satisfies_iff)

lemma satisfies_trans: "capabilitySatisfies a b \<Longrightarrow> capabilitySatisfies b c \<Longrightarrow> capabilitySatisfies a c"
  by (auto simp: satisfies_iff)

lemma satisfies_antisym: "capabilitySatisfies a b \<Longrightarrow> capabilitySatisfies b a \<Longrightarrow> a = b"
  by (auto simp: satisfies_iff)

lemma satisfied_missing_partition:
  "set (satisfiedCapabilities offered required) \<union> set (missingCapabilities offered required) = set required"
  "set (satisfiedCapabilities offered required) \<inter> set (missingCapabilities offered required) = {}"
  by (auto simp: satisfiedCapabilities_def missingCapabilities_def)

lemma missing_Nil_iff:
  "missingCapabilities offered required = [] \<longleftrightarrow>
     (\<forall>r \<in> set required. \<exists>o' \<in> set offered. capabilitySatisfies o' r)"
  by (auto simp: missingCapabilities_def filter_empty_conv list_ex_iff)

lemma missing_mono:
  "set offered \<subseteq> set offered' \<Longrightarrow> set (missingCapabilities offered' required) \<subseteq> set (missingCapabilities offered required)"
  by (auto simp: missingCapabilities_def list_ex_iff)

end
