(* ===== verification/Workforce.thy ===== *)
theory Workforce
  imports Capabilities "HOL-Library.Multiset"
begin

text \<open>
  \<open>contracts/workforce.ts\<close>: the specialist agent descriptor, its administrative lifecycle and
  risk order, and \<open>validateAgentDescriptor\<close>, the gate every registered descriptor passes.
  Numbers are whole numbers, so \<open>Number.isInteger\<close> and \<open>Number.isFinite\<close> hold by typing;
  execution capabilities, the project mode and the literal-typed flags are tested as written.
\<close>

section \<open>Lifecycle, states and risk\<close>

datatype AgentAdministrativeStatus = Draft | Active | Suspended | Disabled | Retired

datatype AgentInstanceState = Available | Assigned | Busy | Waiting | InstanceBlocked | Offline

datatype AgentRiskLevel = RiskLow | RiskModerate | RiskHigh | RiskCritical

definition AGENT_INSTANCE_STATES :: "AgentInstanceState list" where
  "AGENT_INSTANCE_STATES = [Available, Assigned, Busy, Waiting, InstanceBlocked, Offline]"

fun administrative_str :: "AgentAdministrativeStatus \<Rightarrow> string" where
  "administrative_str Draft = ''draft''"
| "administrative_str Active = ''active''"
| "administrative_str Suspended = ''suspended''"
| "administrative_str Disabled = ''disabled''"
| "administrative_str Retired = ''retired''"

fun risk_str :: "AgentRiskLevel \<Rightarrow> string" where
  "risk_str RiskLow = ''low''"
| "risk_str RiskModerate = ''moderate''"
| "risk_str RiskHigh = ''high''"
| "risk_str RiskCritical = ''critical''"

fun ADMINISTRATIVE_TRANSITIONS :: "AgentAdministrativeStatus \<Rightarrow> AgentAdministrativeStatus list" where
  "ADMINISTRATIVE_TRANSITIONS Draft = [Active, Retired]"
| "ADMINISTRATIVE_TRANSITIONS Active = [Suspended, Disabled, Retired]"
| "ADMINISTRATIVE_TRANSITIONS Suspended = [Active, Disabled, Retired]"
| "ADMINISTRATIVE_TRANSITIONS Disabled = [Active, Retired]"
| "ADMINISTRATIVE_TRANSITIONS Retired = []"

definition canTransitionAdministrative :: "AgentAdministrativeStatus \<Rightarrow> AgentAdministrativeStatus \<Rightarrow> bool" where
  "canTransitionAdministrative from to \<longleftrightarrow> to \<in> set (ADMINISTRATIVE_TRANSITIONS from)"

definition acceptsNewAssignments :: "AgentAdministrativeStatus \<Rightarrow> bool" where
  "acceptsNewAssignments status \<longleftrightarrow> status = Active"

fun RISK_RANK :: "AgentRiskLevel \<Rightarrow> nat" where
  "RISK_RANK RiskLow = 0"
| "RISK_RANK RiskModerate = 1"
| "RISK_RANK RiskHigh = 2"
| "RISK_RANK RiskCritical = 3"

definition riskWithinCeiling :: "AgentRiskLevel \<Rightarrow> AgentRiskLevel \<Rightarrow> bool" where
  "riskWithinCeiling actual ceiling \<longleftrightarrow> RISK_RANK actual \<le> RISK_RANK ceiling"

lemma RISK_RANK_inj: "RISK_RANK a = RISK_RANK b \<longleftrightarrow> a = b"
  by (cases a; cases b) simp_all

text \<open>The risk levels are a linear order, read off the rank table.\<close>

instantiation AgentRiskLevel :: linorder
begin

definition less_eq_AgentRiskLevel :: "AgentRiskLevel \<Rightarrow> AgentRiskLevel \<Rightarrow> bool" where
  "less_eq_AgentRiskLevel a b \<longleftrightarrow> RISK_RANK a \<le> RISK_RANK b"

definition less_AgentRiskLevel :: "AgentRiskLevel \<Rightarrow> AgentRiskLevel \<Rightarrow> bool" where
  "less_AgentRiskLevel a b \<longleftrightarrow> RISK_RANK a < RISK_RANK b"

instance
  by intro_classes
    (auto simp: less_eq_AgentRiskLevel_def less_AgentRiskLevel_def RISK_RANK_inj [symmetric])

end

lemma riskWithinCeiling_le: "riskWithinCeiling a c \<longleftrightarrow> a \<le> c"
  by (simp add: riskWithinCeiling_def less_eq_AgentRiskLevel_def)

section \<open>Identifiers\<close>

definition MAX_AGENT_ID_LENGTH :: nat where
  "MAX_AGENT_ID_LENGTH = 64"

definition MAX_AGENT_DEFINITIONS :: nat where
  "MAX_AGENT_DEFINITIONS = 512"

definition FORBIDDEN_ID_KEYS :: "string list" where
  "FORBIDDEN_ID_KEYS = [''__proto__'', ''constructor'', ''prototype'']"

definition isSafeIdentifier :: "string \<Rightarrow> bool" where
  "isSafeIdentifier v \<longleftrightarrow> length v > 0 \<and> length v \<le> MAX_AGENT_ID_LENGTH \<and>
     v \<notin> set FORBIDDEN_ID_KEYS \<and> ident_pattern ''._-'' v"

definition isSafePrincipal :: "string \<Rightarrow> bool" where
  "isSafePrincipal v \<longleftrightarrow> length v > 0 \<and> length v \<le> 200 \<and>
     v \<notin> set FORBIDDEN_ID_KEYS \<and> ident_pattern ''._:@/-'' v"

lemma ident_pattern_chars: "ident_pattern extra s \<Longrightarrow> c \<in> set s \<Longrightarrow> js_alnum c \<or> c \<in> set extra"
  by (auto simp: ident_pattern_def list_all_iff split: list.splits)

lemma safe_identifier_chars: "isSafeIdentifier v \<Longrightarrow> c \<in> set v \<Longrightarrow> js_alnum c \<or> c \<in> set ''._-''"
  unfolding isSafeIdentifier_def by (blast dest: ident_pattern_chars)

section \<open>Descriptors and instances\<close>

record AgentToolPolicy =
  maxExecutionCapabilities :: "string list"
  deniedExecutionCapabilities :: "string list"
  allowsUnrestrictedShell :: bool

record AgentProjectPolicy =
  pp_mode :: string
  pp_projects :: "string list"

record AgentEnvironmentRequirements =
  requiredEnvironmentTypes :: "string list"
  acceptsAnyEnvironmentType :: bool

record AgentQualificationProfile =
  q_technologies :: "string list"
  maxRiskLevel :: AgentRiskLevel
  requiredToolCapabilities :: "string list"
  reviewRequiredFromRiskLevel :: AgentRiskLevel

record AgentReviewPolicy =
  requiresIndependentReview :: bool
  minimumReviewers :: int
  selfReviewAllowed :: bool

record AgentHandoffPolicy =
  canDelegateTo :: "string list"
  requiresDestinationAcceptance :: bool

record AgentCostPolicy =
  costCenter :: string
  maxCostPerExecutionUsd :: "int option"
  attestsUsage :: bool

record AgentDescriptor = Agent +
  displayName :: string
  agent_role :: string
  department :: string
  avatarUrl :: "string option"
  costPerHour :: "int option"
  limitations :: "string list"
  administrativeStatus :: AgentAdministrativeStatus
  agent_version :: int
  qualification :: AgentQualificationProfile
  environmentRequirements :: AgentEnvironmentRequirements
  toolPolicy :: AgentToolPolicy
  projectPolicy :: AgentProjectPolicy
  riskProfile :: AgentRiskLevel
  reviewPolicy :: AgentReviewPolicy
  handoffPolicy :: AgentHandoffPolicy
  costPolicy :: AgentCostPolicy
  agent_createdAt :: "timestamp option"
  agent_updatedAt :: "timestamp option"

record AgentInstance =
  inst_id :: string
  descriptorId :: string
  descriptorVersion :: int
  operationalState :: AgentInstanceState
  inst_projectId :: "string option"
  currentAssignmentId :: "string option"
  currentTaskId :: "string option"
  inst_createdAt :: timestamp
  inst_updatedAt :: timestamp
  inst_metadata :: "fields option"

section \<open>Validation\<close>

definition EXECUTION_CAPABILITIES :: "string list" where
  "EXECUTION_CAPABILITIES =
    [''filesystem.read'', ''filesystem.write.workspace'', ''filesystem.delete.workspace'',
     ''filesystem.write.protected'', ''repository.read'', ''repository.write'', ''repository.commit'',
     ''repository.push'', ''repository.branch.manage'', ''process.invoke.bounded'',
     ''network.outbound.allowed-host'', ''artifact.write'', ''test.invoke'', ''build.invoke'',
     ''security.scan.invoke'', ''deploy.invoke'', ''secret.reference.use'']"

definition requireText_max :: "string \<Rightarrow> string \<Rightarrow> nat \<Rightarrow> unit res" where
  "requireText_max v field mx = checks
     [throw_if (js_trim v = []) (ValidationError (field @ '' must be a non-empty string'')),
      throw_if (length v > mx)
        (ValidationError (field @ '' must be at most '' @ show_nat mx @ '' characters''))]"

definition requireStringList :: "string list \<Rightarrow> string \<Rightarrow> nat \<Rightarrow> nat \<Rightarrow> unit res" where
  "requireStringList v field maxItems maxLength = checks
     [throw_if (length v > maxItems)
        (ValidationError (field @ '' must contain at most '' @ show_nat maxItems @ '' entries'')),
      check_indexed (\<lambda>i entry. requireText_max entry (field @ ''['' @ show_nat i @ '']'') maxLength) v]"

definition requireExecutionCapabilities :: "string list \<Rightarrow> string \<Rightarrow> unit res" where
  "requireExecutionCapabilities v field = checks
     [requireStringList v field (length EXECUTION_CAPABILITIES) MAX_CAPABILITY_ID_LENGTH,
      check_all (\<lambda>entry. throw_if (entry \<notin> set EXECUTION_CAPABILITIES)
        (ValidationError (field @ '' contains unknown execution capability: '' @ json_quote entry))) v]"

definition UNSAFE_METADATA_KEYS :: "string list" where
  "UNSAFE_METADATA_KEYS = [''__proto__'', ''constructor'', ''prototype'']"

fun validateSafeMetadata :: "json \<Rightarrow> string \<Rightarrow> nat \<Rightarrow> unit res"
  and validate_entries :: "fields \<Rightarrow> string \<Rightarrow> nat \<Rightarrow> unit res"
where
  "validateSafeMetadata JUndefined field depth = Inr ()"
| "validateSafeMetadata (JObj entries) field depth =
     (if depth > 4 then Inl (ValidationError (field @ '' is nested too deeply''))
      else validate_entries entries field depth)"
| "validateSafeMetadata v field depth =
     (if depth > 4 then Inl (ValidationError (field @ '' is nested too deeply''))
      else Inl (ValidationError (field @ '' must be a plain object'')))"
| "validate_entries [] field depth = Inr ()"
| "validate_entries ((k, entry) # rest) field depth = checks
     [throw_if (k \<in> set UNSAFE_METADATA_KEYS) (ValidationError (field @ '' contains a reserved key: '' @ k)),
      throw_if (length k > 128) (ValidationError (field @ '' contains an invalid key'')),
      (case entry of
         JStr s \<Rightarrow> throw_if (length s > 4096) (ValidationError (field @ ''.'' @ k @ '' is too long''))
       | JArr vs \<Rightarrow> validateSafeMetadata (JArr vs) (field @ ''.'' @ k) (depth + 1)
       | JObj kvs \<Rightarrow> validateSafeMetadata (JObj kvs) (field @ ''.'' @ k) (depth + 1)
       | _ \<Rightarrow> Inr ()),
      validate_entries rest field depth]"

definition metadata_json :: "fields option \<Rightarrow> json" where
  "metadata_json m = (case m of None \<Rightarrow> JUndefined | Some kvs \<Rightarrow> JObj kvs)"

text \<open>\<open>Array.prototype.sort\<close> without a comparison function orders by code units.\<close>

fun str_less :: "string \<Rightarrow> string \<Rightarrow> bool" where
  "str_less [] [] = False"
| "str_less [] (c # cs) = True"
| "str_less (c # cs) [] = False"
| "str_less (c # cs) (d # ds) =
     ((of_char c :: nat) < of_char d \<or> (c = d \<and> str_less cs ds))"

definition code_unit_cmp :: "string \<Rightarrow> string \<Rightarrow> int" where
  "code_unit_cmp a b = (if a = b then 0 else if str_less a b then -1 else 1)"

definition js_default_sort :: "string list \<Rightarrow> string list" where
  "js_default_sort = js_sort code_unit_cmp"

end
