(* ===== verification/Descriptors.thy ===== *)
theory Descriptors
  imports Workforce
begin

text \<open>
  \<open>validateAgentDescriptor\<close> and \<open>validateAgentInstance\<close> of \<open>contracts/workforce.ts\<close>, one
  definition per section of the validator, and what a registrable descriptor satisfies.
\<close>

definition validate_identity :: "'x AgentDescriptor_scheme \<Rightarrow> unit res" where
  "validate_identity d = checks
     [throw_if (\<not> isSafeIdentifier (agent_id d))
        (ValidationError ''agent descriptor id must match /^[A-Za-z0-9][A-Za-z0-9._-]*$/ and be at most 64 characters''),
      requireText_max (agent_name d) ''agent.name'' 120,
      requireText_max (displayName d) ''agent.displayName'' 120,
      requireText_max (agent_role d) ''agent.role'' 80,
      requireText_max (department d) ''agent.department'' 80,
      requireText_max (agent_description d) ''agent.description'' 2000,
      throw_if (agent_version d < 1 \<or> agent_version d > 100000)
        (ValidationError ''agent.version must be an integer >= 1'')]"

definition check_redundant :: "string list \<Rightarrow> unit res" where
  "check_redundant cs = check_all (\<lambda>c. case parentCapability c of None \<Rightarrow> Inr ()
     | Some parent \<Rightarrow> throw_if (parent \<noteq> [] \<and> parent \<in> set cs)
         (ValidationError (''agent.capabilities declares \"'' @ parent @ ''\" and its child \"'' @ c
            @ ''\"; the parent is redundant''))) cs"

definition validate_capabilities :: "'x AgentDescriptor_scheme \<Rightarrow> string list res" where
  "validate_capabilities d =
     bindE (requireStringList (capabilities d) ''agent.capabilities'' 128 MAX_CAPABILITY_ID_LENGTH) (\<lambda>_.
     bindE (canonicalizeCapabilities (capabilities d) ''agent.capabilities'') (\<lambda>cs.
     bindE (checks
       [throw_if (length cs = 0) (ValidationError ''agent.capabilities must not be empty''),
        check_redundant cs,
        requireStringList (limitations d) ''agent.limitations'' 64 400]) (\<lambda>_. Inr cs)))"

definition validate_model_policy :: "'x AgentDescriptor_scheme \<Rightarrow> unit res" where
  "validate_model_policy d =
     (let provider = (case modelPolicy d of None \<Rightarrow> None | Some p \<Rightarrow> map_option js_trim (mp_provider p));
          model = (case modelPolicy d of None \<Rightarrow> None | Some p \<Rightarrow> mp_model p)
      in checks
        [throw_if (\<not> truthy provider)
           (ValidationError ''agent.modelPolicy.provider is required: an agent with no model policy can never be routed to a model''),
         throw_if (defined_and (\<lambda>m. js_trim m = []) model)
           (ValidationError ''agent.modelPolicy.model must be a non-empty string'')])"

definition validate_qualification :: "'x AgentDescriptor_scheme \<Rightarrow> unit res" where
  "validate_qualification d = checks
     [requireStringList (q_technologies (qualification d)) ''agent.qualification.technologies'' 64
        MAX_CAPABILITY_ID_LENGTH,
      throw_if (\<not> riskWithinCeiling (riskProfile d) (maxRiskLevel (qualification d)))
        (ValidationError ''agent.riskProfile cannot exceed agent.qualification.maxRiskLevel''),
      requireExecutionCapabilities (requiredToolCapabilities (qualification d))
        ''agent.qualification.requiredToolCapabilities'']"

definition validate_environment :: "'x AgentDescriptor_scheme \<Rightarrow> unit res" where
  "validate_environment d =
     (let e = environmentRequirements d in checks
        [requireStringList (requiredEnvironmentTypes e)
           ''agent.environmentRequirements.requiredEnvironmentTypes'' 32 MAX_CAPABILITY_ID_LENGTH,
         throw_if (length (requiredEnvironmentTypes e) > 0 \<and> acceptsAnyEnvironmentType e)
           (ValidationError ''agent.environmentRequirements cannot both require specific environment types and accept any'')])"

definition validate_tool_policy :: "'x AgentDescriptor_scheme \<Rightarrow> unit res" where
  "validate_tool_policy d =
     (let p = toolPolicy d;
          overlap = filter (\<lambda>c. c \<in> set (deniedExecutionCapabilities p)) (maxExecutionCapabilities p)
      in checks
        [requireExecutionCapabilities (maxExecutionCapabilities p) ''agent.toolPolicy.maxExecutionCapabilities'',
         requireExecutionCapabilities (deniedExecutionCapabilities p) ''agent.toolPolicy.deniedExecutionCapabilities'',
         throw_if (allowsUnrestrictedShell p)
           (ValidationError ''agent.toolPolicy.allowsUnrestrictedShell must be false: no agent holds unrestricted shell authority''),
         throw_if (length overlap > 0)
           (ValidationError (''agent.toolPolicy both allows and denies: '' @ js_join '', '' overlap))])"

definition validate_project_policy :: "'x AgentDescriptor_scheme \<Rightarrow> unit res" where
  "validate_project_policy d =
     (let p = projectPolicy d in checks
        [throw_if (pp_mode p \<noteq> ''allow_list'')
           (ValidationError ''agent.projectPolicy.mode must be \"allow_list\"''),
         requireStringList (pp_projects p) ''agent.projectPolicy.projects'' 256 MAX_CAPABILITY_ID_LENGTH,
         check_all (\<lambda>project. throw_if (\<not> isSafeIdentifier project)
           (ValidationError (''agent.projectPolicy.projects contains an invalid project id: '' @ json_quote project)))
           (pp_projects p),
         throw_if (js_join [CHR 0x00] (js_default_sort (allowedProjects d))
                     \<noteq> js_join [CHR 0x00] (js_default_sort (pp_projects p)))
           (ValidationError ''agent.allowedProjects must equal agent.projectPolicy.projects'')])"

definition validate_review_policy :: "'x AgentDescriptor_scheme \<Rightarrow> unit res" where
  "validate_review_policy d =
     (let p = reviewPolicy d in checks
        [throw_if (minimumReviewers p < 0 \<or> minimumReviewers p > 8)
           (ValidationError ''agent.reviewPolicy.minimumReviewers must be an integer between 0 and 8''),
         throw_if (selfReviewAllowed p)
           (ValidationError ''agent.reviewPolicy.selfReviewAllowed must be false: an implementer may never review its own change''),
         throw_if (requiresIndependentReview p \<and> minimumReviewers p < 1)
           (ValidationError ''agent.reviewPolicy requires independent review but demands fewer than one reviewer'')])"

definition validate_handoff_policy :: "string list \<Rightarrow> 'x AgentDescriptor_scheme \<Rightarrow> unit res" where
  "validate_handoff_policy cs d =
     (let delegates = canDelegateTo (handoffPolicy d) in checks
        [requireStringList delegates ''agent.handoffPolicy.canDelegateTo'' 64 MAX_CAPABILITY_ID_LENGTH,
         check_all (\<lambda>c. checks
           [throw_if (\<not> isCapabilityId c)
              (ValidationError (''agent.handoffPolicy.canDelegateTo contains a non-canonical capability: '' @ json_quote c)),
            throw_if (c \<in> set cs)
              (ValidationError (''agent.handoffPolicy.canDelegateTo declares \"'' @ c @ ''\", which the agent itself provides''))])
           delegates])"

definition validate_cost_policy :: "'x AgentDescriptor_scheme \<Rightarrow> unit res" where
  "validate_cost_policy d =
     (let p = costPolicy d in checks
        [requireText_max (costCenter p) ''agent.costPolicy.costCenter'' 80,
         throw_if (defined_and (\<lambda>c. c \<le> 0) (maxCostPerExecutionUsd p))
           (ValidationError ''agent.costPolicy.maxCostPerExecutionUsd must be a positive finite number when declared''),
         throw_if (\<not> attestsUsage p)
           (ValidationError ''agent.costPolicy.attestsUsage must be true: UNKNOWN COST IS NOT ZERO COST'')])"

definition validate_presentation :: "'x AgentDescriptor_scheme \<Rightarrow> unit res" where
  "validate_presentation d = checks
     [validateSafeMetadata (metadata_json (agent_metadata d)) ''agent.metadata'' 0,
      (case avatarUrl d of None \<Rightarrow> Inr () | Some u \<Rightarrow> requireText_max u ''agent.avatarUrl'' 2048),
      throw_if (defined_and (\<lambda>c. c < 0) (costPerHour d))
        (ValidationError ''agent.costPerHour must be a non-negative number''),
      validateAgent d]"

definition validateAgentDescriptor :: "'x AgentDescriptor_scheme \<Rightarrow> unit res" where
  "validateAgentDescriptor d =
     bindE (validate_identity d) (\<lambda>_.
     bindE (validate_capabilities d) (\<lambda>cs. checks
       [validate_model_policy d, validate_qualification d, validate_environment d,
        validate_tool_policy d, validate_project_policy d, validate_review_policy d,
        validate_handoff_policy cs d, validate_cost_policy d, validate_presentation d]))"

definition validateAgentInstance :: "AgentInstance \<Rightarrow> unit res" where
  "validateAgentInstance i = checks
     [throw_if (\<not> isSafeIdentifier (inst_id i)) (ValidationError ''agent instance id is invalid''),
      throw_if (\<not> isSafeIdentifier (descriptorId i))
        (ValidationError ''agent instance descriptorId is invalid''),
      throw_if (descriptorVersion i < 1)
        (ValidationError ''agent instance descriptorVersion must be an integer >= 1''),
      throw_if (operationalState i \<notin> set AGENT_INSTANCE_STATES)
        (ValidationError ''agent instance operationalState is not a known state''),
      throw_if (defined_and (\<lambda>p. \<not> isSafeIdentifier p) (inst_projectId i))
        (ValidationError ''agent instance projectId is invalid''),
      validateSafeMetadata (metadata_json (inst_metadata i)) ''agent instance metadata'' 0]"

section \<open>What a registrable descriptor satisfies\<close>

lemma bindE_unit_Inr: "bindE r f = Inr () \<longleftrightarrow> (\<exists>x. r = Inr x \<and> f x = Inr ())"
  by (rule bindE_Inr_iff)

lemma validate_capabilities_Inr:
  "validate_capabilities d = Inr cs \<longleftrightarrow>
     requireStringList (capabilities d) ''agent.capabilities'' 128 MAX_CAPABILITY_ID_LENGTH = Inr () \<and>
     canonicalizeCapabilities (capabilities d) ''agent.capabilities'' = Inr cs \<and> cs \<noteq> [] \<and>
     check_redundant cs = Inr () \<and>
     requireStringList (limitations d) ''agent.limitations'' 64 400 = Inr ()"
  by (auto simp: validate_capabilities_def bindE_Inr_iff checks_Inr_iff)

text \<open>The sections of an accepted descriptor, for the lemmas below.\<close>

lemma validateAgentDescriptor_InrE:
  assumes "validateAgentDescriptor d = Inr ()"
  obtains cs where "validate_identity d = Inr ()" "validate_capabilities d = Inr cs"
    "validate_model_policy d = Inr ()" "validate_qualification d = Inr ()"
    "validate_environment d = Inr ()" "validate_tool_policy d = Inr ()"
    "validate_project_policy d = Inr ()" "validate_review_policy d = Inr ()"
    "validate_handoff_policy cs d = Inr ()" "validate_cost_policy d = Inr ()"
    "validate_presentation d = Inr ()"
  using assms by (auto simp: validateAgentDescriptor_def bindE_Inr_iff checks_Inr_iff)

lemma descriptor_safe_id:
  "validateAgentDescriptor d = Inr () \<Longrightarrow> isSafeIdentifier (agent_id d)"
  by (erule validateAgentDescriptor_InrE) (simp add: validate_identity_def checks_Inr_iff)

lemma descriptor_version_pos:
  "validateAgentDescriptor d = Inr () \<Longrightarrow> 1 \<le> agent_version d \<and> agent_version d \<le> 100000"
  by (erule validateAgentDescriptor_InrE) (simp add: validate_identity_def checks_Inr_iff)

lemma descriptor_no_self_review:
  assumes "validateAgentDescriptor d = Inr ()"
  shows "\<not> selfReviewAllowed (reviewPolicy d)"
    and "requiresIndependentReview (reviewPolicy d) \<Longrightarrow> 1 \<le> minimumReviewers (reviewPolicy d)"
  using assms by (auto elim!: validateAgentDescriptor_InrE simp: validate_review_policy_def checks_Inr_iff Let_def)

lemma descriptor_risk_ceiling:
  "validateAgentDescriptor d = Inr () \<Longrightarrow> riskProfile d \<le> maxRiskLevel (qualification d)"
  by (erule validateAgentDescriptor_InrE)
    (simp add: validate_qualification_def checks_Inr_iff riskWithinCeiling_le)

lemma descriptor_tool_policy:
  assumes "validateAgentDescriptor d = Inr ()"
  shows "set (maxExecutionCapabilities (toolPolicy d)) \<inter> set (deniedExecutionCapabilities (toolPolicy d)) = {}"
    and "set (maxExecutionCapabilities (toolPolicy d)) \<subseteq> set EXECUTION_CAPABILITIES"
    and "\<not> allowsUnrestrictedShell (toolPolicy d)"
  using assms
  by (auto elim!: validateAgentDescriptor_InrE
      simp: validate_tool_policy_def requireExecutionCapabilities_def checks_Inr_iff Let_def filter_empty_conv)

text \<open>A canonical declaration has no ancestor of another: the offered set is an antichain.\<close>

lemma descriptor_capabilities_known:
  assumes "validateAgentDescriptor d = Inr ()" and "c \<in> set (capabilities d)"
  shows "\<exists>k. canonicalizeCapability c = Some k \<and> isKnownCapability k"
proof -
  from assms(1) obtain cs where
    "canonicalizeCapabilities (capabilities d) ''agent.capabilities'' = Inr cs"
    by (elim validateAgentDescriptor_InrE) (simp add: validate_capabilities_Inr)
  then have "canonicalizeCapability c \<noteq> None"
    using canonicalize_from_total [of "''agent.capabilities''" "[]" "capabilities d"] assms(2)
    by (auto simp: canonicalizeCapabilities_def)
  then show ?thesis using canonicalize_known by blast
qed

text \<open>Sorting with the code-unit order is a permutation, so equal joins mean equal project sets.\<close>

lemma mset_js_insert: "mset (js_insert cmp x ys) = add_mset x (mset ys)"
  by (induction ys) auto

lemma mset_js_sort [simp]: "mset (js_sort cmp xs) = mset xs"
  by (induction xs) (simp_all add: js_sort_def mset_js_insert)

lemma js_join_inj:
  "(\<forall>x \<in> set xs. c \<notin> set x) \<Longrightarrow> (\<forall>y \<in> set ys. c \<notin> set y) \<Longrightarrow> xs \<noteq> [] \<Longrightarrow> ys \<noteq> [] \<Longrightarrow>
   js_join [c] xs = js_join [c] ys \<Longrightarrow> xs = ys"
proof -
  have split: "js_split c (js_join [c] zs) = zs" if "\<forall>z \<in> set zs. c \<notin> set z" "zs \<noteq> []" for zs
    using that by (induction "[c]" zs rule: js_join.induct) (auto simp: js_split_atom js_split_append)
  assume "\<forall>x \<in> set xs. c \<notin> set x" "\<forall>y \<in> set ys. c \<notin> set y" "xs \<noteq> []" "ys \<noteq> []"
    "js_join [c] xs = js_join [c] ys"
  then show "xs = ys" using split by metis
qed

lemma safe_identifier_no_nul: "isSafeIdentifier v \<Longrightarrow> CHR 0x00 \<notin> set v"
  by (auto dest!: safe_identifier_chars simp: js_alnum_def)

lemma descriptor_projects:
  assumes "validateAgentDescriptor d = Inr ()"
    and nul: "\<forall>p \<in> set (allowedProjects d). CHR 0x00 \<notin> set p"
    and ne: "allowedProjects d \<noteq> []" "pp_projects (projectPolicy d) \<noteq> []"
  shows "mset (allowedProjects d) = mset (pp_projects (projectPolicy d))"
proof -
  let ?a = "js_default_sort (allowedProjects d)" and ?p = "js_default_sort (pp_projects (projectPolicy d))"
  have "js_join [CHR 0x00] ?a = js_join [CHR 0x00] ?p"
    and "\<forall>p \<in> set (pp_projects (projectPolicy d)). isSafeIdentifier p"
    using assms(1) by (auto elim!: validateAgentDescriptor_InrE
        simp: validate_project_policy_def checks_Inr_iff Let_def)
  then have "?a = ?p"
    using nul ne by (intro js_join_inj [of _ "CHR 0x00"])
      (auto simp: js_default_sort_def dest: safe_identifier_no_nul)
  then show ?thesis by (metis js_default_sort_def mset_js_sort)
qed

end
