(* ===== verification/Handoffs.thy ===== *)
theory Handoffs
  imports Approvals Descriptors
begin

text \<open>
  \<open>core/handoffs/handoff-system.ts\<close>: structured transfers of work. \<open>handoff_*\<close> is
  \<open>HandoffSystem\<close>; \<open>specialist_*\<close> is \<open>SpecialistHandoffService\<close>, which qualifies the
  destination when a transfer is proposed and again when it is accepted. The registered
  descriptors and the enablement check are parameters, as in the constructor.
\<close>

record handoff_state = approval_state +
  handoffs :: "Handoff repo"

section \<open>The generic system\<close>

definition handoff_save :: "Handoff \<Rightarrow> ('x handoff_state_scheme, unit) op" where
  "handoff_save h = modifyS (\<lambda>s. s\<lparr>handoffs := mem_upsert handoff_id h (handoffs s)\<rparr>)"

definition new_handoff :: "HandoffDraft \<Rightarrow> string \<Rightarrow> timestamp \<Rightarrow> Handoff" where
  "new_handoff d i at =
     \<lparr>handoff_id = i, handoff_taskId = hd_taskId d, handoff_projectId = hd_projectId d,
      sourceAgentId = hd_sourceAgentId d, destinationAgentId = hd_destinationAgentId d,
      handoff_status = HProposed, handoff_context = or_else (hd_context d) [],
      completedWork = hd_completedWork d, remainingWork = hd_remainingWork d,
      acceptanceCriteria = hd_acceptanceCriteria d, artifacts = or_else (hd_artifacts d) [],
      risks = or_else (hd_risks d) [], handoff_requiredCapabilities = hd_requiredCapabilities d,
      sourceAssignmentId = hd_sourceAssignmentId d, destinationQualification = None,
      acceptedBy = None, handoff_createdAt = at, resolvedAt = None, resolution = None\<rparr>"

definition handoff_propose :: "HandoffDraft \<Rightarrow> ('x handoff_state_scheme, Handoff) op" where
  "handoff_propose d =
     thenS (liftE (validateHandoffDraft d))
     (bindS (createId ''handoff'') (\<lambda>i.
      bindS now (\<lambda>at.
      let handoff = new_handoff d i at
      in thenS (handoff_save handoff) (returnS handoff))))"

definition handoff_get :: "string \<Rightarrow> ('x handoff_state_scheme, Handoff option) op" where
  "handoff_get i = getsS (\<lambda>s. mem_findById i (handoffs s))"

definition handoff_require :: "string \<Rightarrow> ('x handoff_state_scheme, Handoff) op" where
  "handoff_require i s = (case mem_findById i (handoffs s) of
     None \<Rightarrow> (Inl (NotFoundError (''unknown handoff: '' @ i)), s)
   | Some h \<Rightarrow> (Inr h, s))"

definition check_proposed :: "string \<Rightarrow> Handoff \<Rightarrow> unit res" where
  "check_proposed i h = throw_if (handoff_status h \<noteq> HProposed)
     (StateTransitionError (''handoff '' @ i @ '' is not proposed (status: ''
        @ handoff_status_str (handoff_status h) @ '')''))"

definition mustBeProposed :: "string \<Rightarrow> ('x handoff_state_scheme, Handoff) op" where
  "mustBeProposed i = bindS (handoff_require i) (\<lambda>h.
     thenS (liftE (check_proposed i h)) (returnS h))"

text \<open>A handoff read as a draft: acceptance validates the stored record again.\<close>

definition draft_of :: "Handoff \<Rightarrow> HandoffDraft" where
  "draft_of h =
     \<lparr>hd_taskId = handoff_taskId h, hd_projectId = handoff_projectId h,
      hd_sourceAgentId = sourceAgentId h, hd_destinationAgentId = destinationAgentId h,
      hd_context = Some (handoff_context h), hd_completedWork = completedWork h,
      hd_remainingWork = remainingWork h, hd_acceptanceCriteria = acceptanceCriteria h,
      hd_artifacts = Some (artifacts h), hd_risks = Some (risks h),
      hd_requiredCapabilities = handoff_requiredCapabilities h,
      hd_sourceAssignmentId = sourceAssignmentId h\<rparr>"

definition handoff_accept :: "string \<Rightarrow> ('x handoff_state_scheme, Handoff) op" where
  "handoff_accept i = bindS (mustBeProposed i) (\<lambda>h.
     thenS (liftE (validateHandoffDraft (draft_of h)))
     (bindS now (\<lambda>at.
      let next = h\<lparr>handoff_status := HAccepted, resolvedAt := Some at\<rparr>
      in thenS (handoff_save next) (returnS next))))"

definition handoff_reject :: "string \<Rightarrow> string \<Rightarrow> ('x handoff_state_scheme, Handoff) op" where
  "handoff_reject i reason = bindS (mustBeProposed i) (\<lambda>h.
     bindS now (\<lambda>at.
     let next = h\<lparr>handoff_status := HRejected, resolvedAt := Some at, resolution := Some reason\<rparr>
     in thenS (handoff_save next) (returnS next)))"

definition handoff_forTask :: "string \<Rightarrow> ('x handoff_state_scheme, Handoff list) op" where
  "handoff_forTask taskId = getsS (\<lambda>s. filter (\<lambda>h. handoff_taskId h = taskId) (mem_list (handoffs s)))"

section \<open>Specialist transfers\<close>

record Evidence =
  e_qualified :: bool
  e_matched :: "string list"
  e_missing :: "string list"
  e_reasons :: "string list"

definition evaluateDestination :: "AgentDescriptor \<Rightarrow> string \<Rightarrow> string list \<Rightarrow> Evidence" where
  "evaluateDestination dst projectId required =
     (let missing = missingCapabilities (capabilities dst) required;
          reasonCodes =
            (if \<not> acceptsNewAssignments (administrativeStatus dst) then [''administratively_inactive''] else []) @
            (if projectId \<notin> set (pp_projects (projectPolicy dst)) then [''project_not_allowed''] else []) @
            (if length missing > 0 then [''missing_capability''] else [])
      in \<lparr>e_qualified = (length reasonCodes = 0),
          e_matched = satisfiedCapabilities (capabilities dst) required,
          e_missing = missing, e_reasons = js_unique reasonCodes\<rparr>)"

definition qualification_of :: "AgentDescriptor \<Rightarrow> Evidence \<Rightarrow> timestamp \<Rightarrow> DestinationQualification" where
  "qualification_of dst ev at =
     \<lparr>dq_qualified = e_qualified ev, dq_matchedCapabilities = e_matched ev,
      dq_missingCapabilities = e_missing ev, dq_reasonCodes = e_reasons ev,
      dq_descriptorVersion = agent_version dst, dq_evaluatedAt = at\<rparr>"

text \<open>
  The part \<open>propose\<close> and \<open>accept\<close> share: the project is stated, the destination is a
  registered descriptor, enabled in the project, and qualifies. \<open>messages\<close> holds the four
  texts of the caller.
\<close>

definition qualify_destination ::
  "AgentDescriptor list \<Rightarrow> (string \<Rightarrow> string \<Rightarrow> bool) \<Rightarrow> string \<Rightarrow> string \<Rightarrow> string list \<Rightarrow>
   (string \<times> string \<times> string) \<Rightarrow> (AgentDescriptor \<times> Evidence) res" where
  "qualify_destination descriptors isEnabled dstId projectId required messages =
     (case messages of (unregistered, disabled, unqualified) \<Rightarrow>
      case js_find (\<lambda>d. agent_id d = dstId) descriptors of
        None \<Rightarrow> Inl (ValidationError (''handoff destination '' @ dstId @ unregistered))
      | Some dst \<Rightarrow>
          if \<not> isEnabled (agent_id dst) projectId
          then Inl (ValidationError (''handoff destination '' @ dstId @ disabled @ projectId))
          else let ev = evaluateDestination dst projectId required in
            if \<not> e_qualified ev
            then Inl (ValidationError (''handoff '' @ unqualified @ js_join '', '' (e_reasons ev)))
            else Inr (dst, ev))"

definition state_project :: "error" where
  "state_project = ValidationError ''a specialist handoff must state the project that owns the work''"

definition specialist_propose ::
  "AgentDescriptor list \<Rightarrow> (string \<Rightarrow> string \<Rightarrow> bool) \<Rightarrow> HandoffDraft \<Rightarrow> string option
   \<Rightarrow> ('x handoff_state_scheme, Handoff) op" where
  "specialist_propose descriptors isEnabled draft inputAssignment =
     (let projectId = or_else (hd_projectId draft) [];
          required = or_else (hd_requiredCapabilities draft) [];
          dstId = hd_destinationAgentId draft
      in if \<not> truthy (hd_projectId draft) then throwS state_project
      else thenS (liftE (validateHandoffDraft draft))
        (bindS (liftE (qualify_destination descriptors isEnabled dstId projectId required
            ('' is not a registered specialist descriptor'', '' is not enabled for project '',
             ''destination '' @ dstId @ '' does not qualify for the remaining work: ''))) (\<lambda>(dst, ev).
         bindS (handoff_propose draft) (\<lambda>handoff.
         bindS now (\<lambda>at.
         let withEvidence = handoff\<lparr>handoff_requiredCapabilities := Some required,
               destinationQualification := Some (qualification_of dst ev at),
               sourceAssignmentId := (if truthy inputAssignment then inputAssignment
                                      else sourceAssignmentId handoff)\<rparr>
         in thenS (handoff_save withEvidence) (returnS withEvidence))))))"

text \<open>The clock is read twice: for \<open>resolvedAt\<close>, then for \<open>evaluatedAt\<close>.\<close>

definition specialist_accept ::
  "AgentDescriptor list \<Rightarrow> (string \<Rightarrow> string \<Rightarrow> bool) \<Rightarrow> string \<Rightarrow> string
   \<Rightarrow> ('x handoff_state_scheme, Handoff) op" where
  "specialist_accept descriptors isEnabled i who = bindS (handoff_require i) (\<lambda>h.
     thenS (liftE (check_proposed i h))
     (if \<not> truthy (handoff_projectId h) then throwS state_project
      else bindS (liftE (qualify_destination descriptors isEnabled (destinationAgentId h)
             (or_else (handoff_projectId h) []) (or_else (handoff_requiredCapabilities h) [])
             ('' is no longer a registered specialist descriptor'', '' is no longer enabled for project '',
              i @ '' destination no longer qualifies: ''))) (\<lambda>(dst, ev).
           bindS now (\<lambda>resolved.
           bindS now (\<lambda>evaluated.
           let accepted = h\<lparr>handoff_status := HAccepted, acceptedBy := Some who,
                 resolvedAt := Some resolved,
                 destinationQualification := Some ((qualification_of dst ev evaluated)\<lparr>dq_qualified := True\<rparr>)\<rparr>
           in thenS (handoff_save accepted) (returnS accepted))))))"

section \<open>The lifecycle\<close>

fun HANDOFF_EDGES :: "HandoffStatus \<Rightarrow> HandoffStatus list" where
  "HANDOFF_EDGES HProposed = [HAccepted, HRejected]"
| "HANDOFF_EDGES HAccepted = []"
| "HANDOFF_EDGES HRejected = []"

definition handoff_frozen :: "Handoff \<Rightarrow> string \<times> string option \<times> string \<times> string \<times> string list \<times> timestamp" where
  "handoff_frozen h = (handoff_taskId h, handoff_projectId h, sourceAgentId h, destinationAgentId h,
     acceptanceCriteria h, handoff_createdAt h)"

abbreviation handoffs_keep :: "'x handoff_state_scheme \<Rightarrow> 'x handoff_state_scheme \<Rightarrow> bool" where
  "handoffs_keep \<equiv> lifecycle_keeps (store_ok handoff_id ''handoff'' handoffs)
     handoff_status handoff_frozen HANDOFF_EDGES handoffs"

interpretation handoff_life: counted_lifecycle handoff_id handoff_status handoff_frozen HANDOFF_EDGES
    "handoffs :: 'x handoff_state_scheme \<Rightarrow> Handoff repo" "''handoff''"
proof
  fix a show "a \<notin> set (HANDOFF_EDGES a)" by (cases a) auto
qed

lemma new_handoff_simps [simp]:
  "handoff_id (new_handoff d i at) = i" "handoff_status (new_handoff d i at) = HProposed"
  "destinationAgentId (new_handoff d i at) = hd_destinationAgentId d"
  "handoff_projectId (new_handoff d i at) = hd_projectId d"
  "sourceAssignmentId (new_handoff d i at) = hd_sourceAssignmentId d"
  by (simp_all add: new_handoff_def)

lemma handoff_propose_eq:
  "validateHandoffDraft d = Inr () \<Longrightarrow>
   handoff_propose d s =
     (let h = new_handoff d (id_of ''handoff'' (process_tag s) (Suc (seq s))) (time_at s (ticks s))
      in (Inr h, s\<lparr>seq := Suc (seq s), ticks := Suc (ticks s),
            handoffs := mem_upsert handoff_id h (handoffs s)\<rparr>))"
  by (simp add: handoff_propose_def handoff_save_def createId_eq now_def op_simps Let_def)

lemma handoff_propose_Inl: "validateHandoffDraft d = Inl e \<Longrightarrow> handoff_propose d s = (Inl e, s)"
  by (simp add: handoff_propose_def op_simps)

lemma handoff_save_writes:
  "counter_moves s (snd (handoff_save h s)) \<and>
   handoffs (snd (handoff_save h s)) = mem_upsert handoff_id h (handoffs s)"
  by (simp add: handoff_save_def counter_moves_def)

lemma keeps_handoff_propose [keeps_rules]: "keeps handoffs_keep (handoff_propose d)"
proof (rule handoff_life.keeps_creation)
  fix s :: "'x handoff_state_scheme"
  let ?t = "snd (handoff_propose d s)"
  show "counter_moves s ?t \<and> (handoffs ?t = handoffs s \<or>
      (\<exists>e. handoffs ?t = mem_upsert handoff_id e (handoffs s) \<and> drawn ''handoff'' s ?t (handoff_id e)))"
  proof (cases "validateHandoffDraft d")
    case (Inl e)
    then show ?thesis by (simp add: handoff_propose_Inl)
  next
    case (Inr u)
    let ?h = "new_handoff d (id_of ''handoff'' (process_tag s) (Suc (seq s))) (time_at s (ticks s))"
    have "handoffs ?t = mem_upsert handoff_id ?h (handoffs s)" "counter_moves s ?t"
      "drawn ''handoff'' s ?t (handoff_id ?h)"
      using Inr by (auto simp: handoff_propose_eq Let_def counter_moves_def drawn_def)
    then show ?thesis by blast
  qed
qed

lemma mustBeProposed_cases:
  obtains (failed) e where "mustBeProposed i s = (Inl e, s)"
  | (found) h where "mustBeProposed i s = (Inr h, s)" "mem_findById i (handoffs s) = Some h"
      "handoff_status h = HProposed"
proof (cases "mem_findById i (handoffs s)")
  case None
  then show thesis by (intro failed) (simp add: mustBeProposed_def handoff_require_def op_simps)
next
  case (Some h)
  then show thesis
    by (cases "handoff_status h = HProposed")
      (auto simp: mustBeProposed_def handoff_require_def check_proposed_def throw_if_def op_simps
        intro: failed found)
qed

lemma mustBeProposed_state: "snd (mustBeProposed i s) = s"
  by (cases rule: mustBeProposed_cases [of i s]) simp_all

lemma mustBeProposed_found:
  "fst (mustBeProposed i s) = Inr h \<Longrightarrow>
     mem_findById i (handoffs s) = Some h \<and> handoff_status h = HProposed"
  by (cases rule: mustBeProposed_cases [of i s]) simp_all

text \<open>A guard that only reads: it finds a proposed handoff under the given id or fails.\<close>

definition proposed_guard :: "string \<Rightarrow> ('x handoff_state_scheme, Handoff) op \<Rightarrow> bool" where
  "proposed_guard i g \<longleftrightarrow> (\<forall>s. snd (g s) = s \<and>
     (\<forall>h. fst (g s) = Inr h \<longrightarrow> mem_findById i (handoffs s) = Some h \<and> handoff_status h = HProposed))"

lemma proposed_guardD:
  assumes "proposed_guard i g"
  shows "snd (g s) = s"
    "fst (g s) = Inr h \<Longrightarrow> mem_findById i (handoffs s) = Some h \<and> handoff_status h = HProposed"
  using assms by (simp_all add: proposed_guard_def)

lemma resolves_once:
  fixes g :: "('x handoff_state_scheme, Handoff) op"
  assumes g: "proposed_guard i g"
    and f: "\<And>h at. handoff_id (f h at) = handoff_id h \<and> handoff_frozen (f h at) = handoff_frozen h
      \<and> handoff_status (f h at) \<in> {HAccepted, HRejected}"
  shows "keeps handoffs_keep (bindS g (\<lambda>h. bindS now (\<lambda>at. thenS (handoff_save (f h at)) (returnS (f h at)))))"
proof (rule handoff_life.keeps_read_write)
  fix s :: "'x handoff_state_scheme" and h at
  assume "fst (g s) = Inr h"
  then have "handoff_status h = HProposed" using proposed_guardD(2) [OF g] by blast
  then show "handoff_id (f h at) = handoff_id h \<and> handoff_frozen (f h at) = handoff_frozen h \<and>
      (handoff_status (f h at) = handoff_status h \<or>
       handoff_status (f h at) \<in> set (HANDOFF_EDGES (handoff_status h)))"
    using f [of h at] by auto
qed (auto simp: proposed_guardD(1) [OF g] handoff_save_writes dest: proposed_guardD(2) [OF g])

lemma bindS_assoc_check:
  "bindS g (\<lambda>h. thenS (liftE (c h)) (k h)) = bindS (bindS g (\<lambda>h. thenS (liftE (c h)) (returnS h))) k"
  by (rule ext) (auto simp: op_simps split: prod.splits sum.splits)

lemma keeps_handoff_reject [keeps_rules]: "keeps handoffs_keep (handoff_reject i reason)"
  unfolding handoff_reject_def Let_def
  by (rule resolves_once [of i])
    (auto simp: proposed_guard_def mustBeProposed_state handoff_frozen_def dest: mustBeProposed_found)

lemma keeps_handoff_accept [keeps_rules]: "keeps handoffs_keep (handoff_accept i)"
  unfolding handoff_accept_def Let_def
proof (subst bindS_assoc_check, rule resolves_once [of i])
  show "proposed_guard i (bindS (mustBeProposed i)
      (\<lambda>h. thenS (liftE (validateHandoffDraft (draft_of h))) (returnS h)))"
    unfolding proposed_guard_def
  proof
    fix s :: "'x handoff_state_scheme"
    show "snd (bindS (mustBeProposed i) (\<lambda>h. thenS (liftE (validateHandoffDraft (draft_of h))) (returnS h)) s) = s \<and>
      (\<forall>h. fst (bindS (mustBeProposed i) (\<lambda>h. thenS (liftE (validateHandoffDraft (draft_of h))) (returnS h)) s) = Inr h
        \<longrightarrow> mem_findById i (handoffs s) = Some h \<and> handoff_status h = HProposed)"
      by (cases rule: mustBeProposed_cases [of i s])
        (auto simp: op_simps split: sum.splits prod.splits)
  qed
qed (simp add: handoff_frozen_def)

section \<open>Qualified transfers\<close>

lemma evaluateDestination_qualified:
  "e_qualified (evaluateDestination dst p required) \<longleftrightarrow>
     administrativeStatus dst = Active \<and> p \<in> set (pp_projects (projectPolicy dst)) \<and>
     missingCapabilities (capabilities dst) required = []"
  by (auto simp: evaluateDestination_def acceptsNewAssignments_def Let_def)

lemma qualify_destination_Inr:
  "qualify_destination D en i p required msgs = Inr (dst, ev) \<longleftrightarrow>
     js_find (\<lambda>d. agent_id d = i) D = Some dst \<and> en (agent_id dst) p \<and>
     ev = evaluateDestination dst p required \<and> e_qualified ev"
  by (auto simp: qualify_destination_def Let_def split: prod.splits option.splits if_splits)

text \<open>What a qualified destination is, at the moment the test ran.\<close>

definition qualified_for :: "AgentDescriptor list \<Rightarrow> (string \<Rightarrow> string \<Rightarrow> bool) \<Rightarrow> string \<Rightarrow> string \<Rightarrow> string list \<Rightarrow> bool" where
  "qualified_for D en i p required \<longleftrightarrow>
     (\<exists>d \<in> set D. agent_id d = i \<and> en i p \<and> administrativeStatus d = Active \<and>
        p \<in> set (pp_projects (projectPolicy d)) \<and>
        (\<forall>r \<in> set required. \<exists>c \<in> set (capabilities d). capabilitySatisfies c r))"

lemma qualify_destination_sound:
  "qualify_destination D en i p required msgs = Inr (dst, ev) \<Longrightarrow> qualified_for D en i p required"
  by (auto simp: qualify_destination_Inr evaluateDestination_qualified qualified_for_def missing_Nil_iff
      dest!: js_find_Some)

definition accepted_record :: "Handoff \<Rightarrow> string \<Rightarrow> timestamp \<Rightarrow> timestamp \<Rightarrow> AgentDescriptor \<Rightarrow> Evidence \<Rightarrow> Handoff" where
  "accepted_record h who resolved evaluated dst ev =
     h\<lparr>handoff_status := HAccepted, acceptedBy := Some who, resolvedAt := Some resolved,
       destinationQualification := Some ((qualification_of dst ev evaluated)\<lparr>dq_qualified := True\<rparr>)\<rparr>"

lemma specialist_accept_cases:
  obtains (refused) e where "specialist_accept D en i who s = (Inl e, s)"
  | (accepted) h p dst ev a where "mem_findById i (handoffs s) = Some h" "handoff_status h = HProposed"
      "handoff_projectId h = Some p"
      "qualified_for D en (destinationAgentId h) p (or_else (handoff_requiredCapabilities h) [])"
      "a = accepted_record h who (time_at s (ticks s)) (time_at s (Suc (ticks s))) dst ev"
      "specialist_accept D en i who s =
         (Inr a, s\<lparr>ticks := Suc (Suc (ticks s)), handoffs := mem_upsert handoff_id a (handoffs s)\<rparr>)"
proof -
  let ?msgs = "('' is no longer a registered specialist descriptor'', '' is no longer enabled for project '',
      i @ '' destination no longer qualifies: '')"
  show thesis
  proof (cases "mem_findById i (handoffs s)")
    case None
    then show thesis by (intro refused) (simp add: specialist_accept_def handoff_require_def op_simps)
  next
    case (Some h)
    show thesis
    proof (cases "handoff_status h = HProposed \<and> truthy (handoff_projectId h)")
      case False
      with Some show thesis
        by (cases "handoff_status h = HProposed")
          (auto simp: specialist_accept_def handoff_require_def check_proposed_def throw_if_def op_simps
            intro: refused)
    next
      case True
      then obtain p where p: "handoff_projectId h = Some p" "p \<noteq> []"
        by (cases "handoff_projectId h") auto
      show thesis
      proof (cases "qualify_destination D en (destinationAgentId h) p (or_else (handoff_requiredCapabilities h) []) ?msgs")
        case (Inl e)
        with Some True p show thesis
          by (intro refused)
            (simp add: specialist_accept_def handoff_require_def check_proposed_def throw_if_def op_simps)
      next
        case (Inr de)
        obtain dst ev where de: "de = (dst, ev)" by fastforce
        have q: "qualified_for D en (destinationAgentId h) p (or_else (handoff_requiredCapabilities h) [])"
          using Inr de by (auto intro: qualify_destination_sound)
        show thesis
          by (rule accepted [OF Some _ p(1) q refl, of dst ev])
            (use Some True p Inr de in \<open>simp_all add: specialist_accept_def handoff_require_def
              check_proposed_def throw_if_def now_def handoff_save_def op_simps accepted_record_def Let_def\<close>)
      qed
    qed
  qed
qed

lemma keeps_specialist_accept [keeps_rules]: "keeps handoffs_keep (specialist_accept D en i who)"
proof (rule keepsI, rule handoff_life.keeps_when_ok)
  fix s :: "'x handoff_state_scheme"
  assume ok: "store_ok handoff_id ''handoff'' handoffs s"
  show "handoffs_keep s (snd (specialist_accept D en i who s))"
  proof (cases rule: specialist_accept_cases [of D en i who s])
    case (refused e)
    then show ?thesis by (simp add: handoff_life.keeps_refl)
  next
    case (accepted h p dst ev a)
    have "handoff_id h = i" using ok accepted(1) by (auto simp: store_ok_def intro: mem_find_key)
    then show ?thesis
      using accepted by (intro handoff_life.keeps_store_write [of _ _ a])
        (auto simp: store_write_def accepted_record_def handoff_frozen_def counter_moves_def)
  qed
qed

definition proposed_record :: "HandoffDraft \<Rightarrow> string \<Rightarrow> timestamp \<Rightarrow> string list \<Rightarrow>
    DestinationQualification \<Rightarrow> string option \<Rightarrow> Handoff" where
  "proposed_record d i at required q a = (new_handoff d i at)\<lparr>handoff_requiredCapabilities := Some required,
     destinationQualification := Some q,
     sourceAssignmentId := (if truthy a then a else hd_sourceAssignmentId d)\<rparr>"

lemma specialist_propose_cases:
  obtains (refused) e where "specialist_propose D en d a s = (Inl e, s)"
  | (proposed) p q h where "hd_projectId d = Some p" "validateHandoffDraft d = Inr ()"
      "qualified_for D en (hd_destinationAgentId d) p (or_else (hd_requiredCapabilities d) [])"
      "h = proposed_record d (id_of ''handoff'' (process_tag s) (Suc (seq s))) (time_at s (ticks s))
             (or_else (hd_requiredCapabilities d) []) q a"
      "specialist_propose D en d a s = (Inr h, s\<lparr>seq := Suc (seq s), ticks := Suc (Suc (ticks s)),
         handoffs := mem_upsert handoff_id h (handoffs s)\<rparr>)"
proof -
  let ?msgs = "('' is not a registered specialist descriptor'', '' is not enabled for project '',
      ''destination '' @ hd_destinationAgentId d @ '' does not qualify for the remaining work: '')"
  show thesis
  proof (cases "truthy (hd_projectId d) \<and> validateHandoffDraft d = Inr ()")
    case False
    then have "\<exists>e. specialist_propose D en d a s = (Inl e, s)"
      by (cases "validateHandoffDraft d") (auto simp: specialist_propose_def op_simps Let_def)
    then show thesis using refused by blast
  next
    case True
    then obtain p where p: "hd_projectId d = Some p" "p \<noteq> []" by (cases "hd_projectId d") auto
    show thesis
    proof (cases "qualify_destination D en (hd_destinationAgentId d) p (or_else (hd_requiredCapabilities d) []) ?msgs")
      case (Inl e)
      with True p show thesis by (intro refused) (simp add: specialist_propose_def op_simps Let_def)
    next
      case (Inr de)
      obtain dst ev where de: "de = (dst, ev)" by fastforce
      have q: "qualified_for D en (hd_destinationAgentId d) p (or_else (hd_requiredCapabilities d) [])"
        using Inr de by (auto intro: qualify_destination_sound)
      show thesis
        by (rule proposed [OF p(1) _ q refl, of "qualification_of dst ev (time_at s (Suc (ticks s)))"])
          (use True p Inr de in \<open>simp_all add: specialist_propose_def handoff_propose_eq now_def
            handoff_save_def op_simps Let_def proposed_record_def mem_upsert_twice\<close>)
    qed
  qed
qed

lemma keeps_specialist_propose [keeps_rules]: "keeps handoffs_keep (specialist_propose D en d a)"
proof (rule handoff_life.keeps_creation)
  fix s :: "'x handoff_state_scheme"
  let ?t = "snd (specialist_propose D en d a s)"
  show "counter_moves s ?t \<and> (handoffs ?t = handoffs s \<or>
      (\<exists>e. handoffs ?t = mem_upsert handoff_id e (handoffs s) \<and> drawn ''handoff'' s ?t (handoff_id e)))"
  proof (cases rule: specialist_propose_cases [of D en d a s])
    case (refused e)
    then show ?thesis by simp
  next
    case (proposed p q h)
    then have "handoffs ?t = mem_upsert handoff_id h (handoffs s)" "counter_moves s ?t"
      "drawn ''handoff'' s ?t (handoff_id h)"
      by (auto simp: counter_moves_def drawn_def proposed_record_def)
    then show ?thesis by blast
  qed
qed

end
