(* ===== verification/Registry.thy ===== *)
theory Registry
  imports Handoffs
begin

text \<open>
  \<open>core/registry/agent-registry.ts\<close>: the store of agent definitions. A descriptor has a
  registration record with its version history; a plain agent is in the repository only.
  \<open>lc\<close> stands for \<open>String.prototype.localeCompare\<close>. Freezing and copying an object is the
  identity on values.
\<close>

record AgentRegistrationRecord =
  reg_agent :: AgentDescriptor
  reg_version :: int
  registeredAt :: timestamp
  reg_updatedAt :: timestamp
  revisions :: "(int \<times> timestamp) list"

record registry_state = handoff_state +
  records :: "(string \<times> AgentRegistrationRecord) list"
  agents :: "Agent repo"
  instances :: "(string \<times> AgentInstance) list"

text \<open>\<open>Agent | AgentDescriptor\<close>, told apart by \<open>isAgentDescriptor\<close>.\<close>

datatype AgentInput = PlainAgent Agent | Specialist AgentDescriptor

abbreviation as_agent :: "AgentDescriptor \<Rightarrow> Agent" where
  "as_agent \<equiv> Agent.truncate"

section \<open>Same definition\<close>

definition obj :: "(string \<times> json option) list \<Rightarrow> json" where
  "obj fs = JObj (List.map_filter (\<lambda>(k, v). map_option (Pair k) v) fs)"

definition opt_str :: "string option \<Rightarrow> json option" where
  "opt_str = map_option JStr"

definition grant_json :: "PermissionGrant \<Rightarrow> json" where
  "grant_json g = obj
     [(''effect'', Some (JStr (case grant_effect g of Allow \<Rightarrow> ''allow'' | Deny \<Rightarrow> ''deny''))),
      (''action'', Some (JStr (action_str (grant_action g)))), (''agentId'', opt_str (grant_agentId g)),
      (''projectId'', opt_str (grant_projectId g)), (''toolId'', opt_str (grant_toolId g)),
      (''environment'', map_option (JStr \<circ> environment_str) (grant_environment g)),
      (''reason'', opt_str (grant_reason g))]"

definition model_policy_json :: "ModelPolicy \<Rightarrow> json" where
  "model_policy_json p = obj [(''provider'', opt_str (mp_provider p)), (''model'', opt_str (mp_model p)),
     (''maxOutputTokens'', map_option JNum (mp_maxOutputTokens p))]"

definition descriptor_json :: "AgentDescriptor \<Rightarrow> json" where
  "descriptor_json d = obj
     [(''id'', Some (JStr (agent_id d))), (''organizationId'', opt_str (agent_organizationId d)),
      (''workspaceId'', opt_str (agent_workspaceId d)), (''name'', Some (JStr (agent_name d))),
      (''description'', Some (JStr (agent_description d))), (''capabilities'', Some (jstrs (capabilities d))),
      (''allowedTools'', Some (jstrs (allowedTools d))), (''allowedProjects'', Some (jstrs (allowedProjects d))),
      (''supportedTaskTypes'', Some (jstrs (supportedTaskTypes d))),
      (''permissions'', Some (JArr (map grant_json (permissions d)))),
      (''modelPolicy'', map_option model_policy_json (modelPolicy d)),
      (''metadata'', map_option JObj (agent_metadata d)), (''displayName'', Some (JStr (displayName d))),
      (''role'', Some (JStr (agent_role d))), (''department'', Some (JStr (department d))),
      (''avatarUrl'', opt_str (avatarUrl d)), (''costPerHour'', map_option JNum (costPerHour d)),
      (''limitations'', Some (jstrs (limitations d))),
      (''administrativeStatus'', Some (JStr (administrative_str (administrativeStatus d)))),
      (''version'', Some (JNum (agent_version d))),
      (''qualification'', Some (obj
         [(''technologies'', Some (jstrs (q_technologies (qualification d)))),
          (''maxRiskLevel'', Some (JStr (risk_str (maxRiskLevel (qualification d))))),
          (''requiredToolCapabilities'', Some (jstrs (requiredToolCapabilities (qualification d)))),
          (''reviewRequiredFromRiskLevel'', Some (JStr (risk_str (reviewRequiredFromRiskLevel (qualification d)))))])),
      (''environmentRequirements'', Some (obj
         [(''requiredEnvironmentTypes'', Some (jstrs (requiredEnvironmentTypes (environmentRequirements d)))),
          (''acceptsAnyEnvironmentType'', Some (JBool (acceptsAnyEnvironmentType (environmentRequirements d))))])),
      (''toolPolicy'', Some (obj
         [(''maxExecutionCapabilities'', Some (jstrs (maxExecutionCapabilities (toolPolicy d)))),
          (''deniedExecutionCapabilities'', Some (jstrs (deniedExecutionCapabilities (toolPolicy d)))),
          (''allowsUnrestrictedShell'', Some (JBool (allowsUnrestrictedShell (toolPolicy d))))])),
      (''projectPolicy'', Some (obj [(''mode'', Some (JStr (pp_mode (projectPolicy d)))),
          (''projects'', Some (jstrs (pp_projects (projectPolicy d))))])),
      (''riskProfile'', Some (JStr (risk_str (riskProfile d)))),
      (''reviewPolicy'', Some (obj
         [(''requiresIndependentReview'', Some (JBool (requiresIndependentReview (reviewPolicy d)))),
          (''minimumReviewers'', Some (JNum (minimumReviewers (reviewPolicy d)))),
          (''selfReviewAllowed'', Some (JBool (selfReviewAllowed (reviewPolicy d))))])),
      (''handoffPolicy'', Some (obj [(''canDelegateTo'', Some (jstrs (canDelegateTo (handoffPolicy d)))),
          (''requiresDestinationAcceptance'', Some (JBool (requiresDestinationAcceptance (handoffPolicy d))))])),
      (''costPolicy'', Some (obj [(''costCenter'', Some (JStr (costCenter (costPolicy d)))),
          (''maxCostPerExecutionUsd'', map_option JNum (maxCostPerExecutionUsd (costPolicy d))),
          (''attestsUsage'', Some (JBool (attestsUsage (costPolicy d))))])),
      (''createdAt'', map_option JNum (agent_createdAt d)), (''updatedAt'', map_option JNum (agent_updatedAt d))]"

definition sameDefinition :: "(string \<Rightarrow> string \<Rightarrow> int) \<Rightarrow> AgentDescriptor \<Rightarrow> AgentDescriptor \<Rightarrow> bool" where
  "sameDefinition lc a b \<longleftrightarrow> stableStringify lc (descriptor_json a) = stableStringify lc (descriptor_json b)"

section \<open>Registration\<close>

definition set_record :: "string \<Rightarrow> AgentRegistrationRecord \<Rightarrow> ('x registry_state_scheme, unit) op" where
  "set_record i r = modifyS (\<lambda>s. s\<lparr>records := map_set i r (records s)\<rparr>)"

definition upsert_agent :: "Agent \<Rightarrow> ('x registry_state_scheme, unit) op" where
  "upsert_agent a = modifyS (\<lambda>s. s\<lparr>agents := mem_upsert agent_id a (agents s)\<rparr>)"

definition registry_full :: error where
  "registry_full = ValidationError (''agent registry is full ('' @ show_nat MAX_AGENT_DEFINITIONS @ '' agents)'')"

definition registerAgent :: "Agent \<Rightarrow> ('x registry_state_scheme, Agent) op" where
  "registerAgent a = thenS (liftE (validateAgent a)) (\<lambda>s.
     if \<not> isSafeIdentifier (agent_id a)
     then (Inl (ValidationError (''agent id is invalid: '' @ json_quote (agent_id a))), s)
     else case map_of (records s) (agent_id a) of
       Some r \<Rightarrow> (Inr (as_agent (reg_agent r)), s)
     | None \<Rightarrow>
         if mem_findById (agent_id a) (agents s) \<noteq> None
         then (Inl (ValidationError (''agent already registered: '' @ agent_id a)), s)
         else if length (records s) \<ge> MAX_AGENT_DEFINITIONS then (Inl registry_full, s)
         else thenS (upsert_agent a) (returnS a) s)"

text \<open>The two stores of a new record: the first registration and a higher version.\<close>

definition first_record :: "AgentDescriptor \<Rightarrow> timestamp \<Rightarrow> AgentRegistrationRecord" where
  "first_record d at = \<lparr>reg_agent = d, reg_version = agent_version d, registeredAt = at,
     reg_updatedAt = at, revisions = [(agent_version d, at)]\<rparr>"

definition next_record :: "AgentRegistrationRecord \<Rightarrow> AgentDescriptor \<Rightarrow> timestamp \<Rightarrow> AgentRegistrationRecord" where
  "next_record r d at = \<lparr>reg_agent = d, reg_version = agent_version d, registeredAt = registeredAt r,
     reg_updatedAt = at, revisions = revisions r @ [(agent_version d, at)]\<rparr>"

definition store_record :: "AgentRegistrationRecord \<Rightarrow> ('x registry_state_scheme, AgentDescriptor) op" where
  "store_record r = thenS (set_record (agent_id (reg_agent r)) r)
     (thenS (upsert_agent (as_agent (reg_agent r))) (returnS (reg_agent r)))"

definition register_descriptor ::
  "(string \<Rightarrow> string \<Rightarrow> int) \<Rightarrow> AgentDescriptor \<Rightarrow> ('x registry_state_scheme, AgentDescriptor) op" where
  "register_descriptor lc input s =
     (if length (records s) \<ge> MAX_AGENT_DEFINITIONS \<and> map_of (records s) (agent_id input) = None
      then (Inl registry_full, s)
      else thenS (liftE (validateAgentDescriptor input)) (\<lambda>s.
        case map_of (records s) (agent_id input) of
          None \<Rightarrow> bindS now (\<lambda>at. store_record (first_record input at)) s
        | Some existing \<Rightarrow>
            if sameDefinition lc (reg_agent existing) input then (Inr (reg_agent existing), s)
            else if agent_version input \<le> reg_version existing
            then (Inl (ValidationError (''agent '' @ agent_id input @ '' is already registered at version ''
                    @ show_int (reg_version existing)
                    @ ''; a changed definition must declare a strictly higher version'')), s)
            else bindS now (\<lambda>at. store_record (next_record existing input at)) s) s)"

definition register :: "(string \<Rightarrow> string \<Rightarrow> int) \<Rightarrow> AgentInput \<Rightarrow> ('x registry_state_scheme, Agent) op" where
  "register lc input = (case input of PlainAgent a \<Rightarrow> registerAgent a
     | Specialist d \<Rightarrow> bindS (register_descriptor lc d) (\<lambda>d. returnS (as_agent d)))"

definition transitionAdministrative ::
  "string \<Rightarrow> AgentAdministrativeStatus \<Rightarrow> ('x registry_state_scheme, AgentDescriptor) op" where
  "transitionAdministrative i to s = (case map_of (records s) i of
     None \<Rightarrow> (Inl (NotFoundError (''unknown agent: '' @ i)), s)
   | Some r \<Rightarrow>
       (let from = administrativeStatus (reg_agent r) in
        if from = to then (Inr (reg_agent r), s)
        else if \<not> canTransitionAdministrative from to
        then (Inl (StateTransitionError (''illegal agent administrative transition: ''
               @ administrative_str from @ '' -> '' @ administrative_str to)), s)
        else bindS now (\<lambda>at.
          let next = (reg_agent r)\<lparr>administrativeStatus := to, agent_version := reg_version r + 1,
                       agent_updatedAt := Some at\<rparr>
          in thenS (set_record i (next_record r next at))
               (thenS (upsert_agent (as_agent next)) (returnS next))) s))"

section \<open>Lookup\<close>

definition registry_has :: "string \<Rightarrow> ('x registry_state_scheme) \<Rightarrow> bool" where
  "registry_has i s \<longleftrightarrow> mem_findById i (agents s) \<noteq> None"

definition registry_require :: "string \<Rightarrow> ('x registry_state_scheme, Agent) op" where
  "registry_require i s = (case mem_findById i (agents s) of
     None \<Rightarrow> (Inl (NotFoundError (''unknown agent: '' @ i)), s)
   | Some a \<Rightarrow> (Inr a, s))"

definition requireDescriptor :: "string \<Rightarrow> ('x registry_state_scheme, AgentDescriptor) op" where
  "requireDescriptor i s = (case map_of (records s) i of
     None \<Rightarrow>
       (if mem_findById i (agents s) \<noteq> None
        then (Inl (NotFoundError (''agent '' @ i @ '' is registered without a specialist descriptor'')), s)
        else (Inl (NotFoundError (''unknown agent: '' @ i)), s))
   | Some r \<Rightarrow> (Inr (reg_agent r), s))"

definition registry_list :: "(string \<Rightarrow> string \<Rightarrow> int) \<Rightarrow> 'x registry_state_scheme \<Rightarrow> Agent list" where
  "registry_list lc s = js_sort (\<lambda>a b. lc (agent_id a) (agent_id b)) (mem_list (agents s))"

definition listDescriptors :: "(string \<Rightarrow> string \<Rightarrow> int) \<Rightarrow> 'x registry_state_scheme \<Rightarrow> AgentDescriptor list" where
  "listDescriptors lc s =
     js_sort (\<lambda>a b. lc (agent_id a) (agent_id b)) (map (reg_agent \<circ> snd) (records s))"

definition byCapability :: "(string \<Rightarrow> string \<Rightarrow> int) \<Rightarrow> string \<Rightarrow> 'x registry_state_scheme \<Rightarrow> Agent list" where
  "byCapability lc c s = filter (\<lambda>a. c \<in> set (capabilities a)) (registry_list lc s)"

definition eligible :: "(string \<Rightarrow> string \<Rightarrow> int) \<Rightarrow> string \<Rightarrow> string \<Rightarrow> 'x registry_state_scheme \<Rightarrow> Agent list" where
  "eligible lc taskType projectId s = filter (\<lambda>a.
     taskType \<in> set (supportedTaskTypes a) \<and> projectId \<in> set (allowedProjects a)) (registry_list lc s)"

definition registry_administrativeStatus :: "string \<Rightarrow> 'x registry_state_scheme \<Rightarrow> AgentAdministrativeStatus option" where
  "registry_administrativeStatus i s =
     map_option (administrativeStatus \<circ> reg_agent) (map_of (records s) i)"

record AgentQuery =
  qy_projectId :: "string option"
  qy_department :: "string option"
  qy_role :: "string option"
  qy_capability :: "string option"
  qy_administrativeStatus :: "AgentAdministrativeStatus option"
  qy_taskType :: "string option"

definition registry_filter :: "(string \<Rightarrow> string \<Rightarrow> int) \<Rightarrow> AgentQuery \<Rightarrow> 'x registry_state_scheme \<Rightarrow> AgentDescriptor list" where
  "registry_filter lc q s = filter (\<lambda>a.
     if truthy (qy_projectId q) \<and> or_else (qy_projectId q) [] \<notin> set (pp_projects (projectPolicy a)) then False
     else if truthy (qy_department q) \<and> qy_department q \<noteq> Some (department a) then False
     else if truthy (qy_role q) \<and> qy_role q \<noteq> Some (agent_role a) then False
     else if truthy (qy_capability q) \<and> or_else (qy_capability q) [] \<notin> set (capabilities a) then False
     else if qy_administrativeStatus q \<noteq> None \<and> qy_administrativeStatus q \<noteq> Some (administrativeStatus a) then False
     else if truthy (qy_taskType q) \<and> or_else (qy_taskType q) [] \<notin> set (supportedTaskTypes a) then False
     else True) (listDescriptors lc s)"

definition departments :: "(string \<Rightarrow> string \<Rightarrow> int) \<Rightarrow> 'x registry_state_scheme \<Rightarrow> string list" where
  "departments lc s = js_sort lc (js_unique (map department (listDescriptors lc s)))"

section \<open>Instances\<close>

fun instance_state_str :: "AgentInstanceState \<Rightarrow> string" where
  "instance_state_str Available = ''available''"
| "instance_state_str Assigned = ''assigned''"
| "instance_state_str Busy = ''busy''"
| "instance_state_str Waiting = ''waiting''"
| "instance_state_str InstanceBlocked = ''blocked''"
| "instance_state_str Offline = ''offline''"

definition createInstance ::
  "string \<Rightarrow> string option \<Rightarrow> fields option \<Rightarrow> ('x registry_state_scheme, AgentInstance) op" where
  "createInstance dId projectId metadata s = (case map_of (records s) dId of
     None \<Rightarrow> (Inl (NotFoundError (''unknown agent descriptor: '' @ dId)), s)
   | Some r \<Rightarrow>
       if administrativeStatus (reg_agent r) \<noteq> Active
       then (Inl (StateTransitionError (''agent '' @ dId @ '' is ''
               @ administrative_str (administrativeStatus (reg_agent r))
               @ ''; an instance may only be created for an active agent'')), s)
       else if truthy projectId \<and> \<not> isSafeIdentifier (or_else projectId [])
       then (Inl (ValidationError ''agent instance projectId is invalid''), s)
       else if truthy projectId \<and> or_else projectId [] \<notin> set (pp_projects (projectPolicy (reg_agent r)))
       then (Inl (ValidationError (''agent '' @ dId @ '' may not be instantiated for project ''
               @ or_else projectId [])), s)
       else bindS now (\<lambda>at.
         let inst = \<lparr>inst_id = dId @ ''#1'', descriptorId = dId, descriptorVersion = reg_version r,
               operationalState = Available, inst_projectId = projectId, currentAssignmentId = None,
               currentTaskId = None, inst_createdAt = at, inst_updatedAt = at, inst_metadata = metadata\<rparr>
         in thenS (liftE (validateAgentInstance inst))
              (thenS (modifyS (\<lambda>s. s\<lparr>instances := map_set (inst_id inst) inst (instances s)\<rparr>))
                 (returnS inst))) s)"

definition getInstance :: "string \<Rightarrow> 'x registry_state_scheme \<Rightarrow> AgentInstance option" where
  "getInstance i s = map_of (instances s) i"

definition setInstanceState :: "string \<Rightarrow> AgentInstanceState \<Rightarrow> ('x registry_state_scheme, AgentInstance) op" where
  "setInstanceState i state s = (case map_of (instances s) i of
     None \<Rightarrow> (Inl (NotFoundError (''unknown agent instance: '' @ i)), s)
   | Some inst \<Rightarrow>
       if state \<notin> set AGENT_INSTANCE_STATES then (Inl (ValidationError (''unknown operational state: '' @ instance_state_str state)), s)
       else bindS now (\<lambda>at.
         let next = inst\<lparr>operationalState := state, inst_updatedAt := at\<rparr>
         in thenS (modifyS (\<lambda>s. s\<lparr>instances := map_set i next (instances s)\<rparr>)) (returnS next)) s)"

section \<open>The registry invariant\<close>

definition record_wf :: "AgentRegistrationRecord \<Rightarrow> bool" where
  "record_wf r \<longleftrightarrow> reg_version r = agent_version (reg_agent r) \<and> revisions r \<noteq> [] \<and>
     fst (last (revisions r)) = reg_version r \<and> sorted_wrt (<) (map fst (revisions r)) \<and>
     isSafeIdentifier (agent_id (reg_agent r))"

definition registry_ok :: "'x registry_state_scheme \<Rightarrow> bool" where
  "registry_ok s \<longleftrightarrow> repo_ok agent_id (agents s) \<and> distinct (map fst (records s)) \<and>
     length (records s) \<le> MAX_AGENT_DEFINITIONS \<and>
     (\<forall>i r. map_of (records s) i = Some r \<longrightarrow> agent_id (reg_agent r) = i \<and> record_wf r \<and>
        mem_findById i (agents s) = Some (as_agent (reg_agent r))) \<and>
     (\<forall>i a. mem_findById i (agents s) = Some a \<longrightarrow> isSafeIdentifier i)"

text \<open>
  What survives any sequence of registry calls: a registered id stays registered, its history
  is extended and never rewritten, and one version names one definition for ever.
\<close>

definition registry_extends :: "'x registry_state_scheme \<Rightarrow> 'x registry_state_scheme \<Rightarrow> bool" where
  "registry_extends s t \<longleftrightarrow>
     (\<forall>i. registry_has i s \<longrightarrow> registry_has i t) \<and>
     (\<forall>i r. map_of (records s) i = Some r \<longrightarrow>
        (\<exists>r'. map_of (records t) i = Some r' \<and> prefix (revisions r) (revisions r') \<and>
           registeredAt r' = registeredAt r \<and> (r' = r \<or> reg_version r < reg_version r')))"

definition registry_keeps :: "'x registry_state_scheme \<Rightarrow> 'x registry_state_scheme \<Rightarrow> bool" where
  "registry_keeps s t \<longleftrightarrow> (registry_ok s \<longrightarrow> registry_ok t \<and> registry_extends s t)"

lemma registry_extends_refl [simp]: "registry_extends s s"
  by (auto simp: registry_extends_def)

lemma registry_extends_trans:
  assumes st: "registry_extends s t" and tu: "registry_extends t u"
  shows "registry_extends s u"
  unfolding registry_extends_def
proof (intro conjI allI impI)
  fix i
  show "registry_has i s \<Longrightarrow> registry_has i u" using st tu by (simp add: registry_extends_def)
next
  fix i r
  assume "map_of (records s) i = Some r"
  then obtain r' where r': "map_of (records t) i = Some r'" "prefix (revisions r) (revisions r')"
      "registeredAt r' = registeredAt r" "r' = r \<or> reg_version r < reg_version r'"
    using st unfolding registry_extends_def by blast
  from r'(1) obtain r'' where r'': "map_of (records u) i = Some r''" "prefix (revisions r') (revisions r'')"
      "registeredAt r'' = registeredAt r'" "r'' = r' \<or> reg_version r' < reg_version r''"
    using tu unfolding registry_extends_def by blast
  have "prefix (revisions r) (revisions r'')" using r'(2) r''(2) by (rule prefix_order.trans)
  moreover have "r'' = r \<or> reg_version r < reg_version r''" using r'(4) r''(4) by auto
  ultimately show "\<exists>r'. map_of (records u) i = Some r' \<and> prefix (revisions r) (revisions r') \<and>
      registeredAt r' = registeredAt r \<and> (r' = r \<or> reg_version r < reg_version r')"
    using r''(1,3) r'(3) by auto
qed

interpretation registry_evo: evolution "registry_keeps :: 'x registry_state_scheme \<Rightarrow> 'x registry_state_scheme \<Rightarrow> bool"
  by unfold_locales (auto simp: registry_keeps_def intro: registry_extends_trans)

lemma registry_keeps_same:
  "records t = records s \<Longrightarrow> agents t = agents s \<Longrightarrow> registry_keeps s t"
  by (auto simp: registry_keeps_def registry_ok_def registry_extends_def registry_has_def)

lemma keeps_registry_frame:
  "(\<And>s. records (snd (m s)) = records s \<and> agents (snd (m s)) = agents s) \<Longrightarrow> keeps registry_keeps m"
  by (rule keepsI) (simp add: registry_keeps_same)

lemma length_map_set:
  "length (map_set k v m) = (if map_of m k = None then Suc (length m) else length m)"
  by (induction m) auto

text \<open>The one way a record changes: a first version, or a strictly higher one.\<close>

definition record_put :: "'x registry_state_scheme \<Rightarrow> 'x registry_state_scheme \<Rightarrow> AgentRegistrationRecord \<Rightarrow> bool" where
  "record_put s t r \<longleftrightarrow> record_wf r \<and>
     records t = map_set (agent_id (reg_agent r)) r (records s) \<and>
     agents t = mem_upsert agent_id (as_agent (reg_agent r)) (agents s) \<and>
     (case map_of (records s) (agent_id (reg_agent r)) of
        None \<Rightarrow> length (records s) < MAX_AGENT_DEFINITIONS
      | Some old \<Rightarrow> prefix (revisions old) (revisions r) \<and> registeredAt r = registeredAt old \<and>
          reg_version old < reg_version r)"

lemma truncate_id [simp]: "agent_id (Agent.truncate (d :: AgentDescriptor)) = agent_id d"
  by (simp add: Agent.truncate_def)

lemma record_put_keeps:
  assumes put: "record_put s t r"
  shows "registry_keeps s t"
  unfolding registry_keeps_def
proof (intro impI conjI)
  let ?i = "agent_id (reg_agent r)"
  note rec = put [unfolded record_put_def]
  assume ok: "registry_ok s"
  have find: "map_of (records t) j = (if j = ?i then Some r else map_of (records s) j)" for j
    using rec by (simp add: AList.update_conv')
  have agents: "mem_findById j (agents t) = (if j = ?i then Some (as_agent (reg_agent r)) else mem_findById j (agents s))" for j
    using rec by simp
  have "repo_ok agent_id (agents t)" "distinct (map fst (records t))"
    using rec ok by (simp_all add: registry_ok_def repo_ok_upsert distinct_map_set)
  moreover have "length (records t) \<le> MAX_AGENT_DEFINITIONS"
    using rec ok by (auto simp: registry_ok_def length_map_set split: option.splits)
  moreover have "isSafeIdentifier ?i" using rec by (simp add: record_wf_def)
  ultimately show "registry_ok t"
    using rec ok find agents by (auto simp: registry_ok_def)
  show "registry_extends s t"
    using rec find agents by (auto simp: registry_extends_def registry_has_def)
qed

lemma first_record_wf:
  "validateAgentDescriptor d = Inr () \<Longrightarrow> record_wf (first_record d at)"
  by (simp add: record_wf_def first_record_def descriptor_safe_id)

lemma sorted_wrt_snoc:
  fixes vs :: "int list"
  shows "sorted_wrt (<) vs \<Longrightarrow> vs \<noteq> [] \<Longrightarrow> last vs < v \<Longrightarrow> sorted_wrt (<) (vs @ [v])"
  by (induction vs) (auto simp: sorted_wrt_append split: if_splits, meson last_in_set order.strict_trans)

lemma next_record_wf:
  assumes "record_wf r" "reg_version r < agent_version d" "isSafeIdentifier (agent_id d)"
  shows "record_wf (next_record r d at)"
proof -
  have "sorted_wrt (<) (map fst (revisions r) @ [agent_version d])"
    using assms by (intro sorted_wrt_snoc) (auto simp: record_wf_def last_map)
  then show ?thesis using assms by (simp add: record_wf_def next_record_def)
qed

lemma register_descriptor_cases:
  obtains (unchanged) res where "register_descriptor lc d s = (res, s)"
  | (stored) r t where "register_descriptor lc d s = (Inr d, t)" "validateAgentDescriptor d = Inr ()"
      "reg_agent r = d" "registry_ok s \<Longrightarrow> record_put s t r"
proof (cases "(length (records s) \<ge> MAX_AGENT_DEFINITIONS \<and> map_of (records s) (agent_id d) = None)
    \<or> validateAgentDescriptor d \<noteq> Inr ()")
  case True
  then have "\<exists>res. register_descriptor lc d s = (res, s)"
    by (cases "validateAgentDescriptor d") (auto simp: register_descriptor_def op_simps)
  then show thesis using unchanged by blast
next
  case False
  then have valid: "validateAgentDescriptor d = Inr ()" by simp
  show thesis
  proof (cases "map_of (records s) (agent_id d)")
    case None
    show thesis
      by (rule stored [of "snd (register_descriptor lc d s)" "first_record d (time_at s (ticks s))"])
        (use None False valid in \<open>simp_all add: register_descriptor_def record_put_def store_record_def
          set_record_def upsert_agent_def now_def op_simps first_record_wf\<close>,
         simp_all add: first_record_def)
  next
    case (Some old)
    show thesis
    proof (cases "sameDefinition lc (reg_agent old) d \<or> agent_version d \<le> reg_version old")
      case True
      with Some valid have "\<exists>res. register_descriptor lc d s = (res, s)"
        by (cases "sameDefinition lc (reg_agent old) d") (simp_all add: register_descriptor_def op_simps)
      then show thesis using unchanged by blast
    next
      case higher: False
      let ?r = "next_record old d (time_at s (ticks s))"
      have wf: "record_wf ?r" if "registry_ok s"
      proof -
        have "record_wf old" using that Some by (simp add: registry_ok_def)
        then show ?thesis using higher valid by (auto intro: next_record_wf descriptor_safe_id)
      qed
      show thesis
        by (rule stored [of "snd (register_descriptor lc d s)" ?r])
          (use Some valid higher wf in \<open>simp_all add: register_descriptor_def record_put_def store_record_def
            set_record_def upsert_agent_def now_def op_simps\<close>, simp_all add: next_record_def)
    qed
  qed
qed

lemma keeps_register_descriptor [keeps_rules]: "keeps registry_keeps (register_descriptor lc d)"
proof (rule keepsI)
  fix s :: "'x registry_state_scheme"
  show "registry_keeps s (snd (register_descriptor lc d s))"
  proof (cases rule: register_descriptor_cases [of lc d s])
    case (unchanged res)
    then show ?thesis by (simp add: registry_keeps_same)
  next
    case (stored r t)
    then show ?thesis
      by (cases "registry_ok s") (auto simp: registry_keeps_def dest: record_put_keeps)
  qed
qed

lemma keeps_registerAgent [keeps_rules]: "keeps registry_keeps (registerAgent a)"
proof (rule keepsI)
  fix s :: "'x registry_state_scheme"
  show "registry_keeps s (snd (registerAgent a s))"
  proof (cases "validateAgent a = Inr () \<and> isSafeIdentifier (agent_id a) \<and> map_of (records s) (agent_id a) = None
      \<and> mem_findById (agent_id a) (agents s) = None \<and> length (records s) < MAX_AGENT_DEFINITIONS")
    case True
    then have "snd (registerAgent a s) = s\<lparr>agents := mem_upsert agent_id a (agents s)\<rparr>"
      by (simp add: registerAgent_def upsert_agent_def op_simps)
    moreover have "agent_id a \<noteq> i" if "registry_ok s" "map_of (records s) i = Some r" for i r
      using that True by auto
    ultimately show ?thesis
      using True by (auto simp: registry_keeps_def registry_ok_def registry_extends_def registry_has_def repo_ok_upsert)
  next
    case False
    then have "snd (registerAgent a s) = s"
      by (cases "validateAgent a") (auto simp: registerAgent_def op_simps split: option.splits)
    then show ?thesis by (simp add: registry_keeps_same)
  qed
qed

lemma keeps_register [keeps_rules]: "keeps registry_keeps (register lc input)"
  unfolding register_def
  by (cases input) (auto intro!: registry_evo.keeps_intros keeps_registerAgent keeps_register_descriptor)

lemma transitionAdministrative_cases:
  obtains (unchanged) res where "transitionAdministrative i to s = (res, s)"
  | (moved) r nx t where "map_of (records s) i = Some r"
      "to \<in> set (ADMINISTRATIVE_TRANSITIONS (administrativeStatus (reg_agent r)))"
      "transitionAdministrative i to s = (Inr nx, t)" "administrativeStatus nx = to"
      "agent_version nx = reg_version r + 1"
      "registry_ok s \<Longrightarrow> record_put s t (next_record r nx (time_at s (ticks s)))"
proof (cases "map_of (records s) i")
  case None
  then show thesis by (intro unchanged) (simp add: transitionAdministrative_def)
next
  case (Some r)
  let ?from = "administrativeStatus (reg_agent r)"
  let ?nx = "(reg_agent r)\<lparr>administrativeStatus := to, agent_version := reg_version r + 1,
      agent_updatedAt := Some (time_at s (ticks s))\<rparr>"
  show thesis
  proof (cases "?from = to \<or> \<not> canTransitionAdministrative ?from to")
    case True
    with Some have "\<exists>res. transitionAdministrative i to s = (res, s)"
      by (auto simp: transitionAdministrative_def Let_def)
    then show thesis using unchanged by blast
  next
    case False
    have wf: "record_wf (next_record r ?nx (time_at s (ticks s))) \<and> agent_id (reg_agent r) = i"
      if "registry_ok s"
    proof -
      have r: "record_wf r" "agent_id (reg_agent r) = i" using that Some by (simp_all add: registry_ok_def)
      then have "isSafeIdentifier (agent_id ?nx)" by (simp add: record_wf_def)
      then show ?thesis using r by (auto intro!: next_record_wf)
    qed
    show thesis
      by (rule moved [OF Some, of ?nx "snd (transitionAdministrative i to s)"])
        (use Some False wf in \<open>simp_all add: transitionAdministrative_def canTransitionAdministrative_def
          set_record_def upsert_agent_def now_def op_simps Let_def record_put_def\<close>,
         simp add: next_record_def)
  qed
qed

lemma keeps_transitionAdministrative [keeps_rules]: "keeps registry_keeps (transitionAdministrative i to)"
proof (rule keepsI)
  fix s :: "'x registry_state_scheme"
  show "registry_keeps s (snd (transitionAdministrative i to s))"
  proof (cases rule: transitionAdministrative_cases [of i to s])
    case (unchanged res)
    then show ?thesis by (simp add: registry_keeps_same)
  next
    case (moved r nx t)
    then show ?thesis
      by (cases "registry_ok s") (auto simp: registry_keeps_def dest: record_put_keeps)
  qed
qed

text \<open>An instance id carries a \<open>#\<close>, which no safe identifier does.\<close>

lemma instance_id_unsafe: "\<not> isSafeIdentifier (dId @ ''#1'')"
proof
  assume "isSafeIdentifier (dId @ ''#1'')"
  then have "js_alnum CHR ''#'' \<or> CHR ''#'' \<in> set ''._-''" by (rule safe_identifier_chars) simp
  then show False by (simp add: js_alnum_def)
qed

lemma eligible_iff:
  assumes "repo_ok agent_id (agents s)"
  shows "a \<in> set (eligible lc ty p s) \<longleftrightarrow>
    mem_findById (agent_id a) (agents s) = Some a \<and> ty \<in> set (supportedTaskTypes a) \<and> p \<in> set (allowedProjects a)"
  using assms by (auto simp: eligible_def registry_list_def mem_list_find)

end
