(* ===== verification/System.thy ===== *)
theory System
  imports Registry
begin

text \<open>
  The composed core state (tasks, approvals, handoffs, registry, audit log) and the relation
  every call of the core maintains: \<open>core_keeps\<close> is the conjunction of the components'
  contracts. Each component's calls change its own store, the counter and the clock only;
  \<open>only_tasks\<close>, \<open>only_approvals\<close> and \<open>only_handoffs\<close> say so, and a call that satisfies its
  own component's contract thereby satisfies all of them.
\<close>

definition only_tasks :: "'x registry_state_scheme \<Rightarrow> 'x registry_state_scheme \<Rightarrow> bool" where
  "only_tasks s t \<longleftrightarrow> (\<exists>n k r. seq s \<le> n \<and> t = s\<lparr>seq := n, ticks := k, tasks := r\<rparr>)"

definition only_approvals :: "'x registry_state_scheme \<Rightarrow> 'x registry_state_scheme \<Rightarrow> bool" where
  "only_approvals s t \<longleftrightarrow> (\<exists>n k r. seq s \<le> n \<and> t = s\<lparr>seq := n, ticks := k, approvals := r\<rparr>)"

definition only_handoffs :: "'x registry_state_scheme \<Rightarrow> 'x registry_state_scheme \<Rightarrow> bool" where
  "only_handoffs s t \<longleftrightarrow> (\<exists>n k r. seq s \<le> n \<and> t = s\<lparr>seq := n, ticks := k, handoffs := r\<rparr>)"

definition only_audit :: "'x registry_state_scheme \<Rightarrow> 'x registry_state_scheme \<Rightarrow> bool" where
  "only_audit s t \<longleftrightarrow> (\<exists>n k es sk r. seq s \<le> n \<and>
     t = s\<lparr>seq := n, ticks := k, events := es, sink_events := sk, audit_repo := r\<rparr>)"

definition core_keeps :: "'x registry_state_scheme \<Rightarrow> 'x registry_state_scheme \<Rightarrow> bool" where
  "core_keeps s t \<longleftrightarrow>
     tasks_keep s t \<and> approvals_keep s t \<and> handoffs_keep s t \<and> registry_keeps s t \<and> audit_grows s t"

interpretation core_evo: evolution "core_keeps :: 'x registry_state_scheme \<Rightarrow> 'x registry_state_scheme \<Rightarrow> bool"
proof
  fix s t u :: "'x registry_state_scheme"
  show "core_keeps s s"
    by (simp add: core_keeps_def task_life.keeps_refl approval_life.keeps_refl handoff_life.keeps_refl
        registry_evo.refl audit_growth.refl)
  assume st: "core_keeps s t" and tu: "core_keeps t u"
  note st = st [unfolded core_keeps_def] and tu = tu [unfolded core_keeps_def]
  have "tasks_keep s u" using st tu by (intro task_life.keeps_trans [of s t u]) simp_all
  moreover have "approvals_keep s u" using st tu by (intro approval_life.keeps_trans [of s t u]) simp_all
  moreover have "handoffs_keep s u" using st tu by (intro handoff_life.keeps_trans [of s t u]) simp_all
  moreover have "registry_keeps s u" using st tu by (intro registry_evo.trans [of s t u]) simp_all
  moreover have "audit_grows s u" using st tu by (intro audit_growth.trans [of s t u]) simp_all
  ultimately show "core_keeps s u" by (simp add: core_keeps_def)
qed

lemma keeps_core_iff:
  "keeps core_keeps m \<longleftrightarrow> keeps tasks_keep m \<and> keeps approvals_keep m \<and> keeps handoffs_keep m \<and>
     keeps registry_keeps m \<and> keeps audit_grows m"
  by (auto simp: keeps_def core_keeps_def)

lemma audit_grows_same:
  "events t = events s \<Longrightarrow> audit_repo t = audit_repo s \<Longrightarrow> seq s \<le> seq t \<Longrightarrow>
   process_tag t = process_tag s \<Longrightarrow> audit_grows s t"
  by (simp add: audit_grows_def durable_keeps_def)

section \<open>Frames\<close>

lemma only_tasks_frames:
  assumes "only_tasks s t"
  shows "approvals_keep s t" "handoffs_keep s t" "registry_keeps s t" "audit_grows s t"
  using assms
  by (auto simp: only_tasks_def counter_moves_def intro!: approval_life.keeps_untouched
      handoff_life.keeps_untouched registry_keeps_same audit_grows_same)

lemma only_approvals_frames:
  assumes "only_approvals s t"
  shows "tasks_keep s t" "handoffs_keep s t" "registry_keeps s t" "audit_grows s t"
  using assms
  by (auto simp: only_approvals_def counter_moves_def intro!: task_life.keeps_same_store
      handoff_life.keeps_untouched registry_keeps_same audit_grows_same)

lemma only_handoffs_frames:
  assumes "only_handoffs s t"
  shows "tasks_keep s t" "approvals_keep s t" "registry_keeps s t" "audit_grows s t"
  using assms
  by (auto simp: only_handoffs_def counter_moves_def intro!: task_life.keeps_same_store
      approval_life.keeps_untouched registry_keeps_same audit_grows_same)

lemma only_audit_frames:
  assumes "only_audit s t"
  shows "tasks_keep s t" "approvals_keep s t" "handoffs_keep s t" "registry_keeps s t"
  using assms
  by (auto simp: only_audit_def counter_moves_def intro!: task_life.keeps_same_store
      approval_life.keeps_untouched handoff_life.keeps_untouched registry_keeps_same)

lemma core_of_tasks: "keeps only_tasks m \<Longrightarrow> keeps tasks_keep m \<Longrightarrow> keeps core_keeps m"
  by (simp add: keeps_def core_keeps_def only_tasks_frames)

lemma core_of_approvals: "keeps only_approvals m \<Longrightarrow> keeps approvals_keep m \<Longrightarrow> keeps core_keeps m"
  by (simp add: keeps_def core_keeps_def only_approvals_frames)

lemma core_of_handoffs: "keeps only_handoffs m \<Longrightarrow> keeps handoffs_keep m \<Longrightarrow> keeps core_keeps m"
  by (simp add: keeps_def core_keeps_def only_handoffs_frames)

lemma core_of_audit: "keeps only_audit m \<Longrightarrow> keeps audit_grows m \<Longrightarrow> keeps core_keeps m"
  by (simp add: keeps_def core_keeps_def only_audit_frames)

text \<open>The frames compose like any other evolution.\<close>

interpretation only_tasks: evolution "only_tasks :: 'x registry_state_scheme \<Rightarrow> 'x registry_state_scheme \<Rightarrow> bool"
proof
  fix s t u :: "'x registry_state_scheme"
  have "s = s\<lparr>seq := seq s, ticks := ticks s, tasks := tasks s\<rparr>" by simp
  then show "only_tasks s s" unfolding only_tasks_def by blast
  assume "only_tasks s t" "only_tasks t u"
  then show "only_tasks s u" unfolding only_tasks_def by (auto, metis le_trans)
qed

interpretation only_approvals: evolution "only_approvals :: 'x registry_state_scheme \<Rightarrow> 'x registry_state_scheme \<Rightarrow> bool"
proof
  fix s t u :: "'x registry_state_scheme"
  have "s = s\<lparr>seq := seq s, ticks := ticks s, approvals := approvals s\<rparr>" by simp
  then show "only_approvals s s" unfolding only_approvals_def by blast
  assume "only_approvals s t" "only_approvals t u"
  then show "only_approvals s u" unfolding only_approvals_def by (auto, metis le_trans)
qed

interpretation only_handoffs: evolution "only_handoffs :: 'x registry_state_scheme \<Rightarrow> 'x registry_state_scheme \<Rightarrow> bool"
proof
  fix s t u :: "'x registry_state_scheme"
  have "s = s\<lparr>seq := seq s, ticks := ticks s, handoffs := handoffs s\<rparr>" by simp
  then show "only_handoffs s s" unfolding only_handoffs_def by blast
  assume "only_handoffs s t" "only_handoffs t u"
  then show "only_handoffs s u" unfolding only_handoffs_def by (auto, metis le_trans)
qed

section \<open>The calls\<close>

lemma only_tasks_now: "keeps only_tasks now"
proof (rule keepsI)
  fix s :: "'x registry_state_scheme"
  have "snd (now s) = s\<lparr>seq := seq s, ticks := Suc (ticks s), tasks := tasks s\<rparr>" by (simp add: now_def)
  then show "only_tasks s (snd (now s))" unfolding only_tasks_def by blast
qed

lemma only_tasks_createId: "keeps only_tasks (createId pfx)"
proof (rule keepsI)
  fix s :: "'x registry_state_scheme"
  have "snd (createId pfx s) = s\<lparr>seq := Suc (seq s), ticks := ticks s, tasks := tasks s\<rparr>"
    by (simp add: createId_eq)
  then show "only_tasks s (snd (createId pfx s))"
    unfolding only_tasks_def by (meson le_SucI order_refl)
qed

lemma only_tasks_upsert: "keeps only_tasks (upsert_task t)"
proof (rule keepsI)
  fix s :: "'x registry_state_scheme"
  have "snd (upsert_task t s) = s\<lparr>seq := seq s, ticks := ticks s, tasks := mem_upsert task_id t (tasks s)\<rparr>"
    by (simp add: upsert_task_def)
  then show "only_tasks s (snd (upsert_task t s))" unfolding only_tasks_def by blast
qed

lemma only_tasks_transition: "keeps only_tasks (task_transition i to p)"
proof (rule keepsI)
  fix s :: "'x registry_state_scheme"
  show "only_tasks s (snd (task_transition i to p s))"
  proof (cases rule: task_transition_cases [of i s to p])
    case (moved t t')
    then have "snd (task_transition i to p s) =
        s\<lparr>seq := seq s, ticks := Suc (ticks s), tasks := mem_upsert task_id t' (tasks s)\<rparr>" by simp
    then show ?thesis unfolding only_tasks_def by blast
  qed (simp_all add: only_tasks.refl)
qed

lemma only_tasks_create: "keeps only_tasks (task_create task_newId d)"
  unfolding task_create_def task_newId_def Let_def
  by (intro only_tasks.keeps_intros only_tasks_now only_tasks_createId only_tasks_upsert)

lemma only_approvals_now: "keeps only_approvals now"
proof (rule keepsI)
  fix s :: "'x registry_state_scheme"
  have "snd (now s) = s\<lparr>seq := seq s, ticks := Suc (ticks s), approvals := approvals s\<rparr>" by (simp add: now_def)
  then show "only_approvals s (snd (now s))" unfolding only_approvals_def by blast
qed

lemma only_approvals_createId: "keeps only_approvals (createId pfx)"
proof (rule keepsI)
  fix s :: "'x registry_state_scheme"
  have "snd (createId pfx s) = s\<lparr>seq := Suc (seq s), ticks := ticks s, approvals := approvals s\<rparr>"
    by (simp add: createId_eq)
  then show "only_approvals s (snd (createId pfx s))"
    unfolding only_approvals_def by (meson le_SucI order_refl)
qed

lemma only_approvals_upsert: "keeps only_approvals (upsert_approval a)"
proof (rule keepsI)
  fix s :: "'x registry_state_scheme"
  have "snd (upsert_approval a s) =
      s\<lparr>seq := seq s, ticks := ticks s, approvals := mem_upsert approval_id a (approvals s)\<rparr>"
    by (simp add: upsert_approval_def)
  then show "only_approvals s (snd (upsert_approval a s))" unfolding only_approvals_def by blast
qed

lemma only_approvals_require: "keeps only_approvals (approval_require i)"
  by (rule keepsI) (simp add: approval_require_def only_approvals.refl split: option.split)

lemmas only_approvals_basics = only_approvals_now only_approvals_createId only_approvals_upsert
  only_approvals_require

lemma only_approvals_ops:
  "keeps only_approvals (approval_request d)"
  "keeps only_approvals (approval_decide i dec who md)"
  "keeps only_approvals (approval_expire i)"
  unfolding approval_request_def approval_decide_def approval_expire_def mustBePending_def Let_def
  by (intro only_approvals.keeps_intros only_approvals_basics)+

lemma only_approvals_expireStale: "keeps only_approvals (expireStale asOf)"
  unfolding expireStale_def approval_pending_def
  by (intro only_approvals.keeps_intros only_approvals_ops)

lemma only_handoffs_now: "keeps only_handoffs now"
proof (rule keepsI)
  fix s :: "'x registry_state_scheme"
  have "snd (now s) = s\<lparr>seq := seq s, ticks := Suc (ticks s), handoffs := handoffs s\<rparr>" by (simp add: now_def)
  then show "only_handoffs s (snd (now s))" unfolding only_handoffs_def by blast
qed

lemma only_handoffs_createId: "keeps only_handoffs (createId pfx)"
proof (rule keepsI)
  fix s :: "'x registry_state_scheme"
  have "snd (createId pfx s) = s\<lparr>seq := Suc (seq s), ticks := ticks s, handoffs := handoffs s\<rparr>"
    by (simp add: createId_eq)
  then show "only_handoffs s (snd (createId pfx s))"
    unfolding only_handoffs_def by (meson le_SucI order_refl)
qed

lemma only_handoffs_save: "keeps only_handoffs (handoff_save h)"
proof (rule keepsI)
  fix s :: "'x registry_state_scheme"
  have "snd (handoff_save h s) =
      s\<lparr>seq := seq s, ticks := ticks s, handoffs := mem_upsert handoff_id h (handoffs s)\<rparr>"
    by (simp add: handoff_save_def)
  then show "only_handoffs s (snd (handoff_save h s))" unfolding only_handoffs_def by blast
qed

lemma only_handoffs_require: "keeps only_handoffs (handoff_require i)"
  by (rule keepsI) (simp add: handoff_require_def only_handoffs.refl split: option.split)

lemma only_handoffs_ops:
  "keeps only_handoffs (handoff_propose d)" "keeps only_handoffs (handoff_accept i)"
  "keeps only_handoffs (handoff_reject i reason)"
  unfolding handoff_propose_def handoff_accept_def handoff_reject_def mustBeProposed_def Let_def
  by (intro only_handoffs.keeps_intros only_handoffs_now only_handoffs_createId only_handoffs_save
      only_handoffs_require)+

lemma core_now [core_rules]: "keeps core_keeps now"
  by (rule core_of_tasks [OF only_tasks_now]) (rule keeps_tasks_frame, simp)

lemma core_createId [core_rules]: "keeps core_keeps (createId pfx)"
  by (rule core_of_tasks [OF only_tasks_createId]) (rule keeps_tasks_frame, simp)

lemma core_task_transition [core_rules]: "keeps core_keeps (task_transition i to p)"
  by (rule core_of_tasks [OF only_tasks_transition keeps_task_transition])

lemma core_task_ops [core_rules]:
  "keeps core_keeps (task_assign i a)" "keeps core_keeps (task_complete i v)"
  "keeps core_keeps (task_fail i m)" "keeps core_keeps (task_cancel i)"
  by (simp_all add: task_assign_def task_complete_def task_fail_def task_cancel_def core_task_transition)

lemma core_task_create [core_rules]: "keeps core_keeps (task_create task_newId d)"
  by (rule core_of_tasks [OF only_tasks_create]) (rule keeps_task_create, simp add: task_newId_def)

lemma core_approval_ops [core_rules]:
  "keeps core_keeps (approval_request d)" "keeps core_keeps (approval_decide i dec who md)"
  "keeps core_keeps (approval_expire i)" "keeps core_keeps (expireStale asOf)"
  by (rule core_of_approvals, rule only_approvals_ops only_approvals_expireStale,
      rule keeps_approval_request keeps_approval_decide keeps_approval_expire keeps_expireStale)+

lemma core_handoff_ops [core_rules]:
  "keeps core_keeps (handoff_propose d)" "keeps core_keeps (handoff_accept i)"
  "keeps core_keeps (handoff_reject i reason)"
  by (rule core_of_handoffs, rule only_handoffs_ops,
      rule keeps_handoff_propose keeps_handoff_accept keeps_handoff_reject)+

lemma core_audit [core_rules]: "keeps core_keeps (audit ty t a p d)"
proof (rule core_of_audit [OF _ audit_audit_grows], rule keepsI)
  fix s :: "'x registry_state_scheme"
  have "seq s \<le> free_seq (process_tag s) (taken_audit_ids s) (seq s)"
    by (intro less_imp_le free_seq_gt)
  then show "only_audit s (snd (audit ty t a p d s))"
    by (simp add: only_audit_def audit_def record_event_def Let_def op_simps) blast
qed

lemma core_reads [core_rules]:
  "keeps core_keeps (task_require i)" "keeps core_keeps (approval_require i)"
  "keeps core_keeps (handoff_require i)" "keeps core_keeps (registry_require i)"
  by (rule keepsI; simp add: task_require_def approval_require_def handoff_require_def
      registry_require_def core_evo.refl split: option.split)+

end
