(* ===== verification/Permissions.thy ===== *)
theory Permissions
  imports Contracts
begin

text \<open>
  \<open>core/permissions/permission-system.ts\<close>: deny-by-default evaluation of a request against
  an immutable list of grants. Precedence: explicit deny, then explicit allow, then deny.
\<close>

definition scopeMatches :: "PermissionGrant \<Rightarrow> PermissionRequest \<Rightarrow> bool" where
  "scopeMatches g r \<longleftrightarrow>
     (grant_agentId g = None \<or> grant_agentId g = Some (req_agentId r)) \<and>
     (grant_projectId g = None \<or> grant_projectId g = Some (req_projectId r)) \<and>
     (grant_toolId g = None \<or> grant_toolId g = req_toolId r) \<and>
     (grant_environment g = None \<or> grant_environment g = Some (req_environment r))"

definition grant_matches :: "PermissionRequest \<Rightarrow> PermissionGrant \<Rightarrow> bool" where
  "grant_matches r g \<longleftrightarrow> grant_action g = req_action r \<and> scopeMatches g r"

definition withGrants :: "PermissionGrant list \<Rightarrow> PermissionGrant list \<Rightarrow> PermissionGrant list" where
  "withGrants grants extra = grants @ extra"

definition evaluate :: "PermissionGrant list \<Rightarrow> PermissionRequest \<Rightarrow> PermissionDecision" where
  "evaluate grants r =
     (let matches = filter (grant_matches r) grants in
      case js_find (\<lambda>g. grant_effect g = Deny) matches of
        Some d \<Rightarrow> \<lparr>allowed = False, decision_reason = or_else (grant_reason d) ''explicit deny'', matched = Some d\<rparr>
      | None \<Rightarrow>
          (case js_find (\<lambda>g. grant_effect g = Allow) matches of
             Some a \<Rightarrow> \<lparr>allowed = True, decision_reason = or_else (grant_reason a) ''explicit allow'', matched = Some a\<rparr>
           | None \<Rightarrow> \<lparr>allowed = False, decision_reason = ''deny by default'', matched = None\<rparr>))"

definition assertPermission :: "PermissionGrant list \<Rightarrow> PermissionRequest \<Rightarrow> unit res" where
  "assertPermission grants r =
     (let d = evaluate grants r in
      if allowed d then Inr ()
      else Inl (PermissionDeniedError
        (''permission denied: '' @ req_agentId r @ '' '' @ action_str (req_action r) @ '' on '' @
         req_projectId r @ (if truthy (req_toolId r) then ''/'' @ or_else (req_toolId r) [] else []) @
         '' ('' @ environment_str (req_environment r) @ '') - '' @ decision_reason d)))"

text \<open>The verdict, declaratively: some allow matches and no deny does.\<close>

lemma evaluate_allowed:
  "allowed (evaluate grants r) \<longleftrightarrow>
     (\<exists>g \<in> set grants. grant_matches r g \<and> grant_effect g = Allow) \<and>
     (\<forall>g \<in> set grants. grant_matches r g \<longrightarrow> grant_effect g \<noteq> Deny)"
proof -
  have allow: "js_find (\<lambda>g. grant_effect g = Allow) ms \<noteq> None \<longleftrightarrow> (\<exists>g \<in> set ms. grant_effect g = Allow)" for ms
    by (auto simp: js_find_None)
  have "allowed (evaluate grants r) \<longleftrightarrow>
      js_find (\<lambda>g. grant_effect g = Deny) (filter (grant_matches r) grants) = None \<and>
      js_find (\<lambda>g. grant_effect g = Allow) (filter (grant_matches r) grants) \<noteq> None"
    by (simp add: evaluate_def Let_def split: option.split)
  then show ?thesis by (simp only: allow) (auto simp: js_find_None)
qed

lemma evaluate_matched:
  "matched (evaluate grants r) = Some g \<Longrightarrow>
     g \<in> set grants \<and> grant_matches r g \<and> (grant_effect g = Allow \<longleftrightarrow> allowed (evaluate grants r))"
  by (auto simp: evaluate_def Let_def split: option.splits dest!: js_find_Some)

lemma evaluate_perm: "set gs = set hs \<Longrightarrow> allowed (evaluate gs r) = allowed (evaluate hs r)"
  by (simp add: evaluate_allowed)

lemma evaluate_deny_monotone:
  "allowed (evaluate (withGrants grants extra) r) \<Longrightarrow> \<not> allowed (evaluate grants r) \<Longrightarrow>
   \<exists>g \<in> set extra. grant_matches r g \<and> grant_effect g = Allow"
  by (auto simp: evaluate_allowed withGrants_def)

lemma assertPermission_iff: "assertPermission grants r = Inr () \<longleftrightarrow> allowed (evaluate grants r)"
  by (simp add: assertPermission_def Let_def)

end
