(* ===== verification/Orchestrator.thy ===== *)
theory Orchestrator
  imports System Permissions
begin

text \<open>
  \<open>core/orchestrator/orchestrator.ts\<close>: submission, approval decisions, resumption, handoffs and
  dispatch. What the constructor injects is the record \<open>orchestrator\<close>: the agent executor
  (code outside the core) is a stateful operation that receives the permission guard, and the
  selector and the approval policy are functions. Every audit event of the source is written.
\<close>

type_synonym PermissionGuard = "PermissionAction \<Rightarrow> string option \<Rightarrow> unit res"

record 's orchestrator =
  localeCompare :: "string \<Rightarrow> string \<Rightarrow> int"
  selectAgent :: "Agent list \<Rightarrow> Task \<Rightarrow> Agent"
  approvalPolicy :: "Task \<Rightarrow> ApprovalRequirement"
  permission_system :: "PermissionGrant list option"
  orch_environment :: Environment
  agentGate :: "(string \<Rightarrow> bool) option"
  executor :: "Agent \<Rightarrow> Task \<Rightarrow> PermissionGuard \<Rightarrow> AgentExecutionContext option \<Rightarrow> ('s, json) op"

definition selectFirstById :: "(string \<Rightarrow> string \<Rightarrow> int) \<Rightarrow> Agent list \<Rightarrow> Task \<Rightarrow> Agent" where
  "selectFirstById lc candidates task = hd (js_sort (\<lambda>a b. lc (agent_id a) (agent_id b)) candidates)"

definition approveNothing :: "Task \<Rightarrow> ApprovalRequirement" where
  "approveNothing task = \<lparr>ar_required = False, ar_action = None, ar_reason = None, ar_expiresAt = None\<rparr>"

definition toPermissionRequest :: "'s orchestrator \<Rightarrow> Task \<Rightarrow> Agent \<Rightarrow> RequiredPermission \<Rightarrow> PermissionRequest" where
  "toPermissionRequest cfg task agent required =
     \<lparr>req_action = rp_action required, req_agentId = agent_id agent, req_projectId = task_projectId task,
      req_toolId = rp_toolId required, req_environment = orch_environment cfg\<rparr>"

definition makeGuard :: "'s orchestrator \<Rightarrow> Task \<Rightarrow> Agent \<Rightarrow> PermissionGuard" where
  "makeGuard cfg task agent action toolId = (case permission_system cfg of
     None \<Rightarrow> Inr ()
   | Some grants \<Rightarrow> assertPermission grants
       \<lparr>req_action = action, req_agentId = agent_id agent, req_projectId = task_projectId task,
        req_toolId = toolId, req_environment = orch_environment cfg\<rparr>)"

text \<open>One event on behalf of a task and its agent.\<close>

definition audit_task :: "string \<Rightarrow> Task \<Rightarrow> string option \<Rightarrow> fields \<Rightarrow> ('x registry_state_scheme, unit) op" where
  "audit_task type task agentId data = audit type (Some (task_id task)) agentId (Some (task_projectId task)) data"

definition decision_data :: "'s orchestrator \<Rightarrow> RequiredPermission \<Rightarrow> PermissionDecision \<Rightarrow> fields" where
  "decision_data cfg required decision =
     [(''action'', JStr (action_str (rp_action required))), (''toolId'', jstr_opt (rp_toolId required)),
      (''environment'', JStr (environment_str (orch_environment cfg))),
      (''allowed'', JBool (allowed decision)), (''reason'', JStr (decision_reason decision))]"

definition denial :: "'s orchestrator \<Rightarrow> Task \<Rightarrow> Agent \<Rightarrow> RequiredPermission \<Rightarrow> PermissionDecision \<Rightarrow> error" where
  "denial cfg task agent required decision = PermissionDeniedError
     (''permission denied: '' @ agent_id agent @ '' '' @ action_str (rp_action required) @ '' on '' @
      task_projectId task @ (if truthy (rp_toolId required) then ''/'' @ or_else (rp_toolId required) [] else []) @
      '' ('' @ environment_str (orch_environment cfg) @ '') - '' @ decision_reason decision)"

fun enforce_each ::
  "'s orchestrator \<Rightarrow> PermissionGrant list \<Rightarrow> Task \<Rightarrow> Agent \<Rightarrow> RequiredPermission list \<Rightarrow>
   ('x registry_state_scheme, error option) op" where
  "enforce_each cfg grants task agent [] = returnS None"
| "enforce_each cfg grants task agent (required # rest) =
     (let decision = evaluate grants (toPermissionRequest cfg task agent required) in
      thenS (audit_task ''permission_decision'' task (Some (agent_id agent)) (decision_data cfg required decision))
      (if \<not> allowed decision then returnS (Some (denial cfg task agent required decision))
       else enforce_each cfg grants task agent rest))"

definition enforcePermissions ::
  "'s orchestrator \<Rightarrow> Task \<Rightarrow> Agent \<Rightarrow> ('x registry_state_scheme, error option) op" where
  "enforcePermissions cfg task agent =
     (if length (task_requiredPermissions task) = 0 then returnS None
      else case permission_system cfg of
        None \<Rightarrow> returnS (Some (PermissionDeniedError
          (''permission denied: no permission system configured for gated task '' @ task_id task)))
      | Some grants \<Rightarrow> enforce_each cfg grants task agent (task_requiredPermissions task))"

definition failTask :: "Task \<Rightarrow> Agent \<Rightarrow> string \<Rightarrow> string \<Rightarrow> ('x registry_state_scheme, Task) op" where
  "failTask task agent msg reason = bindS (task_fail (task_id task) msg) (\<lambda>failed.
     thenS (audit_task ''task_failed'' failed (Some (agent_id agent))
       [(''error'', JStr msg), (''reason'', JStr reason)])
     (returnS failed))"

definition dispatch_run ::
  "'x registry_state_scheme orchestrator \<Rightarrow> Task \<Rightarrow> Agent \<Rightarrow> AgentExecutionContext option \<Rightarrow>
   ('x registry_state_scheme, Task) op" where
  "dispatch_run cfg task agent ctx =
     bindS (executor cfg agent task (makeGuard cfg task agent) ctx) (\<lambda>output.
     bindS (task_complete (task_id task) output) (\<lambda>completed.
     thenS (audit_task ''task_completed'' completed (Some (agent_id agent)) [])
     (returnS completed)))"

definition dispatch ::
  "'x registry_state_scheme orchestrator \<Rightarrow> Task \<Rightarrow> Agent \<Rightarrow> AgentExecutionContext option \<Rightarrow>
   ('x registry_state_scheme, Task) op" where
  "dispatch cfg task agent ctx =
     thenS (audit_task ''agent_executed'' task (Some (agent_id agent)) [])
     (catchS (dispatch_run cfg task agent ctx)
       (\<lambda>e. bindS (task_fail (task_id task) (message e)) (\<lambda>failed.
          thenS (audit_task ''task_failed'' failed (Some (agent_id agent)) [(''error'', JStr (message e))])
          (returnS failed))))"

section \<open>Submission\<close>

definition candidates_for ::
  "'s orchestrator \<Rightarrow> Task \<Rightarrow> 'x registry_state_scheme \<Rightarrow> Agent list" where
  "candidates_for cfg task s = filter
     (\<lambda>c. list_all (\<lambda>cap. cap \<in> set (capabilities c)) (task_requiredCapabilities task))
     (eligible (localeCompare cfg) (task_type task) (task_projectId task) s)"

definition block_unassigned :: "Task \<Rightarrow> string \<Rightarrow> string option \<Rightarrow> ('x registry_state_scheme, Task) op" where
  "block_unassigned task reason agentId =
     bindS (task_transition (task_id task) TBlocked (no_patch\<lparr>patch_metadata :=
        Some ((''blockedReason'', JStr reason) #
              (case agentId of None \<Rightarrow> [] | Some a \<Rightarrow> [(''blockedAgentId'', JStr a)]))\<rparr>)) (\<lambda>t.
     thenS (audit_task ''task_assigned'' t agentId [(''assigned'', JBool False), (''reason'', JStr reason)])
     (returnS t))"

definition park_for_approval ::
  "Task \<Rightarrow> Agent \<Rightarrow> ApprovalRequirement \<Rightarrow> ('x registry_state_scheme, Task) op" where
  "park_for_approval task agent requirement =
     bindS (approval_request
       \<lparr>ad_action = or_else (ar_action requirement) (task_type task),
        ad_requestedBy = ''orchestrator:'' @ agent_id agent,
        ad_reason = or_else (ar_reason requirement) ''approval policy requires a decision'',
        ad_expiresAt = ar_expiresAt requirement,
        ad_metadata = Some [(''taskId'', JStr (task_id task))]\<rparr>) (\<lambda>approval.
     thenS (audit_task ''approval_requested'' task (Some (agent_id agent))
        [(''approvalId'', JStr (approval_id approval)), (''action'', JStr (approval_action approval))])
     (task_transition (task_id task) TAwaitingApproval
        (no_patch\<lparr>patch_approvalId := Some (Some (approval_id approval))\<rparr>)))"

text \<open>From the assignment on: permissions, then approval, then execution.\<close>

definition run_assigned ::
  "'x registry_state_scheme orchestrator \<Rightarrow> Task \<Rightarrow> Agent \<Rightarrow> ('x registry_state_scheme, Task) op" where
  "run_assigned cfg task agent =
     bindS (enforcePermissions cfg task agent) (\<lambda>denied.
     case denied of
       Some e \<Rightarrow> failTask task agent (message e) ''permission_denied''
     | None \<Rightarrow>
         let requirement = approvalPolicy cfg task in
         if ar_required requirement then park_for_approval task agent requirement
         else dispatch cfg task agent (task_executionContext task))"

definition assign_and_run ::
  "'x registry_state_scheme orchestrator \<Rightarrow> Task \<Rightarrow> Agent list \<Rightarrow> ('x registry_state_scheme, Task) op" where
  "assign_and_run cfg task candidates =
     (let agent = selectAgent cfg candidates task in
      if defined_and (\<lambda>enabled. \<not> enabled (agent_id agent)) (agentGate cfg)
      then block_unassigned task ''agent_disabled'' (Some (agent_id agent))
      else bindS (task_assign (task_id task) (agent_id agent)) (\<lambda>task.
        thenS (audit_task ''task_assigned'' task (Some (agent_id agent))
          [(''assigned'', JBool True), (''candidates'', jstrs (map agent_id candidates))])
        (run_assigned cfg task agent)))"

definition submit ::
  "'x registry_state_scheme orchestrator \<Rightarrow> TaskDraft \<Rightarrow> AgentExecutionContext option \<Rightarrow>
   ('x registry_state_scheme, Task) op" where
  "submit cfg draft ctx =
     bindS (task_create task_newId
       (case ctx of None \<Rightarrow> draft | Some c \<Rightarrow> draft\<lparr>td_executionContext := Some c\<rparr>)) (\<lambda>task.
     thenS (audit_task ''task_created'' task None
        [(''type'', JStr (task_type task)), (''priority'', JStr (priority_str (task_priority task)))])
     (bindS (task_transition (task_id task) TQueued no_patch) (\<lambda>task.
      bindS (getsS (candidates_for cfg task)) (\<lambda>candidates.
      if length candidates = 0
      then block_unassigned task
        (if length (task_requiredCapabilities task) > 0 then ''no capability-qualified agent''
         else ''no eligible agent'') None
      else assign_and_run cfg task candidates))))"

section \<open>Approval decisions, resumption and handoffs\<close>

definition linked_task :: "Approval \<Rightarrow> string option" where
  "linked_task a = (case map_of (decisionMetadata a) ''taskId'' of Some (JStr t) \<Rightarrow> Some t | _ \<Rightarrow> None)"

fun decision_str :: "Decision \<Rightarrow> string" where
  "decision_str DecideApproved = ''approved''"
| "decision_str DecideRejected = ''rejected''"

definition recordApprovalDecision ::
  "string \<Rightarrow> Decision \<Rightarrow> string \<Rightarrow> fields \<Rightarrow> ('x registry_state_scheme, Approval) op" where
  "recordApprovalDecision approvalId decision who metadata =
     bindS (approval_decide approvalId decision who metadata) (\<lambda>updated.
     thenS (audit ''approval_decided'' (linked_task updated) None None
       [(''approvalId'', JStr approvalId), (''decision'', JStr (decision_str decision)),
        (''decidedBy'', JStr who)])
     (returnS updated))"

datatype ResumeOutcome = OutcomeApproved | OutcomeRejected | OutcomeExpired

definition resume_outcome :: "ApprovalStatus \<Rightarrow> ResumeOutcome" where
  "resume_outcome st = (if st = Approved then OutcomeApproved
     else if st = Rejected then OutcomeRejected else OutcomeExpired)"

fun outcome_str :: "ResumeOutcome \<Rightarrow> string" where
  "outcome_str OutcomeApproved = ''approved''"
| "outcome_str OutcomeRejected = ''rejected''"
| "outcome_str OutcomeExpired = ''expired''"

text \<open>An \<open>asOf\<close> that is given is a non-empty timestamp.\<close>

definition resume_decided ::
  "'x registry_state_scheme orchestrator \<Rightarrow> Task \<Rightarrow> Approval \<Rightarrow> ('x registry_state_scheme, Task) op" where
  "resume_decided cfg task approval =
     (let outcome = resume_outcome (approval_status approval) in
      bindS (case assignedAgentId task of
          None \<Rightarrow> throwS (NotFoundError ''unknown agent: undefined'')
        | Some agentId \<Rightarrow> registry_require agentId) (\<lambda>agent.
      thenS (audit_task ''task_resumed'' task (Some (agent_id agent))
        [(''approvalId'', JStr (approval_id approval)), (''outcome'', JStr (outcome_str outcome))])
      (if outcome \<noteq> OutcomeApproved
       then (let reason = (if outcome = OutcomeRejected then ''approval rejected'' else ''approval expired'') in
         bindS (task_transition (task_id task) TFailed (no_patch\<lparr>patch_error := Some reason\<rparr>)) (\<lambda>task.
         thenS (audit_task ''task_failed'' task (Some (agent_id agent))
           [(''error'', JStr reason), (''reason'', JStr (''approval_'' @ outcome_str outcome))])
         (returnS task)))
       else bindS (task_transition (task_id task) TRunning no_patch) (\<lambda>task.
         dispatch cfg task agent (task_executionContext task)))))"

definition resume_approved ::
  "'x registry_state_scheme orchestrator \<Rightarrow> string \<Rightarrow> Task \<Rightarrow> string \<Rightarrow> ('x registry_state_scheme, Task) op" where
  "resume_approved cfg taskId task approvalId = bindS (approval_require approvalId) (\<lambda>approval.
     if approval_status approval = Requested
     then throwS (WorkforceError (''cannot resume task '' @ taskId @ '': approval ''
            @ approval_id approval @ '' is still pending''))
     else resume_decided cfg task approval)"

definition resume ::
  "'x registry_state_scheme orchestrator \<Rightarrow> string \<Rightarrow> timestamp option \<Rightarrow> ('x registry_state_scheme, Task) op" where
  "resume cfg taskId asOf = bindS (task_require taskId) (\<lambda>task.
     if task_status task \<noteq> TAwaitingApproval
     then throwS (StateTransitionError (''task '' @ taskId @ '' is not awaiting approval (status: ''
            @ task_status_str (task_status task) @ '')''))
     else if \<not> truthy (task_approvalId task)
     then throwS (WorkforceError (''task '' @ taskId @ '' has no approval to resume from''))
     else thenS (case asOf of None \<Rightarrow> returnS () | Some at \<Rightarrow> thenS (expireStale at) (returnS ()))
       (resume_approved cfg taskId task (or_else (task_approvalId task) [])))"

definition requestHandoff :: "HandoffDraft \<Rightarrow> ('x registry_state_scheme, Handoff) op" where
  "requestHandoff draft = bindS (getsS (\<lambda>s. (registry_has (hd_sourceAgentId draft) s \<and>
       registry_has (hd_destinationAgentId draft) s, mem_findById (hd_taskId draft) (tasks s)))) (\<lambda>(registered, task).
     if \<not> registered then throwS (ValidationError ''handoff agents must be registered'')
     else if task = None
     then throwS (NotFoundError (''handoff task does not exist: '' @ hd_taskId draft))
     else bindS (handoff_propose draft) (\<lambda>proposed.
       bindS (handoff_accept (handoff_id proposed)) (\<lambda>accepted.
       thenS (audit ''handoff_created'' (Some (handoff_taskId accepted)) (Some (sourceAgentId accepted)) None
         [(''handoffId'', JStr (handoff_id accepted)),
          (''destinationAgentId'', JStr (destinationAgentId accepted))])
       (returnS accepted))))"

end
