(* ===== verification/Orchestration.thy ===== *)
theory Orchestration
  imports Orchestrator
begin

text \<open>
  What the orchestrator guarantees: every call respects the contracts of the components it
  drives, the executor is consulted for a permitted, eligible, unblocked dispatch only, and a
  submission ends in one of four settled states.
\<close>

section \<open>Contracts\<close>

definition executor_keeps :: "'x registry_state_scheme orchestrator \<Rightarrow> bool" where
  "executor_keeps cfg \<longleftrightarrow> (\<forall>a t g c. keeps core_keeps (executor cfg a t g c))"

lemma core_audit_task [core_rules]: "keeps core_keeps (audit_task ty t a d)"
  unfolding audit_task_def by (rule core_audit)

lemma core_enforce_each: "keeps core_keeps (enforce_each cfg grants task agent rs)"
proof (induction rs)
  case Nil
  show ?case unfolding enforce_each.simps by (rule core_evo.keeps_returnS)
next
  case (Cons r rs)
  then show ?case
    unfolding enforce_each.simps Let_def by (intro core_evo.keeps_intros core_audit_task)
qed

lemma core_enforcePermissions [core_rules]: "keeps core_keeps (enforcePermissions cfg task agent)"
  unfolding enforcePermissions_def
  by (intro core_evo.keeps_intros core_enforce_each)

lemma core_failTask [core_rules]: "keeps core_keeps (failTask task agent m r)"
  unfolding failTask_def by (intro core_evo.keeps_intros core_rules)

lemma core_dispatch:
  assumes "executor_keeps cfg"
  shows "keeps core_keeps (dispatch cfg task agent ctx)"
proof -
  have "keeps core_keeps (executor cfg a t g c)" for a t g c
    using assms by (simp add: executor_keeps_def)
  then show ?thesis
    unfolding dispatch_def dispatch_run_def by (intro core_evo.keeps_intros core_rules)
qed

lemma core_block_unassigned [core_rules]: "keeps core_keeps (block_unassigned task r a)"
  unfolding block_unassigned_def by (intro core_evo.keeps_intros core_rules)

lemma core_park [core_rules]: "keeps core_keeps (park_for_approval task agent req)"
  unfolding park_for_approval_def by (intro core_evo.keeps_intros core_rules)

lemma core_run_assigned:
  assumes "executor_keeps cfg"
  shows "keeps core_keeps (run_assigned cfg task agent)"
  unfolding run_assigned_def Let_def
  by (intro core_evo.keeps_intros core_rules core_dispatch assms)

lemma core_submit:
  assumes "executor_keeps cfg"
  shows "keeps core_keeps (submit cfg draft ctx)"
  unfolding submit_def assign_and_run_def Let_def
  by (intro core_evo.keeps_intros core_rules core_run_assigned assms)

lemma core_resume:
  assumes "executor_keeps cfg"
  shows "keeps core_keeps (resume cfg taskId asOf)"
  unfolding resume_def resume_approved_def resume_decided_def Let_def
  by (intro core_evo.keeps_intros core_rules core_dispatch assms)

lemma core_recordApprovalDecision [core_rules]:
  "keeps core_keeps (recordApprovalDecision i dec who md)"
  unfolding recordApprovalDecision_def by (intro core_evo.keeps_intros core_rules)

lemma core_requestHandoff [core_rules]: "keeps core_keeps (requestHandoff d)"
  unfolding requestHandoff_def split_beta by (intro core_evo.keeps_intros core_rules)

section \<open>Permission enforcement\<close>

definition permitted :: "'s orchestrator \<Rightarrow> Task \<Rightarrow> Agent \<Rightarrow> bool" where
  "permitted cfg task agent \<longleftrightarrow>
     task_requiredPermissions task = [] \<or>
     (\<exists>grants. permission_system cfg = Some grants \<and>
        (\<forall>r \<in> set (task_requiredPermissions task).
           allowed (evaluate grants (toPermissionRequest cfg task agent r))))"

lemma audit_task_result [simp]: "fst (audit_task ty t a d s) = Inr ()"
  by (simp add: audit_task_def)

lemma audit_task_tasks [simp]: "tasks (snd (audit_task ty t a d s)) = tasks s"
  by (simp add: audit_task_def)

lemma thenS_audit_task [simp]: "thenS (audit_task ty t a d) k s = k (snd (audit_task ty t a d s))"
  by (cases "audit_task ty t a d s") (use audit_task_result [of ty t a d s] in \<open>simp add: thenS_def bindS_def\<close>)

lemma enforce_each_result:
  "\<exists>v t. enforce_each cfg grants task agent rs s = (Inr v, t) \<and> tasks t = tasks s \<and>
     (v = None \<longleftrightarrow> (\<forall>r \<in> set rs. allowed (evaluate grants (toPermissionRequest cfg task agent r))))"
  by (induction rs arbitrary: s) (auto simp: Let_def, fastforce+)

lemma enforcePermissions_result:
  "\<exists>v t. enforcePermissions cfg task agent s = (Inr v, t) \<and> tasks t = tasks s \<and>
     (v = None \<longleftrightarrow> permitted cfg task agent)"
  using enforce_each_result [of cfg _ task agent "task_requiredPermissions task" s]
  by (auto simp: enforcePermissions_def permitted_def split: option.split)

section \<open>Mediation\<close>

text \<open>
  Two orchestrators that differ in their executor only, at arguments that are not cleared,
  behave alike: the executor is never consulted there.
\<close>

definition with_executor where
  "with_executor cfg e = cfg\<lparr>executor := e\<rparr>"

lemma with_executor_simps [simp]:
  "localeCompare (with_executor cfg e) = localeCompare cfg"
  "selectAgent (with_executor cfg e) = selectAgent cfg"
  "approvalPolicy (with_executor cfg e) = approvalPolicy cfg"
  "permission_system (with_executor cfg e) = permission_system cfg"
  "orch_environment (with_executor cfg e) = orch_environment cfg"
  "agentGate (with_executor cfg e) = agentGate cfg"
  "executor (with_executor cfg e) = e"
  by (simp_all add: with_executor_def)

lemma with_executor_derived [simp]:
  "toPermissionRequest (with_executor cfg e) = toPermissionRequest cfg"
  "makeGuard (with_executor cfg e) = makeGuard cfg"
  "decision_data (with_executor cfg e) = decision_data cfg"
  "denial (with_executor cfg e) = denial cfg"
  "permitted (with_executor cfg e) = permitted cfg"
  "candidates_for (with_executor cfg e) = candidates_for cfg"
  by (auto simp: fun_eq_iff toPermissionRequest_def makeGuard_def decision_data_def denial_def
      permitted_def candidates_for_def split: option.split)

lemma enforce_each_executor [simp]:
  "enforce_each (with_executor cfg e) grants task agent rs = enforce_each cfg grants task agent rs"
  by (induction rs) (simp_all only: enforce_each.simps with_executor_derived)

lemma enforcePermissions_executor [simp]:
  "enforcePermissions (with_executor cfg e) = enforcePermissions cfg"
  by (simp add: fun_eq_iff enforcePermissions_def cong: option.case_cong)

definition cleared :: "'s orchestrator \<Rightarrow> Task \<Rightarrow> Agent \<Rightarrow> bool" where
  "cleared cfg task agent \<longleftrightarrow> permitted cfg task agent \<and> \<not> ar_required (approvalPolicy cfg task)"

definition capable :: "Task \<Rightarrow> Agent \<Rightarrow> bool" where
  "capable task agent \<longleftrightarrow> task_type task \<in> set (supportedTaskTypes agent) \<and>
     task_projectId task \<in> set (allowedProjects agent) \<and>
     set (task_requiredCapabilities task) \<subseteq> set (capabilities agent)"

definition enabled :: "'s orchestrator \<Rightarrow> Agent \<Rightarrow> bool" where
  "enabled cfg agent \<longleftrightarrow> (case agentGate cfg of None \<Rightarrow> True | Some g \<Rightarrow> g (agent_id agent))"

lemma dispatch_cong:
  assumes "\<And>g c. e1 agent task g c = e2 agent task g c"
  shows "dispatch (with_executor cfg e1) task agent ctx = dispatch (with_executor cfg e2) task agent ctx"
  by (simp only: dispatch_def dispatch_run_def with_executor_simps with_executor_derived assms)

lemma run_assigned_unfold:
  assumes "enforcePermissions cfg task agent s = (Inr v, t)"
  shows "run_assigned cfg task agent s =
    (case v of Some e \<Rightarrow> failTask task agent (message e) ''permission_denied'' t
     | None \<Rightarrow> if ar_required (approvalPolicy cfg task)
         then park_for_approval task agent (approvalPolicy cfg task) t
         else dispatch cfg task agent (task_executionContext task) t)"
  using assms by (cases v) (simp_all add: run_assigned_def bindS_def Let_def)

lemma run_assigned_mediated:
  assumes "cleared cfg task agent \<Longrightarrow> \<forall>g c. e1 agent task g c = e2 agent task g c"
  shows "run_assigned (with_executor cfg e1) task agent s = run_assigned (with_executor cfg e2) task agent s"
proof -
  obtain v t where enf: "enforcePermissions cfg task agent s = (Inr v, t)"
    and v: "v = None \<longleftrightarrow> permitted cfg task agent"
    using enforcePermissions_result [of cfg task agent s] by blast
  have unfold: "run_assigned (with_executor cfg e) task agent s =
    (case v of Some e \<Rightarrow> failTask task agent (message e) ''permission_denied'' t
     | None \<Rightarrow> if ar_required (approvalPolicy cfg task)
         then park_for_approval task agent (approvalPolicy cfg task) t
         else dispatch (with_executor cfg e) task agent (task_executionContext task) t)" for e
    using run_assigned_unfold [of "with_executor cfg e" task agent s v t] enf by (cases v) simp_all
  show ?thesis
  proof (cases "cleared cfg task agent")
    case True
    then have "\<And>g c. e1 agent task g c = e2 agent task g c" using assms by blast
    then have "dispatch (with_executor cfg e1) task agent c = dispatch (with_executor cfg e2) task agent c" for c
      by (rule dispatch_cong)
    then show ?thesis by (simp only: unfold)
  next
    case False
    with v have "v \<noteq> None \<or> ar_required (approvalPolicy cfg task)" by (auto simp: cleared_def)
    then show ?thesis by (cases v) (simp_all add: unfold)
  qed
qed

lemma apply_patch_frame [simp]:
  "task_type (apply_patch t to at p) = task_type t"
  "task_requiredCapabilities (apply_patch t to at p) = task_requiredCapabilities t"
  "task_requiredPermissions (apply_patch t to at p) = task_requiredPermissions t"
  by (simp_all add: apply_patch_def)

lemma capable_patch [simp]: "capable (apply_patch t to at p) a = capable t a"
  by (simp add: capable_def)

lemma candidates_capable: "a \<in> set (candidates_for cfg t s) \<Longrightarrow> capable t a"
  by (auto simp: candidates_for_def eligible_def capable_def list_all_iff)

definition selects_candidate :: "'s orchestrator \<Rightarrow> bool" where
  "selects_candidate cfg \<longleftrightarrow> (\<forall>cs t. cs \<noteq> [] \<longrightarrow> selectAgent cfg cs t \<in> set cs)"

lemma selectFirstById_candidate: "cs \<noteq> [] \<Longrightarrow> selectFirstById lc cs t \<in> set cs"
  by (metis js_sort_empty_iff list.set_sel(1) selectFirstById_def set_js_sort)

lemma bindS_cong:
  assumes "\<And>x t. m s = (Inr x, t) \<Longrightarrow> f x t = g x t"
  shows "bindS m f s = bindS m g s"
  using assms by (simp add: bindS_def split: prod.split sum.split)

lemma assign_and_run_mediated:
  assumes stored: "mem_findById (task_id task) (tasks s) = Some task"
    and cs: "\<forall>a \<in> set cs. capable task a" "cs \<noteq> []" "selects_candidate cfg"
    and agree: "\<And>a t g c. cleared cfg t a \<Longrightarrow> capable t a \<Longrightarrow> enabled cfg a \<Longrightarrow> e1 a t g c = e2 a t g c"
  shows "assign_and_run (with_executor cfg e1) task cs s = assign_and_run (with_executor cfg e2) task cs s"
proof -
  let ?a = "selectAgent cfg cs task"
  have a: "capable task ?a" using cs by (simp add: selects_candidate_def)
  show ?thesis
  proof (cases "defined_and (\<lambda>enabled. \<not> enabled (agent_id ?a)) (agentGate cfg)")
    case True
    then show ?thesis by (simp add: assign_and_run_def)
  next
    case False
    then have en: "enabled cfg ?a" by (auto simp: enabled_def split: option.splits)
    have "run_assigned (with_executor cfg e1) t ?a u = run_assigned (with_executor cfg e2) t ?a u"
      if "task_assign (task_id task) (agent_id ?a) s = (Inr t, v)" for t v u
    proof (rule run_assigned_mediated)
      assume "cleared cfg t ?a"
      moreover have "capable t ?a"
        using that stored a unfolding task_assign_def by (auto elim!: task_transition_Inr)
      ultimately show "\<forall>g c. e1 ?a t g c = e2 ?a t g c" using agree en by blast
    qed
    then show ?thesis
      using False by (auto simp: assign_and_run_def Let_def intro!: bindS_cong)
  qed
qed

lemma with_own_executor [simp]: "with_executor cfg (executor cfg) = cfg"
  by (simp add: with_executor_def)

definition effective_draft :: "TaskDraft \<Rightarrow> AgentExecutionContext option \<Rightarrow> TaskDraft" where
  "effective_draft d ctx = (case ctx of None \<Rightarrow> d | Some c \<Rightarrow> d\<lparr>td_executionContext := Some c\<rparr>)"

definition no_agent_reason :: "Task \<Rightarrow> string" where
  "no_agent_reason task = (if length (task_requiredCapabilities task) > 0
     then ''no capability-qualified agent'' else ''no eligible agent'')"

text \<open>Every submission is rejected at creation, or reaches the queue with its candidates.\<close>

lemma submit_cases:
  obtains (rejected) e s' where "\<And>x. submit (with_executor cfg x) d ctx s = (Inl e, s')"
      "tasks s' = tasks s"
  | (queued) i at task u where
      "mem_findById i (tasks s) = None" "validateTaskDraft (effective_draft d ctx) = Inr ()"
      "task_id task = i" "task_status task = TQueued"
      "task_type task = td_type d" "task_projectId task = td_projectId d"
      "task_requiredPermissions task = or_else (td_requiredPermissions d) []"
      "task_requiredCapabilities task = or_else (td_requiredCapabilities d) []"
      "tasks u = mem_upsert task_id task (mem_upsert task_id (new_task (effective_draft d ctx) i at) (tasks s))"
      "\<And>x. submit (with_executor cfg x) d ctx s =
        (if candidates_for cfg task u = [] then block_unassigned task (no_agent_reason task) None u
         else assign_and_run (with_executor cfg x) task (candidates_for cfg task u) u)"
proof -
  have newId: "tasks (snd (task_newId v)) = tasks v" for v :: "'a registry_state_scheme"
    by (simp add: task_newId_def)
  note def = submit_def [folded effective_draft_def]
  from newId show thesis
  proof (cases rule: task_create_cases [of task_newId "effective_draft d ctx" s])
    case (failed e s')
    then show thesis by (intro rejected [of e s']) (simp_all add: def bindS_def)
  next
    case (created i at s1)
    let ?t0 = "new_task (effective_draft d ctx) i at"
    define s2 where "s2 = snd (audit_task ''task_created'' ?t0 None
        [(''type'', JStr (task_type ?t0)), (''priority'', JStr (priority_str (task_priority ?t0)))] s1)"
    have s2: "mem_findById (task_id ?t0) (tasks s2) = Some ?t0" "tasks s2 = tasks s1"
      using created(2) by (simp_all add: s2_def)
    define task where "task = apply_patch ?t0 TQueued (time_at s2 (ticks s2)) no_patch"
    define u where "u = s2\<lparr>ticks := Suc (ticks s2), tasks := mem_upsert task_id task (tasks s2)\<rparr>"
    have move: "task_transition (task_id ?t0) TQueued no_patch s2 = (Inr task, u)"
      using task_transition_ok [OF s2(1), of TQueued no_patch]
      by (simp add: canTransition_def task_def u_def)
    have run: "submit (with_executor cfg x) d ctx s =
        (if candidates_for cfg task u = [] then block_unassigned task (no_agent_reason task) None u
         else assign_and_run (with_executor cfg x) task (candidates_for cfg task u) u)" for x
      unfolding def
      by (subst bindS_Inr, rule created(1), subst thenS_audit_task, subst s2_def [symmetric],
          subst bindS_Inr, rule move, simp add: bindS_def no_agent_reason_def)
    have d: "td_type (effective_draft d ctx) = td_type d" "td_projectId (effective_draft d ctx) = td_projectId d"
      "td_requiredPermissions (effective_draft d ctx) = td_requiredPermissions d"
      "td_requiredCapabilities (effective_draft d ctx) = td_requiredCapabilities d"
      by (simp_all add: effective_draft_def split: option.split)
    show thesis
      by (rule queued [OF created(3,5) _ _ _ _ _ _ _ run]) (simp_all add: task_def u_def s2 created(2) d)
  qed
qed

lemma submit_mediated:
  assumes "selects_candidate cfg"
    and "\<And>a t g c. cleared cfg t a \<Longrightarrow> capable t a \<Longrightarrow> enabled cfg a \<Longrightarrow> e1 a t g c = e2 a t g c"
  shows "submit (with_executor cfg e1) d ctx s = submit (with_executor cfg e2) d ctx s"
proof (cases rule: submit_cases [of cfg d ctx s])
  case (rejected e s')
  then show ?thesis by simp
next
  case (queued i at task u)
  then show ?thesis
    by (auto simp: queued(10) intro!: assign_and_run_mediated [OF _ _ _ assms] dest: candidates_capable)
qed

section \<open>Outcomes\<close>

definition settled :: "TaskStatus \<Rightarrow> bool" where
  "settled st \<longleftrightarrow> st \<in> {TBlocked, TFailed, TAwaitingApproval, TCompleted}"

definition executor_leaves_tasks :: "'x registry_state_scheme orchestrator \<Rightarrow> bool" where
  "executor_leaves_tasks cfg \<longleftrightarrow> (\<forall>a t g c s. tasks (snd (executor cfg a t g c s)) = tasks s)"

definition policy_states_texts :: "'s orchestrator \<Rightarrow> bool" where
  "policy_states_texts cfg \<longleftrightarrow> (\<forall>t. (\<forall>a. ar_action (approvalPolicy cfg t) = Some a \<longrightarrow> js_trim a \<noteq> []) \<and>
     (\<forall>r. ar_reason (approvalPolicy cfg t) = Some r \<longrightarrow> js_trim r \<noteq> []))"

text \<open>The operation returns the stored entity and its status is one of \<open>sts\<close>.\<close>

definition ends_in :: "(Task res \<times> 'x registry_state_scheme) \<Rightarrow> string \<Rightarrow> TaskStatus set \<Rightarrow> bool" where
  "ends_in r i sts \<longleftrightarrow> (\<exists>t u. r = (Inr t, u) \<and> task_id t = i \<and> mem_findById i (tasks u) = Some t \<and> task_status t \<in> sts)"

lemma ends_in_mono: "ends_in r i A \<Longrightarrow> A \<subseteq> B \<Longrightarrow> ends_in r i B"
  by (auto simp: ends_in_def)

lemma transition_ends_in:
  assumes "mem_findById i (tasks s) = Some t" "task_id t = i" "canTransition (task_status t) to"
  shows "ends_in (task_transition i to p s) i {to}"
  using task_transition_ok [OF assms(1,3), of p] assms(2) by (simp add: ends_in_def)

lemma ends_in_bind_audit:
  assumes "ends_in (m s) i A"
  shows "ends_in (bindS m (\<lambda>t. thenS (audit_task ty (f t) a d) (returnS t)) s) i A"
proof -
  from assms obtain t u where m: "m s = (Inr t, u)" and t: "task_id t = i"
      "mem_findById i (tasks u) = Some t" "task_status t \<in> A"
    unfolding ends_in_def by blast
  from m have "bindS m (\<lambda>t. thenS (audit_task ty (f t) a d) (returnS t)) s
      = (Inr t, snd (audit_task ty (f t) a d u))"
    by (simp add: bindS_def)
  with t show ?thesis by (simp add: ends_in_def)
qed

lemma failTask_ends_in:
  assumes "mem_findById (task_id t) (tasks s) = Some t" "canTransition (task_status t) TFailed"
  shows "ends_in (failTask t a m r s) (task_id t) {TFailed}"
  unfolding failTask_def task_fail_def
  by (rule ends_in_bind_audit) (rule transition_ends_in [OF assms(1) refl assms(2)])

lemma block_unassigned_ends_in:
  assumes "mem_findById (task_id t) (tasks s) = Some t" "canTransition (task_status t) TBlocked"
  shows "ends_in (block_unassigned t r a s) (task_id t) {TBlocked}"
  unfolding block_unassigned_def
  by (rule ends_in_bind_audit) (rule transition_ends_in [OF assms(1) refl assms(2)])

lemma dispatch_ends_in:
  assumes ex: "executor_leaves_tasks cfg"
    and stored: "mem_findById (task_id task) (tasks s) = Some task" and run: "task_status task = TRunning"
  shows "ends_in (dispatch cfg task agent ctx s) (task_id task) {TCompleted, TFailed}"
proof -
  define v where "v = snd (audit_task ''agent_executed'' task (Some (agent_id agent)) [] s)"
  obtain r u where r: "executor cfg agent task (makeGuard cfg task agent) ctx v = (r, u)" by fastforce
  have u: "mem_findById (task_id task) (tasks u) = Some task"
    using ex stored r by (metis audit_task_tasks executor_leaves_tasks_def snd_conv v_def)
  have dis: "dispatch cfg task agent ctx s = catchS (dispatch_run cfg task agent ctx)
      (\<lambda>e. bindS (task_fail (task_id task) (message e)) (\<lambda>failed.
          thenS (audit_task ''task_failed'' failed (Some (agent_id agent)) [(''error'', JStr (message e))])
          (returnS failed))) v"
    by (simp only: dispatch_def thenS_audit_task v_def)
  show ?thesis
  proof (cases r)
    case (Inl e)
    have run_e: "dispatch_run cfg task agent ctx v = (Inl e, u)"
      unfolding dispatch_run_def by (rule bindS_Inl) (simp add: r Inl)
    have "ends_in (bindS (task_fail (task_id task) (message e)) (\<lambda>failed.
          thenS (audit_task ''task_failed'' failed (Some (agent_id agent)) [(''error'', JStr (message e))])
          (returnS failed)) u) (task_id task) {TFailed}"
      unfolding task_fail_def
      by (rule ends_in_bind_audit) (rule transition_ends_in, rule u, simp_all add: canTransition_def run)
    then show ?thesis
      unfolding dis catchS_def by (simp add: run_e) (erule ends_in_mono, simp)
  next
    case (Inr out)
    have "ends_in (bindS (task_complete (task_id task) out) (\<lambda>completed.
        thenS (audit_task ''task_completed'' completed (Some (agent_id agent)) [])
        (returnS completed)) u) (task_id task) {TCompleted}"
      unfolding task_complete_def
      by (rule ends_in_bind_audit) (rule transition_ends_in, rule u, simp_all add: canTransition_def run)
    moreover have "dispatch_run cfg task agent ctx v = bindS (task_complete (task_id task) out) (\<lambda>completed.
        thenS (audit_task ''task_completed'' completed (Some (agent_id agent)) [])
        (returnS completed)) u"
      unfolding dispatch_run_def by (rule bindS_Inr) (simp add: r Inr)
    ultimately show ?thesis
      unfolding dis catchS_def by (auto simp: ends_in_def)
  qed
qed

lemma js_trim_prefix: "js_trim (''orchestrator:'' @ x) \<noteq> []"
  by (simp add: js_trim_empty_iff js_space_def)

lemma park_ends_in:
  assumes "mem_findById (task_id task) (tasks s) = Some task" "canTransition (task_status task) TAwaitingApproval"
    and "\<And>a. ar_action req = Some a \<Longrightarrow> js_trim a \<noteq> []" "\<And>r. ar_reason req = Some r \<Longrightarrow> js_trim r \<noteq> []"
    and "js_trim (task_type task) \<noteq> []"
  shows "ends_in (park_for_approval task agent req s) (task_id task) {TAwaitingApproval}"
proof -
  let ?d = "\<lparr>ad_action = or_else (ar_action req) (task_type task),
        ad_requestedBy = ''orchestrator:'' @ agent_id agent,
        ad_reason = or_else (ar_reason req) ''approval policy requires a decision'',
        ad_expiresAt = ar_expiresAt req, ad_metadata = Some [(''taskId'', JStr (task_id task))]\<rparr>"
  have "js_trim ''approval policy requires a decision'' \<noteq> []"
    by (simp add: js_trim_empty_iff js_space_def)
  then have "validateApprovalRequest ?d = Inr ()"
    using assms(3-5) js_trim_prefix [of "agent_id agent"]
    by (cases "ar_action req"; cases "ar_reason req") (simp_all add: validateApprovalRequest_def checks_Inr_iff)
  then obtain a u where req: "approval_request ?d s = (Inr a, u)"
    by (simp add: approval_request_eq Let_def)
  have u: "tasks u = tasks s" using approval_tasks(1) [of ?d s] unfolding req by (simp only: snd_conv)
  have "park_for_approval task agent req s =
      task_transition (task_id task) TAwaitingApproval (no_patch\<lparr>patch_approvalId := Some (Some (approval_id a))\<rparr>)
        (snd (audit_task ''approval_requested'' task (Some (agent_id agent))
          [(''approvalId'', JStr (approval_id a)), (''action'', JStr (approval_action a))] u))"
    unfolding park_for_approval_def by (subst bindS_Inr, rule req) (rule thenS_audit_task)
  then show ?thesis
    using assms(1,2) u by (auto intro!: transition_ends_in)
qed

lemma run_assigned_ends_in:
  assumes "executor_leaves_tasks cfg" "policy_states_texts cfg"
    and stored: "mem_findById (task_id task) (tasks s) = Some task" and run: "task_status task = TRunning"
    and ty: "js_trim (task_type task) \<noteq> []"
  shows "ends_in (run_assigned cfg task agent s) (task_id task) {TFailed, TAwaitingApproval, TCompleted}"
proof -
  obtain v t where enf: "enforcePermissions cfg task agent s = (Inr v, t)" and t: "tasks t = tasks s"
    using enforcePermissions_result [of cfg task agent s] by blast
  have st: "mem_findById (task_id task) (tasks t) = Some task" using stored t by simp
  show ?thesis
  proof (cases v)
    case (Some e)
    have "ends_in (failTask task agent (message e) ''permission_denied'' t) (task_id task) {TFailed}"
      using st by (rule failTask_ends_in) (simp add: canTransition_def run)
    then show ?thesis
      by (simp add: run_assigned_unfold [OF enf] Some) (erule ends_in_mono, simp)
  next
    case None
    have "ends_in (park_for_approval task agent (approvalPolicy cfg task) t) (task_id task) {TAwaitingApproval}"
      using st by (rule park_ends_in)
        (use assms(2) ty run in \<open>auto simp: canTransition_def policy_states_texts_def\<close>)
    moreover have "ends_in (dispatch cfg task agent (task_executionContext task) t) (task_id task) {TCompleted, TFailed}"
      using assms(1) st run by (rule dispatch_ends_in)
    ultimately show ?thesis
      by (simp add: run_assigned_unfold [OF enf] None) (auto elim: ends_in_mono)
  qed
qed

lemma assign_and_run_ends_in:
  assumes "executor_leaves_tasks cfg" "policy_states_texts cfg"
    and stored: "mem_findById (task_id task) (tasks s) = Some task" and queued: "task_status task = TQueued"
    and ty: "js_trim (task_type task) \<noteq> []"
  shows "ends_in (assign_and_run cfg task cs s) (task_id task) {TBlocked, TFailed, TAwaitingApproval, TCompleted}"
proof (cases "defined_and (\<lambda>enabled. \<not> enabled (agent_id (selectAgent cfg cs task))) (agentGate cfg)")
  case True
  have "ends_in (block_unassigned task ''agent_disabled'' (Some (agent_id (selectAgent cfg cs task))) s) (task_id task) {TBlocked}"
    using stored by (rule block_unassigned_ends_in) (simp add: canTransition_def queued)
  then show ?thesis
    using True by (simp add: assign_and_run_def Let_def) (erule ends_in_mono, simp)
next
  case False
  let ?a = "selectAgent cfg cs task" and ?at = "time_at s (ticks s)"
  let ?p = "no_patch\<lparr>patch_assignedAgentId := Some (agent_id ?a)\<rparr>"
  let ?t = "apply_patch task TRunning ?at ?p"
  define u where "u = snd (audit_task ''task_assigned'' ?t (Some (agent_id ?a))
        [(''assigned'', JBool True), (''candidates'', jstrs (map agent_id cs))]
        (s\<lparr>ticks := Suc (ticks s), tasks := mem_upsert task_id ?t (tasks s)\<rparr>))"
  have asg: "task_assign (task_id task) (agent_id ?a) s =
      (Inr ?t, s\<lparr>ticks := Suc (ticks s), tasks := mem_upsert task_id ?t (tasks s)\<rparr>)"
    unfolding task_assign_def by (rule task_transition_ok [OF stored]) (simp add: canTransition_def queued)
  have "ends_in (run_assigned cfg ?t ?a u) (task_id ?t) {TFailed, TAwaitingApproval, TCompleted}"
    by (rule run_assigned_ends_in [OF assms(1,2)]) (simp_all add: u_def ty)
  moreover have "assign_and_run cfg task cs s = run_assigned cfg ?t ?a u"
    unfolding assign_and_run_def Let_def if_not_P [OF False]
    by (subst bindS_Inr, rule asg, subst thenS_audit_task) (simp only: u_def)
  ultimately show ?thesis by simp (erule ends_in_mono, auto)
qed

text \<open>A submission settles: it is rejected and stores nothing, or ends in a settled state.\<close>

lemma submit_settles:
  fixes s :: "'x registry_state_scheme"
  assumes "executor_leaves_tasks cfg" "policy_states_texts cfg"
  shows "(\<exists>e u. submit cfg d ctx s = (Inl e, u) \<and> tasks u = tasks s) \<or>
    (\<exists>t u. submit cfg d ctx s = (Inr t, u) \<and> mem_findById (task_id t) (tasks s) = None \<and>
       mem_findById (task_id t) (tasks u) = Some t \<and> settled (task_status t))"
proof (cases rule: submit_cases [of cfg d ctx s])
  case (rejected e s')
  from rejected(1) [of "executor cfg"] rejected(2) show ?thesis by simp
next
  case (queued i at task u)
  have st: "mem_findById (task_id task) (tasks u) = Some task" by (simp add: queued(9))
  have "validateTaskDraft (effective_draft d ctx) = Inr ()" by (rule queued(2))
  then have "js_trim (td_type (effective_draft d ctx)) \<noteq> []" by (rule validateTaskDraft_InrD)
  then have ty: "js_trim (task_type task) \<noteq> []"
    using queued(5) by (simp add: effective_draft_def split: option.splits)
  have "ends_in (submit cfg d ctx s) i {TBlocked, TFailed, TAwaitingApproval, TCompleted}"
  proof (cases "candidates_for cfg task u = []")
    case True
    have "ends_in (block_unassigned task (no_agent_reason task) None u) (task_id task) {TBlocked}"
      using st by (rule block_unassigned_ends_in) (simp add: canTransition_def queued(4))
    then show ?thesis
      using queued(10) [of "executor cfg"] True queued(3) by simp (erule ends_in_mono, simp)
  next
    case False
    then show ?thesis
      using queued(10) [of "executor cfg"] assign_and_run_ends_in [OF assms st queued(4) ty] queued(3) by simp
  qed
  then show ?thesis using queued(1) by (auto simp: ends_in_def settled_def)
qed

end
