(* ===== verification/Human_Decision.thy ===== *)
theory Human_Decision
  imports Orchestration
begin

text \<open>
  Only a recorded decision approves. \<open>no_new_approvals\<close> relates two states when every approved
  record of the second was already approved, unchanged, in the first; every call of the core
  except a positive decision maintains it, and a parked task runs only on an approved record.
\<close>

definition no_new_approvals :: "'x approval_state_scheme \<Rightarrow> 'x approval_state_scheme \<Rightarrow> bool" where
  "no_new_approvals s t \<longleftrightarrow> (\<forall>i a. mem_findById i (approvals t) = Some a \<and> approval_status a = Approved
     \<longrightarrow> mem_findById i (approvals s) = Some a)"

interpretation unapproved: evolution "no_new_approvals :: 'x approval_state_scheme \<Rightarrow> 'x approval_state_scheme \<Rightarrow> bool"
  by unfold_locales (auto simp: no_new_approvals_def)

named_theorems unapproved_rules

lemma unapproved_same: "approvals t = approvals s \<Longrightarrow> no_new_approvals s t"
  by (simp add: no_new_approvals_def)

lemma unapproved_frame: "(\<And>s. approvals (snd (m s)) = approvals s) \<Longrightarrow> keeps no_new_approvals m"
  by (rule keepsI) (simp add: unapproved_same)

lemma unapproved_upsert:
  "approval_status a \<noteq> Approved \<Longrightarrow> keeps no_new_approvals (upsert_approval a)"
  by (rule keepsI) (auto simp: no_new_approvals_def upsert_approval_def)

lemma unapproved_basics [unapproved_rules]:
  "keeps no_new_approvals now" "keeps no_new_approvals (createId pfx)"
  "keeps no_new_approvals (audit ty t a p d)" "keeps no_new_approvals (approval_require i)"
  "keeps no_new_approvals (mustBePending i)"
  by (rule unapproved_frame; simp add: now_def createId_eq audit_def record_event_def op_simps Let_def
      approval_require_def mustBePending_state split: option.split)+

lemma unapproved_tasks [unapproved_rules]:
  "keeps no_new_approvals (task_transition i to p)" "keeps no_new_approvals (task_assign i ag)"
  "keeps no_new_approvals (task_complete i v)" "keeps no_new_approvals (task_fail i m)"
  unfolding task_assign_def task_complete_def task_fail_def
  by (rule unapproved_frame, use approvals_frame_transition in blast)+

lemma unapproved_task_require [unapproved_rules]: "keeps no_new_approvals (task_require i)"
  by (rule unapproved_frame) (simp add: task_require_def split: option.split)

lemma unapproved_upsert_task: "keeps no_new_approvals (upsert_task t)"
  by (rule unapproved_frame) (simp add: upsert_task_def)

lemma unapproved_task_create [unapproved_rules]: "keeps no_new_approvals (task_create task_newId d)"
  unfolding task_create_def task_newId_def Let_def
  by (intro unapproved.keeps_intros unapproved_rules unapproved_upsert_task)

lemma unapproved_request [unapproved_rules]: "keeps no_new_approvals (approval_request d)"
  unfolding approval_request_def Let_def
  by (intro unapproved.keeps_intros unapproved_rules unapproved_upsert) simp

lemma unapproved_expire [unapproved_rules]: "keeps no_new_approvals (approval_expire i)"
  unfolding approval_expire_def Let_def
  by (intro unapproved.keeps_intros unapproved_rules unapproved_upsert) simp

lemma unapproved_expireStale [unapproved_rules]: "keeps no_new_approvals (expireStale asOf)"
  unfolding expireStale_def approval_pending_def
  by (intro unapproved.keeps_intros unapproved_rules)

lemma unapproved_handoffs:
  "keeps no_new_approvals (handoff_require i)" "keeps no_new_approvals (handoff_save h)"
  by (rule unapproved_frame; simp add: handoff_require_def handoff_save_def split: option.split)+

lemma unapproved_handoff_ops [unapproved_rules]:
  "keeps no_new_approvals (handoff_propose d)" "keeps no_new_approvals (handoff_accept i)"
  unfolding handoff_propose_def handoff_accept_def mustBeProposed_def Let_def
  by (intro unapproved.keeps_intros unapproved_rules unapproved_handoffs)+

lemma unapproved_registry_require [unapproved_rules]: "keeps no_new_approvals (registry_require i)"
  by (rule unapproved_frame) (simp add: registry_require_def split: option.split)

lemma unapproved_reject [unapproved_rules]:
  "keeps no_new_approvals (approval_decide i DecideRejected who md)"
  unfolding approval_decide_def Let_def
  by (intro unapproved.keeps_intros unapproved_rules unapproved_upsert) simp

lemma unapproved_audit_task [unapproved_rules]: "keeps no_new_approvals (audit_task ty t a d)"
  unfolding audit_task_def by (rule unapproved_rules)

lemma unapproved_enforce_each: "keeps no_new_approvals (enforce_each cfg grants task agent rs)"
proof (induction rs)
  case Nil
  show ?case unfolding enforce_each.simps by (rule unapproved.keeps_returnS)
next
  case (Cons r rs)
  then show ?case
    unfolding enforce_each.simps Let_def by (intro unapproved.keeps_intros unapproved_audit_task)
qed

lemma unapproved_enforcePermissions [unapproved_rules]:
  "keeps no_new_approvals (enforcePermissions cfg task agent)"
  unfolding enforcePermissions_def by (intro unapproved.keeps_intros unapproved_enforce_each)

section \<open>Resumption\<close>

lemma resume_decided_mediated:
  assumes "approval_status a \<noteq> Approved"
  shows "resume_decided (with_executor cfg e1) task a = resume_decided (with_executor cfg e2) task a"
  using assms by (simp add: resume_decided_def resume_outcome_def Let_def)

lemma resume_approved_mediated:
  assumes "\<And>a. mem_findById ai (approvals u) = Some a \<Longrightarrow> approval_status a \<noteq> Approved"
  shows "resume_approved (with_executor cfg e1) i task ai u = resume_approved (with_executor cfg e2) i task ai u"
  unfolding resume_approved_def
proof (rule bindS_cong)
  fix a t
  assume "approval_require ai u = (Inr a, t)"
  then have "mem_findById ai (approvals u) = Some a"
    by (simp add: approval_require_def split: option.splits)
  then have "approval_status a \<noteq> Approved" by (rule assms)
  then have "resume_decided (with_executor cfg e1) task a = resume_decided (with_executor cfg e2) task a"
    by (rule resume_decided_mediated)
  then show "(if approval_status a = Requested
        then throwS (WorkforceError (''cannot resume task '' @ i @ '': approval ''
               @ approval_id a @ '' is still pending''))
        else resume_decided (with_executor cfg e1) task a) t =
      (if approval_status a = Requested
        then throwS (WorkforceError (''cannot resume task '' @ i @ '': approval ''
               @ approval_id a @ '' is still pending''))
        else resume_decided (with_executor cfg e2) task a) t"
    by (simp only:)
qed

text \<open>Without an approved record the executor is not consulted.\<close>

lemma resume_mediated:
  fixes s :: "'x registry_state_scheme"
  assumes stored: "mem_findById i (tasks s) = Some task" "task_approvalId task = Some ai"
    and unapproved: "\<And>a. mem_findById ai (approvals s) = Some a \<Longrightarrow> approval_status a \<noteq> Approved"
  shows "resume (with_executor cfg e1) i asOf s = resume (with_executor cfg e2) i asOf s"
proof -
  let ?pre = "case asOf of None \<Rightarrow> returnS () | Some at \<Rightarrow> thenS (expireStale at) (returnS ())"
  have pre: "keeps no_new_approvals ?pre"
    by (intro unapproved.keeps_intros unapproved_rules)
  have req: "task_require i s = (Inr task, s)" using stored by (simp add: task_require_def)
  have step: "thenS ?pre (resume_approved (with_executor cfg e1) i task ai) s =
      thenS ?pre (resume_approved (with_executor cfg e2) i task ai) s"
    unfolding thenS_def [of ?pre]
  proof (rule bindS_cong)
    fix x u assume "?pre s = (Inr x, u)"
    with pre have "no_new_approvals s u" by (rule keepsD)
    then have "approval_status a \<noteq> Approved" if "mem_findById ai (approvals u) = Some a" for a
      using that unapproved [of a] unfolding no_new_approvals_def by blast
    then show "resume_approved (with_executor cfg e1) i task ai u = resume_approved (with_executor cfg e2) i task ai u"
      by (rule resume_approved_mediated)
  qed
  show ?thesis
    unfolding resume_def
  proof (rule bindS_cong)
    fix x t assume "task_require i s = (Inr x, t)"
    with req have "x = task" "t = s" by simp_all
    with step stored(2) show "(if task_status x \<noteq> TAwaitingApproval
        then throwS (StateTransitionError (''task '' @ i @ '' is not awaiting approval (status: ''
            @ task_status_str (task_status x) @ '')''))
        else if \<not> truthy (task_approvalId x)
        then throwS (WorkforceError (''task '' @ i @ '' has no approval to resume from''))
        else thenS ?pre (resume_approved (with_executor cfg e1) i x (or_else (task_approvalId x) []))) t =
      (if task_status x \<noteq> TAwaitingApproval
        then throwS (StateTransitionError (''task '' @ i @ '' is not awaiting approval (status: ''
            @ task_status_str (task_status x) @ '')''))
        else if \<not> truthy (task_approvalId x)
        then throwS (WorkforceError (''task '' @ i @ '' has no approval to resume from''))
        else thenS ?pre (resume_approved (with_executor cfg e2) i x (or_else (task_approvalId x) []))) t"
      by simp
  qed
qed

end
