(* ===== verification/Core_Calls.thy ===== *)
theory Core_Calls
  imports Human_Decision
begin

text \<open>
  What an agent can do to the core while it executes: call the operations of the components, in any number
  and order. The stores are private fields of the component classes, so every change of them is such a call.
  The contracts the orchestrator keeps, and that only a decision approves, follow for every such agent.
\<close>

section \<open>Frames\<close>

definition only_registry :: "'x registry_state_scheme \<Rightarrow> 'x registry_state_scheme \<Rightarrow> bool" where
  "only_registry s t \<longleftrightarrow> (\<exists>k rs as is. t = s\<lparr>ticks := k, records := rs, agents := as, instances := is\<rparr>)"

interpretation only_registry: evolution "only_registry :: 'x registry_state_scheme \<Rightarrow> 'x registry_state_scheme \<Rightarrow> bool"
proof
  fix s t u :: "'x registry_state_scheme"
  have "s = s\<lparr>ticks := ticks s, records := records s, agents := agents s, instances := instances s\<rparr>" by simp
  then show "only_registry s s" unfolding only_registry_def by blast
  assume "only_registry s t" "only_registry t u"
  then show "only_registry s u" unfolding only_registry_def by (auto, metis)
qed

lemma only_registry_frames:
  assumes "only_registry s t"
  shows "tasks_keep s t" "approvals_keep s t" "handoffs_keep s t" "audit_grows s t"
  using assms
  by (auto simp: only_registry_def counter_moves_def intro!: task_life.keeps_same_store
      approval_life.keeps_untouched handoff_life.keeps_untouched audit_grows_same)

lemma only_registry_writes:
  "only_registry s (s\<lparr>ticks := k\<rparr>)" "only_registry s (s\<lparr>records := rs\<rparr>)" "only_registry s (s\<lparr>agents := as\<rparr>)"
  "only_registry s (s\<lparr>instances := is\<rparr>)"
proof -
  have "s\<lparr>ticks := k\<rparr> = s\<lparr>ticks := k, records := records s, agents := agents s, instances := instances s\<rparr>"
    "s\<lparr>records := rs\<rparr> = s\<lparr>ticks := ticks s, records := rs, agents := agents s, instances := instances s\<rparr>"
    "s\<lparr>agents := as\<rparr> = s\<lparr>ticks := ticks s, records := records s, agents := as, instances := instances s\<rparr>"
    "s\<lparr>instances := is\<rparr> = s\<lparr>ticks := ticks s, records := records s, agents := agents s, instances := is\<rparr>" by simp_all
  then show "only_registry s (s\<lparr>ticks := k\<rparr>)" "only_registry s (s\<lparr>records := rs\<rparr>)" "only_registry s (s\<lparr>agents := as\<rparr>)"
    "only_registry s (s\<lparr>instances := is\<rparr>)" unfolding only_registry_def by blast+
qed

lemma only_registry_basics:
  "keeps only_registry now" "keeps only_registry (set_record i r)" "keeps only_registry (upsert_agent a)"
  "keeps only_registry (modifyS (\<lambda>s. s\<lparr>instances := f s\<rparr>))"
  by (simp_all add: keeps_def now_def set_record_def upsert_agent_def only_registry_writes)

lemma then_checked: "thenS (liftE (Inr u)) k s = k s" "thenS (liftE (Inl e)) k s = (Inl e, s)"
  by (simp_all add: op_simps)

lemmas only_registry_rules = only_registry.keeps_intros only_registry_basics

lemma only_registry_store: "keeps only_registry (store_record r)"
  unfolding store_record_def by (intro only_registry_rules)

lemma keeps_at: "keeps R m \<Longrightarrow> R s (snd (m s))"
  by (simp add: keeps_def)

lemma only_registry_ops:
  "keeps only_registry (register lc input)" "keeps only_registry (transitionAdministrative i to)"
  "keeps only_registry (createInstance i p m)" "keeps only_registry (setInstanceState i st)"
proof -
  note step = keeps_at [where R = only_registry] only_registry.keeps_bindS only_registry.keeps_thenS
    only_registry.keeps_returnS only_registry.keeps_liftE only_registry_basics only_registry_store
  have desc: "keeps only_registry (register_descriptor lc d)" for d
    by (rule keepsI, cases "validateAgentDescriptor d")
      (auto simp: register_descriptor_def then_checked only_registry.refl intro!: step split: option.split)
  have plain: "keeps only_registry (registerAgent a)" for a
    by (rule keepsI, cases "validateAgent a")
      (auto simp: registerAgent_def op_simps only_registry.refl upsert_agent_def only_registry_writes split: option.split)
  show "keeps only_registry (register lc input)"
    unfolding register_def by (cases input) (auto intro!: only_registry.keeps_intros desc plain)
  show "keeps only_registry (transitionAdministrative i to)"
    by (rule keepsI)
      (auto simp: transitionAdministrative_def only_registry.refl Let_def intro!: step split: option.split)
  show "keeps only_registry (createInstance i p m)"
    by (rule keepsI) (auto simp: createInstance_def only_registry.refl Let_def intro!: step split: option.split)
  show "keeps only_registry (setInstanceState i st)"
    by (rule keepsI) (auto simp: setInstanceState_def only_registry.refl Let_def intro!: step split: option.split)
qed

lemma core_of_registry: "keeps only_registry m \<Longrightarrow> keeps registry_keeps m \<Longrightarrow> keeps core_keeps m"
  by (simp add: keeps_def core_keeps_def only_registry_frames)

lemma instances_keep:
  "keeps registry_keeps (createInstance i p m)" "keeps registry_keeps (setInstanceState i st)"
  by (rule keepsI, rule registry_keeps_same; simp add: createInstance_def setInstanceState_def op_simps now_def Let_def
      split: option.split sum.split)+

lemma core_registry_ops [core_rules]:
  "keeps core_keeps (register lc input)" "keeps core_keeps (transitionAdministrative i to)"
  "keeps core_keeps (createInstance i p m)" "keeps core_keeps (setInstanceState i st)"
  by (rule core_of_registry [OF only_registry_ops(1) keeps_register],
      rule core_of_registry [OF only_registry_ops(2) keeps_transitionAdministrative],
      rule core_of_registry [OF only_registry_ops(3) instances_keep(1)],
      rule core_of_registry [OF only_registry_ops(4) instances_keep(2)])

lemma only_handoffs_specialist:
  "keeps only_handoffs (specialist_propose ds en d a)" "keeps only_handoffs (specialist_accept ds en i who)"
  unfolding specialist_propose_def specialist_accept_def Let_def case_prod_beta
  by (intro only_handoffs.keeps_intros only_handoffs_ops only_handoffs_now only_handoffs_save only_handoffs_require)+

lemma core_specialist [core_rules]:
  "keeps core_keeps (specialist_propose ds en d a)" "keeps core_keeps (specialist_accept ds en i who)"
  by (rule core_of_handoffs [OF only_handoffs_specialist(1) keeps_specialist_propose],
      rule core_of_handoffs [OF only_handoffs_specialist(2) keeps_specialist_accept])

section \<open>Calls\<close>

text \<open>
  One call of a component, returning or throwing; of the approvals it decides positively, the ids are in
  \<open>A\<close>. Every public operation is one of them but \<open>TaskSystem.delete\<close> and the unguarded
  \<open>HandoffSystem.save\<close>, which only the specialist handoffs (included) use. What lies outside the core (workflows,
  tools, files, the clock and the id counter) may change freely.
\<close>

inductive core_call :: "string set \<Rightarrow> 'x registry_state_scheme \<Rightarrow> 'x registry_state_scheme \<Rightarrow> bool" for A where
  task_created: "core_call A s (snd (task_create task_newId d s))"
| task_moved: "core_call A s (snd (task_transition i to p s))"
| approval_requested: "core_call A s (snd (approval_request d s))"
| approval_rejected: "core_call A s (snd (approval_decide i DecideRejected who md s))"
| approval_granted: "i \<in> A \<Longrightarrow> core_call A s (snd (approval_decide i DecideApproved who md s))"
| approval_expired: "core_call A s (snd (approval_expire i s))"
| approvals_swept: "core_call A s (snd (expireStale at s))"
| handoff_proposed: "core_call A s (snd (handoff_propose h s))"
| handoff_accepted: "core_call A s (snd (handoff_accept i s))"
| handoff_rejected: "core_call A s (snd (handoff_reject i reason s))"
| specialist_proposed: "core_call A s (snd (specialist_propose ds en h a s))"
| specialist_accepted: "core_call A s (snd (specialist_accept ds en i who s))"
| agent_registered: "core_call A s (snd (register lc input s))"
| agent_moved: "core_call A s (snd (transitionAdministrative i st s))"
| instance_created: "core_call A s (snd (createInstance i pid m s))"
| instance_moved: "core_call A s (snd (setInstanceState i ist s))"
| recorded: "core_call A s (snd (audit ty t a p dt s))"
| outside: "registry_state.truncate t = (registry_state.truncate s)\<lparr>seq := n, ticks := k\<rparr> \<Longrightarrow> seq s \<le> n \<Longrightarrow>
    core_call A s t"

lemma truncate_fields:
  assumes "registry_state.truncate t = (registry_state.truncate s)\<lparr>seq := n, ticks := k\<rparr>"
  shows "seq t = n" "process_tag t = process_tag s" "events t = events s" "audit_repo t = audit_repo s" "tasks t = tasks s"
    "approvals t = approvals s" "handoffs t = handoffs s" "records t = records s" "agents t = agents s"
  using assms by (cases s, cases t, simp add: registry_state.truncate_def)+

lemma outside_keeps:
  assumes "registry_state.truncate t = (registry_state.truncate s)\<lparr>seq := n, ticks := k\<rparr>" "seq s \<le> n"
  shows "core_keeps s t"
proof -
  note same = truncate_fields [OF assms(1)]
  have moves: "counter_moves s t" using same assms(2) by (simp add: counter_moves_def)
  then show ?thesis
    unfolding core_keeps_def
    by (intro conjI task_life.keeps_same_store approval_life.keeps_untouched handoff_life.keeps_untouched
        registry_keeps_same audit_grows_same)
      (use same assms(2) in simp_all)
qed

lemma core_call_keeps: "core_call A s t \<Longrightarrow> core_keeps s t"
  by (induction rule: core_call.induct) (blast intro: keeps_at core_rules outside_keeps)+

lemma core_calls_keep: "(core_call A)\<^sup>*\<^sup>* s t \<Longrightarrow> core_keeps s t"
  by (induction rule: rtranclp_induct) (blast intro: core_evo.refl core_evo.trans core_call_keeps)+

text \<open>Agents act on the core through its operations.\<close>

definition executor_calls :: "string set \<Rightarrow> 'x registry_state_scheme orchestrator \<Rightarrow> bool" where
  "executor_calls A cfg \<longleftrightarrow> (\<forall>a t g c s. (core_call A)\<^sup>*\<^sup>* s (snd (executor cfg a t g c s)))"

lemma executor_calls_keep:
  fixes cfg :: "'x registry_state_scheme orchestrator"
  assumes "executor_calls A cfg"
  shows "executor_keeps cfg"
  unfolding executor_keeps_def
  by (intro allI keepsI core_calls_keep [where A = A]) (use assms in \<open>simp add: executor_calls_def\<close>)

section \<open>Approval\<close>

text \<open>
  On a store of approvals that keeps its rules, the rules survive, and every approved record whose id is
  outside \<open>A\<close> was approved before, unchanged.
\<close>

definition approved_only :: "string set \<Rightarrow> 'x registry_state_scheme \<Rightarrow> 'x registry_state_scheme \<Rightarrow> bool" where
  "approved_only A s t \<longleftrightarrow> (approvals_ok s \<longrightarrow> approvals_ok t \<and>
     (\<forall>i a. mem_findById i (approvals t) = Some a \<and> approval_status a = Approved \<and> i \<notin> A
        \<longrightarrow> mem_findById i (approvals s) = Some a))"

interpretation approving: evolution
    "approved_only A :: 'x registry_state_scheme \<Rightarrow> 'x registry_state_scheme \<Rightarrow> bool" for A
  by unfold_locales (auto simp: approved_only_def)

lemma core_keeps_approvals_ok: "core_keeps s t \<Longrightarrow> approvals_ok s \<Longrightarrow> approvals_ok t"
  by (simp add: core_keeps_def lifecycle_keeps_def)

lemma approved_only_unapproved: "core_keeps s t \<Longrightarrow> no_new_approvals s t \<Longrightarrow> approved_only A s t"
  unfolding approved_only_def no_new_approvals_def by (blast dest: core_keeps_approvals_ok)

lemma approved_of: "keeps core_keeps m \<Longrightarrow> keeps no_new_approvals m \<Longrightarrow> keeps (approved_only A) m"
  by (simp add: keeps_def approved_only_unapproved)

lemma unapproved_only_registry: "only_registry s t \<Longrightarrow> no_new_approvals s t"
  by (auto simp: only_registry_def intro: unapproved_same)

lemma unapproved_only_handoffs: "only_handoffs s t \<Longrightarrow> no_new_approvals s t"
  by (auto simp: only_handoffs_def intro: unapproved_same)

lemma unapproved_frames:
  "keeps only_registry m \<Longrightarrow> keeps no_new_approvals m" "keeps only_handoffs m \<Longrightarrow> keeps no_new_approvals m"
  by (simp_all add: keeps_def unapproved_only_registry unapproved_only_handoffs)

lemmas unapproved_more = only_registry_ops [THEN unapproved_frames(1)]
  only_handoffs_specialist [THEN unapproved_frames(2)] only_handoffs_ops [THEN unapproved_frames(2)]

lemma decide_approves_one:
  assumes "approvals_ok s" "mem_findById j (approvals (snd (approval_decide i dec who md s))) = Some a" "j \<noteq> i"
  shows "mem_findById j (approvals s) = Some a"
proof (cases rule: mustBePending_cases [of i s])
  case (failed e)
  then show ?thesis using assms(2) by (simp add: approval_decide_def op_simps)
next
  case (found b)
  have "approval_id b = i" using approval_life.ok_repo_ok [OF assms(1)] found(2) by (rule mem_find_key)
  then show ?thesis
    using assms(2,3) found by (simp add: approval_decide_def now_def upsert_approval_def op_simps Let_def)
qed

lemma approved_decide: "dec = DecideApproved \<longrightarrow> i \<in> A \<Longrightarrow> keeps (approved_only A) (approval_decide i dec who md)"
proof (cases dec)
  case DecideRejected
  then show ?thesis by (simp only:) (rule approved_of [OF core_approval_ops(2) unapproved_reject])
next
  case DecideApproved
  assume "dec = DecideApproved \<longrightarrow> i \<in> A"
  with DecideApproved have "i \<in> A" by simp
  have core: "keeps core_keeps (approval_decide i dec who md)" by (rule core_rules)
  show ?thesis
    by (rule keepsI) (use \<open>i \<in> A\<close> in \<open>auto simp: approved_only_def intro: decide_approves_one
        core_keeps_approvals_ok [OF keeps_at [OF core]]\<close>)
qed

lemma approved_outside: "approvals t = approvals s \<Longrightarrow> core_keeps s t \<Longrightarrow> approved_only A s t"
  by (rule approved_only_unapproved) (simp_all add: unapproved_same)

lemma call_approves:
  assumes "core_call A s t"
  shows "approved_only A s t"
proof -
  have core: "core_keeps s t" using assms by (rule core_call_keeps)
  show ?thesis
    using assms
  proof cases
    case (approval_granted i who md)
    then show ?thesis using keeps_at [OF approved_decide] by blast
  next
    case (outside n k)
    then show ?thesis using approved_outside core truncate_fields(6) by blast
  qed (use core in \<open>blast intro: approved_only_unapproved keeps_at unapproved_rules unapproved_more\<close>)+
qed

lemma calls_approve: "(core_call A)\<^sup>*\<^sup>* s t \<Longrightarrow> approved_only A s t"
  by (induction rule: rtranclp_induct) (blast intro: approving.refl approving.trans call_approves)+

text \<open>The orchestrator, with agents that decide only what \<open>A\<close> names.\<close>

lemma executor_approves:
  fixes cfg :: "'x registry_state_scheme orchestrator"
  assumes "executor_calls A cfg"
  shows "keeps (approved_only A) (executor cfg a t g c)"
  by (intro keepsI calls_approve) (use assms in \<open>simp add: executor_calls_def\<close>)

lemma approved_steps:
  "keeps (approved_only A) (task_require i)" "keeps (approved_only A) (task_transition i to patch)"
  "keeps (approved_only A) (task_assign i ag)" "keeps (approved_only A) (task_complete i v)"
  "keeps (approved_only A) (task_fail i m)" "keeps (approved_only A) (task_create task_newId d)"
  "keeps (approved_only A) (approval_request ad)" "keeps (approved_only A) (approval_require i)"
  "keeps (approved_only A) (registry_require i)" "keeps (approved_only A) (expireStale at)"
  "keeps (approved_only A) (audit ty t a p dt)" "keeps (approved_only A) (audit_task ty task a dt)"
  "keeps (approved_only A) (enforcePermissions cfg task agent)"
  by (intro approved_of core_rules unapproved_rules)+

lemma approved_dispatch:
  assumes "executor_calls A cfg"
  shows "keeps (approved_only A) (dispatch cfg task agent ctx)"
  unfolding dispatch_def dispatch_run_def failTask_def
  by (intro approving.keeps_intros executor_approves approved_steps assms)

lemma approved_submit:
  assumes "executor_calls A cfg"
  shows "keeps (approved_only A) (submit cfg d ctx)"
  unfolding submit_def assign_and_run_def run_assigned_def block_unassigned_def failTask_def
    park_for_approval_def Let_def
  by (intro approving.keeps_intros approved_dispatch approved_steps assms)

lemma approved_resume:
  assumes "executor_calls A cfg"
  shows "keeps (approved_only A) (resume cfg i asOf)"
  unfolding resume_def resume_approved_def resume_decided_def failTask_def Let_def
  by (intro approving.keeps_intros approved_dispatch approved_steps assms)

lemma approved_recordApprovalDecision:
  assumes "dec = DecideApproved \<longrightarrow> ai \<in> A"
  shows "keeps (approved_only A) (recordApprovalDecision ai dec who md)"
  unfolding recordApprovalDecision_def
  by (intro approving.keeps_intros approved_decide approved_steps assms)

section \<open>Histories\<close>

text \<open>One request to the orchestrator, or one call of a component beside it.\<close>

inductive core_request ::
  "string set \<Rightarrow> 'x registry_state_scheme orchestrator \<Rightarrow> 'x registry_state_scheme \<Rightarrow> 'x registry_state_scheme \<Rightarrow> bool"
  for A cfg where
  submitted: "core_request A cfg s (snd (submit cfg d ctx s))"
| resumed: "core_request A cfg s (snd (resume cfg i asOf s))"
| decided: "core_request A cfg s (snd (recordApprovalDecision ai dec who md s))"
| handed_over: "core_request A cfg s (snd (requestHandoff h s))"
| called: "core_call A s t \<Longrightarrow> core_request A cfg s t"

lemma request_keeps: "core_request A cfg s t \<Longrightarrow> executor_calls A cfg \<Longrightarrow> core_keeps s t"
  by (induction rule: core_request.induct)
    (blast intro: keeps_at core_submit core_resume core_recordApprovalDecision core_requestHandoff
      executor_calls_keep core_call_keeps)+

lemma requests_keep: "(core_request A cfg)\<^sup>*\<^sup>* s t \<Longrightarrow> executor_calls A cfg \<Longrightarrow> core_keeps s t"
  by (induction rule: rtranclp_induct) (blast intro: core_evo.refl core_evo.trans request_keeps)+

lemma terminal_refuses:
  assumes "mem_findById i (tasks s) = Some t" "TRANSITIONS (task_status t) = []"
  shows "\<exists>e. task_transition i to p s = (Inl (StateTransitionError e), s)"
  using assms by (cases rule: task_transition_cases [of i s to p]) (auto simp: canTransition_def)

end
