(* ===== verification/Contexts.thy ===== *)
theory Contexts
  imports Workforce
begin

text \<open>
  \<open>core/context/context-system.ts\<close>: the project-isolated context store with its task, project
  and agent scopes. A clone is the identity on values. The agent map is keyed by the text
  \<open>projectId::agentId\<close>; isolation of agent contexts rests on that text being readable in one
  way only, which \<open>agentKey_inj\<close> states and \<open>agentKey_clash\<close> limits.
\<close>

record ProjectContext =
  pc_projectId :: string
  pc_values :: fields

record TaskContext =
  tc_taskId :: string
  tc_projectId :: string
  tc_values :: fields

record AgentContext =
  ac_agentId :: string
  ac_projectId :: string
  ac_values :: fields

datatype Context = InProject ProjectContext | InTask TaskContext | InAgent AgentContext

record contexts =
  projectContexts :: "(string \<times> ProjectContext) list"
  taskContexts :: "(string \<times> TaskContext) list"
  agentContexts :: "(string \<times> AgentContext) list"

definition no_contexts :: contexts where
  "no_contexts = \<lparr>projectContexts = [], taskContexts = [], agentContexts = []\<rparr>"

fun context_project :: "Context \<Rightarrow> string" where
  "context_project (InProject c) = pc_projectId c"
| "context_project (InTask c) = tc_projectId c"
| "context_project (InAgent c) = ac_projectId c"

definition setProjectContext :: "string \<Rightarrow> fields \<Rightarrow> (contexts, ProjectContext) op" where
  "setProjectContext projectId vs s =
     (let existing = map_of (projectContexts s) projectId;
          next = \<lparr>pc_projectId = projectId,
                  pc_values = spread (case existing of None \<Rightarrow> [] | Some c \<Rightarrow> pc_values c) vs\<rparr>
      in (Inr next, s\<lparr>projectContexts := map_set projectId next (projectContexts s)\<rparr>))"

definition getProjectContext :: "string \<Rightarrow> contexts \<Rightarrow> ProjectContext option" where
  "getProjectContext projectId s = map_of (projectContexts s) projectId"

definition setTaskContext :: "string \<Rightarrow> string \<Rightarrow> fields \<Rightarrow> (contexts, TaskContext) op" where
  "setTaskContext taskId projectId vs s =
     (let existing = map_of (taskContexts s) taskId in
      if defined_and (\<lambda>c. tc_projectId c \<noteq> projectId) existing
      then (Inl (ValidationError (''task '' @ taskId @ '' is already bound to project ''
              @ (case existing of None \<Rightarrow> [] | Some c \<Rightarrow> tc_projectId c))), s)
      else let next = \<lparr>tc_taskId = taskId, tc_projectId = projectId,
                  tc_values = spread (case existing of None \<Rightarrow> [] | Some c \<Rightarrow> tc_values c) vs\<rparr>
        in (Inr next, s\<lparr>taskContexts := map_set taskId next (taskContexts s)\<rparr>))"

definition getTaskContext :: "string \<Rightarrow> string \<Rightarrow> contexts \<Rightarrow> TaskContext option" where
  "getTaskContext taskId projectId s = (case map_of (taskContexts s) taskId of
     None \<Rightarrow> None | Some c \<Rightarrow> if tc_projectId c = projectId then Some c else None)"

definition agentKey :: "string \<Rightarrow> string \<Rightarrow> string" where
  "agentKey agentId projectId = projectId @ ''::'' @ agentId"

definition setAgentContext :: "string \<Rightarrow> string \<Rightarrow> fields \<Rightarrow> (contexts, AgentContext) op" where
  "setAgentContext agentId projectId vs s =
     (let k = agentKey agentId projectId;
          existing = map_of (agentContexts s) k;
          next = \<lparr>ac_agentId = agentId, ac_projectId = projectId,
                  ac_values = spread (case existing of None \<Rightarrow> [] | Some c \<Rightarrow> ac_values c) vs\<rparr>
      in (Inr next, s\<lparr>agentContexts := map_set k next (agentContexts s)\<rparr>))"

definition getAgentContext :: "string \<Rightarrow> string \<Rightarrow> contexts \<Rightarrow> AgentContext option" where
  "getAgentContext agentId projectId s = map_of (agentContexts s) (agentKey agentId projectId)"

definition viewForProject :: "string \<Rightarrow> contexts \<Rightarrow> Context list" where
  "viewForProject projectId s =
     (case getProjectContext projectId s of None \<Rightarrow> [] | Some c \<Rightarrow> [InProject c]) @
     map InTask (filter (\<lambda>c. tc_projectId c = projectId) (map snd (taskContexts s))) @
     map InAgent (filter (\<lambda>c. ac_projectId c = projectId) (map snd (agentContexts s)))"

section \<open>Isolation\<close>

datatype context_call =
    CallProject string fields
  | CallTask string string fields
  | CallAgent string string fields

fun run_call :: "context_call \<Rightarrow> contexts \<Rightarrow> contexts" where
  "run_call (CallProject p v) s = snd (setProjectContext p v s)"
| "run_call (CallTask t p v) s = snd (setTaskContext t p v s)"
| "run_call (CallAgent a p v) s = snd (setAgentContext a p v s)"

definition run_calls :: "context_call list \<Rightarrow> contexts \<Rightarrow> contexts" where
  "run_calls cs s = foldl (\<lambda>s c. run_call c s) s cs"

text \<open>Every stored context is under the key its own fields give.\<close>

definition contexts_ok :: "contexts \<Rightarrow> bool" where
  "contexts_ok s \<longleftrightarrow>
     (\<forall>(k, c) \<in> set (projectContexts s). pc_projectId c = k) \<and>
     (\<forall>(k, c) \<in> set (taskContexts s). tc_taskId c = k) \<and>
     (\<forall>(k, c) \<in> set (agentContexts s). agentKey (ac_agentId c) (ac_projectId c) = k)"

lemma map_set_cases: "x \<in> set (map_set k v m) \<Longrightarrow> x = (k, v) \<or> x \<in> set m"
  by (induction m) (auto split: if_splits)

lemma contexts_ok_call: "contexts_ok s \<Longrightarrow> contexts_ok (run_call c s)"
  by (cases c) (auto simp: contexts_ok_def setProjectContext_def setTaskContext_def setAgentContext_def
      Let_def dest!: map_set_cases)

lemma contexts_ok_run: "contexts_ok s \<Longrightarrow> contexts_ok (run_calls cs s)"
  by (induction cs arbitrary: s) (simp_all add: run_calls_def contexts_ok_call)

lemma contexts_ok_empty [simp]: "contexts_ok no_contexts"
  by (simp add: contexts_ok_def no_contexts_def)

lemma agentKey_inj:
  assumes "CHR '':'' \<notin> set p" "CHR '':'' \<notin> set q" and "agentKey a p = agentKey b q"
  shows "a = b \<and> p = q"
proof -
  have take: "takeWhile (\<lambda>c. c \<noteq> CHR '':'') (agentKey x r) = r" if "CHR '':'' \<notin> set r" for x r
    using that unfolding agentKey_def by (subst takeWhile_append2) auto
  have "p = q" using assms take by metis
  with assms(3) show ?thesis by (simp add: agentKey_def)
qed

lemma agentKey_clash: "agentKey ''c'' ''a::b'' = agentKey ''b::c'' ''a''"
  by (simp add: agentKey_def)

text \<open>A call on behalf of one project leaves what another project reads untouched.\<close>

fun call_project :: "context_call \<Rightarrow> string" where
  "call_project (CallProject p v) = p"
| "call_project (CallTask t p v) = p"
| "call_project (CallAgent a p v) = p"

lemma call_frame_project:
  "call_project c \<noteq> p \<Longrightarrow> getProjectContext p (run_call c s) = getProjectContext p s"
  by (cases c) (simp_all add: getProjectContext_def setProjectContext_def setTaskContext_def
      setAgentContext_def Let_def AList.update_conv')

lemma call_frame_task:
  "call_project c \<noteq> p \<Longrightarrow> getTaskContext t p (run_call c s) = getTaskContext t p s"
  by (cases c) (auto simp: getTaskContext_def setProjectContext_def setTaskContext_def
      setAgentContext_def Let_def AList.update_conv' split: option.splits)

lemma call_frame_agent:
  "call_project c \<noteq> p \<Longrightarrow> CHR '':'' \<notin> set p \<Longrightarrow> CHR '':'' \<notin> set (call_project c) \<Longrightarrow>
   getAgentContext a p (run_call c s) = getAgentContext a p s"
  by (cases c) (auto simp: getAgentContext_def setProjectContext_def setTaskContext_def
      setAgentContext_def Let_def AList.update_conv' dest: agentKey_inj)

text \<open>Replacing an entry that a filter drops by another it drops leaves the filtered list.\<close>

lemma filter_map_set:
  assumes "\<not> p v" and "\<And>w. map_of m k = Some w \<Longrightarrow> \<not> p w" and "distinct (map fst m)"
  shows "filter p (map snd (map_set k v m)) = filter p (map snd m)"
  using assms by (induction m) (auto split: if_splits)

definition contexts_distinct :: "contexts \<Rightarrow> bool" where
  "contexts_distinct s \<longleftrightarrow> distinct (map fst (projectContexts s)) \<and>
     distinct (map fst (taskContexts s)) \<and> distinct (map fst (agentContexts s))"

lemma contexts_distinct_call: "contexts_distinct s \<Longrightarrow> contexts_distinct (run_call c s)"
  by (cases c) (simp_all add: contexts_distinct_def setProjectContext_def setTaskContext_def
      setAgentContext_def Let_def distinct_map_set)

lemma stored_agent_project:
  assumes "contexts_ok s" "map_of (agentContexts s) (agentKey a q) = Some c"
    and "CHR '':'' \<notin> set q" "CHR '':'' \<notin> set (ac_projectId c)"
  shows "ac_projectId c = q"
  using assms agentKey_inj [of "ac_projectId c" q "ac_agentId c" a]
  by (auto simp: contexts_ok_def dest!: map_of_SomeD)

definition agent_projects_plain :: "contexts \<Rightarrow> bool" where
  "agent_projects_plain s \<longleftrightarrow> (\<forall>(k, c) \<in> set (agentContexts s). CHR '':'' \<notin> set (ac_projectId c))"

lemma agent_projects_plain_call:
  "agent_projects_plain s \<Longrightarrow> CHR '':'' \<notin> set (call_project c) \<Longrightarrow> agent_projects_plain (run_call c s)"
  by (cases c) (auto simp: agent_projects_plain_def setProjectContext_def setTaskContext_def
      setAgentContext_def Let_def dest!: map_set_cases)

lemma view_frame:
  assumes ok: "contexts_ok s" "contexts_distinct s" "agent_projects_plain s"
    and other: "call_project c \<noteq> p" "CHR '':'' \<notin> set (call_project c)"
  shows "viewForProject p (run_call c s) = viewForProject p s"
proof (cases c)
  case (CallProject q v)
  then show ?thesis
    using other by (simp add: viewForProject_def getProjectContext_def setProjectContext_def
        Let_def AList.update_conv')
next
  case (CallTask t q v)
  have "filter (\<lambda>c. tc_projectId c = p) (map snd (taskContexts (run_call c s))) =
      filter (\<lambda>c. tc_projectId c = p) (map snd (taskContexts s))"
    using CallTask other ok(2)
    by (auto simp: setTaskContext_def Let_def contexts_distinct_def intro!: filter_map_set)
  then show ?thesis
    using CallTask by (simp add: viewForProject_def getProjectContext_def setTaskContext_def Let_def)
next
  case (CallAgent a q v)
  have "ac_projectId d = q" if "map_of (agentContexts s) (agentKey a q) = Some d" for d
  proof (rule stored_agent_project [OF ok(1) that])
    show "CHR '':'' \<notin> set q" using CallAgent other by simp
    show "CHR '':'' \<notin> set (ac_projectId d)"
      using ok(3) that by (auto simp: agent_projects_plain_def dest: map_of_SomeD)
  qed
  then have "filter (\<lambda>c. ac_projectId c = p) (map snd (agentContexts (run_call c s))) =
      filter (\<lambda>c. ac_projectId c = p) (map snd (agentContexts s))"
    using CallAgent other ok(2)
    by (auto simp: setAgentContext_def Let_def contexts_distinct_def intro!: filter_map_set)
  then show ?thesis
    using CallAgent by (simp add: viewForProject_def getProjectContext_def setAgentContext_def Let_def)
qed

lemma view_frame_run:
  assumes "contexts_ok s" "contexts_distinct s" "agent_projects_plain s"
    and "\<forall>c \<in> set cs. call_project c \<noteq> p \<and> CHR '':'' \<notin> set (call_project c)"
  shows "viewForProject p (run_calls cs s) = viewForProject p s"
  using assms
proof (induction cs arbitrary: s)
  case Nil
  show ?case by (simp add: run_calls_def)
next
  case (Cons c cs)
  then have "viewForProject p (run_calls cs (run_call c s)) = viewForProject p (run_call c s)"
    by (intro Cons.IH) (auto intro: contexts_ok_call contexts_distinct_call agent_projects_plain_call)
  with Cons.prems show ?case by (simp add: run_calls_def view_frame)
qed

text \<open>From an empty store, isolation holds whatever was called before.\<close>

lemma plain_run:
  "contexts_distinct s \<Longrightarrow> agent_projects_plain s \<Longrightarrow> \<forall>c \<in> set cs. CHR '':'' \<notin> set (call_project c) \<Longrightarrow>
   contexts_distinct (run_calls cs s) \<and> agent_projects_plain (run_calls cs s)"
  by (induction cs arbitrary: s)
    (simp_all add: run_calls_def contexts_distinct_call agent_projects_plain_call)

lemma isolation_from_empty:
  assumes "\<forall>c \<in> set (before @ cs). CHR '':'' \<notin> set (call_project c)" "\<forall>c \<in> set cs. call_project c \<noteq> p"
  shows "viewForProject p (run_calls (before @ cs) no_contexts) = viewForProject p (run_calls before no_contexts)"
proof -
  have "contexts_distinct no_contexts" "agent_projects_plain no_contexts"
    by (simp_all add: contexts_distinct_def agent_projects_plain_def no_contexts_def)
  then have "contexts_distinct (run_calls before no_contexts) \<and> agent_projects_plain (run_calls before no_contexts)"
    using assms(1) by (intro plain_run) simp_all
  moreover have "contexts_ok (run_calls before no_contexts)" by (intro contexts_ok_run) simp
  ultimately have "viewForProject p (run_calls cs (run_calls before no_contexts)) = viewForProject p (run_calls before no_contexts)"
    using assms by (intro view_frame_run) simp_all
  then show ?thesis by (simp add: run_calls_def)
qed

end
