(* ===== verification/Cached_Repository.thy ===== *)
theory Cached_Repository
  imports Repository
begin

text \<open>
  \<open>core/persistence/cached-repository.ts\<close>: hydrate once, serve every read from memory,
  write through in order.

  The promise chain \<open>this.queue\<close> is the list of writes not yet settled; the backing store
  is the map it holds, and \<open>apply_write\<close> is the documented meaning of the
  \<open>AsyncRepository\<close> calls on it. A write settles with success or failure, which the
  network decides, at any time after it was queued: \<open>cached_step\<close> interleaves the client's
  calls and the settling of the oldest queued write. \<open>failed\<close> logs the \<open>onError\<close> calls.
\<close>

datatype 'e write_op = WUpsert 'e | WDelete string | WClear

record 'e cached =
  cache :: "'e repo"
  hydrated :: bool
  queue :: "'e write_op list"
  pending :: nat
  backing :: "string \<rightharpoonup> 'e"
  failed :: "string list"

fun write_name :: "'e write_op \<Rightarrow> string" where
  "write_name (WUpsert e) = ''upsert''"
| "write_name (WDelete i) = ''delete''"
| "write_name WClear = ''clear''"

fun apply_write :: "('e \<Rightarrow> string) \<Rightarrow> 'e write_op \<Rightarrow> (string \<rightharpoonup> 'e) \<Rightarrow> (string \<rightharpoonup> 'e)" where
  "apply_write key (WUpsert e) m = m(key e \<mapsto> e)"
| "apply_write key (WDelete i) m = m(i := None)"
| "apply_write key WClear m = Map.empty"

definition replay :: "('e \<Rightarrow> string) \<Rightarrow> 'e write_op list \<Rightarrow> (string \<rightharpoonup> 'e) \<Rightarrow> (string \<rightharpoonup> 'e)" where
  "replay key ws m = foldl (\<lambda>m w. apply_write key w m) m ws"

definition assertHydrated :: "('e cached, unit) op" where
  "assertHydrated c =
     (if hydrated c then (Inr (), c)
      else (Inl (WorkforceError ''CachedRepository used before hydrate() completed''), c))"

definition enqueue :: "'e write_op \<Rightarrow> 'e cached \<Rightarrow> 'e cached" where
  "enqueue w c = c\<lparr>pending := pending c + 1, queue := queue c @ [w]\<rparr>"

text \<open>The tail of the promise chain: run the write, report a failure, and count it as done.\<close>

definition settle :: "('e \<Rightarrow> string) \<Rightarrow> bool \<Rightarrow> 'e cached \<Rightarrow> 'e cached" where
  "settle key ok c = (case queue c of [] \<Rightarrow> c
     | w # ws \<Rightarrow>
         (if ok then c\<lparr>queue := ws, pending := pending c - 1, backing := apply_write key w (backing c)\<rparr>
          else c\<lparr>queue := ws, pending := pending c - 1, failed := failed c @ [write_name w]\<rparr>))"

definition hydrate :: "('e \<Rightarrow> string) \<Rightarrow> 'e list \<Rightarrow> 'e cached \<Rightarrow> 'e cached" where
  "hydrate key all c =
     c\<lparr>cache := foldl (\<lambda>r e. mem_upsert key e r) (mem_clear (cache c)) all, hydrated := True\<rparr>"

definition cached_upsert :: "('e \<Rightarrow> string) \<Rightarrow> 'e \<Rightarrow> ('e cached, unit) op" where
  "cached_upsert key e = thenS assertHydrated
     (modifyS (\<lambda>c. enqueue (WUpsert e) (c\<lparr>cache := mem_upsert key e (cache c)\<rparr>)))"

definition cached_findById :: "string \<Rightarrow> ('e cached, 'e option) op" where
  "cached_findById i = thenS assertHydrated (getsS (\<lambda>c. mem_findById i (cache c)))"

definition cached_list :: "('e cached, 'e list) op" where
  "cached_list = thenS assertHydrated (getsS (\<lambda>c. mem_list (cache c)))"

definition cached_delete :: "string \<Rightarrow> ('e cached, bool) op" where
  "cached_delete i = thenS assertHydrated
     (\<lambda>c. let (existed, r) = mem_delete i (cache c)
          in (Inr existed, enqueue (WDelete i) (c\<lparr>cache := r\<rparr>)))"

definition cached_clear :: "('e cached, unit) op" where
  "cached_clear = thenS assertHydrated
     (modifyS (\<lambda>c. enqueue WClear (c\<lparr>cache := mem_clear (cache c)\<rparr>)))"

lemmas cached_defs = cached_upsert_def cached_findById_def cached_list_def cached_delete_def
  cached_clear_def assertHydrated_def enqueue_def thenS_def bindS_def

inductive cached_step :: "('e \<Rightarrow> string) \<Rightarrow> 'e cached \<Rightarrow> 'e cached \<Rightarrow> bool" for key where
  upsert: "cached_step key c (snd (cached_upsert key e c))"
| delete: "cached_step key c (snd (cached_delete i c))"
| clear: "cached_step key c (snd (cached_clear c))"
| settle: "queue c \<noteq> [] \<Longrightarrow> cached_step key c (settle key ok c)"

text \<open>A snapshot of the backing store, as \<open>list()\<close> returns it in some order.\<close>

definition enumerates :: "('e \<Rightarrow> string) \<Rightarrow> 'e list \<Rightarrow> (string \<rightharpoonup> 'e) \<Rightarrow> bool" where
  "enumerates key all m \<longleftrightarrow> distinct (map key all) \<and> m = map_of (map (\<lambda>e. (key e, e)) all)"

definition fresh_cached :: "(string \<rightharpoonup> 'e) \<Rightarrow> 'e cached" where
  "fresh_cached m = \<lparr>cache = [], hydrated = False, queue = [], pending = 0, backing = m, failed = []\<rparr>"

inductive cached_reachable :: "('e \<Rightarrow> string) \<Rightarrow> 'e cached \<Rightarrow> bool" for key where
  start: "enumerates key all m \<Longrightarrow> cached_reachable key (hydrate key all (fresh_cached m))"
| step: "cached_reachable key c \<Longrightarrow> cached_step key c d \<Longrightarrow> cached_reachable key d"

text \<open>What memory holds is what the backing store will hold once the queue has drained.\<close>

definition cached_inv :: "('e \<Rightarrow> string) \<Rightarrow> 'e cached \<Rightarrow> bool" where
  "cached_inv key c \<longleftrightarrow> hydrated c \<and> repo_ok key (cache c) \<and> pending c = length (queue c)
     \<and> (failed c = [] \<longrightarrow> replay key (queue c) (backing c) = map_of (cache c))"

lemma replay_snoc [simp]: "replay key (ws @ [w]) m = apply_write key w (replay key ws m)"
  by (simp add: replay_def)

lemma replay_Cons [simp]: "replay key (w # ws) m = replay key ws (apply_write key w m)"
  by (simp add: replay_def)

lemma replay_Nil [simp]: "replay key [] m = m"
  by (simp add: replay_def)

lemma map_of_mem_upsert: "map_of (mem_upsert key e r) = (map_of r)(key e \<mapsto> e)"
  by (simp add: mem_upsert_def AList.update_conv')

lemma map_of_mem_delete: "map_of (snd (mem_delete i r)) = (map_of r)(i := None)"
  by (simp add: mem_delete_def AList.delete_conv')

lemma foldl_upsert_ok:
  "repo_ok key r \<Longrightarrow> repo_ok key (foldl (\<lambda>r e. mem_upsert key e r) r all)"
  by (induction all arbitrary: r) (auto simp: repo_ok_upsert)

lemma foldl_upsert_map_of:
  "map_of (foldl (\<lambda>r e. mem_upsert key e r) r all) = map_of r ++ map_of (rev (map (\<lambda>e. (key e, e)) all))"
  by (induction all arbitrary: r) (auto simp: map_of_mem_upsert map_add_upd_left)

lemma cached_inv_hydrate:
  assumes "enumerates key all m"
  shows "cached_inv key (hydrate key all (fresh_cached m))"
proof -
  have "distinct (map fst (map (\<lambda>e. (key e, e)) all))"
    using assms by (simp add: enumerates_def comp_def)
  then have "map_of (rev (map (\<lambda>e. (key e, e)) all)) = m"
    using assms by (simp add: enumerates_def map_of_inject_set distinct_rev rev_map [symmetric])
  then show ?thesis
    by (simp add: cached_inv_def hydrate_def fresh_cached_def mem_clear_def foldl_upsert_ok foldl_upsert_map_of)
qed

lemma cached_inv_step: "cached_step key c d \<Longrightarrow> cached_inv key c \<Longrightarrow> cached_inv key d"
proof (induction rule: cached_step.induct)
  case (upsert c e)
  then show ?case by (simp add: cached_inv_def cached_defs repo_ok_upsert map_of_mem_upsert)
next
  case (delete c i)
  then show ?case
    by (simp add: cached_inv_def cached_defs repo_ok_delete map_of_mem_delete split_beta)
next
  case (clear c)
  then show ?case by (simp add: cached_inv_def cached_defs mem_clear_def)
next
  case (settle c ok)
  then show ?case by (cases "queue c") (auto simp: cached_inv_def settle_def)
qed

lemma cached_reachable_inv: "cached_reachable key c \<Longrightarrow> cached_inv key c"
  by (induction rule: cached_reachable.induct) (auto intro: cached_inv_hydrate cached_inv_step)

lemma cached_inv_ops:
  assumes "cached_inv key c"
  shows "cached_inv key (snd (cached_upsert key e c))"
    and "cached_inv key (snd (cached_delete i c))"
    and "cached_inv key (snd (cached_clear c))"
  using assms by (auto intro: cached_inv_step cached_step.intros)

text \<open>Under the invariant every call acts on the cache as the in-memory repository does.\<close>

lemma cached_calls:
  assumes "hydrated c"
  shows "fst (cached_findById i c) = Inr (mem_findById i (cache c))"
    and "fst (cached_list c) = Inr (mem_list (cache c))"
    and "fst (cached_delete i c) = Inr (fst (mem_delete i (cache c)))"
    and "cache (snd (cached_upsert key e c)) = mem_upsert key e (cache c)"
    and "cache (snd (cached_delete i c)) = snd (mem_delete i (cache c))"
    and "cache (snd (cached_clear c)) = mem_clear (cache c)"
    and "hydrated (snd (cached_upsert key e c))"
    and "hydrated (snd (cached_delete i c))"
    and "hydrated (snd (cached_clear c))"
  using assms by (simp_all add: cached_defs split_beta)

lemma cached_invD: "cached_inv key c \<Longrightarrow> repo_ok key (cache c) \<and> hydrated c"
  by (simp add: cached_inv_def)

text \<open>Once hydrated, the cached repository satisfies the synchronous contract.\<close>

interpretation cached: repository key "cached_inv key"
    "\<lambda>e c. snd (cached_upsert key e c)"
    "\<lambda>i c. case fst (cached_findById i c) of Inl _ \<Rightarrow> None | Inr r \<Rightarrow> r"
    "\<lambda>c. case fst (cached_list c) of Inl _ \<Rightarrow> [] | Inr r \<Rightarrow> r"
    "\<lambda>i c. (fst (cached_delete i c) = Inr True, snd (cached_delete i c))"
    "\<lambda>c. snd (cached_clear c)"
  for key :: "'e \<Rightarrow> string"
proof (unfold_locales, goal_cases)
  case (4 c i e) then show ?case by (simp add: cached_calls cached_invD)
next
  case (5 c i j) then show ?case
    using mem.find_delete [of key "cache c" i j] by (simp add: cached_calls cached_invD)
next
  case (6 c j) then show ?case by (simp add: cached_calls cached_invD mem_delete_def mem_findById_def)
next
  case (7 c i) then show ?case
    using mem.find_clear [of key "cache c" i] by (simp add: cached_calls cached_invD)
next
  case (8 c i e) then show ?case
    using mem.find_key [of key "cache c" i e] by (simp add: cached_calls cached_invD)
next
  case (9 c e) then show ?case
    using mem.list_find [of key "cache c" e] by (simp add: cached_calls cached_invD)
next
  case (10 c) then show ?case
    using mem.list_distinct [of key "cache c"] by (simp add: cached_calls cached_invD)
next
  case (11 c e) then show ?case
    using mem.list_order [of key "cache c" e] by (simp add: cached_calls cached_invD)
qed (auto intro: cached_inv_ops)

text \<open>The observable promise: with no failed write and an empty queue, the store has the cache.\<close>

lemma drained_synchronised:
  "cached_reachable key c \<Longrightarrow> failed c = [] \<Longrightarrow> pending c = 0 \<Longrightarrow> backing c = map_of (cache c)"
  by (drule cached_reachable_inv) (auto simp: cached_inv_def)

end
