(* ===== verification/Demo.thy ===== *)
theory Demo
  imports Core_Calls Contexts Cached_Repository
begin

text \<open>
  Concrete values the witnesses evaluate the properties on: an empty core state, one agent, one
  task draft, and orchestrators that execute by returning or by throwing.
\<close>

definition demo_state :: registry_state where
  "demo_state = \<lparr>seq = 0, process_tag = ''p'', ticks = 0, time_at = int, events = [], sink_events = [],
     audit_repo = None, tasks = [], approvals = [], handoffs = [], records = [], agents = [], instances = []\<rparr>"

definition demo_agent :: Agent where
  "demo_agent = \<lparr>agent_id = ''coder'', agent_organizationId = None, agent_workspaceId = None,
     agent_name = ''Coder'', agent_description = ''writes code'', capabilities = [''software.backend''],
     allowedTools = [], allowedProjects = [''web''], supportedTaskTypes = [''code''], permissions = [],
     modelPolicy = None, agent_metadata = None\<rparr>"

definition demo_draft :: TaskDraft where
  "demo_draft = \<lparr>td_type = ''code'', td_description = ''add a page'', td_projectId = ''web'', td_input = JNull,
     td_priority = None, td_requiredPermissions = None, td_metadata = None, td_programId = None,
     td_workstreamId = None, td_objective = None, td_requirements = None, td_dependencies = None,
     td_requiredCapabilities = None, td_environmentRequirements = None, td_modelRequirements = None,
     td_completionCriteria = None, td_riskClass = None, td_executionContext = None\<rparr>"

definition demo_task :: Task where
  "demo_task = (new_task demo_draft ''t1'' 0)\<lparr>task_status := TAwaitingApproval,
     task_approvalId := Some ''a1'', assignedAgentId := Some ''coder''\<rparr>"

definition demo_approval :: Approval where
  "demo_approval = new_approval \<lparr>ad_action = ''code'', ad_requestedBy = ''orchestrator:coder'',
     ad_reason = ''policy'', ad_expiresAt = None, ad_metadata = None\<rparr> ''a1'' 0"

definition parked_state :: registry_state where
  "parked_state = demo_state\<lparr>agents := [(''coder'', demo_agent)], tasks := [(''t1'', demo_task)],
     approvals := [(''a1'', demo_approval)]\<rparr>"

definition returning :: "Agent \<Rightarrow> Task \<Rightarrow> PermissionGuard \<Rightarrow> AgentExecutionContext option \<Rightarrow> (registry_state, json) op" where
  "returning a t g c = returnS (JStr ''done'')"

definition throwing :: "Agent \<Rightarrow> Task \<Rightarrow> PermissionGuard \<Rightarrow> AgentExecutionContext option \<Rightarrow> (registry_state, json) op" where
  "throwing a t g c = throwS (ForeignError ''boom'')"

definition ask_always :: "Task \<Rightarrow> ApprovalRequirement" where
  "ask_always t = \<lparr>ar_required = True, ar_action = None, ar_reason = None, ar_expiresAt = None\<rparr>"

definition demo_cfg :: "registry_state orchestrator" where
  "demo_cfg = \<lparr>localeCompare = code_unit_cmp, selectAgent = selectFirstById code_unit_cmp,
     approvalPolicy = ask_always, permission_system = None, orch_environment = Local,
     agentGate = None, executor = returning\<rparr>"

lemma demo_cfg_simps [simp]:
  "selectAgent demo_cfg = selectFirstById code_unit_cmp" "approvalPolicy demo_cfg = ask_always"
  "executor demo_cfg = returning"
  by (simp_all add: demo_cfg_def)

lemma demo_selects: "selects_candidate demo_cfg"
  by (simp add: selects_candidate_def selectFirstById_candidate)

lemma demo_not_cleared: "\<not> cleared demo_cfg t a"
  by (simp add: cleared_def ask_always_def)

lemma demo_executor_calls: "executor_calls A demo_cfg"
  by (simp add: executor_calls_def returning_def)

lemma demo_leaves_tasks: "executor_leaves_tasks demo_cfg"
  by (simp add: executor_leaves_tasks_def returning_def)

lemma demo_texts: "policy_states_texts demo_cfg"
  by (simp add: policy_states_texts_def ask_always_def)

definition demo_descriptor :: AgentDescriptor where
  "demo_descriptor = \<lparr>agent_id = ''reviewer'', agent_organizationId = None, agent_workspaceId = None,
     agent_name = ''Reviewer'', agent_description = ''reviews changes'', capabilities = [''software.review''],
     allowedTools = [], allowedProjects = [''web''], supportedTaskTypes = [''review''], permissions = [],
     modelPolicy = Some \<lparr>mp_provider = Some ''local'', mp_model = None, mp_maxOutputTokens = None\<rparr>,
     agent_metadata = None, displayName = ''Reviewer'', agent_role = ''reviewer'', department = ''quality'',
     avatarUrl = None, costPerHour = None, limitations = [], administrativeStatus = Active,
     agent_version = 1,
     qualification = \<lparr>q_technologies = [], maxRiskLevel = RiskHigh, requiredToolCapabilities = [],
       reviewRequiredFromRiskLevel = RiskModerate\<rparr>,
     environmentRequirements = \<lparr>requiredEnvironmentTypes = [], acceptsAnyEnvironmentType = True\<rparr>,
     toolPolicy = \<lparr>maxExecutionCapabilities = [''filesystem.read''], deniedExecutionCapabilities = [''deploy.invoke''],
       allowsUnrestrictedShell = False\<rparr>,
     projectPolicy = \<lparr>pp_mode = ''allow_list'', pp_projects = [''web'']\<rparr>, riskProfile = RiskLow,
     reviewPolicy = \<lparr>requiresIndependentReview = True, minimumReviewers = 1, selfReviewAllowed = False\<rparr>,
     handoffPolicy = \<lparr>canDelegateTo = [''software.testing''], requiresDestinationAcceptance = True\<rparr>,
     costPolicy = \<lparr>costCenter = ''quality'', maxCostPerExecutionUsd = Some 5, attestsUsage = True\<rparr>,
     agent_createdAt = None, agent_updatedAt = None\<rparr>"

lemma demo_descriptor_valid: "validateAgentDescriptor demo_descriptor = Inr ()"
  by code_simp

definition demo_handoff :: Handoff where
  "demo_handoff = \<lparr>handoff_id = ''h1'', handoff_taskId = ''t1'', handoff_projectId = Some ''web'',
     sourceAgentId = ''coder'', destinationAgentId = ''reviewer'', handoff_status = HProposed,
     handoff_context = [], completedWork = ''page'', remainingWork = ''review'',
     acceptanceCriteria = [''reviewed''], artifacts = [], risks = [],
     handoff_requiredCapabilities = Some [''software.review''], sourceAssignmentId = None,
     destinationQualification = None, acceptedBy = None, handoff_createdAt = 0, resolvedAt = None,
     resolution = None\<rparr>"

end
