(* ===== verification/Cycle.thy ===== *)
theory Cycle
  imports Prelude
begin

text \<open>
  \<open>findCycle\<close> of \<open>contracts/workflow.ts\<close>: depth-first search with three colours over a
  dependency map. The recursion follows white nodes only, so its depth is bounded by their
  number; the fuel counts it, and \<open>None\<close> marks an exhausted one, which
  \<open>visit_returns\<close> excludes for the fuel \<open>findCycle\<close> passes.
\<close>

datatype Color = White | Gray | Black

record DependencyNode =
  node_id :: string
  node_dependsOn :: "string list"

type_synonym deps_map = "string \<rightharpoonup> string list"
type_synonym search = "(string \<rightharpoonup> Color) \<times> string list"

fun visit :: "nat \<Rightarrow> deps_map \<Rightarrow> string \<Rightarrow> search \<Rightarrow> (string list option \<times> search) option"
  and visit_deps :: "nat \<Rightarrow> deps_map \<Rightarrow> string list \<Rightarrow> search \<Rightarrow> (string list option \<times> search) option"
where
  "visit 0 D i st = None"
| "visit (Suc f) D i (c, p) =
     (case visit_deps f D (case D i of None \<Rightarrow> [] | Some ds \<Rightarrow> ds) (c(i \<mapsto> Gray), p @ [i]) of
        None \<Rightarrow> None
      | Some (Some cyc, st) \<Rightarrow> Some (Some cyc, st)
      | Some (None, (c', p')) \<Rightarrow> Some (None, (c'(i \<mapsto> Black), butlast p')))"
| "visit_deps f D [] st = Some (None, st)"
| "visit_deps f D (d # ds) (c, p) =
     (if c d = Some Gray then Some (Some (dropWhile (\<lambda>x. x \<noteq> d) p @ [d]), (c, p))
      else if c d = Some White
      then (case visit f D d (c, p) of
              None \<Rightarrow> None
            | Some (Some cyc, st) \<Rightarrow> Some (Some cyc, st)
            | Some (None, st) \<Rightarrow> visit_deps f D ds st)
      else visit_deps f D ds (c, p))"

fun search_all :: "nat \<Rightarrow> deps_map \<Rightarrow> string list \<Rightarrow> search \<Rightarrow> string list option option" where
  "search_all f D [] st = Some None"
| "search_all f D (i # is) (c, p) =
     (if c i = Some White
      then (case visit f D i (c, p) of
              None \<Rightarrow> None
            | Some (Some cyc, st) \<Rightarrow> Some (Some cyc)
            | Some (None, st) \<Rightarrow> search_all f D is st)
      else search_all f D is (c, p))"

definition deps_of :: "DependencyNode list \<Rightarrow> deps_map" where
  "deps_of nodes = map_of (rev (map (\<lambda>n. (node_id n, node_dependsOn n)) nodes))"

definition all_white :: "DependencyNode list \<Rightarrow> (string \<rightharpoonup> Color)" where
  "all_white nodes = map_of (map (\<lambda>n. (node_id n, White)) nodes)"

definition findCycle :: "DependencyNode list \<Rightarrow> string list option" where
  "findCycle nodes = (case search_all (length nodes) (deps_of nodes) (map node_id nodes) (all_white nodes, []) of
     None \<Rightarrow> None | Some r \<Rightarrow> r)"

section \<open>What the search maintains\<close>

text \<open>An edge of the graph: a dependency on a node that exists.\<close>

definition edge :: "deps_map \<Rightarrow> string \<Rightarrow> string \<Rightarrow> bool" where
  "edge D x y \<longleftrightarrow> (\<exists>ds. D x = Some ds \<and> y \<in> set ds) \<and> D y \<noteq> None"

definition is_cycle :: "deps_map \<Rightarrow> string list \<Rightarrow> bool" where
  "is_cycle D cyc \<longleftrightarrow> 2 \<le> length cyc \<and> hd cyc = last cyc \<and> successively (edge D) cyc"

definition black_edges :: "deps_map \<Rightarrow> (string \<rightharpoonup> Color) \<Rightarrow> (string \<times> string) set" where
  "black_edges D c = {(x, y). edge D x y \<and> c x = Some Black}"

definition search_ok :: "deps_map \<Rightarrow> search \<Rightarrow> bool" where
  "search_ok D st \<longleftrightarrow> (case st of (c, p) \<Rightarrow>
     dom c = dom D \<and> distinct p \<and> (\<forall>x. c x = Some Gray \<longleftrightarrow> x \<in> set p) \<and> successively (edge D) p \<and>
     (\<forall>x y. c x = Some Black \<and> edge D x y \<longrightarrow> c y = Some Black) \<and> acyclic (black_edges D c))"

definition whites :: "(string \<rightharpoonup> Color) \<Rightarrow> string set" where
  "whites c = {x. c x = Some White}"

definition blacks :: "(string \<rightharpoonup> Color) \<Rightarrow> string set" where
  "blacks c = {x. c x = Some Black}"

lemma cycle_found:
  assumes ok: "search_ok D (c, p)" and gray: "c d = Some Gray" and e: "edge D (last p) d"
  shows "is_cycle D (dropWhile (\<lambda>x. x \<noteq> d) p @ [d])"
proof -
  let ?q = "dropWhile (\<lambda>x. x \<noteq> d) p"
  have d: "d \<in> set p" using ok gray by (auto simp: search_ok_def)
  then have ne: "?q \<noteq> []" by simp
  then have hd: "hd ?q = d" using hd_dropWhile [of "\<lambda>x. x \<noteq> d" p] by simp
  have split: "p = takeWhile (\<lambda>x. x \<noteq> d) p @ ?q" by simp
  have "last ?q = last p" using ne split by (metis last_appendR)
  moreover have "successively (edge D) ?q"
    using ok split unfolding search_ok_def by (metis (no_types, lifting) case_prodD successively_append_iff)
  ultimately have "successively (edge D) (?q @ [d])"
    using e ne by (simp add: successively_append_iff)
  then show ?thesis using ne hd by (cases ?q) (auto simp: is_cycle_def)
qed

text \<open>Turning the node on top of the path black keeps the black part closed and acyclic.\<close>

lemma blacken_acyclic:
  assumes closed: "\<forall>x y. c x = Some Black \<and> edge D x y \<longrightarrow> c y = Some Black"
    and acyc: "acyclic (black_edges D c)" and new: "c i \<noteq> Some Black"
    and deps: "\<And>y. edge D i y \<Longrightarrow> c y = Some Black"
  shows "acyclic (black_edges D (c(i \<mapsto> Black)))"
proof (rule acyclicI, intro allI notI)
  fix x
  let ?R = "black_edges D c" and ?R' = "black_edges D (c(i \<mapsto> Black))"
  have stay: "c z = Some Black \<and> (y, z) \<in> ?R\<^sup>+" if "(y, z) \<in> ?R'\<^sup>+" "c y = Some Black" for y z
    using that
  proof (induction rule: trancl_induct)
    case (base z)
    then have "edge D y z" by (auto simp: black_edges_def)
    with base closed show ?case by (auto simp: black_edges_def)
  next
    case (step z w)
    then have "edge D z w" "c z = Some Black" by (auto simp: black_edges_def)
    with step closed show ?case
      by (auto simp: black_edges_def intro: trancl_into_trancl)
  qed
  assume cyc: "(x, x) \<in> ?R'\<^sup>+"
  show False
  proof (cases "x = i")
    case True
    from cyc obtain y where "(x, y) \<in> ?R'" "y = x \<or> (y, x) \<in> ?R'\<^sup>+"
      by (meson tranclE converse_tranclE)
    then have "edge D i y" using True by (auto simp: black_edges_def)
    then have "c y = Some Black" by (rule deps)
    with \<open>y = x \<or> (y, x) \<in> ?R'\<^sup>+\<close> stay have "c x = Some Black" by blast
    with True new show False by simp
  next
    case False
    from cyc obtain y where "(x, y) \<in> ?R'" by (meson converse_tranclE)
    with False have "c x = Some Black" by (auto simp: black_edges_def split: if_splits)
    with cyc stay have "(x, x) \<in> ?R\<^sup>+" by blast
    with acyc show False by (simp add: acyclic_def)
  qed
qed

lemma push_ok:
  assumes ok: "search_ok D (c, p)" and white: "c i = Some White" and e: "p \<noteq> [] \<Longrightarrow> edge D (last p) i"
  shows "search_ok D (c(i \<mapsto> Gray), p @ [i])"
proof -
  have "black_edges D (c(i \<mapsto> Gray)) = black_edges D c"
    using white by (auto simp: black_edges_def split: if_splits)
  moreover have "c i \<noteq> Some Gray" using white by simp
  then have "i \<notin> set p" using ok by (simp add: search_ok_def)
  moreover have "i \<in> dom D" using ok white by (auto simp: search_ok_def)
  moreover have "successively (edge D) (p @ [i])"
    using ok e by (auto simp: search_ok_def successively_append_iff)
  ultimately show ?thesis
    using ok white by (auto simp: search_ok_def insert_absorb)
qed

lemma pop_ok:
  assumes ok: "search_ok D (c, p @ [i])" and deps: "\<And>y. edge D i y \<Longrightarrow> c y = Some Black"
  shows "search_ok D (c(i \<mapsto> Black), p)"
proof -
  have gray: "c i = Some Gray" using ok by (auto simp: search_ok_def)
  have new: "c i \<noteq> Some Black" using gray by simp
  have "acyclic (black_edges D (c(i \<mapsto> Black)))"
    by (rule blacken_acyclic [of c D i]) (use ok new deps in \<open>auto simp: search_ok_def\<close>)
  moreover have "i \<in> dom c" using gray by auto
  then have "i \<in> dom D" using ok by (simp add: search_ok_def)
  ultimately show ?thesis
    using ok deps by (auto simp: search_ok_def insert_absorb successively_append_iff)
qed

lemma visit_spec:
  "visit f D i (c, p) = Some r \<Longrightarrow> search_ok D (c, p) \<Longrightarrow> c i = Some White \<Longrightarrow>
     (p \<noteq> [] \<Longrightarrow> edge D (last p) i) \<Longrightarrow>
     (case r of (Some cyc, st) \<Rightarrow> is_cycle D cyc
      | (None, (c', p')) \<Rightarrow> p' = p \<and> search_ok D (c', p) \<and> c' i = Some Black \<and>
          blacks c \<subseteq> blacks c' \<and> whites c' \<subseteq> whites c - {i})"
  and visit_deps_spec:
  "visit_deps f D ds (c, p) = Some r \<Longrightarrow> search_ok D (c, p) \<Longrightarrow> p \<noteq> [] \<Longrightarrow>
     (\<And>d. d \<in> set ds \<Longrightarrow> D d \<noteq> None \<Longrightarrow> edge D (last p) d) \<Longrightarrow>
     (case r of (Some cyc, st) \<Rightarrow> is_cycle D cyc
      | (None, (c', p')) \<Rightarrow> p' = p \<and> search_ok D (c', p) \<and> (\<forall>d \<in> set ds. D d \<noteq> None \<longrightarrow> c' d = Some Black) \<and>
          blacks c \<subseteq> blacks c' \<and> whites c' \<subseteq> whites c)"
proof (induction f D i "(c, p)" and f D ds "(c, p)" arbitrary: c p r and c p r
    rule: visit_visit_deps.induct)
  case (1 D i)
  then show ?case by simp
next
  case (2 f D i c p)
  let ?ds = "case D i of None \<Rightarrow> [] | Some ds \<Rightarrow> ds"
  have push: "search_ok D (c(i \<mapsto> Gray), p @ [i])" using 2(3-5) by (rule push_ok)
  have edges: "D d \<noteq> None \<Longrightarrow> edge D (last (p @ [i])) d" if "d \<in> set ?ds" for d
    using that by (cases "D i") (auto simp: edge_def)
  obtain r1 where r1: "visit_deps f D ?ds (c(i \<mapsto> Gray), p @ [i]) = Some r1"
    using 2(2) by (auto split: option.splits)
  note IH = 2(1) [OF r1 push _ edges]
  obtain o1 c' p' where st: "r1 = (o1, (c', p'))" by (cases r1)
  show ?case
  proof (cases o1)
    case (Some cyc)
    have "r = (Some cyc, (c', p'))" using 2(2) r1 st Some by simp
    then show ?thesis using IH st Some by simp
  next
    case None
    have r: "r = (None, (c'(i \<mapsto> Black), butlast p'))" using 2(2) r1 st None by simp
    have sub: "p' = p @ [i]" "search_ok D (c', p @ [i])"
      "\<forall>d \<in> set ?ds. D d \<noteq> None \<longrightarrow> c' d = Some Black"
      "blacks (c(i \<mapsto> Gray)) \<subseteq> blacks c'" "whites c' \<subseteq> whites (c(i \<mapsto> Gray))"
      using IH st None by simp_all
    have "search_ok D (c'(i \<mapsto> Black), p)"
      using sub(2) by (rule pop_ok) (use sub(3) in \<open>auto simp: edge_def\<close>)
    moreover have "blacks c \<subseteq> blacks (c'(i \<mapsto> Black))"
      using sub(4) 2(4) by (auto simp: blacks_def)
    moreover have "whites (c'(i \<mapsto> Black)) \<subseteq> whites c - {i}"
      using sub(5) by (auto simp: whites_def split: if_splits)
    ultimately show ?thesis using r sub(1) by simp
  qed
next
  case (3 f D c p)
  then show ?case by auto
next
  case (4 f D d ds c p)
  have dom: "c d = None \<longleftrightarrow> D d = None" using 4(5) by (auto simp: search_ok_def)
  consider (gray) "c d = Some Gray" | (white) "c d = Some White" | (other) "c d \<noteq> Some Gray" "c d \<noteq> Some White"
    by blast
  then show ?case
  proof cases
    case gray
    then have "edge D (last p) d" using 4(7) [of d] dom by auto
    then show ?thesis using cycle_found [OF 4(5) gray] 4(4) gray by auto
  next
    case white
    then have e: "edge D (last p) d" using 4(7) [of d] dom by auto
    obtain r1 where r1: "visit f D d (c, p) = Some r1" using 4(4) white by (auto split: option.splits)
    have sub: "case r1 of (Some cyc, st) \<Rightarrow> is_cycle D cyc
      | (None, (c', p')) \<Rightarrow> p' = p \<and> search_ok D (c', p) \<and> c' d = Some Black \<and>
          blacks c \<subseteq> blacks c' \<and> whites c' \<subseteq> whites c - {d}"
      using 4(1) white r1 4(5) e by simp
    show ?thesis
    proof (cases "fst r1")
      case (Some cyc)
      then show ?thesis using sub 4(4) white r1 by (cases r1) auto
    next
      case None
      then obtain c' p' where st: "r1 = (None, (c', p'))" by (cases r1) auto
      with sub have s: "p' = p" "search_ok D (c', p)" "c' d = Some Black" "blacks c \<subseteq> blacks c'"
        "whites c' \<subseteq> whites c - {d}" by simp_all
      have rest: "visit_deps f D ds (c', p) = Some r" using 4(4) white r1 st s(1) by simp
      have "case r of (Some cyc, st) \<Rightarrow> is_cycle D cyc
        | (None, (c'', p'')) \<Rightarrow> p'' = p \<and> search_ok D (c'', p) \<and> (\<forall>d \<in> set ds. D d \<noteq> None \<longrightarrow> c'' d = Some Black) \<and>
          blacks c' \<subseteq> blacks c'' \<and> whites c'' \<subseteq> whites c'"
        by (rule 4(2) [OF _ white r1 [unfolded st s(1)] refl refl rest s(2)]) (use white 4(6,7) in auto)
      then show ?thesis using s by (auto simp: blacks_def split: prod.splits option.splits)
    qed
  next
    case other
    then have "visit_deps f D ds (c, p) = Some r" using 4(4) by simp
    then have "case r of (Some cyc, st) \<Rightarrow> is_cycle D cyc
      | (None, (c', p')) \<Rightarrow> p' = p \<and> search_ok D (c', p) \<and> (\<forall>d \<in> set ds. D d \<noteq> None \<longrightarrow> c' d = Some Black) \<and>
          blacks c \<subseteq> blacks c' \<and> whites c' \<subseteq> whites c"
      using 4(3) other 4(5-7) by simp
    moreover have "D d \<noteq> None \<Longrightarrow> c d = Some Black" using other dom by (cases "c d"; cases "the (c d)") auto
    ultimately show ?thesis by (auto simp: blacks_def split: prod.splits option.splits)
  qed
qed

section \<open>The fuel suffices\<close>

lemma visit_returns:
  "finite (whites c) \<Longrightarrow> card (whites c) \<le> f \<Longrightarrow> search_ok D (c, p) \<Longrightarrow> c i = Some White \<Longrightarrow>
     (p \<noteq> [] \<Longrightarrow> edge D (last p) i) \<Longrightarrow> visit f D i (c, p) \<noteq> None"
  and visit_deps_returns:
  "finite (whites c) \<Longrightarrow> card (whites c) \<le> f \<Longrightarrow> search_ok D (c, p) \<Longrightarrow> p \<noteq> [] \<Longrightarrow>
     (\<And>d. d \<in> set ds \<Longrightarrow> D d \<noteq> None \<Longrightarrow> edge D (last p) d) \<Longrightarrow> visit_deps f D ds (c, p) \<noteq> None"
proof (induction f D i "(c, p)" and f D ds "(c, p)" arbitrary: c p and c p rule: visit_visit_deps.induct)
  case (1 D i)
  then show ?case by (auto simp: whites_def)
next
  case (2 f D i c p)
  have w: "whites (c(i \<mapsto> Gray)) = whites c - {i}" by (auto simp: whites_def)
  have "i \<in> whites c" using 2(5) by (simp add: whites_def)
  then have card: "card (whites (c(i \<mapsto> Gray))) \<le> f" using 2(2,3) w by (simp add: card_Diff_singleton)
  have push: "search_ok D (c(i \<mapsto> Gray), p @ [i])" using 2(4-6) by (rule push_ok)
  have "visit_deps f D (case D i of None \<Rightarrow> [] | Some ds \<Rightarrow> ds) (c(i \<mapsto> Gray), p @ [i]) \<noteq> None"
    by (rule 2(1)) (use 2(2) w card push in \<open>auto simp: edge_def split: option.splits\<close>)
  then show ?case by (auto split: option.splits)
next
  case (3 f D c p)
  then show ?case by simp
next
  case (4 f D d ds c p)
  have dom: "c d = None \<longleftrightarrow> D d = None" using 4(6) by (auto simp: search_ok_def)
  consider (gray) "c d = Some Gray" | (white) "c d = Some White" | (other) "c d \<noteq> Some Gray" "c d \<noteq> Some White"
    by blast
  then show ?case
  proof cases
    case gray
    then show ?thesis by simp
  next
    case white
    then have e: "edge D (last p) d" using 4(8) [of d] dom by auto
    have "visit f D d (c, p) \<noteq> None" using 4(1) white 4(4-6) e by simp
    then obtain r1 where r1: "visit f D d (c, p) = Some r1" by blast
    show ?thesis
    proof (cases "fst r1")
      case (Some cyc)
      then show ?thesis using white r1 by (cases r1) auto
    next
      case None
      then obtain c' p' where st: "r1 = (None, (c', p'))" by (cases r1) auto
      have s: "p' = p" "search_ok D (c', p)" "whites c' \<subseteq> whites c"
        using visit_spec [OF r1 4(6) white e] st by auto
      have fin: "finite (whites c')" using s(3) 4(4) by (rule finite_subset)
      have "card (whites c') \<le> f" using card_mono [OF 4(4) s(3)] 4(5) by simp
      then have "visit_deps f D ds (c', p) \<noteq> None"
        by (intro 4(2) [OF _ white r1 [unfolded st s(1)] refl refl fin _ s(2)]) (use white 4(7,8) in auto)
      then show ?thesis using white r1 st s(1) by simp
    qed
  next
    case other
    then have "visit_deps f D ds (c, p) \<noteq> None" using 4(3) 4(4-8) by simp
    with other show ?thesis by simp
  qed
qed

lemma search_all_spec:
  assumes "search_ok D (c, [])" "finite (whites c)" "card (whites c) \<le> f" "\<forall>i \<in> set is. D i \<noteq> None"
  shows "case search_all f D is (c, []) of
      None \<Rightarrow> False
    | Some (Some cyc) \<Rightarrow> is_cycle D cyc
    | Some None \<Rightarrow> \<exists>c'. search_ok D (c', []) \<and> blacks c \<subseteq> blacks c' \<and> (\<forall>i \<in> set is. c' i = Some Black)"
  using assms
proof (induction "is" arbitrary: c)
  case Nil
  then show ?case by auto
next
  case (Cons i "is")
  show ?case
  proof (cases "c i = Some White")
    case True
    obtain r1 where r1: "visit f D i (c, []) = Some r1"
      using visit_returns [OF Cons.prems(2,3,1) True] by blast
    note spec = visit_spec [OF r1 Cons.prems(1) True]
    show ?thesis
    proof (cases "fst r1")
      case (Some cyc)
      then show ?thesis using True r1 spec by (cases r1) auto
    next
      case None
      then obtain c' p' where st: "r1 = (None, (c', p'))" by (cases r1) auto
      with spec have s: "p' = []" "search_ok D (c', [])" "c' i = Some Black" "blacks c \<subseteq> blacks c'"
        "whites c' \<subseteq> whites c" by auto
      have "finite (whites c')" using s(5) Cons.prems(2) by (rule finite_subset)
      moreover have "card (whites c') \<le> f" using card_mono [OF Cons.prems(2) s(5)] Cons.prems(3) by simp
      ultimately have IH: "case search_all f D is (c', []) of
          None \<Rightarrow> False
        | Some (Some cyc) \<Rightarrow> is_cycle D cyc
        | Some None \<Rightarrow> \<exists>c''. search_ok D (c'', []) \<and> blacks c' \<subseteq> blacks c'' \<and> (\<forall>i \<in> set is. c'' i = Some Black)"
        using s(2) Cons.prems(4) by (intro Cons.IH) auto
      have "search_all f D (i # is) (c, []) = search_all f D is (c', [])" using True r1 st s(1) by simp
      then show ?thesis
        using IH s(3,4) by (auto simp: blacks_def split: option.splits)
    qed
  next
    case False
    have "c i \<noteq> None" using Cons.prems(1,4) by (auto simp: search_ok_def)
    moreover have "c i \<noteq> Some Gray" using Cons.prems(1) by (simp add: search_ok_def)
    ultimately have black: "c i = Some Black" using False by (cases "c i"; cases "the (c i)") auto
    have "case search_all f D is (c, []) of
        None \<Rightarrow> False
      | Some (Some cyc) \<Rightarrow> is_cycle D cyc
      | Some None \<Rightarrow> \<exists>c'. search_ok D (c', []) \<and> blacks c \<subseteq> blacks c' \<and> (\<forall>i \<in> set is. c' i = Some Black)"
      using Cons.prems by (intro Cons.IH) auto
    then show ?thesis using False black by (auto simp: blacks_def split: option.splits)
  qed
qed

lemma search_start:
  "search_ok (deps_of nodes) (all_white nodes, [])" "finite (whites (all_white nodes))"
  "card (whites (all_white nodes)) \<le> length nodes"
  "\<forall>i \<in> set (map node_id nodes). deps_of nodes i \<noteq> None"
proof -
  have dom: "dom (all_white nodes) = node_id ` set nodes" "dom (deps_of nodes) = node_id ` set nodes"
    by (auto simp: all_white_def deps_of_def dom_map_of_conv_image_fst image_image)
  have white: "all_white nodes x = Some k \<Longrightarrow> k = White" for x k
    by (auto simp: all_white_def dest: map_of_SomeD)
  have ne: "all_white nodes x \<noteq> Some Gray" "all_white nodes x \<noteq> Some Black" for x
    using white by blast+
  then show "search_ok (deps_of nodes) (all_white nodes, [])"
    using dom by (auto simp: search_ok_def black_edges_def acyclic_def)
  have sub: "whites (all_white nodes) \<subseteq> node_id ` set nodes"
    using dom(1) by (auto simp: whites_def)
  then show "finite (whites (all_white nodes))" by (rule finite_subset) simp
  have "card (whites (all_white nodes)) \<le> card (node_id ` set nodes)"
    using sub by (intro card_mono) auto
  also have "\<dots> \<le> length nodes"
    by (meson card_image_le card_length finite_set le_trans)
  finally show "card (whites (all_white nodes)) \<le> length nodes" .
  show "\<forall>i \<in> set (map node_id nodes). deps_of nodes i \<noteq> None"
    using dom(2) by (auto simp: dom_def)
qed

lemma search_all_returns: "search_all (length nodes) (deps_of nodes) (map node_id nodes) (all_white nodes, []) \<noteq> None"
  using search_all_spec [OF search_start, of nodes] by (auto split: option.splits)

lemma findCycle_sound: "findCycle nodes = Some cyc \<Longrightarrow> is_cycle (deps_of nodes) cyc"
  using search_all_spec [OF search_start, of nodes] by (auto simp: findCycle_def split: option.splits)

lemma successively_trancl:
  "successively R xs \<Longrightarrow> 2 \<le> length xs \<Longrightarrow> (hd xs, last xs) \<in> {(x, y). R x y}\<^sup>+"
proof (induction xs)
  case (Cons x xs)
  then obtain y ys where xs: "xs = y # ys" by (cases xs) auto
  show ?case
  proof (cases ys)
    case Nil
    with Cons.prems xs show ?thesis by auto
  next
    case (Cons z zs)
    with Cons.IH Cons.prems xs have "(y, last xs) \<in> {(x, y). R x y}\<^sup>+" by simp
    moreover have "(x, y) \<in> {(x, y). R x y}" using Cons.prems xs by simp
    ultimately show ?thesis using xs Cons by (simp add: trancl_into_trancl2)
  qed
qed simp

lemma findCycle_None: "findCycle nodes = None \<Longrightarrow> acyclic {(x, y). edge (deps_of nodes) x y}"
proof -
  assume "findCycle nodes = None"
  then obtain c where c: "search_ok (deps_of nodes) (c, [])" "\<forall>i \<in> set (map node_id nodes). c i = Some Black"
    using search_all_spec [OF search_start, of nodes] by (auto simp: findCycle_def split: option.splits)
  have "dom (deps_of nodes) = set (map node_id nodes)"
    by (auto simp: deps_of_def dom_map_of_conv_image_fst image_image)
  then have "c x = Some Black" if "edge (deps_of nodes) x y" for x y
    using that c(2) domI [of "deps_of nodes" x] unfolding edge_def by blast
  then have "black_edges (deps_of nodes) c = {(x, y). edge (deps_of nodes) x y}"
    by (auto simp: black_edges_def)
  with c(1) show ?thesis by (simp add: search_ok_def)
qed

lemma findCycle_iff: "findCycle nodes = None \<longleftrightarrow> acyclic {(x, y). edge (deps_of nodes) x y}"
proof
  assume acyc: "acyclic {(x, y). edge (deps_of nodes) x y}"
  show "findCycle nodes = None"
  proof (rule ccontr)
    assume "findCycle nodes \<noteq> None"
    then obtain cyc where "is_cycle (deps_of nodes) cyc" using findCycle_sound by blast
    then have "(hd cyc, hd cyc) \<in> {(x, y). edge (deps_of nodes) x y}\<^sup>+"
      using successively_trancl [of "edge (deps_of nodes)" cyc] by (simp add: is_cycle_def)
    with acyc show False by (simp add: acyclic_def)
  qed
qed (rule findCycle_None)

end
