(* ===== verification/Workflows.thy ===== *)
theory Workflows
  imports Cycle Orchestration
begin

text \<open>
  \<open>contracts/workflow.ts\<close> and \<open>core/workflows/workflow-system.ts\<close>: declarative task graphs, their
  validation and their lifecycle. \<open>wf_*\<close>, \<open>ts_*\<close> and \<open>wr_*\<close> are the fields of a workflow, of a
  task spec and of a task record.
\<close>

section \<open>Data\<close>

record WorkflowLimits =
  maxTasks :: int
  maxAgentExecutions :: int
  lim_maxRetries :: int
  maxHandoffs :: int
  maxToolCalls :: int
  maxDurationMs :: int
  maxDelegationDepth :: int

definition DEFAULT_WORKFLOW_LIMITS :: WorkflowLimits where
  "DEFAULT_WORKFLOW_LIMITS = \<lparr>maxTasks = 20, maxAgentExecutions = 40, lim_maxRetries = 2,
     maxHandoffs = 20, maxToolCalls = 100, maxDurationMs = 5 * 60000, maxDelegationDepth = 1\<rparr>"

record RetryPolicy =
  maxRetries :: int
  retryableReasons :: "string list"

definition DEFAULT_RETRY_POLICY :: RetryPolicy where
  "DEFAULT_RETRY_POLICY = \<lparr>maxRetries = 2, retryableReasons =
     [''tool_failure'', ''tool_unavailable'', ''model_failure'', ''model_unavailable'', ''timeout'']\<rparr>"

record PartialLimits =
  pl_maxTasks :: "int option"
  pl_maxAgentExecutions :: "int option"
  pl_maxRetries :: "int option"
  pl_maxHandoffs :: "int option"
  pl_maxToolCalls :: "int option"
  pl_maxDurationMs :: "int option"
  pl_maxDelegationDepth :: "int option"

record PartialRetry =
  pr_maxRetries :: "int option"
  pr_retryableReasons :: "string list option"

record WorkflowTaskSpecDraft =
  tsd_id :: string
  tsd_type :: string
  tsd_description :: string
  tsd_agentId :: "string option"
  tsd_capability :: "string option"
  tsd_dependsOn :: "string list option"
  tsd_acceptanceCriteria :: "string list option"
  tsd_input :: json
  tsd_requiredPermissions :: "RequiredPermission list option"
  tsd_expectedTools :: "string list option"
  tsd_priority :: "Priority option"
  tsd_metadata :: "fields option"

record WorkflowTaskSpec =
  ts_id :: string
  ts_type :: string
  ts_description :: string
  ts_agentId :: "string option"
  ts_capability :: "string option"
  ts_dependsOn :: "string list"
  ts_acceptanceCriteria :: "string list"
  ts_input :: json
  ts_requiredPermissions :: "RequiredPermission list"
  ts_expectedTools :: "string list"
  ts_priority :: "Priority option"
  ts_metadata :: fields

datatype WorkflowFailureBehavior = Abort | Continue

record WorkflowDraft =
  wd_name :: string
  wd_organizationId :: "string option"
  wd_workspaceId :: "string option"
  wd_description :: string
  wd_projectId :: string
  wd_participatingAgents :: "string list"
  wd_tasks :: "WorkflowTaskSpecDraft list"
  wd_successCriteria :: "string list option"
  wd_failureBehavior :: "WorkflowFailureBehavior option"
  wd_limits :: "PartialLimits option"
  wd_retryPolicy :: "PartialRetry option"
  wd_metadata :: "fields option"

datatype WorkflowStatus =
    WCreated | WPlanned | WRunning | WAwaitingApproval | WBlocked | WCompleted | WFailed | WCancelled

datatype WorkflowTaskStatus =
    SPending | SReady | SDispatched | SAwaitingApproval | SCompleted | SFailed | SBlocked | SSkipped | SCancelled

record WorkflowTaskRecord =
  wr_specId :: string
  wr_status :: WorkflowTaskStatus
  wr_taskId :: "string option"
  wr_assignedAgentId :: "string option"
  wr_retryCount :: int
  wr_error :: "string option"
  wr_output :: json
  wr_handoffId :: "string option"
  wr_updatedAt :: timestamp

record WorkflowCounters =
  tasksCreated :: int
  agentExecutions :: int
  retries :: int
  handoffCount :: int
  toolCalls :: int

record WorkflowTaskResultSummary =
  sum_specId :: string
  sum_status :: WorkflowTaskStatus
  sum_agentId :: "string option"
  sum_output :: json
  sum_error :: "string option"

record WorkflowResult =
  res_workflowId :: string
  res_status :: WorkflowStatus
  res_summary :: string
  res_taskResults :: "WorkflowTaskResultSummary list"
  res_completedAt :: timestamp
  res_metadata :: fields

record Workflow =
  wf_id :: string
  wf_organizationId :: "string option"
  wf_workspaceId :: "string option"
  wf_name :: string
  wf_description :: string
  wf_projectId :: string
  participatingAgents :: "string list"
  wf_tasks :: "WorkflowTaskSpec list"
  successCriteria :: "string list"
  failureBehavior :: WorkflowFailureBehavior
  limits :: WorkflowLimits
  retryPolicy :: RetryPolicy
  wf_status :: WorkflowStatus
  taskRecords :: "WorkflowTaskRecord list"
  counters :: WorkflowCounters
  wf_result :: "WorkflowResult option"
  wf_error :: "string option"
  wf_createdAt :: timestamp
  wf_updatedAt :: timestamp
  wf_startedAt :: "timestamp option"
  wf_completedAt :: "timestamp option"
  wf_metadata :: fields

fun workflow_status_str :: "WorkflowStatus \<Rightarrow> string" where
  "workflow_status_str WCreated = ''created''"
| "workflow_status_str WPlanned = ''planned''"
| "workflow_status_str WRunning = ''running''"
| "workflow_status_str WAwaitingApproval = ''awaiting_approval''"
| "workflow_status_str WBlocked = ''blocked''"
| "workflow_status_str WCompleted = ''completed''"
| "workflow_status_str WFailed = ''failed''"
| "workflow_status_str WCancelled = ''cancelled''"

section \<open>Validation\<close>

definition validateWorkflowTaskSpecDraft :: "nat \<Rightarrow> WorkflowTaskSpecDraft \<Rightarrow> unit res" where
  "validateWorkflowTaskSpecDraft i d =
     (let at = ''workflow.tasks['' @ show_nat i @ '']'' in checks
        [requireText (tsd_id d) (at @ ''.id''),
         requireText (tsd_type d) (at @ ''.type''),
         requireText (tsd_description d) (at @ ''.description''),
         throw_if (\<not> truthy (tsd_agentId d) \<and> \<not> truthy (tsd_capability d))
           (ValidationError (at @ '' must specify agentId or capability''))])"

fun check_unique_ids :: "string list \<Rightarrow> WorkflowTaskSpecDraft list \<Rightarrow> unit res" where
  "check_unique_ids seen [] = Inr ()"
| "check_unique_ids seen (t # ts) =
     (if tsd_id t \<in> set seen
      then Inl (ValidationError (''duplicate workflow task id: \"'' @ tsd_id t @ ''\"''))
      else check_unique_ids (tsd_id t # seen) ts)"

definition check_dependencies :: "WorkflowTaskSpecDraft list \<Rightarrow> unit res" where
  "check_dependencies ts = check_all (\<lambda>t. check_all (\<lambda>dep. checks
       [throw_if (dep = tsd_id t)
          (ValidationError (''workflow task \"'' @ tsd_id t @ ''\" cannot depend on itself'')),
        throw_if (dep \<notin> set (map tsd_id ts))
          (ValidationError (''workflow task \"'' @ tsd_id t @ ''\" depends on unknown task \"'' @ dep @ ''\"''))])
     (or_else (tsd_dependsOn t) [])) ts"

definition draft_nodes :: "WorkflowTaskSpecDraft list \<Rightarrow> DependencyNode list" where
  "draft_nodes ts = map (\<lambda>t. \<lparr>node_id = tsd_id t, node_dependsOn = or_else (tsd_dependsOn t) []\<rparr>) ts"

definition validateWorkflowDraft :: "WorkflowDraft \<Rightarrow> unit res" where
  "validateWorkflowDraft d = checks
     [requireText_opt (wd_organizationId d) ''workflow.organizationId'',
      requireText (wd_name d) ''workflow.name'',
      requireText (wd_description d) ''workflow.description'',
      requireText (wd_projectId d) ''workflow.projectId'',
      throw_if (length (wd_participatingAgents d) = 0)
        (ValidationError ''workflow.participatingAgents must be a non-empty array''),
      throw_if (length (wd_tasks d) = 0) (ValidationError ''workflow.tasks must be a non-empty array''),
      check_indexed validateWorkflowTaskSpecDraft (wd_tasks d),
      check_unique_ids [] (wd_tasks d),
      check_dependencies (wd_tasks d),
      (case findCycle (draft_nodes (wd_tasks d)) of None \<Rightarrow> Inr ()
       | Some cycle \<Rightarrow> Inl (ValidationError (''workflow has a circular dependency: '' @ js_join '' -> '' cycle)))]"

lemma check_unique_ids_Inr:
  "check_unique_ids seen ts = Inr () \<longleftrightarrow> distinct (map tsd_id ts) \<and> set (map tsd_id ts) \<inter> set seen = {}"
  by (induction seen ts rule: check_unique_ids.induct) auto

text \<open>An accepted graph: unique ids, every dependency declared, no cycle.\<close>

lemma validateWorkflowDraft_graph:
  assumes "validateWorkflowDraft d = Inr ()"
  shows "distinct (map tsd_id (wd_tasks d))"
    and "t \<in> set (wd_tasks d) \<Longrightarrow> dep \<in> set (or_else (tsd_dependsOn t) []) \<Longrightarrow>
      dep \<in> set (map tsd_id (wd_tasks d)) \<and> dep \<noteq> tsd_id t"
    and "acyclic {(x, y). edge (deps_of (draft_nodes (wd_tasks d))) x y}"
    and "wd_tasks d \<noteq> []"
proof -
  have cs: "check_unique_ids [] (wd_tasks d) = Inr ()" "check_dependencies (wd_tasks d) = Inr ()"
    "findCycle (draft_nodes (wd_tasks d)) = None" "wd_tasks d \<noteq> []"
    using assms by (auto simp: validateWorkflowDraft_def checks_Inr_iff split: option.splits)
  then show "distinct (map tsd_id (wd_tasks d))" "wd_tasks d \<noteq> []" by (simp_all add: check_unique_ids_Inr)
  show "t \<in> set (wd_tasks d) \<Longrightarrow> dep \<in> set (or_else (tsd_dependsOn t) []) \<Longrightarrow>
      dep \<in> set (map tsd_id (wd_tasks d)) \<and> dep \<noteq> tsd_id t"
    using cs(2) by (auto simp: check_dependencies_def checks_Inr_iff)
  show "acyclic {(x, y). edge (deps_of (draft_nodes (wd_tasks d))) x y}"
    using cs(3) by (simp add: findCycle_iff)
qed

section \<open>The system\<close>

record workflow_state = registry_state +
  workflows :: "Workflow repo"

fun WORKFLOW_TRANSITIONS :: "WorkflowStatus \<Rightarrow> WorkflowStatus list" where
  "WORKFLOW_TRANSITIONS WCreated = [WPlanned, WCancelled]"
| "WORKFLOW_TRANSITIONS WPlanned = [WRunning, WCancelled]"
| "WORKFLOW_TRANSITIONS WRunning = [WAwaitingApproval, WBlocked, WCompleted, WFailed, WCancelled]"
| "WORKFLOW_TRANSITIONS WAwaitingApproval = [WRunning, WCancelled]"
| "WORKFLOW_TRANSITIONS WBlocked = [WRunning, WFailed, WCancelled]"
| "WORKFLOW_TRANSITIONS WCompleted = []"
| "WORKFLOW_TRANSITIONS WFailed = []"
| "WORKFLOW_TRANSITIONS WCancelled = []"

definition merge_limits :: "PartialLimits option \<Rightarrow> WorkflowLimits" where
  "merge_limits p = (let d = DEFAULT_WORKFLOW_LIMITS in case p of None \<Rightarrow> d
     | Some q \<Rightarrow> \<lparr>maxTasks = or_else (pl_maxTasks q) (maxTasks d),
         maxAgentExecutions = or_else (pl_maxAgentExecutions q) (maxAgentExecutions d),
         lim_maxRetries = or_else (pl_maxRetries q) (lim_maxRetries d),
         maxHandoffs = or_else (pl_maxHandoffs q) (maxHandoffs d),
         maxToolCalls = or_else (pl_maxToolCalls q) (maxToolCalls d),
         maxDurationMs = or_else (pl_maxDurationMs q) (maxDurationMs d),
         maxDelegationDepth = or_else (pl_maxDelegationDepth q) (maxDelegationDepth d)\<rparr>)"

definition merge_retry :: "PartialRetry option \<Rightarrow> RetryPolicy" where
  "merge_retry p = (let d = DEFAULT_RETRY_POLICY in case p of None \<Rightarrow> d
     | Some q \<Rightarrow> \<lparr>maxRetries = or_else (pr_maxRetries q) (maxRetries d),
         retryableReasons = or_else (pr_retryableReasons q) (retryableReasons d)\<rparr>)"

definition spec_of :: "WorkflowTaskSpecDraft \<Rightarrow> WorkflowTaskSpec" where
  "spec_of t = \<lparr>ts_id = tsd_id t, ts_type = tsd_type t, ts_description = tsd_description t,
     ts_agentId = tsd_agentId t, ts_capability = tsd_capability t,
     ts_dependsOn = or_else (tsd_dependsOn t) [],
     ts_acceptanceCriteria = or_else (tsd_acceptanceCriteria t) [], ts_input = json_or_null (tsd_input t),
     ts_requiredPermissions = or_else (tsd_requiredPermissions t) [],
     ts_expectedTools = or_else (tsd_expectedTools t) [], ts_priority = tsd_priority t,
     ts_metadata = or_else (tsd_metadata t) []\<rparr>"

definition initialTaskRecord :: "string \<Rightarrow> timestamp \<Rightarrow> WorkflowTaskRecord" where
  "initialTaskRecord specId at = \<lparr>wr_specId = specId, wr_status = SPending, wr_taskId = None,
     wr_assignedAgentId = None, wr_retryCount = 0, wr_error = None, wr_output = JUndefined,
     wr_handoffId = None, wr_updatedAt = at\<rparr>"

definition new_workflow :: "WorkflowDraft \<Rightarrow> string \<Rightarrow> timestamp \<Rightarrow> Workflow" where
  "new_workflow d i at = \<lparr>wf_id = i, wf_organizationId = wd_organizationId d,
     wf_workspaceId = wd_workspaceId d, wf_name = wd_name d, wf_description = wd_description d,
     wf_projectId = wd_projectId d, participatingAgents = wd_participatingAgents d,
     wf_tasks = map spec_of (wd_tasks d), successCriteria = or_else (wd_successCriteria d) [],
     failureBehavior = or_else (wd_failureBehavior d) Abort, limits = merge_limits (wd_limits d),
     retryPolicy = merge_retry (wd_retryPolicy d), wf_status = WCreated,
     taskRecords = map (\<lambda>t. initialTaskRecord (ts_id t) at) (map spec_of (wd_tasks d)),
     counters = \<lparr>tasksCreated = 0, agentExecutions = 0, retries = 0, handoffCount = 0, toolCalls = 0\<rparr>,
     wf_result = None, wf_error = None, wf_createdAt = at, wf_updatedAt = at, wf_startedAt = None,
     wf_completedAt = None, wf_metadata = or_else (wd_metadata d) []\<rparr>"

definition upsert_workflow :: "Workflow \<Rightarrow> ('x workflow_state_scheme, unit) op" where
  "upsert_workflow w = modifyS (\<lambda>s. s\<lparr>workflows := mem_upsert wf_id w (workflows s)\<rparr>)"

definition workflow_create :: "WorkflowDraft \<Rightarrow> ('x workflow_state_scheme, Workflow) op" where
  "workflow_create d = thenS (liftE (validateWorkflowDraft d))
     (if int (length (wd_tasks d)) > maxTasks (merge_limits (wd_limits d))
      then throwS (ValidationError (''workflow declares '' @ show_nat (length (wd_tasks d))
             @ '' tasks, exceeding limits.maxTasks ('' @ show_int (maxTasks (merge_limits (wd_limits d))) @ '')''))
      else bindS now (\<lambda>at. bindS (createId ''workflow'') (\<lambda>i.
        let w = new_workflow d i at in thenS (upsert_workflow w) (returnS w))))"

definition workflow_require :: "string \<Rightarrow> ('x workflow_state_scheme, Workflow) op" where
  "workflow_require i s = (case mem_findById i (workflows s) of
     None \<Rightarrow> (Inl (NotFoundError (''unknown workflow: '' @ i)), s)
   | Some w \<Rightarrow> (Inr w, s))"

definition workflow_canTransition :: "WorkflowStatus \<Rightarrow> WorkflowStatus \<Rightarrow> bool" where
  "workflow_canTransition from to \<longleftrightarrow> to \<in> set (WORKFLOW_TRANSITIONS from)"

definition move_workflow :: "WorkflowStatus \<Rightarrow> string option \<Rightarrow> fields option \<Rightarrow> timestamp \<Rightarrow> Workflow \<Rightarrow> Workflow" where
  "move_workflow to err metadata at w = w\<lparr>wf_status := to, wf_updatedAt := at,
     wf_error := (case err of None \<Rightarrow> wf_error w | Some e \<Rightarrow> Some e),
     wf_metadata := (case metadata of None \<Rightarrow> wf_metadata w | Some m \<Rightarrow> spread (wf_metadata w) m),
     wf_startedAt := (if to = WRunning \<and> wf_startedAt w = None then Some at else wf_startedAt w),
     wf_completedAt := (if to \<in> {WCompleted, WFailed, WCancelled} then Some at else wf_completedAt w)\<rparr>"

definition workflow_transition ::
  "string \<Rightarrow> WorkflowStatus \<Rightarrow> string option \<Rightarrow> fields option \<Rightarrow> ('x workflow_state_scheme, Workflow) op" where
  "workflow_transition i to err metadata = bindS (workflow_require i) (\<lambda>w.
     if \<not> workflow_canTransition (wf_status w) to
     then throwS (StateTransitionError (''invalid workflow transition: '' @ workflow_status_str (wf_status w)
            @ '' -> '' @ workflow_status_str to))
     else bindS now (\<lambda>at. let next = move_workflow to err metadata at w
       in thenS (upsert_workflow next) (returnS next)))"

text \<open>A record patch: a key that is present sets the field, also to \<open>undefined\<close>.\<close>

record RecordPatch =
  rp_status :: "WorkflowTaskStatus option"
  rp_taskId :: "string option option"
  rp_assignedAgentId :: "string option option"
  rp_retryCount :: "int option"
  rp_error :: "string option"
  rp_output :: "json option"
  rp_handoffId :: "string option"

definition empty_patch :: RecordPatch where
  "empty_patch = \<lparr>rp_status = None, rp_taskId = None, rp_assignedAgentId = None, rp_retryCount = None,
     rp_error = None, rp_output = None, rp_handoffId = None\<rparr>"

definition patch_record :: "RecordPatch \<Rightarrow> timestamp \<Rightarrow> WorkflowTaskRecord \<Rightarrow> WorkflowTaskRecord" where
  "patch_record p at r = r\<lparr>wr_status := or_else (rp_status p) (wr_status r),
     wr_taskId := or_else (rp_taskId p) (wr_taskId r),
     wr_assignedAgentId := or_else (rp_assignedAgentId p) (wr_assignedAgentId r),
     wr_retryCount := or_else (rp_retryCount p) (wr_retryCount r),
     wr_error := (case rp_error p of None \<Rightarrow> wr_error r | Some e \<Rightarrow> Some e),
     wr_output := or_else (rp_output p) (wr_output r),
     wr_handoffId := (case rp_handoffId p of None \<Rightarrow> wr_handoffId r | Some h \<Rightarrow> Some h),
     wr_updatedAt := at\<rparr>"

fun update_first :: "('a \<Rightarrow> bool) \<Rightarrow> ('a \<Rightarrow> 'a) \<Rightarrow> 'a list \<Rightarrow> 'a list" where
  "update_first p f [] = []"
| "update_first p f (x # xs) = (if p x then f x # xs else x # update_first p f xs)"

definition put_record :: "string \<Rightarrow> RecordPatch \<Rightarrow> timestamp \<Rightarrow> Workflow \<Rightarrow> Workflow" where
  "put_record specId p at w = w\<lparr>taskRecords :=
     update_first (\<lambda>r. wr_specId r = specId) (patch_record p at) (taskRecords w), wf_updatedAt := at\<rparr>"

definition updateTaskRecord :: "string \<Rightarrow> string \<Rightarrow> RecordPatch \<Rightarrow> ('x workflow_state_scheme, Workflow) op" where
  "updateTaskRecord i specId p = bindS (workflow_require i) (\<lambda>w.
     if js_find (\<lambda>r. wr_specId r = specId) (taskRecords w) = None
     then throwS (NotFoundError (''workflow '' @ i @ '' has no task record for spec \"'' @ specId @ ''\"''))
     else bindS now (\<lambda>at. let next = put_record specId p at w
       in thenS (upsert_workflow next) (returnS next)))"

datatype CounterKey = KTasksCreated | KAgentExecutions | KRetries | KHandoffs | KToolCalls

fun add_counter :: "CounterKey \<Rightarrow> int \<Rightarrow> WorkflowCounters \<Rightarrow> WorkflowCounters" where
  "add_counter KTasksCreated n c = c\<lparr>tasksCreated := tasksCreated c + n\<rparr>"
| "add_counter KAgentExecutions n c = c\<lparr>agentExecutions := agentExecutions c + n\<rparr>"
| "add_counter KRetries n c = c\<lparr>retries := retries c + n\<rparr>"
| "add_counter KHandoffs n c = c\<lparr>handoffCount := handoffCount c + n\<rparr>"
| "add_counter KToolCalls n c = c\<lparr>toolCalls := toolCalls c + n\<rparr>"

definition incrementCounter :: "string \<Rightarrow> CounterKey \<Rightarrow> int \<Rightarrow> ('x workflow_state_scheme, Workflow) op" where
  "incrementCounter i k n = bindS (workflow_require i) (\<lambda>w. bindS now (\<lambda>at.
     let next = w\<lparr>counters := add_counter k n (counters w), wf_updatedAt := at\<rparr>
     in thenS (upsert_workflow next) (returnS next)))"

definition setResult :: "string \<Rightarrow> WorkflowResult \<Rightarrow> ('x workflow_state_scheme, Workflow) op" where
  "setResult i result = bindS (workflow_require i) (\<lambda>w. bindS now (\<lambda>at.
     let next = w\<lparr>wf_result := Some result, wf_updatedAt := at\<rparr>
     in thenS (upsert_workflow next) (returnS next)))"

end
