(* ===== verification/Workflow_Graph.thy ===== *)
theory Workflow_Graph
  imports Workflows
begin

text \<open>
  \<open>core/workflows/workflow-graph.ts\<close>: which specs are ready, whether an assignment is valid,
  whether a failure is retried, and what a failure skips. The tool registry is a parameter: the
  agents a tool allows, or \<open>None\<close> for an unknown tool.
\<close>

definition record_of :: "Workflow \<Rightarrow> string \<Rightarrow> WorkflowTaskRecord option" where
  "record_of w i = js_find (\<lambda>r. wr_specId r = i) (taskRecords w)"

text \<open>The map built from the records: a later record of the same spec would win.\<close>

definition recordBySpec :: "Workflow \<Rightarrow> string \<Rightarrow> WorkflowTaskRecord option" where
  "recordBySpec w = map_of (rev (map (\<lambda>r. (wr_specId r, r)) (taskRecords w)))"

definition spec_ready :: "Workflow \<Rightarrow> WorkflowTaskSpec \<Rightarrow> bool" where
  "spec_ready w spec = (case recordBySpec w (ts_id spec) of
     None \<Rightarrow> False
   | Some r \<Rightarrow> if wr_status r \<noteq> SPending then False
       else list_all (\<lambda>dep. map_option wr_status (recordBySpec w dep) = Some SCompleted) (ts_dependsOn spec))"

definition computeReadySpecs :: "Workflow \<Rightarrow> WorkflowTaskSpec list" where
  "computeReadySpecs w = filter (spec_ready w) (wf_tasks w)"

definition hasActionableWork :: "Workflow \<Rightarrow> bool" where
  "hasActionableWork w \<longleftrightarrow>
     list_ex (\<lambda>r. wr_status r \<in> {SPending, SReady, SDispatched, SAwaitingApproval}) (taskRecords w)"

record AgentAssignment =
  as_specId :: string
  as_agentId :: "string option"
  as_validated :: bool
  as_reason :: string

definition invalid_assignment :: "WorkflowTaskSpec \<Rightarrow> string option \<Rightarrow> string \<Rightarrow> AgentAssignment" where
  "invalid_assignment spec a reason =
     \<lparr>as_specId = ts_id spec, as_agentId = a, as_validated = False, as_reason = reason\<rparr>"

definition quoted :: "string \<Rightarrow> string" where
  "quoted s = ''\"'' @ s @ ''\"''"

definition unauthorized_tool :: "(string \<Rightarrow> string list option) option \<Rightarrow> string \<Rightarrow> string \<Rightarrow> bool" where
  "unauthorized_tool tools agentId toolId = (case tools of None \<Rightarrow> False
     | Some lookup \<Rightarrow> (case lookup toolId of None \<Rightarrow> True | Some allowed_ids \<Rightarrow> agentId \<notin> set allowed_ids))"

definition permission_note :: "PermissionGrant list \<Rightarrow> Workflow \<Rightarrow> string \<Rightarrow> RequiredPermission \<Rightarrow> string" where
  "permission_note grants w agentId req =
     (let d = evaluate grants \<lparr>req_action = rp_action req, req_agentId = agentId,
            req_projectId = wf_projectId w, req_toolId = rp_toolId req, req_environment = Local\<rparr>
      in action_str (rp_action req) @ (if truthy (rp_toolId req) then ''/'' @ or_else (rp_toolId req) [] else []) @
         '':'' @ (if allowed d then ''allow'' else ''deny''))"

definition candidate_id ::
  "(string \<Rightarrow> string \<Rightarrow> int) \<Rightarrow> WorkflowTaskSpec \<Rightarrow> Workflow \<Rightarrow> 'x registry_state_scheme \<Rightarrow> string option" where
  "candidate_id lc spec w s = (case ts_agentId spec of
     Some a \<Rightarrow> Some a
   | None \<Rightarrow> map_option agent_id (js_find (\<lambda>agent. agent_id agent \<in> set (participatingAgents w) \<and>
       (\<not> truthy (ts_capability spec) \<or> or_else (ts_capability spec) [] \<in> set (capabilities agent)))
       (eligible lc (ts_type spec) (wf_projectId w) s)))"

definition assignAgent ::
  "(string \<Rightarrow> string \<Rightarrow> int) \<Rightarrow> PermissionGrant list \<Rightarrow> (string \<Rightarrow> string list option) option \<Rightarrow>
   WorkflowTaskSpec \<Rightarrow> Workflow \<Rightarrow> 'x registry_state_scheme \<Rightarrow> AgentAssignment" where
  "assignAgent lc grants tools spec w s =
     (if \<not> truthy (candidate_id lc spec w s)
      then invalid_assignment spec None
        (if truthy (ts_agentId spec)
         then ''no candidate resolved for explicit agentId '' @ quoted (or_else (ts_agentId spec) [])
         else ''no participating agent has capability '' @ quoted (or_else (ts_capability spec) ''undefined'')
           @ '' for type '' @ quoted (ts_type spec))
      else let c = or_else (candidate_id lc spec w s) [] in
        case mem_findById c (agents s) of
          None \<Rightarrow> invalid_assignment spec (Some c) (''agent '' @ quoted c @ '' is not registered'')
        | Some agent \<Rightarrow>
            if c \<notin> set (participatingAgents w)
            then invalid_assignment spec (Some c)
              (''agent '' @ quoted c @ '' is not a declared participant of this workflow'')
            else if \<not> list_ex (\<lambda>a. agent_id a = c) (eligible lc (ts_type spec) (wf_projectId w) s)
            then invalid_assignment spec (Some c)
              (''agent '' @ quoted c @ '' is not eligible for type '' @ quoted (ts_type spec)
                 @ '' on project '' @ quoted (wf_projectId w))
            else if truthy (ts_capability spec) \<and> or_else (ts_capability spec) [] \<notin> set (capabilities agent)
            then invalid_assignment spec (Some c)
              (''agent '' @ quoted c @ '' lacks capability '' @ quoted (or_else (ts_capability spec) []))
            else case js_find (unauthorized_tool tools c) (ts_expectedTools spec) of
              Some toolId \<Rightarrow> invalid_assignment spec (Some c)
                (''agent '' @ quoted c @ '' is not authorized for expected tool '' @ quoted toolId)
            | None \<Rightarrow>
                \<lparr>as_specId = ts_id spec, as_agentId = Some c, as_validated = True,
                 as_reason = (if length (ts_requiredPermissions spec) > 0
                   then ''assigned; permissions['' @ js_join '','' (map (permission_note grants w c)
                          (ts_requiredPermissions spec)) @ '']''
                   else ''assigned'')\<rparr>)"

text \<open>\<open>/^\[[^:]+:([\w-]+)]/\<close>: the reason an agent failure carries in front of its message.\<close>

definition word_char :: "char \<Rightarrow> bool" where
  "word_char c \<longleftrightarrow> js_alnum c \<or> c = CHR ''_''"

definition extractFailureReason :: "string \<Rightarrow> string option" where
  "extractFailureReason m = (case m of [] \<Rightarrow> None
     | c # rest \<Rightarrow>
         if c \<noteq> CHR ''['' then None
         else let agent = takeWhile (\<lambda>d. d \<noteq> CHR '':'') rest;
                  tail = dropWhile (\<lambda>d. d \<noteq> CHR '':'') rest
              in if agent = [] \<or> tail = [] then None
                 else let reason = takeWhile (\<lambda>d. word_char d \<or> d = CHR ''-'') (tl tail);
                          after = dropWhile (\<lambda>d. word_char d \<or> d = CHR ''-'') (tl tail)
                      in if reason = [] \<or> after = [] \<or> hd after \<noteq> CHR '']'' then None else Some reason)"

definition shouldRetry :: "RetryPolicy \<Rightarrow> string option \<Rightarrow> int \<Rightarrow> bool" where
  "shouldRetry policy reason retryCountSoFar =
     (if retryCountSoFar \<ge> maxRetries policy then False
      else if \<not> truthy reason then False
      else or_else reason [] \<in> set (retryableReasons policy))"

fun obj_field :: "json \<Rightarrow> string \<Rightarrow> json" where
  "obj_field (JObj kvs) k = (case map_of kvs k of None \<Rightarrow> JUndefined | Some v \<Rightarrow> v)"
| "obj_field _ k = JUndefined"

definition extractToolCallCount :: "json \<Rightarrow> int" where
  "extractToolCallCount output =
     (case obj_field (obj_field (obj_field output ''metadata'') ''counters'') ''toolCalls'' of
        JNum n \<Rightarrow> n | _ \<Rightarrow> 0)"

section \<open>Skipping downstream of a failure\<close>

text \<open>One pass over the specs of the loop in \<open>propagateSkip\<close>; every spec has a record.\<close>

fun skip_pass :: "Workflow \<Rightarrow> string \<Rightarrow> WorkflowTaskSpec list \<Rightarrow> string list \<Rightarrow> string list" where
  "skip_pass w failedId [] skip = skip"
| "skip_pass w failedId (spec # specs) skip =
     (if map_option wr_status (record_of w (ts_id spec)) \<noteq> Some SPending \<or> ts_id spec \<in> set skip
      then skip_pass w failedId specs skip
      else if list_ex (\<lambda>dep. dep = failedId \<or> dep \<in> set skip) (ts_dependsOn spec)
      then skip_pass w failedId specs (skip @ [ts_id spec])
      else skip_pass w failedId specs skip)"

lemma skip_pass_extends:
  "\<exists>more. skip_pass w f specs skip = skip @ more \<and> set more \<subseteq> set (map ts_id specs) - set skip"
proof (induction specs arbitrary: skip)
  case Nil
  show ?case by simp
next
  case (Cons spec specs)
  from Cons.IH [of skip] obtain more where
    more: "skip_pass w f specs skip = skip @ more" "set more \<subseteq> set (map ts_id specs) - set skip" by blast
  from Cons.IH [of "skip @ [ts_id spec]"] obtain more' where
    more': "skip_pass w f specs (skip @ [ts_id spec]) = skip @ (ts_id spec # more')"
      "set more' \<subseteq> set (map ts_id specs) - set (skip @ [ts_id spec])" by auto
  show ?case
  proof (cases "ts_id spec \<in> set skip")
    case True
    with more show ?thesis by auto
  next
    case False
    with more more' show ?thesis
      by (cases "list_ex (\<lambda>dep. dep = f \<or> dep \<in> set skip) (ts_dependsOn spec)";
          cases "map_option wr_status (record_of w (ts_id spec)) = Some SPending") auto
  qed
qed

function skip_closure :: "Workflow \<Rightarrow> string \<Rightarrow> string list \<Rightarrow> string list" where
  "skip_closure w failedId skip =
     (let next = skip_pass w failedId (wf_tasks w) skip
      in if next = skip then skip else skip_closure w failedId next)"
  by pat_completeness auto
termination
proof (relation "measure (\<lambda>(w, f, skip). card (set (map ts_id (wf_tasks w)) - set skip))")
  fix w f skip nxt
  assume nxt: "nxt = skip_pass w f (wf_tasks w) skip" and ne: "nxt \<noteq> skip"
  obtain more where more: "nxt = skip @ more" "set more \<subseteq> set (map ts_id (wf_tasks w)) - set skip"
    using skip_pass_extends [of w f "wf_tasks w" skip] nxt by blast
  with ne obtain x where "x \<in> set more" by (cases more) auto
  with more have "set (map ts_id (wf_tasks w)) - set nxt \<subset> set (map ts_id (wf_tasks w)) - set skip"
    by auto
  then have "card (set (map ts_id (wf_tasks w)) - set nxt) < card (set (map ts_id (wf_tasks w)) - set skip)"
    by (intro psubset_card_mono) auto
  then show "((w, f, nxt), w, f, skip) \<in> measure (\<lambda>(w, f, skip). card (set (map ts_id (wf_tasks w)) - set skip))"
    by simp
qed simp

declare skip_closure.simps [simp del]

lemma skip_pass_pending:
  "i \<in> set (skip_pass w f specs skip) \<Longrightarrow>
     i \<in> set skip \<or> (i \<in> set (map ts_id specs) \<and> map_option wr_status (record_of w i) = Some SPending)"
  by (induction w f specs skip rule: skip_pass.induct) (auto split: if_splits)

lemma skip_closure_pending:
  "i \<in> set (skip_closure w f skip) \<Longrightarrow>
     i \<in> set skip \<or> (i \<in> set (map ts_id (wf_tasks w)) \<and> map_option wr_status (record_of w i) = Some SPending)"
proof (induction w f skip rule: skip_closure.induct)
  case (1 w f skip)
  then show ?case
    by (subst (asm) (2) skip_closure.simps) (auto simp: Let_def split: if_splits dest!: skip_pass_pending)
qed

end
