(* ===== verification/Workflow_Engine.thy ===== *)
theory Workflow_Engine
  imports Workflow_Graph
begin

text \<open>
  \<open>core/workflows/workflow-engine.ts\<close>: scheduling of a task graph on top of the orchestrator.
  The engine carries a snapshot of its workflow, replaced by what each write returns.
  \<open>flow\<close> separates \<open>return workflow\<close> inside a loop from going on with the next iteration.
\<close>

record 's engine =
  eng_orchestrator :: "'s orchestrator"
  eng_permissions :: "PermissionGrant list"
  eng_toolAgents :: "(string \<Rightarrow> string list option) option"

datatype 'a flow = Return 'a | Next 'a

definition emit :: "Workflow \<Rightarrow> string \<Rightarrow> fields \<Rightarrow> ('x workflow_state_scheme, unit) op" where
  "emit w kind data = audit ''workflow_event'' None None (Some (wf_projectId w))
     ((''kind'', JStr kind) # (''workflowId'', JStr (wf_id w)) # data)"

section \<open>Completion and failure\<close>

definition fail_workflow :: "Workflow \<Rightarrow> string \<Rightarrow> ('x workflow_state_scheme, Workflow) op" where
  "fail_workflow w reason = bindS (workflow_transition (wf_id w) WFailed (Some reason) None) (\<lambda>next.
     thenS (emit next ''workflow_failed'' [(''reason'', JStr reason)]) (returnS next))"

definition summary_of :: "WorkflowTaskRecord \<Rightarrow> WorkflowTaskResultSummary" where
  "summary_of r = \<lparr>sum_specId = wr_specId r, sum_status = wr_status r, sum_agentId = wr_assignedAgentId r,
     sum_output = wr_output r, sum_error = wr_error r\<rparr>"

definition result_of :: "Workflow \<Rightarrow> WorkflowStatus \<Rightarrow> string \<Rightarrow> timestamp \<Rightarrow> WorkflowResult" where
  "result_of w st text at = \<lparr>res_workflowId = wf_id w, res_status = st, res_summary = text,
     res_taskResults = map summary_of (taskRecords w), res_completedAt = at, res_metadata = []\<rparr>"

definition finalize :: "Workflow \<Rightarrow> ('x workflow_state_scheme, Workflow) op" where
  "finalize w =
     (let completed = length (filter (\<lambda>r. wr_status r = SCompleted) (taskRecords w));
          failed = length (filter (\<lambda>r. wr_status r \<in> {SFailed, SBlocked, SSkipped}) (taskRecords w));
          total = length (wf_tasks w)
      in if completed = total then
           bindS now (\<lambda>at.
           bindS (setResult (wf_id w) (result_of w WCompleted
             (show_nat completed @ ''/'' @ show_nat total @ '' tasks completed successfully.'') at)) (\<lambda>w.
           bindS (workflow_transition (wf_id w) WCompleted None None) (\<lambda>next.
           thenS (emit next ''workflow_completed'' [(''completedTasks'', JNum (int completed))])
             (returnS next))))
         else if failed > 0 then
           bindS now (\<lambda>at.
           bindS (setResult (wf_id w) (result_of w WFailed
             (show_nat completed @ ''/'' @ show_nat total @ '' completed; '' @ show_nat failed
                @ '' failed or blocked.'') at)) (\<lambda>w.
           fail_workflow w (show_nat failed @ '' task(s) failed or were blocked'')))
         else fail_workflow w ''no tasks completed'')"

fun skip_each :: "Workflow \<Rightarrow> string list \<Rightarrow> ('x workflow_state_scheme, Workflow) op" where
  "skip_each w [] = returnS w"
| "skip_each w (specId # rest) =
     bindS (updateTaskRecord (wf_id w) specId (empty_patch\<lparr>rp_status := Some SSkipped,
        rp_error := Some ''blocked: an upstream dependency did not complete''\<rparr>)) (\<lambda>w.
     thenS (emit w ''task_blocked'' [(''specId'', JStr specId), (''reason'', JStr ''upstream_failure'')])
       (skip_each w rest))"

definition propagateSkip :: "Workflow \<Rightarrow> string \<Rightarrow> ('x workflow_state_scheme, Workflow) op" where
  "propagateSkip w failedSpecId = skip_each w (skip_closure w failedSpecId [])"

section \<open>Handoffs between consecutive tasks\<close>

text \<open>The dependency's record, unless the loop of \<open>ensureHandoffs\<close> continues without a handoff.\<close>

definition handoff_source :: "Workflow \<Rightarrow> WorkflowTaskSpec \<Rightarrow> string \<Rightarrow> string \<Rightarrow> (string \<times> string) option" where
  "handoff_source w spec dst depId = (case record_of w depId of None \<Rightarrow> None
     | Some r \<Rightarrow>
         if wr_status r \<noteq> SCompleted \<or> \<not> truthy (wr_taskId r) \<or> \<not> truthy (wr_assignedAgentId r)
            \<or> wr_assignedAgentId r = Some dst \<or> length (ts_acceptanceCriteria spec) = 0
         then None
         else Some (or_else (wr_taskId r) [], or_else (wr_assignedAgentId r) []))"

definition handoff_draft ::
  "Workflow \<Rightarrow> WorkflowTaskSpec \<Rightarrow> string \<Rightarrow> string \<Rightarrow> WorkflowTaskSpec \<Rightarrow> string \<Rightarrow> string \<Rightarrow> HandoffDraft" where
  "handoff_draft w spec dst depId depSpec taskId src =
     \<lparr>hd_taskId = taskId, hd_projectId = None, hd_sourceAgentId = src, hd_destinationAgentId = dst,
      hd_context = Some [(''workflowId'', JStr (wf_id w)), (''fromSpecId'', JStr depId),
                         (''toSpecId'', JStr (ts_id spec))],
      hd_completedWork = ts_description depSpec @ '' (spec '' @ quoted depId @ '')'',
      hd_remainingWork = ts_description spec, hd_acceptanceCriteria = ts_acceptanceCriteria spec,
      hd_artifacts = Some [taskId], hd_risks = None, hd_requiredCapabilities = None,
      hd_sourceAssignmentId = None\<rparr>"

definition hand_over ::
  "Workflow \<Rightarrow> WorkflowTaskSpec \<Rightarrow> string \<Rightarrow> string \<Rightarrow> WorkflowTaskSpec \<Rightarrow> string \<Rightarrow> string \<Rightarrow>
   ('x workflow_state_scheme, Workflow) op" where
  "hand_over w spec dst depId depSpec taskId src =
     bindS (handoff_propose (handoff_draft w spec dst depId depSpec taskId src)) (\<lambda>proposed.
     bindS (handoff_accept (handoff_id proposed)) (\<lambda>accepted.
     thenS (emit w ''handoff_created'' [(''handoffId'', JStr (handoff_id accepted)),
        (''fromSpecId'', JStr depId), (''toSpecId'', JStr (ts_id spec)), (''sourceAgentId'', JStr src),
        (''destinationAgentId'', JStr dst)])
     (thenS (emit w ''handoff_accepted'' [(''handoffId'', JStr (handoff_id accepted)),
        (''specId'', JStr (ts_id spec))])
     (bindS (updateTaskRecord (wf_id w) (ts_id spec)
        (empty_patch\<lparr>rp_handoffId := Some (handoff_id accepted)\<rparr>)) (\<lambda>w.
      incrementCounter (wf_id w) KHandoffs 1)))))"

fun ensureHandoffs ::
  "Workflow \<Rightarrow> WorkflowTaskSpec \<Rightarrow> string \<Rightarrow> string list \<Rightarrow> ('x workflow_state_scheme, Workflow) op" where
  "ensureHandoffs w spec dst [] = returnS w"
| "ensureHandoffs w spec dst (depId # rest) = (case handoff_source w spec dst depId of
     None \<Rightarrow> ensureHandoffs w spec dst rest
   | Some (taskId, src) \<Rightarrow> bindS (handoff_forTask taskId) (\<lambda>hs.
       if list_ex (\<lambda>h. destinationAgentId h = dst \<and> sourceAgentId h = src) hs
       then ensureHandoffs w spec dst rest
       else case js_find (\<lambda>t. ts_id t = depId) (wf_tasks w) of
         None \<Rightarrow> throwS (ForeignError ''Cannot read properties of undefined (reading description)'')
       | Some depSpec \<Rightarrow>
           bindS (hand_over w spec dst depId depSpec taskId src) (\<lambda>w. ensureHandoffs w spec dst rest)))"

section \<open>One task\<close>

definition last_error :: "Task \<Rightarrow> string" where
  "last_error t = (if task_errors t = [] then ''task ended in status '' @ task_status_str (task_status t)
     else last (task_errors t))"

definition outcome_parked :: "Workflow \<Rightarrow> string \<Rightarrow> Task \<Rightarrow> ('x workflow_state_scheme, Workflow) op" where
  "outcome_parked w specId task =
     bindS (updateTaskRecord (wf_id w) specId (empty_patch\<lparr>rp_status := Some SAwaitingApproval,
        rp_taskId := Some (Some (task_id task)), rp_assignedAgentId := Some (assignedAgentId task)\<rparr>)) (\<lambda>w.
     thenS (emit w ''approval_requested'' [(''specId'', JStr specId), (''taskId'', JStr (task_id task))])
     (returnS w))"

definition outcome_completed ::
  "Workflow \<Rightarrow> WorkflowTaskSpec option \<Rightarrow> string \<Rightarrow> Task \<Rightarrow> ('x workflow_state_scheme, Workflow) op" where
  "outcome_completed w spec specId task =
     bindS (updateTaskRecord (wf_id w) specId (empty_patch\<lparr>rp_status := Some SCompleted,
        rp_taskId := Some (Some (task_id task)), rp_assignedAgentId := Some (assignedAgentId task),
        rp_output := Some (task_output task)\<rparr>)) (\<lambda>w.
     thenS (emit w ''task_completed'' [(''specId'', JStr specId), (''taskId'', JStr (task_id task))])
     (if map_option ts_type spec = Some ''qa''
      then let verdict = obj_field (task_output task) ''verdict'' in
        thenS (emit w (if verdict = JStr ''pass'' then ''qa_passed'' else ''qa_failed'')
          [(''specId'', JStr specId), (''verdict'', verdict)]) (returnS w)
      else returnS w))"

definition outcome_retry ::
  "Workflow \<Rightarrow> string \<Rightarrow> Task \<Rightarrow> int \<Rightarrow> ('x workflow_state_scheme, Workflow) op" where
  "outcome_retry w specId task attempt =
     bindS (updateTaskRecord (wf_id w) specId (empty_patch\<lparr>rp_status := Some SPending,
        rp_taskId := Some (Some (task_id task)), rp_retryCount := Some attempt,
        rp_error := Some (last_error task)\<rparr>)) (\<lambda>w.
     bindS (incrementCounter (wf_id w) KRetries 1) (\<lambda>w.
     thenS (emit w ''retry_requested'' [(''specId'', JStr specId), (''attempt'', JNum attempt),
        (''reason'', jstr_opt (extractFailureReason (last_error task)))])
     (returnS w)))"

definition outcome_failed :: "Workflow \<Rightarrow> string \<Rightarrow> Task \<Rightarrow> ('x workflow_state_scheme, Workflow) op" where
  "outcome_failed w specId task =
     bindS (updateTaskRecord (wf_id w) specId (empty_patch\<lparr>rp_status := Some SFailed,
        rp_taskId := Some (Some (task_id task)), rp_assignedAgentId := Some (assignedAgentId task),
        rp_error := Some (last_error task)\<rparr>)) (\<lambda>w.
     thenS (emit w ''task_failed'' [(''specId'', JStr specId), (''taskId'', JStr (task_id task)),
        (''reason'', jstr_opt (extractFailureReason (last_error task))), (''message'', JStr (last_error task))])
     (bindS (propagateSkip w specId) (\<lambda>w.
      if failureBehavior w = Abort
      then fail_workflow w (''task '' @ quoted specId @ '' failed: '' @ last_error task)
      else returnS w)))"

text \<open>
  Every spec has a record; without one the source's \<open>record.retryCount\<close> throws a
  \<open>TypeError\<close>.
\<close>

definition applyTaskOutcome :: "Workflow \<Rightarrow> string \<Rightarrow> Task \<Rightarrow> ('x workflow_state_scheme, Workflow) op" where
  "applyTaskOutcome w specId task =
     (if task_status task = TAwaitingApproval then outcome_parked w specId task
      else if task_status task = TCompleted
      then outcome_completed w (js_find (\<lambda>t. ts_id t = specId) (wf_tasks w)) specId task
      else case record_of w specId of
        None \<Rightarrow> throwS (ForeignError ''Cannot read properties of undefined (reading retryCount)'')
      | Some r \<Rightarrow>
          if shouldRetry (retryPolicy w) (extractFailureReason (last_error task)) (wr_retryCount r)
          then outcome_retry w specId task (wr_retryCount r + 1)
          else outcome_failed w specId task)"

definition task_draft :: "Workflow \<Rightarrow> WorkflowTaskSpec \<Rightarrow> TaskDraft" where
  "task_draft w spec =
     \<lparr>td_type = ts_type spec, td_description = ts_description spec, td_projectId = wf_projectId w,
      td_input = ts_input spec, td_priority = ts_priority spec,
      td_requiredPermissions = Some (ts_requiredPermissions spec),
      td_metadata = Some [(''workflowId'', JStr (wf_id w)), (''specId'', JStr (ts_id spec))],
      td_programId = None, td_workstreamId = None, td_objective = None, td_requirements = None,
      td_dependencies = None, td_requiredCapabilities = None, td_environmentRequirements = None,
      td_modelRequirements = None, td_completionCriteria = None, td_riskClass = None,
      td_executionContext = None\<rparr>"

definition account :: "Workflow \<Rightarrow> Task \<Rightarrow> ('x workflow_state_scheme, Workflow) op" where
  "account w task =
     bindS (incrementCounter (wf_id w) KAgentExecutions 1) (\<lambda>w.
     bindS (incrementCounter (wf_id w) KTasksCreated 1) (\<lambda>w.
     incrementCounter (wf_id w) KToolCalls (extractToolCallCount (task_output task))))"

definition engine_dispatch ::
  "'x workflow_state_ext registry_state_scheme engine \<Rightarrow> Workflow \<Rightarrow> WorkflowTaskSpec \<Rightarrow> string \<Rightarrow>
   ('x workflow_state_scheme, Workflow) op" where
  "engine_dispatch eng w spec agentId = bindS (ensureHandoffs w spec agentId (ts_dependsOn spec)) (\<lambda>w.
     if handoffCount (counters w) > maxHandoffs (limits w)
     then fail_workflow w ''limit_exceeded: maxHandoffs''
     else thenS (emit w ''task_created'' [(''specId'', JStr (ts_id spec)), (''agentId'', JStr agentId)])
       (bindS (submit (eng_orchestrator eng) (task_draft w spec) None) (\<lambda>task.
        bindS (account w task) (\<lambda>w.
        thenS (emit w ''task_started'' [(''specId'', JStr (ts_id spec)), (''agentId'', JStr agentId),
                 (''taskId'', JStr (task_id task))])
        (if toolCalls (counters w) > maxToolCalls (limits w)
         then fail_workflow w ''limit_exceeded: maxToolCalls''
         else applyTaskOutcome w (ts_id spec) task)))))"

section \<open>Scheduling\<close>

definition block_spec :: "Workflow \<Rightarrow> WorkflowTaskSpec \<Rightarrow> string \<Rightarrow> ('x workflow_state_scheme, Workflow flow) op" where
  "block_spec w spec reason =
     bindS (updateTaskRecord (wf_id w) (ts_id spec)
        (empty_patch\<lparr>rp_status := Some SBlocked, rp_error := Some reason\<rparr>)) (\<lambda>w.
     thenS (emit w ''task_blocked'' [(''specId'', JStr (ts_id spec)), (''reason'', JStr reason)])
     (bindS (propagateSkip w (ts_id spec)) (\<lambda>w.
      if failureBehavior w = Abort
      then bindS (fail_workflow w (''assignment invalid for '' @ quoted (ts_id spec) @ '': '' @ reason))
             (\<lambda>w. returnS (Return w))
      else returnS (Next w))))"

text \<open>The body of the loop over the ready specs.\<close>

definition process_spec ::
  "'x workflow_state_ext registry_state_scheme engine \<Rightarrow> Workflow \<Rightarrow> WorkflowTaskSpec \<Rightarrow>
   ('x workflow_state_scheme, Workflow flow) op" where
  "process_spec eng w spec =
     (if agentExecutions (counters w) \<ge> maxAgentExecutions (limits w)
      then bindS (fail_workflow w ''limit_exceeded: maxAgentExecutions'') (\<lambda>w. returnS (Return w))
      else bindS (getsS (assignAgent (localeCompare (eng_orchestrator eng)) (eng_permissions eng)
             (eng_toolAgents eng) spec w)) (\<lambda>assignment.
        thenS (emit w ''agent_assigned'' [(''specId'', JStr (ts_id spec)),
           (''agentId'', jstr_opt (as_agentId assignment)), (''validated'', JBool (as_validated assignment)),
           (''reason'', JStr (as_reason assignment))])
        (if \<not> as_validated assignment then block_spec w spec (as_reason assignment)
         else bindS (engine_dispatch eng w spec (or_else (as_agentId assignment) [])) (\<lambda>w.
           returnS (if wf_status w \<noteq> WRunning then Return w else Next w)))))"

fun process_ready ::
  "'x workflow_state_ext registry_state_scheme engine \<Rightarrow> Workflow \<Rightarrow> WorkflowTaskSpec list \<Rightarrow>
   ('x workflow_state_scheme, Workflow flow) op" where
  "process_ready eng w [] = returnS (Next w)"
| "process_ready eng w (spec # specs) = bindS (process_spec eng w spec) (\<lambda>f. case f of
     Return w \<Rightarrow> returnS (Return w)
   | Next w \<Rightarrow> process_ready eng w specs)"

definition nothing_ready :: "Workflow \<Rightarrow> ('x workflow_state_scheme, Workflow) op" where
  "nothing_ready w =
     (if \<not> hasActionableWork w then finalize w
      else if list_ex (\<lambda>r. wr_status r = SAwaitingApproval) (taskRecords w)
      then workflow_transition (wf_id w) WAwaitingApproval None None
      else finalize w)"

text \<open>The passes of \<open>schedule\<close> that are left, counted down from \<open>maxPasses\<close>.\<close>

fun passes ::
  "'x workflow_state_ext registry_state_scheme engine \<Rightarrow> timestamp \<Rightarrow> nat \<Rightarrow> Workflow \<Rightarrow>
   ('x workflow_state_scheme, Workflow) op" where
  "passes eng startedAt 0 w = fail_workflow w ''internal_error: scheduling did not converge''"
| "passes eng startedAt (Suc n) w = bindS now (\<lambda>at.
     if at - startedAt > maxDurationMs (limits w) then fail_workflow w ''limit_exceeded: maxDurationMs''
     else if length (computeReadySpecs w) = 0 then nothing_ready w
     else bindS (process_ready eng w (computeReadySpecs w)) (\<lambda>f. case f of
         Return w \<Rightarrow> returnS w
       | Next w \<Rightarrow> passes eng startedAt n w))"

definition maxPasses :: "Workflow \<Rightarrow> nat" where
  "maxPasses w = nat (int (length (wf_tasks w)) * (maxRetries (retryPolicy w) + 1) + 5)"

definition schedule ::
  "'x workflow_state_ext registry_state_scheme engine \<Rightarrow> Workflow \<Rightarrow> timestamp \<Rightarrow>
   ('x workflow_state_scheme, Workflow) op" where
  "schedule eng w startedAt = passes eng startedAt (maxPasses w) w"

section \<open>Entry points\<close>

definition engine_run ::
  "'x workflow_state_ext registry_state_scheme engine \<Rightarrow> string \<Rightarrow> ('x workflow_state_scheme, Workflow) op" where
  "engine_run eng workflowId =
     bindS (workflow_require workflowId) (\<lambda>w.
     bindS (if wf_status w = WCreated then workflow_transition (wf_id w) WPlanned None None
            else returnS w) (\<lambda>w.
     bindS (if wf_status w = WPlanned
            then bindS (workflow_transition (wf_id w) WRunning None None) (\<lambda>w.
                   thenS (emit w ''workflow_started'' []) (returnS w))
            else returnS w) (\<lambda>w.
     if wf_status w \<noteq> WRunning
     then throwS (StateTransitionError (''workflow '' @ workflowId @ '' is not runnable from status ''
            @ workflow_status_str (wf_status w)))
     else bindS now (\<lambda>at. schedule eng w at))))"

definition engine_submit ::
  "'x workflow_state_ext registry_state_scheme engine \<Rightarrow> WorkflowDraft \<Rightarrow> ('x workflow_state_scheme, Workflow) op" where
  "engine_submit eng d = bindS (workflow_create d) (\<lambda>w.
     thenS (emit w ''workflow_created'' [])
     (thenS (emit w ''workflow_validated'' [(''taskCount'', JNum (int (length (wf_tasks w))))])
     (engine_run eng (wf_id w))))"

fun resume_parked ::
  "'x workflow_state_ext registry_state_scheme engine \<Rightarrow> Workflow \<Rightarrow> WorkflowTaskRecord list \<Rightarrow>
   ('x workflow_state_scheme, Workflow flow) op" where
  "resume_parked eng w [] = returnS (Next w)"
| "resume_parked eng w (r # rs) =
     (if \<not> truthy (wr_taskId r) then resume_parked eng w rs
      else bindS (resume (eng_orchestrator eng) (or_else (wr_taskId r) []) None) (\<lambda>task.
        bindS (applyTaskOutcome w (wr_specId r) task) (\<lambda>w.
        if wf_status w \<noteq> WRunning then returnS (Return w) else resume_parked eng w rs)))"

definition engine_resume ::
  "'x workflow_state_ext registry_state_scheme engine \<Rightarrow> string \<Rightarrow> ('x workflow_state_scheme, Workflow) op" where
  "engine_resume eng workflowId = bindS (workflow_require workflowId) (\<lambda>w.
     if wf_status w \<noteq> WAwaitingApproval
     then throwS (StateTransitionError (''workflow '' @ workflowId @ '' is not awaiting approval (status: ''
            @ workflow_status_str (wf_status w) @ '')''))
     else let parked = filter (\<lambda>r. wr_status r = SAwaitingApproval) (taskRecords w) in
       bindS (workflow_transition (wf_id w) WRunning None None) (\<lambda>w.
       bindS (resume_parked eng w parked) (\<lambda>f. case f of
         Return w \<Rightarrow> returnS w
       | Next w \<Rightarrow> bindS now (\<lambda>at. schedule eng w at))))"

end
