(* ===== verification/Workflow_Machine.thy ===== *)
theory Workflow_Machine
  imports Workflow_Engine
begin

text \<open>
  The abstract workflow machine the engine implements. \<open>wf_step I\<close> is one admissible change of a
  workflow that settles specs in \<open>I\<close> only: a task runs after its dependencies have completed, is
  retried within the policy, and is skipped only below a failure. \<open>wf_inv\<close> is what every
  reachable workflow satisfies; \<open>budget\<close> is the work that is left.
\<close>

section \<open>Records\<close>

definition status_of :: "Workflow \<Rightarrow> string \<Rightarrow> WorkflowTaskStatus option" where
  "status_of w i = map_option wr_status (record_of w i)"

lemma find_update_first:
  assumes "\<And>x. k (f x) = k x"
  shows "js_find (\<lambda>r. k r = j) (update_first (\<lambda>r. k r = i) f xs) =
    (if j = i then map_option f (js_find (\<lambda>r. k r = i) xs) else js_find (\<lambda>r. k r = j) xs)"
  by (induction xs) (auto simp: assms)

lemma patch_record_specId [simp]: "wr_specId (patch_record p at r) = wr_specId r"
  by (simp add: patch_record_def)

lemma record_of_put:
  "record_of (put_record i p at w) j =
     (if j = i then map_option (patch_record p at) (record_of w i) else record_of w j)"
  by (simp add: record_of_def put_record_def find_update_first)

lemma map_specId_update_first [simp]:
  "map wr_specId (update_first q (patch_record p at) rs) = map wr_specId rs"
  by (induction rs) auto

lemma status_of_put:
  "status_of (put_record i p at w) j =
     (if j = i then map_option (\<lambda>s. or_else (rp_status p) s) (status_of w i) else status_of w j)"
  by (cases "record_of w i") (auto simp: status_of_def record_of_put patch_record_def)

lemma put_record_simps [simp]:
  "wf_id (put_record i p at w) = wf_id w" "wf_tasks (put_record i p at w) = wf_tasks w"
  "wf_status (put_record i p at w) = wf_status w" "limits (put_record i p at w) = limits w"
  "retryPolicy (put_record i p at w) = retryPolicy w" "counters (put_record i p at w) = counters w"
  "failureBehavior (put_record i p at w) = failureBehavior w"
  by (simp_all add: put_record_def)

lemma put_record_ids [simp]: "map wr_specId (taskRecords (put_record i p at w)) = map wr_specId (taskRecords w)"
  by (simp add: put_record_def)

lemma move_workflow_simps [simp]:
  "wf_id (move_workflow to err md at w) = wf_id w" "wf_tasks (move_workflow to err md at w) = wf_tasks w"
  "wf_status (move_workflow to err md at w) = to" "limits (move_workflow to err md at w) = limits w"
  "retryPolicy (move_workflow to err md at w) = retryPolicy w"
  "counters (move_workflow to err md at w) = counters w"
  "taskRecords (move_workflow to err md at w) = taskRecords w"
  "failureBehavior (move_workflow to err md at w) = failureBehavior w"
  by (simp_all add: move_workflow_def)

lemma record_of_same: "taskRecords w' = taskRecords w \<Longrightarrow> record_of w' = record_of w"
  by (rule ext) (simp add: record_of_def)

lemma status_of_same: "taskRecords w' = taskRecords w \<Longrightarrow> status_of w' = status_of w"
  by (rule ext) (simp add: status_of_def record_of_def)

section \<open>Steps\<close>

definition deps_done :: "Workflow \<Rightarrow> WorkflowTaskSpec \<Rightarrow> bool" where
  "deps_done w spec \<longleftrightarrow> list_all (\<lambda>dep. status_of w dep = Some SCompleted) (ts_dependsOn spec)"

definition startable :: "Workflow \<Rightarrow> WorkflowTaskSpec \<Rightarrow> bool" where
  "startable w spec \<longleftrightarrow> spec \<in> set (wf_tasks w) \<and> wf_status w = WRunning \<and>
     status_of w (ts_id spec) \<in> {Some SPending, Some SAwaitingApproval} \<and> deps_done w spec"

definition broken :: "Workflow \<Rightarrow> string \<Rightarrow> bool" where
  "broken w i \<longleftrightarrow> status_of w i \<in> {Some SFailed, Some SBlocked, Some SSkipped}"

inductive wf_step :: "string set \<Rightarrow> Workflow \<Rightarrow> Workflow \<Rightarrow> bool" for I where
  move: "to \<in> set (WORKFLOW_TRANSITIONS (wf_status w)) \<Longrightarrow>
     (to = WCompleted \<Longrightarrow> \<forall>spec \<in> set (wf_tasks w). status_of w (ts_id spec) = Some SCompleted) \<Longrightarrow>
     wf_step I w (move_workflow to err md at w)"
| execute: "wf_status w = WRunning \<Longrightarrow> agentExecutions (counters w) < maxAgentExecutions (limits w) \<Longrightarrow>
     wf_step I w (w\<lparr>counters := add_counter KAgentExecutions 1 (counters w), wf_updatedAt := at\<rparr>)"
| count: "k \<noteq> KAgentExecutions \<Longrightarrow>
     wf_step I w (w\<lparr>counters := add_counter k n (counters w), wf_updatedAt := at\<rparr>)"
| report: "wf_step I w (w\<lparr>wf_result := Some res, wf_updatedAt := at\<rparr>)"
| handoff: "wf_step I w (put_record i (empty_patch\<lparr>rp_handoffId := Some h\<rparr>) at w)"
| settle: "startable w spec \<Longrightarrow> ts_id spec \<in> I \<Longrightarrow> rp_retryCount p = None \<Longrightarrow>
     rp_status p \<in> {Some SAwaitingApproval, Some SCompleted, Some SFailed, Some SBlocked} \<Longrightarrow>
     wf_step I w (put_record (ts_id spec) p at w)"
| retry: "startable w spec \<Longrightarrow> ts_id spec \<in> I \<Longrightarrow> record_of w (ts_id spec) = Some r \<Longrightarrow>
     wr_retryCount r < maxRetries (retryPolicy w) \<Longrightarrow> rp_status p = Some SPending \<Longrightarrow>
     rp_retryCount p = Some (wr_retryCount r + 1) \<Longrightarrow>
     wf_step I w (put_record (ts_id spec) p at w)"
| skip: "spec \<in> set (wf_tasks w) \<Longrightarrow> status_of w (ts_id spec) = Some SPending \<Longrightarrow>
     dep \<in> set (ts_dependsOn spec) \<Longrightarrow> broken w dep \<Longrightarrow> rp_status p = Some SSkipped \<Longrightarrow>
     rp_retryCount p = None \<Longrightarrow> rp_taskId p = None \<Longrightarrow>
     wf_step I w (put_record (ts_id spec) p at w)"

abbreviation wf_steps :: "string set \<Rightarrow> Workflow \<Rightarrow> Workflow \<Rightarrow> bool" where
  "wf_steps I \<equiv> (wf_step I)\<^sup>*\<^sup>*"

lemma wf_step_mono: "wf_step I w w' \<Longrightarrow> I \<subseteq> J \<Longrightarrow> wf_step J w w'"
proof (induction rule: wf_step.induct)
  case (execute w at)
  then show ?case by (intro wf_step.execute)
next
  case (count k w at n)
  then show ?case by (intro wf_step.count)
qed (auto intro: wf_step.intros)

lemma wf_steps_mono: "wf_steps I w w' \<Longrightarrow> I \<subseteq> J \<Longrightarrow> wf_steps J w w'"
  by (induction rule: rtranclp_induct) (auto intro: wf_step_mono rtranclp.rtrancl_into_rtrancl)

text \<open>What a workflow never changes.\<close>

definition wf_frozen :: "Workflow \<Rightarrow> string \<times> WorkflowTaskSpec list \<times> WorkflowLimits \<times> RetryPolicy \<times> WorkflowFailureBehavior" where
  "wf_frozen w = (wf_id w, wf_tasks w, limits w, retryPolicy w, failureBehavior w)"

lemma wf_step_frozen: "wf_step I w w' \<Longrightarrow> wf_frozen w' = wf_frozen w"
  by (induction rule: wf_step.induct) (simp_all add: wf_frozen_def)

lemma wf_steps_frozen: "wf_steps I w w' \<Longrightarrow> wf_frozen w' = wf_frozen w"
  by (induction rule: rtranclp_induct) (simp_all add: wf_step_frozen)

lemma wf_steps_same:
  assumes "wf_steps I w w'"
  shows "wf_id w' = wf_id w" "wf_tasks w' = wf_tasks w" "limits w' = limits w"
    "retryPolicy w' = retryPolicy w" "failureBehavior w' = failureBehavior w"
  using wf_steps_frozen [OF assms] by (simp_all add: wf_frozen_def)

lemma wf_step_status:
  "wf_step I w w' \<Longrightarrow> wf_status w' = wf_status w \<or> wf_status w' \<in> set (WORKFLOW_TRANSITIONS (wf_status w))"
  by (induction rule: wf_step.induct) simp_all

text \<open>Specs outside \<open>I\<close> keep their record's status, unless they are skipped, and their retries.\<close>

definition retry_of :: "Workflow \<Rightarrow> string \<Rightarrow> int option" where
  "retry_of w i = map_option wr_retryCount (record_of w i)"

lemma retry_of_put:
  "retry_of (put_record i p at w) j =
     (if j = i then map_option (\<lambda>n. or_else (rp_retryCount p) n) (retry_of w i) else retry_of w j)"
  by (cases "record_of w i") (auto simp: retry_of_def record_of_put patch_record_def)

lemma wf_step_elsewhere:
  "wf_step I w w' \<Longrightarrow> j \<notin> I \<Longrightarrow>
     (status_of w' j = status_of w j \<or> status_of w j = Some SPending \<and> status_of w' j = Some SSkipped) \<and>
     retry_of w' j = retry_of w j"
proof (induction rule: wf_step.induct)
  case (skip spec w dep p at)
  then show ?case by (cases "retry_of w (ts_id spec)") (auto simp: status_of_put retry_of_put)
next
  case (handoff w i h at)
  then show ?case
    by (cases "retry_of w i"; cases "status_of w i") (auto simp: status_of_put retry_of_put empty_patch_def)
next
  case (settle w spec p at)
  then show ?case by (auto simp: status_of_put retry_of_put)
next
  case (retry w spec r p at)
  then show ?case by (auto simp: status_of_put retry_of_put)
qed (simp_all add: status_of_def retry_of_def record_of_def)

lemma wf_steps_elsewhere:
  "wf_steps I w w' \<Longrightarrow> j \<notin> I \<Longrightarrow>
     (status_of w' j = status_of w j \<or> status_of w j = Some SPending \<and> status_of w' j = Some SSkipped) \<and>
     retry_of w' j = retry_of w j"
  by (induction rule: rtranclp_induct) (use wf_step_elsewhere in fastforce)+

text \<open>Completed, failed, blocked and skipped records are final.\<close>

lemma wf_step_final:
  "wf_step I w w' \<Longrightarrow> status_of w j = Some st \<Longrightarrow> st \<in> {SCompleted, SFailed, SBlocked, SSkipped} \<Longrightarrow>
   status_of w' j = Some st"
proof (induction rule: wf_step.induct)
  case (handoff w i h at)
  then show ?case by (auto simp: status_of_put empty_patch_def)
next
  case (settle w spec p at)
  then show ?case by (auto simp: status_of_put startable_def)
next
  case (retry w spec r p at)
  then show ?case by (auto simp: status_of_put startable_def)
next
  case (skip spec w dep p at)
  then show ?case by (auto simp: status_of_put)
qed (simp_all add: status_of_def record_of_def)

lemma wf_steps_final:
  "wf_steps I w w' \<Longrightarrow> status_of w j = Some st \<Longrightarrow> st \<in> {SCompleted, SFailed, SBlocked, SSkipped} \<Longrightarrow>
   status_of w' j = Some st"
  by (induction rule: rtranclp_induct) (auto intro: wf_step_final)

lemma deps_done_mono: "wf_step I w w' \<Longrightarrow> deps_done w spec \<Longrightarrow> deps_done w' spec"
  by (auto simp: deps_done_def list_all_iff intro: wf_step_final)

lemma broken_mono: "wf_step I w w' \<Longrightarrow> broken w i \<Longrightarrow> broken w' i"
  unfolding broken_def by (auto dest: wf_step_final)

lemma broken_steps: "wf_steps I w w' \<Longrightarrow> broken w i \<Longrightarrow> broken w' i"
  by (induction rule: rtranclp_induct) (auto intro: broken_mono)

section \<open>The invariant\<close>

definition has_task :: "Workflow \<Rightarrow> string \<Rightarrow> bool" where
  "has_task w i \<longleftrightarrow> Option.bind (record_of w i) wr_taskId \<noteq> None"

definition attempted :: "Workflow \<Rightarrow> string \<Rightarrow> bool" where
  "attempted w i \<longleftrightarrow> has_task w i \<or>
     status_of w i \<in> {Some SAwaitingApproval, Some SCompleted, Some SFailed, Some SBlocked}"

definition records_match :: "Workflow \<Rightarrow> bool" where
  "records_match w \<longleftrightarrow> map wr_specId (taskRecords w) = map ts_id (wf_tasks w) \<and> distinct (map ts_id (wf_tasks w))"

definition wf_inv :: "Workflow \<Rightarrow> bool" where
  "wf_inv w \<longleftrightarrow> records_match w \<and>
     (\<forall>spec \<in> set (wf_tasks w). attempted w (ts_id spec) \<longrightarrow> deps_done w spec) \<and>
     (\<forall>spec \<in> set (wf_tasks w). status_of w (ts_id spec) = Some SSkipped \<longrightarrow>
        list_ex (broken w) (ts_dependsOn spec)) \<and>
     (\<forall>spec \<in> set (wf_tasks w). \<forall>n. retry_of w (ts_id spec) = Some n \<longrightarrow>
        0 \<le> n \<and> n \<le> max 0 (maxRetries (retryPolicy w))) \<and>
     agentExecutions (counters w) \<le> max 0 (maxAgentExecutions (limits w)) \<and>
     (wf_status w = WCompleted \<longrightarrow> (\<forall>spec \<in> set (wf_tasks w). status_of w (ts_id spec) = Some SCompleted))"

lemma wf_invD:
  assumes "wf_inv w"
  shows "records_match w" "spec \<in> set (wf_tasks w) \<Longrightarrow> attempted w (ts_id spec) \<Longrightarrow> deps_done w spec"
    "spec \<in> set (wf_tasks w) \<Longrightarrow> status_of w (ts_id spec) = Some SSkipped \<Longrightarrow> list_ex (broken w) (ts_dependsOn spec)"
    "spec \<in> set (wf_tasks w) \<Longrightarrow> retry_of w (ts_id spec) = Some n \<Longrightarrow> 0 \<le> n \<and> n \<le> max 0 (maxRetries (retryPolicy w))"
    "agentExecutions (counters w) \<le> max 0 (maxAgentExecutions (limits w))"
    "wf_status w = WCompleted \<Longrightarrow> spec \<in> set (wf_tasks w) \<Longrightarrow> status_of w (ts_id spec) = Some SCompleted"
  using assms by (auto simp: wf_inv_def)

lemma spec_unique:
  "records_match w \<Longrightarrow> spec \<in> set (wf_tasks w) \<Longrightarrow> spec' \<in> set (wf_tasks w) \<Longrightarrow> ts_id spec = ts_id spec' \<Longrightarrow> spec = spec'"
  by (auto simp: records_match_def distinct_map dest: inj_onD)

lemma record_exists:
  assumes "records_match w" "spec \<in> set (wf_tasks w)"
  obtains r where "record_of w (ts_id spec) = Some r" "r \<in> set (taskRecords w)" "wr_specId r = ts_id spec"
proof -
  have "ts_id spec \<in> set (map wr_specId (taskRecords w))"
    using assms by (simp add: records_match_def)
  then obtain r where "record_of w (ts_id spec) = Some r"
    by (cases "record_of w (ts_id spec)") (auto simp: record_of_def js_find_None)
  then show thesis by (intro that) (auto simp: record_of_def dest: js_find_Some)
qed

lemma record_of_member:
  assumes "records_match w" "r \<in> set (taskRecords w)"
  shows "record_of w (wr_specId r) = Some r"
  using assms unfolding record_of_def records_match_def by (intro js_find_unique) simp_all

lemma member_spec:
  assumes "records_match w" "r \<in> set (taskRecords w)"
  obtains spec where "spec \<in> set (wf_tasks w)" "ts_id spec = wr_specId r"
proof -
  have "wr_specId r \<in> set (map wr_specId (taskRecords w))" using assms(2) by simp
  then have "wr_specId r \<in> ts_id ` set (wf_tasks w)" using assms(1) unfolding records_match_def by (metis list.set_map)
  then show thesis using that by (metis imageE)
qed

text \<open>Steps that leave every record's status, retries and task alone.\<close>

definition same_records :: "Workflow \<Rightarrow> Workflow \<Rightarrow> bool" where
  "same_records w w' \<longleftrightarrow> wf_frozen w' = wf_frozen w \<and>
     map wr_specId (taskRecords w') = map wr_specId (taskRecords w) \<and> status_of w' = status_of w \<and>
     retry_of w' = retry_of w \<and> has_task w' = has_task w"

lemma same_records_inv:
  assumes "same_records w w'" "wf_inv w"
    and "agentExecutions (counters w') \<le> max 0 (maxAgentExecutions (limits w))"
    and "wf_status w' = WCompleted \<Longrightarrow> \<forall>spec \<in> set (wf_tasks w). status_of w (ts_id spec) = Some SCompleted"
  shows "wf_inv w'"
proof -
  have [simp]: "wf_tasks w' = wf_tasks w" "limits w' = limits w" "retryPolicy w' = retryPolicy w"
    "status_of w' = status_of w" "retry_of w' = retry_of w" "has_task w' = has_task w"
    "map wr_specId (taskRecords w') = map wr_specId (taskRecords w)"
    using assms(1) by (auto simp: same_records_def wf_frozen_def)
  have "records_match w' = records_match w" "deps_done w' = deps_done w" "broken w' = broken w"
    "attempted w' = attempted w"
    by (simp_all add: fun_eq_iff records_match_def deps_done_def broken_def attempted_def)
  with assms(2-4) show ?thesis unfolding wf_inv_def by simp
qed

lemma same_records_eq:
  "taskRecords w' = taskRecords w \<Longrightarrow> wf_frozen w' = wf_frozen w \<Longrightarrow> same_records w w'"
  by (simp add: same_records_def fun_eq_iff status_of_def retry_of_def has_task_def record_of_def)

lemma has_task_put:
  "has_task (put_record i p at w) j =
     (if j = i then record_of w i \<noteq> None \<and> (case rp_taskId p of None \<Rightarrow> has_task w i | Some v \<Rightarrow> v \<noteq> None)
      else has_task w j)"
  by (cases "record_of w i") (auto simp: has_task_def record_of_put patch_record_def split: option.split)

text \<open>A write to one record: the obligations are about that record only.\<close>

lemma put_record_inv:
  assumes inv: "wf_inv w" and step: "wf_step I w (put_record (ts_id spec) p at w)"
    and spec: "spec \<in> set (wf_tasks w)"
    and deps: "attempted (put_record (ts_id spec) p at w) (ts_id spec) \<Longrightarrow> deps_done w spec"
    and skip: "status_of (put_record (ts_id spec) p at w) (ts_id spec) = Some SSkipped \<Longrightarrow>
        list_ex (broken w) (ts_dependsOn spec)"
    and retries: "\<And>n. rp_retryCount p = Some n \<Longrightarrow> 0 \<le> n \<and> n \<le> max 0 (maxRetries (retryPolicy w))"
    and running: "wf_status w \<noteq> WCompleted"
  shows "wf_inv (put_record (ts_id spec) p at w)"
proof -
  let ?w = "put_record (ts_id spec) p at w"
  have match: "records_match w" using inv by (rule wf_invD)
  then have match': "records_match ?w" by (simp add: records_match_def)
  have elsewhere: "attempted ?w j = attempted w j" "status_of ?w j = status_of w j" "retry_of ?w j = retry_of w j"
    if "j \<noteq> ts_id spec" for j
    using that by (simp_all add: attempted_def has_task_put status_of_put retry_of_put)
  have d: "deps_done ?w s" if "s \<in> set (wf_tasks w)" "attempted ?w (ts_id s)" for s
  proof -
    have "deps_done w s"
      using that elsewhere [of "ts_id s"] deps spec_unique [OF match that(1) spec] wf_invD(2) [OF inv that(1)]
      by (cases "ts_id s = ts_id spec") auto
    then show ?thesis by (rule deps_done_mono [OF step])
  qed
  have s: "list_ex (broken ?w) (ts_dependsOn s)" if "s \<in> set (wf_tasks w)" "status_of ?w (ts_id s) = Some SSkipped" for s
  proof -
    have "list_ex (broken w) (ts_dependsOn s)"
      using that elsewhere [of "ts_id s"] skip spec_unique [OF match that(1) spec] wf_invD(3) [OF inv that(1)]
      by (cases "ts_id s = ts_id spec") auto
    then show ?thesis using broken_mono [OF step] by (auto simp: list_ex_iff)
  qed
  have r: "0 \<le> n \<and> n \<le> max 0 (maxRetries (retryPolicy w))"
    if "s \<in> set (wf_tasks w)" "retry_of ?w (ts_id s) = Some n" for s n
    using that wf_invD(4) [OF inv that(1)] retries
    by (cases "rp_retryCount p") (auto simp: retry_of_put split: if_splits)
  show ?thesis
    using match' d s r wf_invD(5) [OF inv] running unfolding wf_inv_def by simp
qed

lemma wf_step_inv: "wf_step I w w' \<Longrightarrow> wf_inv w \<Longrightarrow> wf_inv w'"
proof (induction rule: wf_step.induct)
  case (move to w err md at)
  have "same_records w (move_workflow to err md at w)" by (rule same_records_eq) (simp_all add: wf_frozen_def)
  then show ?case
    using move.prems by (rule same_records_inv) (use wf_invD(5) [OF move.prems] move.hyps in simp_all)
next
  case (execute w at)
  have "same_records w (w\<lparr>counters := add_counter KAgentExecutions 1 (counters w), wf_updatedAt := at\<rparr>)"
    by (rule same_records_eq) (simp_all add: wf_frozen_def)
  then show ?case
    using execute.prems by (rule same_records_inv) (use execute.hyps in simp_all)
next
  case (count k w at n)
  let ?w = "w\<lparr>counters := add_counter k n (counters w), wf_updatedAt := at\<rparr>"
  have "same_records w ?w" by (rule same_records_eq) (simp_all add: wf_frozen_def)
  then show ?case
  proof (rule same_records_inv [OF _ count.prems])
    show "agentExecutions (counters ?w) \<le> max 0 (maxAgentExecutions (limits w))"
      using wf_invD(5) [OF count.prems] count.hyps by (cases k) simp_all
    show "\<forall>spec \<in> set (wf_tasks w). status_of w (ts_id spec) = Some SCompleted" if "wf_status ?w = WCompleted"
      using that wf_invD(6) [OF count.prems] by simp
  qed
next
  case (report w at res)
  let ?w = "w\<lparr>wf_result := Some res, wf_updatedAt := at\<rparr>"
  have "same_records w ?w" by (rule same_records_eq) (simp_all add: wf_frozen_def)
  then show ?case
  proof (rule same_records_inv [OF _ report.prems])
    show "agentExecutions (counters ?w) \<le> max 0 (maxAgentExecutions (limits w))"
      using wf_invD(5) [OF report.prems] by simp
    show "\<forall>spec \<in> set (wf_tasks w). status_of w (ts_id spec) = Some SCompleted" if "wf_status ?w = WCompleted"
      using that wf_invD(6) [OF report.prems] by simp
  qed
next
  case (handoff w i h at)
  let ?p = "empty_patch\<lparr>rp_handoffId := Some h\<rparr>"
  have keys: "rp_status ?p = None" "rp_retryCount ?p = None" "rp_taskId ?p = None" by (simp_all add: empty_patch_def)
  have "status_of (put_record i ?p at w) j = status_of w j" "retry_of (put_record i ?p at w) j = retry_of w j" for j
    unfolding status_of_put retry_of_put keys by (cases "status_of w i"; cases "retry_of w i"; simp)+
  moreover have "has_task (put_record i ?p at w) j = has_task w j" for j
    unfolding has_task_put keys by (cases "record_of w i") (simp_all add: has_task_def)
  ultimately have "same_records w (put_record i ?p at w)"
    unfolding same_records_def by (simp add: fun_eq_iff wf_frozen_def)
  then show ?case
    by (rule same_records_inv [OF _ handoff.prems])
      (use wf_invD(5) [OF handoff.prems] wf_invD(6) [OF handoff.prems] in simp_all)
next
  case (settle w spec p at)
  show ?case
    by (rule put_record_inv [OF settle.prems wf_step.settle [OF settle.hyps]])
      (use settle.hyps in \<open>auto simp: startable_def status_of_put\<close>)
next
  case (retry w spec r p at)
  have "0 \<le> wr_retryCount r"
    using wf_invD(4) [OF retry.prems, of spec "wr_retryCount r"] retry.hyps
    by (simp add: retry_of_def startable_def)
  then show ?case
    by (intro put_record_inv [OF retry.prems wf_step.retry [OF retry.hyps]])
      (use retry.hyps in \<open>auto simp: startable_def status_of_put\<close>)
next
  case (skip spec w dep p at)
  then have "wf_status w \<noteq> WCompleted" using wf_invD(6) [OF skip.prems, of spec] by auto
  moreover have "attempted w (ts_id spec)" if "attempted (put_record (ts_id spec) p at w) (ts_id spec)"
    using that skip.hyps by (auto simp: attempted_def status_of_put has_task_put)
  ultimately show ?case
    using wf_invD(2) [OF skip.prems skip.hyps(1)] skip.hyps
    by (intro put_record_inv [OF skip.prems wf_step.skip [OF skip.hyps]])
      (auto simp: list_ex_iff)
qed

lemma wf_steps_inv: "wf_steps I w w' \<Longrightarrow> wf_inv w \<Longrightarrow> wf_inv w'"
  by (induction rule: rtranclp_induct) (auto intro: wf_step_inv)

lemma new_workflow_inv:
  assumes "validateWorkflowDraft d = Inr ()"
  shows "wf_inv (new_workflow d i at)"
proof -
  have ids: "distinct (map tsd_id (wd_tasks d))" using assms by (rule validateWorkflowDraft_graph)
  have specs: "map ts_id (map spec_of (wd_tasks d)) = map tsd_id (wd_tasks d)"
    by (simp add: spec_of_def)
  have rec: "record_of (new_workflow d i at) j \<in> {None, Some (initialTaskRecord j at)}" for j
    using js_find_Some [of "\<lambda>r. wr_specId r = j" "taskRecords (new_workflow d i at)"]
    by (cases "record_of (new_workflow d i at) j")
      (auto simp: record_of_def new_workflow_def initialTaskRecord_def)
  have st: "status_of (new_workflow d i at) j \<in> {None, Some SPending}" for j
    using rec [of j] by (auto simp: status_of_def initialTaskRecord_def)
  have "\<not> attempted (new_workflow d i at) j" for j
    using rec [of j] by (auto simp: attempted_def has_task_def status_of_def initialTaskRecord_def)
  moreover have "n = 0" if "retry_of (new_workflow d i at) j = Some n" for j n
    using rec [of j] that by (auto simp: retry_of_def initialTaskRecord_def)
  moreover have "records_match (new_workflow d i at)"
    using ids specs by (simp add: records_match_def new_workflow_def initialTaskRecord_def comp_def spec_of_def)
  moreover have "status_of (new_workflow d i at) j \<noteq> Some SSkipped" for j using st [of j] by auto
  moreover have "agentExecutions (counters (new_workflow d i at)) = 0" "wf_status (new_workflow d i at) = WCreated"
    by (simp_all add: new_workflow_def)
  ultimately show ?thesis
    unfolding wf_inv_def by (intro conjI ballI impI allI) fastforce+
qed

section \<open>The work left\<close>

definition load :: "Workflow \<Rightarrow> string \<Rightarrow> nat" where
  "load w i = (if status_of w i = Some SPending
     then 1 + nat (maxRetries (retryPolicy w) - or_else (retry_of w i) 0) else 0)"

definition budget :: "Workflow \<Rightarrow> nat" where
  "budget w = sum_list (map (\<lambda>spec. load w (ts_id spec)) (wf_tasks w))"

lemma sum_list_less:
  "(\<And>x. x \<in> set xs \<Longrightarrow> f x \<le> (g x :: nat)) \<Longrightarrow> y \<in> set xs \<Longrightarrow> f y < g y \<Longrightarrow> sum_list (map f xs) < sum_list (map g xs)"
proof (induction xs)
  case (Cons x xs)
  then show ?case
    using sum_list_mono [of xs f g] by (cases "y \<in> set xs") (fastforce intro: add_less_le_mono add_le_less_mono)+
qed simp

lemma budget_decreases:
  assumes "wf_steps {i} w w'" "spec \<in> set (wf_tasks w)" "ts_id spec = i" "load w' i < load w i"
  shows "budget w' < budget w"
proof -
  have "load w' (ts_id s) \<le> load w (ts_id s)" if "s \<in> set (wf_tasks w)" for s
  proof (cases "ts_id s = i")
    case False
    with wf_steps_elsewhere [OF assms(1), of "ts_id s"] show ?thesis
      by (auto simp: load_def wf_steps_same [OF assms(1)])
  qed (use assms in simp)
  then show ?thesis
    unfolding budget_def wf_steps_same [OF assms(1)] using assms by (intro sum_list_less) auto
qed

lemma budget_bound:
  assumes "wf_inv w" "0 \<le> maxRetries (retryPolicy w)"
  shows "budget w < maxPasses w"
proof -
  have "load w (ts_id s) \<le> 1 + nat (maxRetries (retryPolicy w))" if "s \<in> set (wf_tasks w)" for s
    using wf_invD(4) [OF assms(1) that] by (cases "retry_of w (ts_id s)") (auto simp: load_def)
  then have "budget w \<le> sum_list (map (\<lambda>_. 1 + nat (maxRetries (retryPolicy w))) (wf_tasks w))"
    unfolding budget_def by (intro sum_list_mono) simp
  also have "\<dots> = length (wf_tasks w) * (1 + nat (maxRetries (retryPolicy w)))"
    by (simp add: sum_list_triv)
  also have "\<dots> < maxPasses w"
  proof -
    have "int (length (wf_tasks w) * (1 + nat (maxRetries (retryPolicy w))))
        = int (length (wf_tasks w)) * (maxRetries (retryPolicy w) + 1)"
      using assms(2) by (simp add: algebra_simps)
    then show ?thesis unfolding maxPasses_def by linarith
  qed
  finally show ?thesis .
qed

end
