(* ===== verification/Snapshot.thy ===== *)
theory Snapshot
  imports Repository Shared
begin

text \<open>
  Reasoning about code that carries a copy of a stored entity from write to write, as the
  workflow engine does. \<open>tracks\<close> says of an operation started with a current copy: the store
  holds a successor of the copy under the same id, reached by admissible steps, whatever the
  operation does or throws; no other entity is touched; and a returned value satisfies \<open>Q\<close>
  together with the stored entity. The locale gives the rules for the operations' combinators.
\<close>

definition current :: "('e \<Rightarrow> string) \<Rightarrow> ('s \<Rightarrow> 'e repo) \<Rightarrow> 'e \<Rightarrow> 's \<Rightarrow> bool" where
  "current key store e s \<longleftrightarrow> mem_findById (key e) (store s) = Some e"

definition tracks ::
  "('e \<Rightarrow> string) \<Rightarrow> ('s \<Rightarrow> 'e repo) \<Rightarrow> ('e \<Rightarrow> bool) \<Rightarrow> ('e \<Rightarrow> 'e \<Rightarrow> bool) \<Rightarrow>
   'e \<Rightarrow> ('s, 'a) op \<Rightarrow> ('a \<Rightarrow> 'e \<Rightarrow> bool) \<Rightarrow> bool" where
  "tracks key store good step e m Q \<longleftrightarrow> good e \<longrightarrow> (\<forall>s. current key store e s \<longrightarrow>
     (\<exists>e'. current key store e' (snd (m s)) \<and> key e' = key e \<and> step\<^sup>*\<^sup>* e e' \<and>
        (\<forall>j. j \<noteq> key e \<longrightarrow> mem_findById j (store (snd (m s))) = mem_findById j (store s)) \<and>
        (\<forall>x. fst (m s) = Inr x \<longrightarrow> Q x e')))"

lemma tracksD:
  assumes "tracks key store good step e m Q" "good e" "current key store e s"
  obtains e' where "current key store e' (snd (m s))" "key e' = key e" "step\<^sup>*\<^sup>* e e'"
    "\<And>j. j \<noteq> key e \<Longrightarrow> mem_findById j (store (snd (m s))) = mem_findById j (store s)"
    "\<And>x. fst (m s) = Inr x \<Longrightarrow> Q x e'"
  using assms unfolding tracks_def by blast

locale snapshot =
  fixes key :: "'e \<Rightarrow> string"
    and store :: "'s \<Rightarrow> 'e repo"
    and good :: "'e \<Rightarrow> bool"
    and step :: "'e \<Rightarrow> 'e \<Rightarrow> bool"
  assumes step_key: "step a b \<Longrightarrow> key b = key a"
    and step_good: "step a b \<Longrightarrow> good a \<Longrightarrow> good b"
begin

lemma steps_key: "step\<^sup>*\<^sup>* a b \<Longrightarrow> key b = key a"
  by (induction rule: rtranclp_induct) (simp_all add: step_key)

lemma steps_good: "step\<^sup>*\<^sup>* a b \<Longrightarrow> good a \<Longrightarrow> good b"
  by (induction rule: rtranclp_induct) (simp_all add: step_good)

lemma tracks_return: "Q x e \<Longrightarrow> tracks key store good step e (returnS x) Q"
  by (auto simp: tracks_def)

lemma tracks_throw: "tracks key store good step e (throwS err) Q"
  by (auto simp: tracks_def)

lemma tracks_gets: "(\<And>x. Q x e) \<Longrightarrow> tracks key store good step e (getsS f) Q"
  by (auto simp: tracks_def)

text \<open>An operation that leaves the store alone.\<close>

lemma tracks_frame:
  "keeps (\<lambda>s t. store t = store s) m \<Longrightarrow> (\<And>x. Q x e) \<Longrightarrow> tracks key store good step e m Q"
  by (auto simp: tracks_def keeps_def current_def)

lemma tracks_if:
  "(b \<Longrightarrow> tracks key store good step e m Q) \<Longrightarrow> (\<not> b \<Longrightarrow> tracks key store good step e k Q) \<Longrightarrow>
   tracks key store good step e (if b then m else k) Q"
  by simp

lemma tracks_weaken:
  "tracks key store good step e m Q \<Longrightarrow> (\<And>x e'. Q x e' \<Longrightarrow> step\<^sup>*\<^sup>* e e' \<Longrightarrow> good e' \<Longrightarrow> R x e') \<Longrightarrow>
   tracks key store good step e m R"
  unfolding tracks_def by (meson steps_good)

lemma tracks_good: "(good e \<Longrightarrow> tracks key store good step e m Q) \<Longrightarrow> tracks key store good step e m Q"
  by (auto simp: tracks_def)

lemma tracks_bind:
  assumes m: "tracks key store good step e m Q"
    and f: "\<And>x e'. Q x e' \<Longrightarrow> step\<^sup>*\<^sup>* e e' \<Longrightarrow> good e' \<Longrightarrow> tracks key store good step e' (f x) R"
  shows "tracks key store good step e (bindS m f) R"
  unfolding tracks_def
proof (intro impI allI)
  fix s assume "good e" and cur: "current key store e s"
  obtain e' where e': "current key store e' (snd (m s))" "key e' = key e" "step\<^sup>*\<^sup>* e e'"
    "\<And>j. j \<noteq> key e \<Longrightarrow> mem_findById j (store (snd (m s))) = mem_findById j (store s)"
    "\<And>x. fst (m s) = Inr x \<Longrightarrow> Q x e'"
    by (rule tracksD [OF m \<open>good e\<close> cur]) blast
  show "\<exists>e'. current key store e' (snd (bindS m f s)) \<and> key e' = key e \<and> step\<^sup>*\<^sup>* e e' \<and>
      (\<forall>j. j \<noteq> key e \<longrightarrow> mem_findById j (store (snd (bindS m f s))) = mem_findById j (store s)) \<and>
      (\<forall>x. fst (bindS m f s) = Inr x \<longrightarrow> R x e')"
  proof (cases rule: bindS_cases [of m s f])
    case (throws err t)
    with e' show ?thesis by (intro exI [of _ e']) simp
  next
    case (returns x t)
    have good': "good e'" using e'(3) \<open>good e\<close> by (rule steps_good)
    have "Q x e'" using e'(5) returns(1) by simp
    then have fx: "tracks key store good step e' (f x) R" using e'(3) good' by (rule f)
    have cur': "current key store e' t" using e'(1) returns(1) by simp
    obtain e'' where e'': "current key store e'' (snd (f x t))" "key e'' = key e'" "step\<^sup>*\<^sup>* e' e''"
      "\<And>j. j \<noteq> key e' \<Longrightarrow> mem_findById j (store (snd (f x t))) = mem_findById j (store t)"
      "\<And>y. fst (f x t) = Inr y \<Longrightarrow> R y e''"
      by (rule tracksD [OF fx good' cur']) blast
    have "step\<^sup>*\<^sup>* e e''" using e'(3) e''(3) by (rule rtranclp_trans)
    with e' e'' returns show ?thesis by (intro exI [of _ e'']) simp
  qed
qed

text \<open>An operation that returns the stored entity: the copy is replaced.\<close>

lemma tracks_bind_copy:
  assumes "tracks key store good step e m (\<lambda>x e'. e' = x \<and> P x)"
    and "\<And>x. P x \<Longrightarrow> step\<^sup>*\<^sup>* e x \<Longrightarrow> good x \<Longrightarrow> tracks key store good step x (f x) R"
  shows "tracks key store good step e (bindS m f) R"
  by (rule tracks_bind [OF assms(1)]) (use assms(2) in blast)

lemma tracks_then:
  "keeps (\<lambda>s t. store t = store s) m \<Longrightarrow> tracks key store good step e k Q \<Longrightarrow>
   tracks key store good step e (thenS m k) Q"
  unfolding thenS_def by (rule tracks_bind [OF tracks_frame [of m "\<lambda>_ e'. e' = e"]]) auto

lemma tracks_read:
  "keeps (\<lambda>s t. store t = store s) m \<Longrightarrow> (\<And>x. tracks key store good step e (f x) Q) \<Longrightarrow>
   tracks key store good step e (bindS m f) Q"
  by (rule tracks_bind [OF tracks_frame [of m "\<lambda>_ e'. e' = e"]]) auto

text \<open>An operation that throws before writing, or writes one step.\<close>

lemma tracks_write:
  assumes "\<And>s. good e \<Longrightarrow> current key store e s \<Longrightarrow> (\<exists>err. m s = (Inl err, s)) \<or>
      (\<exists>e' x t. m s = (Inr x, t) \<and> step e e' \<and> store t = mem_upsert key e' (store s) \<and> Q x e')"
  shows "tracks key store good step e m Q"
  unfolding tracks_def
proof (intro impI allI)
  fix s assume good: "good e" and cur: "current key store e s"
  show "\<exists>e'. current key store e' (snd (m s)) \<and> key e' = key e \<and> step\<^sup>*\<^sup>* e e' \<and>
      (\<forall>j. j \<noteq> key e \<longrightarrow> mem_findById j (store (snd (m s))) = mem_findById j (store s)) \<and>
      (\<forall>x. fst (m s) = Inr x \<longrightarrow> Q x e')"
    using assms [OF good cur]
  proof (elim disjE exE conjE)
    fix err assume "m s = (Inl err, s)"
    with cur show ?thesis by (intro exI [of _ e]) simp
  next
    fix e' x t
    assume "m s = (Inr x, t)" "step e e'" "store t = mem_upsert key e' (store s)" "Q x e'"
    then show ?thesis
      using step_key [of e e'] by (intro exI [of _ e']) (auto simp: current_def)
  qed
qed

end

end
