(* ===== verification/Workflow_Frames.thy ===== *)
theory Workflow_Frames
  imports Workflow_Machine Snapshot
begin

text \<open>
  What leaves the workflow store alone: every call of the core, and an orchestrator whose
  executor does. What does not: the writes of the workflow system, each one step of the
  machine on the stored workflow.
\<close>

abbreviation same_workflows :: "'x workflow_state_scheme \<Rightarrow> 'x workflow_state_scheme \<Rightarrow> bool" where
  "same_workflows s t \<equiv> workflows t = workflows s"

interpretation wf_frame: evolution "same_workflows :: 'x workflow_state_scheme \<Rightarrow> 'x workflow_state_scheme \<Rightarrow> bool"
  by unfold_locales simp_all

named_theorems wf_frames

lemma only_core_workflows:
  fixes s t :: "'x workflow_state_scheme"
  shows "only_tasks s t \<Longrightarrow> same_workflows s t" "only_approvals s t \<Longrightarrow> same_workflows s t"
    "only_handoffs s t \<Longrightarrow> same_workflows s t"
  by (auto simp: only_tasks_def only_approvals_def only_handoffs_def)

lemma frame_of_tasks: "keeps only_tasks m \<Longrightarrow> keeps same_workflows m"
  by (simp add: keeps_def only_core_workflows)

lemma frame_of_approvals: "keeps only_approvals m \<Longrightarrow> keeps same_workflows m"
  by (simp add: keeps_def only_core_workflows)

lemma frame_of_handoffs: "keeps only_handoffs m \<Longrightarrow> keeps same_workflows m"
  by (simp add: keeps_def only_core_workflows)

lemma wf_frame_now [wf_frames]: "keeps same_workflows now"
  by (rule frame_of_tasks [OF only_tasks_now])

lemma wf_frame_tasks [wf_frames]:
  "keeps same_workflows (task_transition i to p)" "keeps same_workflows (task_create task_newId d)"
  "keeps same_workflows (task_assign i a)" "keeps same_workflows (task_complete i v)"
  "keeps same_workflows (task_fail i m)"
  unfolding task_assign_def task_complete_def task_fail_def
  by (rule frame_of_tasks, rule only_tasks_transition only_tasks_create)+

lemma wf_frame_approvals [wf_frames]:
  "keeps same_workflows (approval_request d)" "keeps same_workflows (expireStale asOf)"
  "keeps same_workflows (approval_require i)"
  by (rule frame_of_approvals, rule only_approvals_ops only_approvals_expireStale only_approvals_require)+

lemma wf_frame_handoffs [wf_frames]:
  "keeps same_workflows (handoff_propose d)" "keeps same_workflows (handoff_accept i)"
  by (rule frame_of_handoffs, rule only_handoffs_ops)+

lemma wf_frame_audit [wf_frames]: "keeps same_workflows (audit ty t a p d)"
  by (rule keepsI) (simp add: audit_def record_event_def op_simps Let_def)

lemma wf_frame_reads [wf_frames]:
  "keeps same_workflows (task_require i)" "keeps same_workflows (registry_require i)"
  "keeps same_workflows (handoff_forTask i)"
  by (rule keepsI; simp add: task_require_def registry_require_def handoff_forTask_def split: option.split)+

lemma wf_frame_emit [wf_frames]: "keeps same_workflows (emit w k d)"
  unfolding emit_def by (rule wf_frames)

lemma wf_frame_audit_task [wf_frames]: "keeps same_workflows (audit_task ty t a d)"
  unfolding audit_task_def by (rule wf_frames)

lemma wf_frame_enforce_each: "keeps same_workflows (enforce_each cfg grants task agent rs)"
proof (induction rs)
  case Nil
  show ?case unfolding enforce_each.simps by (rule wf_frame.keeps_returnS)
next
  case (Cons r rs)
  then show ?case
    unfolding enforce_each.simps Let_def by (intro wf_frame.keeps_intros wf_frame_audit_task)
qed

lemma wf_frame_enforcePermissions [wf_frames]: "keeps same_workflows (enforcePermissions cfg task agent)"
  unfolding enforcePermissions_def by (intro wf_frame.keeps_intros wf_frame_enforce_each)

definition leaves_workflows :: "'x workflow_state_ext registry_state_scheme engine \<Rightarrow> bool" where
  "leaves_workflows eng \<longleftrightarrow> (\<forall>a t g c. keeps same_workflows (executor (eng_orchestrator eng) a t g c))"

lemma wf_frame_dispatch:
  assumes "leaves_workflows eng"
  shows "keeps same_workflows (dispatch (eng_orchestrator eng) task agent ctx)"
proof -
  have "keeps same_workflows (executor (eng_orchestrator eng) a t g c)" for a t g c
    using assms by (simp add: leaves_workflows_def)
  then show ?thesis
    unfolding dispatch_def dispatch_run_def by (intro wf_frame.keeps_intros wf_frames)
qed

lemma wf_frame_submit:
  assumes "leaves_workflows eng"
  shows "keeps same_workflows (submit (eng_orchestrator eng) d ctx)"
  unfolding submit_def assign_and_run_def block_unassigned_def run_assigned_def failTask_def
    park_for_approval_def Let_def
  by (intro wf_frame.keeps_intros wf_frames wf_frame_dispatch assms)

lemma wf_frame_resume:
  assumes "leaves_workflows eng"
  shows "keeps same_workflows (resume (eng_orchestrator eng) i asOf)"
  unfolding resume_def resume_approved_def resume_decided_def Let_def
  by (intro wf_frame.keeps_intros wf_frames wf_frame_dispatch assms)

section \<open>The writes\<close>

interpretation snap: snapshot wf_id "workflows :: 'x workflow_state_scheme \<Rightarrow> Workflow repo" wf_inv "wf_step I" for I
proof
  fix a b
  show "wf_step I a b \<Longrightarrow> wf_id b = wf_id a" by (drule wf_step_frozen) (simp add: wf_frozen_def)
  show "wf_step I a b \<Longrightarrow> wf_inv a \<Longrightarrow> wf_inv b" by (rule wf_step_inv)
qed

abbreviation wtracks ::
  "string set \<Rightarrow> Workflow \<Rightarrow> ('x workflow_state_scheme, 'a) op \<Rightarrow> ('a \<Rightarrow> Workflow \<Rightarrow> bool) \<Rightarrow> bool" where
  "wtracks I \<equiv> tracks wf_id workflows wf_inv (wf_step I)"

abbreviation holds_copy :: "Workflow \<Rightarrow> 'x workflow_state_scheme \<Rightarrow> bool" where
  "holds_copy \<equiv> current wf_id workflows"

lemma require_current: "holds_copy w s \<Longrightarrow> workflow_require (wf_id w) s = (Inr w, s)"
  by (simp add: current_def workflow_require_def)

lemma track_move:
  assumes "to = WCompleted \<Longrightarrow> \<forall>spec \<in> set (wf_tasks w). status_of w (ts_id spec) = Some SCompleted"
  shows "wtracks I w (workflow_transition (wf_id w) to err md)
    (\<lambda>x w'. w' = x \<and> (\<exists>at. x = move_workflow to err md at w))"
proof (rule snap.tracks_write)
  fix s :: "'x workflow_state_scheme"
  assume cur: "holds_copy w s"
  let ?w = "move_workflow to err md (time_at s (ticks s)) w"
  show "(\<exists>err'. workflow_transition (wf_id w) to err md s = (Inl err', s)) \<or>
    (\<exists>e' x t. workflow_transition (wf_id w) to err md s = (Inr x, t) \<and> wf_step I w e' \<and>
       workflows t = mem_upsert wf_id e' (workflows s) \<and> e' = x \<and> (\<exists>at. x = move_workflow to err md at w))"
  proof (cases "workflow_canTransition (wf_status w) to")
    case True
    then have "wf_step I w ?w"
      using assms by (intro wf_step.move) (simp_all add: workflow_canTransition_def)
    moreover have "workflow_transition (wf_id w) to err md s =
        (Inr ?w, s\<lparr>ticks := Suc (ticks s), workflows := mem_upsert wf_id ?w (workflows s)\<rparr>)"
      using True require_current [OF cur]
      by (simp add: workflow_transition_def upsert_workflow_def now_def op_simps Let_def)
    ultimately show ?thesis by (intro disjI2 exI conjI) (assumption | simp)+
  next
    case False
    then show ?thesis using require_current [OF cur] by (simp add: workflow_transition_def op_simps)
  qed
qed

lemma track_record:
  assumes "\<And>at. wf_step I w (put_record i p at w)"
  shows "wtracks I w (updateTaskRecord (wf_id w) i p) (\<lambda>x w'. w' = x \<and> (\<exists>at. x = put_record i p at w))"
proof (rule snap.tracks_write)
  fix s :: "'x workflow_state_scheme"
  assume cur: "holds_copy w s"
  let ?w = "put_record i p (time_at s (ticks s)) w"
  show "(\<exists>err'. updateTaskRecord (wf_id w) i p s = (Inl err', s)) \<or>
    (\<exists>e' x t. updateTaskRecord (wf_id w) i p s = (Inr x, t) \<and> wf_step I w e' \<and>
       workflows t = mem_upsert wf_id e' (workflows s) \<and> e' = x \<and> (\<exists>at. x = put_record i p at w))"
  proof (cases "js_find (\<lambda>r. wr_specId r = i) (taskRecords w) = None")
    case True
    then show ?thesis using require_current [OF cur] by (simp add: updateTaskRecord_def op_simps)
  next
    case False
    then have "updateTaskRecord (wf_id w) i p s =
        (Inr ?w, s\<lparr>ticks := Suc (ticks s), workflows := mem_upsert wf_id ?w (workflows s)\<rparr>)"
      using require_current [OF cur]
      by (simp add: updateTaskRecord_def upsert_workflow_def now_def op_simps Let_def)
    then show ?thesis using assms by (intro disjI2 exI conjI) (assumption | simp)+
  qed
qed

lemma track_counter:
  assumes "k = KAgentExecutions \<Longrightarrow> wf_status w = WRunning \<and> n = 1 \<and>
      agentExecutions (counters w) < maxAgentExecutions (limits w)"
  shows "wtracks I w (incrementCounter (wf_id w) k n)
    (\<lambda>x w'. w' = x \<and> (\<exists>at. x = w\<lparr>counters := add_counter k n (counters w), wf_updatedAt := at\<rparr>))"
proof (rule snap.tracks_write, rule disjI2)
  fix s :: "'x workflow_state_scheme"
  assume cur: "holds_copy w s"
  let ?w = "w\<lparr>counters := add_counter k n (counters w), wf_updatedAt := time_at s (ticks s)\<rparr>"
  have "wf_step I w ?w"
    using assms by (cases "k = KAgentExecutions") (auto intro: wf_step.execute wf_step.count simp del: add_counter.simps)
  moreover have "incrementCounter (wf_id w) k n s =
      (Inr ?w, s\<lparr>ticks := Suc (ticks s), workflows := mem_upsert wf_id ?w (workflows s)\<rparr>)"
    using require_current [OF cur]
    by (simp add: incrementCounter_def upsert_workflow_def now_def op_simps Let_def)
  ultimately show "\<exists>e' x t. incrementCounter (wf_id w) k n s = (Inr x, t) \<and> wf_step I w e' \<and>
      workflows t = mem_upsert wf_id e' (workflows s) \<and> e' = x \<and>
      (\<exists>at. x = w\<lparr>counters := add_counter k n (counters w), wf_updatedAt := at\<rparr>)"
    by (intro exI conjI) (assumption | simp)+
qed

lemma track_result:
  "wtracks I w (setResult (wf_id w) res) (\<lambda>x w'. w' = x \<and> (\<exists>at. x = w\<lparr>wf_result := Some res, wf_updatedAt := at\<rparr>))"
proof (rule snap.tracks_write, rule disjI2)
  fix s :: "'x workflow_state_scheme"
  assume cur: "holds_copy w s"
  let ?w = "w\<lparr>wf_result := Some res, wf_updatedAt := time_at s (ticks s)\<rparr>"
  have "setResult (wf_id w) res s =
      (Inr ?w, s\<lparr>ticks := Suc (ticks s), workflows := mem_upsert wf_id ?w (workflows s)\<rparr>)"
    using require_current [OF cur]
    by (simp add: setResult_def upsert_workflow_def now_def op_simps Let_def)
  then show "\<exists>e' x t. setResult (wf_id w) res s = (Inr x, t) \<and> wf_step I w e' \<and>
      workflows t = mem_upsert wf_id e' (workflows s) \<and> e' = x \<and>
      (\<exists>at. x = w\<lparr>wf_result := Some res, wf_updatedAt := at\<rparr>)"
    using wf_step.report by (intro exI conjI) (assumption | simp)+
qed

end
