(* ===== verification/Workflow_Runs.thy ===== *)
theory Workflow_Runs
  imports Workflow_Frames
begin

text \<open>
  The engine implements the workflow machine: every operation of the engine, started with a
  current copy of a workflow that satisfies the invariant, changes the stored workflow by steps
  of the machine only, returns the stored workflow, and leaves every other workflow alone.
\<close>

section \<open>Ends\<close>

lemma track_fail: "wtracks I w (fail_workflow w reason) (\<lambda>x w'. w' = x \<and> wf_status x = WFailed)"
  unfolding fail_workflow_def
  by (rule snap.tracks_bind_copy, rule track_move, simp, rule snap.tracks_then, rule wf_frame_emit,
      rule snap.tracks_return) auto

lemma count_all: "length (filter P xs) = length xs \<Longrightarrow> x \<in> set xs \<Longrightarrow> P x"
  by (metis filter_id_conv length_filter_less less_irrefl)

lemma all_completed:
  assumes "records_match w"
    and "length (filter (\<lambda>r. wr_status r = SCompleted) (taskRecords w)) = length (wf_tasks w)"
  shows "\<forall>spec \<in> set (wf_tasks w). status_of w (ts_id spec) = Some SCompleted"
proof
  fix spec assume spec: "spec \<in> set (wf_tasks w)"
  have "length (taskRecords w) = length (wf_tasks w)"
    using assms(1) unfolding records_match_def by (metis length_map)
  with assms(2) have all: "wr_status r = SCompleted" if "r \<in> set (taskRecords w)" for r
    using count_all [OF _ that] by metis
  obtain r where "record_of w (ts_id spec) = Some r" "r \<in> set (taskRecords w)"
    using assms(1) spec by (rule record_exists)
  with all show "status_of w (ts_id spec) = Some SCompleted" by (simp add: status_of_def)
qed

definition ended :: "Workflow \<Rightarrow> bool" where
  "ended w \<longleftrightarrow> wf_status w \<in> {WCompleted, WFailed, WAwaitingApproval}"

lemma track_finalize: "wtracks I w (finalize w) (\<lambda>x w'. w' = x \<and> wf_status x \<in> {WCompleted, WFailed})"
proof (rule snap.tracks_good)
  assume inv: "wf_inv w"
  let ?n = "length (filter (\<lambda>r. wr_status r = SCompleted) (taskRecords w))"
  have fail: "wtracks I v (fail_workflow v reason) (\<lambda>x w'. w' = x \<and> wf_status x \<in> {WCompleted, WFailed})" for v reason
    by (rule snap.tracks_weaken [OF track_fail]) simp
  have done_case: "wtracks I v (bindS (workflow_transition (wf_id v) WCompleted None None) (\<lambda>n.
      thenS (emit n k d) (returnS n))) (\<lambda>x w'. w' = x \<and> wf_status x \<in> {WCompleted, WFailed})"
    if "?n = length (wf_tasks w)" and v: "\<exists>at. v = w\<lparr>wf_result := Some r, wf_updatedAt := at\<rparr>" for v k d r
  proof -
    have "\<forall>spec \<in> set (wf_tasks w). status_of w (ts_id spec) = Some SCompleted"
      using inv that(1) by (intro all_completed wf_invD)
    moreover have "status_of v = status_of w" "wf_tasks v = wf_tasks w"
      using v by (auto intro!: status_of_same)
    ultimately have "\<forall>spec \<in> set (wf_tasks v). status_of v (ts_id spec) = Some SCompleted" by simp
    then show ?thesis
      by (intro snap.tracks_bind_copy [OF track_move] snap.tracks_then wf_frames snap.tracks_return) auto
  qed
  show "wtracks I w (finalize w) (\<lambda>x w'. w' = x \<and> wf_status x \<in> {WCompleted, WFailed})"
    unfolding finalize_def Let_def
  proof (rule snap.tracks_if, rule snap.tracks_read [OF wf_frame_now], rule snap.tracks_bind_copy [OF track_result],
      erule (1) done_case, rule snap.tracks_if)
    show "wtracks I w (bindS now (\<lambda>at. bindS (setResult (wf_id w) (res at)) (\<lambda>w. fail_workflow w reason)))
      (\<lambda>x w'. w' = x \<and> wf_status x \<in> {WCompleted, WFailed})" for res reason
      by (rule snap.tracks_read [OF wf_frame_now], rule snap.tracks_bind_copy [OF track_result]) (rule fail)
  qed (rule fail)
qed

section \<open>Skipping\<close>

text \<open>A list of pending specs, each below a broken dependency or an earlier spec of the list.\<close>

fun below :: "Workflow \<Rightarrow> string set \<Rightarrow> string list \<Rightarrow> bool" where
  "below w B [] = True"
| "below w B (x # xs) = (status_of w x = Some SPending \<and> x \<notin> B \<and>
     (\<exists>spec \<in> set (wf_tasks w). ts_id spec = x \<and> (\<exists>dep \<in> set (ts_dependsOn spec). dep \<in> B)) \<and>
     below w (insert x B) xs)"

lemma below_append:
  "below w B (xs @ [x]) \<longleftrightarrow> below w B xs \<and> status_of w x = Some SPending \<and> x \<notin> B \<union> set xs \<and>
     (\<exists>spec \<in> set (wf_tasks w). ts_id spec = x \<and> (\<exists>dep \<in> set (ts_dependsOn spec). dep \<in> B \<union> set xs))"
  by (induction xs arbitrary: B) auto

lemma skip_pass_below:
  assumes "set specs \<subseteq> set (wf_tasks w)" "below w {f} skip" "status_of w f \<noteq> Some SPending"
  shows "below w {f} (skip_pass w f specs skip)"
  using assms
proof (induction specs arbitrary: skip)
  case (Cons spec specs)
  have step: "below w {f} (skip @ [ts_id spec])"
    if "list_ex (\<lambda>dep. dep = f \<or> dep \<in> set skip) (ts_dependsOn spec)"
      "status_of w (ts_id spec) = Some SPending" "ts_id spec \<notin> set skip"
    using that Cons.prems by (auto simp: below_append list_ex_iff)
  show ?case
    using Cons.IH [of skip] Cons.IH [of "skip @ [ts_id spec]"] Cons.prems step
    by (auto simp: status_of_def)
qed simp

lemma skip_closure_below:
  "below w {f} skip \<Longrightarrow> status_of w f \<noteq> Some SPending \<Longrightarrow> below w {f} (skip_closure w f skip)"
proof (induction w f skip rule: skip_closure.induct)
  case (1 w f skip)
  have "below w {f} (skip_pass w f (wf_tasks w) skip)"
    using 1(2,3) by (intro skip_pass_below) auto
  then show ?case
    using 1 by (subst skip_closure.simps) (auto simp: Let_def)
qed

lemma below_after:
  assumes "below w B xs" "wf_tasks w' = wf_tasks w"
    and "\<And>y. y \<notin> B \<Longrightarrow> status_of w' y = status_of w y"
  shows "below w' B xs"
  using assms by (induction xs arbitrary: B) auto

lemma track_skip_each:
  assumes "below w B xs" "\<And>b. b \<in> B \<Longrightarrow> broken w b"
  shows "wtracks I w (skip_each w xs :: ('x workflow_state_scheme, Workflow) op)
    (\<lambda>x w'. w' = x \<and> wf_status x = wf_status w)"
  using assms
proof (induction xs arbitrary: w B)
  case Nil
  show ?case unfolding skip_each.simps by (rule snap.tracks_return) simp
next
  case (Cons x xs)
  let ?p = "empty_patch\<lparr>rp_status := Some SSkipped,
        rp_error := Some ''blocked: an upstream dependency did not complete''\<rparr>"
  from Cons.prems obtain spec dep where spec: "spec \<in> set (wf_tasks w)" "ts_id spec = x"
    "dep \<in> set (ts_dependsOn spec)" "dep \<in> B" "status_of w x = Some SPending" by auto
  have step: "wf_step I w (put_record x ?p at w)" for at
    unfolding spec(2) [symmetric]
    by (rule wf_step.skip [OF spec(1) _ spec(3) Cons.prems(2) [OF spec(4)]])
      (use spec in \<open>simp_all add: empty_patch_def\<close>)
  show ?case
    unfolding skip_each.simps
  proof (rule snap.tracks_bind_copy [OF track_record [OF step]], elim exE, rule snap.tracks_then)
    fix y at
    assume y: "y = put_record x ?p at w"
    have "status_of y x = Some SSkipped" using spec(5) by (simp add: y status_of_put empty_patch_def)
    then have "broken y x" by (simp add: broken_def)
    moreover have "broken y b" if "b \<in> B" for b
      using broken_mono [OF step [of at]] Cons.prems(2) [OF that] unfolding y .
    ultimately have broken: "broken y b" if "b \<in> insert x B" for b using that by blast
    have "below y (insert x B) xs"
    proof (rule below_after)
      show "below w (insert x B) xs" using Cons.prems(1) by simp
    qed (simp_all add: y status_of_put)
    then show "wtracks I y (skip_each y xs :: ('x workflow_state_scheme, Workflow) op)
        (\<lambda>x w'. w' = x \<and> wf_status x = wf_status w)"
      by (rule snap.tracks_weaken [OF Cons.IH]) (use broken in \<open>simp_all add: y\<close>)
  qed (rule wf_frame_emit)
qed

lemma track_propagateSkip:
  assumes "broken w f"
  shows "wtracks I w (propagateSkip w f) (\<lambda>x w'. w' = x \<and> wf_status x = wf_status w)"
  unfolding propagateSkip_def
  by (rule track_skip_each [where B = "{f}"], rule skip_closure_below)
    (use assms in \<open>auto simp: broken_def\<close>)

section \<open>One task\<close>

text \<open>Nothing of the scheduling state has changed.\<close>

definition quiet :: "Workflow \<Rightarrow> Workflow \<Rightarrow> bool" where
  "quiet w x \<longleftrightarrow> status_of x = status_of w \<and> retry_of x = retry_of w \<and> wf_status x = wf_status w"

text \<open>The spec has left the pending state, or has used up one of its retries.\<close>

definition advanced :: "Workflow \<Rightarrow> Workflow \<Rightarrow> string \<Rightarrow> bool" where
  "advanced w x i \<longleftrightarrow> status_of x i \<noteq> Some SPending \<or>
     (\<exists>n. retry_of w i = Some n \<and> n < maxRetries (retryPolicy w) \<and> retry_of x i = Some (n + 1))"

lemma quiet_refl [simp]: "quiet w w"
  by (simp add: quiet_def)

lemma quiet_trans: "quiet w x \<Longrightarrow> quiet x y \<Longrightarrow> quiet w y"
  by (simp add: quiet_def)

lemma quiet_handoff: "quiet w (put_record i (empty_patch\<lparr>rp_handoffId := Some h\<rparr>) at w)"
proof -
  let ?p = "empty_patch\<lparr>rp_handoffId := Some h\<rparr>"
  have "status_of (put_record i ?p at w) j = status_of w j" "retry_of (put_record i ?p at w) j = retry_of w j" for j
    unfolding status_of_put retry_of_put
    by (cases "status_of w i"; cases "retry_of w i"; simp add: empty_patch_def)+
  then show ?thesis by (simp add: quiet_def fun_eq_iff)
qed

lemma quiet_same: "taskRecords x = taskRecords w \<Longrightarrow> wf_status x = wf_status w \<Longrightarrow> quiet w x"
  by (simp add: quiet_def fun_eq_iff status_of_def retry_of_def record_of_def)

lemma startable_quiet: "quiet w x \<Longrightarrow> wf_steps I w x \<Longrightarrow> startable w spec \<Longrightarrow> startable x spec"
  by (simp add: startable_def quiet_def deps_done_def wf_steps_same)

lemma advanced_quiet: "quiet w x \<Longrightarrow> wf_steps I w x \<Longrightarrow> advanced x y i \<Longrightarrow> advanced w y i"
  by (simp add: advanced_def quiet_def wf_steps_same)

lemma advanced_quiet_after: "quiet x y \<Longrightarrow> advanced w x i \<Longrightarrow> advanced w y i"
  by (simp add: advanced_def quiet_def)

lemma startable_recorded:
  assumes "startable w spec"
  obtains r where "record_of w (ts_id spec) = Some r"
  using assms by (cases "record_of w (ts_id spec)") (auto simp: startable_def status_of_def)

lemma track_hand_over:
  "wtracks I w (hand_over w spec dst depId depSpec taskId src)
     (\<lambda>x w'. w' = x \<and> quiet w x \<and> agentExecutions (counters x) = agentExecutions (counters w))"
proof -
  have post: "quiet w (v\<lparr>counters := add_counter KHandoffs 1 (counters v), wf_updatedAt := at\<rparr>) \<and>
      agentExecutions (counters (v\<lparr>counters := add_counter KHandoffs 1 (counters v), wf_updatedAt := at\<rparr>))
        = agentExecutions (counters w)"
    if ex: "\<exists>at. v = put_record i (empty_patch\<lparr>rp_handoffId := Some h\<rparr>) at w" for v i h at
  proof -
    obtain at' where v: "v = put_record i (empty_patch\<lparr>rp_handoffId := Some h\<rparr>) at' w" using ex by blast
    have "quiet v (v\<lparr>counters := add_counter KHandoffs 1 (counters v), wf_updatedAt := at\<rparr>)"
      by (rule quiet_same) simp_all
    then have "quiet w (v\<lparr>counters := add_counter KHandoffs 1 (counters v), wf_updatedAt := at\<rparr>)"
      by (rule quiet_trans [OF quiet_handoff [of w i h at', folded v]])
    then show ?thesis by (simp add: v)
  qed
  show ?thesis
    unfolding hand_over_def
    apply (rule snap.tracks_read, rule wf_frames)+
    apply (rule snap.tracks_then, rule wf_frames)+
    apply (rule snap.tracks_bind_copy [OF track_record [OF wf_step.handoff]])
    apply (rule snap.tracks_weaken [OF track_counter], simp)
    apply (elim conjE exE)
    using post by blast
qed

lemma track_ensureHandoffs:
  "wtracks I w (ensureHandoffs w spec dst deps :: ('x workflow_state_scheme, Workflow) op)
     (\<lambda>x w'. w' = x \<and> quiet w x \<and> agentExecutions (counters x) = agentExecutions (counters w))"
proof (induction deps arbitrary: w)
  case Nil
  show ?case unfolding ensureHandoffs.simps by (rule snap.tracks_return) simp
next
  case (Cons depId deps)
  show ?case
  proof (cases "handoff_source w spec dst depId")
    case None
    show ?thesis unfolding ensureHandoffs.simps None option.case by (rule Cons.IH)
  next
    case (Some p)
    obtain taskId src where p: "p = (taskId, src)" by fastforce
    show ?thesis
      unfolding ensureHandoffs.simps Some p option.case prod.case
    proof (rule snap.tracks_read [OF wf_frame_reads(3)], rule snap.tracks_if, rule Cons.IH)
      show "wtracks I w ((case js_find (\<lambda>t. ts_id t = depId) (wf_tasks w) of
          None \<Rightarrow> throwS (ForeignError ''Cannot read properties of undefined (reading description)'')
        | Some depSpec \<Rightarrow> bindS (hand_over w spec dst depId depSpec taskId src)
            (\<lambda>w. ensureHandoffs w spec dst deps)) :: ('x workflow_state_scheme, Workflow) op)
        (\<lambda>x w'. w' = x \<and> quiet w x \<and> agentExecutions (counters x) = agentExecutions (counters w))"
        by (cases "js_find (\<lambda>t. ts_id t = depId) (wf_tasks w)")
          (simp_all only: option.case, rule snap.tracks_throw, rule snap.tracks_bind_copy [OF track_hand_over],
            rule snap.tracks_weaken [OF Cons.IH], auto intro: quiet_trans)
    qed
  qed
qed

lemma track_settle:
  assumes "startable w spec" "ts_id spec \<in> I" "rp_retryCount p = None"
    and "rp_status p = Some st" "st \<in> {SAwaitingApproval, SCompleted, SFailed, SBlocked}"
  shows "wtracks I w (updateTaskRecord (wf_id w) (ts_id spec) p)
    (\<lambda>x w'. w' = x \<and> status_of x (ts_id spec) = Some st \<and> wf_status x = WRunning)"
proof -
  have "wf_step I w (put_record (ts_id spec) p at w)" for at
    by (rule wf_step.settle) (use assms in auto)
  moreover have "status_of (put_record (ts_id spec) p at w) (ts_id spec) = Some st" for at
    using assms(1,4) by (auto simp: status_of_put startable_def)
  moreover have "wf_status w = WRunning" using assms(1) by (simp add: startable_def)
  ultimately show ?thesis
    by (intro snap.tracks_weaken [OF track_record]) auto
qed

abbreviation outcome_post :: "Workflow \<Rightarrow> string \<Rightarrow> Workflow \<Rightarrow> Workflow \<Rightarrow> bool" where
  "outcome_post w i x w' \<equiv> w' = x \<and> wf_status x \<in> {WRunning, WFailed} \<and> advanced w x i"

lemma settled_advanced: "status_of x i = Some st \<Longrightarrow> st \<noteq> SPending \<Longrightarrow> advanced w x i"
  by (simp add: advanced_def)

lemma track_parked:
  assumes "startable w spec" "ts_id spec \<in> I"
  shows "wtracks I w (outcome_parked w (ts_id spec) task) (outcome_post w (ts_id spec))"
  unfolding outcome_parked_def
  by (rule snap.tracks_bind_copy [OF track_settle [OF assms, where st = SAwaitingApproval]])
    (auto simp: empty_patch_def intro!: snap.tracks_then wf_frames snap.tracks_return settled_advanced)

lemma track_completed:
  assumes "startable w spec" "ts_id spec \<in> I"
  shows "wtracks I w (outcome_completed w sp (ts_id spec) task) (outcome_post w (ts_id spec))"
  unfolding outcome_completed_def Let_def
  by (rule snap.tracks_bind_copy [OF track_settle [OF assms, where st = SCompleted]])
    (auto simp: empty_patch_def intro!: snap.tracks_then wf_frames snap.tracks_return settled_advanced)

lemma track_retry:
  assumes "startable w spec" "ts_id spec \<in> I" "record_of w (ts_id spec) = Some r"
    and "wr_retryCount r < maxRetries (retryPolicy w)"
  shows "wtracks I w (outcome_retry w (ts_id spec) task (wr_retryCount r + 1)) (outcome_post w (ts_id spec))"
proof -
  let ?p = "empty_patch\<lparr>rp_status := Some SPending, rp_taskId := Some (Some (task_id task)),
      rp_retryCount := Some (wr_retryCount r + 1), rp_error := Some (last_error task)\<rparr>"
  have step: "wf_step I w (put_record (ts_id spec) ?p at w)" for at
    using assms by (intro wf_step.retry [where r = r]) simp_all
  have run: "wf_status w = WRunning" using assms(1) by (simp add: startable_def)
  have adv: "advanced w (put_record (ts_id spec) ?p at w) (ts_id spec)" for at
    using assms(3,4) by (simp add: advanced_def retry_of_put) (simp add: retry_of_def)
  show ?thesis
    unfolding outcome_retry_def
  proof (rule snap.tracks_bind_copy [OF track_record [OF step]], elim exE)
    fix x at assume x: "x = put_record (ts_id spec) ?p at w"
    have "quiet x (x\<lparr>counters := add_counter KRetries 1 (counters x), wf_updatedAt := at'\<rparr>)" for at'
      by (rule quiet_same) simp_all
    then have "advanced w (x\<lparr>counters := add_counter KRetries 1 (counters x), wf_updatedAt := at'\<rparr>) (ts_id spec)" for at'
      by (rule advanced_quiet_after) (simp only: x adv)
    moreover have "wf_status x = WRunning" by (simp add: x run)
    ultimately show "wtracks I x (bindS (incrementCounter (wf_id x) KRetries 1) (\<lambda>w.
        thenS (emit w ''retry_requested'' [(''specId'', JStr (ts_id spec)),
          (''attempt'', JNum (wr_retryCount r + 1)),
          (''reason'', jstr_opt (extractFailureReason (last_error task)))])
        (returnS w))) (outcome_post w (ts_id spec))"
      by (intro snap.tracks_bind_copy [OF track_counter] snap.tracks_then wf_frames snap.tracks_return) auto
  qed
qed

lemma track_failed:
  assumes "startable w spec" "ts_id spec \<in> I"
  shows "wtracks I w (outcome_failed w (ts_id spec) task) (outcome_post w (ts_id spec))"
  unfolding outcome_failed_def
proof (rule snap.tracks_bind_copy [OF track_settle [OF assms, where st = SFailed]])
  fix x
  let ?post = "outcome_post w (ts_id spec)"
  assume x: "status_of x (ts_id spec) = Some SFailed \<and> wf_status x = WRunning"
  then have broken: "broken x (ts_id spec)" by (simp add: broken_def)
  have adv: "advanced w y (ts_id spec)" if "wf_steps I x y" for y
    using wf_steps_final [OF that, of "ts_id spec" SFailed] x by (simp add: settled_advanced)
  show "wtracks I x (thenS (emit x k d) (bindS (propagateSkip x (ts_id spec)) (\<lambda>w.
      if failureBehavior w = Abort then fail_workflow w m else returnS w))) ?post" for k d m
  proof (rule snap.tracks_then [OF wf_frame_emit],
      rule snap.tracks_bind_copy [OF track_propagateSkip [OF broken]], rule snap.tracks_if)
    fix y assume y: "wf_status y = wf_status x" "wf_steps I x y"
    show "wtracks I y (returnS y) ?post" by (rule snap.tracks_return) (use x y adv in simp)
    show "wtracks I y (fail_workflow y m) ?post"
      by (rule snap.tracks_weaken [OF track_fail]) (use adv rtranclp_trans [OF y(2)] in auto)
  qed
qed (simp_all add: empty_patch_def)

lemma track_outcome:
  assumes "startable w spec" "ts_id spec \<in> I"
  shows "wtracks I w (applyTaskOutcome w (ts_id spec) task) (outcome_post w (ts_id spec))"
proof -
  obtain r where r: "record_of w (ts_id spec) = Some r" using assms(1) by (rule startable_recorded)
  show ?thesis
    unfolding applyTaskOutcome_def r option.case
    by (intro snap.tracks_if track_parked track_completed track_retry track_failed assms r)
      (simp add: shouldRetry_def split: if_splits)
qed

end
