(* ===== verification/Workflow_Schedule.thy ===== *)
theory Workflow_Schedule
  imports Workflow_Runs
begin

text \<open>
  The scheduling loop on top of the machine: every ready spec of a pass advances and the others
  stay ready, so each pass with something to do spends some of the \<open>budget\<close>, and the bound on
  the passes is never what ends a schedule.
\<close>

section \<open>One spec\<close>

lemma track_account:
  assumes "wf_status w = WRunning" "agentExecutions (counters w) < maxAgentExecutions (limits w)"
  shows "wtracks I w (account w task) (\<lambda>x w'. w' = x \<and> quiet w x)"
proof -
  have q: "quiet w (v\<lparr>counters := c, wf_updatedAt := at\<rparr>)" if "quiet w v" for v c at
    by (rule quiet_trans [OF that quiet_same]) simp_all
  show ?thesis
    unfolding account_def
    apply (rule snap.tracks_bind_copy [OF track_counter], use assms in simp)
    apply (rule snap.tracks_bind_copy [OF track_counter], simp)
    apply (rule snap.tracks_weaken [OF track_counter], simp)
    apply (elim conjE exE, intro conjI, assumption, simp only:)
    apply (rule q)+
    apply (rule quiet_refl)
    done
qed

lemma track_dispatch:
  assumes eng: "leaves_workflows eng" and spec: "startable w spec" "ts_id spec \<in> I"
    and room: "agentExecutions (counters w) < maxAgentExecutions (limits w)"
  shows "wtracks I w (engine_dispatch eng w spec agentId)
    (\<lambda>x w'. w' = x \<and> wf_status x \<in> {WRunning, WFailed} \<and>
       (wf_status x = WRunning \<longrightarrow> advanced w x (ts_id spec)))" (is "wtracks I w _ ?post")
proof -
  have fail: "wtracks I v (fail_workflow v m) ?post" for v m
    by (rule snap.tracks_weaken [OF track_fail]) simp
  show ?thesis
    unfolding engine_dispatch_def
  proof (rule snap.tracks_bind_copy [OF track_ensureHandoffs], rule snap.tracks_if, rule fail,
      rule snap.tracks_then [OF wf_frame_emit], rule snap.tracks_read [OF wf_frame_submit [OF eng]])
    fix v task
    assume v: "quiet w v \<and> agentExecutions (counters v) = agentExecutions (counters w)" "wf_steps I w v"
    then have "wf_status v = WRunning" "agentExecutions (counters v) < maxAgentExecutions (limits v)"
      using spec(1) room by (auto simp: quiet_def startable_def wf_steps_same)
    then have acc: "wtracks I v (account v task :: ('a workflow_state_scheme, Workflow) op) (\<lambda>x w'. w' = x \<and> quiet v x)"
      by (rule track_account)
    show "wtracks I v (bindS (account v task) (\<lambda>w. thenS (emit w k (d task))
        (if toolCalls (counters w) > maxToolCalls (limits w) then fail_workflow w m
         else applyTaskOutcome w (ts_id spec) task)) :: ('a workflow_state_scheme, Workflow) op) ?post" for k d m
    proof (rule snap.tracks_bind_copy [OF acc], rule snap.tracks_then [OF wf_frame_emit],
        rule snap.tracks_if, rule fail)
      fix u assume u: "quiet v u" "wf_steps I v u"
      have q: "quiet w u" "wf_steps I w u" using v u by (auto intro: quiet_trans rtranclp_trans)
      then have "startable u spec" using spec(1) by (rule startable_quiet)
      from track_outcome [OF this spec(2)]
      show "wtracks I u (applyTaskOutcome u (ts_id spec) task :: ('a workflow_state_scheme, Workflow) op) ?post"
        by (rule snap.tracks_weaken) (use advanced_quiet [OF q] in blast)
    qed
  qed
qed

text \<open>What one iteration, and one pass, leave behind.\<close>

fun spec_post :: "Workflow \<Rightarrow> string \<Rightarrow> Workflow flow \<Rightarrow> Workflow \<Rightarrow> bool" where
  "spec_post w i (Return x) w' \<longleftrightarrow> w' = x \<and> wf_status x = WFailed"
| "spec_post w i (Next x) w' \<longleftrightarrow> w' = x \<and> wf_status x = WRunning \<and> advanced w x i"

lemma track_return_failed:
  "wtracks I w (bindS (fail_workflow w m) (\<lambda>w. returnS (Return w))) (spec_post v i)"
  by (rule snap.tracks_bind_copy [OF track_fail]) (rule snap.tracks_return, simp)

lemma track_block:
  assumes spec: "startable w spec" "ts_id spec \<in> I"
  shows "wtracks I w (block_spec w spec reason) (spec_post w (ts_id spec))"
  unfolding block_spec_def
proof (rule snap.tracks_bind_copy [OF track_settle [OF spec, where st = SBlocked]])
  fix x assume x: "status_of x (ts_id spec) = Some SBlocked \<and> wf_status x = WRunning"
  then have broken: "broken x (ts_id spec)" by (simp add: broken_def)
  show "wtracks I x (thenS (emit x k d) (bindS (propagateSkip x (ts_id spec)) (\<lambda>w.
      if failureBehavior w = Abort then bindS (fail_workflow w m) (\<lambda>w. returnS (Return w))
      else returnS (Next w)))) (spec_post w (ts_id spec))" for k d m
  proof (rule snap.tracks_then [OF wf_frame_emit],
      rule snap.tracks_bind_copy [OF track_propagateSkip [OF broken]], rule snap.tracks_if,
      rule track_return_failed, rule snap.tracks_return)
    fix y assume y: "wf_status y = wf_status x" "wf_steps I x y"
    with wf_steps_final [OF y(2), of "ts_id spec" SBlocked] x
    show "spec_post w (ts_id spec) (Next y) y" by (simp add: settled_advanced)
  qed
qed (simp_all add: empty_patch_def)

lemma track_process_spec:
  assumes eng: "leaves_workflows eng" and spec: "startable w spec" "ts_id spec \<in> I"
  shows "wtracks I w (process_spec eng w spec) (spec_post w (ts_id spec))"
  unfolding process_spec_def
proof (rule snap.tracks_if, rule track_return_failed, rule snap.tracks_read [OF wf_frame.keeps_getsS],
    rule snap.tracks_then [OF wf_frame_emit], rule snap.tracks_if, rule track_block [OF spec])
  assume "\<not> agentExecutions (counters w) \<ge> maxAgentExecutions (limits w)"
  then have room: "agentExecutions (counters w) < maxAgentExecutions (limits w)" by simp
  show "wtracks I w (bindS (engine_dispatch eng w spec a)
      (\<lambda>w. returnS (if wf_status w \<noteq> WRunning then Return w else Next w))) (spec_post w (ts_id spec))" for a
    by (rule snap.tracks_bind_copy [OF track_dispatch [OF eng spec room]])
      (rule snap.tracks_return, auto)
qed

section \<open>One pass\<close>

definition ready :: "Workflow \<Rightarrow> WorkflowTaskSpec \<Rightarrow> bool" where
  "ready w spec \<longleftrightarrow> startable w spec \<and> status_of w (ts_id spec) = Some SPending"

lemma track_lift:
  "wtracks I w m Q \<Longrightarrow> wtracks UNIV w m (\<lambda>x w'. Q x w' \<and> wf_steps I w w')"
  unfolding tracks_def by (meson subset_UNIV wf_steps_mono)

lemma ready_kept:
  assumes "ready w y" "wf_steps {i} w x" "ts_id y \<noteq> i" "wf_inv x" "wf_status x = WRunning"
  shows "ready x y"
proof -
  have y: "y \<in> set (wf_tasks x)" "status_of w (ts_id y) = Some SPending" "deps_done w y"
    using assms(1) by (auto simp: ready_def startable_def wf_steps_same [OF assms(2)])
  have deps: "deps_done x y"
    using y(3) wf_steps_final [OF assms(2)] by (auto simp: deps_done_def list_all_iff)
  have "status_of x (ts_id y) \<noteq> Some SSkipped"
  proof
    assume "status_of x (ts_id y) = Some SSkipped"
    then have "list_ex (broken x) (ts_dependsOn y)" using assms(4) y(1) by (intro wf_invD(3))
    with deps show False by (auto simp: list_ex_iff deps_done_def list_all_iff broken_def)
  qed
  then have "status_of x (ts_id y) = Some SPending"
    using wf_steps_elsewhere [OF assms(2), of "ts_id y"] assms(3) y(2) by auto
  with y(1) deps assms(5) show ?thesis by (simp add: ready_def startable_def)
qed

lemma load_decreases:
  "status_of w i = Some SPending \<Longrightarrow> advanced w x i \<Longrightarrow> retryPolicy x = retryPolicy w \<Longrightarrow> load x i < load w i"
  by (auto simp: load_def advanced_def)

fun pass_post :: "Workflow \<Rightarrow> WorkflowTaskSpec list \<Rightarrow> Workflow flow \<Rightarrow> Workflow \<Rightarrow> bool" where
  "pass_post w specs (Return x) w' \<longleftrightarrow> w' = x \<and> wf_status x = WFailed"
| "pass_post w specs (Next x) w' \<longleftrightarrow> w' = x \<and> wf_status x = WRunning \<and> budget x + length specs \<le> budget w"

lemma track_process_ready:
  assumes eng: "leaves_workflows eng"
    and "\<And>spec. spec \<in> set specs \<Longrightarrow> ready w spec" "distinct (map ts_id specs)" "wf_status w = WRunning"
  shows "wtracks UNIV w (process_ready eng w specs) (pass_post w specs)"
  using assms(2-)
proof (induction specs arbitrary: w)
  case Nil
  then show ?case unfolding process_ready.simps by (intro snap.tracks_return) simp
next
  case (Cons spec specs)
  have spec: "ready w spec" using Cons.prems(1) by simp
  then have "startable w spec" by (simp add: ready_def)
  note one = track_lift [OF track_process_spec [OF eng this singletonI]]
  show ?case
    unfolding process_ready.simps
  proof (rule snap.tracks_bind [OF one], elim conjE)
    fix f v
    assume post: "spec_post w (ts_id spec) f v" and steps: "wf_steps {ts_id spec} w v" and inv: "wf_inv v"
    show "wtracks UNIV v (case f of Return w \<Rightarrow> returnS (Return w) | Next w \<Rightarrow> process_ready eng w specs)
      (pass_post w (spec # specs))"
    proof (cases f)
      case (Return x)
      with post show ?thesis by (simp only: flow.case) (rule snap.tracks_return, simp)
    next
      case (Next x)
      with post have v: "v = x" "wf_status x = WRunning" "advanced w x (ts_id spec)" by simp_all
      note steps = steps [unfolded v(1)]
      have "load x (ts_id spec) < load w (ts_id spec)"
        using spec v(3) by (intro load_decreases) (simp_all add: ready_def wf_steps_same [OF steps])
      then have less: "budget x < budget w"
        using spec by (intro budget_decreases [OF steps, of spec]) (simp_all add: ready_def startable_def)
      have "ready x y" if y: "y \<in> set specs" for y
      proof (rule ready_kept [OF _ steps])
        show "ts_id y \<noteq> ts_id spec" using Cons.prems(2) imageI [OF y, of ts_id] by auto
      qed (use y Cons.prems(1) inv v(1,2) in simp_all)
      then have "wtracks UNIV x (process_ready eng x specs) (pass_post x specs)"
        using Cons.prems(2) v(2) by (intro Cons.IH) simp_all
      then have "wtracks UNIV x (process_ready eng x specs) (pass_post w (spec # specs))"
      proof (rule snap.tracks_weaken)
        fix g u assume "pass_post x specs g u"
        with less show "pass_post w (spec # specs) g u" by (cases g) simp_all
      qed
      then show ?thesis by (simp only: Next flow.case v(1))
    qed
  qed
qed

lemma map_of_records: "map_of (map (\<lambda>r. (wr_specId r, r)) rs) i = js_find (\<lambda>r. wr_specId r = i) rs"
  by (induction rs) auto

lemma recordBySpec_eq:
  assumes "records_match w"
  shows "recordBySpec w i = record_of w i"
proof -
  have "distinct (map wr_specId (taskRecords w))" using assms by (simp add: records_match_def)
  then have "distinct (map fst (map (\<lambda>r. (wr_specId r, r)) (taskRecords w)))" by (simp add: comp_def)
  then have "map_of (rev (map (\<lambda>r. (wr_specId r, r)) (taskRecords w))) = map_of (map (\<lambda>r. (wr_specId r, r)) (taskRecords w))"
    by (subst map_of_inject_set) (simp_all add: rev_map [symmetric])
  then show ?thesis by (simp add: recordBySpec_def map_of_records record_of_def)
qed

lemma ready_specs:
  assumes "records_match w" "wf_status w = WRunning"
  shows "spec \<in> set (computeReadySpecs w) \<longleftrightarrow> ready w spec"
    and "distinct (map ts_id (computeReadySpecs w))"
proof -
  show "spec \<in> set (computeReadySpecs w) \<longleftrightarrow> ready w spec"
    using assms(2)
    by (auto simp: computeReadySpecs_def spec_ready_def recordBySpec_eq [OF assms(1)] ready_def startable_def
        deps_done_def status_of_def split: option.splits if_splits)
  show "distinct (map ts_id (computeReadySpecs w))"
    using assms(1) by (simp add: computeReadySpecs_def records_match_def distinct_map_filter)
qed

section \<open>The schedule\<close>

lemma track_nothing_ready: "wtracks I w (nothing_ready w) (\<lambda>x w'. w' = x \<and> ended x)"
proof -
  have fin: "wtracks I w (finalize w) (\<lambda>x w'. w' = x \<and> ended x)"
    by (rule snap.tracks_weaken [OF track_finalize]) (auto simp: ended_def)
  have park: "wtracks I w (workflow_transition (wf_id w) WAwaitingApproval None None) (\<lambda>x w'. w' = x \<and> ended x)"
    by (rule snap.tracks_weaken [OF track_move]) (auto simp: ended_def)
  show ?thesis
    unfolding nothing_ready_def by (intro snap.tracks_if fin park)
qed

lemma track_passes:
  assumes eng: "leaves_workflows eng" and run: "wf_status w = WRunning"
  shows "wtracks UNIV w (passes eng st n w) (\<lambda>x w'. w' = x \<and> ended x)"
  using run
proof (induction n arbitrary: w)
  case 0
  show ?case unfolding passes.simps by (rule snap.tracks_weaken [OF track_fail]) (auto simp: ended_def)
next
  case (Suc n)
  show ?case
    unfolding passes.simps
  proof (rule snap.tracks_read [OF wf_frame_now], rule snap.tracks_if, rule snap.tracks_weaken [OF track_fail],
      simp add: ended_def, rule snap.tracks_if, rule track_nothing_ready, rule snap.tracks_good)
    assume "wf_inv w"
    then have match: "records_match w" by (rule wf_invD)
    have pass: "wtracks UNIV w (process_ready eng w (computeReadySpecs w)) (pass_post w (computeReadySpecs w))"
      by (rule track_process_ready [OF eng]) (simp_all add: ready_specs [OF match Suc.prems] Suc.prems)
    show "wtracks UNIV w (bindS (process_ready eng w (computeReadySpecs w)) (\<lambda>f. case f of
         Return w \<Rightarrow> returnS w | Next w \<Rightarrow> passes eng st n w)) (\<lambda>x w'. w' = x \<and> ended x)"
    proof (rule snap.tracks_bind [OF pass])
      fix f v assume post: "pass_post w (computeReadySpecs w) f v"
      show "wtracks UNIV v (case f of Return w \<Rightarrow> returnS w | Next w \<Rightarrow> passes eng st n w)
          (\<lambda>x w'. w' = x \<and> ended x)"
      proof (cases f)
        case (Return x)
        with post show ?thesis by (simp only: flow.case) (rule snap.tracks_return, simp add: ended_def)
      next
        case (Next x)
        with post show ?thesis by (simp only: flow.case pass_post.simps) (rule Suc.IH, simp)
      qed
    qed
  qed
qed

text \<open>With more passes than work, the number of passes does not matter.\<close>

lemma passes_enough:
  assumes eng: "leaves_workflows eng"
    and "wf_status w = WRunning" "wf_inv w" "holds_copy w s" "budget w < n"
  shows "passes eng st (n + k) w s = passes eng st n w s"
  using assms(2-)
proof (induction n arbitrary: w s)
  case 0
  then show ?case by simp
next
  case (Suc n)
  have match: "records_match w" using Suc.prems(2) by (rule wf_invD)
  have pass: "wtracks UNIV w (process_ready eng w (computeReadySpecs w)) (pass_post w (computeReadySpecs w))"
    by (rule track_process_ready [OF eng]) (simp_all add: ready_specs [OF match Suc.prems(1)] Suc.prems(1))
  have rest: "bindS (process_ready eng w (computeReadySpecs w)) (\<lambda>f. case f of
         Return w \<Rightarrow> returnS w | Next w \<Rightarrow> passes eng st (n + k) w) t =
       bindS (process_ready eng w (computeReadySpecs w)) (\<lambda>f. case f of
         Return w \<Rightarrow> returnS w | Next w \<Rightarrow> passes eng st n w) t"
    if cur: "holds_copy w t" and work: "computeReadySpecs w \<noteq> []" for t
  proof (rule bindS_cong)
    fix f u assume run: "process_ready eng w (computeReadySpecs w) t = (Inr f, u)"
    obtain v where v: "holds_copy v u" "wf_steps UNIV w v" "pass_post w (computeReadySpecs w) f v"
      using tracksD [OF pass Suc.prems(2) cur] run by (metis fst_conv snd_conv)
    show "(case f of Return w \<Rightarrow> returnS w | Next w \<Rightarrow> passes eng st (n + k) w) u =
        (case f of Return w \<Rightarrow> returnS w | Next w \<Rightarrow> passes eng st n w) u"
    proof (cases f)
      case (Next x)
      with v(3) have x: "v = x" "wf_status x = WRunning" "budget x + length (computeReadySpecs w) \<le> budget w" by simp_all
      have "length (computeReadySpecs w) > 0" using work by simp
      with x(3) Suc.prems(4) have "budget x < n" by linarith
      moreover have "wf_inv x" using wf_steps_inv [OF v(2) Suc.prems(2)] x(1) by simp
      ultimately show ?thesis using x(2) v(1) by (simp only: Next flow.case x(1)) (rule Suc.IH)
    qed simp
  qed
  obtain s' where now: "now s = (Inr (time_at s (ticks s)), s')" "holds_copy w s'"
    using Suc.prems(3) by (simp add: now_def current_def)
  show ?case
    unfolding add_Suc passes.simps
    by (subst (1 2) bindS_Inr, rule now(1), rule now(1)) (use rest [OF now(2)] in auto)
qed

end
