(* ===== verification/Workflow_Service.thy ===== *)
theory Workflow_Service
  imports Workflow_Schedule
begin

text \<open>
  The engine's entry points: running, resuming and submitting a workflow. \<open>all_sound\<close> says every
  stored workflow satisfies the machine's invariant; every entry point maintains it.
\<close>

section \<open>Running\<close>

lemma track_require: "wtracks I w (workflow_require (wf_id w)) (\<lambda>x w'. w' = x \<and> x = w)"
  by (auto simp: tracks_def require_current)

lemma track_move_running:
  "to \<noteq> WCompleted \<Longrightarrow>
   wtracks I w (workflow_transition (wf_id w) to None None) (\<lambda>x w'. w' = x \<and> wf_status x = to)"
  by (rule snap.tracks_weaken [OF track_move]) auto

lemma track_schedule:
  assumes "leaves_workflows eng" "wf_status w = WRunning"
  shows "wtracks UNIV w (bindS now (\<lambda>at. schedule eng w at)) (\<lambda>x w'. w' = x \<and> ended x)"
  unfolding schedule_def by (rule snap.tracks_read [OF wf_frame_now], rule track_passes [OF assms])

lemma track_planned:
  "wtracks I w (if wf_status w = WCreated then workflow_transition (wf_id w) WPlanned None None else returnS w)
     (\<lambda>x w'. w' = x \<and> True)"
  by (rule snap.tracks_if, rule snap.tracks_weaken [OF track_move_running], simp, simp)
    (rule snap.tracks_return, simp)

lemma track_started:
  "wtracks I w (if wf_status w = WPlanned
      then bindS (workflow_transition (wf_id w) WRunning None None) (\<lambda>w. thenS (emit w k d) (returnS w))
      else returnS w) (\<lambda>x w'. w' = x \<and> True)"
  by (rule snap.tracks_if, rule snap.tracks_bind_copy [OF track_move_running], simp,
      rule snap.tracks_then [OF wf_frame_emit])
    (rule snap.tracks_return, simp)+

lemma track_run:
  assumes "leaves_workflows eng"
  shows "wtracks UNIV w (engine_run eng (wf_id w)) (\<lambda>x w'. w' = x \<and> ended x)"
  unfolding engine_run_def
  by (rule snap.tracks_bind_copy [OF track_require], rule snap.tracks_bind_copy [OF track_planned],
      rule snap.tracks_bind_copy [OF track_started], rule snap.tracks_if, rule snap.tracks_throw,
      rule track_schedule [OF assms]) simp

section \<open>Resuming\<close>

text \<open>A parked record that is still to be resumed.\<close>

definition parked_record :: "Workflow \<Rightarrow> WorkflowTaskRecord \<Rightarrow> bool" where
  "parked_record w r \<longleftrightarrow> status_of w (wr_specId r) = Some SAwaitingApproval \<and>
     (\<exists>spec \<in> set (wf_tasks w). ts_id spec = wr_specId r)"

lemma parked_startable:
  assumes "parked_record w r" "wf_inv w" "wf_status w = WRunning"
  obtains spec where "startable w spec" "ts_id spec = wr_specId r"
proof -
  obtain spec where spec: "spec \<in> set (wf_tasks w)" "ts_id spec = wr_specId r"
    using assms(1) unfolding parked_record_def by blast
  then have "attempted w (ts_id spec)" using assms(1) by (simp add: attempted_def parked_record_def)
  then have "deps_done w spec" by (rule wf_invD(2) [OF assms(2) spec(1)])
  with spec assms(1,3) show thesis by (intro that) (simp_all add: startable_def parked_record_def)
qed

lemma parked_kept:
  assumes "parked_record w r" "wf_steps {i} w x" "wr_specId r \<noteq> i"
  shows "parked_record x r"
  using assms(1) wf_steps_elsewhere [OF assms(2), of "wr_specId r"] assms(3)
  by (auto simp: parked_record_def wf_steps_same [OF assms(2)])

fun resume_post :: "Workflow flow \<Rightarrow> Workflow \<Rightarrow> bool" where
  "resume_post (Return x) w' \<longleftrightarrow> w' = x \<and> wf_status x = WFailed"
| "resume_post (Next x) w' \<longleftrightarrow> w' = x \<and> wf_status x = WRunning"

lemma track_resume_parked:
  assumes eng: "leaves_workflows eng"
    and "\<And>r. r \<in> set rs \<Longrightarrow> parked_record w r" "distinct (map wr_specId rs)" "wf_status w = WRunning"
  shows "wtracks UNIV w (resume_parked eng w rs) resume_post"
  using assms(2-)
proof (induction rs arbitrary: w)
  case Nil
  then show ?case unfolding resume_parked.simps by (intro snap.tracks_return) simp
next
  case (Cons r rs)
  show ?case
    unfolding resume_parked.simps
  proof (rule snap.tracks_if, rule Cons.IH, use Cons.prems in simp_all)
    show "wtracks UNIV w (bindS (resume (eng_orchestrator eng) (or_else (wr_taskId r) []) None)
      (\<lambda>task. bindS (applyTaskOutcome w (wr_specId r) task)
        (\<lambda>w. if wf_status w \<noteq> WRunning then returnS (Return w) else resume_parked eng w rs))) resume_post"
    proof (rule snap.tracks_read [OF wf_frame_resume [OF eng]], rule snap.tracks_good)
      fix task assume inv: "wf_inv w"
      have "parked_record w r" using Cons.prems(1) by simp
      from this inv Cons.prems(3) obtain spec where "startable w spec" "ts_id spec = wr_specId r"
        by (rule parked_startable)
      note out = track_lift [OF track_outcome [OF this(1) singletonI], unfolded this(2)]
      show "wtracks UNIV w (bindS (applyTaskOutcome w (wr_specId r) task)
          (\<lambda>w. if wf_status w \<noteq> WRunning then returnS (Return w) else resume_parked eng w rs)) resume_post"
      proof (rule snap.tracks_bind [OF out], elim conjE)
        fix x v
        assume v: "v = x" "wf_status x \<in> {WRunning, WFailed}" and steps: "wf_steps {wr_specId r} w v"
        have kept: "parked_record x q" if q: "q \<in> set rs" for q
        proof (rule parked_kept [OF _ steps [unfolded v(1)]])
          show "wr_specId q \<noteq> wr_specId r" using Cons.prems(2) imageI [OF q, of wr_specId] by auto
        qed (use q Cons.prems(1) in simp)
        show "wtracks UNIV v (if wf_status x \<noteq> WRunning then returnS (Return x) else resume_parked eng x rs) resume_post"
          unfolding v(1)
          by (rule snap.tracks_if, rule snap.tracks_return, use v(2) in simp)
            (rule Cons.IH, use kept Cons.prems(2) in auto)
      qed
    qed
  qed
qed

lemma track_resume:
  assumes "leaves_workflows eng"
  shows "wtracks UNIV w (engine_resume eng (wf_id w)) (\<lambda>x w'. w' = x \<and> ended x)"
  unfolding engine_resume_def Let_def
proof (rule snap.tracks_good, rule snap.tracks_bind_copy [OF track_require], rule snap.tracks_if,
    rule snap.tracks_throw, rule snap.tracks_bind_copy [OF track_move])
  fix x y :: Workflow
  let ?rs = "filter (\<lambda>r. wr_status r = SAwaitingApproval) (taskRecords x)"
  assume inv: "wf_inv w" and x: "x = w" and y: "\<exists>at. y = move_workflow WRunning None None at x"
  have match: "records_match w" using inv by (rule wf_invD)
  have same: "wf_status y = WRunning" "status_of y = status_of w" "wf_tasks y = wf_tasks w"
    using x y by (auto intro!: status_of_same)
  have "parked_record y r" if "r \<in> set ?rs" for r
    using that record_of_member [OF match, of r] member_spec [OF match, of r] x same
    by (auto simp: parked_record_def status_of_def)
  moreover have "distinct (map wr_specId ?rs)"
    using match x by (simp add: records_match_def distinct_map_filter)
  ultimately have parked: "wtracks UNIV y (resume_parked eng y ?rs) resume_post"
    using same(1) by (intro track_resume_parked [OF assms])
  show "wtracks UNIV y (bindS (resume_parked eng y ?rs) (\<lambda>f. case f of
         Return w \<Rightarrow> returnS w | Next w \<Rightarrow> bindS now (\<lambda>at. schedule eng w at))) (\<lambda>x w'. w' = x \<and> ended x)"
  proof (rule snap.tracks_bind [OF parked])
    fix f v assume post: "resume_post f v"
    show "wtracks UNIV v (case f of Return w \<Rightarrow> returnS w | Next w \<Rightarrow> bindS now (\<lambda>at. schedule eng w at))
      (\<lambda>x w'. w' = x \<and> ended x)"
    proof (cases f)
      case (Return z)
      with post show ?thesis by (simp only: flow.case) (rule snap.tracks_return, simp add: ended_def)
    next
      case (Next z)
      with post show ?thesis by (simp only: flow.case resume_post.simps) (rule track_schedule [OF assms], simp)
    qed
  qed
qed simp

section \<open>The store\<close>

definition all_sound :: "'x workflow_state_scheme \<Rightarrow> bool" where
  "all_sound s \<longleftrightarrow> (\<forall>i w. mem_findById i (workflows s) = Some w \<longrightarrow> wf_inv w \<and> wf_id w = i)"

lemma sound_tracked:
  assumes "all_sound s" "mem_findById i (workflows s) = Some w"
    and "wtracks UNIV w m (\<lambda>x w'. w' = x \<and> ended x)"
  shows "all_sound (snd (m s))"
    and "\<exists>w'. mem_findById i (workflows (snd (m s))) = Some w' \<and> wf_steps UNIV w w' \<and>
      (\<forall>x. fst (m s) = Inr x \<longrightarrow> x = w' \<and> ended x)"
    and "\<forall>j. j \<noteq> i \<longrightarrow> mem_findById j (workflows (snd (m s))) = mem_findById j (workflows s)"
proof -
  have w: "wf_inv w" "wf_id w = i" "holds_copy w s"
    using assms(1,2) by (auto simp: all_sound_def current_def)
  obtain w' where w': "holds_copy w' (snd (m s))" "wf_id w' = i" "wf_steps UNIV w w'"
    "\<And>j. j \<noteq> i \<Longrightarrow> mem_findById j (workflows (snd (m s))) = mem_findById j (workflows s)"
    "\<And>x. fst (m s) = Inr x \<Longrightarrow> w' = x \<and> ended x"
    using tracksD [OF assms(3) w(1,3)] w(2) by metis
  show "\<exists>w'. mem_findById i (workflows (snd (m s))) = Some w' \<and> wf_steps UNIV w w' \<and>
      (\<forall>x. fst (m s) = Inr x \<longrightarrow> x = w' \<and> ended x)"
    using w'(1,2,3,5) by (auto simp: current_def)
  show others: "\<forall>j. j \<noteq> i \<longrightarrow> mem_findById j (workflows (snd (m s))) = mem_findById j (workflows s)"
    using w'(4) by blast
  have "wf_inv w'" using wf_steps_inv [OF w'(3) w(1)] .
  then show "all_sound (snd (m s))"
    using assms(1) w'(1,2) others unfolding all_sound_def current_def by (metis option.inject)
qed

lemma unknown_workflow:
  assumes "mem_findById i (workflows s) = None"
  shows "engine_run eng i s = (Inl (NotFoundError (''unknown workflow: '' @ i)), s)"
    and "engine_resume eng i s = (Inl (NotFoundError (''unknown workflow: '' @ i)), s)"
  using assms by (simp_all add: engine_run_def engine_resume_def workflow_require_def bindS_def)

lemma run_sound:
  assumes "leaves_workflows eng" "all_sound s"
  shows "all_sound (snd (engine_run eng i s))" "all_sound (snd (engine_resume eng i s))"
proof -
  show "all_sound (snd (engine_run eng i s))"
  proof (cases "mem_findById i (workflows s)")
    case (Some w)
    then have "wf_id w = i" using assms(2) by (simp add: all_sound_def)
    with sound_tracked(1) [OF assms(2) Some track_run [OF assms(1)]] show ?thesis by simp
  next
    case None
    then show ?thesis using assms(2) by (simp only: unknown_workflow snd_conv)
  qed
  show "all_sound (snd (engine_resume eng i s))"
  proof (cases "mem_findById i (workflows s)")
    case (Some w)
    then have "wf_id w = i" using assms(2) by (simp add: all_sound_def)
    with sound_tracked(1) [OF assms(2) Some track_resume [OF assms(1)]] show ?thesis by simp
  next
    case None
    then show ?thesis using assms(2) by (simp only: unknown_workflow snd_conv)
  qed
qed

text \<open>Creation: rejected, or one new sound workflow.\<close>

lemma workflow_create_cases:
  obtains (rejected) e where "workflow_create d s = (Inl e, s)"
  | (created) w t where "workflow_create d s = (Inr w, t)" "wf_inv w" "wf_status w = WCreated"
      "workflows t = mem_upsert wf_id w (workflows s)" "validateWorkflowDraft d = Inr ()"
      "int (length (wd_tasks d)) \<le> maxTasks (merge_limits (wd_limits d))"
      "wf_tasks w = map spec_of (wd_tasks d)"
proof (cases "validateWorkflowDraft d")
  case (Inl e)
  then show thesis by (intro rejected [of e]) (simp add: workflow_create_def op_simps)
next
  case (Inr u)
  show thesis
  proof (cases "int (length (wd_tasks d)) > maxTasks (merge_limits (wd_limits d))")
    case True
    with Inr show thesis by (intro rejected) (simp add: workflow_create_def op_simps)
  next
    case False
    let ?w = "new_workflow d (id_of ''workflow'' (process_tag s) (Suc (seq s))) (time_at s (ticks s))"
    have "workflow_create d s = (Inr ?w, s\<lparr>ticks := Suc (ticks s), seq := Suc (seq s),
        workflows := mem_upsert wf_id ?w (workflows s)\<rparr>)"
      using Inr False by (simp add: workflow_create_def upsert_workflow_def now_def createId_eq op_simps Let_def)
    moreover have "wf_status ?w = WCreated" "wf_tasks ?w = map spec_of (wd_tasks d)" by (simp_all add: new_workflow_def)
    moreover have "validateWorkflowDraft d = Inr ()" using Inr by simp
    ultimately show thesis using False new_workflow_inv by (intro created) auto
  qed
qed

lemma submit_cases_engine:
  assumes "leaves_workflows eng" "all_sound s"
  obtains (rejected) e where "engine_submit eng d s = (Inl e, s)" "workflow_create d s = (Inl e, s)"
  | (submitted) w w' t where "workflow_create d s = (Inr w, t)"
      "mem_findById (wf_id w) (workflows (snd (engine_submit eng d s))) = Some w'" "wf_steps UNIV w w'"
      "wf_tasks w' = map spec_of (wd_tasks d)" "all_sound (snd (engine_submit eng d s))"
proof (cases rule: workflow_create_cases [of d s])
  case (rejected e)
  then show thesis by (intro that(1)) (simp_all add: engine_submit_def bindS_def)
next
  case (created w t)
  let ?rest = "thenS (emit w ''workflow_created'' [])
     (thenS (emit w ''workflow_validated'' [(''taskCount'', JNum (int (length (wf_tasks w))))])
     (engine_run eng (wf_id w)))"
  have run: "engine_submit eng d s = ?rest t"
    unfolding engine_submit_def by (rule bindS_Inr) (rule created(1))
  have t: "all_sound t" "mem_findById (wf_id w) (workflows t) = Some w"
    using assms(2) created(2,4) by (auto simp: all_sound_def)
  have tracked: "wtracks UNIV w ?rest (\<lambda>x w'. w' = x \<and> ended x)"
    by (intro snap.tracks_then wf_frame_emit track_run assms(1))
  obtain w' where w': "mem_findById (wf_id w) (workflows (snd (engine_submit eng d s))) = Some w'" "wf_steps UNIV w w'"
    using sound_tracked(2) [OF t tracked] unfolding run by blast
  have "all_sound (snd (engine_submit eng d s))"
    using sound_tracked(1) [OF t tracked] unfolding run .
  moreover have "wf_tasks w' = map spec_of (wd_tasks d)" using created(7) wf_steps_same(2) [OF w'(2)] by simp
  ultimately show thesis using created(1) w' by (intro that(2))
qed

lemma submit_sound:
  assumes "leaves_workflows eng" "all_sound s"
  shows "all_sound (snd (engine_submit eng d s))"
  using assms by (cases rule: submit_cases_engine [of eng s d]) (simp_all add: assms(2))

end
