(* ===== verification/Workflow_Reference.thy ===== *)
theory Workflow_Reference
  imports Workflow_Service
begin

text \<open>
  Reference definitions for two helpers of the engine: the skipped specs are exactly those
  downstream of the failure, and a validated assignment has passed every check.
\<close>

inductive downstream :: "Workflow \<Rightarrow> string \<Rightarrow> string \<Rightarrow> bool" for w f where
  "spec \<in> set (wf_tasks w) \<Longrightarrow> status_of w (ts_id spec) = Some SPending \<Longrightarrow>
   dep \<in> set (ts_dependsOn spec) \<Longrightarrow> dep = f \<or> downstream w f dep \<Longrightarrow> downstream w f (ts_id spec)"

lemma skip_pass_sound:
  "set specs \<subseteq> set (wf_tasks w) \<Longrightarrow> (\<And>i. i \<in> set skip \<Longrightarrow> downstream w f i) \<Longrightarrow>
   i \<in> set (skip_pass w f specs skip) \<Longrightarrow> downstream w f i"
proof (induction specs arbitrary: skip)
  case (Cons spec specs)
  show ?case
  proof (cases "ts_id spec \<notin> set skip \<and> status_of w (ts_id spec) = Some SPending \<and>
      list_ex (\<lambda>dep. dep = f \<or> dep \<in> set skip) (ts_dependsOn spec)")
    case True
    then have new: "downstream w f (ts_id spec)"
      using Cons.prems(1,2) by (auto simp: list_ex_iff intro: downstream.intros)
    have "i \<in> set (skip_pass w f specs (skip @ [ts_id spec]))"
      using True Cons.prems(3) by (auto simp: status_of_def)
    then show ?thesis
      using Cons.prems(1,2) new by (intro Cons.IH [of "skip @ [ts_id spec]"]) auto
  next
    case False
    with Cons show ?thesis by (auto simp: status_of_def split: if_splits)
  qed
qed simp

lemma skip_closure_sound:
  "(\<And>i. i \<in> set skip \<Longrightarrow> downstream w f i) \<Longrightarrow> i \<in> set (skip_closure w f skip) \<Longrightarrow> downstream w f i"
proof (induction w f skip rule: skip_closure.induct)
  case (1 w f skip)
  have pass: "downstream w f j" if "j \<in> set (skip_pass w f (wf_tasks w) skip)" for j
    using skip_pass_sound [OF order_refl 1(2) that] .
  show ?case
  proof (cases "skip_pass w f (wf_tasks w) skip = skip")
    case True
    then have "skip_closure w f skip = skip" by (subst skip_closure.simps) (simp add: Let_def)
    with 1(2,3) show ?thesis by simp
  next
    case False
    then have "skip_closure w f skip = skip_closure w f (skip_pass w f (wf_tasks w) skip)"
      by (subst skip_closure.simps) (simp add: Let_def)
    with 1(3) show ?thesis by (intro 1(1) [OF refl False pass]) simp_all
  qed
qed

lemma skip_closure_fixpoint: "skip_pass w f (wf_tasks w) (skip_closure w f skip) = skip_closure w f skip"
proof (induction w f skip rule: skip_closure.induct)
  case (1 w f skip)
  then show ?case
    by (cases "skip_pass w f (wf_tasks w) skip = skip") (subst (1 2) skip_closure.simps, simp add: Let_def)+
qed

lemma skip_pass_fixpoint:
  assumes "skip_pass w f specs skip = skip" "spec \<in> set specs"
    and "status_of w (ts_id spec) = Some SPending" "dep \<in> set (ts_dependsOn spec)" "dep = f \<or> dep \<in> set skip"
  shows "ts_id spec \<in> set skip"
  using assms(1,2)
proof (induction specs)
  case (Cons s specs)
  show ?case
  proof (rule ccontr)
    assume out: "ts_id spec \<notin> set skip"
    show False
    proof (cases "ts_id s \<notin> set skip \<and> status_of w (ts_id s) = Some SPending \<and>
        list_ex (\<lambda>dep. dep = f \<or> dep \<in> set skip) (ts_dependsOn s)")
      case True
      then have "skip_pass w f specs (skip @ [ts_id s]) = skip"
        using Cons.prems(1) by (simp add: status_of_def)
      moreover obtain more where "skip_pass w f specs (skip @ [ts_id s]) = (skip @ [ts_id s]) @ more"
        using skip_pass_extends by blast
      ultimately show False by simp
    next
      case False
      then have "skip_pass w f specs skip = skip"
        using Cons.prems(1) by (auto simp: status_of_def split: if_splits)
      moreover have "spec \<noteq> s" using False out assms(3-5) by (auto simp: list_ex_iff)
      ultimately show False using Cons.IH Cons.prems(2) out by simp
    qed
  qed
qed simp

lemma skip_closure_exact: "i \<in> set (skip_closure w f []) \<longleftrightarrow> downstream w f i"
proof
  show "i \<in> set (skip_closure w f []) \<Longrightarrow> downstream w f i"
    by (rule skip_closure_sound [of "[]"]) simp_all
  assume "downstream w f i"
  then show "i \<in> set (skip_closure w f [])"
  proof (induction rule: downstream.induct)
    case (1 spec dep)
    then show ?case by (intro skip_pass_fixpoint [OF skip_closure_fixpoint]) auto
  qed
qed

section \<open>Assignments\<close>

definition assignable ::
  "(string \<Rightarrow> string \<Rightarrow> int) \<Rightarrow> (string \<Rightarrow> string list option) option \<Rightarrow> WorkflowTaskSpec \<Rightarrow> Workflow \<Rightarrow>
   'x registry_state_scheme \<Rightarrow> string \<Rightarrow> bool" where
  "assignable lc tools spec w s c \<longleftrightarrow> c \<noteq> [] \<and> c \<in> set (participatingAgents w) \<and>
     (\<exists>agent. mem_findById c (agents s) = Some agent \<and>
        (truthy (ts_capability spec) \<longrightarrow> or_else (ts_capability spec) [] \<in> set (capabilities agent))) \<and>
     (\<exists>a \<in> set (eligible lc (ts_type spec) (wf_projectId w) s). agent_id a = c) \<and>
     (\<forall>toolId \<in> set (ts_expectedTools spec). \<not> unauthorized_tool tools c toolId)"

lemma assignAgent_validated:
  "as_validated (assignAgent lc grants tools spec w s) \<longleftrightarrow>
     (\<exists>c. candidate_id lc spec w s = Some c \<and> assignable lc tools spec w s c)"
  by (cases "candidate_id lc spec w s")
    (auto simp: assignAgent_def Let_def invalid_assignment_def assignable_def list_ex_iff js_find_None
      split: option.split dest: js_find_Some)

lemma assignAgent_agent:
  "as_validated (assignAgent lc grants tools spec w s) \<Longrightarrow>
   as_agentId (assignAgent lc grants tools spec w s) = candidate_id lc spec w s"
  by (cases "candidate_id lc spec w s")
    (auto simp: assignAgent_def Let_def invalid_assignment_def split: option.splits if_splits)

end
