(* ===== verification/Planning.thy ===== *)
theory Planning
  imports Workflow_Service
begin

text \<open>
  \<open>contracts/project-manager.ts\<close> and \<open>WorkflowEngine.planFromObjective\<close>: an agent decomposes an
  objective, its decision is validated, and the validated subtasks become a workflow. The decision
  is an untrusted value; the code checks the fields below and trusts the declared types of the
  optional ones. Where an optional field has a value of another type the model stops with
  \<open>ill_typed\<close>, which stands for behaviour outside the declared types.
\<close>

section \<open>Tasks of the project manager\<close>

datatype ProjectManagerMode = Decompose | Summarize

fun mode_str :: "ProjectManagerMode \<Rightarrow> string" where
  "mode_str Decompose = ''decompose''"
| "mode_str Summarize = ''summarize''"

definition MODES :: "string list" where
  "MODES = [''decompose'', ''summarize'']"

definition RECOMMENDATIONS :: "string list" where
  "RECOMMENDATIONS = [''proceed'', ''needs_approval'', ''blocked'']"

definition FINAL_STATUSES :: "string list" where
  "FINAL_STATUSES = [''completed'', ''blocked'', ''failed'']"

record ProjectManagerSubtask =
  sub_id :: string
  sub_type :: string
  sub_description :: string
  recommendedAgentId :: "string option"
  recommendedCapability :: "string option"
  sub_dependsOn :: "string list option"
  sub_acceptanceCriteria :: "string list option"
  sub_input :: json

record ProjectManagerDecision =
  pd_mode :: ProjectManagerMode
  pd_summary :: string
  pd_subtasks :: "ProjectManagerSubtask list"
  pd_recommendation :: string
  pd_finalStatus :: "string option"

section \<open>Reading an untrusted value\<close>

definition ill_typed :: error where
  "ill_typed = ForeignError ''TypeError''"

text \<open>A property of a value; reading one of \<open>null\<close> or \<open>undefined\<close> throws.\<close>

fun property :: "json \<Rightarrow> string \<Rightarrow> json res" where
  "property (JObj fs) k = Inr (or_else (map_of fs k) JUndefined)"
| "property JNull k = Inl ill_typed"
| "property JUndefined k = Inl ill_typed"
| "property v k = Inr JUndefined"

fun is_object :: "json \<Rightarrow> bool" where
  "is_object (JObj fs) = True"
| "is_object (JArr vs) = True"
| "is_object v = False"

fun text_of :: "json \<Rightarrow> string \<Rightarrow> string res" where
  "text_of (JStr v) field = bindE (requireText v field) (\<lambda>_. Inr v)"
| "text_of v field = Inl (ValidationError (field @ '' is required''))"

text \<open>A required text that is not a string is as blank as the empty one for \<open>requireText\<close>.\<close>

fun raw_text :: "json \<Rightarrow> string" where
  "raw_text (JStr v) = v"
| "raw_text v = []"

fun optional_text :: "json \<Rightarrow> string option res" where
  "optional_text (JStr v) = Inr (Some v)"
| "optional_text JUndefined = Inr None"
| "optional_text v = Inl ill_typed"

fun texts :: "json list \<Rightarrow> string list res" where
  "texts [] = Inr []"
| "texts (JStr v # vs) = bindE (texts vs) (\<lambda>ws. Inr (v # ws))"
| "texts (v # vs) = Inl ill_typed"

fun optional_texts :: "json \<Rightarrow> string list option res" where
  "optional_texts (JArr vs) = bindE (texts vs) (\<lambda>ws. Inr (Some ws))"
| "optional_texts JUndefined = Inr None"
| "optional_texts v = Inl ill_typed"

definition one_of :: "json \<Rightarrow> string list \<Rightarrow> string \<Rightarrow> string \<Rightarrow> string res" where
  "one_of v options field tail = (case v of
     JStr w \<Rightarrow> if w \<in> set options then Inr w
       else Inl (ValidationError (field @ '' must be one of '' @ js_join '', '' options @ tail))
   | _ \<Rightarrow> Inl (ValidationError (field @ '' must be one of '' @ js_join '', '' options @ tail)))"

section \<open>Validating a task\<close>

record ProjectManagerTask =
  pt_mode :: string
  pt_objective :: string
  pt_constraints :: "string list"
  pt_availableAgents :: "string list"
  pt_priorResults :: "json list"
  pt_metadata :: fields

text \<open>\<open>value ?? fallback\<close>.\<close>

definition json_or :: "json \<Rightarrow> json \<Rightarrow> json" where
  "json_or v fallback = (if v = JUndefined \<or> v = JNull then fallback else v)"

fun entries_of :: "json \<Rightarrow> json list res" where
  "entries_of (JArr vs) = Inr vs"
| "entries_of v = Inl ill_typed"

fun fields_of :: "json \<Rightarrow> fields res" where
  "fields_of (JObj fs) = Inr fs"
| "fields_of v = Inl ill_typed"

definition validateProjectManagerTask :: "json \<Rightarrow> ProjectManagerTask res" where
  "validateProjectManagerTask raw =
     bindE (throw_if (\<not> is_object raw) (ValidationError ''project manager task must be an object'')) (\<lambda>_.
     bindE (bindE (property raw ''objective'') (\<lambda>f. text_of f ''projectManagerTask.objective'')) (\<lambda>objective.
     bindE (bindE (property raw ''mode'')
       (\<lambda>f. one_of (json_or f (JStr ''decompose'')) MODES ''projectManagerTask.mode'' [])) (\<lambda>mode.
     bindE (bindE (property raw ''constraints'') (\<lambda>f. bindE (entries_of (json_or f (JArr []))) texts)) (\<lambda>constraints.
     bindE (bindE (property raw ''availableAgents'') (\<lambda>f. bindE (entries_of (json_or f (JArr []))) texts)) (\<lambda>available.
     bindE (bindE (property raw ''priorResults'') (\<lambda>f. entries_of (json_or f (JArr [])))) (\<lambda>prior.
     bindE (bindE (property raw ''metadata'') (\<lambda>f. fields_of (json_or f (JObj [])))) (\<lambda>meta.
     Inr \<lparr>pt_mode = mode, pt_objective = objective, pt_constraints = constraints,
       pt_availableAgents = available, pt_priorResults = prior, pt_metadata = meta\<rparr>)))))))"

lemma texts_strings [simp]: "texts (map JStr xs) = Inr xs"
  by (induction xs) simp_all

section \<open>Validating a decision\<close>

definition read_subtask :: "json \<Rightarrow> ProjectManagerSubtask res" where
  "read_subtask v =
     bindE (property v ''id'') (\<lambda>i.
     bindE (property v ''type'') (\<lambda>ty.
     bindE (property v ''description'') (\<lambda>desc.
     bindE (bindE (property v ''recommendedAgentId'') optional_text) (\<lambda>agent.
     bindE (bindE (property v ''recommendedCapability'') optional_text) (\<lambda>cap.
     bindE (bindE (property v ''dependsOn'') optional_texts) (\<lambda>deps.
     bindE (bindE (property v ''acceptanceCriteria'') optional_texts) (\<lambda>crit.
     bindE (property v ''input'') (\<lambda>input.
     Inr \<lparr>sub_id = raw_text i, sub_type = raw_text ty, sub_description = raw_text desc,
       recommendedAgentId = agent, recommendedCapability = cap, sub_dependsOn = deps,
       sub_acceptanceCriteria = crit, sub_input = input\<rparr>))))))))"

definition check_subtask :: "nat \<Rightarrow> ProjectManagerSubtask \<Rightarrow> unit res" where
  "check_subtask i t = (let at = ''decision.subtasks['' @ show_nat i @ '']'' in checks
     [requireText (sub_id t) (at @ ''.id''),
      requireText (sub_type t) (at @ ''.type''),
      requireText (sub_description t) (at @ ''.description''),
      throw_if (\<not> truthy (recommendedAgentId t) \<and> \<not> truthy (recommendedCapability t))
        (ValidationError (at @ '' must recommend an agent or a capability''))])"

text \<open>The loop over the subtasks: each one is checked, then its id against the earlier ones.\<close>

fun validate_subtasks :: "nat \<Rightarrow> string list \<Rightarrow> json list \<Rightarrow> ProjectManagerSubtask list res" where
  "validate_subtasks i seen [] = Inr []"
| "validate_subtasks i seen (v # vs) =
     bindE (read_subtask v) (\<lambda>t.
     bindE (check_subtask i t) (\<lambda>_.
     bindE (throw_if (sub_id t \<in> set seen) (ValidationError (''duplicate subtask id: \"'' @ sub_id t @ ''\"''))) (\<lambda>_.
     bindE (validate_subtasks (Suc i) (sub_id t # seen) vs) (\<lambda>ts. Inr (t # ts)))))"

definition subtask_deps :: "ProjectManagerSubtask \<Rightarrow> string list" where
  "subtask_deps t = or_else (sub_dependsOn t) []"

definition check_subtask_deps :: "ProjectManagerSubtask list \<Rightarrow> unit res" where
  "check_subtask_deps ts = check_all (\<lambda>t. check_all (\<lambda>dep.
       throw_if (dep \<notin> set (map sub_id ts))
         (ValidationError (''subtask \"'' @ sub_id t @ ''\" depends on unknown subtask \"'' @ dep @ ''\"'')))
     (subtask_deps t)) ts"

definition subtask_nodes :: "ProjectManagerSubtask list \<Rightarrow> DependencyNode list" where
  "subtask_nodes ts = map (\<lambda>t. \<lparr>node_id = sub_id t, node_dependsOn = subtask_deps t\<rparr>) ts"

definition validate_decomposition :: "json list \<Rightarrow> ProjectManagerSubtask list res" where
  "validate_decomposition vs =
     bindE (throw_if (length vs = 0)
       (ValidationError ''decision.subtasks must not be empty in decompose mode'')) (\<lambda>_.
     bindE (validate_subtasks 0 [] vs) (\<lambda>ts.
     bindE (check_subtask_deps ts) (\<lambda>_.
     case findCycle (subtask_nodes ts) of
       Some cyc \<Rightarrow> Inl (ValidationError (''decision.subtasks has a circular dependency: '' @ js_join '' -> '' cyc))
     | None \<Rightarrow> Inr ts)))"

text \<open>In \<open>summarize\<close> mode the subtasks are not validated.\<close>

fun read_subtasks :: "json list \<Rightarrow> ProjectManagerSubtask list res" where
  "read_subtasks [] = Inr []"
| "read_subtasks (v # vs) = bindE (read_subtask v) (\<lambda>t. bindE (read_subtasks vs) (\<lambda>ts. Inr (t # ts)))"

text \<open>The checks that depend on the mode.\<close>

fun validate_mode :: "json \<Rightarrow> string \<Rightarrow> string \<Rightarrow> string \<Rightarrow> json \<Rightarrow> ProjectManagerDecision res" where
  "validate_mode raw mode summary rec (JArr vs) =
     (if mode = mode_str Decompose
      then bindE (validate_decomposition vs) (\<lambda>ts.
        Inr \<lparr>pd_mode = Decompose, pd_summary = summary, pd_subtasks = ts, pd_recommendation = rec,
          pd_finalStatus = None\<rparr>)
      else bindE (bindE (property raw ''finalStatus'')
          (\<lambda>f. one_of f FINAL_STATUSES ''decision.finalStatus'' '' in summarize mode'')) (\<lambda>final.
        bindE (read_subtasks vs) (\<lambda>ts.
        Inr \<lparr>pd_mode = Summarize, pd_summary = summary, pd_subtasks = ts, pd_recommendation = rec,
          pd_finalStatus = Some final\<rparr>)))"
| "validate_mode raw mode summary rec v = Inl (ValidationError ''decision.subtasks must be an array'')"

definition validateProjectManagerDecision :: "json \<Rightarrow> ProjectManagerDecision res" where
  "validateProjectManagerDecision raw =
     bindE (throw_if (\<not> is_object raw) (ValidationError ''project manager decision must be an object'')) (\<lambda>_.
     bindE (bindE (property raw ''mode'') (\<lambda>f. one_of f MODES ''decision.mode'' [])) (\<lambda>mode.
     bindE (bindE (property raw ''summary'') (\<lambda>f. text_of f ''decision.summary'')) (\<lambda>summary.
     bindE (bindE (property raw ''createdAt'') (\<lambda>f. text_of f ''decision.createdAt'')) (\<lambda>_.
     bindE (bindE (property raw ''recommendation'') (\<lambda>f. one_of f RECOMMENDATIONS ''decision.recommendation'' [])) (\<lambda>rec.
     bindE (property raw ''subtasks'') (validate_mode raw mode summary rec))))))"

section \<open>Planning\<close>

record PlanFromObjectiveInput =
  po_name :: string
  po_description :: string
  po_organizationId :: "string option"
  po_workspaceId :: "string option"
  po_projectId :: string
  po_participatingAgents :: "string list"
  po_objective :: string
  po_constraints :: "string list option"
  po_availableAgents :: "string list option"
  po_successCriteria :: "string list option"
  po_failureBehavior :: "WorkflowFailureBehavior option"
  po_limits :: "PartialLimits option"
  po_retryPolicy :: "PartialRetry option"
  po_metadata :: "fields option"

definition planning_task :: "PlanFromObjectiveInput \<Rightarrow> TaskDraft" where
  "planning_task p =
     \<lparr>td_type = ''project-manager-plan'', td_description = ''Decompose: '' @ po_objective p,
      td_projectId = po_projectId p,
      td_input = JObj [(''mode'', JStr ''decompose''), (''objective'', JStr (po_objective p)),
        (''constraints'', jstrs (or_else (po_constraints p) [])),
        (''availableAgents'', jstrs (or_else (po_availableAgents p) (po_participatingAgents p)))],
      td_priority = None, td_requiredPermissions = None, td_metadata = None, td_programId = None,
      td_workstreamId = None, td_objective = None, td_requirements = None, td_dependencies = None,
      td_requiredCapabilities = None, td_environmentRequirements = None, td_modelRequirements = None,
      td_completionCriteria = None, td_riskClass = None, td_executionContext = None\<rparr>"

definition subtask_spec :: "ProjectManagerSubtask \<Rightarrow> WorkflowTaskSpecDraft" where
  "subtask_spec t =
     \<lparr>tsd_id = sub_id t, tsd_type = sub_type t, tsd_description = sub_description t,
      tsd_agentId = recommendedAgentId t, tsd_capability = recommendedCapability t,
      tsd_dependsOn = sub_dependsOn t, tsd_acceptanceCriteria = sub_acceptanceCriteria t,
      tsd_input = sub_input t, tsd_requiredPermissions = None, tsd_expectedTools = None,
      tsd_priority = None, tsd_metadata = None\<rparr>"

definition planned_draft :: "PlanFromObjectiveInput \<Rightarrow> string \<Rightarrow> ProjectManagerDecision \<Rightarrow> WorkflowDraft" where
  "planned_draft p planningTaskId decision =
     \<lparr>wd_name = po_name p, wd_organizationId = po_organizationId p, wd_workspaceId = po_workspaceId p,
      wd_description = po_description p, wd_projectId = po_projectId p,
      wd_participatingAgents = po_participatingAgents p, wd_tasks = map subtask_spec (pd_subtasks decision),
      wd_successCriteria = po_successCriteria p, wd_failureBehavior = po_failureBehavior p,
      wd_limits = po_limits p, wd_retryPolicy = po_retryPolicy p,
      wd_metadata = Some (spread (or_else (po_metadata p) []) [(''planningTaskId'', JStr planningTaskId)])\<rparr>"

definition maxDepth :: "PlanFromObjectiveInput \<Rightarrow> int" where
  "maxDepth p = (case po_limits p of None \<Rightarrow> 1 | Some l \<Rightarrow> or_else (pl_maxDelegationDepth l) 1)"

text \<open>From the planner's answer on.\<close>

definition adopt_plan ::
  "'x workflow_state_ext registry_state_scheme engine \<Rightarrow> string \<Rightarrow> PlanFromObjectiveInput \<Rightarrow> Task \<Rightarrow>
   ('x workflow_state_scheme, Workflow) op" where
  "adopt_plan eng pm p task =
     (if task_status task \<noteq> TCompleted
      then throwS (AgentExecutionError pm ''internal_error''
        (''planning task did not complete (status: '' @ task_status_str (task_status task) @ '')''))
      else bindS (liftE (validateProjectManagerDecision (task_output task))) (\<lambda>decision.
        engine_submit eng (planned_draft p (task_id task) decision)))"

definition planFromObjective ::
  "'x workflow_state_ext registry_state_scheme engine \<Rightarrow> string \<Rightarrow> PlanFromObjectiveInput \<Rightarrow> int \<Rightarrow>
   ('x workflow_state_scheme, Workflow) op" where
  "planFromObjective eng pm p depth =
     (if depth \<ge> maxDepth p
      then throwS (ValidationError (''planFromObjective: delegation depth '' @ show_int depth
        @ '' would exceed maxDelegationDepth ('' @ show_int (maxDepth p) @ '')''))
      else bindS (getsS (registry_has pm)) (\<lambda>known.
        if \<not> known then throwS (NotFoundError (''project manager agent \"'' @ pm @ ''\" is not registered''))
        else bindS (submit (eng_orchestrator eng) (planning_task p) None) (adopt_plan eng pm p)))"

section \<open>What a plan promises\<close>

definition plan_ok :: "ProjectManagerSubtask list \<Rightarrow> bool" where
  "plan_ok ts \<longleftrightarrow> ts \<noteq> [] \<and> distinct (map sub_id ts) \<and>
     (\<forall>t \<in> set ts. js_trim (sub_id t) \<noteq> [] \<and> js_trim (sub_type t) \<noteq> [] \<and> js_trim (sub_description t) \<noteq> [] \<and>
        (truthy (recommendedAgentId t) \<or> truthy (recommendedCapability t)) \<and>
        set (subtask_deps t) \<subseteq> set (map sub_id ts)) \<and>
     acyclic {(x, y). edge (deps_of (subtask_nodes ts)) x y}"

lemma check_subtask_Inr:
  "check_subtask i t = Inr () \<longleftrightarrow> js_trim (sub_id t) \<noteq> [] \<and> js_trim (sub_type t) \<noteq> [] \<and>
     js_trim (sub_description t) \<noteq> [] \<and> (truthy (recommendedAgentId t) \<or> truthy (recommendedCapability t))"
  by (auto simp: check_subtask_def Let_def checks_Inr_iff)

lemma validate_subtasks_Inr:
  "validate_subtasks i seen vs = Inr ts \<Longrightarrow> length ts = length vs \<and> distinct (map sub_id ts) \<and>
     set (map sub_id ts) \<inter> set seen = {} \<and> (\<forall>t \<in> set ts. check_subtask 0 t = Inr ())"
proof (induction i seen vs arbitrary: ts rule: validate_subtasks.induct)
  case (2 i seen v vs)
  then obtain t us where t: "read_subtask v = Inr t" "check_subtask i t = Inr ()" "sub_id t \<notin> set seen"
      and us: "validate_subtasks (Suc i) (sub_id t # seen) vs = Inr us" "ts = t # us"
    by (auto simp: bindE_Inr_iff)
  have "length us = length vs \<and> distinct (map sub_id us) \<and> set (map sub_id us) \<inter> set (sub_id t # seen) = {} \<and>
      (\<forall>t \<in> set us. check_subtask 0 t = Inr ())"
    using t us(1) by (intro 2(1)) simp_all
  with t us(2) show ?case by (auto simp: check_subtask_Inr)
qed simp

lemma validate_decomposition_ok:
  assumes "validate_decomposition vs = Inr ts"
  shows "plan_ok ts"
proof -
  from assms have "vs \<noteq> []" and ts: "validate_subtasks 0 [] vs = Inr ts" "check_subtask_deps ts = Inr ()"
    "findCycle (subtask_nodes ts) = None"
    by (auto simp: validate_decomposition_def bindE_Inr_iff split: option.splits)
  then show ?thesis
    using validate_subtasks_Inr [OF ts(1)]
    by (auto simp: plan_ok_def check_subtask_Inr check_subtask_deps_def findCycle_iff)
qed

text \<open>The task \<open>planFromObjective\<close> sends is accepted whenever its objective is not blank.\<close>

lemma planning_input_accepted:
  "js_trim (po_objective p) \<noteq> [] \<Longrightarrow>
   validateProjectManagerTask (td_input (planning_task p)) = Inr \<lparr>pt_mode = ''decompose'',
     pt_objective = po_objective p, pt_constraints = or_else (po_constraints p) [],
     pt_availableAgents = or_else (po_availableAgents p) (po_participatingAgents p),
     pt_priorResults = [], pt_metadata = []\<rparr>"
  by (simp add: validateProjectManagerTask_def planning_task_def one_of_def MODES_def json_or_def jstrs_def
      requireText_def throw_if_def)

lemma validate_mode_ok:
  "validate_mode raw mode summary rec v = Inr d \<Longrightarrow> pd_mode d = Decompose \<Longrightarrow> plan_ok (pd_subtasks d)"
  by (induction raw mode summary rec v rule: validate_mode.induct)
    (auto simp: bindE_Inr_iff validate_decomposition_ok split: if_splits)

lemma validate_decision_ok:
  "validateProjectManagerDecision v = Inr d \<Longrightarrow> pd_mode d = Decompose \<Longrightarrow> plan_ok (pd_subtasks d)"
  by (auto simp: validateProjectManagerDecision_def bindE_Inr_iff validate_mode_ok)

text \<open>The outcomes of planning.\<close>

lemma adopt_plan_cases:
  assumes "leaves_workflows eng" "all_sound s"
  obtains (rejected) e where "adopt_plan eng pm p task s = (Inl e, s)"
  | (adopted) d w where "task_status task = TCompleted" "validateProjectManagerDecision (task_output task) = Inr d"
      "\<exists>w0 t0. workflow_create (planned_draft p (task_id task) d) s = (Inr w0, t0) \<and> wf_steps UNIV w0 w"
      "mem_findById (wf_id w) (workflows (snd (adopt_plan eng pm p task s))) = Some w"
      "wf_tasks w = map (spec_of \<circ> subtask_spec) (pd_subtasks d)"
      "all_sound (snd (adopt_plan eng pm p task s))"
proof (cases "task_status task = TCompleted")
  case False
  then show thesis by (intro rejected) (simp add: adopt_plan_def)
next
  case True
  show thesis
  proof (cases "validateProjectManagerDecision (task_output task)")
    case (Inl e)
    with True show thesis by (intro rejected [of e]) (simp add: adopt_plan_def bindS_def)
  next
    case (Inr d)
    have run: "adopt_plan eng pm p task s = engine_submit eng (planned_draft p (task_id task) d) s"
      using True Inr by (simp add: adopt_plan_def bindS_def)
    show thesis
    proof (rule submit_cases_engine [OF assms, of "planned_draft p (task_id task) d"])
      fix e assume "engine_submit eng (planned_draft p (task_id task) d) s = (Inl e, s)"
      then show thesis using run by (intro that(1) [of e]) simp
    next
      fix w w' t
      assume created: "workflow_create (planned_draft p (task_id task) d) s = (Inr w, t)"
        and w': "mem_findById (wf_id w) (workflows (snd (engine_submit eng (planned_draft p (task_id task) d) s))) = Some w'"
        "wf_steps UNIV w w'" "wf_tasks w' = map spec_of (wd_tasks (planned_draft p (task_id task) d))"
        "all_sound (snd (engine_submit eng (planned_draft p (task_id task) d) s))"
      have "wf_id w' = wf_id w" using w'(2) by (rule wf_steps_same)
      with w' True Inr run show thesis
        by (intro that(2) [of d w']) (use created w'(2) in \<open>blast | simp add: planned_draft_def\<close>)+
    qed
  qed
qed

lemma all_sound_same: "workflows t = workflows s \<Longrightarrow> all_sound t = all_sound s"
  by (simp add: all_sound_def)

text \<open>
  A plan is adopted: the planning task completed, the validator accepted its output as the decision \<open>d\<close>, and
  the workflow created from that decision is stored, as far as its run brought it.
\<close>

definition plan_adopted ::
  "'x workflow_state_ext registry_state_scheme engine \<Rightarrow> PlanFromObjectiveInput \<Rightarrow> 'x workflow_state_scheme \<Rightarrow>
   ProjectManagerDecision \<Rightarrow> Workflow \<Rightarrow> Workflow repo \<Rightarrow> bool" where
  "plan_adopted eng p s d w ws \<longleftrightarrow>
     (\<exists>task u. submit (eng_orchestrator eng) (planning_task p) None s = (Inr task, u) \<and>
        task_status task = TCompleted \<and> validateProjectManagerDecision (task_output task) = Inr d \<and>
        (\<exists>w0 t0. workflow_create (planned_draft p (task_id task) d) u = (Inr w0, t0) \<and> wf_steps UNIV w0 w)) \<and>
     mem_findById (wf_id w) ws = Some w \<and> wf_tasks w = map (spec_of \<circ> subtask_spec) (pd_subtasks d)"

lemma planFromObjective_cases:
  fixes s :: "'x workflow_state_scheme"
  assumes "leaves_workflows eng" "all_sound s"
  shows "(\<exists>e u. planFromObjective eng pm p depth s = (Inl e, u) \<and> workflows u = workflows s) \<or>
    depth < maxDepth p \<and> registry_has pm s \<and>
    (\<exists>d w. plan_adopted eng p s d w (workflows (snd (planFromObjective eng pm p depth s))) \<and>
       all_sound (snd (planFromObjective eng pm p depth s)))"
proof (cases "depth < maxDepth p \<and> registry_has pm s")
  case False
  then show ?thesis by (auto simp: planFromObjective_def bindS_def)
next
  case True
  obtain r t where sub: "submit (eng_orchestrator eng) (planning_task p) None s = (r, t)" by fastforce
  have "keeps same_workflows (submit (eng_orchestrator eng) (planning_task p) None)"
    by (rule wf_frame_submit) (rule assms(1))
  then have t: "workflows t = workflows s" using sub by (rule keepsD)
  then have sound: "all_sound t" using assms(2) all_sound_same [of t s] by simp
  show ?thesis
  proof (cases r)
    case (Inl e)
    then show ?thesis using True sub t by (auto simp: planFromObjective_def bindS_def)
  next
    case (Inr task)
    then have run: "planFromObjective eng pm p depth s = adopt_plan eng pm p task t"
      using True sub by (simp add: planFromObjective_def bindS_def)
    show ?thesis
    proof (rule adopt_plan_cases [OF assms(1) sound, of pm p task])
      fix e assume "adopt_plan eng pm p task t = (Inl e, t)"
      then show ?thesis using run t by auto
    next
      fix d w
      assume w: "task_status task = TCompleted" "validateProjectManagerDecision (task_output task) = Inr d"
        "\<exists>w0 t0. workflow_create (planned_draft p (task_id task) d) t = (Inr w0, t0) \<and> wf_steps UNIV w0 w"
        "mem_findById (wf_id w) (workflows (snd (adopt_plan eng pm p task t))) = Some w"
        "wf_tasks w = map (spec_of \<circ> subtask_spec) (pd_subtasks d)" "all_sound (snd (adopt_plan eng pm p task t))"
      have "plan_adopted eng p s d w (workflows (snd (adopt_plan eng pm p task t)))"
        using w(1-5) sub Inr unfolding plan_adopted_def by blast
      with w(6) True show ?thesis unfolding run by blast
    qed
  qed
qed

text \<open>What the validator's acceptance means.\<close>

lemma plan_adopted_ok: "plan_adopted eng p s d w ws \<Longrightarrow> pd_mode d = Decompose \<Longrightarrow> plan_ok (pd_subtasks d)"
  unfolding plan_adopted_def using validate_decision_ok by blast

end
