(* ===== verification/Demo_Workflow.thy ===== *)
theory Demo_Workflow
  imports Demo Workflow_Reference Planning
begin

text \<open>Concrete workflows the witnesses evaluate the engine's properties on.\<close>

definition demo_spec :: "string \<Rightarrow> string list \<Rightarrow> WorkflowTaskSpecDraft" where
  "demo_spec i deps = \<lparr>tsd_id = i, tsd_type = ''code'', tsd_description = ''do '' @ i, tsd_agentId = Some ''coder'',
     tsd_capability = None, tsd_dependsOn = Some deps, tsd_acceptanceCriteria = None, tsd_input = JNull,
     tsd_requiredPermissions = None, tsd_expectedTools = None, tsd_priority = None, tsd_metadata = None\<rparr>"

definition demo_workflow_draft :: WorkflowDraft where
  "demo_workflow_draft = \<lparr>wd_name = ''site'', wd_organizationId = Some ''org'', wd_workspaceId = None,
     wd_description = ''build it'', wd_projectId = ''web'', wd_participatingAgents = [''coder''],
     wd_tasks = [demo_spec ''a'' [], demo_spec ''b'' [''a'']], wd_successCriteria = None,
     wd_failureBehavior = None, wd_limits = None, wd_retryPolicy = None, wd_metadata = None\<rparr>"

definition demo_workflow :: Workflow where
  "demo_workflow = (new_workflow demo_workflow_draft ''w1'' 0)\<lparr>wf_status := WRunning\<rparr>"

definition demo_workflow_state :: "workflow_state" where
  "demo_workflow_state = \<lparr>seq = 0, process_tag = ''p'', ticks = 0, time_at = int, events = [], sink_events = [],
     audit_repo = None, tasks = [], approvals = [], handoffs = [], records = [],
     agents = [(''coder'', demo_agent)], instances = [], workflows = [(''w1'', demo_workflow)]\<rparr>"

definition demo_engine :: "workflow_state engine" where
  "demo_engine = \<lparr>eng_orchestrator = \<lparr>localeCompare = code_unit_cmp, selectAgent = selectFirstById code_unit_cmp,
       approvalPolicy = approveNothing, permission_system = None, orch_environment = Local, agentGate = None,
       executor = (\<lambda>a t g c. returnS (JStr ''done''))\<rparr>,
     eng_permissions = [], eng_toolAgents = None\<rparr>"

lemma demo_leaves_workflows: "leaves_workflows demo_engine"
  unfolding leaves_workflows_def demo_engine_def engine.simps orchestrator.simps
  by (intro allI wf_frame.keeps_returnS)

lemma demo_workflow_draft_valid: "validateWorkflowDraft demo_workflow_draft = Inr ()"
  by code_simp

lemma demo_workflow_inv: "wf_inv demo_workflow"
proof -
  have "wf_inv (new_workflow demo_workflow_draft ''w1'' 0)"
    by (rule new_workflow_inv [OF demo_workflow_draft_valid])
  then show ?thesis
    unfolding demo_workflow_def by (rule same_records_inv [rotated])
      (auto intro!: same_records_eq simp: wf_frozen_def new_workflow_def)
qed

lemma demo_workflow_stored: "mem_findById ''w1'' (workflows demo_workflow_state) = Some demo_workflow"
  by (simp add: demo_workflow_state_def mem_findById_def)

lemma demo_workflow_id: "wf_id demo_workflow = ''w1''"
  by (simp add: demo_workflow_def new_workflow_def)

lemma demo_sound: "all_sound demo_workflow_state"
  by (auto simp: all_sound_def demo_workflow_state_def mem_findById_def demo_workflow_inv demo_workflow_id)

lemma demo_workflow_budget: "0 \<le> maxRetries (retryPolicy demo_workflow)" "wf_status demo_workflow = WRunning"
  by (simp_all add: demo_workflow_def new_workflow_def merge_retry_def demo_workflow_draft_def DEFAULT_RETRY_POLICY_def)

lemma demo_submission_stored:
  "\<exists>i w. mem_findById i (workflows (snd (engine_submit demo_engine demo_workflow_draft demo_workflow_state))) = Some w \<and>
     wf_tasks w = map spec_of (wd_tasks demo_workflow_draft)"
proof -
  have room: "int (length (wd_tasks demo_workflow_draft)) \<le> maxTasks (merge_limits (wd_limits demo_workflow_draft))"
    by code_simp
  show ?thesis
    using demo_leaves_workflows demo_sound
  proof (cases rule: submit_cases_engine [of demo_engine demo_workflow_state demo_workflow_draft])
    case (rejected e)
    have "workflow_create demo_workflow_draft demo_workflow_state \<noteq> (Inl e, demo_workflow_state)"
      using room by (simp add: workflow_create_def demo_workflow_draft_valid op_simps now_def createId_eq
          upsert_workflow_def Let_def)
    with rejected(2) show ?thesis by simp
  qed blast
qed

text \<open>An objective and a planner's decision with two subtasks.\<close>

definition demo_objective :: PlanFromObjectiveInput where
  "demo_objective = \<lparr>po_name = ''site'', po_description = ''build it'', po_organizationId = Some ''org'',
     po_workspaceId = None, po_projectId = ''web'', po_participatingAgents = [''coder''],
     po_objective = ''a page'', po_constraints = None, po_availableAgents = None, po_successCriteria = None,
     po_failureBehavior = None, po_limits = None, po_retryPolicy = None, po_metadata = None\<rparr>"

definition demo_decision :: json where
  "demo_decision = JObj [(''mode'', JStr ''decompose''), (''summary'', JStr ''two steps''),
     (''createdAt'', JStr ''2026''), (''recommendation'', JStr ''proceed''),
     (''subtasks'', JArr
       [JObj [(''id'', JStr ''a''), (''type'', JStr ''code''), (''description'', JStr ''write''),
          (''recommendedAgentId'', JStr ''coder''), (''dependsOn'', JArr [])],
        JObj [(''id'', JStr ''b''), (''type'', JStr ''code''), (''description'', JStr ''test''),
          (''recommendedAgentId'', JStr ''coder''), (''dependsOn'', JArr [JStr ''a''])]])]"

lemma demo_decision_ok: "\<exists>d. validateProjectManagerDecision demo_decision = Inr d \<and> plan_ok (pd_subtasks d)"
proof -
  have "case validateProjectManagerDecision demo_decision of Inl e \<Rightarrow> False | Inr d \<Rightarrow> pd_mode d = Decompose"
    by code_simp
  then show ?thesis using validate_decision_ok by (auto split: sum.splits)
qed

end
