(* ===== verification/Tools.thy ===== *)
theory Tools
  imports Json Human_Decision
begin

text \<open>
  \<open>contracts/tools.ts\<close>, \<open>core/tools/tool-policy.ts\<close> and \<open>core/tools/tool-registry.ts\<close>: tool
  definitions, their validation, the policy predicates and the registry. A schema validator is a
  function of the model; a handler is code outside the core and belongs to the engine.
\<close>

section \<open>Definitions and requests\<close>

datatype ToolExecutionStatus = ToolSuccess | ToolFailure | ToolTimeout | ToolDenied | ToolApprovalRequired

datatype ToolFailureReason =
    InvalidRequest | UnknownTool | AgentNotAllowed | ProjectNotAllowed | EnvironmentNotAllowed
  | PermissionDenied | ApprovalRejected | ApprovalExpired | InputTooLarge | OutputTooLarge
  | CallLimitExceeded | ToolError | Timeout | MalformedResult | InternalError

fun failure_reason_str :: "ToolFailureReason \<Rightarrow> string" where
  "failure_reason_str InvalidRequest = ''invalid_request''"
| "failure_reason_str UnknownTool = ''unknown_tool''"
| "failure_reason_str AgentNotAllowed = ''agent_not_allowed''"
| "failure_reason_str ProjectNotAllowed = ''project_not_allowed''"
| "failure_reason_str EnvironmentNotAllowed = ''environment_not_allowed''"
| "failure_reason_str PermissionDenied = ''permission_denied''"
| "failure_reason_str ApprovalRejected = ''approval_rejected''"
| "failure_reason_str ApprovalExpired = ''approval_expired''"
| "failure_reason_str InputTooLarge = ''input_too_large''"
| "failure_reason_str OutputTooLarge = ''output_too_large''"
| "failure_reason_str CallLimitExceeded = ''call_limit_exceeded''"
| "failure_reason_str ToolError = ''tool_error''"
| "failure_reason_str Timeout = ''timeout''"
| "failure_reason_str MalformedResult = ''malformed_result''"
| "failure_reason_str InternalError = ''internal_error''"

definition TOOL_WILDCARD :: string where
  "TOOL_WILDCARD = ''*''"

record ToolExecutionLimits =
  maxCallsPerTask :: int
  maxCallsPerAgent :: int
  tl_maxDurationMs :: int
  maxInputBytes :: int
  maxOutputBytes :: int

definition DEFAULT_TOOL_LIMITS :: ToolExecutionLimits where
  "DEFAULT_TOOL_LIMITS = \<lparr>maxCallsPerTask = 25, maxCallsPerAgent = 200, tl_maxDurationMs = 30000,
     maxInputBytes = 64 * 1024, maxOutputBytes = 1024 * 1024\<rparr>"

record ToolApprovalRule =
  rule_always :: bool
  rule_environments :: "Environment list option"
  rule_actions :: "PermissionAction list option"
  rule_reason :: "string option"

type_synonym ToolSchemaValidator = "json \<Rightarrow> unit res"

record Tool =
  tool_id :: string
  tool_name :: string
  tool_description :: string
  tool_version :: string
  tool_capabilities :: "string list"
  tool_action :: PermissionAction
  approvalRule :: "ToolApprovalRule option"
  tool_allowedAgents :: "string list"
  tool_allowedProjects :: "string list"
  tool_allowedEnvironments :: "Environment list"
  timeoutMs :: int
  tool_limits :: ToolExecutionLimits
  inputSchema :: "ToolSchemaValidator option"
  outputSchema :: "ToolSchemaValidator option"
  tool_metadata :: fields

record ToolExecutionContext =
  cx_requestId :: string
  cx_taskId :: string
  cx_agentId :: string
  cx_projectId :: string
  cx_environment :: Environment
  deadlineMs :: int

record ToolExecutionRequest =
  tq_requestId :: string
  tq_taskId :: string
  tq_agentId :: string
  tq_projectId :: string
  tq_toolId :: string
  tq_action :: PermissionAction
  tq_input :: json
  tq_environment :: Environment
  requestedAt :: timestamp
  tq_metadata :: fields

record ToolExecutionRequestDraft =
  tqd_taskId :: string
  tqd_agentId :: string
  tqd_projectId :: string
  tqd_toolId :: string
  tqd_action :: "PermissionAction option"
  tqd_input :: json
  tqd_environment :: "Environment option"
  tqd_metadata :: "fields option"

record ToolExecutionError =
  te_reason :: ToolFailureReason
  te_message :: string
  te_details :: fields

record ToolExecutionResult =
  tr_requestId :: string
  tr_toolId :: string
  tr_taskId :: string
  tr_status :: ToolExecutionStatus
  tr_output :: json
  tr_error :: "ToolExecutionError option"
  tr_approvalId :: "string option"
  tr_durationMs :: int
  tr_timestamp :: timestamp
  tr_metadata :: fields

section \<open>Validation\<close>

definition positive :: "int \<Rightarrow> string \<Rightarrow> unit res" where
  "positive n field = throw_if (n \<le> 0) (ValidationError (field @ '' must be a positive integer''))"

definition validateToolExecutionLimits :: "ToolExecutionLimits \<Rightarrow> unit res" where
  "validateToolExecutionLimits l = checks
     [positive (maxCallsPerTask l) ''tool.limits.maxCallsPerTask'',
      positive (maxCallsPerAgent l) ''tool.limits.maxCallsPerAgent'',
      positive (tl_maxDurationMs l) ''tool.limits.maxDurationMs'',
      positive (maxInputBytes l) ''tool.limits.maxInputBytes'',
      positive (maxOutputBytes l) ''tool.limits.maxOutputBytes'']"

text \<open>The checks that the static types do not already make.\<close>

definition validateToolDefinition :: "Tool \<Rightarrow> unit res" where
  "validateToolDefinition t = checks
     [requireText (tool_id t) ''tool.id'',
      requireText (tool_name t) ''tool.name'',
      requireText (tool_description t) ''tool.description'',
      requireText (tool_version t) ''tool.version'',
      throw_if (length (tool_capabilities t) = 0) (ValidationError ''tool.capabilities must be a non-empty array''),
      throw_if (length (tool_allowedEnvironments t) = 0)
        (ValidationError ''tool.allowedEnvironments must be a non-empty array''),
      positive (timeoutMs t) ''tool.timeoutMs'',
      validateToolExecutionLimits (tool_limits t)]"

definition validateToolExecutionRequest :: "ToolExecutionRequest \<Rightarrow> unit res" where
  "validateToolExecutionRequest r = checks
     [requireText (tq_requestId r) ''toolRequest.requestId'',
      requireText (tq_taskId r) ''toolRequest.taskId'',
      requireText (tq_agentId r) ''toolRequest.agentId'',
      requireText (tq_projectId r) ''toolRequest.projectId'',
      requireText (tq_toolId r) ''toolRequest.toolId'']"

definition toolPermissionRequest :: "ToolExecutionRequest \<Rightarrow> PermissionRequest" where
  "toolPermissionRequest r = \<lparr>req_action = tq_action r, req_agentId = tq_agentId r,
     req_projectId = tq_projectId r, req_toolId = Some (tq_toolId r), req_environment = tq_environment r\<rparr>"

section \<open>Policy\<close>

definition agentAllowed :: "Tool \<Rightarrow> string \<Rightarrow> bool" where
  "agentAllowed t a \<longleftrightarrow> TOOL_WILDCARD \<in> set (tool_allowedAgents t) \<or> a \<in> set (tool_allowedAgents t)"

definition projectAllowed :: "Tool \<Rightarrow> string \<Rightarrow> bool" where
  "projectAllowed t p \<longleftrightarrow> TOOL_WILDCARD \<in> set (tool_allowedProjects t) \<or> p \<in> set (tool_allowedProjects t)"

definition environmentAllowed :: "Tool \<Rightarrow> Environment \<Rightarrow> bool" where
  "environmentAllowed t e \<longleftrightarrow> e \<in> set (tool_allowedEnvironments t)"

definition toolApprovalRequired :: "Tool \<Rightarrow> ToolExecutionRequest \<Rightarrow> bool \<times> string" where
  "toolApprovalRequired t r = (case approvalRule t of
     None \<Rightarrow> (False, ''no approval policy'')
   | Some rule \<Rightarrow>
       if rule_always rule then (True, or_else (rule_reason rule) ''tool always requires approval'')
       else if tq_environment r \<in> set (or_else (rule_environments rule) [])
       then (True, or_else (rule_reason rule) (''approval required in '' @ environment_str (tq_environment r)))
       else if tq_action r \<in> set (or_else (rule_actions rule) [])
       then (True, or_else (rule_reason rule)
               (''approval required for action \"'' @ action_str (tq_action r) @ ''\"''))
       else (False, ''approval policy not triggered''))"

section \<open>The registry\<close>

record PendingApproval =
  pa_request :: ToolExecutionRequest
  pa_approvalId :: string

record tool_state = registry_state +
  toolset :: "(string \<times> Tool) list"
  taskCalls :: "(string \<times> int) list"
  agentCalls :: "(string \<times> int) list"
  pendingApprovals :: "(string \<times> PendingApproval) list"

text \<open>The audit log of the registry is optional.\<close>

definition audit_tool :: "bool \<Rightarrow> fields \<Rightarrow> ('x tool_state_scheme, unit) op" where
  "audit_tool audited data = (if audited then audit ''tool_registered'' None None None data else returnS ())"

definition tool_register :: "bool \<Rightarrow> Tool \<Rightarrow> ('x tool_state_scheme, Tool) op" where
  "tool_register audited t = thenS (liftE (validateToolDefinition t))
     (bindS (getsS (\<lambda>s. map_of (toolset s) (tool_id t))) (\<lambda>existing.
      if existing \<noteq> None then throwS (ValidationError (''tool already registered: '' @ tool_id t))
      else thenS (modifyS (\<lambda>s. s\<lparr>toolset := map_set (tool_id t) t (toolset s)\<rparr>))
        (thenS (audit_tool audited [(''toolId'', JStr (tool_id t)), (''version'', JStr (tool_version t)),
           (''capabilities'', jstrs (tool_capabilities t)), (''action'', JStr ''register'')])
         (returnS t))))"

definition tool_require :: "string \<Rightarrow> ('x tool_state_scheme, Tool) op" where
  "tool_require i s = (case map_of (toolset s) i of
     None \<Rightarrow> (Inl (NotFoundError (''unknown tool: '' @ i)), s)
   | Some t \<Rightarrow> (Inr t, s))"

definition tool_has :: "string \<Rightarrow> 'x tool_state_scheme \<Rightarrow> bool" where
  "tool_has i s \<longleftrightarrow> map_of (toolset s) i \<noteq> None"

definition tool_get :: "string \<Rightarrow> 'x tool_state_scheme \<Rightarrow> Tool option" where
  "tool_get i s = map_of (toolset s) i"

text \<open>The public view: everything but the handler and the schema functions.\<close>

record ToolMetadataView =
  tv_id :: string
  tv_name :: string
  tv_description :: string
  tv_version :: string
  tv_capabilities :: "string list"
  tv_action :: PermissionAction
  tv_approvalPolicy :: "ToolApprovalRule option"
  tv_allowedAgents :: "string list"
  tv_allowedProjects :: "string list"
  tv_allowedEnvironments :: "Environment list"
  tv_timeoutMs :: int
  tv_limits :: ToolExecutionLimits
  tv_metadata :: fields

definition tool_describe :: "string \<Rightarrow> ('x tool_state_scheme, ToolMetadataView) op" where
  "tool_describe i = bindS (tool_require i) (\<lambda>t. returnS
     \<lparr>tv_id = tool_id t, tv_name = tool_name t, tv_description = tool_description t,
      tv_version = tool_version t, tv_capabilities = tool_capabilities t, tv_action = tool_action t,
      tv_approvalPolicy = approvalRule t, tv_allowedAgents = tool_allowedAgents t,
      tv_allowedProjects = tool_allowedProjects t, tv_allowedEnvironments = tool_allowedEnvironments t,
      tv_timeoutMs = timeoutMs t, tv_limits = tool_limits t, tv_metadata = tool_metadata t\<rparr>)"

text \<open>The changes are a function on the definition; whatever they do to the id is undone.\<close>

definition tool_update :: "bool \<Rightarrow> string \<Rightarrow> (Tool \<Rightarrow> Tool) \<Rightarrow> ('x tool_state_scheme, Tool) op" where
  "tool_update audited i changes = bindS (tool_require i) (\<lambda>t.
     let next = (changes t)\<lparr>tool_id := tool_id t\<rparr> in
     thenS (liftE (validateToolDefinition next))
     (thenS (modifyS (\<lambda>s. s\<lparr>toolset := map_set i next (toolset s)\<rparr>))
     (thenS (audit_tool audited [(''toolId'', JStr i), (''version'', JStr (tool_version next)),
        (''action'', JStr ''update'')])
     (returnS next))))"

definition tool_list :: "(string \<Rightarrow> string \<Rightarrow> int) \<Rightarrow> 'x tool_state_scheme \<Rightarrow> Tool list" where
  "tool_list lc s = js_sort (\<lambda>a b. lc (tool_id a) (tool_id b)) (map snd (toolset s))"

definition tool_byCapability :: "(string \<Rightarrow> string \<Rightarrow> int) \<Rightarrow> string \<Rightarrow> 'x tool_state_scheme \<Rightarrow> Tool list" where
  "tool_byCapability lc c s = filter (\<lambda>t. c \<in> set (tool_capabilities t)) (tool_list lc s)"

definition eligibleForAgent :: "string \<Rightarrow> string \<Rightarrow> ('x tool_state_scheme, bool) op" where
  "eligibleForAgent i a = bindS (tool_require i) (\<lambda>t. returnS (agentAllowed t a))"

definition eligibleForProject :: "string \<Rightarrow> string \<Rightarrow> ('x tool_state_scheme, bool) op" where
  "eligibleForProject i p = bindS (tool_require i) (\<lambda>t. returnS (projectAllowed t p))"

text \<open>Every registered tool is valid and stored under its own id.\<close>

definition tools_valid :: "'x tool_state_scheme \<Rightarrow> bool" where
  "tools_valid s \<longleftrightarrow> (\<forall>i t. map_of (toolset s) i = Some t \<longrightarrow> tool_id t = i \<and> validateToolDefinition t = Inr ())"

lemma toolset_audit_tool [simp]: "toolset (snd (audit_tool b d s)) = toolset s"
  by (simp add: audit_tool_def audit_def record_event_def op_simps Let_def)

lemma audit_tool_ok: "\<exists>t. audit_tool b d s = (Inr (), t) \<and> toolset t = toolset s"
proof (intro exI conjI)
  show "audit_tool b d s = (Inr (), snd (audit_tool b d s))"
    by (rule prod_eqI) (simp_all add: audit_tool_def)
qed simp

lemma tool_register_cases:
  obtains (rejected) e where "tool_register audited t s = (Inl e, s)"
  | (registered) u where "tool_register audited t s = (Inr t, u)" "validateToolDefinition t = Inr ()"
      "map_of (toolset s) (tool_id t) = None" "toolset u = map_set (tool_id t) t (toolset s)"
proof (cases "validateToolDefinition t")
  case (Inl e)
  then show thesis by (intro rejected [of e]) (simp add: tool_register_def op_simps)
next
  case (Inr v)
  show thesis
  proof (cases "map_of (toolset s) (tool_id t)")
    case None
    let ?s = "s\<lparr>toolset := map_set (tool_id t) t (toolset s)\<rparr>"
    obtain u where "audit_tool audited [(''toolId'', JStr (tool_id t)), (''version'', JStr (tool_version t)),
           (''capabilities'', jstrs (tool_capabilities t)), (''action'', JStr ''register'')] ?s = (Inr (), u)"
        "toolset u = toolset ?s"
      using audit_tool_ok by blast
    with None Inr show thesis
      by (intro registered [of u]) (simp_all add: tool_register_def op_simps)
  next
    case (Some x)
    with Inr show thesis by (intro rejected) (simp add: tool_register_def op_simps)
  qed
qed

lemma tool_update_cases:
  obtains (rejected) e where "tool_update audited i f s = (Inl e, s)"
  | (updated) t u where "tool_update audited i f s = (Inr ((f t)\<lparr>tool_id := tool_id t\<rparr>), u)"
      "map_of (toolset s) i = Some t" "validateToolDefinition ((f t)\<lparr>tool_id := tool_id t\<rparr>) = Inr ()"
      "toolset u = map_set i ((f t)\<lparr>tool_id := tool_id t\<rparr>) (toolset s)"
proof (cases "map_of (toolset s) i")
  case None
  then show thesis by (intro rejected) (simp add: tool_update_def tool_require_def op_simps)
next
  case (Some t)
  let ?n = "(f t)\<lparr>tool_id := tool_id t\<rparr>" and ?s = "s\<lparr>toolset := map_set i ((f t)\<lparr>tool_id := tool_id t\<rparr>) (toolset s)\<rparr>"
  show thesis
  proof (cases "validateToolDefinition ?n")
    case (Inl e)
    with Some show thesis by (intro rejected [of e]) (simp add: tool_update_def tool_require_def op_simps Let_def)
  next
    case (Inr v)
    obtain u where "audit_tool audited [(''toolId'', JStr i), (''version'', JStr (tool_version ?n)),
        (''action'', JStr ''update'')] ?s = (Inr (), u)" "toolset u = toolset ?s"
      using audit_tool_ok by blast
    with Some Inr show thesis
      by (intro updated [of t u]) (simp_all add: tool_update_def tool_require_def op_simps Let_def)
  qed
qed

lemma tools_valid_register: "tools_valid s \<Longrightarrow> tools_valid (snd (tool_register audited t s))"
  by (cases rule: tool_register_cases [of audited t s]) (auto simp: tools_valid_def AList.update_conv')

lemma tools_valid_update:
  assumes "tools_valid s"
  shows "tools_valid (snd (tool_update audited i f s))"
proof (cases rule: tool_update_cases [of audited i f s])
  case (updated t u)
  then have "tool_id t = i" using assms by (simp add: tools_valid_def)
  with updated assms show ?thesis by (auto simp: tools_valid_def AList.update_conv')
qed (use assms in simp)

lemma update_keeps_id:
  "tool_update audited i f s = (Inr n, u) \<Longrightarrow> tools_valid s \<Longrightarrow> tool_id n = i \<and> map_of (toolset u) i = Some n"
  by (cases rule: tool_update_cases [of audited i f s]) (auto simp: tools_valid_def AList.update_conv')

lemma valid_tool_limits:
  "validateToolDefinition t = Inr () \<Longrightarrow>
   0 < timeoutMs t \<and> 0 < maxCallsPerTask (tool_limits t) \<and> 0 < maxCallsPerAgent (tool_limits t) \<and>
   0 < tl_maxDurationMs (tool_limits t) \<and> 0 < maxInputBytes (tool_limits t) \<and> 0 < maxOutputBytes (tool_limits t)"
  by (auto simp: validateToolDefinition_def validateToolExecutionLimits_def positive_def checks_Inr_iff)

end
