(* ===== verification/Tool_Engine.thy ===== *)
theory Tool_Engine
  imports Tools
begin

text \<open>
  \<open>core/tools/tool-execution-engine.ts\<close>: the pipeline of a tool call. The tool handlers are code
  outside the core: a handler changes the state and settles after some milliseconds, or never
  does; what it does after a timeout is part of its effect on the state.
\<close>

datatype handler_run = Settles int "json res" | Hangs

record PartialToolLimits =
  ptl_maxCallsPerTask :: "int option"
  ptl_maxCallsPerAgent :: "int option"
  ptl_maxDurationMs :: "int option"
  ptl_maxInputBytes :: "int option"
  ptl_maxOutputBytes :: "int option"

record 's tool_engine =
  te_permissions :: "PermissionGrant list"
  te_ceiling :: PartialToolLimits
  te_requestedBy :: string
  te_handler :: "string \<Rightarrow> json \<Rightarrow> ToolExecutionContext \<Rightarrow> 's \<Rightarrow> handler_run \<times> 's"

definition effectiveLimits :: "PartialToolLimits \<Rightarrow> ToolExecutionLimits \<Rightarrow> ToolExecutionLimits" where
  "effectiveLimits c t =
     \<lparr>maxCallsPerTask = min (maxCallsPerTask t) (or_else (ptl_maxCallsPerTask c) (maxCallsPerTask t)),
      maxCallsPerAgent = min (maxCallsPerAgent t) (or_else (ptl_maxCallsPerAgent c) (maxCallsPerAgent t)),
      tl_maxDurationMs = min (tl_maxDurationMs t) (or_else (ptl_maxDurationMs c) (tl_maxDurationMs t)),
      maxInputBytes = min (maxInputBytes t) (or_else (ptl_maxInputBytes c) (maxInputBytes t)),
      maxOutputBytes = min (maxOutputBytes t) (or_else (ptl_maxOutputBytes c) (maxOutputBytes t))\<rparr>"

text \<open>\<open>byteLength\<close>: the UTF-8 length of the JSON rendering.\<close>

definition byteLength :: "json \<Rightarrow> int" where
  "byteLength v = (case json_stringify v of None \<Rightarrow> 0 | Some s \<Rightarrow> int (utf8_length s))"

text \<open>
  \<open>setTimeout\<close> holds its delay in a signed 32-bit integer; a longer one becomes one
  millisecond. The timer is set before the handler starts, so it wins a tie.
\<close>

definition timer_delay :: "int \<Rightarrow> int" where
  "timer_delay ms = (if ms > 2147483647 \<or> ms < 1 then 1 else ms)"

datatype call_outcome = CallReturned json | CallFailed error | CallTimedOut

definition withTimeout :: "handler_run \<Rightarrow> int \<Rightarrow> call_outcome" where
  "withTimeout run ms = (case run of Hangs \<Rightarrow> CallTimedOut
     | Settles d r \<Rightarrow> if d < timer_delay ms
         then (case r of Inl e \<Rightarrow> CallFailed e | Inr v \<Rightarrow> CallReturned v)
         else CallTimedOut)"

definition taskKey :: "ToolExecutionRequest \<Rightarrow> string" where
  "taskKey r = tq_taskId r @ ''::'' @ tq_toolId r"

definition agentKey_tool :: "ToolExecutionRequest \<Rightarrow> string" where
  "agentKey_tool r = tq_agentId r @ ''::'' @ tq_toolId r"

definition call_count :: "(string \<times> int) list \<Rightarrow> string \<Rightarrow> int" where
  "call_count m k = or_else (map_of m k) 0"

definition bump :: "string \<Rightarrow> (string \<times> int) list \<Rightarrow> (string \<times> int) list" where
  "bump k m = map_set k (call_count m k + 1) m"

section \<open>Results\<close>

definition tool_emit :: "ToolExecutionRequest \<Rightarrow> string \<Rightarrow> fields \<Rightarrow> ('x tool_state_scheme, unit) op" where
  "tool_emit r phase data = audit ''tool_execution'' (Some (tq_taskId r)) (Some (tq_agentId r)) (Some (tq_projectId r))
     (spread [(''phase'', JStr phase), (''requestId'', JStr (tq_requestId r)), (''toolId'', JStr (tq_toolId r))] data)"

definition result_for ::
  "ToolExecutionRequest \<Rightarrow> ToolExecutionStatus \<Rightarrow> ToolExecutionError option \<Rightarrow> int \<Rightarrow> timestamp \<Rightarrow> ToolExecutionResult" where
  "result_for r st e dur at = \<lparr>tr_requestId = tq_requestId r, tr_toolId = tq_toolId r, tr_taskId = tq_taskId r,
     tr_status = st, tr_output = JUndefined, tr_error = e, tr_approvalId = None, tr_durationMs = dur,
     tr_timestamp = at, tr_metadata = []\<rparr>"

definition finish ::
  "ToolExecutionRequest \<Rightarrow> timestamp \<Rightarrow> ToolExecutionStatus \<Rightarrow> ToolFailureReason \<Rightarrow> string \<Rightarrow> fields \<Rightarrow>
   ('x tool_state_scheme, ToolExecutionResult) op" where
  "finish r started st reason msg details = bindS now (\<lambda>t. bindS now (\<lambda>at. returnS
     (result_for r st (Some \<lparr>te_reason = reason, te_message = msg, te_details = details\<rparr>) (t - started) at)))"

definition deny ::
  "ToolExecutionRequest \<Rightarrow> timestamp \<Rightarrow> ToolFailureReason \<Rightarrow> string \<Rightarrow> ('x tool_state_scheme, ToolExecutionResult) op" where
  "deny r started reason msg =
     thenS (tool_emit r ''denied'' [(''reason'', JStr (failure_reason_str reason)), (''message'', JStr msg)])
     (finish r started ToolDenied reason msg [])"

definition limitExceeded ::
  "ToolExecutionRequest \<Rightarrow> timestamp \<Rightarrow> ToolFailureReason \<Rightarrow> fields \<Rightarrow> ('x tool_state_scheme, ToolExecutionResult) op" where
  "limitExceeded r started reason details =
     thenS (tool_emit r ''limit_exceeded'' ((''reason'', JStr (failure_reason_str reason)) # details))
     (finish r started ToolFailure reason
        (''execution limit exceeded ('' @ failure_reason_str reason @ '')'') details)"

definition schema_ok :: "ToolSchemaValidator option \<Rightarrow> json \<Rightarrow> unit res" where
  "schema_ok schema v = (case schema of None \<Rightarrow> Inr () | Some f \<Rightarrow> f v)"

definition malformed ::
  "ToolExecutionRequest \<Rightarrow> timestamp \<Rightarrow> string \<Rightarrow> error \<Rightarrow> ('x tool_state_scheme, ToolExecutionResult) op" where
  "malformed r started what e = thenS (tool_emit r ''failed'' [(''reason'', JStr ''malformed_result'')])
     (finish r started ToolFailure MalformedResult (what @ message e) [])"

section \<open>Running a tool\<close>

definition deliver ::
  "ToolExecutionRequest \<Rightarrow> Tool \<Rightarrow> timestamp \<Rightarrow> int \<Rightarrow> json \<Rightarrow> ('x tool_state_scheme, ToolExecutionResult) op" where
  "deliver r t started elapsed output =
     thenS (tool_emit r ''completed'' [(''durationMs'', JNum elapsed), (''outputBytes'', JNum (byteLength output))])
     (bindS now (\<lambda>t1. bindS now (\<lambda>at. returnS ((result_for r ToolSuccess None (t1 - started) at)
        \<lparr>tr_toolId := tool_id t, tr_output := output,
         tr_metadata := [(''toolVersion'', JStr (tool_version t)), (''callDurationMs'', JNum elapsed)]\<rparr>))))"

definition check_output ::
  "ToolExecutionRequest \<Rightarrow> Tool \<Rightarrow> ToolExecutionLimits \<Rightarrow> timestamp \<Rightarrow> int \<Rightarrow> json \<Rightarrow>
   ('x tool_state_scheme, ToolExecutionResult) op" where
  "check_output r t limits started elapsed output =
     (if byteLength output > maxOutputBytes limits
      then thenS (tool_emit r ''failed'' [(''reason'', JStr ''output_too_large''), (''outputBytes'', JNum (byteLength output))])
        (finish r started ToolFailure OutputTooLarge
          (''output '' @ show_int (byteLength output) @ '' bytes exceeds '' @ show_int (maxOutputBytes limits))
          [(''outputBytes'', JNum (byteLength output)), (''max'', JNum (maxOutputBytes limits))])
      else case schema_ok (outputSchema t) output of
        Inl e \<Rightarrow> malformed r started ''output schema rejected the result: '' e
      | Inr _ \<Rightarrow> deliver r t started elapsed output)"

definition settle_call ::
  "ToolExecutionRequest \<Rightarrow> Tool \<Rightarrow> ToolExecutionLimits \<Rightarrow> timestamp \<Rightarrow> int \<Rightarrow> timestamp \<Rightarrow> call_outcome \<Rightarrow>
   ('x tool_state_scheme, ToolExecutionResult) op" where
  "settle_call r t limits started ms callStart outcome = (case outcome of
     CallTimedOut \<Rightarrow> thenS (tool_emit r ''timeout'' [(''timeoutMs'', JNum ms)])
       (finish r started ToolTimeout Timeout (''tool timed out after '' @ show_int ms @ ''ms'') [(''timeoutMs'', JNum ms)])
   | CallFailed e \<Rightarrow> thenS (tool_emit r ''failed'' [(''error'', JStr (message e))])
       (finish r started ToolFailure ToolError (message e) [])
   | CallReturned output \<Rightarrow> bindS now (\<lambda>t1. let elapsed = t1 - callStart in
       if elapsed > ms
       then thenS (tool_emit r ''timeout'' [(''timeoutMs'', JNum ms), (''elapsed'', JNum elapsed)])
         (finish r started ToolTimeout Timeout
           (''tool exceeded '' @ show_int ms @ ''ms (took '' @ show_int elapsed @ ''ms)'')
           [(''timeoutMs'', JNum ms), (''elapsed'', JNum elapsed)])
       else check_output r t limits started elapsed output))"

definition context_of :: "ToolExecutionRequest \<Rightarrow> timestamp \<Rightarrow> ToolExecutionContext" where
  "context_of r deadline = \<lparr>cx_requestId = tq_requestId r, cx_taskId = tq_taskId r, cx_agentId = tq_agentId r,
     cx_projectId = tq_projectId r, cx_environment = tq_environment r, deadlineMs = deadline\<rparr>"

definition call_handler ::
  "'s tool_engine \<Rightarrow> string \<Rightarrow> json \<Rightarrow> ToolExecutionContext \<Rightarrow> ('s, handler_run) op" where
  "call_handler eng toolId input ctx s = (let (run, t) = te_handler eng toolId input ctx s in (Inr run, t))"

definition runTool ::
  "'x tool_state_ext registry_state_scheme tool_engine \<Rightarrow> ToolExecutionRequest \<Rightarrow> Tool \<Rightarrow> timestamp \<Rightarrow>
   ('x tool_state_scheme, ToolExecutionResult) op" where
  "runTool eng r t started =
     (let limits = effectiveLimits (te_ceiling eng) (tool_limits t);
          ms = min (timeoutMs t) (tl_maxDurationMs limits) in
      thenS (modifyS (\<lambda>s. s\<lparr>taskCalls := bump (taskKey r) (taskCalls s),
                            agentCalls := bump (agentKey_tool r) (agentCalls s)\<rparr>))
      (case schema_ok (inputSchema t) (tq_input r) of
         Inl e \<Rightarrow> malformed r started ''input schema rejected the request: '' e
       | Inr _ \<Rightarrow>
           thenS (tool_emit r ''executing'' [(''timeoutMs'', JNum ms)])
           (bindS now (\<lambda>at.
            bindS now (\<lambda>callStart.
            bindS (call_handler eng (tool_id t) (tq_input r) (context_of r (at + ms))) (\<lambda>run.
            settle_call r t limits started ms callStart (withTimeout run ms)))))))"

section \<open>The pipeline\<close>

text \<open>Every check before the permission decision: the reason of the first that fails.\<close>

datatype gate = Denied ToolFailureReason string | Exceeded ToolFailureReason fields | Passed

definition gates :: "ToolExecutionLimits \<Rightarrow> ToolExecutionRequest \<Rightarrow> Tool \<Rightarrow> 'x tool_state_scheme \<Rightarrow> gate" where
  "gates limits r t s =
     (if \<not> agentAllowed t (tq_agentId r)
      then Denied AgentNotAllowed (''agent \"'' @ tq_agentId r @ ''\" may not use tool \"'' @ tool_id t @ ''\"'')
      else if \<not> projectAllowed t (tq_projectId r)
      then Denied ProjectNotAllowed (''project \"'' @ tq_projectId r @ ''\" may not use tool \"'' @ tool_id t @ ''\"'')
      else if \<not> environmentAllowed t (tq_environment r)
      then Denied EnvironmentNotAllowed (''tool \"'' @ tool_id t @ ''\" is not allowed in environment \"''
             @ environment_str (tq_environment r) @ ''\"'')
      else if byteLength (tq_input r) > maxInputBytes limits
      then Exceeded InputTooLarge [(''inputBytes'', JNum (byteLength (tq_input r))), (''max'', JNum (maxInputBytes limits))]
      else if call_count (taskCalls s) (taskKey r) \<ge> maxCallsPerTask limits
      then Exceeded CallLimitExceeded [(''scope'', JStr ''task''), (''max'', JNum (maxCallsPerTask limits))]
      else if call_count (agentCalls s) (agentKey_tool r) \<ge> maxCallsPerAgent limits
      then Exceeded CallLimitExceeded [(''scope'', JStr ''agent''), (''max'', JNum (maxCallsPerAgent limits))]
      else Passed)"

definition park_call ::
  "'s tool_engine \<Rightarrow> ToolExecutionRequest \<Rightarrow> Tool \<Rightarrow> timestamp \<Rightarrow> string \<Rightarrow>
   ('x tool_state_scheme, ToolExecutionResult) op" where
  "park_call eng r t started reason =
     bindS (approval_request
       \<lparr>ad_action = ''tool:'' @ tool_id t @ '':'' @ action_str (tq_action r),
        ad_requestedBy = te_requestedBy eng @ '':'' @ tq_agentId r, ad_reason = reason, ad_expiresAt = None,
        ad_metadata = Some [(''taskId'', JStr (tq_taskId r)), (''requestId'', JStr (tq_requestId r)),
          (''toolId'', JStr (tool_id t)), (''projectId'', JStr (tq_projectId r))]\<rparr>) (\<lambda>rec.
     thenS (audit ''approval_requested'' (Some (tq_taskId r)) (Some (tq_agentId r)) (Some (tq_projectId r))
       [(''approvalId'', JStr (approval_id rec)), (''toolId'', JStr (tool_id t)),
        (''action'', JStr (action_str (tq_action r))), (''reason'', JStr reason)])
     (thenS (tool_emit r ''approval_required'' [(''approvalId'', JStr (approval_id rec))])
     (thenS (modifyS (\<lambda>s. s\<lparr>pendingApprovals := map_set (tq_requestId r)
        \<lparr>pa_request = r, pa_approvalId = approval_id rec\<rparr> (pendingApprovals s)\<rparr>))
     (bindS now (\<lambda>t1. bindS now (\<lambda>at. returnS ((result_for r ToolApprovalRequired None (t1 - started) at)
        \<lparr>tr_toolId := tool_id t, tr_approvalId := Some (approval_id rec),
         tr_metadata := [(''reason'', JStr reason)]\<rparr>)))))))"

definition permission_data :: "ToolExecutionRequest \<Rightarrow> Tool \<Rightarrow> PermissionDecision \<Rightarrow> fields" where
  "permission_data r t d = [(''toolId'', JStr (tool_id t)), (''action'', JStr (action_str (tq_action r))),
     (''environment'', JStr (environment_str (tq_environment r))), (''allowed'', JBool (allowed d)),
     (''reason'', JStr (decision_reason d)), (''via'', JStr ''tool-execution-engine'')]"

definition authorize ::
  "'x tool_state_ext registry_state_scheme tool_engine \<Rightarrow> ToolExecutionRequest \<Rightarrow> Tool \<Rightarrow> timestamp \<Rightarrow>
   ('x tool_state_scheme, ToolExecutionResult) op" where
  "authorize eng r t started =
     (let d = evaluate (te_permissions eng) (toolPermissionRequest r) in
      thenS (audit ''permission_decision'' (Some (tq_taskId r)) (Some (tq_agentId r)) (Some (tq_projectId r))
        (permission_data r t d))
      (if \<not> allowed d then deny r started PermissionDenied (decision_reason d)
       else thenS (tool_emit r ''authorized'' [(''reason'', JStr (decision_reason d))])
         (let (required, reason) = toolApprovalRequired t r in
          if required then park_call eng r t started reason else runTool eng r t started)))"

definition execute_tool ::
  "'x tool_state_ext registry_state_scheme tool_engine \<Rightarrow> ToolExecutionRequest \<Rightarrow> Tool \<Rightarrow> timestamp \<Rightarrow>
   ('x tool_state_scheme, ToolExecutionResult) op" where
  "execute_tool eng r t started =
     thenS (tool_emit r ''resolved'' [(''version'', JStr (tool_version t))])
     (bindS (getsS (gates (effectiveLimits (te_ceiling eng) (tool_limits t)) r t)) (\<lambda>g. case g of
        Denied reason msg \<Rightarrow> deny r started reason msg
      | Exceeded reason details \<Rightarrow> limitExceeded r started reason details
      | Passed \<Rightarrow> authorize eng r t started))"

definition tool_execute ::
  "'x tool_state_ext registry_state_scheme tool_engine \<Rightarrow> ToolExecutionRequest \<Rightarrow>
   ('x tool_state_scheme, ToolExecutionResult) op" where
  "tool_execute eng r = bindS now (\<lambda>started.
     thenS (tool_emit r ''requested'' [(''toolId'', JStr (tq_toolId r)),
       (''action'', JStr (action_str (tq_action r))), (''environment'', JStr (environment_str (tq_environment r)))])
     (case validateToolExecutionRequest r of
        Inl e \<Rightarrow> finish r started ToolFailure InvalidRequest (message e) []
      | Inr _ \<Rightarrow> thenS (tool_emit r ''validated'' [])
          (bindS (getsS (\<lambda>s. map_of (toolset s) (tq_toolId r))) (\<lambda>found. case found of
             None \<Rightarrow> finish r started ToolFailure UnknownTool
               (''no tool registered as \"'' @ tq_toolId r @ ''\"'') []
           | Some t \<Rightarrow> execute_tool eng r t started))))"

definition createRequest :: "ToolExecutionRequestDraft \<Rightarrow> ('x tool_state_scheme, ToolExecutionRequest) op" where
  "createRequest d = bindS (getsS (\<lambda>s. map_of (toolset s) (tqd_toolId d))) (\<lambda>found.
     bindS (createId ''toolreq'') (\<lambda>i. bindS now (\<lambda>at. returnS
       \<lparr>tq_requestId = i, tq_taskId = tqd_taskId d, tq_agentId = tqd_agentId d, tq_projectId = tqd_projectId d,
        tq_toolId = tqd_toolId d,
        tq_action = or_else (tqd_action d) (case found of None \<Rightarrow> AExecute | Some t \<Rightarrow> tool_action t),
        tq_input = json_or_null (tqd_input d), tq_environment = or_else (tqd_environment d) Local,
        requestedAt = at, tq_metadata = or_else (tqd_metadata d) []\<rparr>)))"

definition refuse ::
  "ToolExecutionRequest \<Rightarrow> timestamp \<Rightarrow> string \<Rightarrow> ToolFailureReason \<Rightarrow> string \<Rightarrow>
   ('x tool_state_scheme, ToolExecutionResult) op" where
  "refuse r started approvalId reason msg =
     thenS (tool_emit r ''denied'' [(''approvalId'', JStr approvalId), (''reason'', JStr (failure_reason_str reason))])
     (finish r started ToolDenied reason msg [(''approvalId'', JStr approvalId)])"

definition rerun ::
  "'x tool_state_ext registry_state_scheme tool_engine \<Rightarrow> ToolExecutionRequest \<Rightarrow> string \<Rightarrow> timestamp \<Rightarrow>
   ('x tool_state_scheme, ToolExecutionResult) op" where
  "rerun eng r approvalId started = bindS (tool_require (tq_toolId r)) (\<lambda>t.
     let d = evaluate (te_permissions eng) (toolPermissionRequest r) in
     if \<not> allowed d then deny r started PermissionDenied (decision_reason d)
     else thenS (tool_emit r ''approved'' [(''approvalId'', JStr approvalId)]) (runTool eng r t started))"

definition resume_decided ::
  "'x tool_state_ext registry_state_scheme tool_engine \<Rightarrow> string \<Rightarrow> ToolExecutionRequest \<Rightarrow> Approval \<Rightarrow>
   ('x tool_state_scheme, ToolExecutionResult) op" where
  "resume_decided eng requestId r a =
     (if approval_status a = Requested
      then throwS (ValidationError (''approval '' @ approval_id a @ '' for request '' @ requestId @ '' is still pending''))
      else bindS now (\<lambda>started.
        thenS (modifyS (\<lambda>s. s\<lparr>pendingApprovals := AList.delete requestId (pendingApprovals s)\<rparr>))
        (thenS (audit ''approval_decided'' (Some (tq_taskId r)) (Some (tq_agentId r)) (Some (tq_projectId r))
           [(''approvalId'', JStr (approval_id a)), (''decision'', JStr (approval_status_str (approval_status a))),
            (''toolId'', JStr (tq_toolId r))])
        (if approval_status a = Rejected
         then refuse r started (approval_id a) ApprovalRejected ''the approval was rejected''
         else if approval_status a = Expired
         then refuse r started (approval_id a) ApprovalExpired ''the approval expired''
         else rerun eng r (approval_id a) started))))"

definition tool_resume ::
  "'x tool_state_ext registry_state_scheme tool_engine \<Rightarrow> string \<Rightarrow> timestamp option \<Rightarrow>
   ('x tool_state_scheme, ToolExecutionResult) op" where
  "tool_resume eng requestId asOf = bindS (getsS (\<lambda>s. map_of (pendingApprovals s) requestId)) (\<lambda>held. case held of
     None \<Rightarrow> throwS (NotFoundError (''no tool request awaiting approval: '' @ requestId))
   | Some p \<Rightarrow>
       thenS (case asOf of None \<Rightarrow> returnS () | Some at \<Rightarrow> thenS (expireStale at) (returnS ()))
       (bindS (approval_require (pa_approvalId p)) (resume_decided eng requestId (pa_request p))))"

definition callCounts :: "'x tool_state_scheme \<Rightarrow> (string \<times> int) list \<times> (string \<times> int) list" where
  "callCounts s = (taskCalls s, agentCalls s)"

definition tool_reset :: "('x tool_state_scheme, unit) op" where
  "tool_reset = modifyS (\<lambda>s. s\<lparr>taskCalls := [], agentCalls := [], pendingApprovals := []\<rparr>)"

end
