(* ===== verification/Audited.thy ===== *)
theory Audited
  imports Orchestration
begin

text \<open>Running statements step by step: audit events never throw, reads and clock readings neither.\<close>

lemma then_audit [simp]: "thenS (audit ty t a p d) k s = k (snd (audit ty t a p d s))"
proof -
  have "audit ty t a p d s = (Inr (), snd (audit ty t a p d s))" by (rule prod_eqI) simp_all
  then show ?thesis unfolding thenS_def by (rule bindS_Inr)
qed

lemma bind_now [simp]: "bindS now f s = f (time_at s (ticks s)) (s\<lparr>ticks := Suc (ticks s)\<rparr>)"
  by (simp add: bindS_def now_def)

lemma bind_gets [simp]: "bindS (getsS g) f s = f (g s) s"
  by (simp add: op_simps)

lemma then_modify: "thenS (modifyS f) k s = k (f s)"
  by (simp add: op_simps)

lemma then_return [simp]: "thenS (returnS x) k s = k s"
  by (simp add: op_simps)

lemma then_lift_Inr [simp]: "thenS (liftE (Inr x)) k s = k s"
  by (simp add: op_simps)

lemma then_lift_Inl [simp]: "thenS (liftE (Inl e)) k s = (Inl e, s)"
  by (simp add: op_simps)

lemma keeps_apply: "keeps R m \<Longrightarrow> R s (snd (m s))"
  by (simp add: keeps_def)

text \<open>The fields an audit event leaves alone.\<close>

lemma same_more_fields:
  assumes "audit_state.more t = audit_state.more s"
  shows "tasks t = tasks s" "approvals t = approvals s" "handoffs t = handoffs s"
    "records t = records s" "agents t = agents s" "instances t = instances s"
  using assms by (cases s, cases t, simp)+

end
