(* ===== verification/Tool_Calls.thy ===== *)
theory Tool_Calls
  imports Tool_Engine Audited
begin

text \<open>
  What the tool pipeline guarantees: a handler is consulted for cleared calls only, a parked call
  waits for a human decision, the call ledger stays below its limits as long as calls come through
  \<open>execute\<close>, and every result answers the request it belongs to.
\<close>

section \<open>Frames\<close>

text \<open>Everything of the tool state but the audit log, the clock and the id counter.\<close>

definition same_tools :: "'x tool_state_scheme \<Rightarrow> 'x tool_state_scheme \<Rightarrow> bool" where
  "same_tools s t \<longleftrightarrow> audit_state.more t = audit_state.more s"

lemma same_toolsD:
  fixes s t :: "'x tool_state_scheme"
  assumes "same_tools s t"
  shows "toolset t = toolset s" "taskCalls t = taskCalls s" "agentCalls t = agentCalls s"
    "pendingApprovals t = pendingApprovals s" "approvals t = approvals s" "tasks t = tasks s"
  using assms by (cases s, cases t, simp add: same_tools_def)+

lemma same_tools_refl [simp]: "same_tools s s"
  by (simp add: same_tools_def)

lemma same_tools_trans: "same_tools s t \<Longrightarrow> same_tools t u \<Longrightarrow> same_tools s u"
  by (simp add: same_tools_def)

lemma same_tools_audit [simp]: "same_tools s (snd (audit ty t a p d s))"
  by (simp add: same_tools_def)

lemma same_tools_emit [simp]: "same_tools s (snd (tool_emit r ph d s))"
  by (simp add: tool_emit_def)

lemma same_tools_now [simp]: "same_tools s (snd (now s))"
  by (simp add: same_tools_def now_def)

lemma then_emit [simp]: "thenS (tool_emit r ph d) k s = k (snd (tool_emit r ph d s))"
  by (simp add: tool_emit_def)

lemma same_tools_ticks [simp]: "same_tools s (s\<lparr>ticks := n\<rparr>)"
  by (simp add: same_tools_def)

lemma gates_cong: "same_tools s t \<Longrightarrow> gates l r tool t = gates l r tool s"
  by (simp add: gates_def same_toolsD)

section \<open>Results\<close>

text \<open>Every result an operation returns satisfies \<open>P\<close>; a throw has no result.\<close>

definition yields :: "('a \<Rightarrow> bool) \<Rightarrow> ('s, 'a) op \<Rightarrow> bool" where
  "yields P m \<longleftrightarrow> (\<forall>s x t. m s = (Inr x, t) \<longrightarrow> P x)"

lemma yields_returnS: "P x \<Longrightarrow> yields P (returnS x)"
  by (simp add: yields_def)

lemma yields_throwS: "yields P (throwS e)"
  by (simp add: yields_def)

lemma yields_bindS: "(\<And>x. yields P (f x)) \<Longrightarrow> yields P (bindS m f)"
  unfolding yields_def by (auto simp: bindS_Inr_iff)

lemma yields_thenS: "yields P k \<Longrightarrow> yields P (thenS m k)"
  unfolding thenS_def by (rule yields_bindS)

lemma yields_if: "(b \<Longrightarrow> yields P m) \<Longrightarrow> (\<not> b \<Longrightarrow> yields P k) \<Longrightarrow> yields P (if b then m else k)"
  by simp

lemma yields_option: "yields P m \<Longrightarrow> (\<And>x. yields P (f x)) \<Longrightarrow> yields P (case v of None \<Rightarrow> m | Some x \<Rightarrow> f x)"
  by (cases v) auto

lemma yields_sum: "(\<And>e. v = Inl e \<Longrightarrow> yields P (f e)) \<Longrightarrow> (\<And>x. v = Inr x \<Longrightarrow> yields P (g x)) \<Longrightarrow>
    yields P (case v of Inl e \<Rightarrow> f e | Inr x \<Rightarrow> g x)"
  by (cases v) auto

lemmas yields_intros = yields_returnS yields_throwS yields_bindS yields_thenS

lemma yields_mono: "yields P m \<Longrightarrow> (\<And>x. P x \<Longrightarrow> Q x) \<Longrightarrow> yields Q m"
  unfolding yields_def by blast

lemma yieldsD: "yields P m \<Longrightarrow> m s = (Inr x, t) \<Longrightarrow> P x"
  unfolding yields_def by blast

definition failed_with ::
  "ToolExecutionRequest \<Rightarrow> ToolExecutionStatus \<Rightarrow> ToolFailureReason \<Rightarrow> ToolExecutionResult \<Rightarrow> bool" where
  "failed_with r st reason x \<longleftrightarrow> tr_status x = st \<and> map_option te_reason (tr_error x) = Some reason \<and>
     tr_requestId x = tq_requestId r \<and> tr_taskId x = tq_taskId r \<and> tr_toolId x = tq_toolId r \<and>
     tr_approvalId x = None \<and> tr_output x = JUndefined"

lemma finish_yields: "yields (failed_with r st reason) (finish r started st reason m d)"
  unfolding finish_def by (intro yields_intros) (simp add: result_for_def failed_with_def)

lemma deny_yields: "yields (failed_with r ToolDenied reason) (deny r started reason m)"
  unfolding deny_def by (intro yields_thenS finish_yields)

lemma limitExceeded_yields: "yields (failed_with r ToolFailure reason) (limitExceeded r started reason d)"
  unfolding limitExceeded_def by (intro yields_thenS finish_yields)

lemma malformed_yields: "yields (failed_with r ToolFailure MalformedResult) (malformed r started w e)"
  unfolding malformed_def by (intro yields_thenS finish_yields)

lemma refuse_yields: "yields (failed_with r ToolDenied reason) (refuse r started a reason m)"
  unfolding refuse_def by (intro yields_thenS finish_yields)

definition delivered :: "ToolExecutionRequest \<Rightarrow> Tool \<Rightarrow> json \<Rightarrow> ToolExecutionResult \<Rightarrow> bool" where
  "delivered r t v x \<longleftrightarrow> tr_status x = ToolSuccess \<and> tr_output x = v \<and> tr_error x = None \<and> tr_approvalId x = None \<and>
     tr_requestId x = tq_requestId r \<and> tr_taskId x = tq_taskId r \<and> tr_toolId x = tool_id t"

lemma deliver_yields: "yields (delivered r t v) (deliver r t started elapsed v)"
  unfolding deliver_def by (intro yields_intros) (simp add: result_for_def delivered_def)

text \<open>How a call that reached its handler is reported.\<close>

definition output_fits :: "Tool \<Rightarrow> ToolExecutionLimits \<Rightarrow> json \<Rightarrow> bool" where
  "output_fits t l v \<longleftrightarrow> byteLength v \<le> maxOutputBytes l \<and> schema_ok (outputSchema t) v = Inr ()"

definition reported :: "ToolExecutionRequest \<Rightarrow> Tool \<Rightarrow> ToolExecutionLimits \<Rightarrow> call_outcome \<Rightarrow> ToolExecutionResult \<Rightarrow> bool" where
  "reported r t l outcome x = (case outcome of
     CallTimedOut \<Rightarrow> failed_with r ToolTimeout Timeout x
   | CallFailed e \<Rightarrow> failed_with r ToolFailure ToolError x
   | CallReturned v \<Rightarrow> failed_with r ToolTimeout Timeout x \<or>
       (if output_fits t l v then delivered r t v x
        else failed_with r ToolFailure (if byteLength v > maxOutputBytes l then OutputTooLarge else MalformedResult) x))"

lemma reported_simps:
  "reported r t l CallTimedOut = failed_with r ToolTimeout Timeout"
  "reported r t l (CallFailed e) = failed_with r ToolFailure ToolError"
  by (simp_all add: reported_def fun_eq_iff)

lemma check_output_yields:
  "yields (\<lambda>x. if output_fits t l v then delivered r t v x
     else failed_with r ToolFailure (if byteLength v > maxOutputBytes l then OutputTooLarge else MalformedResult) x)
   (check_output r t l started elapsed v)"
proof (cases "byteLength v > maxOutputBytes l")
  case True
  then show ?thesis
    by (simp add: check_output_def output_fits_def yields_thenS [OF finish_yields])
next
  case False
  then show ?thesis
    by (cases "schema_ok (outputSchema t) v")
      (simp_all add: check_output_def output_fits_def malformed_yields deliver_yields)
qed

lemma settle_call_yields:
  "yields (reported r t l outcome) (settle_call r t l started ms callStart outcome)"
proof (cases outcome)
  case (CallReturned v)
  have timeout: "yields (reported r t l outcome) (finish r started ToolTimeout Timeout m d)" for m d
    by (rule yields_mono [OF finish_yields]) (simp add: CallReturned reported_def)
  have checked: "yields (reported r t l outcome) (check_output r t l started elapsed v)" for elapsed
    by (rule yields_mono [OF check_output_yields]) (simp add: CallReturned reported_def)
  show ?thesis
    unfolding settle_call_def CallReturned call_outcome.case Let_def
    using timeout checked unfolding CallReturned
    by (intro yields_bindS yields_if yields_thenS) simp_all
qed (simp_all add: settle_call_def reported_simps yields_thenS finish_yields)

section \<open>Handlers run cleared calls only\<close>

definition with_handler ::
  "'s tool_engine \<Rightarrow> (string \<Rightarrow> json \<Rightarrow> ToolExecutionContext \<Rightarrow> 's \<Rightarrow> handler_run \<times> 's) \<Rightarrow> 's tool_engine" where
  "with_handler eng h = eng\<lparr>te_handler := h\<rparr>"

lemma with_handler_simps [simp]:
  "te_permissions (with_handler eng h) = te_permissions eng"
  "te_ceiling (with_handler eng h) = te_ceiling eng"
  "te_requestedBy (with_handler eng h) = te_requestedBy eng"
  "te_handler (with_handler eng h) = h"
  by (simp_all add: with_handler_def)

lemma with_own_handler [simp]: "with_handler eng (te_handler eng) = eng"
  by (simp add: with_handler_def)

definition input_ok :: "Tool \<Rightarrow> ToolExecutionRequest \<Rightarrow> bool" where
  "input_ok t r \<longleftrightarrow> schema_ok (inputSchema t) (tq_input r) = Inr ()"

definition granted :: "'s tool_engine \<Rightarrow> ToolExecutionRequest \<Rightarrow> bool" where
  "granted eng r \<longleftrightarrow> allowed (evaluate (te_permissions eng) (toolPermissionRequest r))"

text \<open>The conditions under which \<open>execute\<close> may call the handler of tool \<open>t\<close>.\<close>

definition clear_for :: "'s tool_engine \<Rightarrow> ToolExecutionRequest \<Rightarrow> Tool \<Rightarrow> 'x tool_state_scheme \<Rightarrow> bool" where
  "clear_for eng r t s \<longleftrightarrow>
     agentAllowed t (tq_agentId r) \<and> projectAllowed t (tq_projectId r) \<and> environmentAllowed t (tq_environment r) \<and>
     byteLength (tq_input r) \<le> maxInputBytes (effectiveLimits (te_ceiling eng) (tool_limits t)) \<and>
     call_count (taskCalls s) (taskKey r) < maxCallsPerTask (effectiveLimits (te_ceiling eng) (tool_limits t)) \<and>
     call_count (agentCalls s) (agentKey_tool r) < maxCallsPerAgent (effectiveLimits (te_ceiling eng) (tool_limits t)) \<and>
     granted eng r \<and> \<not> fst (toolApprovalRequired t r)"

definition call_cleared :: "'s tool_engine \<Rightarrow> ToolExecutionRequest \<Rightarrow> 'x tool_state_scheme \<Rightarrow> bool" where
  "call_cleared eng r s \<longleftrightarrow> validateToolExecutionRequest r = Inr () \<and>
     (case map_of (toolset s) (tq_toolId r) of None \<Rightarrow> False
      | Some t \<Rightarrow> clear_for eng r t s \<and> input_ok t r)"

lemma gates_Passed:
  "gates (effectiveLimits (te_ceiling eng) (tool_limits t)) r t s = Passed \<and> granted eng r \<and>
     \<not> fst (toolApprovalRequired t r) \<longleftrightarrow> clear_for eng r t s"
  by (auto simp: gates_def clear_for_def)

lemma clear_for_cong: "same_tools s u \<Longrightarrow> clear_for eng r t u = clear_for eng r t s"
  by (simp add: clear_for_def same_toolsD)

lemma clear_for_handler [simp]: "clear_for (with_handler eng h) r t s = clear_for eng r t s"
  by (simp add: clear_for_def granted_def)

lemma runTool_handler: "\<not> input_ok t r \<Longrightarrow> runTool (with_handler eng h) r t started = runTool eng r t started"
  by (cases "schema_ok (inputSchema t) (tq_input r)") (simp_all add: runTool_def input_ok_def Let_def)

lemma park_handler [simp]: "park_call (with_handler eng h) r t started reason = park_call eng r t started reason"
  by (simp add: park_call_def)

lemma authorize_handler:
  assumes "\<not> (granted eng r \<and> \<not> fst (toolApprovalRequired t r) \<and> input_ok t r)"
  shows "authorize (with_handler eng h) r t started = authorize eng r t started"
  using assms runTool_handler [of t r eng h started]
  by (auto simp: authorize_def granted_def Let_def fun_eq_iff split: prod.split)

lemma gates_emit [simp]: "gates l q t (snd (tool_emit r ph d s)) = gates l q t s"
  by (rule gates_cong) simp

lemma execute_tool_handler:
  assumes "\<not> (clear_for eng r t s \<and> input_ok t r)"
  shows "execute_tool (with_handler eng h) r t started s = execute_tool eng r t started s"
proof (cases "gates (effectiveLimits (te_ceiling eng) (tool_limits t)) r t s")
  case Passed
  then have "authorize (with_handler eng h) r t started = authorize eng r t started"
    using assms gates_Passed [of eng t r s] by (intro authorize_handler) blast
  with Passed show ?thesis by (simp add: execute_tool_def)
qed (simp_all add: execute_tool_def)

text \<open>The state after the events \<open>requested\<close> and \<open>validated\<close>.\<close>

definition after_request :: "ToolExecutionRequest \<Rightarrow> 'x tool_state_scheme \<Rightarrow> 'x tool_state_scheme" where
  "after_request r s = snd (tool_emit r ''requested'' [(''toolId'', JStr (tq_toolId r)),
     (''action'', JStr (action_str (tq_action r))), (''environment'', JStr (environment_str (tq_environment r)))]
     (s\<lparr>ticks := Suc (ticks s)\<rparr>))"

definition after_validation :: "ToolExecutionRequest \<Rightarrow> 'x tool_state_scheme \<Rightarrow> 'x tool_state_scheme" where
  "after_validation r s = snd (tool_emit r ''validated'' [] (after_request r s))"

lemma same_tools_after_request [simp]: "same_tools s (after_request r s)"
  unfolding after_request_def by (rule same_tools_trans [OF same_tools_ticks same_tools_emit])

lemma same_tools_after [simp]: "same_tools s (after_validation r s)"
  unfolding after_validation_def by (rule same_tools_trans [OF same_tools_after_request same_tools_emit])

lemma clear_for_after [simp]: "clear_for eng r t (after_validation q s) = clear_for eng r t s"
  by (rule clear_for_cong) simp

lemma tool_execute_unfold:
  "tool_execute eng r s = (case validateToolExecutionRequest r of
     Inl e \<Rightarrow> finish r (time_at s (ticks s)) ToolFailure InvalidRequest (message e) [] (after_request r s)
   | Inr _ \<Rightarrow> (case map_of (toolset s) (tq_toolId r) of
       None \<Rightarrow> finish r (time_at s (ticks s)) ToolFailure UnknownTool
         (''no tool registered as \"'' @ tq_toolId r @ ''\"'') [] (after_validation r s)
     | Some t \<Rightarrow> execute_tool eng r t (time_at s (ticks s)) (after_validation r s)))"
proof -
  have "toolset (after_validation r s) = toolset s" by (rule same_toolsD) simp
  then show ?thesis
    unfolding tool_execute_def after_validation_def after_request_def
    by (simp split: sum.split option.split)
qed

lemma tool_execute_mediated:
  assumes "\<not> call_cleared eng r s"
  shows "tool_execute (with_handler eng h) r s = tool_execute eng r s"
  using assms
  by (auto simp: tool_execute_unfold call_cleared_def execute_tool_handler
      split: sum.split option.split)

section \<open>Resumption\<close>

definition resume_cleared :: "'s tool_engine \<Rightarrow> string \<Rightarrow> 'x tool_state_scheme \<Rightarrow> bool" where
  "resume_cleared eng i s \<longleftrightarrow> (case map_of (pendingApprovals s) i of None \<Rightarrow> False
     | Some p \<Rightarrow> granted eng (pa_request p) \<and>
         (case mem_findById (pa_approvalId p) (approvals s) of None \<Rightarrow> False
          | Some a \<Rightarrow> approval_status a = Approved))"

lemma rerun_handler:
  "\<not> granted eng r \<Longrightarrow> rerun (with_handler eng h) r a started = rerun eng r a started"
  by (simp add: rerun_def granted_def Let_def)

lemma resume_decided_handler:
  "\<not> (granted eng r \<and> approval_status a = Approved) \<Longrightarrow>
   resume_decided (with_handler eng h) i r a = resume_decided eng i r a"
  by (cases "approval_status a") (simp_all add: resume_decided_def rerun_handler)

lemma tool_resume_mediated:
  fixes s :: "'x tool_state_scheme"
  assumes "\<not> resume_cleared eng i s"
  shows "tool_resume (with_handler eng h) i asOf s = tool_resume eng i asOf s"
proof (cases "map_of (pendingApprovals s) i")
  case None
  then show ?thesis by (simp add: tool_resume_def)
next
  case (Some p)
  let ?pre = "case asOf of None \<Rightarrow> returnS () | Some at \<Rightarrow> thenS (expireStale at) (returnS ())"
  let ?decide = "\<lambda>eng. bindS (approval_require (pa_approvalId p)) (resume_decided eng i (pa_request p))"
  have pre: "keeps no_new_approvals ?pre"
    by (intro unapproved.keeps_intros unapproved_rules)
  have "thenS ?pre (?decide (with_handler eng h)) s = thenS ?pre (?decide eng) s"
    unfolding thenS_def [of ?pre]
  proof (rule bindS_cong)
    fix x u assume "?pre s = (Inr x, u)"
    with pre have kept: "no_new_approvals s u" by (rule keepsD)
    have "\<not> (granted eng (pa_request p) \<and> approval_status a = Approved)"
      if "mem_findById (pa_approvalId p) (approvals u) = Some a" for a
      using that kept assms Some by (auto simp: no_new_approvals_def resume_cleared_def)
    then show "?decide (with_handler eng h) u = ?decide eng u"
      by (intro bindS_cong) (auto simp: approval_require_def resume_decided_handler split: option.splits)
  qed
  with Some show ?thesis by (simp add: tool_resume_def)
qed

section \<open>Coherent results\<close>

fun reasons_of :: "ToolExecutionStatus \<Rightarrow> ToolFailureReason list" where
  "reasons_of ToolSuccess = []"
| "reasons_of ToolApprovalRequired = []"
| "reasons_of ToolTimeout = [Timeout]"
| "reasons_of ToolDenied = [AgentNotAllowed, ProjectNotAllowed, EnvironmentNotAllowed, PermissionDenied,
     ApprovalRejected, ApprovalExpired]"
| "reasons_of ToolFailure = [InvalidRequest, UnknownTool, InputTooLarge, CallLimitExceeded, ToolError,
     OutputTooLarge, MalformedResult]"

text \<open>
  A result answers its request; it carries an error exactly when it failed, with a reason that
  belongs to its status, and an approval exactly when it waits for one.
\<close>

definition coherent :: "ToolExecutionRequest \<Rightarrow> ToolExecutionResult \<Rightarrow> bool" where
  "coherent r x \<longleftrightarrow> tr_requestId x = tq_requestId r \<and> tr_taskId x = tq_taskId r \<and>
     (tr_approvalId x \<noteq> None \<longleftrightarrow> tr_status x = ToolApprovalRequired) \<and>
     (case tr_error x of None \<Rightarrow> tr_status x \<in> {ToolSuccess, ToolApprovalRequired}
      | Some e \<Rightarrow> te_reason e \<in> set (reasons_of (tr_status x)))"

lemma coherent_failed: "failed_with r st reason x \<Longrightarrow> reason \<in> set (reasons_of st) \<Longrightarrow> coherent r x"
  by (cases st) (auto simp: failed_with_def coherent_def)

lemma coherent_delivered: "delivered r t v x \<Longrightarrow> coherent r x"
  by (simp add: delivered_def coherent_def)

lemma coherent_reported: "reported r t l outcome x \<Longrightarrow> coherent r x"
  by (auto simp: reported_def intro: coherent_failed coherent_delivered split: call_outcome.splits if_splits)

lemma coherent_failure:
  "yields (failed_with r st reason) m \<Longrightarrow> reason \<in> set (reasons_of st) \<Longrightarrow> yields (coherent r) m"
  by (erule yields_mono) (rule coherent_failed)

lemma coherent_settle: "yields (coherent r) (settle_call r t l started ms cs outcome)"
  by (rule yields_mono [OF settle_call_yields coherent_reported])

lemma coherent_runTool: "yields (coherent r) (runTool eng r t started)"
  unfolding runTool_def Let_def
  by (intro yields_thenS yields_sum yields_bindS coherent_settle coherent_failure [OF malformed_yields]) simp

lemma coherent_park: "yields (coherent r) (park_call eng r t started reason)"
  unfolding park_call_def by (intro yields_intros) (simp add: coherent_def result_for_def)

lemma coherent_authorize: "yields (coherent r) (authorize eng r t started)"
  by (cases "toolApprovalRequired t r")
    (simp add: authorize_def Let_def yields_thenS coherent_park coherent_runTool
      coherent_failure [OF deny_yields])

lemma gates_reasons:
  "gates l r t s = Denied reason m \<Longrightarrow> reason \<in> set (reasons_of ToolDenied)"
  "gates l r t s = Exceeded reason d \<Longrightarrow> reason \<in> set (reasons_of ToolFailure)"
  by (auto simp: gates_def split: if_splits)

lemma coherent_execute_tool:
  assumes "execute_tool eng r t started s = (Inr x, u)"
  shows "coherent r x"
proof -
  let ?s = "snd (tool_emit r ''resolved'' [(''version'', JStr (tool_version t))] s)"
  have run: "(case gates (effectiveLimits (te_ceiling eng) (tool_limits t)) r t s of
      Denied reason m \<Rightarrow> deny r started reason m
    | Exceeded reason d \<Rightarrow> limitExceeded r started reason d
    | Passed \<Rightarrow> authorize eng r t started) ?s = (Inr x, u)"
    using assms by (simp add: execute_tool_def)
  show ?thesis
  proof (cases "gates (effectiveLimits (te_ceiling eng) (tool_limits t)) r t s")
    case (Denied reason m)
    then show ?thesis
      using run yieldsD [OF deny_yields] coherent_failed gates_reasons(1) by fastforce
  next
    case (Exceeded reason d)
    then show ?thesis
      using run yieldsD [OF limitExceeded_yields] coherent_failed gates_reasons(2) by fastforce
  next
    case Passed
    then show ?thesis using run yieldsD [OF coherent_authorize] by simp
  qed
qed

lemma tool_execute_coherent:
  assumes "tool_execute eng r s = (Inr x, u)"
  shows "coherent r x"
proof -
  have "coherent r x" if "finish r started ToolFailure reason m [] v = (Inr x, u)"
    "reason \<in> {InvalidRequest, UnknownTool}" for started reason m v
    using yieldsD [OF finish_yields that(1)] that(2) by (auto intro: coherent_failed)
  then show ?thesis
    using assms coherent_execute_tool
    by (fastforce simp: tool_execute_unfold split: sum.splits option.splits)
qed

lemma resume_decided_coherent: "yields (coherent r) (resume_decided eng i r a)"
  unfolding resume_decided_def rerun_def Let_def
  by (intro yields_intros yields_if coherent_runTool coherent_failure [OF deny_yields]
      coherent_failure [OF refuse_yields]) simp_all

lemma tool_resume_coherent:
  assumes "tool_resume eng i asOf s = (Inr x, u)"
  shows "\<exists>p. map_of (pendingApprovals s) i = Some p \<and> coherent (pa_request p) x"
proof (cases "map_of (pendingApprovals s) i")
  case (Some p)
  have "yields (coherent (pa_request p)) (bindS (approval_require (pa_approvalId p)) (resume_decided eng i (pa_request p)))"
    by (intro yields_bindS resume_decided_coherent)
  then show ?thesis
    using assms Some yieldsD [OF yields_thenS] by (fastforce simp: tool_resume_def)
qed (use assms in \<open>simp add: tool_resume_def\<close>)

section \<open>The call ledger\<close>

definition same_ledger :: "'x tool_state_scheme \<Rightarrow> 'x tool_state_scheme \<Rightarrow> bool" where
  "same_ledger s t \<longleftrightarrow> taskCalls t = taskCalls s \<and> agentCalls t = agentCalls s"

interpretation ledger: evolution "same_ledger :: 'x tool_state_scheme \<Rightarrow> 'x tool_state_scheme \<Rightarrow> bool"
  by unfold_locales (auto simp: same_ledger_def)

lemma same_tools_ledger: "same_tools s t \<Longrightarrow> same_ledger s t"
  by (simp add: same_ledger_def same_toolsD)

lemma ledger_emit: "keeps same_ledger (tool_emit r ph d)"
  by (rule keepsI) (simp add: same_tools_ledger)

lemma ledger_audit: "keeps same_ledger (audit ty t a p d :: ('x tool_state_scheme, unit) op)"
  by (rule keepsI) (simp add: same_tools_ledger)

lemma ledger_now: "keeps same_ledger now"
  by (rule keepsI) (simp add: same_tools_ledger)

lemma ledger_request: "keeps same_ledger (approval_request d)"
proof (rule keepsI)
  fix s :: "'x tool_state_scheme"
  show "same_ledger s (snd (approval_request d s))"
    by (cases "validateApprovalRequest d")
      (simp_all add: approval_request_Inl approval_request_eq Let_def same_ledger_def)
qed

lemma ledger_modify: "(\<And>s. same_ledger s (f s)) \<Longrightarrow> keeps same_ledger (modifyS f)"
  by (rule keepsI) simp

lemmas ledger_rules = ledger_emit ledger_audit ledger_now ledger_request ledger_modify ledger.keeps_intros

lemma ledger_finish: "keeps same_ledger (finish r started st reason m d)"
  unfolding finish_def by (intro ledger_rules)

lemma ledger_deny: "keeps same_ledger (deny r started reason m)"
  unfolding deny_def by (intro ledger_rules ledger_finish)

lemma ledger_limitExceeded: "keeps same_ledger (limitExceeded r started reason d)"
  unfolding limitExceeded_def by (intro ledger_rules ledger_finish)

lemma ledger_malformed: "keeps same_ledger (malformed r started w e)"
  unfolding malformed_def by (intro ledger_rules ledger_finish)

lemma ledger_park: "keeps same_ledger (park_call eng r t started reason)"
  unfolding park_call_def by (intro ledger_rules) (simp add: same_ledger_def)

lemma ledger_check_output: "keeps same_ledger (check_output r t l started elapsed v)"
  unfolding check_output_def deliver_def
  by (cases "schema_ok (outputSchema t) v") (simp; intro ledger_rules ledger_finish ledger_malformed impI conjI)+

lemma ledger_settle: "keeps same_ledger (settle_call r t l started ms cs outcome)"
  unfolding settle_call_def Let_def
  by (cases outcome; simp; intro ledger_rules ledger_finish ledger_check_output)

definition handler_leaves_ledger :: "'x tool_state_ext registry_state_scheme tool_engine \<Rightarrow> bool" where
  "handler_leaves_ledger eng \<longleftrightarrow> (\<forall>i j c s. same_ledger s (snd (te_handler eng i j c s)))"

definition counted :: "ToolExecutionRequest \<Rightarrow> 'x tool_state_scheme \<Rightarrow> 'x tool_state_scheme" where
  "counted r s = s\<lparr>taskCalls := bump (taskKey r) (taskCalls s), agentCalls := bump (agentKey_tool r) (agentCalls s)\<rparr>"

lemma runTool_ledger:
  assumes "handler_leaves_ledger eng"
  shows "same_ledger (counted r s) (snd (runTool eng r t started s))"
proof -
  have handler: "keeps same_ledger (call_handler eng i j c)" for i j c
    using assms by (intro keepsI) (simp add: call_handler_def handler_leaves_ledger_def case_prod_beta)
  have "keeps same_ledger (case schema_ok (inputSchema t) (tq_input r) of
         Inl e \<Rightarrow> malformed r started ''input schema rejected the request: '' e
       | Inr _ \<Rightarrow>
           thenS (tool_emit r ''executing'' [(''timeoutMs'', JNum ms)])
           (bindS now (\<lambda>at.
            bindS now (\<lambda>callStart.
            bindS (call_handler eng (tool_id t) (tq_input r) (context_of r (at + ms))) (\<lambda>run.
            settle_call r t l started ms callStart (withTimeout run ms))))))" for ms l
    by (cases "schema_ok (inputSchema t) (tq_input r)"; simp only: sum.case;
        intro ledger_rules ledger_malformed ledger_settle handler)
  then show ?thesis
    unfolding runTool_def Let_def thenS_def [of "modifyS f" for f] counted_def
    by (simp add: bindS_def keeps_def)
qed

definition call_counted :: "'s tool_engine \<Rightarrow> ToolExecutionRequest \<Rightarrow> 'x tool_state_scheme \<Rightarrow> bool" where
  "call_counted eng r s \<longleftrightarrow> validateToolExecutionRequest r = Inr () \<and>
     (case map_of (toolset s) (tq_toolId r) of None \<Rightarrow> False | Some t \<Rightarrow> clear_for eng r t s)"

lemma counted_cong: "same_ledger s u \<Longrightarrow> same_ledger (counted r s) (counted r u)"
  by (simp add: counted_def same_ledger_def)

lemma ledger_after:
  assumes "same_tools s u" "same_ledger (if b then counted r u else u) v"
  shows "same_ledger (if b then counted r s else s) v"
proof (cases b)
  case True
  then show ?thesis
    using assms ledger.trans [OF counted_cong [OF same_tools_ledger]] by simp
next
  case False
  then show ?thesis using assms ledger.trans [OF same_tools_ledger] by simp
qed

lemma authorize_ledger:
  assumes "handler_leaves_ledger eng"
  shows "same_ledger (if granted eng r \<and> \<not> fst (toolApprovalRequired t r) then counted r s else s)
    (snd (authorize eng r t started s))"
proof -
  obtain required reason where q: "toolApprovalRequired t r = (required, reason)" by fastforce
  let ?d = "evaluate (te_permissions eng) (toolPermissionRequest r)"
  let ?u = "snd (audit ''permission_decision'' (Some (tq_taskId r)) (Some (tq_agentId r)) (Some (tq_projectId r))
        (permission_data r t ?d) s)"
  let ?v = "snd (tool_emit r ''authorized'' [(''reason'', JStr (decision_reason ?d))] ?u)"
  show ?thesis
  proof (cases "granted eng r")
    case False
    then have "snd (authorize eng r t started s) = snd (deny r started PermissionDenied (decision_reason ?d) ?u)"
      by (simp add: authorize_def granted_def Let_def)
    moreover have "same_ledger ?u (snd (deny r started PermissionDenied (decision_reason ?d) ?u))"
      by (rule keeps_apply [OF ledger_deny])
    ultimately show ?thesis
      using False ledger_after [of s ?u False] by simp
  next
    case True
    then have run: "snd (authorize eng r t started s) =
        snd ((if required then park_call eng r t started reason else runTool eng r t started) ?v)"
      by (simp add: authorize_def granted_def Let_def q)
    have "same_ledger (if \<not> required then counted r ?v else ?v)
        (snd ((if required then park_call eng r t started reason else runTool eng r t started) ?v))"
      by (simp add: runTool_ledger [OF assms] keeps_apply [OF ledger_park])
    moreover have "same_tools s ?v"
      by (rule same_tools_trans [OF same_tools_audit same_tools_emit])
    ultimately show ?thesis
      using ledger_after [of s ?v "\<not> required"] True run by (simp add: q)
  qed
qed

lemma execute_tool_ledger:
  assumes "handler_leaves_ledger eng"
  shows "same_ledger (if clear_for eng r t s then counted r s else s) (snd (execute_tool eng r t started s))"
proof -
  let ?u = "snd (tool_emit r ''resolved'' [(''version'', JStr (tool_version t))] s)"
  let ?g = "gates (effectiveLimits (te_ceiling eng) (tool_limits t)) r t s"
  have "same_ledger (if clear_for eng r t s then counted r ?u else ?u) (snd (execute_tool eng r t started s))"
  proof (cases ?g)
    case (Denied reason m)
    then have "\<not> clear_for eng r t s" using gates_Passed [of eng t r s] by auto
    then show ?thesis using Denied keeps_apply [OF ledger_deny] by (simp add: execute_tool_def)
  next
    case (Exceeded reason d)
    then have "\<not> clear_for eng r t s" using gates_Passed [of eng t r s] by auto
    then show ?thesis using Exceeded keeps_apply [OF ledger_limitExceeded] by (simp add: execute_tool_def)
  next
    case Passed
    then have "clear_for eng r t s \<longleftrightarrow> granted eng r \<and> \<not> fst (toolApprovalRequired t r)"
      using gates_Passed [of eng t r s] by auto
    then show ?thesis using Passed authorize_ledger [OF assms, of r t ?u started] by (simp add: execute_tool_def)
  qed
  then show ?thesis using ledger_after same_tools_emit by blast
qed

lemma tool_execute_ledger:
  assumes "handler_leaves_ledger eng"
  shows "same_ledger (if call_counted eng r s then counted r s else s) (snd (tool_execute eng r s))"
proof -
  have finished: "same_ledger s (snd (finish r started st reason m d (after_request r s)))"
    "same_ledger s (snd (finish r started st reason m d (after_validation r s)))" for started st reason m d
    using ledger.trans [OF same_tools_ledger keeps_apply [OF ledger_finish]] same_tools_after same_tools_after_request
    by blast+
  have run: "same_ledger (if clear_for eng r t s then counted r s else s)
      (snd (execute_tool eng r t started (after_validation r s)))" for t started
    using execute_tool_ledger [OF assms, of r t "after_validation r s" started] ledger_after same_tools_after
    by (fastforce simp: clear_for_after)
  show ?thesis
  proof (cases "validateToolExecutionRequest r")
    case (Inl e)
    then show ?thesis using finished(1) by (simp add: tool_execute_unfold call_counted_def)
  next
    case (Inr v)
    show ?thesis
    proof (cases "map_of (toolset s) (tq_toolId r)")
      case None
      with Inr show ?thesis using finished(2) by (simp add: tool_execute_unfold call_counted_def)
    next
      case (Some t)
      with Inr show ?thesis using run [of t "time_at s (ticks s)"] by (simp add: tool_execute_unfold call_counted_def)
    qed
  qed
qed

lemma call_count_bump: "call_count (bump k m) j = call_count m j + (if j = k then 1 else 0)"
  by (simp add: call_count_def bump_def AList.update_conv')

lemma clear_for_limits:
  "clear_for eng r t s \<Longrightarrow>
   call_count (taskCalls s) (taskKey r) + 1 \<le> maxCallsPerTask (effectiveLimits (te_ceiling eng) (tool_limits t)) \<and>
   call_count (agentCalls s) (agentKey_tool r) + 1 \<le> maxCallsPerAgent (effectiveLimits (te_ceiling eng) (tool_limits t))"
  by (simp add: clear_for_def)

text \<open>Every call that goes through \<open>execute\<close> is counted once, and only below both limits.\<close>

lemma tool_execute_counts:
  assumes "handler_leaves_ledger eng"
  shows "call_count (taskCalls (snd (tool_execute eng r s))) k =
      call_count (taskCalls s) k + (if k = taskKey r \<and> call_counted eng r s then 1 else 0)"
    and "call_count (agentCalls (snd (tool_execute eng r s))) k =
      call_count (agentCalls s) k + (if k = agentKey_tool r \<and> call_counted eng r s then 1 else 0)"
  using tool_execute_ledger [OF assms, of r s]
  by (simp_all add: same_ledger_def counted_def call_count_bump split: if_splits)

text \<open>A resumed call is counted too, but not checked against the limits again.\<close>

lemma tool_resume_counts:
  assumes eng: "handler_leaves_ledger eng" and held: "map_of (pendingApprovals s) i = Some p"
    and approved: "mem_findById (pa_approvalId p) (approvals s) = Some a" "approval_status a = Approved"
    and tool: "map_of (toolset s) (tq_toolId (pa_request p)) = Some t" and ok: "granted eng (pa_request p)"
  shows "same_ledger (counted (pa_request p) s) (snd (tool_resume eng i None s))"
proof -
  let ?r = "pa_request p"
  let ?u = "s\<lparr>ticks := Suc (ticks s), pendingApprovals := AList.delete i (pendingApprovals s)\<rparr>"
  let ?v = "snd (audit ''approval_decided'' (Some (tq_taskId ?r)) (Some (tq_agentId ?r)) (Some (tq_projectId ?r))
           [(''approvalId'', JStr (approval_id a)), (''decision'', JStr (approval_status_str (approval_status a))),
            (''toolId'', JStr (tq_toolId ?r))] ?u)"
  let ?w = "snd (tool_emit ?r ''approved'' [(''approvalId'', JStr (approval_id a))] ?v)"
  have uw: "same_tools ?u ?w" by (rule same_tools_trans [OF same_tools_audit same_tools_emit])
  have "toolset ?v = toolset ?u" by (rule same_toolsD(1)) simp
  then have "tool_require (tq_toolId ?r) ?v = (Inr t, ?v)"
    using tool by (simp add: tool_require_def)
  then have "rerun eng ?r (approval_id a) (time_at s (ticks s)) ?v = runTool eng ?r t (time_at s (ticks s)) ?w"
    using ok by (simp add: rerun_def granted_def Let_def bindS_def [of "tool_require j" for j])
  then have run: "tool_resume eng i None s = runTool eng ?r t (time_at s (ticks s)) ?w"
    using held approved
    by (simp add: tool_resume_def thenS_def [of "returnS x" for x] bindS_def [of "returnS x" for x]
        bindS_def [of "approval_require j" for j] approval_require_def resume_decided_def then_modify)
  have counts: "same_ledger (counted ?r ?w) (snd (runTool eng ?r t (time_at s (ticks s)) ?w))"
    by (rule runTool_ledger [OF eng])
  have before: "same_ledger (counted ?r s) (counted ?r ?w)"
    using same_tools_ledger [OF uw] by (intro counted_cong) (simp add: same_ledger_def)
  show ?thesis unfolding run by (rule ledger.trans [OF before counts])
qed

section \<open>A cleared call\<close>

definition total :: "('s, 'a) op \<Rightarrow> bool" where
  "total m \<longleftrightarrow> (\<forall>s. \<exists>x t. m s = (Inr x, t))"

lemma total_emit: "total k \<Longrightarrow> total (thenS (tool_emit r ph d) k)"
  by (simp add: total_def)

lemma total_now: "(\<And>t. total (f t)) \<Longrightarrow> total (bindS now f)"
  by (simp add: total_def)

lemma total_return: "total (returnS x)"
  by (simp add: total_def)

lemmas total_intros = total_emit total_now total_return

lemma total_finish: "total (finish r started st reason m d)"
  unfolding finish_def by (intro total_intros)

lemma total_settle: "total (settle_call r t l started ms cs outcome)"
  unfolding settle_call_def Let_def check_output_def deliver_def malformed_def
  by (cases outcome; simp split del: if_split;
      intro total_intros total_finish yields_if; simp split: sum.split add: total_intros total_finish)

definition call_limits :: "'s tool_engine \<Rightarrow> Tool \<Rightarrow> ToolExecutionLimits" where
  "call_limits eng t = effectiveLimits (te_ceiling eng) (tool_limits t)"

definition call_timeout :: "'s tool_engine \<Rightarrow> Tool \<Rightarrow> int" where
  "call_timeout eng t = min (timeoutMs t) (tl_maxDurationMs (call_limits eng t))"

lemma execute_tool_clear:
  assumes "clear_for eng r t s"
  shows "\<exists>v. same_tools s v \<and> execute_tool eng r t started s = runTool eng r t started v"
proof -
  let ?d = "evaluate (te_permissions eng) (toolPermissionRequest r)"
  let ?u = "snd (tool_emit r ''resolved'' [(''version'', JStr (tool_version t))] s)"
  let ?w = "snd (audit ''permission_decision'' (Some (tq_taskId r)) (Some (tq_agentId r)) (Some (tq_projectId r))
        (permission_data r t ?d) ?u)"
  let ?v = "snd (tool_emit r ''authorized'' [(''reason'', JStr (decision_reason ?d))] ?w)"
  have "gates (effectiveLimits (te_ceiling eng) (tool_limits t)) r t s = Passed" and ok: "granted eng r"
    and none: "\<not> fst (toolApprovalRequired t r)"
    using assms gates_Passed [of eng t r s] by auto
  then have "execute_tool eng r t started s = authorize eng r t started ?u"
    by (simp add: execute_tool_def)
  also have "\<dots> = runTool eng r t started ?v"
    using ok none by (cases "toolApprovalRequired t r") (simp add: authorize_def granted_def Let_def)
  finally show ?thesis
    by (meson same_tools_emit same_tools_audit same_tools_trans)
qed

lemma runTool_ok:
  assumes "input_ok t r"
  shows "\<exists>s1 at run s2 x u. same_ledger (counted r s) s1 \<and>
    te_handler eng (tool_id t) (tq_input r) (context_of r (at + call_timeout eng t)) s1 = (run, s2) \<and>
    runTool eng r t started s = (Inr x, u) \<and>
    reported r t (call_limits eng t) (withTimeout run (call_timeout eng t)) x"
proof -
  let ?ms = "call_timeout eng t"
  let ?e = "snd (tool_emit r ''executing'' [(''timeoutMs'', JNum ?ms)] (counted r s))"
  let ?s1 = "?e\<lparr>ticks := Suc (Suc (ticks ?e))\<rparr>"
  let ?at = "time_at ?e (ticks ?e)"
  obtain run s2 where h: "te_handler eng (tool_id t) (tq_input r) (context_of r (?at + ?ms)) ?s1 = (run, s2)"
    by fastforce
  have called: "call_handler eng (tool_id t) (tq_input r) (context_of r (?at + ?ms)) ?s1 = (Inr run, s2)"
    using h by (simp add: call_handler_def)
  let ?m = "settle_call r t (call_limits eng t) started ?ms (time_at ?e (Suc (ticks ?e))) (withTimeout run ?ms)"
  have run: "runTool eng r t started s = ?m s2"
    using assms
    by (simp add: runTool_def Let_def input_ok_def then_modify counted_def [symmetric] called
        bindS_def [of "call_handler e i j c" for e i j c]
        flip: call_timeout_def call_limits_def)
  obtain x u where settled: "?m s2 = (Inr x, u)" using total_settle unfolding total_def by blast
  show ?thesis
  proof (intro exI conjI)
    show "same_ledger (counted r s) ?s1"
      by (rule same_tools_ledger [OF same_tools_trans [OF same_tools_emit same_tools_ticks]])
    show "runTool eng r t started s = (Inr x, u)" using run settled by simp
    show "reported r t (call_limits eng t) (withTimeout run ?ms) x"
      using settled by (rule yieldsD [OF settle_call_yields])
  qed (rule h)
qed

lemma tool_execute_cleared:
  assumes "call_cleared eng r s" "map_of (toolset s) (tq_toolId r) = Some t"
  shows "\<exists>s1 at run s2 x u. same_ledger (counted r s) s1 \<and>
    te_handler eng (tool_id t) (tq_input r) (context_of r (at + call_timeout eng t)) s1 = (run, s2) \<and>
    tool_execute eng r s = (Inr x, u) \<and>
    reported r t (call_limits eng t) (withTimeout run (call_timeout eng t)) x"
proof -
  have clear: "clear_for eng r t s" and ok: "input_ok t r" and valid: "validateToolExecutionRequest r = Inr ()"
    using assms by (simp_all add: call_cleared_def)
  let ?v = "after_validation r s"
  obtain v where v: "same_tools ?v v" and run: "execute_tool eng r t (time_at s (ticks s)) ?v = runTool eng r t (time_at s (ticks s)) v"
    using execute_tool_clear [of eng r t ?v "time_at s (ticks s)"] clear by auto
  have "same_ledger (counted r s) (counted r v)"
    by (rule counted_cong [OF same_tools_ledger [OF same_tools_trans [OF same_tools_after v]]])
  moreover have "tool_execute eng r s = runTool eng r t (time_at s (ticks s)) v"
    using valid assms(2) run by (simp add: tool_execute_unfold)
  ultimately show ?thesis
    using runTool_ok [OF ok, of v eng "time_at s (ticks s)"] ledger.trans by (metis (no_types, lifting))
qed

section \<open>Timeouts\<close>

lemma withTimeout_bounds:
  "withTimeout (Settles d r) ms = CallTimedOut \<longleftrightarrow> timer_delay ms \<le> d"
  "withTimeout Hangs ms = CallTimedOut"
  by (auto simp: withTimeout_def split: sum.splits)

text \<open>A tool whose limits are valid never waits longer than its declared timeout.\<close>

lemma timer_delay_le: "0 < ms \<Longrightarrow> 1 \<le> timer_delay ms \<and> timer_delay ms \<le> ms"
  by (simp add: timer_delay_def)

lemma timer_delay_exact: "0 < ms \<Longrightarrow> timer_delay ms = ms \<longleftrightarrow> ms \<le> 2147483647"
  by (auto simp: timer_delay_def)

end
