(* ===== verification/Leases.thy ===== *)
theory Leases
  imports Orchestration Json
begin

text \<open>
  \<open>core/orchestrator/lease-manager.ts\<close>: write leases on parts of a workspace. The repository is
  the insertion-ordered map of the in-memory implementation; ISO timestamps are milliseconds.
\<close>

section \<open>Scopes\<close>

definition DEFAULT_LEASE_TTL_MS :: int where
  "DEFAULT_LEASE_TTL_MS = 3600000"

definition MAX_LEASE_TTL_MS :: int where
  "MAX_LEASE_TTL_MS = 86400000"

definition MAX_SCOPE_ENTRIES :: nat where
  "MAX_SCOPE_ENTRIES = 256"

definition MAX_SCOPE_LENGTH :: nat where
  "MAX_SCOPE_LENGTH = 512"

text \<open>\<open>entry.includes("..")\<close> and the test for a drive letter.\<close>

fun has_dotdot :: "string \<Rightarrow> bool" where
  "has_dotdot (c # d # cs) \<longleftrightarrow> (c = CHR ''.'' \<and> d = CHR ''.'') \<or> has_dotdot (d # cs)"
| "has_dotdot cs \<longleftrightarrow> False"

definition ascii_letter :: "char \<Rightarrow> bool" where
  "ascii_letter c \<longleftrightarrow> (65 \<le> (of_char c :: nat) \<and> (of_char c :: nat) \<le> 90) \<or>
     (97 \<le> (of_char c :: nat) \<and> (of_char c :: nat) \<le> 122)"

fun has_drive :: "string \<Rightarrow> bool" where
  "has_drive (c # d # cs) \<longleftrightarrow> ascii_letter c \<and> d = CHR '':''"
| "has_drive cs \<longleftrightarrow> False"

definition check_scope_entry :: "string \<Rightarrow> unit res" where
  "check_scope_entry entry = checks
     [throw_if (length entry = 0) (ValidationError ''lease scope entries must be non-empty strings''),
      throw_if (length entry > MAX_SCOPE_LENGTH) (ValidationError ''lease scope entry is too long''),
      throw_if (has_dotdot entry \<or> js_startsWith entry ''/'' \<or> has_drive entry)
        (ValidationError (''lease scope entry must be workspace-relative: '' @ json_quote entry))]"

definition validateScope :: "string list \<Rightarrow> unit res" where
  "validateScope scope = checks
     [throw_if (length scope > MAX_SCOPE_ENTRIES)
        (ValidationError (''lease scope must contain at most '' @ show_nat MAX_SCOPE_ENTRIES @ '' entries'')),
      check_all check_scope_entry scope]"

text \<open>Backslashes become slashes, a leading \<open>./\<close> and the trailing slashes go.\<close>

definition normalize_path :: "string \<Rightarrow> string" where
  "normalize_path p =
     (let q = map (\<lambda>c. if c = CHR 0x5C then CHR ''/'' else c) p;
          r = (if js_startsWith q ''./'' then drop 2 q else q) in
      rev (dropWhile (\<lambda>c. c = CHR ''/'') (rev r)))"

definition rootCovers :: "string \<Rightarrow> string \<Rightarrow> bool" where
  "rootCovers root path \<longleftrightarrow> root = ''*'' \<or>
     normalize_path path = normalize_path root \<or> js_startsWith (normalize_path path) (normalize_path root @ ''/'')"

definition scopeCovers :: "string list \<Rightarrow> string \<Rightarrow> bool" where
  "scopeCovers scope path \<longleftrightarrow> list_ex (\<lambda>entry. rootCovers entry path) scope"

definition scopesConflict :: "string list \<Rightarrow> string list \<Rightarrow> bool" where
  "scopesConflict a b \<longleftrightarrow> ''*'' \<in> set a \<or> ''*'' \<in> set b \<or>
     list_ex (\<lambda>l. list_ex (\<lambda>r. rootCovers l r \<or> rootCovers r l) b) a"

section \<open>Leases\<close>

datatype LeaseStatus = LeaseActive | LeaseExpired | LeaseReleased

fun lease_status_str :: "LeaseStatus \<Rightarrow> string" where
  "lease_status_str LeaseActive = ''active''"
| "lease_status_str LeaseExpired = ''expired''"
| "lease_status_str LeaseReleased = ''released''"

record WriteScopeLease =
  leaseId :: string
  lease_projectId :: string
  lease_taskId :: string
  lease_agentId :: string
  lease_workspaceId :: string
  lease_scope :: "string list"
  lease_status :: LeaseStatus
  acquiredAt :: timestamp
  lease_expiresAt :: timestamp
  lease_version :: int

record lease_state = registry_state +
  leases :: "WriteScopeLease repo"

record LeaseInput =
  li_projectId :: string
  li_taskId :: string
  li_agentId :: string
  li_workspaceId :: string
  li_scope :: "string list"
  li_ttlMs :: "int option"
  li_leaseId :: string

definition isLive :: "WriteScopeLease \<Rightarrow> timestamp \<Rightarrow> bool" where
  "isLive l at \<longleftrightarrow> lease_status l = LeaseActive \<and> lease_expiresAt l > at"

definition upsert_lease :: "WriteScopeLease \<Rightarrow> ('x lease_state_scheme, unit) op" where
  "upsert_lease l = modifyS (\<lambda>s. s\<lparr>leases := mem_upsert leaseId l (leases s)\<rparr>)"

definition oldest_first :: "(string \<Rightarrow> string \<Rightarrow> int) \<Rightarrow> WriteScopeLease \<Rightarrow> WriteScopeLease \<Rightarrow> int" where
  "oldest_first lc a b = (if acquiredAt a \<noteq> acquiredAt b then acquiredAt a - acquiredAt b
     else lc (leaseId a) (leaseId b))"

definition conflicting :: "LeaseInput \<Rightarrow> timestamp \<Rightarrow> WriteScopeLease \<Rightarrow> bool" where
  "conflicting i at l \<longleftrightarrow> lease_workspaceId l = li_workspaceId i \<and> lease_projectId l = li_projectId i \<and>
     isLive l at \<and> scopesConflict (lease_scope l) (li_scope i)"

definition conflictingLease ::
  "(string \<Rightarrow> string \<Rightarrow> int) \<Rightarrow> LeaseInput \<Rightarrow> timestamp \<Rightarrow> 'x lease_state_scheme \<Rightarrow> WriteScopeLease option" where
  "conflictingLease lc i at s =
     (case js_sort (oldest_first lc) (filter (conflicting i at) (mem_list (leases s))) of
        [] \<Rightarrow> None | l # _ \<Rightarrow> Some l)"

definition new_lease :: "LeaseInput \<Rightarrow> timestamp \<Rightarrow> int \<Rightarrow> WriteScopeLease" where
  "new_lease i at ttl = \<lparr>leaseId = li_leaseId i, lease_projectId = li_projectId i, lease_taskId = li_taskId i,
     lease_agentId = li_agentId i, lease_workspaceId = li_workspaceId i, lease_scope = li_scope i,
     lease_status = LeaseActive, acquiredAt = at, lease_expiresAt = at + ttl, lease_version = 1\<rparr>"

definition acquire ::
  "(string \<Rightarrow> string \<Rightarrow> int) \<Rightarrow> LeaseInput \<Rightarrow> ('x lease_state_scheme, WriteScopeLease) op" where
  "acquire lc i =
     thenS (liftE (validateScope (li_scope i)))
     (let ttl = or_else (li_ttlMs i) DEFAULT_LEASE_TTL_MS in
      thenS (liftE (throw_if (ttl \<le> 0 \<or> ttl > MAX_LEASE_TTL_MS)
        (ValidationError (''lease ttlMs must be a positive number no greater than '' @ show_int MAX_LEASE_TTL_MS))))
      (bindS now (\<lambda>at.
       bindS (getsS (conflictingLease lc i at)) (\<lambda>conflict. case conflict of
         Some c \<Rightarrow> throwS (StateTransitionError (''workspace '' @ li_workspaceId i
           @ '' already has a live write lease '' @ leaseId c @ '' held by '' @ lease_agentId c
           @ '' for task '' @ lease_taskId c @ '' over overlapping scope''))
       | None \<Rightarrow> let lease = new_lease i at ttl in thenS (upsert_lease lease) (returnS lease)))))"

definition ended_lease :: "LeaseStatus \<Rightarrow> WriteScopeLease \<Rightarrow> WriteScopeLease" where
  "ended_lease st l = l\<lparr>lease_status := st, lease_version := lease_version l + 1\<rparr>"

definition lease_release :: "string \<Rightarrow> ('x lease_state_scheme, WriteScopeLease) op" where
  "lease_release i s = (case mem_findById i (leases s) of
     None \<Rightarrow> (Inl (NotFoundError (''unknown lease: '' @ i)), s)
   | Some l \<Rightarrow>
       if lease_status l \<noteq> LeaseActive
       then (Inl (StateTransitionError (''lease is already '' @ lease_status_str (lease_status l))), s)
       else thenS (upsert_lease (ended_lease LeaseReleased l)) (returnS (ended_lease LeaseReleased l)) s)"

text \<open>The loops of \<open>releaseForTask\<close> and \<open>expireStale\<close> run over the list as it was at the start.\<close>

fun release_each :: "string \<Rightarrow> WriteScopeLease list \<Rightarrow> ('x lease_state_scheme, WriteScopeLease list) op" where
  "release_each t [] = returnS []"
| "release_each t (l # ls) =
     (if lease_taskId l = t \<and> lease_status l = LeaseActive
      then thenS (upsert_lease (ended_lease LeaseReleased l))
        (bindS (release_each t ls) (\<lambda>rest. returnS (ended_lease LeaseReleased l # rest)))
      else release_each t ls)"

definition lease_releaseForTask :: "string \<Rightarrow> ('x lease_state_scheme, WriteScopeLease list) op" where
  "lease_releaseForTask t = bindS (getsS (\<lambda>s. mem_list (leases s))) (release_each t)"

definition hasValidLease :: "string \<Rightarrow> string \<Rightarrow> string \<Rightarrow> ('x lease_state_scheme, bool) op" where
  "hasValidLease workspaceId agentId path = bindS now (\<lambda>at. getsS (\<lambda>s.
     list_ex (\<lambda>l. scopeCovers (lease_scope l) path)
       (filter (\<lambda>l. lease_workspaceId l = workspaceId \<and> lease_agentId l = agentId \<and> isLive l at)
         (mem_list (leases s)))))"

definition active_leases :: "string \<Rightarrow> ('x lease_state_scheme, WriteScopeLease list) op" where
  "active_leases workspaceId = bindS now (\<lambda>at. getsS (\<lambda>s.
     js_sort (\<lambda>a b. acquiredAt a - acquiredAt b)
       (filter (\<lambda>l. lease_workspaceId l = workspaceId \<and> isLive l at) (mem_list (leases s)))))"

fun expire_each :: "timestamp \<Rightarrow> WriteScopeLease list \<Rightarrow> ('x lease_state_scheme, string list) op" where
  "expire_each at [] = returnS []"
| "expire_each at (l # ls) =
     (if lease_status l = LeaseActive \<and> lease_expiresAt l \<le> at
      then thenS (upsert_lease (ended_lease LeaseExpired l))
        (bindS (expire_each at ls) (\<lambda>rest. returnS (leaseId l # rest)))
      else expire_each at ls)"

definition lease_expireStale :: "('x lease_state_scheme, string list) op" where
  "lease_expireStale = bindS now (\<lambda>at. bindS (getsS (\<lambda>s. mem_list (leases s))) (expire_each at))"

section \<open>Scopes and paths\<close>

lemma rootCovers_iff:
  "rootCovers r p \<longleftrightarrow> r = ''*'' \<or> normalize_path p = normalize_path r \<or>
     (\<exists>t. normalize_path p = normalize_path r @ ''/'' @ t)"
  by (auto simp: rootCovers_def js_startsWith_iff)

lemma rootCovers_self [simp]: "rootCovers r r"
  by (simp add: rootCovers_def)

text \<open>Two roots that cover the same path are nested.\<close>

lemma nested_prefixes:
  assumes "a @ x # t = b @ x # u"
  shows "a = b \<or> (\<exists>v. b = a @ x # v) \<or> (\<exists>v. a = b @ x # v)"
  using assms
proof (induction a arbitrary: b)
  case Nil
  then show ?case by (cases b) auto
next
  case (Cons y a)
  then show ?case by (cases b) auto
qed

lemma rootCovers_segment:
  assumes "rootCovers r p" "r \<noteq> ''*''"
  shows "\<exists>t. normalize_path p @ ''/'' = normalize_path r @ CHR ''/'' # t"
proof -
  from assms consider "normalize_path p = normalize_path r"
    | t where "normalize_path p = normalize_path r @ ''/'' @ t"
    by (auto simp: rootCovers_iff)
  then show ?thesis by cases auto
qed

lemma rootCovers_nested:
  assumes "rootCovers a p" "rootCovers b p"
  shows "rootCovers a b \<or> rootCovers b a"
proof (cases "a = ''*'' \<or> b = ''*''")
  case False
  then obtain t u where t: "normalize_path p @ ''/'' = normalize_path a @ CHR ''/'' # t"
    and u: "normalize_path p @ ''/'' = normalize_path b @ CHR ''/'' # u"
    using rootCovers_segment assms by blast
  from t u have "normalize_path a @ CHR ''/'' # t = normalize_path b @ CHR ''/'' # u" by simp
  from nested_prefixes [OF this] show ?thesis by (auto simp: rootCovers_iff)
qed (auto simp: rootCovers_def)

text \<open>The conflict test is exact: two non-empty scopes conflict if and only if they share a path.\<close>

lemma scopesConflict_exact:
  assumes "a \<noteq> []" "b \<noteq> []"
  shows "scopesConflict a b \<longleftrightarrow> (\<exists>p. scopeCovers a p \<and> scopeCovers b p)"
proof
  assume "scopesConflict a b"
  moreover have "scopeCovers x (hd x)" if "x \<noteq> []" for x
    using that by (cases x) (simp_all add: scopeCovers_def)
  moreover have "scopeCovers x p" if "''*'' \<in> set x" for x p
    using that by (auto simp: scopeCovers_def list_ex_iff rootCovers_def)
  ultimately show "\<exists>p. scopeCovers a p \<and> scopeCovers b p"
    using assms by (fastforce simp: scopesConflict_def scopeCovers_def list_ex_iff)
next
  assume "\<exists>p. scopeCovers a p \<and> scopeCovers b p"
  then show "scopesConflict a b"
    using rootCovers_nested by (fastforce simp: scopesConflict_def scopeCovers_def list_ex_iff)
qed

lemma scopesConflict_shared: "scopeCovers a p \<Longrightarrow> scopeCovers b p \<Longrightarrow> scopesConflict a b"
  using scopesConflict_exact [of a b] by (cases "a = [] \<or> b = []") (auto simp: scopeCovers_def)

lemma scopesConflict_sym: "scopesConflict a b = scopesConflict b a"
  by (auto simp: scopesConflict_def list_ex_iff)

section \<open>Exclusive writing\<close>

text \<open>
  Two leases of one project on one workspace that are both still active and overlap were never
  valid together: one had expired when the other was acquired.
\<close>

definition rivals :: "WriteScopeLease \<Rightarrow> WriteScopeLease \<Rightarrow> bool" where
  "rivals a b \<longleftrightarrow> lease_status a = LeaseActive \<and> lease_status b = LeaseActive \<and>
     lease_workspaceId a = lease_workspaceId b \<and> lease_projectId a = lease_projectId b \<and>
     scopesConflict (lease_scope a) (lease_scope b)"

definition disjoint_terms :: "WriteScopeLease \<Rightarrow> WriteScopeLease \<Rightarrow> bool" where
  "disjoint_terms a b \<longleftrightarrow> lease_expiresAt a \<le> acquiredAt b \<or> lease_expiresAt b \<le> acquiredAt a"

definition exclusive :: "WriteScopeLease repo \<Rightarrow> bool" where
  "exclusive r \<longleftrightarrow> (\<forall>i j a b. mem_findById i r = Some a \<and> mem_findById j r = Some b \<and> i \<noteq> j \<and> rivals a b
     \<longrightarrow> disjoint_terms a b)"

definition leases_ok :: "'x lease_state_scheme \<Rightarrow> bool" where
  "leases_ok s \<longleftrightarrow> repo_ok leaseId (leases s) \<and> exclusive (leases s)"

definition leases_keep :: "'x lease_state_scheme \<Rightarrow> 'x lease_state_scheme \<Rightarrow> bool" where
  "leases_keep s t \<longleftrightarrow> (leases_ok s \<longrightarrow> leases_ok t)"

interpretation lease_evo: evolution "leases_keep :: 'x lease_state_scheme \<Rightarrow> 'x lease_state_scheme \<Rightarrow> bool"
  by unfold_locales (auto simp: leases_keep_def)

lemma rivals_sym: "rivals a b = rivals b a"
  by (auto simp: rivals_def scopesConflict_sym)

lemma disjoint_terms_sym: "disjoint_terms a b = disjoint_terms b a"
  by (auto simp: disjoint_terms_def)

lemma exclusive_upsert:
  assumes "exclusive r"
    and "\<And>i b. mem_findById i r = Some b \<Longrightarrow> i \<noteq> leaseId e \<Longrightarrow> rivals e b \<Longrightarrow> disjoint_terms e b"
  shows "exclusive (mem_upsert leaseId e r)"
  unfolding exclusive_def
proof (intro allI impI)
  fix i j a b
  assume h: "mem_findById i (mem_upsert leaseId e r) = Some a \<and> mem_findById j (mem_upsert leaseId e r) = Some b \<and>
    i \<noteq> j \<and> rivals a b"
  show "disjoint_terms a b"
  proof (cases "i = leaseId e")
    case True
    with h have "a = e" "mem_findById j r = Some b" "j \<noteq> leaseId e" by (auto split: if_splits)
    with h show ?thesis using assms(2) [of j b] by simp
  next
    case i: False
    show ?thesis
    proof (cases "j = leaseId e")
      case True
      with h i have "b = e" "mem_findById i r = Some a" by simp_all
      with h i show ?thesis using assms(2) [of i a] by (simp add: rivals_sym [of a] disjoint_terms_sym [of a])
    next
      case False
      with h i have "mem_findById i r = Some a" "mem_findById j r = Some b" by simp_all
      with h show ?thesis using assms(1) unfolding exclusive_def by blast
    qed
  qed
qed

lemma keeps_upsert_ended:
  assumes "st \<noteq> LeaseActive"
  shows "keeps leases_keep (upsert_lease (ended_lease st l))"
proof (rule keepsI)
  fix s :: "'x lease_state_scheme"
  have "exclusive (mem_upsert leaseId (ended_lease st l) (leases s))" if "exclusive (leases s)"
    using that assms by (intro exclusive_upsert) (simp_all add: rivals_def ended_lease_def)
  then show "leases_keep s (snd (upsert_lease (ended_lease st l) s))"
    by (simp add: leases_keep_def leases_ok_def upsert_lease_def repo_ok_upsert)
qed

lemma leases_frame: "(\<And>s. leases (snd (m s)) = leases s) \<Longrightarrow> keeps leases_keep m"
  by (rule keepsI) (simp add: leases_keep_def leases_ok_def)

lemma leases_now: "keeps leases_keep now"
  by (rule leases_frame) (simp add: now_def)

lemma keeps_release_each: "keeps leases_keep (release_each t ls)"
proof (induction ls)
  case Nil
  show ?case unfolding release_each.simps by (rule lease_evo.keeps_returnS)
next
  case (Cons l ls)
  then show ?case unfolding release_each.simps by (intro lease_evo.keeps_intros keeps_upsert_ended) simp_all
qed

lemma keeps_expire_each: "keeps leases_keep (expire_each at ls)"
proof (induction ls)
  case Nil
  show ?case unfolding expire_each.simps by (rule lease_evo.keeps_returnS)
next
  case (Cons l ls)
  then show ?case unfolding expire_each.simps by (intro lease_evo.keeps_intros keeps_upsert_ended) simp_all
qed

lemma keeps_releaseForTask: "keeps leases_keep (lease_releaseForTask t)"
  unfolding lease_releaseForTask_def by (intro lease_evo.keeps_intros keeps_release_each)

lemma keeps_expireStale_leases: "keeps leases_keep lease_expireStale"
  unfolding lease_expireStale_def by (intro lease_evo.keeps_intros leases_now keeps_expire_each)

lemma keeps_lease_release: "keeps leases_keep (lease_release i)"
proof (rule keepsI)
  fix s :: "'x lease_state_scheme"
  show "leases_keep s (snd (lease_release i s))"
  proof (cases "mem_findById i (leases s)")
    case None
    then show ?thesis by (simp add: lease_release_def lease_evo.refl)
  next
    case (Some l)
    have "keeps leases_keep (thenS (upsert_lease (ended_lease LeaseReleased l)) (returnS (ended_lease LeaseReleased l))
        :: ('x lease_state_scheme, WriteScopeLease) op)"
      by (intro lease_evo.keeps_intros keeps_upsert_ended) simp
    with Some show ?thesis by (simp add: lease_release_def lease_evo.refl keeps_def)
  qed
qed

lemma conflictingLease_None:
  "conflictingLease lc i at s = None \<longleftrightarrow> (\<forall>l \<in> set (mem_list (leases s)). \<not> conflicting i at l)"
proof (cases "js_sort (oldest_first lc) (filter (conflicting i at) (mem_list (leases s)))")
  case Nil
  then have "\<forall>l \<in> set (mem_list (leases s)). \<not> conflicting i at l"
    unfolding js_sort_empty_iff filter_empty_conv .
  then show ?thesis unfolding conflictingLease_def Nil by simp
next
  case (Cons l ls)
  have "set (js_sort (oldest_first lc) (filter (conflicting i at) (mem_list (leases s)))) =
      {l \<in> set (mem_list (leases s)). conflicting i at l}" by simp
  with Cons have "l \<in> set (mem_list (leases s))" "conflicting i at l" by auto
  with Cons show ?thesis unfolding conflictingLease_def by auto
qed

lemma acquire_cases:
  obtains (rejected) e u where "acquire lc i s = (Inl e, u)" "leases u = leases s"
  | (acquired) ttl u where "acquire lc i s = (Inr (new_lease i (time_at s (ticks s)) ttl), u)"
      "leases u = mem_upsert leaseId (new_lease i (time_at s (ticks s)) ttl) (leases s)"
      "0 < ttl" "ttl \<le> MAX_LEASE_TTL_MS" "validateScope (li_scope i) = Inr ()"
      "\<forall>l \<in> set (mem_list (leases s)). \<not> conflicting i (time_at s (ticks s)) l"
proof (cases "validateScope (li_scope i)")
  case (Inl e)
  then show thesis by (intro rejected [of e s]) (simp_all add: acquire_def op_simps)
next
  case (Inr v)
  let ?ttl = "or_else (li_ttlMs i) DEFAULT_LEASE_TTL_MS" and ?at = "time_at s (ticks s)"
  show thesis
  proof (cases "?ttl \<le> 0 \<or> ?ttl > MAX_LEASE_TTL_MS")
    case True
    with Inr show thesis by (intro rejected) (auto simp: acquire_def op_simps throw_if_def)
  next
    case ttl: False
    have same: "conflictingLease lc i ?at (s\<lparr>ticks := Suc (ticks s)\<rparr>) = conflictingLease lc i ?at s"
      by (simp add: conflictingLease_def)
    show thesis
    proof (cases "conflictingLease lc i ?at s")
      case None
      then have free: "\<forall>l \<in> set (mem_list (leases s)). \<not> conflicting i ?at l" by (simp add: conflictingLease_None)
      let ?u = "s\<lparr>ticks := Suc (ticks s), leases := mem_upsert leaseId (new_lease i ?at ?ttl) (leases s)\<rparr>"
      have "acquire lc i s = (Inr (new_lease i ?at ?ttl), ?u)"
        using None Inr ttl same by (simp add: acquire_def op_simps throw_if_def now_def Let_def upsert_lease_def)
      then show thesis using ttl Inr free by (intro acquired [of ?ttl ?u]) simp_all
    next
      case (Some c)
      with Inr ttl same show thesis
        by (intro rejected [of _ "s\<lparr>ticks := Suc (ticks s)\<rparr>"])
          (simp_all add: acquire_def op_simps throw_if_def now_def Let_def)
    qed
  qed
qed

lemma keeps_acquire: "keeps leases_keep (acquire lc i)"
proof (rule keepsI)
  fix s :: "'x lease_state_scheme"
  show "leases_keep s (snd (acquire lc i s))"
  proof (cases rule: acquire_cases [of lc i s])
    case (rejected e u)
    then show ?thesis by (simp add: leases_keep_def leases_ok_def)
  next
    case (acquired ttl u)
    let ?e = "new_lease i (time_at s (ticks s)) ttl"
    have "leases_ok u" if ok: "leases_ok s"
    proof -
      have "disjoint_terms ?e b" if "mem_findById j (leases s) = Some b" "rivals ?e b" for j b
      proof -
        have "b \<in> set (mem_list (leases s))"
          using that(1) ok by (auto simp: leases_ok_def intro: mem.find_in_list)
        with acquired(6) have "\<not> conflicting i (time_at s (ticks s)) b" by blast
        with that(2) show ?thesis
          by (auto simp: rivals_def conflicting_def isLive_def new_lease_def disjoint_terms_def scopesConflict_sym)
      qed
      then show ?thesis
        using ok acquired(2) by (simp add: leases_ok_def repo_ok_upsert exclusive_upsert)
    qed
    with acquired(1) show ?thesis by (simp add: leases_keep_def)
  qed
qed

text \<open>At any time after both were acquired, at most one of two overlapping leases is valid.\<close>

lemma one_writer:
  assumes "leases_ok s" "a \<in> set (mem_list (leases s))" "b \<in> set (mem_list (leases s))"
    and "lease_workspaceId a = lease_workspaceId b" "lease_projectId a = lease_projectId b"
    and "isLive a at" "isLive b at" "acquiredAt a \<le> at" "acquiredAt b \<le> at"
    and "scopeCovers (lease_scope a) p" "scopeCovers (lease_scope b) p"
  shows "a = b"
proof (rule ccontr)
  assume "a \<noteq> b"
  have stored: "mem_findById (leaseId a) (leases s) = Some a" "mem_findById (leaseId b) (leases s) = Some b"
    using assms(1-3) mem_list_find [of leaseId "leases s"] by (simp_all add: leases_ok_def)
  then have "leaseId a \<noteq> leaseId b" using \<open>a \<noteq> b\<close> by auto
  moreover have "rivals a b"
    using assms(4-7) scopesConflict_shared [OF assms(10,11)] by (simp add: rivals_def isLive_def)
  ultimately have "disjoint_terms a b" using assms(1) stored by (auto simp: leases_ok_def exclusive_def)
  with assms(6-9) show False by (auto simp: disjoint_terms_def isLive_def)
qed

end
