(* ===== verification/Assignments.thy ===== *)
theory Assignments
  imports Leases Descriptors
begin

text \<open>
  \<open>contracts/assignment.ts\<close> and the descriptor-aware part of
  \<open>core/environments/agent-qualification-router.ts\<close>: what a task requires of an agent, the
  evidence of a qualification, and the assignment built from it.
\<close>

section \<open>Task requirements\<close>

record TaskRequirements =
  rq_projectId :: string
  rq_taskType :: string
  requiredCapabilities :: "string list"
  preferredCapabilities :: "string list option"
  technologyRequirements :: "string list option"
  rq_environmentRequirements :: "string list option"
  toolRequirements :: "string list option"
  riskLevel :: AgentRiskLevel
  rq_requiresIndependentReview :: "bool option"
  reviewCapabilities :: "string list option"
  rq_writeScope :: "string list option"
  excludeAgentIds :: "string list option"
  implementerAgentId :: "string option"

definition DEFAULT_REVIEW_CAPABILITIES :: "string list" where
  "DEFAULT_REVIEW_CAPABILITIES = [''software.review'']"

definition requireCapabilityList :: "string list \<Rightarrow> string \<Rightarrow> nat \<Rightarrow> unit res" where
  "requireCapabilityList v field mx = checks
     [throw_if (length v > mx)
        (ValidationError (field @ '' must contain at most '' @ show_nat mx @ '' entries'')),
      check_indexed (\<lambda>i entry. requireText_max entry (field @ ''['' @ show_nat i @ '']'') MAX_CAPABILITY_ID_LENGTH) v]"

definition optional_list :: "string list option \<Rightarrow> string \<Rightarrow> nat \<Rightarrow> unit res" where
  "optional_list v field mx = (case v of None \<Rightarrow> Inr () | Some l \<Rightarrow> requireCapabilityList l field mx)"

definition canonical_entries :: "string list \<Rightarrow> string \<Rightarrow> unit res" where
  "canonical_entries v field = check_all (\<lambda>c. throw_if (\<not> isCapabilityId c)
     (ValidationError (field @ '' contains a non-canonical capability: '' @ json_quote c))) v"

definition validateTaskRequirements :: "TaskRequirements \<Rightarrow> unit res" where
  "validateTaskRequirements r = checks
     [throw_if (\<not> isSafeIdentifier (rq_projectId r)) (ValidationError ''task requirements projectId is invalid''),
      requireText_max (rq_taskType r) ''task requirements taskType'' 120,
      requireCapabilityList (requiredCapabilities r) ''task requirements requiredCapabilities'' 128,
      canonical_entries (requiredCapabilities r) ''task requirements requiredCapabilities'',
      optional_list (preferredCapabilities r) ''task requirements preferredCapabilities'' 256,
      optional_list (technologyRequirements r) ''task requirements technologyRequirements'' 256,
      optional_list (rq_environmentRequirements r) ''task requirements environmentRequirements'' 256,
      optional_list (rq_writeScope r) ''task requirements writeScope'' 256,
      optional_list (excludeAgentIds r) ''task requirements excludeAgentIds'' 256,
      optional_list (toolRequirements r) ''task requirements toolRequirements'' 64,
      (case reviewCapabilities r of None \<Rightarrow> Inr () | Some v \<Rightarrow> checks
         [requireCapabilityList v ''task requirements reviewCapabilities'' 32,
          canonical_entries v ''task requirements reviewCapabilities'']),
      throw_if (defined_and (\<lambda>a. \<not> isSafeIdentifier a) (implementerAgentId r))
        (ValidationError ''task requirements implementerAgentId is invalid'')]"

definition reviewThresholdReached :: "TaskRequirements \<Rightarrow> bool" where
  "reviewThresholdReached r \<longleftrightarrow> length (or_else (reviewCapabilities r) DEFAULT_REVIEW_CAPABILITIES) > 0"

definition requiresIndependentReview_task :: "TaskRequirements \<Rightarrow> bool" where
  "requiresIndependentReview_task r \<longleftrightarrow> rq_requiresIndependentReview r = Some True \<or>
     riskLevel r = RiskCritical \<or> riskLevel r = RiskHigh \<or>
     (riskLevel r = RiskModerate \<and> reviewThresholdReached r)"

section \<open>Assignments\<close>

datatype AssignmentStatus =
  AsPending | AsAssigned | AsAccepted | AsExecuting | AsCompleted | AsFailed | AsCancelled | AsReassigned

fun assignment_status_str :: "AssignmentStatus \<Rightarrow> string" where
  "assignment_status_str AsPending = ''pending''"
| "assignment_status_str AsAssigned = ''assigned''"
| "assignment_status_str AsAccepted = ''accepted''"
| "assignment_status_str AsExecuting = ''executing''"
| "assignment_status_str AsCompleted = ''completed''"
| "assignment_status_str AsFailed = ''failed''"
| "assignment_status_str AsCancelled = ''cancelled''"
| "assignment_status_str AsReassigned = ''reassigned''"

fun ASSIGNMENT_TRANSITIONS :: "AssignmentStatus \<Rightarrow> AssignmentStatus list" where
  "ASSIGNMENT_TRANSITIONS AsPending = [AsAssigned, AsCancelled]"
| "ASSIGNMENT_TRANSITIONS AsAssigned = [AsAccepted, AsFailed, AsCancelled, AsReassigned]"
| "ASSIGNMENT_TRANSITIONS AsAccepted = [AsExecuting, AsFailed, AsCancelled, AsReassigned]"
| "ASSIGNMENT_TRANSITIONS AsExecuting = [AsCompleted, AsFailed, AsCancelled, AsReassigned]"
| "ASSIGNMENT_TRANSITIONS AsCompleted = []"
| "ASSIGNMENT_TRANSITIONS AsFailed = []"
| "ASSIGNMENT_TRANSITIONS AsCancelled = []"
| "ASSIGNMENT_TRANSITIONS AsReassigned = []"

definition canTransitionAssignment :: "AssignmentStatus \<Rightarrow> AssignmentStatus \<Rightarrow> bool" where
  "canTransitionAssignment from to \<longleftrightarrow> to \<in> set (ASSIGNMENT_TRANSITIONS from)"

datatype AgentRejectionReason =
  RAgentDisabled | RProjectNotAllowed | RMissingCapability | RNoAgentDescriptor | RAdministrativelyInactive
| RRiskAboveCeiling | RTechnologyMismatch | RToolCapabilityDenied | REnvironmentIncompatible
| RAgentExcluded | RReviewIndependenceViolated

fun rejection_str :: "AgentRejectionReason \<Rightarrow> string" where
  "rejection_str RAgentDisabled = ''agent_disabled''"
| "rejection_str RProjectNotAllowed = ''project_not_allowed''"
| "rejection_str RMissingCapability = ''missing_capability''"
| "rejection_str RNoAgentDescriptor = ''no_agent_descriptor''"
| "rejection_str RAdministrativelyInactive = ''administratively_inactive''"
| "rejection_str RRiskAboveCeiling = ''risk_above_ceiling''"
| "rejection_str RTechnologyMismatch = ''technology_mismatch''"
| "rejection_str RToolCapabilityDenied = ''tool_capability_denied''"
| "rejection_str REnvironmentIncompatible = ''environment_incompatible''"
| "rejection_str RAgentExcluded = ''agent_excluded''"
| "rejection_str RReviewIndependenceViolated = ''review_independence_violated''"

record AgentCandidateEvidence =
  ce_agentId :: string
  qualifies :: bool
  ce_matched :: "string list"
  ce_missing :: "string list"
  reasonCodes :: "AgentRejectionReason list"

record QualificationEvidence =
  qe_agentId :: string
  qe_descriptorVersion :: int
  qe_qualified :: bool
  qe_matched :: "string list"
  qe_missing :: "string list"
  qe_reasonCodes :: "AgentRejectionReason list"
  qe_limitations :: "string list"
  qe_evaluatedAt :: timestamp

record Assignment =
  assignmentId :: string
  asg_projectId :: string
  asg_taskId :: string
  asg_agentId :: string
  asg_descriptorVersion :: int
  asg_qualification :: QualificationEvidence
  asg_status :: AssignmentStatus
  assignedAt :: timestamp
  assignedBy :: string
  correlationId :: "string option"
  replacesAssignmentId :: "string option"
  failureReason :: "string option"
  asg_updatedAt :: timestamp
  asg_writeScope :: "string list option"
  asg_leaseId :: "string option"

definition safe_field :: "string \<Rightarrow> string \<Rightarrow> unit res" where
  "safe_field v field = throw_if (\<not> isSafeIdentifier v) (ValidationError (''assignment.'' @ field @ '' is invalid''))"

definition validateAssignment :: "Assignment \<Rightarrow> unit res" where
  "validateAssignment a = checks
     [safe_field (assignmentId a) ''assignmentId'', safe_field (asg_projectId a) ''projectId'',
      safe_field (asg_taskId a) ''taskId'', safe_field (asg_agentId a) ''agentId'',
      throw_if (\<not> isSafePrincipal (assignedBy a)) (ValidationError ''assignment.assignedBy is invalid''),
      throw_if (asg_descriptorVersion a < 1) (ValidationError ''assignment.descriptorVersion must be an integer >= 1''),
      throw_if (\<not> qe_qualified (asg_qualification a)) (ValidationError
        ''an assignment may only be created for a QUALIFIED agent; qualification is evidence, not an assumption''),
      requireCapabilityList (qe_matched (asg_qualification a)) ''assignment.qualification.matchedCapabilities'' 128,
      requireCapabilityList (map rejection_str (qe_reasonCodes (asg_qualification a)))
        ''assignment.qualification.reasonCodes'' 32,
      throw_if (qe_descriptorVersion (asg_qualification a) \<noteq> asg_descriptorVersion a) (ValidationError
        ''assignment.qualification must describe the same descriptor version as the assignment''),
      (case replacesAssignmentId a of None \<Rightarrow> Inr () | Some i \<Rightarrow> checks
         [safe_field i ''replacesAssignmentId'',
          throw_if (i = assignmentId a) (ValidationError ''an assignment cannot replace itself'')]),
      optional_list (asg_writeScope a) ''assignment.writeScope'' 256]"

section \<open>Qualification\<close>

type_synonym enablement = "(string \<Rightarrow> string \<Rightarrow> bool) option"

text \<open>\<open>if (bad) reasons.push(code)\<close>.\<close>

definition push_if :: "bool \<Rightarrow> 'a \<Rightarrow> 'a list" where
  "push_if bad code = (if bad then [code] else [])"

definition rejection_reasons :: "AgentDescriptor \<Rightarrow> TaskRequirements \<Rightarrow> enablement \<Rightarrow> AgentRejectionReason list" where
  "rejection_reasons d r isEnabled =
     push_if (\<not> acceptsNewAssignments (administrativeStatus d)) RAdministrativelyInactive @
     push_if (defined_and (\<lambda>f. \<not> f (agent_id d) (rq_projectId r)) isEnabled) RAgentDisabled @
     push_if (rq_projectId r \<notin> set (pp_projects (projectPolicy d))) RProjectNotAllowed @
     push_if (length (rq_taskType r) > 0 \<and> rq_taskType r \<notin> set (supportedTaskTypes d)) RMissingCapability @
     push_if (length (missingCapabilities (capabilities d) (requiredCapabilities r)) > 0) RMissingCapability @
     (let technologies = or_else (technologyRequirements r) [] in
      push_if (length technologies > 0 \<and>
        \<not> list_ex (\<lambda>t. t \<in> set (q_technologies (qualification d))) technologies) RTechnologyMismatch) @
     push_if (\<not> riskWithinCeiling (riskLevel r) (maxRiskLevel (qualification d))) RRiskAboveCeiling @
     push_if (list_ex (\<lambda>c. c \<notin> set (maxExecutionCapabilities (toolPolicy d))) (or_else (toolRequirements r) []))
       RToolCapabilityDenied @
     (let environments = or_else (rq_environmentRequirements r) [] in
      push_if (length environments > 0 \<and> \<not> acceptsAnyEnvironmentType (environmentRequirements d) \<and>
        \<not> list_ex (\<lambda>e. e \<in> set (requiredEnvironmentTypes (environmentRequirements d))) environments)
        REnvironmentIncompatible) @
     push_if (agent_id d \<in> set (or_else (excludeAgentIds r) [])) RAgentExcluded @
     push_if (implementerAgentId r = Some (agent_id d)) RReviewIndependenceViolated"

definition qualifyDescriptor :: "AgentDescriptor \<Rightarrow> TaskRequirements \<Rightarrow> enablement \<Rightarrow> AgentCandidateEvidence" where
  "qualifyDescriptor d r isEnabled = (let reasons = rejection_reasons d r isEnabled in
     \<lparr>ce_agentId = agent_id d, qualifies = (length reasons = 0),
      ce_matched = satisfiedCapabilities (capabilities d) (requiredCapabilities r),
      ce_missing = missingCapabilities (capabilities d) (requiredCapabilities r),
      reasonCodes = js_unique reasons\<rparr>)"

definition by_rank :: "(string \<Rightarrow> string \<Rightarrow> int) \<Rightarrow> AgentCandidateEvidence \<Rightarrow> AgentCandidateEvidence \<Rightarrow> int" where
  "by_rank lc a b =
     (if qualifies a \<noteq> qualifies b then of_bool (qualifies b) - of_bool (qualifies a)
      else if length (ce_matched a) \<noteq> length (ce_matched b)
      then int (length (ce_matched b)) - int (length (ce_matched a))
      else lc (ce_agentId a) (ce_agentId b))"

record QualificationOutcome =
  qo_candidates :: "AgentDescriptor list"
  qo_evidence :: "AgentCandidateEvidence list"

text \<open>\<open>descriptors.find\<close> always finds one: every piece of evidence comes from a descriptor.\<close>

definition qualify_all ::
  "(string \<Rightarrow> string \<Rightarrow> int) \<Rightarrow> TaskRequirements \<Rightarrow> AgentDescriptor list \<Rightarrow> enablement \<Rightarrow> QualificationOutcome" where
  "qualify_all lc r ds isEnabled =
     (let evidence = js_sort (by_rank lc) (map (\<lambda>d. qualifyDescriptor d r isEnabled) ds) in
      \<lparr>qo_candidates = List.map_filter (\<lambda>e. js_find (\<lambda>d. agent_id d = ce_agentId e) ds) (filter qualifies evidence),
       qo_evidence = evidence\<rparr>)"

definition qualify ::
  "(string \<Rightarrow> string \<Rightarrow> int) \<Rightarrow> TaskRequirements \<Rightarrow> AgentDescriptor list \<Rightarrow> enablement \<Rightarrow> QualificationOutcome res" where
  "qualify lc r ds isEnabled = bindE (validateTaskRequirements r) (\<lambda>_. Inr (qualify_all lc r ds isEnabled))"

record AssignmentDraft =
  dr_assignmentId :: string
  dr_taskId :: string
  dr_assignedBy :: string
  dr_correlationId :: "string option"
  dr_excludeAgentIds :: "string list option"
  dr_now :: timestamp

definition new_assignment ::
  "TaskRequirements \<Rightarrow> AgentDescriptor \<Rightarrow> AgentCandidateEvidence \<Rightarrow> AssignmentDraft \<Rightarrow> Assignment" where
  "new_assignment r d e o' =
     \<lparr>assignmentId = dr_assignmentId o', asg_projectId = rq_projectId r, asg_taskId = dr_taskId o',
      asg_agentId = agent_id d, asg_descriptorVersion = agent_version d,
      asg_qualification = \<lparr>qe_agentId = agent_id d, qe_descriptorVersion = agent_version d, qe_qualified = True,
        qe_matched = ce_matched e, qe_missing = ce_missing e, qe_reasonCodes = reasonCodes e,
        qe_limitations = limitations d, qe_evaluatedAt = dr_now o'\<rparr>,
      asg_status = AsAssigned, assignedAt = dr_now o', assignedBy = dr_assignedBy o',
      correlationId = (if truthy (dr_correlationId o') then dr_correlationId o' else None),
      replacesAssignmentId = None, failureReason = None, asg_updatedAt = dr_now o',
      asg_writeScope = (if length (or_else (rq_writeScope r) []) > 0 then rq_writeScope r else None),
      asg_leaseId = None\<rparr>"

definition buildAssignment ::
  "TaskRequirements \<Rightarrow> AgentDescriptor \<Rightarrow> AgentCandidateEvidence \<Rightarrow> AssignmentDraft \<Rightarrow> Assignment res" where
  "buildAssignment r d e o' =
     (if \<not> qualifies e
      then Inl (ValidationError ''refusing to build an assignment for an agent that did not qualify'')
      else bindE (validateAssignment (new_assignment r d e o')) (\<lambda>_. Inr (new_assignment r d e o')))"

datatype selection = Chosen Assignment | NoQualifiedAgent "AgentCandidateEvidence list"

definition effective_requirements :: "TaskRequirements \<Rightarrow> string list option \<Rightarrow> TaskRequirements" where
  "effective_requirements r extra =
     r\<lparr>excludeAgentIds := Some (or_else (excludeAgentIds r) [] @ or_else extra [])\<rparr>"

definition selectAssignment ::
  "(string \<Rightarrow> string \<Rightarrow> int) \<Rightarrow> TaskRequirements \<Rightarrow> AgentDescriptor list \<Rightarrow> AssignmentDraft \<Rightarrow> enablement \<Rightarrow>
   selection res" where
  "selectAssignment lc r ds o' isEnabled =
     (let effective = effective_requirements r (dr_excludeAgentIds o') in
      bindE (qualify lc effective ds isEnabled) (\<lambda>out. case qo_candidates out of
        [] \<Rightarrow> Inr (NoQualifiedAgent (qo_evidence out))
      | chosen # _ \<Rightarrow> (case js_find (\<lambda>e. ce_agentId e = agent_id chosen) (qo_evidence out) of
          None \<Rightarrow> Inl (ForeignError ''TypeError'')
        | Some e \<Rightarrow> bindE (buildAssignment effective chosen e o') (\<lambda>a. Inr (Chosen a)))))"

end
