(* ===== verification/Assignment_Service.thy ===== *)
theory Assignment_Service
  imports Assignments
begin

text \<open>
  \<open>core/orchestrator/assignment-system.ts\<close>: assignments are created, moved and replaced here. The
  descriptor source of the constructor is the parameter \<open>ds\<close>; the lease manager reads the same
  clock as the service.
\<close>

record assignment_state = lease_state +
  assignments :: "Assignment repo"

record AssignOptions =
  ao_taskId :: string
  ao_assignedBy :: string
  ao_correlationId :: "string option"
  ao_workspaceId :: "string option"
  ao_writeScope :: "string list option"
  ao_leaseTtlMs :: "int option"
  ao_now :: "timestamp option"
  ao_isEnabled :: enablement
  ao_excludeAgentIds :: "string list option"

datatype AssignmentOutcome = OutcomeAssigned Assignment | OutcomeBlocked "AgentCandidateEvidence list"

section \<open>The repository\<close>

definition upsert_assignment :: "Assignment \<Rightarrow> ('x assignment_state_scheme, unit) op" where
  "upsert_assignment a = modifyS (\<lambda>s. s\<lparr>assignments := mem_upsert assignmentId a (assignments s)\<rparr>)"

definition currentForTask ::
  "(string \<Rightarrow> string \<Rightarrow> int) \<Rightarrow> string \<Rightarrow> 'x assignment_state_scheme \<Rightarrow> Assignment option" where
  "currentForTask lc taskId s =
     (case js_sort (\<lambda>a b. if assignedAt a \<noteq> assignedAt b then assignedAt b - assignedAt a
                          else lc (assignmentId a) (assignmentId b))
        (filter (\<lambda>a. asg_taskId a = taskId \<and> asg_status a \<noteq> AsReassigned) (mem_list (assignments s))) of
        [] \<Rightarrow> None | a # _ \<Rightarrow> Some a)"

definition historyForTask :: "string \<Rightarrow> 'x assignment_state_scheme \<Rightarrow> Assignment list" where
  "historyForTask taskId s = js_sort (\<lambda>a b. assignedAt a - assignedAt b)
     (filter (\<lambda>a. asg_taskId a = taskId) (mem_list (assignments s)))"

definition assignment_require :: "string \<Rightarrow> ('x assignment_state_scheme, Assignment) op" where
  "assignment_require i s = (case mem_findById i (assignments s) of
     None \<Rightarrow> (Inl (NotFoundError (''unknown assignment: '' @ i)), s)
   | Some a \<Rightarrow> (Inr a, s))"

text \<open>\<open>options.now ?? this.clock()\<close>.\<close>

definition at_or_now :: "timestamp option \<Rightarrow> ('x assignment_state_scheme, timestamp) op" where
  "at_or_now t = (case t of None \<Rightarrow> now | Some v \<Rightarrow> returnS v)"

section \<open>Assigning\<close>

definition record_blocked ::
  "TaskRequirements \<Rightarrow> string \<Rightarrow> AgentCandidateEvidence list \<Rightarrow> ('x assignment_state_scheme, unit) op" where
  "record_blocked r taskId evidence =
     audit ''assignment_blocked'' (Some taskId) None (Some (rq_projectId r))
       [(''reason'', JStr ''NO_QUALIFIED_AGENT''),
        (''considered'', JArr (map (\<lambda>e. JObj [(''agentId'', JStr (ce_agentId e)),
           (''reasonCodes'', jstrs (map rejection_str (reasonCodes e)))]) evidence))]"

definition record_created :: "Assignment \<Rightarrow> ('x assignment_state_scheme, unit) op" where
  "record_created a =
     audit ''assignment_created'' (Some (asg_taskId a)) (Some (asg_agentId a)) (Some (asg_projectId a))
       [(''assignmentId'', JStr (assignmentId a)), (''descriptorVersion'', JNum (asg_descriptorVersion a)),
        (''matchedCapabilities'', jstrs (qe_matched (asg_qualification a))),
        (''limitations'', jstrs (qe_limitations (asg_qualification a)))]"

definition lease_input :: "Assignment \<Rightarrow> AssignOptions \<Rightarrow> string \<Rightarrow> LeaseInput" where
  "lease_input a o' i =
     \<lparr>li_projectId = asg_projectId a, li_taskId = asg_taskId a, li_agentId = asg_agentId a,
      li_workspaceId = or_else (ao_workspaceId o') [], li_scope = or_else (ao_writeScope o') [],
      li_ttlMs = ao_leaseTtlMs o', li_leaseId = i\<rparr>"

definition acquireWriteScope ::
  "(string \<Rightarrow> string \<Rightarrow> int) \<Rightarrow> Assignment \<Rightarrow> AssignOptions \<Rightarrow> timestamp \<Rightarrow>
   ('x assignment_state_scheme, unit) op" where
  "acquireWriteScope lc a o' at =
     bindS (createId ''lease'') (\<lambda>i.
     bindS (acquire lc (lease_input a o' i)) (\<lambda>lease.
     thenS (upsert_assignment (a\<lparr>asg_leaseId := Some (leaseId lease), asg_updatedAt := at\<rparr>))
     (audit ''write_lease_acquired'' (Some (asg_taskId a)) (Some (asg_agentId a)) (Some (asg_projectId a))
        [(''leaseId'', JStr (leaseId lease)), (''scope'', jstrs (lease_scope lease)),
         (''workspaceId'', JStr (lease_workspaceId lease))])))"

definition wants_lease :: "AssignOptions \<Rightarrow> bool" where
  "wants_lease o' \<longleftrightarrow> truthy (ao_workspaceId o') \<and> length (or_else (ao_writeScope o') []) > 0"

definition draft_of :: "AssignOptions \<Rightarrow> string \<Rightarrow> timestamp \<Rightarrow> AssignmentDraft" where
  "draft_of o' i at = \<lparr>dr_assignmentId = i, dr_taskId = ao_taskId o', dr_assignedBy = ao_assignedBy o',
     dr_correlationId = ao_correlationId o', dr_excludeAgentIds = ao_excludeAgentIds o', dr_now = at\<rparr>"

definition record_selection ::
  "(string \<Rightarrow> string \<Rightarrow> int) \<Rightarrow> TaskRequirements \<Rightarrow> AssignOptions \<Rightarrow> timestamp \<Rightarrow> selection \<Rightarrow>
   ('x assignment_state_scheme, AssignmentOutcome) op" where
  "record_selection lc r o' at sel = (case sel of
     NoQualifiedAgent evidence \<Rightarrow>
       thenS (record_blocked r (ao_taskId o') evidence) (returnS (OutcomeBlocked evidence))
   | Chosen a \<Rightarrow>
       thenS (if wants_lease o' then acquireWriteScope lc a o' at else returnS ())
       (thenS (upsert_assignment a)
       (thenS (record_created a) (returnS (OutcomeAssigned a)))))"

definition assign ::
  "(string \<Rightarrow> string \<Rightarrow> int) \<Rightarrow> AgentDescriptor list \<Rightarrow> TaskRequirements \<Rightarrow> AssignOptions \<Rightarrow>
   ('x assignment_state_scheme, AssignmentOutcome) op" where
  "assign lc ds r o' =
     bindS (at_or_now (ao_now o')) (\<lambda>at.
     bindS (createId ''assign'') (\<lambda>i.
     bindS (liftE (selectAssignment lc r ds (draft_of o' i at) (ao_isEnabled o'))) (record_selection lc r o' at)))"

section \<open>Lifecycle\<close>

fun record_released :: "WriteScopeLease list \<Rightarrow> ('x assignment_state_scheme, unit) op" where
  "record_released [] = returnS ()"
| "record_released (l # ls) =
     thenS (audit ''write_lease_released'' (Some (lease_taskId l)) (Some (lease_agentId l)) (Some (lease_projectId l))
       [(''leaseId'', JStr (leaseId l)), (''reason'', JStr ''task_no_longer_writing'')])
     (record_released ls)"

definition releaseForTask :: "string \<Rightarrow> ('x assignment_state_scheme, WriteScopeLease list) op" where
  "releaseForTask taskId = bindS (lease_releaseForTask taskId) (\<lambda>released.
     thenS (record_released released) (returnS released))"

definition releases_leases :: "AssignmentStatus \<Rightarrow> bool" where
  "releases_leases to \<longleftrightarrow> to \<in> {AsCompleted, AsFailed, AsCancelled, AsReassigned}"

definition moved :: "Assignment \<Rightarrow> AssignmentStatus \<Rightarrow> timestamp \<Rightarrow> string option \<Rightarrow> Assignment" where
  "moved a to at reason = a\<lparr>asg_status := to, asg_updatedAt := at,
     failureReason := (case reason of None \<Rightarrow> failureReason a | Some _ \<Rightarrow> reason)\<rparr>"

definition commit_transition ::
  "string \<Rightarrow> Assignment \<Rightarrow> Assignment \<Rightarrow> string option \<Rightarrow> ('x assignment_state_scheme, Assignment) op" where
  "commit_transition i current updated reason =
     thenS (liftE (validateAssignment updated))
     (thenS (upsert_assignment updated)
     (bindS (if releases_leases (asg_status updated) then releaseForTask (asg_taskId current) else returnS []) (\<lambda>_.
      thenS (audit ''assignment_transitioned'' (Some (asg_taskId current)) (Some (asg_agentId current))
        (Some (asg_projectId current))
        [(''assignmentId'', JStr i), (''from'', JStr (assignment_status_str (asg_status current))),
         (''to'', JStr (assignment_status_str (asg_status updated))), (''reason'', jstr_opt reason)])
      (returnS updated))))"

definition assignment_transition ::
  "string \<Rightarrow> AssignmentStatus \<Rightarrow> string option \<Rightarrow> ('x assignment_state_scheme, Assignment) op" where
  "assignment_transition i to reason = bindS (assignment_require i) (\<lambda>current.
     if \<not> canTransitionAssignment (asg_status current) to
     then throwS (StateTransitionError (''assignment '' @ i @ '' cannot move from ''
            @ assignment_status_str (asg_status current) @ '' to '' @ assignment_status_str to))
     else bindS now (\<lambda>at. commit_transition i current (moved current to at reason) reason))"

section \<open>Reassignment and review\<close>

definition replacement_of :: "Assignment \<Rightarrow> Assignment \<Rightarrow> AssignOptions \<Rightarrow> timestamp \<Rightarrow> Assignment" where
  "replacement_of failed a o' at = a\<lparr>replacesAssignmentId := Some (assignmentId failed),
     correlationId := (case ao_correlationId o' of None \<Rightarrow> correlationId failed | Some c \<Rightarrow> Some c),
     asg_updatedAt := at\<rparr>"

definition record_replacement ::
  "Assignment \<Rightarrow> AssignOptions \<Rightarrow> timestamp \<Rightarrow> AssignmentOutcome \<Rightarrow>
   ('x assignment_state_scheme, AssignmentOutcome) op" where
  "record_replacement failed o' at outcome = (case outcome of
     OutcomeBlocked e \<Rightarrow> returnS outcome
   | OutcomeAssigned a \<Rightarrow> let replacement = replacement_of failed a o' at in
       thenS (upsert_assignment replacement) (returnS (OutcomeAssigned replacement)))"

text \<open>The options' task id, when there is one, comes as a separate argument.\<close>

definition reassign ::
  "(string \<Rightarrow> string \<Rightarrow> int) \<Rightarrow> AgentDescriptor list \<Rightarrow> string \<Rightarrow> TaskRequirements \<Rightarrow> string \<Rightarrow>
   AssignOptions \<Rightarrow> string option \<Rightarrow> ('x assignment_state_scheme, AssignmentOutcome) op" where
  "reassign lc ds i r reason o' optTask = bindS (assignment_require i) (\<lambda>failed.
     if asg_status failed = AsReassigned \<or> asg_status failed = AsCancelled
     then throwS (StateTransitionError (''assignment '' @ i @ '' is terminal (''
            @ assignment_status_str (asg_status failed) @ '') and cannot be reassigned''))
     else bindS (at_or_now (ao_now o')) (\<lambda>at. let taskId = or_else optTask (asg_taskId failed) in
       thenS (upsert_assignment (failed\<lparr>asg_status := AsReassigned, failureReason := Some reason, asg_updatedAt := at\<rparr>))
       (thenS (releaseForTask taskId)
       (thenS (audit ''assignment_reassigned'' (Some taskId) (Some (asg_agentId failed)) (Some (asg_projectId failed))
          [(''from'', JStr i), (''reason'', JStr reason)])
       (bindS (assign lc ds r (o'\<lparr>ao_taskId := taskId, ao_now := Some at, ao_excludeAgentIds := Some [asg_agentId failed]\<rparr>))
         (record_replacement failed o' at))))))"

record ReviewInput =
  ri_projectId :: string
  ri_changeSetId :: string
  ri_implementerAgentId :: string
  ri_reviewCapabilities :: "string list option"
  ri_riskLevel :: AgentRiskLevel
  ri_now :: timestamp

definition review_requirements :: "ReviewInput \<Rightarrow> TaskRequirements" where
  "review_requirements v =
     \<lparr>rq_projectId = ri_projectId v, rq_taskType = ''review'',
      requiredCapabilities = or_else (ri_reviewCapabilities v) [''software.review''],
      preferredCapabilities = None, technologyRequirements = None, rq_environmentRequirements = None,
      toolRequirements = None, riskLevel = ri_riskLevel v, rq_requiresIndependentReview = Some True,
      reviewCapabilities = None, rq_writeScope = None,
      excludeAgentIds = Some [ri_implementerAgentId v], implementerAgentId = Some (ri_implementerAgentId v)\<rparr>"

definition review_options :: "ReviewInput \<Rightarrow> AssignOptions" where
  "review_options v =
     \<lparr>ao_taskId = ri_changeSetId v, ao_assignedBy = ''system:reviewer-selection'', ao_correlationId = None,
      ao_workspaceId = None, ao_writeScope = None, ao_leaseTtlMs = None, ao_now = Some (ri_now v),
      ao_isEnabled = None, ao_excludeAgentIds = None\<rparr>"

definition selectReviewer ::
  "(string \<Rightarrow> string \<Rightarrow> int) \<Rightarrow> AgentDescriptor list \<Rightarrow> ReviewInput \<Rightarrow>
   ('x assignment_state_scheme, AssignmentOutcome) op" where
  "selectReviewer lc ds v = assign lc ds (review_requirements v) (review_options v)"

definition mayWrite :: "string \<Rightarrow> string \<Rightarrow> string \<Rightarrow> ('x assignment_state_scheme, bool) op" where
  "mayWrite workspaceId agentId path = hasValidLease workspaceId agentId path"

end
