(* ===== verification/Sorting.thy ===== *)
theory Sorting
  imports Workforce
begin

text \<open>
  What \<open>Array.prototype.sort\<close> guarantees of a comparison function, as the locale \<open>comparison\<close>,
  interpreted on the order of code units the default sort uses.
\<close>

text \<open>The contract of a comparison function: its non-positive results are a total preorder.\<close>

locale comparison =
  fixes cmp :: "'a \<Rightarrow> 'a \<Rightarrow> int"
  assumes total: "cmp a b \<le> 0 \<or> cmp b a \<le> 0"
    and trans: "cmp a b \<le> 0 \<Longrightarrow> cmp b c \<le> 0 \<Longrightarrow> cmp a c \<le> 0"
begin

lemma insert_sorted:
  "sorted_wrt (\<lambda>a b. cmp a b \<le> 0) ys \<Longrightarrow> sorted_wrt (\<lambda>a b. cmp a b \<le> 0) (js_insert cmp x ys)"
proof (induction ys)
  case Nil
  show ?case by simp
next
  case (Cons y ys)
  show ?case
  proof (cases "cmp x y \<le> 0")
    case True
    with Cons.prems trans show ?thesis by auto
  next
    case False
    then have "cmp y x \<le> 0" using total by blast
    with False Cons show ?thesis by auto
  qed
qed

lemma sort_sorted: "sorted_wrt (\<lambda>a b. cmp a b \<le> 0) (js_sort cmp xs)"
proof (induction xs)
  case Nil
  show ?case by (simp add: js_sort_def)
next
  case (Cons x xs)
  then show ?case using insert_sorted by (simp add: js_sort_def)
qed

lemma head_least: "filter P (js_sort cmp xs) = x # rest \<Longrightarrow> y \<in> set rest \<Longrightarrow> cmp x y \<le> 0"
  using sort_sorted [of xs] sorted_wrt_filter [of "\<lambda>a b. cmp a b \<le> 0" "js_sort cmp xs" P] by simp

end

lemma str_less_total: "a = b \<or> str_less a b \<or> str_less b a"
proof (induction a b rule: str_less.induct)
  case (4 c cs d ds)
  have "(of_char c :: nat) = of_char d \<longleftrightarrow> c = d" by (rule of_char_eq_iff)
  with 4 show ?case by auto
qed simp_all

lemma str_less_trans: "str_less a b \<Longrightarrow> str_less b c \<Longrightarrow> str_less a c"
proof (induction a b arbitrary: c rule: str_less.induct)
  case (4 x xs y ys)
  then show ?case by (cases c) (auto dest: less_trans)
qed (auto elim: str_less.elims)

lemma str_less_irrefl [simp]: "\<not> str_less a a"
  by (induction a) simp_all

interpretation code_units: comparison code_unit_cmp
proof
  fix a b c
  show "code_unit_cmp a b \<le> 0 \<or> code_unit_cmp b a \<le> 0"
    using str_less_total [of a b] by (auto simp: code_unit_cmp_def)
  assume "code_unit_cmp a b \<le> 0" "code_unit_cmp b c \<le> 0"
  then show "code_unit_cmp a c \<le> 0"
    using str_less_trans [of a b c] by (auto simp: code_unit_cmp_def split: if_splits)
qed

end
