(* ===== verification/Staffing.thy ===== *)
theory Staffing
  imports Assignment_Service Audited Sorting
begin

text \<open>
  What the assignment service guarantees: the qualification decides suitability exactly, the
  selection is the first suitable agent, nobody reviews their own change or gets back the work
  they failed, leases stay exclusive and end with the assignment.
\<close>

section \<open>Qualification\<close>

lemma comparison_by_rank:
  assumes "comparison lc"
  shows "comparison (by_rank lc)"
proof
  fix a b c
  show "by_rank lc a b \<le> 0 \<or> by_rank lc b a \<le> 0"
    using comparison.total [OF assms, of "ce_agentId a" "ce_agentId b"] by (auto simp: by_rank_def)
  assume "by_rank lc a b \<le> 0" "by_rank lc b c \<le> 0"
  then show "by_rank lc a c \<le> 0"
    using comparison.trans [OF assms, of "ce_agentId a" "ce_agentId b" "ce_agentId c"]
    by (auto simp: by_rank_def split: if_splits)
qed

section \<open>Suitable agents\<close>

definition covers_required :: "AgentDescriptor \<Rightarrow> TaskRequirements \<Rightarrow> bool" where
  "covers_required d r \<longleftrightarrow>
     (\<forall>c \<in> set (requiredCapabilities r). \<exists>o' \<in> set (capabilities d). capabilitySatisfies o' c)"

definition suitable :: "AgentDescriptor \<Rightarrow> TaskRequirements \<Rightarrow> enablement \<Rightarrow> bool" where
  "suitable d r isEnabled \<longleftrightarrow>
     administrativeStatus d = Active \<and>
     (\<forall>f. isEnabled = Some f \<longrightarrow> f (agent_id d) (rq_projectId r)) \<and>
     rq_projectId r \<in> set (pp_projects (projectPolicy d)) \<and>
     (rq_taskType r = [] \<or> rq_taskType r \<in> set (supportedTaskTypes d)) \<and>
     covers_required d r \<and>
     (or_else (technologyRequirements r) [] = [] \<or>
        set (or_else (technologyRequirements r) []) \<inter> set (q_technologies (qualification d)) \<noteq> {}) \<and>
     riskLevel r \<le> maxRiskLevel (qualification d) \<and>
     set (or_else (toolRequirements r) []) \<subseteq> set (maxExecutionCapabilities (toolPolicy d)) \<and>
     (or_else (rq_environmentRequirements r) [] = [] \<or> acceptsAnyEnvironmentType (environmentRequirements d) \<or>
        set (or_else (rq_environmentRequirements r) []) \<inter>
          set (requiredEnvironmentTypes (environmentRequirements d)) \<noteq> {}) \<and>
     agent_id d \<notin> set (or_else (excludeAgentIds r) []) \<and>
     implementerAgentId r \<noteq> Some (agent_id d)"

lemma push_if_Nil [simp]: "push_if bad code = [] \<longleftrightarrow> \<not> bad"
  by (simp add: push_if_def)

lemma defined_and_not: "\<not> defined_and (\<lambda>f. \<not> P f) v \<longleftrightarrow> (\<forall>f. v = Some f \<longrightarrow> P f)"
  by (cases v) simp_all

lemma rejection_reasons_Nil: "rejection_reasons d r e = [] \<longleftrightarrow> suitable d r e"
  unfolding rejection_reasons_def Let_def append_is_Nil_conv push_if_Nil suitable_def
    defined_and_not acceptsNewAssignments_def not_not riskWithinCeiling_le
  by (auto simp: covers_required_def missingCapabilities_def filter_empty_conv list_ex_iff)

lemma qualifies_iff: "qualifies (qualifyDescriptor d r e) \<longleftrightarrow> suitable d r e"
  using rejection_reasons_Nil by (simp add: qualifyDescriptor_def Let_def)

lemma qualifyDescriptor_id [simp]: "ce_agentId (qualifyDescriptor d r e) = agent_id d"
  by (simp add: qualifyDescriptor_def Let_def)

lemma suitable_matched: "suitable d r e \<Longrightarrow> ce_matched (qualifyDescriptor d r e) = requiredCapabilities r"
  by (auto simp: suitable_def covers_required_def qualifyDescriptor_def Let_def satisfiedCapabilities_def
      list_ex_iff filter_id_conv)

section \<open>The selection\<close>

lemma set_map_filter: "set (List.map_filter f xs) = {y. \<exists>x \<in> set xs. f x = Some y}"
  by (force simp: List.map_filter_def)

lemma found_descriptor:
  assumes "distinct (map agent_id ds)" "d \<in> set ds"
  shows "js_find (\<lambda>d'. agent_id d' = ce_agentId (qualifyDescriptor d r e)) ds = Some d"
  using js_find_unique [OF assms] by simp

lemma qualify_all_evidence: "set (qo_evidence (qualify_all lc r ds e)) = (\<lambda>d. qualifyDescriptor d r e) ` set ds"
  by (simp add: qualify_all_def Let_def)

lemma qualify_all_candidates:
  assumes "distinct (map agent_id ds)"
  shows "set (qo_candidates (qualify_all lc r ds e)) = {d \<in> set ds. suitable d r e}"
  using found_descriptor [OF assms]
  by (auto simp: qualify_all_def Let_def set_map_filter qualifies_iff)

lemma distinct_map_js_sort: "distinct (map f (js_sort cmp xs)) \<longleftrightarrow> distinct (map f xs)"
proof -
  have "mset (map f (js_sort cmp xs)) = mset (map f xs)" by (simp add: mset_js_sort)
  then show ?thesis by (rule mset_eq_imp_distinct_iff)
qed

lemma found_evidence:
  assumes "distinct (map agent_id ds)" "d \<in> set ds"
  shows "js_find (\<lambda>x. ce_agentId x = agent_id d) (qo_evidence (qualify_all lc r ds e)) = Some (qualifyDescriptor d r e)"
proof -
  have "distinct (map ce_agentId (qo_evidence (qualify_all lc r ds e)))"
    using assms(1) by (simp add: qualify_all_def Let_def distinct_map_js_sort comp_def)
  moreover have "qualifyDescriptor d r e \<in> set (qo_evidence (qualify_all lc r ds e))"
    using assms(2) by (simp add: qualify_all_evidence)
  ultimately show ?thesis using js_find_unique [of ce_agentId] by fastforce
qed

text \<open>The head of the candidates comes first by id among all suitable agents.\<close>

lemma first_candidate:
  assumes "distinct (map agent_id ds)" "comparison lc"
    and "qo_candidates (qualify_all lc r ds e) = d # rest" "d' \<in> set ds" "suitable d' r e"
  shows "lc (agent_id d) (agent_id d') \<le> 0"
proof -
  let ?q = "\<lambda>d. qualifyDescriptor d r e" and ?ev = "js_sort (by_rank lc) (map (\<lambda>d. qualifyDescriptor d r e) ds)"
  let ?find = "\<lambda>x. js_find (\<lambda>d. agent_id d = ce_agentId x) ds"
  have d: "d \<in> set ds" "suitable d r e" using assms(3) qualify_all_candidates [OF assms(1), of lc r e] by auto
  have in_filter: "?q d' \<in> set (filter qualifies ?ev)" using assms(4,5) by (simp add: qualifies_iff)
  then obtain x xs where xs: "filter qualifies ?ev = x # xs" by (cases "filter qualifies ?ev") auto
  then have "x \<in> set ?ev" by (metis filter_is_subset list.set_intros(1) subsetD)
  then obtain d0 where d0: "d0 \<in> set ds" "x = ?q d0" by auto
  have "?find x = Some d0" using found_descriptor [OF assms(1) d0(1)] d0(2) by simp
  then have "qo_candidates (qualify_all lc r ds e) = d0 # List.map_filter ?find xs"
    by (simp add: qualify_all_def Let_def xs List.map_filter_simps)
  with assms(3) have "d0 = d" by simp
  show ?thesis
  proof (cases "?q d' = x")
    case True
    then have "agent_id d' = agent_id d" using d0 \<open>d0 = d\<close> by (metis qualifyDescriptor_id)
    then show ?thesis using comparison.total [OF assms(2), of "agent_id d" "agent_id d"] by simp
  next
    case False
    then have "?q d' \<in> set xs" using in_filter xs by simp
    then have "by_rank lc x (?q d') \<le> 0"
      using comparison.head_least [OF comparison_by_rank [OF assms(2)] xs] by simp
    then show ?thesis
      using d0(2) \<open>d0 = d\<close> d(2) assms(5) by (simp add: by_rank_def qualifies_iff suitable_matched)
  qed
qed

lemma selectAssignment_cases:
  assumes "distinct (map agent_id ds)" "comparison lc"
  obtains (refused) x where "selectAssignment lc r ds o' e = Inl x"
  | (blocked) ev where "selectAssignment lc r ds o' e = Inr (NoQualifiedAgent ev)"
      "\<forall>d \<in> set ds. \<not> suitable d (effective_requirements r (dr_excludeAgentIds o')) e"
      "set ev = (\<lambda>d. qualifyDescriptor d (effective_requirements r (dr_excludeAgentIds o')) e) ` set ds"
  | (chosen) d a where "selectAssignment lc r ds o' e = Inr (Chosen a)" "d \<in> set ds"
      "suitable d (effective_requirements r (dr_excludeAgentIds o')) e"
      "\<forall>d' \<in> set ds. suitable d' (effective_requirements r (dr_excludeAgentIds o')) e \<longrightarrow> lc (agent_id d) (agent_id d') \<le> 0"
      "a = new_assignment (effective_requirements r (dr_excludeAgentIds o')) d
         (qualifyDescriptor d (effective_requirements r (dr_excludeAgentIds o')) e) o'"
      "validateAssignment a = Inr ()"
proof (cases "validateTaskRequirements (effective_requirements r (dr_excludeAgentIds o'))")
  case (Inl x)
  then show thesis by (intro refused) (simp add: selectAssignment_def qualify_def Let_def)
next
  case (Inr v)
  let ?r = "effective_requirements r (dr_excludeAgentIds o')"
  note run = Inr selectAssignment_def qualify_def Let_def
  show thesis
  proof (cases "qo_candidates (qualify_all lc ?r ds e)")
    case Nil
    then have "\<forall>d \<in> set ds. \<not> suitable d ?r e" using qualify_all_candidates [OF assms(1), of lc ?r e] by auto
    with Nil show thesis by (intro blocked [OF _ _ qualify_all_evidence]) (simp_all add: run)
  next
    case (Cons d rest)
    then have d: "d \<in> set ds" "suitable d ?r e" using qualify_all_candidates [OF assms(1), of lc ?r e] by auto
    let ?a = "new_assignment ?r d (qualifyDescriptor d ?r e) o'"
    have sel: "selectAssignment lc r ds o' e = bindE (validateAssignment ?a) (\<lambda>_. Inr (Chosen ?a))"
      using Cons found_evidence [OF assms(1) d(1), of lc ?r e] d(2)
      by (cases "validateAssignment ?a") (simp_all add: run buildAssignment_def qualifies_iff)
    show thesis
    proof (cases "validateAssignment ?a")
      case (Inl x)
      with sel show thesis by (intro refused) simp
    next
      case (Inr u)
      with sel show thesis
        using d first_candidate [OF assms Cons] by (intro chosen [of ?a d]) simp_all
    qed
  qed
qed

section \<open>The service\<close>

lemma stores_audit [simp]:
  "leases (snd (audit ty t a p d s)) = leases s"
  "assignments (snd (audit ty t a p d v)) = assignments v"
  by (cases s, simp add: audit_def record_event_def op_simps Let_def)
    (cases v, simp add: audit_def record_event_def op_simps Let_def)

lemma at_or_now_run: "\<exists>n at. at_or_now t s = (Inr at, s\<lparr>ticks := n\<rparr>)"
proof (cases t)
  case None
  then show ?thesis by (auto simp: at_or_now_def now_def)
next
  case (Some v)
  then have "at_or_now t s = (Inr v, s\<lparr>ticks := ticks s\<rparr>)" by (simp add: at_or_now_def)
  then show ?thesis by blast
qed

text \<open>What a chosen assignment becomes in the stores.\<close>

definition holds_lease :: "WriteScopeLease repo \<Rightarrow> Assignment \<Rightarrow> AssignOptions \<Rightarrow> bool" where
  "holds_lease ls a o' \<longleftrightarrow> (\<exists>l. mem_findById (leaseId l) ls = Some l \<and> lease_status l = LeaseActive \<and>
     lease_taskId l = asg_taskId a \<and> lease_agentId l = asg_agentId a \<and> lease_projectId l = asg_projectId a \<and>
     Some (lease_workspaceId l) = ao_workspaceId o' \<and> Some (lease_scope l) = ao_writeScope o')"

lemma acquireWriteScope_cases:
  assumes "wants_lease o'"
  obtains (denied) e u where "acquireWriteScope lc a o' at s = (Inl e, u)" "assignments u = assignments s"
      "leases u = leases s"
  | (granted) u l where "acquireWriteScope lc a o' at s = (Inr (), u)" "holds_lease (leases u) a o'"
      "assignments u = mem_upsert assignmentId (a\<lparr>asg_leaseId := Some l, asg_updatedAt := at\<rparr>) (assignments s)"
proof -
  let ?i = "id_of ''lease'' (process_tag s) (Suc (seq s))" and ?s = "s\<lparr>seq := Suc (seq s)\<rparr>"
  let ?in = "lease_input a o' ?i"
  have id: "bindS (createId ''lease'') f s = f ?i ?s" for f by (simp add: bindS_def createId_eq)
  have keeps: "assignments (snd (acquire lc ?in ?s)) = assignments s"
  proof -
    have "assignments (snd (acquire lc j t)) = assignments t" for j and t :: "'a assignment_state_scheme"
      by (simp add: acquire_def op_simps upsert_lease_def now_def Let_def split: sum.split option.split)
    then show ?thesis by simp
  qed
  show thesis
  proof (cases rule: acquire_cases [of lc ?in ?s])
    case (rejected e u)
    from rejected(1) have "acquireWriteScope lc a o' at s = (Inl e, u)"
      unfolding acquireWriteScope_def id by (rule bindS_Inl)
    with rejected keeps show thesis by (intro denied [of e u]) simp_all
  next
    case (acquired ttl u)
    let ?l = "new_lease ?in (time_at s (ticks s)) ttl"
    let ?b = "a\<lparr>asg_leaseId := Some (leaseId ?l), asg_updatedAt := at\<rparr>"
    let ?v = "snd (audit ''write_lease_acquired'' (Some (asg_taskId a)) (Some (asg_agentId a)) (Some (asg_projectId a))
        [(''leaseId'', JStr (leaseId ?l)), (''scope'', jstrs (lease_scope ?l)),
         (''workspaceId'', JStr (lease_workspaceId ?l))]
        (u\<lparr>assignments := mem_upsert assignmentId ?b (assignments u)\<rparr>))"
    have u: "acquire lc ?in ?s = (Inr ?l, u)" using acquired(1) by simp
    have "acquireWriteScope lc a o' at s = audit ''write_lease_acquired'' (Some (asg_taskId a)) (Some (asg_agentId a))
        (Some (asg_projectId a)) [(''leaseId'', JStr (leaseId ?l)), (''scope'', jstrs (lease_scope ?l)),
         (''workspaceId'', JStr (lease_workspaceId ?l))]
        (u\<lparr>assignments := mem_upsert assignmentId ?b (assignments u)\<rparr>)"
      unfolding acquireWriteScope_def id bindS_def [of "acquire lc i" for i] u
      by (simp add: upsert_assignment_def then_modify)
    then have run: "acquireWriteScope lc a o' at s = (Inr (), ?v)" by (simp add: prod_eq_iff)
    have "holds_lease (leases ?v) a o'"
      using assms acquired(2) unfolding holds_lease_def stores_audit
      by (intro exI [of _ ?l], cases "ao_writeScope o'")
        (auto simp: new_lease_def lease_input_def wants_lease_def truthy_def split: option.splits)
    moreover have "assignments ?v = mem_upsert assignmentId ?b (assignments s)" using keeps u by simp
    ultimately show thesis using run by (intro granted)
  qed
qed

text \<open>The outcomes of an assignment.\<close>

definition exclusions :: "TaskRequirements \<Rightarrow> AssignOptions \<Rightarrow> TaskRequirements" where
  "exclusions r o' = effective_requirements r (ao_excludeAgentIds o')"

lemma record_selection_cases:
  obtains (denied) e u where "record_selection lc r o' at sel s = (Inl e, u)" "assignments u = assignments s"
      "leases u = leases s"
  | (blocked) ev u where "sel = NoQualifiedAgent ev" "record_selection lc r o' at sel s = (Inr (OutcomeBlocked ev), u)"
      "assignments u = assignments s" "leases u = leases s" "u = snd (record_blocked r (ao_taskId o') ev s)"
  | (chosen) a u where "sel = Chosen a" "record_selection lc r o' at sel s = (Inr (OutcomeAssigned a), u)"
      "mem_findById (assignmentId a) (assignments u) = Some a" "wants_lease o' \<longrightarrow> holds_lease (leases u) a o'"
      "\<And>i. i \<noteq> assignmentId a \<Longrightarrow> mem_findById i (assignments u) = mem_findById i (assignments s)"
proof (cases sel)
  case (NoQualifiedAgent ev)
  then show thesis
    by (intro blocked [of ev "snd (record_blocked r (ao_taskId o') ev s)"])
      (simp_all add: record_selection_def record_blocked_def)
next
  case (Chosen a)
  let ?rest = "thenS (upsert_assignment a) (thenS (record_created a) (returnS (OutcomeAssigned a)))"
  have rest: "\<exists>u. ?rest v = (Inr (OutcomeAssigned a), u) \<and> leases u = leases v \<and>
      assignments u = mem_upsert assignmentId a (assignments v)" for v
    by (simp add: upsert_assignment_def then_modify record_created_def)
  show thesis
  proof (cases "wants_lease o'")
    case False
    with Chosen have run: "record_selection lc r o' at sel s = ?rest s" by (simp add: record_selection_def)
    from rest [of s] obtain u where "?rest s = (Inr (OutcomeAssigned a), u)"
      "assignments u = mem_upsert assignmentId a (assignments s)" by blast
    with Chosen False run show thesis by (intro chosen [of a u]) simp_all
  next
    case True
    with Chosen have run: "record_selection lc r o' at sel s = thenS (acquireWriteScope lc a o' at) ?rest s"
      by (simp add: record_selection_def)
    show thesis
    proof (cases rule: acquireWriteScope_cases [OF True, of lc a at s, case_names denied granted])
      case (denied e u)
      then have "record_selection lc r o' at sel s = (Inl e, u)" unfolding run thenS_def by (intro bindS_Inl)
      with denied show thesis by (intro that(1))
    next
      case (granted v l)
      from rest [of v] obtain u where u: "?rest v = (Inr (OutcomeAssigned a), u)" "leases u = leases v"
        "assignments u = mem_upsert assignmentId a (assignments v)" by blast
      have "record_selection lc r o' at sel s = (Inr (OutcomeAssigned a), u)"
        unfolding run thenS_def [of "acquireWriteScope lc a o' at"] using granted(1) u(1) by (simp add: bindS_def)
      with Chosen granted u show thesis by (intro chosen [of a u]) simp_all
    qed
  qed
qed

text \<open>A blocked assignment draws an id, reads the clock and records an event.\<close>

lemma blocked_only_audit: "only_audit s (snd (record_blocked r i ev (s\<lparr>ticks := n, seq := Suc (seq s)\<rparr>)))"
proof -
  let ?s = "s\<lparr>ticks := n, seq := Suc (seq s)\<rparr>"
  have "seq s \<le> free_seq (process_tag s) (taken_audit_ids ?s) (Suc (seq s))"
    using free_seq_gt [of "Suc (seq s)" "process_tag s" "taken_audit_ids ?s"] by linarith
  then show ?thesis
    by (simp add: only_audit_def record_blocked_def audit_def record_event_def Let_def op_simps) blast
qed

lemma assign_cases:
  assumes "distinct (map agent_id ds)" "comparison lc"
  obtains (denied) e u where "assign lc ds r o' s = (Inl e, u)" "assignments u = assignments s" "leases u = leases s"
  | (blocked) ev u where "assign lc ds r o' s = (Inr (OutcomeBlocked ev), u)"
      "assignments u = assignments s" "leases u = leases s" "only_audit s u"
      "\<forall>d \<in> set ds. \<not> suitable d (exclusions r o') (ao_isEnabled o')"
      "set ev = (\<lambda>d. qualifyDescriptor d (exclusions r o') (ao_isEnabled o')) ` set ds"
  | (assigned) a d u where "assign lc ds r o' s = (Inr (OutcomeAssigned a), u)" "d \<in> set ds"
      "suitable d (exclusions r o') (ao_isEnabled o')"
      "\<forall>d' \<in> set ds. suitable d' (exclusions r o') (ao_isEnabled o') \<longrightarrow> lc (agent_id d) (agent_id d') \<le> 0"
      "asg_agentId a = agent_id d" "asg_descriptorVersion a = agent_version d" "asg_status a = AsAssigned"
      "asg_taskId a = ao_taskId o'" "asg_leaseId a = None" "validateAssignment a = Inr ()"
      "assignmentId a = id_of ''assign'' (process_tag s) (Suc (seq s))"
      "mem_findById (assignmentId a) (assignments u) = Some a" "wants_lease o' \<longrightarrow> holds_lease (leases u) a o'"
      "\<And>i. i \<noteq> assignmentId a \<Longrightarrow> mem_findById i (assignments u) = mem_findById i (assignments s)"
proof -
  obtain n at where at: "at_or_now (ao_now o') s = (Inr at, s\<lparr>ticks := n\<rparr>)" using at_or_now_run by blast
  let ?i = "id_of ''assign'' (process_tag s) (Suc (seq s))" and ?s = "s\<lparr>ticks := n, seq := Suc (seq s)\<rparr>"
  let ?sel = "selectAssignment lc r ds (draft_of o' ?i at) (ao_isEnabled o')"
  have run: "assign lc ds r o' s = bindS (liftE ?sel) (record_selection lc r o' at) ?s"
    unfolding assign_def using at by (simp add: bindS_def createId_eq split: sum.split)
  have same: "effective_requirements r (dr_excludeAgentIds (draft_of o' ?i at)) = exclusions r o'"
    by (simp add: exclusions_def draft_of_def)
  show thesis
  proof (rule selectAssignment_cases [OF assms, of r "draft_of o' ?i at" "ao_isEnabled o'", unfolded same])
    fix x assume "?sel = Inl x"
    then show thesis using run by (intro denied [of x ?s]) (simp_all add: bindS_def)
  next
    fix ev
    assume ev: "?sel = Inr (NoQualifiedAgent ev)" "\<forall>d \<in> set ds. \<not> suitable d (exclusions r o') (ao_isEnabled o')"
      "set ev = (\<lambda>d. qualifyDescriptor d (exclusions r o') (ao_isEnabled o')) ` set ds"
    then have "assign lc ds r o' s = record_selection lc r o' at (NoQualifiedAgent ev) ?s"
      using run by (simp add: bindS_def)
    with ev(2,3) show thesis
      by (cases rule: record_selection_cases [of lc r o' at "NoQualifiedAgent ev" ?s])
        (simp_all add: that(1,2) blocked_only_audit)
  next
    fix d a
    assume a: "?sel = Inr (Chosen a)" "d \<in> set ds" "suitable d (exclusions r o') (ao_isEnabled o')"
      "\<forall>d' \<in> set ds. suitable d' (exclusions r o') (ao_isEnabled o') \<longrightarrow> lc (agent_id d) (agent_id d') \<le> 0"
      "a = new_assignment (exclusions r o') d (qualifyDescriptor d (exclusions r o') (ao_isEnabled o')) (draft_of o' ?i at)"
      "validateAssignment a = Inr ()"
    have run': "assign lc ds r o' s = record_selection lc r o' at (Chosen a) ?s"
      using run a(1) by (simp add: bindS_def)
    show thesis
    proof (cases rule: record_selection_cases [of lc r o' at "Chosen a" ?s, case_names denied blocked chosen])
      case (denied e u)
      then show thesis using run' by (intro that(1) [of e u]) simp_all
    next
      case (blocked ev u)
      then show thesis by simp
    next
      case (chosen b u)
      have fields: "asg_agentId a = agent_id d" "asg_descriptorVersion a = agent_version d" "asg_status a = AsAssigned"
        "asg_taskId a = ao_taskId o'" "asg_leaseId a = None" "assignmentId a = ?i"
        by (simp_all add: a(5) new_assignment_def draft_of_def)
      have "b = a" using chosen(1) by simp
      with chosen run' show thesis by (intro that(3) [OF _ a(2-4) fields(1-5) a(6) fields(6), of u]) simp_all
    qed
  qed
qed

section \<open>Leases of an assignment\<close>

lemma lease_frames:
  fixes f :: "'x assignment_state_scheme \<Rightarrow> 'x assignment_state_scheme"
  shows "keeps leases_keep (audit ty t a p d :: ('x assignment_state_scheme, unit) op)"
    and "keeps leases_keep (upsert_assignment b :: ('x assignment_state_scheme, unit) op)"
    and "keeps leases_keep (createId pfx :: ('x assignment_state_scheme, string) op)"
    and "keeps leases_keep (assignment_require i :: ('x assignment_state_scheme, Assignment) op)"
  by (rule leases_frame; simp add: upsert_assignment_def createId_eq assignment_require_def split: option.split)+

lemma lease_at_or_now: "keeps leases_keep (at_or_now t :: ('x assignment_state_scheme, timestamp) op)"
  unfolding at_or_now_def by (cases t) (simp_all add: leases_now lease_evo.keeps_returnS del: returnS_apply)

lemma lease_record_released: "keeps leases_keep (record_released ls :: ('x assignment_state_scheme, unit) op)"
proof (induction ls)
  case Nil
  show ?case unfolding record_released.simps by (rule lease_evo.keeps_returnS)
next
  case (Cons l ls)
  then show ?case unfolding record_released.simps by (intro lease_evo.keeps_thenS lease_frames)
qed

lemma lease_releaseForTask: "keeps leases_keep (releaseForTask t :: ('x assignment_state_scheme, WriteScopeLease list) op)"
  unfolding releaseForTask_def
  by (intro lease_evo.keeps_bindS lease_evo.keeps_thenS lease_evo.keeps_returnS keeps_releaseForTask lease_record_released)

lemma lease_acquireWriteScope: "keeps leases_keep (acquireWriteScope lc a o' at)"
  unfolding acquireWriteScope_def
  by (intro lease_evo.keeps_bindS lease_evo.keeps_thenS lease_frames keeps_acquire)

lemma lease_assign: "keeps leases_keep (assign lc ds r o')"
proof -
  have "keeps leases_keep (record_selection lc r o' at sel)" for at sel
    unfolding record_selection_def record_blocked_def record_created_def
    by (cases sel; simp only: selection.case;
        intro lease_evo.keeps_thenS lease_evo.keeps_if lease_evo.keeps_returnS lease_frames lease_acquireWriteScope)
  then show ?thesis
    unfolding assign_def by (intro lease_evo.keeps_bindS lease_evo.keeps_liftE lease_at_or_now lease_frames)
qed

lemma lease_transition: "keeps leases_keep (assignment_transition i to reason)"
  unfolding assignment_transition_def commit_transition_def
  by (intro lease_evo.keeps_bindS lease_evo.keeps_thenS lease_evo.keeps_if lease_evo.keeps_throwS
      lease_evo.keeps_returnS lease_evo.keeps_liftE lease_frames leases_now lease_releaseForTask)

lemma lease_reassign: "keeps leases_keep (reassign lc ds i r reason o' t)"
proof -
  have "keeps leases_keep (record_replacement failed o' at out)" for failed at out
    unfolding record_replacement_def Let_def
    by (cases out; simp only: AssignmentOutcome.case;
        intro lease_evo.keeps_thenS lease_evo.keeps_returnS lease_frames)
  then show ?thesis
    unfolding reassign_def Let_def
    by (intro lease_evo.keeps_bindS lease_evo.keeps_thenS lease_evo.keeps_if lease_evo.keeps_throwS
        lease_frames lease_at_or_now lease_releaseForTask lease_assign)
qed

text \<open>Releasing the leases of a task.\<close>

definition release_if :: "string \<Rightarrow> WriteScopeLease \<Rightarrow> WriteScopeLease" where
  "release_if t l = (if lease_taskId l = t \<and> lease_status l = LeaseActive then ended_lease LeaseReleased l else l)"

lemma release_each_run:
  "distinct (map leaseId ls) \<Longrightarrow> \<forall>l \<in> set ls. mem_findById (leaseId l) (leases s) = Some l \<Longrightarrow>
   \<exists>out u. release_each t ls s = (Inr out, u) \<and>
     (\<forall>i. mem_findById i (leases u) =
       (if i \<in> leaseId ` set ls then map_option (release_if t) (mem_findById i (leases s)) else mem_findById i (leases s)))"
proof (induction ls arbitrary: s)
  case Nil
  then show ?case by simp
next
  case (Cons l ls)
  show ?case
  proof (cases "lease_taskId l = t \<and> lease_status l = LeaseActive")
    case True
    let ?e = "ended_lease LeaseReleased l"
    let ?s = "s\<lparr>leases := mem_upsert leaseId ?e (leases s)\<rparr>"
    have e: "leaseId ?e = leaseId l" by (simp add: ended_lease_def)
    have "mem_findById (leaseId x) (leases ?s) = Some x" if "x \<in> set ls" for x
    proof -
      have "leaseId x \<noteq> leaseId l" using Cons.prems(1) that by (metis distinct.simps(2) image_eqI image_set list.simps(9))
      then show ?thesis using Cons.prems(2) that e by simp
    qed
    moreover have "distinct (map leaseId ls)" using Cons.prems(1) by simp
    ultimately obtain out u where u: "release_each t ls ?s = (Inr out, u)" "\<forall>i. mem_findById i (leases u) =
       (if i \<in> leaseId ` set ls then map_option (release_if t) (mem_findById i (leases ?s)) else mem_findById i (leases ?s))"
      using Cons.IH [of ?s] by blast
    have "release_each t (l # ls) s = (Inr (?e # out), u)"
      using True u(1) by (simp add: upsert_lease_def then_modify bindS_def)
    moreover have "release_if t l = ?e" using True by (simp add: release_if_def)
    ultimately show ?thesis using u(2) Cons.prems e by auto
  next
    case False
    obtain out u where u: "release_each t ls s = (Inr out, u)" "\<forall>i. mem_findById i (leases u) =
       (if i \<in> leaseId ` set ls then map_option (release_if t) (mem_findById i (leases s)) else mem_findById i (leases s))"
      using Cons.IH [of s] Cons.prems by auto
    moreover have "release_if t l = l" using False by (auto simp: release_if_def)
    ultimately show ?thesis using False Cons.prems by auto
  qed
qed

lemma releaseForTask_ends:
  assumes "repo_ok leaseId (leases s)"
  shows "\<exists>out u. lease_releaseForTask t s = (Inr out, u) \<and>
    (\<forall>i. mem_findById i (leases u) = map_option (release_if t) (mem_findById i (leases s)))"
proof -
  have "distinct (map leaseId (mem_list (leases s)))"
    "\<forall>l \<in> set (mem_list (leases s)). mem_findById (leaseId l) (leases s) = Some l"
    using assms mem_list_find [OF assms] mem_keys [OF assms] by (simp_all add: repo_ok_def)
  from release_each_run [OF this, of t] obtain out u where u: "release_each t (mem_list (leases s)) s = (Inr out, u)"
    "\<forall>i. mem_findById i (leases u) = (if i \<in> leaseId ` set (mem_list (leases s))
       then map_option (release_if t) (mem_findById i (leases s)) else mem_findById i (leases s))" by blast
  have "i \<in> leaseId ` set (mem_list (leases s))" if "mem_findById i (leases s) = Some l" for i l
    using that assms mem_find_key [OF assms] mem.find_in_list [OF assms] by force
  then have "mem_findById i (leases u) = map_option (release_if t) (mem_findById i (leases s))" for i
    using u(2) by (cases "mem_findById i (leases s)") auto
  with u(1) show ?thesis by (auto simp: lease_releaseForTask_def)
qed

lemma assignments_record_released [simp]:
  "leases (snd (record_released ls s)) = leases s" "assignments (snd (record_released ls s)) = assignments s"
  "fst (record_released ls s) = Inr ()"
  by (induction ls arbitrary: s) simp_all

lemma then_released [simp]: "thenS (record_released ls) k s = k (snd (record_released ls s))"
proof -
  have "record_released ls s = (Inr (), snd (record_released ls s))" by (rule prod_eqI) simp_all
  then show ?thesis unfolding thenS_def by (rule bindS_Inr)
qed

lemma releaseForTask_run:
  fixes s :: "'x assignment_state_scheme"
  assumes "repo_ok leaseId (leases s)"
  shows "\<exists>out u. releaseForTask t s = (Inr out, u) \<and>
    (\<forall>i. mem_findById i (leases u) = map_option (release_if t) (mem_findById i (leases s)))"
proof -
  obtain out u where u: "lease_releaseForTask t s = (Inr out, u)"
    "\<forall>i. mem_findById i (leases u) = map_option (release_if t) (mem_findById i (leases s))"
    using releaseForTask_ends [OF assms] by blast
  then have "releaseForTask t s = (Inr out, snd (record_released out u))"
    unfolding releaseForTask_def by (simp add: bindS_def [of "lease_releaseForTask t"])
  with u(2) show ?thesis by auto
qed

text \<open>An assignment that ends keeps no active lease of its task.\<close>

lemma commit_releases:
  fixes s :: "'x assignment_state_scheme"
  assumes run: "commit_transition i b c reason s = (Inr a, u)" and ends: "releases_leases (asg_status c)"
    and ok: "repo_ok leaseId (leases s)"
  shows "a = c \<and> (\<forall>j. mem_findById j (leases u) = map_option (release_if (asg_taskId b)) (mem_findById j (leases s)))"
proof (cases "validateAssignment c")
  case (Inl e)
  then show ?thesis using run by (simp add: commit_transition_def)
next
  case (Inr v)
  let ?s = "s\<lparr>assignments := mem_upsert assignmentId c (assignments s)\<rparr>"
  obtain out w where w: "releaseForTask (asg_taskId b) ?s = (Inr out, w)"
    "\<forall>j. mem_findById j (leases w) = map_option (release_if (asg_taskId b)) (mem_findById j (leases s))"
    using releaseForTask_run [of ?s "asg_taskId b"] ok by auto
  then have "a = c" "leases u = leases w"
    using run ends Inr
    by (auto simp: commit_transition_def upsert_assignment_def then_modify bindS_def [of "releaseForTask t" for t])
  with w(2) show ?thesis by simp
qed

lemma transition_releases:
  fixes s :: "'x assignment_state_scheme"
  assumes run: "assignment_transition i to reason s = (Inr a, u)" and ends: "releases_leases to"
    and ok: "repo_ok leaseId (leases s)"
  shows "asg_status a = to \<and>
    (\<forall>j l. mem_findById j (leases u) = Some l \<longrightarrow> lease_taskId l = asg_taskId a \<longrightarrow> lease_status l \<noteq> LeaseActive)"
proof -
  from run obtain b where b: "mem_findById i (assignments s) = Some b"
    by (cases "mem_findById i (assignments s)") (simp_all add: assignment_transition_def assignment_require_def bindS_def)
  let ?c = "moved b to (time_at s (ticks s)) reason" and ?s = "s\<lparr>ticks := Suc (ticks s)\<rparr>"
  have "commit_transition i b ?c reason ?s = (Inr a, u)"
    using run b
    by (auto simp: assignment_transition_def assignment_require_def bindS_def [of "assignment_require j" for j] split: if_splits)
  from commit_releases [OF this] ends ok
  have "a = ?c" "\<forall>j. mem_findById j (leases u) = map_option (release_if (asg_taskId b)) (mem_findById j (leases s))"
    by (simp_all add: moved_def)
  moreover have "lease_status (release_if t l) \<noteq> LeaseActive" if "lease_taskId (release_if t l) = t" for t l
    using that by (cases "lease_taskId l = t \<and> lease_status l = LeaseActive") (auto simp: release_if_def ended_lease_def)
  ultimately show ?thesis by (auto simp: moved_def)
qed

section \<open>Reassignment and review\<close>

lemma suitable_excludes:
  assumes "suitable d (exclusions r o') e"
  shows "agent_id d \<notin> set (or_else (excludeAgentIds r) [])" "agent_id d \<notin> set (or_else (ao_excludeAgentIds o') [])"
    "implementerAgentId r \<noteq> Some (agent_id d)"
  using assms by (auto simp: suitable_def exclusions_def effective_requirements_def)

text \<open>A review is never assigned to the author of the change.\<close>

lemma review_independent:
  assumes "distinct (map agent_id ds)" "comparison lc" "selectReviewer lc ds v s = (Inr (OutcomeAssigned a), u)"
  shows "asg_agentId a \<noteq> ri_implementerAgentId v"
proof (cases rule: assign_cases [OF assms(1,2), of "review_requirements v" "review_options v" s,
      case_names denied blocked assigned])
  case (assigned b d w)
  then show ?thesis
    using assms(3) suitable_excludes(3) [OF assigned(3)] by (simp add: selectReviewer_def review_requirements_def)
qed (use assms(3) in \<open>simp_all add: selectReviewer_def\<close>)

definition reassign_options :: "Assignment \<Rightarrow> AssignOptions \<Rightarrow> string option \<Rightarrow> timestamp \<Rightarrow> AssignOptions" where
  "reassign_options failed o' optTask at = o'\<lparr>ao_taskId := or_else optTask (asg_taskId failed), ao_now := Some at,
     ao_excludeAgentIds := Some [asg_agentId failed]\<rparr>"

lemma reassign_run:
  assumes run: "reassign lc ds i r reason o' t s = (Inr out, u)"
  shows "\<exists>failed at v w res. mem_findById i (assignments s) = Some failed \<and>
    asg_status failed \<notin> {AsReassigned, AsCancelled} \<and>
    assign lc ds r (reassign_options failed o' t at) v = (Inr res, w) \<and>
    record_replacement failed o' at res w = (Inr out, u)"
proof -
  from run obtain failed where failed: "mem_findById i (assignments s) = Some failed"
    by (cases "mem_findById i (assignments s)") (simp_all add: reassign_def assignment_require_def bindS_def)
  obtain n at where at: "at_or_now (ao_now o') s = (Inr at, s\<lparr>ticks := n\<rparr>)" using at_or_now_run by blast
  show ?thesis
    using run failed at
    by (auto simp: reassign_def assignment_require_def bindS_def thenS_def Let_def reassign_options_def
        split: if_splits prod.splits sum.splits)
qed

text \<open>A reassignment links the replacement to what it replaces and changes the agent.\<close>

lemma reassign_assigned:
  assumes "distinct (map agent_id ds)" "comparison lc"
    and run: "reassign lc ds i r reason o' t s = (Inr (OutcomeAssigned a), u)"
  shows "\<exists>failed. mem_findById i (assignments s) = Some failed \<and> asg_status failed \<notin> {AsReassigned, AsCancelled} \<and>
    asg_agentId a \<noteq> asg_agentId failed \<and> replacesAssignmentId a = Some (assignmentId failed) \<and>
    mem_findById (assignmentId a) (assignments u) = Some a"
proof -
  obtain failed at v w res where failed: "mem_findById i (assignments s) = Some failed"
      "asg_status failed \<notin> {AsReassigned, AsCancelled}"
    and asg: "assign lc ds r (reassign_options failed o' t at) v = (Inr res, w)"
    and rep: "record_replacement failed o' at res w = (Inr (OutcomeAssigned a), u)"
    using reassign_run [OF run] by blast
  from rep obtain b where b: "res = OutcomeAssigned b" "a = replacement_of failed b o' at"
    "mem_findById (assignmentId a) (assignments u) = Some a"
    by (cases res) (auto simp: record_replacement_def Let_def upsert_assignment_def then_modify)
  have "asg_agentId b \<noteq> asg_agentId failed"
  proof (cases rule: assign_cases [OF assms(1,2), of r "reassign_options failed o' t at" v,
        case_names denied blocked assigned])
    case (assigned c d x)
    then show ?thesis
      using asg b(1) suitable_excludes(2) [OF assigned(3)] by (simp add: reassign_options_def)
  qed (use asg b(1) in simp_all)
  with failed b show ?thesis by (simp add: replacement_of_def)
qed

end
