(* ===== verification/Demo_Tools.thy ===== *)
theory Demo_Tools
  imports Tool_Calls Staffing Demo
begin

text \<open>Concrete tools, requests and engines for the witnesses of the tool pipeline, and assignments for those of staffing.\<close>

definition demo_tool :: Tool where
  "demo_tool = \<lparr>tool_id = ''fs'', tool_name = ''Files'', tool_description = ''reads files'', tool_version = ''1'',
     tool_capabilities = [''filesystem.read''], tool_action = ARead, approvalRule = None,
     tool_allowedAgents = [''coder''], tool_allowedProjects = [TOOL_WILDCARD], tool_allowedEnvironments = [Local],
     timeoutMs = 100, tool_limits = DEFAULT_TOOL_LIMITS\<lparr>maxCallsPerTask := 1\<rparr>, inputSchema = None,
     outputSchema = None, tool_metadata = []\<rparr>"

definition guarded_tool :: Tool where
  "guarded_tool = demo_tool\<lparr>approvalRule := Some \<lparr>rule_always = True, rule_environments = None,
     rule_actions = None, rule_reason = None\<rparr>\<rparr>"

definition demo_call :: ToolExecutionRequest where
  "demo_call = \<lparr>tq_requestId = ''r1'', tq_taskId = ''t1'', tq_agentId = ''coder'', tq_projectId = ''web'',
     tq_toolId = ''fs'', tq_action = ARead, tq_input = JNull, tq_environment = Local, requestedAt = 0,
     tq_metadata = []\<rparr>"

definition demo_grant :: PermissionGrant where
  "demo_grant = \<lparr>grant_effect = Allow, grant_action = ARead, grant_agentId = None, grant_projectId = None,
     grant_toolId = None, grant_environment = None, grant_reason = None\<rparr>"

definition tool_state_of :: "Tool \<Rightarrow> tool_state" where
  "tool_state_of t = \<lparr>seq = 0, process_tag = ''p'', ticks = 0, time_at = (\<lambda>n. 0), events = [], sink_events = [],
     audit_repo = None, tasks = [], approvals = [], handoffs = [], records = [], agents = [], instances = [],
     toolset = [(tool_id t, t)], taskCalls = [], agentCalls = [], pendingApprovals = []\<rparr>"

definition answering :: "string \<Rightarrow> json \<Rightarrow> ToolExecutionContext \<Rightarrow> tool_state \<Rightarrow> handler_run \<times> tool_state" where
  "answering i v c s = (Settles 5 (Inr (JStr ''text'')), s)"

definition hanging :: "string \<Rightarrow> json \<Rightarrow> ToolExecutionContext \<Rightarrow> tool_state \<Rightarrow> handler_run \<times> tool_state" where
  "hanging i v c s = (Hangs, s\<lparr>toolset := []\<rparr>)"

definition demo_tools :: "tool_state tool_engine" where
  "demo_tools = \<lparr>te_permissions = [demo_grant], te_ceiling = \<lparr>ptl_maxCallsPerTask = None,
     ptl_maxCallsPerAgent = None, ptl_maxDurationMs = None, ptl_maxInputBytes = None, ptl_maxOutputBytes = None\<rparr>,
     te_requestedBy = ''engine'', te_handler = answering\<rparr>"

lemma demo_tools_ledger: "handler_leaves_ledger demo_tools"
  by (simp add: handler_leaves_ledger_def demo_tools_def answering_def ledger.refl)

lemma demo_call_cleared: "call_cleared demo_tools demo_call (tool_state_of demo_tool)"
  by code_simp

lemma demo_call_counted: "call_counted demo_tools demo_call (tool_state_of demo_tool)"
  by code_simp

lemma guarded_call_not_cleared: "\<not> call_cleared demo_tools demo_call (tool_state_of guarded_tool)"
  by code_simp

lemma demo_tools_handler: "te_handler demo_tools = answering"
  by (simp add: demo_tools_def)

lemma demo_tools_valid: "tools_valid (tool_state_of demo_tool)"
proof -
  have "validateToolDefinition demo_tool = Inr ()" by code_simp
  then show ?thesis by (auto simp: tools_valid_def tool_state_of_def)
qed

text \<open>A parked request whose approval was granted after the task had used up its only call.\<close>

definition used_up_state :: tool_state where
  "used_up_state = (tool_state_of guarded_tool)\<lparr>
     approvals := [(''a1'', demo_approval\<lparr>approval_status := Approved\<rparr>)],
     taskCalls := [(taskKey demo_call, 1)],
     pendingApprovals := [(''r1'', \<lparr>pa_request = demo_call, pa_approvalId = ''a1''\<rparr>)]\<rparr>"

lemma used_up_facts:
  "map_of (pendingApprovals used_up_state) ''r1'' = Some \<lparr>pa_request = demo_call, pa_approvalId = ''a1''\<rparr>"
  "mem_findById ''a1'' (approvals used_up_state) = Some (demo_approval\<lparr>approval_status := Approved\<rparr>)"
  "map_of (toolset used_up_state) (tq_toolId demo_call) = Some guarded_tool"
  "granted demo_tools demo_call"
  by (simp_all add: used_up_state_def mem_findById_def tool_state_of_def guarded_tool_def demo_tool_def
      demo_call_def) code_simp

section \<open>Staffing\<close>

text \<open>Concrete assignments, reviews and leases for the witnesses of the staffing properties.\<close>

definition staff_state :: assignment_state where
  "staff_state = \<lparr>seq = 0, process_tag = ''p'', ticks = 0, time_at = (\<lambda>n. 0), events = [], sink_events = [],
     audit_repo = None, tasks = [], approvals = [], handoffs = [], records = [], agents = [], instances = [],
     leases = [], assignments = []\<rparr>"

definition demo_review :: ReviewInput where
  "demo_review = \<lparr>ri_projectId = ''web'', ri_changeSetId = ''c1'', ri_implementerAgentId = ''coder'',
     ri_reviewCapabilities = None, ri_riskLevel = RiskLow, ri_now = 5\<rparr>"

definition lease_options :: AssignOptions where
  "lease_options = (review_options demo_review)\<lparr>ao_workspaceId := Some ''ws'', ao_writeScope := Some [''src'']\<rparr>"

lemma demo_distinct: "distinct (map agent_id [demo_descriptor])"
  by simp

lemma demo_comparison: "comparison code_unit_cmp"
  by (rule code_units.comparison_axioms)

lemma demo_selected:
  "case selectAssignment code_unit_cmp (review_requirements demo_review) [demo_descriptor]
     (draft_of (review_options demo_review) ''assign_1_p'' 5) None of Inr (Chosen a) \<Rightarrow> True | _ \<Rightarrow> False"
  by code_simp

lemma demo_first_id: "id_of ''assign'' (process_tag staff_state) (Suc (seq staff_state)) = ''assign_1_p''"
  by code_simp

lemma acquire_in_empty_store:
  "leases s = [] \<Longrightarrow> validateScope (li_scope i) = Inr () \<Longrightarrow> li_ttlMs i = None \<Longrightarrow>
   \<exists>l u. acquire lc i s = (Inr l, u)"
  by (simp add: acquire_def Let_def conflictingLease_def mem_list_def js_sort_def upsert_lease_def then_modify
      DEFAULT_LEASE_TTL_MS_def MAX_LEASE_TTL_MS_def throw_if_def)

lemma assign_chosen:
  assumes "selectAssignment lc r ds (draft_of o' (id_of ''assign'' (process_tag s) (Suc (seq s))) at) (ao_isEnabled o') = Inr (Chosen a)"
    and "ao_now o' = Some at"
    and "wants_lease o' \<longrightarrow> leases s = [] \<and> validateScope (or_else (ao_writeScope o') []) = Inr () \<and> ao_leaseTtlMs o' = None"
  shows "\<exists>u. assign lc ds r o' s = (Inr (OutcomeAssigned a), u)"
proof -
  let ?s = "s\<lparr>seq := Suc (seq s)\<rparr>"
  have run: "assign lc ds r o' s = record_selection lc r o' at (Chosen a) ?s"
    using assms(1,2) by (simp add: assign_def at_or_now_def bindS_def createId_eq)
  show ?thesis
  proof (cases rule: record_selection_cases [of lc r o' at "Chosen a" ?s, case_names denied blocked chosen])
    case (denied e u)
    have lease: "wants_lease o'"
      using denied(1) by (rule contrapos_pp) (simp add: record_selection_def upsert_assignment_def then_modify record_created_def)
    let ?i = "id_of ''lease'' (process_tag ?s) (Suc (seq ?s))"
    obtain l v where "acquire lc (lease_input a o' ?i) (?s\<lparr>seq := Suc (seq ?s)\<rparr>) = (Inr l, v)"
      using acquire_in_empty_store [of "?s\<lparr>seq := Suc (seq ?s)\<rparr>" "lease_input a o' ?i" lc] assms(3) lease
      by (auto simp: lease_input_def)
    then have "fst (acquireWriteScope lc a o' at ?s) = Inr ()"
      by (simp add: acquireWriteScope_def bindS_def createId_eq upsert_assignment_def then_modify)
    then have "fst (record_selection lc r o' at (Chosen a) ?s) = Inr (OutcomeAssigned a)"
      using lease by (cases "acquireWriteScope lc a o' at ?s")
        (simp add: record_selection_def thenS_def [of "acquireWriteScope lc a o' at"] bindS_def upsert_assignment_def
          then_modify record_created_def)
    with denied(1) show ?thesis by simp
  qed (use run in auto)
qed

lemma demo_reviewed:
  "\<exists>a u. selectReviewer code_unit_cmp [demo_descriptor] demo_review staff_state = (Inr (OutcomeAssigned a), u)"
  and demo_leased:
  "\<exists>a u. assign code_unit_cmp [demo_descriptor] (review_requirements demo_review) lease_options staff_state
     = (Inr (OutcomeAssigned a), u)"
proof -
  obtain a where a: "selectAssignment code_unit_cmp (review_requirements demo_review) [demo_descriptor]
     (draft_of (review_options demo_review) ''assign_1_p'' 5) None = Inr (Chosen a)"
    using demo_selected by (auto split: sum.splits selection.splits)
  have same: "draft_of lease_options = draft_of (review_options demo_review)" "ao_now lease_options = Some 5"
    "ao_isEnabled lease_options = None" "ao_leaseTtlMs lease_options = None" "ao_writeScope lease_options = Some [''src'']"
    "ao_now (review_options demo_review) = Some 5" "ao_isEnabled (review_options demo_review) = None"
    "\<not> wants_lease (review_options demo_review)" "leases staff_state = []"
    by (auto simp: lease_options_def review_options_def draft_of_def fun_eq_iff demo_review_def wants_lease_def staff_state_def)
  have scope: "validateScope [''src''] = Inr ()" by code_simp
  show "\<exists>a u. selectReviewer code_unit_cmp [demo_descriptor] demo_review staff_state = (Inr (OutcomeAssigned a), u)"
    unfolding selectReviewer_def
    by (rule exI, rule assign_chosen [of _ _ _ _ staff_state 5, unfolded demo_first_id])
      (use a same in auto)
  show "\<exists>a u. assign code_unit_cmp [demo_descriptor] (review_requirements demo_review) lease_options staff_state
     = (Inr (OutcomeAssigned a), u)"
    by (rule exI, rule assign_chosen [of _ _ _ _ staff_state 5, unfolded demo_first_id])
      (use a same scope in auto)
qed

text \<open>An assignment that holds a lease.\<close>

definition held_lease :: WriteScopeLease where
  "held_lease = \<lparr>leaseId = ''l1'', lease_projectId = ''web'', lease_taskId = ''t1'', lease_agentId = ''reviewer'',
     lease_workspaceId = ''ws'', lease_scope = [''src''], lease_status = LeaseActive, acquiredAt = 0,
     lease_expiresAt = 9, lease_version = 1\<rparr>"

definition held_assignment :: Assignment where
  "held_assignment = new_assignment (review_requirements demo_review) demo_descriptor
     (qualifyDescriptor demo_descriptor (review_requirements demo_review) None)
     \<lparr>dr_assignmentId = ''as1'', dr_taskId = ''t1'', dr_assignedBy = ''system'', dr_correlationId = None,
      dr_excludeAgentIds = None, dr_now = 0\<rparr>"

definition held_state :: assignment_state where
  "held_state = staff_state\<lparr>leases := [(''l1'', held_lease)], assignments := [(''as1'', held_assignment)]\<rparr>"

lemma held_ok: "repo_ok leaseId (leases held_state)"
  by (simp add: held_state_def repo_ok_def held_lease_def)

lemma held_valid: "validateAssignment (moved held_assignment AsCancelled 0 None) = Inr ()"
  by code_simp

lemma held_moves:
  "\<exists>a u. assignment_transition ''as1'' AsCancelled None held_state = (Inr a, u) \<and> asg_taskId a = ''t1'' \<and>
     map_option lease_taskId (mem_findById ''l1'' (leases u)) = Some ''t1''"
proof -
  let ?c = "moved held_assignment AsCancelled 0 None" and ?s = "held_state\<lparr>ticks := 1\<rparr>"
  have stored: "mem_findById ''as1'' (assignments held_state) = Some held_assignment" "leases ?s = [(''l1'', held_lease)]"
    by (simp_all add: held_state_def mem_findById_def)
  have status: "asg_status held_assignment = AsAssigned" "asg_taskId held_assignment = ''t1''"
    by (simp_all add: held_assignment_def new_assignment_def)
  let ?v = "?s\<lparr>assignments := mem_upsert assignmentId ?c (assignments ?s)\<rparr>"
  obtain out u where u: "releaseForTask ''t1'' ?v = (Inr out, u)"
    "\<forall>i. mem_findById i (leases u) = map_option (release_if ''t1'') (mem_findById i (leases ?v))"
    using releaseForTask_run [of ?v "''t1''"] held_ok by (auto simp: held_state_def)
  have "\<exists>w. assignment_transition ''as1'' AsCancelled None held_state = (Inr ?c, w) \<and> leases w = leases u"
    using stored status held_valid u(1)
    by (simp add: assignment_transition_def assignment_require_def bindS_def [of "assignment_require i" for i]
        canTransitionAssignment_def commit_transition_def upsert_assignment_def then_modify releases_leases_def
        bindS_def [of "releaseForTask t" for t] held_state_def staff_state_def moved_def)
  moreover have "map_option lease_taskId (mem_findById ''l1'' (leases u)) = Some ''t1''"
    using u(2) stored(2) by (simp add: mem_findById_def release_if_def ended_lease_def held_lease_def)
  ultimately show ?thesis using status by (auto simp: moved_def)
qed

end
