(* ===== verification/Accounts.thy ===== *)
theory Accounts
  imports Audit_Log Json Sorting
begin

text \<open>
  Operator accounts: the roles and principals of \<open>contracts/control.ts\<close>, the records of
  \<open>contracts/access.ts\<close> and the transactional store of
  \<open>core/access/in-memory-operator-account-store.ts\<close>. A commit is one atomic change of the store; what
  happens between the read of an account and the commit is the subject of the theory
  \<open>Account_Races\<close>.
\<close>

section \<open>Roles and principals\<close>

datatype OperatorRole = Viewer | Operator | Admin

fun role_str :: "OperatorRole \<Rightarrow> string" where
  "role_str Viewer = ''viewer''"
| "role_str Operator = ''operator''"
| "role_str Admin = ''admin''"

definition OPERATOR_ROLES :: "OperatorRole list" where
  "OPERATOR_ROLES = [Viewer, Operator, Admin]"

fun ROLE_RANK :: "OperatorRole \<Rightarrow> int" where
  "ROLE_RANK Viewer = 1"
| "ROLE_RANK Operator = 2"
| "ROLE_RANK Admin = 3"

type_synonym ControlCapability = string

fun ROLE_CAPABILITIES :: "OperatorRole \<Rightarrow> ControlCapability list" where
  "ROLE_CAPABILITIES Viewer = [''view'', ''view_security'']"
| "ROLE_CAPABILITIES Operator = [''view'', ''approve'', ''reject'', ''cancel_task'', ''retry_task'',
     ''pause_workflow'', ''resume_workflow'', ''cancel_workflow'', ''create_execution_plan'',
     ''replan_execution_plan'', ''submit_execution_plan'', ''prepare_execution'', ''cancel_execution'',
     ''review_change'', ''plan_from_objective'', ''create_program'', ''create_workstream'',
     ''add_task_to_workstream'', ''tick_software_factory'', ''author_workflow'', ''author_knowledge'',
     ''view_security'', ''view_security_events'', ''request_destructive_action'']"
| "ROLE_CAPABILITIES Admin = [''view'', ''approve'', ''reject'', ''cancel_task'', ''retry_task'',
     ''pause_workflow'', ''resume_workflow'', ''cancel_workflow'', ''disable_agent'', ''enable_agent'',
     ''create_execution_plan'', ''replan_execution_plan'', ''submit_execution_plan'', ''manage_access'',
     ''prepare_execution'', ''cancel_execution'', ''kill_execution'', ''review_change'', ''commit_source'',
     ''push_source'', ''deploy_release'', ''rollback_release'', ''plan_from_objective'', ''create_program'',
     ''create_workstream'', ''add_task_to_workstream'', ''tick_software_factory'', ''author_workflow'',
     ''publish_workflow'', ''author_knowledge'', ''create_project'', ''manage_budget_policy'',
     ''manage_governance_policy'', ''view_security'', ''view_security_events'', ''manage_security_policy'',
     ''manage_security_incidents'', ''request_destructive_action'', ''approve_destructive_action'',
     ''manage_secret_references'', ''use_secret_reference'', ''manage_identity_security'',
     ''manage_agent_security'', ''contain_security_threat'']"

text \<open>\<open>"*"\<close> or an explicit list of project ids.\<close>

datatype ProjectScope = AllProjects | Projects "string list"

fun scope_json :: "ProjectScope \<Rightarrow> json" where
  "scope_json AllProjects = JStr ''*''"
| "scope_json (Projects ps) = jstrs ps"

record OperatorPrincipal =
  op_id :: string
  op_role :: OperatorRole
  op_allowedProjects :: ProjectScope

definition operatorCan :: "OperatorPrincipal \<Rightarrow> ControlCapability \<Rightarrow> bool" where
  "operatorCan p c \<longleftrightarrow> c \<in> set (ROLE_CAPABILITIES (op_role p))"

definition operatorCanAccessProject :: "OperatorPrincipal \<Rightarrow> string \<Rightarrow> bool" where
  "operatorCanAccessProject p projectId =
     (case op_allowedProjects p of AllProjects \<Rightarrow> True | Projects ps \<Rightarrow> projectId \<in> set ps)"

section \<open>Accounts\<close>

datatype OperatorAccountStatus = OaPending | OaActive | OaSuspended | OaRejected | OaRevoked

fun account_status_str :: "OperatorAccountStatus \<Rightarrow> string" where
  "account_status_str OaPending = ''pending''"
| "account_status_str OaActive = ''active''"
| "account_status_str OaSuspended = ''suspended''"
| "account_status_str OaRejected = ''rejected''"
| "account_status_str OaRevoked = ''revoked''"

record OperatorAccount =
  oa_id :: string
  oa_status :: OperatorAccountStatus
  oa_role :: "OperatorRole option"
  oa_allowedProjects :: ProjectScope
  oa_email :: "string option"
  oa_displayName :: "string option"
  oa_emailVerified :: bool
  oa_requestedAt :: timestamp
  oa_updatedAt :: timestamp
  oa_decidedBy :: "string option"
  oa_decidedAt :: "timestamp option"
  oa_statusReason :: "string option"
  oa_bootstrap :: bool
  sessionsValidAfter :: "int option"
  oa_revision :: int

record VerifiedIdentity =
  vi_uid :: string
  vi_email :: "string option"
  vi_displayName :: "string option"
  vi_emailVerified :: bool
  vi_issuedAt :: "int option"

definition isActiveAdmin :: "OperatorAccount option \<Rightarrow> bool" where
  "isActiveAdmin v = defined_and (\<lambda>a. oa_status a = OaActive \<and> oa_role a = Some Admin) v"

text \<open>A cut-off of 0 is falsy: it counts as none.\<close>

definition sessionRevoked :: "OperatorAccount option \<Rightarrow> int option \<Rightarrow> bool" where
  "sessionRevoked v issuedAt =
     (case Option.bind v sessionsValidAfter of
        None \<Rightarrow> False
      | Some cutoff \<Rightarrow> cutoff \<noteq> 0 \<and> (case issuedAt of None \<Rightarrow> True | Some t \<Rightarrow> t < cutoff))"

definition principalFor :: "OperatorAccount option \<Rightarrow> OperatorPrincipal option" where
  "principalFor v = (case v of None \<Rightarrow> None
     | Some a \<Rightarrow> if oa_status a \<noteq> OaActive then None
         else map_option (\<lambda>r. \<lparr>op_id = oa_id a, op_role = r, op_allowedProjects = oa_allowedProjects a\<rparr>) (oa_role a))"

definition capabilitiesFor :: "OperatorAccount option \<Rightarrow> ControlCapability list" where
  "capabilitiesFor v = (case v of None \<Rightarrow> []
     | Some a \<Rightarrow> if oa_status a \<noteq> OaActive then []
         else case oa_role a of None \<Rightarrow> [] | Some r \<Rightarrow> ROLE_CAPABILITIES r)"

text \<open>The checks that remain once every field has its declared type.\<close>

definition validateOperatorAccount :: "OperatorAccount \<Rightarrow> unit res" where
  "validateOperatorAccount a = checks
     [requireText (oa_id a) ''account.id'',
      throw_if (oa_status a = OaActive \<and> oa_role a = None)
        (ValidationError ''an active account must have a role''),
      throw_if (oa_revision a < 1) (ValidationError ''account.revision must be a positive integer'')]"

section \<open>The store\<close>

record account_state = audit_state +
  accounts :: "OperatorAccount repo"
  activeAdmins :: int
  bootstrapOperatorId :: "string option"

datatype OperatorAccountChange =
    CreatePending OperatorAccount
  | Update OperatorAccount int int
  | Bootstrap OperatorAccount

fun change_account :: "OperatorAccountChange \<Rightarrow> OperatorAccount" where
  "change_account (CreatePending a) = a"
| "change_account (Update a r d) = a"
| "change_account (Bootstrap a) = a"

datatype OperatorAccountCommitResult = Committed | Exists | AlreadyProvisioned

definition AccountConflictError :: error where
  "AccountConflictError = StateTransitionError ''operator account changed concurrently - reload''"

definition LastAdministratorError :: error where
  "LastAdministratorError =
     StateTransitionError ''the last active administrator cannot be removed or demoted''"

definition BootstrapLockedError :: error where
  "BootstrapLockedError = PermissionDeniedError
     ''initial administrator bootstrap is locked: an administrator already exists''"

definition stored :: "string \<Rightarrow> 'x account_state_scheme \<Rightarrow> OperatorAccount option" where
  "stored i s = mem_findById i (accounts s)"

definition put_account :: "OperatorAccount \<Rightarrow> 'x account_state_scheme \<Rightarrow> 'x account_state_scheme" where
  "put_account a s = s\<lparr>accounts := mem_upsert oa_id a (accounts s)\<rparr>"

fun commit_valid :: "OperatorAccountChange \<Rightarrow> ('x account_state_scheme, OperatorAccountCommitResult) op" where
  "commit_valid (CreatePending a) s =
     (if stored (oa_id a) s \<noteq> None then (Inr Exists, s) else (Inr Committed, put_account a s))"
| "commit_valid (Bootstrap a) s =
     (let current = stored (oa_id a) s in
      case bootstrapOperatorId s of
        Some b \<Rightarrow> if b = oa_id a \<and> isActiveAdmin current then (Inr AlreadyProvisioned, s)
                  else (Inl BootstrapLockedError, s)
      | None \<Rightarrow>
          if activeAdmins s > 0 then (Inl BootstrapLockedError, s)
          else (Inr Committed, (put_account a s)
            \<lparr>bootstrapOperatorId := Some (oa_id a),
             activeAdmins := activeAdmins s + (if isActiveAdmin current then 0 else 1)\<rparr>))"
| "commit_valid (Update a expectedRevision delta) s =
     (case stored (oa_id a) s of
        None \<Rightarrow> (Inl AccountConflictError, s)
      | Some current \<Rightarrow>
          if oa_revision current \<noteq> expectedRevision then (Inl AccountConflictError, s)
          else if delta < 0 \<and> activeAdmins s + delta < 1 then (Inl LastAdministratorError, s)
          else (Inr Committed, (put_account a s)\<lparr>activeAdmins := activeAdmins s + delta\<rparr>))"

definition account_commit :: "OperatorAccountChange \<Rightarrow> ('x account_state_scheme, OperatorAccountCommitResult) op" where
  "account_commit c = thenS (liftE (validateOperatorAccount (change_account c))) (commit_valid c)"

end
