(* ===== verification/Access.thy ===== *)
theory Access
  imports Accounts Audited
begin

text \<open>
  \<open>core/access/access-service.ts\<close> and \<open>core/access/lockdown-service.ts\<close>. Each call reads an account,
  decides on a change, and commits it; the decision is a function of its own, which
  \<open>Account_Races\<close> uses to interleave calls between the read and the commit.
\<close>

section \<open>Inputs\<close>

datatype AccessAction = Approve | Reject | Suspend | Reactivate | Revoke | ChangeRole

fun access_action_str :: "AccessAction \<Rightarrow> string" where
  "access_action_str Approve = ''approve''"
| "access_action_str Reject = ''reject''"
| "access_action_str Suspend = ''suspend''"
| "access_action_str Reactivate = ''reactivate''"
| "access_action_str Revoke = ''revoke''"
| "access_action_str ChangeRole = ''change role''"

fun eventFor :: "AccessAction \<Rightarrow> string" where
  "eventFor Approve = ''access_approved''"
| "eventFor Reject = ''access_rejected''"
| "eventFor Suspend = ''operator_suspended''"
| "eventFor Reactivate = ''operator_reactivated''"
| "eventFor Revoke = ''access_revoked''"
| "eventFor ChangeRole = ''operator_role_changed''"

fun ACCESS_FROM :: "AccessAction \<Rightarrow> OperatorAccountStatus list" where
  "ACCESS_FROM Approve = [OaPending, OaRejected]"
| "ACCESS_FROM Reject = [OaPending]"
| "ACCESS_FROM Suspend = [OaActive]"
| "ACCESS_FROM Reactivate = [OaSuspended]"
| "ACCESS_FROM Revoke = [OaActive, OaSuspended]"
| "ACCESS_FROM ChangeRole = [OaActive]"

fun ACCESS_TO :: "AccessAction \<Rightarrow> OperatorAccountStatus" where
  "ACCESS_TO Approve = OaActive"
| "ACCESS_TO Reject = OaRejected"
| "ACCESS_TO Suspend = OaSuspended"
| "ACCESS_TO Reactivate = OaActive"
| "ACCESS_TO Revoke = OaRevoked"
| "ACCESS_TO ChangeRole = OaActive"

record AccessInput =
  ai_operatorId :: string
  ai_role :: json
  ai_allowedProjects :: json
  ai_reason :: json

record AccessActor =
  actor_principal :: OperatorPrincipal
  actor_correlationId :: "string option"

definition MAX_REASON :: nat where
  "MAX_REASON = 500"

definition requireManage :: "OperatorPrincipal \<Rightarrow> unit res" where
  "requireManage p = throw_if (\<not> operatorCan p ''manage_access'')
     (PermissionDeniedError ''managing access requires the administrator role'')"

definition requireId :: "string \<Rightarrow> unit res" where
  "requireId v = checks
     [throw_if (js_trim v = []) (ValidationError ''operatorId is required''),
      throw_if (\<not> (1 \<le> length v \<and> length v \<le> 128 \<and> list_all (\<lambda>c. js_alnum c \<or> c \<in> set ''_-'') v))
        (ValidationError ''operatorId is not a valid identifier'')]"

fun optionalReason :: "json \<Rightarrow> string option res" where
  "optionalReason JUndefined = Inr None"
| "optionalReason JNull = Inr None"
| "optionalReason (JStr v) =
     (if v = [] then Inr None
      else if length (js_trim v) > MAX_REASON
      then Inl (ValidationError (''reason must be at most 500 chars''))
      else Inr (if js_trim v = [] then None else Some (js_trim v)))"
| "optionalReason _ = Inl (ValidationError ''reason must be text'')"

definition role_of :: "json \<Rightarrow> OperatorRole option" where
  "role_of v = js_find (\<lambda>r. v = JStr (role_str r)) OPERATOR_ROLES"

definition grantableRole :: "OperatorPrincipal \<Rightarrow> json \<Rightarrow> OperatorRole res" where
  "grantableRole p raw = (case role_of raw of
     None \<Rightarrow> Inl (ValidationError (''role must be one of '' @ js_join '', '' (map role_str OPERATOR_ROLES)))
   | Some role \<Rightarrow>
       if ROLE_RANK role > ROLE_RANK (op_role p)
       then Inl (PermissionDeniedError ''cannot grant a role above your own'')
       else Inr role)"

fun strings_of :: "json list \<Rightarrow> string list option" where
  "strings_of [] = Some []"
| "strings_of (JStr v # vs) = map_option (Cons v) (strings_of vs)"
| "strings_of (_ # vs) = None"

definition bad_scope :: error where
  "bad_scope = ValidationError (''allowedProjects must be '' @ json_quote ''*'' @ '' or a non-empty list of project ids'')"

definition validScope :: "(string \<Rightarrow> bool) \<Rightarrow> json \<Rightarrow> ProjectScope res" where
  "validScope has raw =
     (if raw = JStr ''*'' then Inr AllProjects
      else case raw of
        JArr vs \<Rightarrow>
          (case strings_of vs of
             Some (p # ps) \<Rightarrow>
               let unique = js_default_sort (js_unique (p # ps)) in
               if length (filter (\<lambda>q. \<not> has q) unique) > 0
               then Inl (ValidationError ''allowedProjects contains unknown projects'')
               else Inr (Projects unique)
           | _ \<Rightarrow> Inl bad_scope)
      | _ \<Rightarrow> Inl bad_scope)"

section \<open>Decisions\<close>

text \<open>\<open>...profile(identity)\<close>: an empty or missing text leaves the stored one.\<close>

definition with_profile :: "VerifiedIdentity \<Rightarrow> OperatorAccount \<Rightarrow> OperatorAccount" where
  "with_profile v a = a
     \<lparr>oa_email := (if truthy (vi_email v) then vi_email v else oa_email a),
      oa_displayName := (if truthy (vi_displayName v) then vi_displayName v else oa_displayName a),
      oa_emailVerified := vi_emailVerified v\<rparr>"

definition profileChanged :: "OperatorAccount \<Rightarrow> VerifiedIdentity \<Rightarrow> bool" where
  "profileChanged a v \<longleftrightarrow>
     oa_email a \<noteq> (if truthy (vi_email v) then vi_email v else None) \<or>
     oa_displayName a \<noteq> (if truthy (vi_displayName v) then vi_displayName v else None) \<or>
     oa_emailVerified a \<noteq> vi_emailVerified v"

definition fresh_account :: "string \<Rightarrow> timestamp \<Rightarrow> OperatorAccount" where
  "fresh_account uid t =
     \<lparr>oa_id = uid, oa_status = OaPending, oa_role = None, oa_allowedProjects = Projects [],
      oa_email = None, oa_displayName = None, oa_emailVerified = False, oa_requestedAt = t,
      oa_updatedAt = t, oa_decidedBy = None, oa_decidedAt = None, oa_statusReason = None,
      oa_bootstrap = False, sessionsValidAfter = None, oa_revision = 1\<rparr>"

definition pending_account :: "VerifiedIdentity \<Rightarrow> timestamp \<Rightarrow> OperatorAccount" where
  "pending_account v t = with_profile v (fresh_account (vi_uid v) t)"

definition refreshed_account :: "VerifiedIdentity \<Rightarrow> OperatorAccount \<Rightarrow> timestamp \<Rightarrow> OperatorAccount" where
  "refreshed_account v a t = (with_profile v a)\<lparr>oa_updatedAt := t, oa_revision := oa_revision a + 1\<rparr>"

definition cutoff_account :: "OperatorAccount \<Rightarrow> timestamp \<Rightarrow> timestamp \<Rightarrow> OperatorAccount" where
  "cutoff_account a t t' = a
     \<lparr>sessionsValidAfter := Some (max (t div 1000) (or_else (sessionsValidAfter a) 0)),
      oa_updatedAt := t', oa_revision := oa_revision a + 1\<rparr>"

definition bootstrap_account :: "VerifiedIdentity \<Rightarrow> OperatorAccount option \<Rightarrow> timestamp \<Rightarrow> OperatorAccount" where
  "bootstrap_account v current t =
     (with_profile v (or_else current (fresh_account (vi_uid v) t)))
       \<lparr>oa_id := vi_uid v, oa_status := OaActive, oa_role := Some Admin, oa_allowedProjects := AllProjects,
        oa_decidedBy := Some ''bootstrap'', oa_decidedAt := Some t, oa_updatedAt := t, oa_statusReason := None,
        oa_bootstrap := True, oa_revision := (case current of None \<Rightarrow> 0 | Some a \<Rightarrow> oa_revision a) + 1\<rparr>"

definition active_admin_delta :: "OperatorAccount \<Rightarrow> OperatorAccount \<Rightarrow> int" where
  "active_admin_delta current next =
     (if isActiveAdmin (Some current) = isActiveAdmin (Some next) then 0
      else if isActiveAdmin (Some next) then 1 else -1)"

text \<open>The grant of an action: the role and scope the account will have.\<close>

definition granted :: "(string \<Rightarrow> bool) \<Rightarrow> AccessAction \<Rightarrow> OperatorPrincipal \<Rightarrow> AccessInput \<Rightarrow> OperatorAccount
    \<Rightarrow> (OperatorRole option \<times> ProjectScope) res" where
  "granted has action p inp current =
     (if action = Approve \<or> action = ChangeRole
      then bindE (grantableRole p (ai_role inp)) (\<lambda>role.
           bindE (if ai_allowedProjects inp = JUndefined \<and> action = ChangeRole
                  then Inr (oa_allowedProjects current) else validScope has (ai_allowedProjects inp)) (\<lambda>scope.
           Inr (Some role, scope)))
      else Inr (oa_role current, oa_allowedProjects current))"

definition decide_access :: "(string \<Rightarrow> bool) \<Rightarrow> AccessAction \<Rightarrow> OperatorPrincipal \<Rightarrow> AccessInput \<Rightarrow> OperatorAccount option
    \<Rightarrow> (OperatorAccount \<times> string option \<times> OperatorRole option \<times> ProjectScope) res" where
  "decide_access has action p inp found = (case found of
     None \<Rightarrow> Inl (NotFoundError ''unknown operator account'')
   | Some current \<Rightarrow>
       if ai_operatorId inp = op_id p
       then Inl (PermissionDeniedError ''administrators cannot change their own access'')
       else if oa_status current \<notin> set (ACCESS_FROM action)
       then Inl (StateTransitionError (''cannot '' @ access_action_str action @ '' an account that is ''
              @ account_status_str (oa_status current)))
       else bindE (optionalReason (ai_reason inp)) (\<lambda>reason.
            bindE (granted has action p inp current) (\<lambda>(role, scope).
              if action = ChangeRole \<and> role = oa_role current \<and> scope = oa_allowedProjects current
              then Inl (ValidationError ''the role and project scope are unchanged'')
              else Inr (current, reason, role, scope))))"

definition decided_account :: "AccessAction \<Rightarrow> OperatorPrincipal \<Rightarrow> OperatorAccount \<Rightarrow> string option \<Rightarrow>
    OperatorRole option \<Rightarrow> ProjectScope \<Rightarrow> timestamp \<Rightarrow> OperatorAccount" where
  "decided_account action p current reason role scope t = current
     \<lparr>oa_status := ACCESS_TO action, oa_role := role, oa_allowedProjects := scope,
      oa_decidedBy := Some (op_id p), oa_decidedAt := Some t, oa_updatedAt := t,
      oa_revision := oa_revision current + 1, oa_statusReason := reason\<rparr>"

section \<open>Views and events\<close>

record MyAccessView =
  mv_authorized :: bool
  mv_status :: OperatorAccountStatus
  mv_role :: "OperatorRole option"
  mv_allowedProjects :: "ProjectScope option"
  mv_capabilities :: "ControlCapability list"

definition access_view :: "OperatorAccount \<Rightarrow> MyAccessView" where
  "access_view a =
     (let authorized = (oa_status a = OaActive \<and> oa_role a \<noteq> None) in
      \<lparr>mv_authorized = authorized, mv_status = oa_status a,
       mv_role = (if authorized then oa_role a else None),
       mv_allowedProjects = (if authorized then Some (oa_allowedProjects a) else None),
       mv_capabilities = capabilitiesFor (Some a)\<rparr>)"

record OperatorAccountView =
  ov_operatorId :: string
  ov_email :: "string option"
  ov_displayName :: "string option"
  ov_emailVerified :: bool
  ov_status :: OperatorAccountStatus
  ov_role :: "OperatorRole option"
  ov_allowedProjects :: ProjectScope
  ov_requestedAt :: timestamp
  ov_updatedAt :: timestamp
  ov_decidedAt :: "timestamp option"
  ov_statusReason :: "string option"
  ov_isSelf :: bool

definition nonempty :: "string option \<Rightarrow> string option" where
  "nonempty v = (if truthy v then v else None)"

definition toView :: "OperatorAccount \<Rightarrow> string \<Rightarrow> OperatorAccountView" where
  "toView a requesterId =
     \<lparr>ov_operatorId = oa_id a, ov_email = nonempty (oa_email a), ov_displayName = nonempty (oa_displayName a),
      ov_emailVerified = oa_emailVerified a, ov_status = oa_status a, ov_role = oa_role a,
      ov_allowedProjects = oa_allowedProjects a, ov_requestedAt = oa_requestedAt a,
      ov_updatedAt = oa_updatedAt a, ov_decidedAt = oa_decidedAt a,
      ov_statusReason = nonempty (oa_statusReason a), ov_isSelf = (oa_id a = requesterId)\<rparr>"

definition access_event :: "string \<Rightarrow> string \<Rightarrow> string \<Rightarrow> fields \<Rightarrow> ('x account_state_scheme, unit) op" where
  "access_event action who operatorId data = audit ''access_event'' None None None
     (spread [(''action'', JStr action), (''actor'', JStr who), (''operatorId'', JStr operatorId)] data)"

definition status_json :: "OperatorAccountStatus \<Rightarrow> json" where
  "status_json v = JStr (account_status_str v)"

section \<open>The service\<close>

definition resolvePrincipal :: "VerifiedIdentity \<Rightarrow> 'x account_state_scheme \<Rightarrow> OperatorPrincipal option" where
  "resolvePrincipal v s =
     (let account = stored (vi_uid v) s in
      if sessionRevoked account (vi_issuedAt v) then None else principalFor account)"

definition isSessionRevoked :: "VerifiedIdentity \<Rightarrow> 'x account_state_scheme \<Rightarrow> bool" where
  "isSessionRevoked v s = sessionRevoked (stored (vi_uid v) s) (vi_issuedAt v)"

definition first_visit :: "VerifiedIdentity \<Rightarrow> ('x account_state_scheme, MyAccessView) op" where
  "first_visit v = bindS now (\<lambda>t.
     bindS (account_commit (CreatePending (pending_account v t))) (\<lambda>r.
     thenS (if r = Committed then access_event ''access_requested'' (vi_uid v) (vi_uid v)
              [(''toStatus'', status_json OaPending)] else returnS ())
     (bindS (getsS (stored (vi_uid v))) (\<lambda>found.
      returnS (access_view (or_else found (pending_account v t)))))))"

definition refresh_profile :: "VerifiedIdentity \<Rightarrow> OperatorAccount \<Rightarrow> ('x account_state_scheme, MyAccessView) op" where
  "refresh_profile v a = bindS now (\<lambda>t.
     catchS (thenS (account_commit (Update (refreshed_account v a t) (oa_revision a) 0))
              (returnS (access_view (refreshed_account v a t))))
       (\<lambda>e. returnS (access_view a)))"

definition myAccess :: "VerifiedIdentity \<Rightarrow> ('x account_state_scheme, MyAccessView) op" where
  "myAccess v = bindS (getsS (stored (vi_uid v))) (\<lambda>found. case found of
     None \<Rightarrow> first_visit v
   | Some a \<Rightarrow> if profileChanged a v then refresh_profile v a else returnS (access_view a))"

text \<open>The identity provider's revocation of refresh tokens is code outside the repository: absent,
  or a function telling whether it settles.\<close>

definition sessions_revoked ::
  "(string \<Rightarrow> bool) option \<Rightarrow> VerifiedIdentity \<Rightarrow> string option \<Rightarrow> OperatorAccount \<Rightarrow> ('x account_state_scheme, int \<times> bool) op" where
  "sessions_revoked idp v corr next =
     (let revoked = defined_and (\<lambda>revoke. revoke (vi_uid v)) idp;
          cutoff = or_else (sessionsValidAfter next) 0 in
      thenS (access_event ''sessions_revoked'' (vi_uid v) (vi_uid v)
        [(''sessionsValidAfter'', JNum cutoff), (''refreshTokensRevoked'', JBool revoked),
         (''correlationId'', jstr_opt corr)])
      (returnS (cutoff, revoked)))"

definition try_commit :: "OperatorAccountChange \<Rightarrow> ('x account_state_scheme, error option) op" where
  "try_commit c = catchS (thenS (account_commit c) (returnS None)) (\<lambda>e. returnS (Some e))"

fun revoke_attempts ::
  "nat \<Rightarrow> (string \<Rightarrow> bool) option \<Rightarrow> VerifiedIdentity \<Rightarrow> string option \<Rightarrow> ('x account_state_scheme, int \<times> bool) op" where
  "revoke_attempts 0 idp v corr = throwS (StateTransitionError ''could not revoke sessions; try again'')"
| "revoke_attempts (Suc n) idp v corr =
     bindS (getsS (stored (vi_uid v))) (\<lambda>found. case found of
       None \<Rightarrow> throwS (PermissionDeniedError ''only an active operator can revoke sessions'')
     | Some a \<Rightarrow>
         if oa_status a \<noteq> OaActive
         then throwS (PermissionDeniedError ''only an active operator can revoke sessions'')
         else bindS now (\<lambda>t. bindS now (\<lambda>t'.
           bindS (try_commit (Update (cutoff_account a t t') (oa_revision a) 0)) (\<lambda>r. case r of
             None \<Rightarrow> sessions_revoked idp v corr (cutoff_account a t t')
           | Some e \<Rightarrow> if n > 0 then revoke_attempts n idp v corr else throwS e))))"

definition revokeOwnSessions ::
  "(string \<Rightarrow> bool) option \<Rightarrow> VerifiedIdentity \<Rightarrow> string option \<Rightarrow> ('x account_state_scheme, int \<times> bool) op" where
  "revokeOwnSessions idp v corr = revoke_attempts 3 idp v corr"

fun status_order :: "OperatorAccountStatus \<Rightarrow> int" where
  "status_order OaPending = 0"
| "status_order OaActive = 1"
| "status_order OaSuspended = 2"
| "status_order OaRejected = 3"
| "status_order OaRevoked = 4"

definition by_status :: "(string \<Rightarrow> string \<Rightarrow> int) \<Rightarrow> OperatorAccount \<Rightarrow> OperatorAccount \<Rightarrow> int" where
  "by_status lc a b =
     (if status_order (oa_status a) \<noteq> status_order (oa_status b)
      then status_order (oa_status a) - status_order (oa_status b)
      else if oa_requestedAt a \<noteq> oa_requestedAt b then oa_requestedAt a - oa_requestedAt b
      else lc (oa_id a) (oa_id b))"

definition listAccounts ::
  "(string \<Rightarrow> string \<Rightarrow> int) \<Rightarrow> OperatorPrincipal \<Rightarrow> ('x account_state_scheme, OperatorAccountView list) op" where
  "listAccounts lc p = thenS (liftE (requireManage p))
     (getsS (\<lambda>s. map (\<lambda>a. toView a (op_id p)) (js_sort (by_status lc) (mem_list (accounts s)))))"

definition apply_data :: "AccessActor \<Rightarrow> OperatorAccount \<Rightarrow> OperatorAccount \<Rightarrow> fields" where
  "apply_data who current next =
     [(''fromStatus'', status_json (oa_status current)), (''toStatus'', status_json (oa_status next))] @
     (if oa_role current \<noteq> oa_role next
      then [(''fromRole'', jstr_opt (map_option role_str (oa_role current))),
            (''toRole'', jstr_opt (map_option role_str (oa_role next)))]
      else case oa_role next of None \<Rightarrow> [] | Some r \<Rightarrow> [(''role'', JStr (role_str r))]) @
     [(''allowedProjects'', scope_json (oa_allowedProjects next))] @
     (if truthy (actor_correlationId who) then [(''correlationId'', jstr_opt (actor_correlationId who))] else [])"

definition commit_access :: "AccessAction \<Rightarrow> AccessActor \<Rightarrow> string \<Rightarrow> OperatorAccount \<Rightarrow> OperatorAccount \<Rightarrow>
    ('x account_state_scheme, OperatorAccountView) op" where
  "commit_access action who operatorId current next =
     thenS (account_commit (Update next (oa_revision current) (active_admin_delta current next)))
     (thenS (access_event (eventFor action) (op_id (actor_principal who)) operatorId (apply_data who current next))
     (returnS (toView next (op_id (actor_principal who)))))"

definition access_apply ::
  "(string \<Rightarrow> bool) \<Rightarrow> AccessAction \<Rightarrow> AccessActor \<Rightarrow> AccessInput \<Rightarrow> ('x account_state_scheme, OperatorAccountView) op" where
  "access_apply has action who inp =
     thenS (liftE (requireManage (actor_principal who)))
     (thenS (liftE (requireId (ai_operatorId inp)))
     (bindS (getsS (stored (ai_operatorId inp))) (\<lambda>found.
      bindS (liftE (decide_access has action (actor_principal who) inp found)) (\<lambda>(current, reason, role, scope).
      bindS now (\<lambda>t. commit_access action who (ai_operatorId inp) current
        (decided_account action (actor_principal who) current reason role scope t))))))"

definition error_name :: "error \<Rightarrow> string" where
  "error_name e = (if e = BootstrapLockedError then ''BootstrapLockedError'' else ''Error'')"

definition bootstrapInitialAdmin :: "VerifiedIdentity \<Rightarrow> ('x account_state_scheme, OperatorAccountCommitResult) op" where
  "bootstrapInitialAdmin v =
     bindS (getsS (stored (vi_uid v))) (\<lambda>current.
     bindS now (\<lambda>t.
     catchS
       (bindS (account_commit (Bootstrap (bootstrap_account v current t))) (\<lambda>r.
        if r = AlreadyProvisioned
        then thenS (access_event ''bootstrap_already_provisioned'' ''bootstrap'' (vi_uid v) []) (returnS r)
        else thenS (access_event ''initial_admin_bootstrapped'' ''bootstrap'' (vi_uid v)
               [(''fromStatus'', jstr_opt (map_option (account_status_str \<circ> oa_status) current)),
                (''toStatus'', status_json OaActive), (''toRole'', JStr ''admin'')]) (returnS r)))
       (\<lambda>e. thenS (access_event ''bootstrap_refused'' ''bootstrap'' (vi_uid v) [(''reason'', JStr (error_name e))])
          (throwS e))))"

section \<open>Emergency lockdown\<close>

record LockdownState =
  ld_active :: bool
  ld_reason :: "string option"
  ld_activatedAt :: "timestamp option"
  ld_activatedBy :: "string option"
  ld_liftedAt :: "timestamp option"
  ld_liftedBy :: "string option"
  ld_revision :: int

record lockdown_state = account_state +
  lockdown_record :: "LockdownState option"

definition LOCKDOWN_REAUTH_WINDOW_S :: int where
  "LOCKDOWN_REAUTH_WINDOW_S = 5 * 60"

definition lockdown_status :: "'x lockdown_state_scheme \<Rightarrow> LockdownState" where
  "lockdown_status s = or_else (lockdown_record s)
     \<lparr>ld_active = False, ld_reason = None, ld_activatedAt = None, ld_activatedBy = None,
      ld_liftedAt = None, ld_liftedBy = None, ld_revision = 0\<rparr>"

definition lockdown_authorize :: "OperatorPrincipal \<Rightarrow> int option \<Rightarrow> ('x lockdown_state_scheme, unit) op" where
  "lockdown_authorize p authTime =
     (if op_role p \<noteq> Admin
      then throwS (PermissionDeniedError ''only an administrator can change the emergency lockdown'')
      else bindS now (\<lambda>t.
        if authTime = None \<or> t div 1000 - or_else authTime 0 > LOCKDOWN_REAUTH_WINDOW_S
        then throwS (PermissionDeniedError ''recent sign-in required: sign in again, then retry within 5 minutes'')
        else returnS ()))"

definition put_lockdown :: "LockdownState \<Rightarrow> ('x lockdown_state_scheme, unit) op" where
  "put_lockdown v = modifyS (\<lambda>s. s\<lparr>lockdown_record := Some v\<rparr>)"

definition lockdown_reason :: "json \<Rightarrow> string res" where
  "lockdown_reason v = (case v of
     JStr r \<Rightarrow> if js_trim r = [] \<or> length r > 500
               then Inl (ValidationError ''a reason (1-500 characters) is required'') else Inr (js_trim r)
   | _ \<Rightarrow> Inl (ValidationError ''a reason (1-500 characters) is required''))"

definition lockdown_activate ::
  "OperatorPrincipal \<Rightarrow> int option \<Rightarrow> json \<Rightarrow> string option \<Rightarrow> ('x lockdown_state_scheme, LockdownState) op" where
  "lockdown_activate p authTime reason corr =
     thenS (lockdown_authorize p authTime)
     (bindS (liftE (lockdown_reason reason)) (\<lambda>r.
      bindS (getsS lockdown_status) (\<lambda>current.
      if ld_active current then returnS current
      else bindS now (\<lambda>t.
        let next = \<lparr>ld_active = True, ld_reason = Some r, ld_activatedAt = Some t,
          ld_activatedBy = Some (op_id p), ld_liftedAt = None, ld_liftedBy = None,
          ld_revision = ld_revision current + 1\<rparr> in
        thenS (put_lockdown next)
        (thenS (audit ''access_event'' None None None
          [(''action'', JStr ''lockdown_activated''), (''actor'', JStr (op_id p)), (''reason'', JStr r),
           (''correlationId'', jstr_opt corr)])
        (returnS next))))))"

definition lockdown_lift ::
  "OperatorPrincipal \<Rightarrow> int option \<Rightarrow> string option \<Rightarrow> ('x lockdown_state_scheme, LockdownState) op" where
  "lockdown_lift p authTime corr =
     thenS (lockdown_authorize p authTime)
     (bindS (getsS lockdown_status) (\<lambda>current.
      if \<not> ld_active current then returnS current
      else bindS now (\<lambda>t.
        let next = current\<lparr>ld_active := False, ld_liftedAt := Some t, ld_liftedBy := Some (op_id p),
          ld_revision := ld_revision current + 1\<rparr> in
        thenS (put_lockdown next)
        (thenS (audit ''access_event'' None None None
          [(''action'', JStr ''lockdown_lifted''), (''actor'', JStr (op_id p)), (''correlationId'', jstr_opt corr)])
        (returnS next)))))"

end
