(* ===== verification/Account_Races.thy ===== *)
theory Account_Races
  imports Access
begin

text \<open>
  Several calls of the access service at once. A call reads an account, decides on a change and
  commits it later; \<open>request\<close> says which changes a call may come to in a state, and \<open>access_step\<close>
  interleaves reads and commits of any number of calls. The optimistic revision check makes the
  interleaving harmless, except for the bootstrap commit, which does not check the revision.
\<close>

section \<open>One account over time\<close>

definition account_edge :: "OperatorAccountStatus \<Rightarrow> OperatorAccountStatus \<Rightarrow> bool" where
  "account_edge a b \<longleftrightarrow> a = b \<or> (\<exists>action. a \<in> set (ACCESS_FROM action) \<and> b = ACCESS_TO action)"

definition cutoff_of :: "OperatorAccount \<Rightarrow> int" where
  "cutoff_of a = or_else (sessionsValidAfter a) 0"

text \<open>What a committed update does to an account.\<close>

definition account_moves :: "OperatorAccount \<Rightarrow> OperatorAccount \<Rightarrow> bool" where
  "account_moves a b \<longleftrightarrow> oa_id b = oa_id a \<and> oa_revision b = oa_revision a + 1 \<and>
     oa_requestedAt b = oa_requestedAt a \<and> oa_bootstrap b = oa_bootstrap a \<and>
     account_edge (oa_status a) (oa_status b) \<and> cutoff_of a \<le> cutoff_of b"

lemma edge_refl [simp]: "account_edge a a"
  by (simp add: account_edge_def)

lemma revoked_edge [simp]: "account_edge OaRevoked b \<longleftrightarrow> b = OaRevoked"
proof -
  have "OaRevoked \<notin> set (ACCESS_FROM action)" for action by (cases action) simp_all
  then show ?thesis by (auto simp: account_edge_def)
qed

lemma refreshed_moves: "account_moves a (refreshed_account v a t)"
  by (simp add: account_moves_def refreshed_account_def with_profile_def cutoff_of_def)

lemma refreshed_delta: "active_admin_delta a (refreshed_account v a t) = 0"
  by (simp add: active_admin_delta_def isActiveAdmin_def refreshed_account_def with_profile_def)

lemma cutoff_moves: "account_moves a (cutoff_account a t t')"
  by (auto simp: account_moves_def cutoff_account_def cutoff_of_def)

lemma cutoff_delta: "active_admin_delta a (cutoff_account a t t') = 0"
  by (simp add: active_admin_delta_def isActiveAdmin_def cutoff_account_def)

lemma decide_access_Inr:
  assumes "decide_access has action p inp found = Inr (current, reason, role, scope)"
  shows "found = Some current" "ai_operatorId inp \<noteq> op_id p" "oa_status current \<in> set (ACCESS_FROM action)"
    "optionalReason (ai_reason inp) = Inr reason" "granted has action p inp current = Inr (role, scope)"
    "\<not> (action = ChangeRole \<and> role = oa_role current \<and> scope = oa_allowedProjects current)"
  using assms by (auto simp: decide_access_def bindE_Inr_iff split: option.splits if_splits)

lemma decided_moves:
  assumes "oa_status current \<in> set (ACCESS_FROM action)"
  shows "account_moves current (decided_account action p current reason role scope t)"
  using assms by (auto simp: account_moves_def decided_account_def cutoff_of_def account_edge_def)

section \<open>Interleaved calls\<close>

type_synonym pending_call = "OperatorAccount option \<times> OperatorAccountChange"

inductive request :: "(string \<Rightarrow> bool) \<Rightarrow> 'x account_state_scheme \<Rightarrow> pending_call \<Rightarrow> bool" for has s where
  request_first: "stored (vi_uid v) s = None \<Longrightarrow>
     request has s (None, CreatePending (pending_account v t))"
| request_refresh: "stored (vi_uid v) s = Some a \<Longrightarrow> profileChanged a v \<Longrightarrow>
     request has s (Some a, Update (refreshed_account v a t) (oa_revision a) 0)"
| request_cutoff: "stored i s = Some a \<Longrightarrow> oa_status a = OaActive \<Longrightarrow>
     request has s (Some a, Update (cutoff_account a t t') (oa_revision a) 0)"
| request_decision: "requireManage p = Inr () \<Longrightarrow>
     decide_access has action p inp (stored (ai_operatorId inp) s) = Inr (a, reason, role, scope) \<Longrightarrow>
     next = decided_account action p a reason role scope t \<Longrightarrow>
     request has s (Some a, Update next (oa_revision a) (active_admin_delta a next))"
| request_bootstrap:
     "request has s (stored (vi_uid v) s, Bootstrap (bootstrap_account v (stored (vi_uid v) s) t))"

text \<open>\<open>serial\<close> asks that nothing happened to the account between the read and the commit of a bootstrap.\<close>

definition undisturbed :: "'x account_state_scheme \<Rightarrow> pending_call \<Rightarrow> bool" where
  "undisturbed s c \<longleftrightarrow> (case snd c of Bootstrap a \<Rightarrow> stored (oa_id a) s = fst c | _ \<Rightarrow> True)"

definition same_accounts :: "'x account_state_scheme \<Rightarrow> 'x account_state_scheme \<Rightarrow> bool" where
  "same_accounts s t \<longleftrightarrow> accounts t = accounts s \<and> activeAdmins t = activeAdmins s \<and>
     bootstrapOperatorId t = bootstrapOperatorId s"

inductive access_step :: "(string \<Rightarrow> bool) \<Rightarrow> bool \<Rightarrow> 'x account_state_scheme \<times> pending_call list \<Rightarrow>
    'x account_state_scheme \<times> pending_call list \<Rightarrow> bool" for has serial where
  step_read: "request has s c \<Longrightarrow> access_step has serial (s, cs) (s, c # cs)"
| step_commit: "(serial \<longrightarrow> undisturbed s c) \<Longrightarrow>
     access_step has serial (s, xs @ c # ys) (snd (account_commit (snd c) s), xs @ ys)"
| step_other: "same_accounts s t \<Longrightarrow> access_step has serial (s, cs) (t, cs)"

inductive_cases access_stepE: "access_step has serial (s, cs) x"

section \<open>Counting administrators\<close>

definition active_admins :: "'x account_state_scheme \<Rightarrow> string set" where
  "active_admins s = {i. isActiveAdmin (stored i s)}"

lemma finite_active_admins: "finite (active_admins s)"
proof (rule finite_subset)
  show "active_admins s \<subseteq> dom (map_of (accounts s))"
    by (auto simp: active_admins_def isActiveAdmin_def stored_def mem_findById_def defined_and_def
        split: option.splits)
qed (simp add: finite_dom_map_of)

lemma stored_put [simp]: "stored i (put_account a s) = (if i = oa_id a then Some a else stored i s)"
  by (simp add: stored_def put_account_def)

lemma active_admins_put: "active_admins (put_account a s) =
    (if isActiveAdmin (Some a) then insert (oa_id a) (active_admins s) else active_admins s - {oa_id a})"
  by (auto simp: active_admins_def split: if_splits)

lemma count_put:
  "int (card (active_admins (put_account a s))) = int (card (active_admins s)) +
     (if isActiveAdmin (Some a) then 1 else 0) - (if isActiveAdmin (stored (oa_id a) s) then 1 else 0)"
proof -
  have member: "oa_id a \<in> active_admins s \<longleftrightarrow> isActiveAdmin (stored (oa_id a) s)"
    by (simp add: active_admins_def)
  show ?thesis
    using finite_active_admins [of s] member card_Diff1_less [OF finite_active_admins [of s], of "oa_id a"]
    by (auto simp: active_admins_put insert_absorb card_Diff_singleton)
qed

section \<open>The invariant of the store and of the calls under way\<close>

definition accounts_ok :: "'x account_state_scheme \<Rightarrow> bool" where
  "accounts_ok s \<longleftrightarrow> repo_ok oa_id (accounts s) \<and>
     activeAdmins s = int (card (active_admins s)) \<and>
     (bootstrapOperatorId s \<noteq> None \<longrightarrow> activeAdmins s \<ge> 1)"

lemma accounts_okD: "accounts_ok s \<Longrightarrow> stored i s = Some a \<Longrightarrow> oa_id a = i"
  by (auto simp: accounts_ok_def stored_def dest: mem_find_key)

text \<open>A call under way: what it read is still in the store, or the store has moved to a later revision.\<close>

fun call_ok :: "'x account_state_scheme \<Rightarrow> pending_call \<Rightarrow> bool" where
  "call_ok s (snapshot, CreatePending a) \<longleftrightarrow> snapshot = None \<and> \<not> isActiveAdmin (Some a)"
| "call_ok s (snapshot, Update next r d) \<longleftrightarrow> (\<exists>cur a. snapshot = Some cur \<and> account_moves cur next \<and>
     r = oa_revision cur \<and> d = active_admin_delta cur next \<and>
     stored (oa_id cur) s = Some a \<and> r \<le> oa_revision a \<and> (oa_revision a = r \<longrightarrow> a = cur))"
| "call_ok s (snapshot, Bootstrap a) \<longleftrightarrow> isActiveAdmin (Some a) \<and>
     (\<forall>cur. snapshot = Some cur \<longrightarrow> oa_id cur = oa_id a \<longrightarrow> oa_revision a = oa_revision cur + 1 \<and>
        cutoff_of cur \<le> cutoff_of a)"

definition conf_ok :: "'x account_state_scheme \<times> pending_call list \<Rightarrow> bool" where
  "conf_ok c \<longleftrightarrow> accounts_ok (fst c) \<and> (\<forall>p \<in> set (snd c). call_ok (fst c) p)"

lemma not_admin_pending: "\<not> isActiveAdmin (Some (pending_account v t))"
  by (simp add: isActiveAdmin_def pending_account_def with_profile_def fresh_account_def)

lemma bootstrap_account_ok:
  "isActiveAdmin (Some (bootstrap_account v cur t))" "oa_id (bootstrap_account v cur t) = vi_uid v"
  "oa_revision (bootstrap_account v (Some a) t) = oa_revision a + 1"
  "cutoff_of (bootstrap_account v (Some a) t) = cutoff_of a"
  by (simp_all add: isActiveAdmin_def bootstrap_account_def with_profile_def cutoff_of_def)

lemma request_ok:
  assumes "accounts_ok s" "request has s c"
  shows "call_ok s c"
  using assms(2)
proof cases
  case (request_first v t)
  then show ?thesis by (simp add: not_admin_pending)
next
  case (request_refresh v a t)
  then have "oa_id a = vi_uid v" using accounts_okD [OF assms(1)] by blast
  then show ?thesis using request_refresh by (simp add: refreshed_moves refreshed_delta)
next
  case (request_cutoff i a t t')
  then have "oa_id a = i" using accounts_okD [OF assms(1)] by blast
  then show ?thesis using request_cutoff by (simp add: cutoff_moves cutoff_delta)
next
  case (request_decision p action inp a reason role scope "next" t)
  note d = decide_access_Inr [OF request_decision(3)]
  have "oa_id a = ai_operatorId inp" using d(1) accounts_okD [OF assms(1)] by blast
  then show ?thesis using request_decision(1,4) d(1) decided_moves [OF d(3)] by simp
next
  case (request_bootstrap v t)
  then show ?thesis by (auto simp: bootstrap_account_ok)
qed

text \<open>A commit changes the store, or it leaves it alone.\<close>

lemma commit_cases:
  obtains (unchanged) "snd (account_commit c s) = s"
  | (pending) a where "c = CreatePending a" "stored (oa_id a) s = None"
      "snd (account_commit c s) = put_account a s"
  | (updated) a r d cur where "c = Update a r d" "stored (oa_id a) s = Some cur" "oa_revision cur = r"
      "\<not> (d < 0 \<and> activeAdmins s + d < 1)"
      "snd (account_commit c s) = (put_account a s)\<lparr>activeAdmins := activeAdmins s + d\<rparr>"
  | (bootstrapped) a where "c = Bootstrap a" "bootstrapOperatorId s = None" "activeAdmins s \<le> 0"
      "snd (account_commit c s) = (put_account a s)\<lparr>bootstrapOperatorId := Some (oa_id a),
         activeAdmins := activeAdmins s + (if isActiveAdmin (stored (oa_id a) s) then 0 else 1)\<rparr>"
proof (cases "validateOperatorAccount (change_account c)")
  case (Inl e)
  then show ?thesis using unchanged by (simp add: account_commit_def op_simps)
next
  case (Inr u)
  then have run: "account_commit c s = commit_valid c s" by (simp add: account_commit_def op_simps)
  show ?thesis
  proof (cases c)
    case (CreatePending a)
    then show ?thesis using run unchanged pending by (cases "stored (oa_id a) s") auto
  next
    case (Update a r d)
    then show ?thesis
      using run unchanged updated [of a r d] by (cases "stored (oa_id a) s") (auto split: if_splits)
  next
    case (Bootstrap a)
    then show ?thesis
      using run unchanged bootstrapped by (cases "bootstrapOperatorId s") (auto simp: Let_def split: if_splits)
  qed
qed

lemma stored_more [simp]:
  "stored i (s\<lparr>activeAdmins := n\<rparr>) = stored i s"
  "stored i (s\<lparr>bootstrapOperatorId := b\<rparr>) = stored i s"
  by (simp_all add: stored_def)

lemma active_admins_more [simp]:
  "active_admins (s\<lparr>activeAdmins := n\<rparr>) = active_admins s"
  "active_admins (s\<lparr>bootstrapOperatorId := b\<rparr>) = active_admins s"
  by (simp_all add: active_admins_def)

lemma put_fields [simp]:
  "activeAdmins (put_account a s) = activeAdmins s"
  "bootstrapOperatorId (put_account a s) = bootstrapOperatorId s"
  by (simp_all add: put_account_def)

lemma repo_put: "repo_ok oa_id (accounts s) \<Longrightarrow> repo_ok oa_id (accounts (put_account a s))"
  by (simp add: put_account_def repo_ok_upsert)

lemma commit_accounts_ok:
  assumes ok: "accounts_ok s" and call: "call_ok s (snapshot, c)"
  shows "accounts_ok (snd (account_commit c s))"
proof (cases rule: commit_cases [of c s])
  case unchanged
  then show ?thesis using ok by simp
next
  case (pending a)
  then have "\<not> isActiveAdmin (stored (oa_id a) s)" by (simp add: isActiveAdmin_def)
  then show ?thesis using ok call pending count_put [of a s] by (auto simp: accounts_ok_def repo_put)
next
  case (updated a r d cur)
  from call have "call_ok s (snapshot, Update a r d)" by (simp only: updated(1))
  then obtain cur' a' where cur': "account_moves cur' a" "r = oa_revision cur'"
      "d = active_admin_delta cur' a" "stored (oa_id cur') s = Some a'" "oa_revision a' = r \<longrightarrow> a' = cur'"
    unfolding call_ok.simps by blast
  have "oa_id cur' = oa_id a" using cur'(1) by (simp add: account_moves_def)
  then have "cur = cur'" using cur'(4,5) updated(2,3) by simp
  then have "int (card (active_admins (put_account a s))) = int (card (active_admins s)) + d"
    using count_put [of a s] updated(2) cur'(3) by (auto simp: active_admin_delta_def)
  then show ?thesis using ok updated by (auto simp: accounts_ok_def repo_put)
next
  case (bootstrapped a)
  have "int (card (active_admins (put_account a s))) =
      int (card (active_admins s)) + (if isActiveAdmin (stored (oa_id a) s) then 0 else 1)"
    using count_put [of a s] call bootstrapped(1) by simp
  moreover have "activeAdmins s = 0 \<and> \<not> isActiveAdmin (stored (oa_id a) s)"
  proof -
    have "card (active_admins s) = 0" using ok bootstrapped(3) by (simp add: accounts_ok_def)
    then show ?thesis
      using ok finite_active_admins [of s] by (auto simp: accounts_ok_def active_admins_def)
  qed
  ultimately show ?thesis using ok bootstrapped by (simp add: accounts_ok_def repo_put)
qed

section \<open>Steps keep the invariant\<close>

text \<open>Accounts are never deleted, their revisions grow with every change and cut-offs never move back.\<close>

definition store_advances :: "'x account_state_scheme \<Rightarrow> 'x account_state_scheme \<Rightarrow> bool" where
  "store_advances s t \<longleftrightarrow> (\<forall>i a. stored i s = Some a \<longrightarrow> (\<exists>b. stored i t = Some b \<and>
     (b = a \<or> oa_revision a < oa_revision b) \<and> cutoff_of a \<le> cutoff_of b))"

lemma advances_refl: "store_advances s s"
  by (simp add: store_advances_def)

lemma advances_put:
  assumes "\<And>cur. stored (oa_id a) s = Some cur \<Longrightarrow> oa_revision cur < oa_revision a \<and> cutoff_of cur \<le> cutoff_of a"
    and "\<And>i. stored i t = stored i (put_account a s)"
  shows "store_advances s t"
  using assms by (auto simp: store_advances_def)

text \<open>An update that is accepted replaces exactly what its call had read.\<close>

lemma accepted_update:
  assumes "call_ok s (snapshot, Update a r d)" "stored (oa_id a) s = Some cur" "oa_revision cur = r"
  shows "account_moves cur a" "d = active_admin_delta cur a"
proof -
  obtain cur' a' where cur': "account_moves cur' a" "r = oa_revision cur'"
      "d = active_admin_delta cur' a" "stored (oa_id cur') s = Some a'" "oa_revision a' = r \<longrightarrow> a' = cur'"
    using assms(1) unfolding call_ok.simps by blast
  have "oa_id cur' = oa_id a" using cur'(1) by (simp add: account_moves_def)
  then have "cur = cur'" using cur'(4,5) assms(2,3) by simp
  with cur'(1,3) show "account_moves cur a" "d = active_admin_delta cur a" by simp_all
qed

lemma commit_advances:
  assumes ok: "accounts_ok s" and call: "call_ok s (snapshot, c)" and undist: "undisturbed s (snapshot, c)"
  shows "store_advances s (snd (account_commit c s))"
proof (cases rule: commit_cases [of c s])
  case unchanged
  then show ?thesis by (simp add: advances_refl)
next
  case (pending a)
  then show ?thesis by (intro advances_put [of a]) simp_all
next
  case (updated a r d cur)
  from call have "call_ok s (snapshot, Update a r d)" by (simp only: updated(1))
  from accepted_update(1) [OF this updated(2,3)] updated show ?thesis
    by (intro advances_put [of a]) (simp_all add: account_moves_def)
next
  case (bootstrapped a)
  have snapshot: "stored (oa_id a) s = snapshot" using undist bootstrapped(1) by (simp add: undisturbed_def)
  show ?thesis
  proof (rule advances_put [of a])
    fix cur assume cur: "stored (oa_id a) s = Some cur"
    then have "oa_id cur = oa_id a" "snapshot = Some cur" using accounts_okD [OF ok] snapshot by auto
    then show "oa_revision cur < oa_revision a \<and> cutoff_of cur \<le> cutoff_of a"
      using call bootstrapped(1) by auto
  qed (unfold bootstrapped(4), simp)
qed

lemma call_ok_advances:
  assumes "store_advances s t" "call_ok s p"
  shows "call_ok t p"
proof (cases p)
  case (Pair snapshot c)
  show ?thesis
  proof (cases c)
    case (Update a r d)
    obtain cur a' where cur: "snapshot = Some cur" "account_moves cur a" "r = oa_revision cur"
        "d = active_admin_delta cur a" "stored (oa_id cur) s = Some a'" "r \<le> oa_revision a'"
        "oa_revision a' = r \<longrightarrow> a' = cur"
      using assms(2) unfolding Pair Update call_ok.simps by blast
    obtain b where "stored (oa_id cur) t = Some b" "b = a' \<or> oa_revision a' < oa_revision b"
      using assms(1) cur(5) unfolding store_advances_def by blast
    then show ?thesis unfolding Pair Update call_ok.simps using cur by force
  qed (use assms(2) Pair in simp_all)
qed

lemma same_accounts_stored: "same_accounts s t \<Longrightarrow> stored i t = stored i s"
  by (simp add: same_accounts_def stored_def)

lemma same_accounts_ok: "same_accounts s t \<Longrightarrow> accounts_ok t \<longleftrightarrow> accounts_ok s"
  by (simp add: accounts_ok_def same_accounts_def active_admins_def stored_def)

lemma same_accounts_advances: "same_accounts s t \<Longrightarrow> store_advances s t"
  by (simp add: store_advances_def same_accounts_stored)

lemma step_conf_ok:
  assumes "access_step has True c c'" "conf_ok c"
  shows "conf_ok c' \<and> store_advances (fst c) (fst c')"
  using assms
proof cases
  case (step_read s p cs)
  then show ?thesis using assms(2) request_ok [of s has p] by (simp add: conf_ok_def advances_refl)
next
  case (step_commit s p xs ys)
  obtain snapshot d where p: "p = (snapshot, d)" by fastforce
  have ok: "accounts_ok s" and call: "call_ok s (snapshot, d)" and others: "\<forall>q \<in> set (xs @ ys). call_ok s q"
    using assms(2) step_commit(1) p by (auto simp: conf_ok_def)
  have adv: "store_advances s (snd (account_commit d s))"
    using step_commit(3) p by (intro commit_advances [OF ok call]) simp
  moreover have "accounts_ok (snd (account_commit d s))" by (rule commit_accounts_ok [OF ok call])
  ultimately show ?thesis
    using others call_ok_advances [OF adv] step_commit(1,2) p by (simp add: conf_ok_def)
next
  case (step_other s t cs)
  then show ?thesis
    using assms(2) same_accounts_advances [of s t] call_ok_advances [of s t]
    by (simp add: conf_ok_def same_accounts_ok)
qed

abbreviation access_run where
  "access_run has serial \<equiv> (access_step has serial)\<^sup>*\<^sup>*"

lemma advances_trans:
  assumes st: "store_advances s t" and tu: "store_advances t u"
  shows "store_advances s u"
  unfolding store_advances_def
proof (intro allI impI)
  fix i a assume "stored i s = Some a"
  then obtain b where b: "stored i t = Some b" "b = a \<or> oa_revision a < oa_revision b" "cutoff_of a \<le> cutoff_of b"
    using st unfolding store_advances_def by blast
  then obtain c where "stored i u = Some c" "c = b \<or> oa_revision b < oa_revision c" "cutoff_of b \<le> cutoff_of c"
    using tu unfolding store_advances_def by blast
  with b show "\<exists>c. stored i u = Some c \<and> (c = a \<or> oa_revision a < oa_revision c) \<and> cutoff_of a \<le> cutoff_of c"
    by auto
qed

lemma run_conf_ok:
  assumes "access_run has True c c'" "conf_ok c"
  shows "conf_ok c' \<and> store_advances (fst c) (fst c')"
  using assms
proof (induction rule: rtranclp_induct)
  case base
  then show ?case by (simp add: advances_refl)
next
  case (step d e)
  then show ?case using step_conf_ok [of has d e] advances_trans by blast
qed

section \<open>After the bootstrap\<close>

text \<open>Once the bootstrap is done an administrator remains, and a revoked account stays revoked.\<close>

definition sealed :: "'x account_state_scheme \<Rightarrow> 'x account_state_scheme \<Rightarrow> bool" where
  "sealed s t \<longleftrightarrow> bootstrapOperatorId t = bootstrapOperatorId s \<and>
     (\<forall>i a. stored i s = Some a \<longrightarrow> oa_status a = OaRevoked \<longrightarrow>
        (\<exists>b. stored i t = Some b \<and> oa_status b = OaRevoked))"

lemma sealed_trans: "sealed s t \<Longrightarrow> sealed t u \<Longrightarrow> sealed s u"
  unfolding sealed_def by (elim conjE) (intro conjI, simp, blast)

lemma commit_sealed:
  assumes call: "call_ok s (snapshot, c)" and locked: "bootstrapOperatorId s \<noteq> None"
  shows "sealed s (snd (account_commit c s))"
proof (cases rule: commit_cases [of c s])
  case unchanged
  then show ?thesis by (simp add: sealed_def)
next
  case (pending a)
  then show ?thesis by (auto simp: sealed_def)
next
  case (updated a r d cur)
  from call have "call_ok s (snapshot, Update a r d)" by (simp only: updated(1))
  from accepted_update(1) [OF this updated(2,3)] updated show ?thesis
    by (auto simp: sealed_def account_moves_def)
next
  case (bootstrapped a)
  then show ?thesis using locked by simp
qed

lemma step_sealed:
  assumes "access_step has True c c'" "conf_ok c" "bootstrapOperatorId (fst c) \<noteq> None"
  shows "sealed (fst c) (fst c')"
  using assms
proof cases
  case (step_commit s p xs ys)
  obtain snapshot d where p: "p = (snapshot, d)" by fastforce
  then show ?thesis
    using assms(2,3) step_commit(1,2) commit_sealed [of s snapshot d] by (simp add: conf_ok_def)
next
  case (step_other s t cs)
  then have "stored i t = stored i s" for i using same_accounts_stored [of s t i] by blast
  then show ?thesis using step_other by (simp add: sealed_def same_accounts_def)
qed (simp add: sealed_def)

lemma run_sealed:
  assumes "access_run has True c c'" "conf_ok c" "bootstrapOperatorId (fst c) \<noteq> None"
  shows "sealed (fst c) (fst c')"
  using assms
proof (induction rule: rtranclp_induct)
  case base
  then show ?case by (simp add: sealed_def)
next
  case (step d e)
  have "conf_ok d" using run_conf_ok [OF step(1) step(4)] by blast
  moreover have sd: "sealed (fst c) (fst d)" using step.IH step(4,5) by blast
  moreover have "bootstrapOperatorId (fst d) \<noteq> None" using sd step(5) unfolding sealed_def by simp
  ultimately have "sealed (fst d) (fst e)" using step_sealed [OF step(2)] by blast
  with sd show ?case by (rule sealed_trans)
qed

end
