(* ===== verification/Access_Laws.thy ===== *)
theory Access_Laws
  imports Account_Races
begin

text \<open>
  What the access service guarantees: its calls are runs of the interleaved system, a decision is
  taken by another, higher or equal administrator along the edges of the lifecycle, a session
  revocation takes effect, and the lockdown answers to administrators with a fresh sign-in.
\<close>

section \<open>Calls as runs\<close>

context evolution
begin

lemma bind_at:
  assumes "R s (snd (m s))" "\<And>x t. m s = (Inr x, t) \<Longrightarrow> R t (snd (f x t))"
  shows "R s (snd (bindS m f s))"
proof (cases rule: bindS_cases [of m s f])
  case (throws e t)
  with assms(1) show ?thesis by simp
next
  case (returns x t)
  then have "R s t" "R t (snd (f x t))" using assms by simp_all
  then have "R s (snd (f x t))" by (rule trans)
  with returns show ?thesis by simp
qed

lemma then_at:
  "R s (snd (m s)) \<Longrightarrow> (\<And>x t. m s = (Inr x, t) \<Longrightarrow> R t (snd (k t))) \<Longrightarrow> R s (snd (thenS m k s))"
  unfolding thenS_def by (rule bind_at)

lemma catch_at:
  assumes "R s (snd (m s))" "\<And>e t. m s = (Inl e, t) \<Longrightarrow> R t (snd (h e t))"
  shows "R s (snd (catchS m h s))"
proof -
  obtain r t where ms: "m s = (r, t)" by fastforce
  show ?thesis
  proof (cases r)
    case (Inl e)
    have "R s t" "R t (snd (h e t))" using assms ms Inl by simp_all
    then have "R s (snd (h e t))" by (rule trans)
    then show ?thesis using ms Inl by (simp add: catchS_def)
  next
    case (Inr x)
    then show ?thesis using ms assms(1) by (simp add: catchS_def)
  qed
qed

end

definition calls :: "(string \<Rightarrow> bool) \<Rightarrow> 'x account_state_scheme \<Rightarrow> 'x account_state_scheme \<Rightarrow> bool" where
  "calls has s t \<longleftrightarrow> access_run has True (s, []) (t, [])"

interpretation call_evo: evolution "calls has :: 'x account_state_scheme \<Rightarrow> 'x account_state_scheme \<Rightarrow> bool" for has
proof
  fix s t u :: "'x account_state_scheme"
  show "calls has s s" by (simp add: calls_def)
  show "calls has s t \<Longrightarrow> calls has t u \<Longrightarrow> calls has s u" by (simp add: calls_def)
qed

lemma calls_same: "same_accounts s t \<Longrightarrow> calls has s t"
  unfolding calls_def by (rule r_into_rtranclp) (rule step_other)

lemma calls_commit:
  assumes "request has s (snapshot, c)" "undisturbed s (snapshot, c)"
  shows "calls has s (snd (account_commit c s))"
proof -
  have "access_step has True (s, []) (s, [(snapshot, c)])" using step_read [OF assms(1)] by blast
  moreover have "access_step has True (s, [(snapshot, c)]) (snd (account_commit c s), [])"
    using step_commit [of True s "(snapshot, c)" has "[]" "[]"] assms(2) by simp
  ultimately show ?thesis unfolding calls_def by (meson converse_rtranclp_into_rtranclp r_into_rtranclp)
qed

lemma same_audit: "same_accounts s (snd (access_event e a o' d s))"
proof -
  have "audit_state.more (snd (access_event e a o' d s)) = audit_state.more s"
    by (simp add: access_event_def)
  then show ?thesis
    by (cases s, cases "snd (access_event e a o' d s)") (simp add: same_accounts_def)
qed

lemma keeps_access_event [keeps_rules]: "keeps same_accounts (access_event e a o' d)"
  by (simp add: keeps_def same_audit)

lemma calls_event: "calls has s (snd (access_event e a o' d s))"
  by (rule calls_same) (rule same_audit)

lemma calls_now: "calls has s (snd (now s))"
  by (rule calls_same) (simp add: now_def same_accounts_def)

lemma now_stored: "now s = (Inr t, u) \<Longrightarrow> stored i u = stored i s"
  by (auto simp: now_def stored_def)

lemmas call_rules = call_evo.bind_at call_evo.then_at call_evo.catch_at calls_now calls_event

lemma call_first_visit:
  assumes "stored (vi_uid v) s = None"
  shows "calls has s (snd (first_visit v s))"
  unfolding first_visit_def
proof (rule call_evo.bind_at [OF calls_now])
  fix t u assume "now s = (Inr t, u)"
  then have "stored (vi_uid v) u = None" using assms now_stored by metis
  then have "calls has u (snd (account_commit (CreatePending (pending_account v t)) u))"
    by (intro calls_commit [of has u None] request_first) (simp_all add: undisturbed_def)
  then show "calls has u (snd (bindS (account_commit (CreatePending (pending_account v t))) (\<lambda>r.
      thenS (if r = Committed then access_event ''access_requested'' (vi_uid v) (vi_uid v)
              [(''toStatus'', status_json OaPending)] else returnS ())
      (bindS (getsS (stored (vi_uid v))) (\<lambda>found.
       returnS (access_view (or_else found (pending_account v t)))))) u))"
    by (intro call_evo.bind_at call_evo.then_at) (auto simp: calls_event call_evo.refl)
qed

lemma call_refresh_profile:
  assumes "stored (vi_uid v) s = Some a" "profileChanged a v"
  shows "calls has s (snd (refresh_profile v a s))"
  unfolding refresh_profile_def
proof (rule call_evo.bind_at [OF calls_now])
  fix t u assume "now s = (Inr t, u)"
  then have "stored (vi_uid v) u = Some a" using assms now_stored by metis
  then have "calls has u (snd (account_commit (Update (refreshed_account v a t) (oa_revision a) 0) u))"
    using assms(2) by (intro calls_commit [of has u "Some a"] request_refresh) (simp_all add: undisturbed_def)
  then show "calls has u (snd (catchS (thenS (account_commit (Update (refreshed_account v a t) (oa_revision a) 0))
       (returnS (access_view (refreshed_account v a t)))) (\<lambda>e. returnS (access_view a)) u))"
    by (intro call_evo.catch_at call_evo.then_at) (auto simp: call_evo.refl)
qed

lemma call_myAccess: "calls has s (snd (myAccess v s))"
  using call_first_visit [of v s has] call_refresh_profile [of v s _ has]
  by (cases "stored (vi_uid v) s") (auto simp: myAccess_def bindS_Inr [where x = "stored (vi_uid v) s"] call_evo.refl)

lemma call_try_commit:
  "calls has s (snd (account_commit c s)) \<Longrightarrow> calls has s (snd (try_commit c s))"
  unfolding try_commit_def by (intro call_evo.catch_at call_evo.then_at) (auto simp: call_evo.refl)

lemma call_revoke_attempts:
  fixes s :: "'x account_state_scheme"
  shows "calls has s (snd (revoke_attempts n idp v corr s))"
proof (induction n arbitrary: s)
  case 0
  show ?case by (simp add: call_evo.refl)
next
  case (Suc n)
  let ?denied = "PermissionDeniedError ''only an active operator can revoke sessions''"
  show ?case
  proof (cases "\<exists>a. stored (vi_uid v) s = Some a \<and> oa_status a = OaActive")
    case False
    then have "revoke_attempts (Suc n) idp v corr s = (Inl ?denied, s)"
      by (auto split: option.split)
    then show ?thesis by (simp add: call_evo.refl)
  next
    case True
    then obtain a where a: "stored (vi_uid v) s = Some a" "oa_status a = OaActive" by blast
    have "calls has s (snd (bindS now (\<lambda>t. bindS now (\<lambda>t'.
           bindS (try_commit (Update (cutoff_account a t t') (oa_revision a) 0)) (\<lambda>r. case r of
             None \<Rightarrow> sessions_revoked idp v corr (cutoff_account a t t')
           | Some e \<Rightarrow> if n > 0 then revoke_attempts n idp v corr else throwS e))) s))"
    proof (rule call_evo.bind_at [OF calls_now], rule call_evo.bind_at [OF calls_now], rule call_evo.bind_at)
      fix t u t' w assume "now s = (Inr t, u)" "now u = (Inr t', w)"
      then have "stored (vi_uid v) w = Some a" using a now_stored by metis
      then show "calls has w (snd (try_commit (Update (cutoff_account a t t') (oa_revision a) 0) w))"
        using a(2)
        by (intro call_try_commit calls_commit [of has w "Some a"] request_cutoff) (simp_all add: undisturbed_def)
      fix r and x :: "'x account_state_scheme"
      show "calls has x (snd ((case r of None \<Rightarrow> sessions_revoked idp v corr (cutoff_account a t t')
           | Some e \<Rightarrow> if n > 0 then revoke_attempts n idp v corr else throwS e) x))"
        using Suc.IH
        by (auto simp: sessions_revoked_def Let_def call_evo.refl
            intro: call_evo.then_at calls_event split: option.split)
    qed
    then show ?thesis using a by simp
  qed
qed

lemma call_bootstrap: "calls has s (snd (bootstrapInitialAdmin v s))"
  unfolding bootstrapInitialAdmin_def
proof (rule call_evo.bind_at, simp add: call_evo.refl, rule call_evo.bind_at [OF calls_now])
  fix current s' t u assume read: "getsS (stored (vi_uid v)) s = (Inr current, s')" "now s' = (Inr t, u)"
  then have "stored (vi_uid v) u = current" using now_stored by fastforce
  then have "calls has u (snd (account_commit (Bootstrap (bootstrap_account v current t)) u))"
    using request_bootstrap [of has u v t]
    by (intro calls_commit [of has u current]) (simp_all add: undisturbed_def bootstrap_account_ok)
  then show "calls has u (snd (catchS
       (bindS (account_commit (Bootstrap (bootstrap_account v current t))) (\<lambda>r.
        if r = AlreadyProvisioned
        then thenS (access_event ''bootstrap_already_provisioned'' ''bootstrap'' (vi_uid v) []) (returnS r)
        else thenS (access_event ''initial_admin_bootstrapped'' ''bootstrap'' (vi_uid v)
               [(''fromStatus'', jstr_opt (map_option (account_status_str \<circ> oa_status) current)),
                (''toStatus'', status_json OaActive), (''toRole'', JStr ''admin'')]) (returnS r)))
       (\<lambda>e. thenS (access_event ''bootstrap_refused'' ''bootstrap'' (vi_uid v) [(''reason'', JStr (error_name e))])
          (throwS e)) u))"
    by (intro call_evo.catch_at call_evo.bind_at) (auto simp: call_evo.refl intro: call_evo.then_at calls_event)
qed

lemma call_commit_access:
  assumes "calls has s (snd (account_commit (Update next (oa_revision current) (active_admin_delta current next)) s))"
  shows "calls has s (snd (commit_access action who i current next s))"
  using assms unfolding commit_access_def
  by (intro call_evo.then_at) (auto simp: call_evo.refl calls_event)

text \<open>A decision either stops before it changes anything or commits what it decided.\<close>

lemma access_apply_cases:
  obtains (stopped) e where "access_apply has action who inp s = (Inl e, s)"
  | (decided) current reason role scope where
      "requireManage (actor_principal who) = Inr ()" "requireId (ai_operatorId inp) = Inr ()"
      "decide_access has action (actor_principal who) inp (stored (ai_operatorId inp) s) =
         Inr (current, reason, role, scope)"
      "access_apply has action who inp s = bindS now (\<lambda>t. commit_access action who (ai_operatorId inp) current
        (decided_account action (actor_principal who) current reason role scope t)) s"
proof (cases "requireManage (actor_principal who)")
  case (Inl e)
  then show ?thesis using stopped [of e] by (simp add: access_apply_def)
next
  case manage: (Inr u)
  show ?thesis
  proof (cases "requireId (ai_operatorId inp)")
    case (Inl e)
    then show ?thesis using manage stopped [of e] by (simp add: access_apply_def)
  next
    case idok: (Inr w)
    show ?thesis
    proof (cases "decide_access has action (actor_principal who) inp (stored (ai_operatorId inp) s)")
      case (Inl e)
      have "access_apply has action who inp s = (Inl e, s)"
        unfolding access_apply_def manage idok then_lift_Inr bind_gets
        by (rule bindS_Inl) (simp add: Inl)
      then show ?thesis by (rule stopped)
    next
      case (Inr d)
      obtain current reason role scope where d: "d = (current, reason, role, scope)" by (cases d) auto
      have "access_apply has action who inp s = bindS now (\<lambda>t. commit_access action who (ai_operatorId inp) current
        (decided_account action (actor_principal who) current reason role scope t)) s"
        unfolding access_apply_def manage idok then_lift_Inr bind_gets
        by (subst bindS_Inr [of _ s d s]) (simp_all add: Inr d)
      then show ?thesis using decided [of current reason role scope] manage idok Inr d by simp
    qed
  qed
qed

lemma call_access_apply: "calls has s (snd (access_apply has action who inp s))"
proof (cases rule: access_apply_cases [of has action who inp s])
  case (stopped e)
  then show ?thesis by (simp add: call_evo.refl)
next
  case (decided current reason role scope)
  show ?thesis
    unfolding decided(4)
  proof (rule call_evo.bind_at [OF calls_now], rule call_commit_access)
    fix t u assume "now s = (Inr t, u)"
    then have "decide_access has action (actor_principal who) inp (stored (ai_operatorId inp) u) =
        Inr (current, reason, role, scope)"
      using decided(3) now_stored by metis
    from request_decision [OF decided(1) this refl]
    show "calls has u (snd (account_commit (Update (decided_account action (actor_principal who) current reason role scope t)
        (oa_revision current) (active_admin_delta current
          (decided_account action (actor_principal who) current reason role scope t))) u))"
      by (rule calls_commit) (simp add: undisturbed_def)
  qed
qed

section \<open>Decisions\<close>

lemma manage_iff: "requireManage p = Inr () \<longleftrightarrow> op_role p = Admin"
  by (cases "op_role p") (simp_all add: requireManage_def operatorCan_def)

lemma update_returns:
  assumes "account_commit (Update a r d) s = (Inr x, u)"
  obtains cur where "stored (oa_id a) s = Some cur" "oa_revision cur = r"
    "u = (put_account a s)\<lparr>activeAdmins := activeAdmins s + d\<rparr>"
proof (cases "validateOperatorAccount a")
  case (Inl e)
  then show thesis using assms by (simp add: account_commit_def)
next
  case (Inr w)
  then have "commit_valid (Update a r d) s = (Inr x, u)" using assms by (simp add: account_commit_def)
  then show thesis using that by (auto split: option.splits if_splits)
qed

lemma commit_throws: "account_commit c s = (Inl e, u) \<Longrightarrow> u = s"
  by (cases "validateOperatorAccount (change_account c)"; cases c)
    (auto simp: account_commit_def Let_def split: option.splits if_splits)

lemma commit_access_returns:
  assumes "commit_access action who i current next s = (Inr v, u)"
  shows "\<exists>x t. account_commit (Update next (oa_revision current) (active_admin_delta current next)) s = (Inr x, t) \<and>
    same_accounts t u \<and> v = toView next (op_id (actor_principal who))"
proof -
  obtain x t where run: "account_commit (Update next (oa_revision current) (active_admin_delta current next)) s = (Inr x, t)"
    "thenS (access_event (eventFor action) (op_id (actor_principal who)) i (apply_data who current next))
       (returnS (toView next (op_id (actor_principal who)))) t = (Inr v, u)"
    using assms unfolding commit_access_def thenS_def [of "account_commit _"] bindS_Inr_iff by blast
  then show ?thesis
    using same_audit [of t "eventFor action" "op_id (actor_principal who)" i "apply_data who current next"]
    by (auto simp: access_event_def)
qed

lemma commit_access_throws:
  assumes "commit_access action who i current next s = (Inl e, u)"
  shows "u = s"
proof -
  let ?m = "account_commit (Update next (oa_revision current) (active_admin_delta current next))"
  obtain r t where run: "?m s = (r, t)" by fastforce
  show ?thesis
  proof (cases r)
    case (Inl e')
    then have "commit_access action who i current next s = (Inl e', t)"
      using run unfolding commit_access_def thenS_def [of ?m] by (simp add: bindS_Inl)
    then show ?thesis using assms commit_throws run Inl by fastforce
  next
    case (Inr x)
    then have "fst (commit_access action who i current next s) \<noteq> Inl e"
      using run unfolding commit_access_def thenS_def [of ?m] by (simp add: bindS_Inr access_event_def)
    then show ?thesis using assms by simp
  qed
qed

text \<open>The grant: a known role no higher than the actor's, and registered projects only.\<close>

definition scope_registered :: "(string \<Rightarrow> bool) \<Rightarrow> ProjectScope \<Rightarrow> bool" where
  "scope_registered has scope \<longleftrightarrow> (\<forall>ps. scope = Projects ps \<longrightarrow> ps \<noteq> [] \<and> (\<forall>q \<in> set ps. has q))"

lemma validScope_registered: "validScope has raw = Inr scope \<Longrightarrow> scope_registered has scope"
  by (auto simp: validScope_def scope_registered_def Let_def js_default_sort_def js_unique_def
      filter_empty_conv split: if_splits json.splits option.splits list.splits)

lemma grantableRole_rank: "grantableRole p raw = Inr r \<Longrightarrow> ROLE_RANK r \<le> ROLE_RANK (op_role p)"
  by (cases "role_of raw") (auto simp: grantableRole_def split: if_splits)

lemma granted_role:
  assumes "granted has action p inp current = Inr (role, scope)" "action = Approve \<or> action = ChangeRole"
  shows "\<exists>r. role = Some r \<and> ROLE_RANK r \<le> ROLE_RANK (op_role p)"
    "scope_registered has scope \<or> action = ChangeRole \<and> scope = oa_allowedProjects current"
  using assms
  by (auto simp: granted_def bindE_Inr_iff validScope_registered grantableRole_rank split: if_splits)

lemma granted_unchanged:
  "granted has action p inp current = Inr (role, scope) \<Longrightarrow> action \<noteq> Approve \<Longrightarrow> action \<noteq> ChangeRole \<Longrightarrow>
   role = oa_role current \<and> scope = oa_allowedProjects current"
  by (simp add: granted_def)

lemma access_apply_returns:
  assumes "access_apply has action who inp s = (Inr v, u)" "accounts_ok s"
  obtains current reason role scope t where
    "requireManage (actor_principal who) = Inr ()"
    "decide_access has action (actor_principal who) inp (stored (ai_operatorId inp) s) =
       Inr (current, reason, role, scope)"
    "stored (ai_operatorId inp) u = Some (decided_account action (actor_principal who) current reason role scope t)"
    "\<And>j. j \<noteq> ai_operatorId inp \<Longrightarrow> stored j u = stored j s"
    "activeAdmins u = activeAdmins s + active_admin_delta current
       (decided_account action (actor_principal who) current reason role scope t)"
proof (cases rule: access_apply_cases [of has action who inp s])
  case (stopped e)
  then show thesis using assms by simp
next
  case (decided current reason role scope)
  let ?next = "decided_account action (actor_principal who) current reason role scope"
  obtain t w where now: "now s = (Inr t, w)" and run: "commit_access action who (ai_operatorId inp) current (?next t) w = (Inr v, u)"
    using assms(1) unfolding decided(4) bindS_Inr_iff by blast
  obtain x y where commit: "account_commit (Update (?next t) (oa_revision current) (active_admin_delta current (?next t))) w = (Inr x, y)"
      "same_accounts y u"
    using commit_access_returns [OF run] by blast
  have key: "oa_id current = ai_operatorId inp"
    using decide_access_Inr(1) [OF decided(3)] accounts_okD [OF assms(2)] by blast
  then have id: "oa_id (?next t) = ai_operatorId inp" by (simp add: decided_account_def)
  obtain cur where y: "y = (put_account (?next t) w)\<lparr>activeAdmins := activeAdmins w + active_admin_delta current (?next t)\<rparr>"
    using update_returns [OF commit(1)] by blast
  have w: "stored j w = stored j s" "activeAdmins w = activeAdmins s" for j
    using now now_stored by (blast, auto simp: now_def)
  show thesis
  proof (rule that [OF decided(1,3), of t])
    show "stored (ai_operatorId inp) u = Some (?next t)"
      using same_accounts_stored [OF commit(2)] y id by simp
    show "stored j u = stored j s" if "j \<noteq> ai_operatorId inp" for j
      using same_accounts_stored [OF commit(2), of j] y id w that by simp
    show "activeAdmins u = activeAdmins s + active_admin_delta current (?next t)"
      using commit(2) y w by (simp add: same_accounts_def)
  qed
qed

lemma access_apply_throws:
  assumes "access_apply has action who inp s = (Inl e, u)"
  shows "same_accounts s u"
proof (cases rule: access_apply_cases [of has action who inp s])
  case (stopped e')
  then show ?thesis using assms by (simp add: same_accounts_def)
next
  case (decided current reason role scope)
  then have "commit_access action who (ai_operatorId inp) current
      (decided_account action (actor_principal who) current reason role scope (time_at s (ticks s)))
      (s\<lparr>ticks := Suc (ticks s)\<rparr>) = (Inl e, u)"
    using assms by simp
  from commit_access_throws [OF this] show ?thesis by (simp add: same_accounts_def)
qed

section \<open>Revoked sessions\<close>

lemma try_commit_None:
  "try_commit c s = (Inr None, u) \<Longrightarrow> \<exists>x. account_commit c s = (Inr x, u)"
  by (cases "account_commit c s"; cases "fst (account_commit c s)")
    (auto simp: try_commit_def catchS_def thenS_def bindS_def)

lemma try_commit_Some:
  "try_commit c s = (Inr (Some e), u) \<Longrightarrow> account_commit c s = (Inl e, u)"
  by (cases "account_commit c s"; cases "fst (account_commit c s)")
    (auto simp: try_commit_def catchS_def thenS_def bindS_def)

lemma sessions_revoked_run:
  "sessions_revoked idp v corr next s = (Inr (c, b), u) \<Longrightarrow> same_accounts s u \<and> c = or_else (sessionsValidAfter next) 0"
  using same_audit [of s "''sessions_revoked''" "vi_uid v" "vi_uid v"
      "[(''sessionsValidAfter'', JNum (or_else (sessionsValidAfter next) 0)),
        (''refreshTokensRevoked'', JBool (defined_and (\<lambda>revoke. revoke (vi_uid v)) idp)), (''correlationId'', jstr_opt corr)]"]
  by (auto simp: sessions_revoked_def Let_def access_event_def)

lemma revoke_attempts_cutoff:
  assumes "revoke_attempts n idp v corr s = (Inr (c, b), u)" "repo_ok oa_id (accounts s)"
  shows "\<exists>a. stored (vi_uid v) u = Some a \<and> cutoff_of a = c"
  using assms
proof (induction n arbitrary: s)
  case (Suc n)
  obtain a where a: "stored (vi_uid v) s = Some a" "oa_status a = OaActive"
    using Suc.prems(1) by (auto split: option.splits if_splits)
  then have key: "oa_id a = vi_uid v" using Suc.prems(2) by (auto simp: stored_def dest: mem_find_key)
  define t where "t = time_at s (ticks s)"
  define t' where "t' = time_at s (Suc (ticks s))"
  define w where "w = s\<lparr>ticks := Suc (Suc (ticks s))\<rparr>"
  define next' where "next' = cutoff_account a t t'"
  have run: "bindS (try_commit (Update next' (oa_revision a) 0)) (\<lambda>r. case r of
             None \<Rightarrow> sessions_revoked idp v corr next'
           | Some e \<Rightarrow> if n > 0 then revoke_attempts n idp v corr else throwS e) w = (Inr (c, b), u)"
    unfolding next'_def t_def t'_def w_def using Suc.prems(1) a by simp
  then obtain r x where r: "try_commit (Update next' (oa_revision a) 0) w = (Inr r, x)"
    "(case r of None \<Rightarrow> sessions_revoked idp v corr next'
           | Some e \<Rightarrow> if n > 0 then revoke_attempts n idp v corr else throwS e) x = (Inr (c, b), u)"
    unfolding bindS_Inr_iff by blast
  have w: "stored i w = stored i s" "accounts w = accounts s" for i by (simp_all add: w_def stored_def)
  show ?case
  proof (cases r)
    case None
    then obtain y where "account_commit (Update next' (oa_revision a) 0) w = (Inr y, x)"
      using r(1) try_commit_None by blast
    from update_returns [OF this]
    have "x = (put_account next' w)\<lparr>activeAdmins := activeAdmins w + 0\<rparr>" by blast
    moreover have "oa_id next' = vi_uid v" by (simp add: next'_def cutoff_account_def key)
    moreover have "same_accounts x u" "c = or_else (sessionsValidAfter next') 0"
      using r(2) None sessions_revoked_run by fastforce+
    ultimately show ?thesis using same_accounts_stored [of x u "vi_uid v"] by (simp add: cutoff_of_def)
  next
    case (Some e)
    then have "x = w" using r(1) try_commit_Some commit_throws by blast
    then show ?thesis using r(2) Some Suc.IH [of w] Suc.prems(2) w by (auto split: if_splits)
  qed
qed simp

text \<open>Every token issued before the cut-off, or without an issue time, is refused for good.\<close>

lemma cutoff_refuses:
  assumes "stored (vi_uid v) s = Some a" "cutoff_of a \<ge> c" "c > 0" "vi_uid w = vi_uid v"
    and "\<And>t. vi_issuedAt w = Some t \<Longrightarrow> t < c"
  shows "resolvePrincipal w s = None"
  using assms by (auto simp: resolvePrincipal_def sessionRevoked_def cutoff_of_def or_else_def
      split: option.splits)

lemma revocation_holds:
  assumes "revokeOwnSessions idp v corr s = (Inr (c, b), u)" "conf_ok (s, cs)" "c > 0"
    and "access_run has True (u, cs) (w, ds)" "vi_uid x = vi_uid v"
    and "\<And>t. vi_issuedAt x = Some t \<Longrightarrow> t < c"
  shows "resolvePrincipal x w = None"
proof -
  have "accounts_ok s" using assms(2) by (simp add: conf_ok_def)
  obtain a where a: "stored (vi_uid v) u = Some a" "cutoff_of a = c"
    using revoke_attempts_cutoff [OF assms(1) [unfolded revokeOwnSessions_def]] \<open>accounts_ok s\<close>
    by (auto simp: accounts_ok_def)
  have "access_run has True (s, []) (u, [])"
    using call_revoke_attempts [of has s 3 idp v corr] assms(1) by (simp add: calls_def revokeOwnSessions_def)
  then have adv: "store_advances s u" "accounts_ok u"
    using run_conf_ok [of has "(s, [])" "(u, [])"] \<open>accounts_ok s\<close> by (simp_all add: conf_ok_def)
  then have "conf_ok (u, cs)" using assms(2) call_ok_advances [OF adv(1)] by (simp add: conf_ok_def)
  then have "store_advances u w" using run_conf_ok [OF assms(4)] by simp
  then obtain b' where "stored (vi_uid v) w = Some b'" "cutoff_of b' \<ge> c"
    using a unfolding store_advances_def by fastforce
  then show ?thesis using assms(3,5,6) by (intro cutoff_refuses)
qed

section \<open>Lockdown\<close>

lemma lockdown_authorized:
  assumes "lockdown_authorize p authTime s = (Inr x, u)"
  shows "op_role p = Admin" "\<exists>a. authTime = Some a \<and> time_at s (ticks s) div 1000 - a \<le> 300"
    "lockdown_record u = lockdown_record s" "u = s\<lparr>ticks := Suc (ticks s)\<rparr>"
  using assms by (auto simp: lockdown_authorize_def LOCKDOWN_REAUTH_WINDOW_S_def split: if_splits)

lemma lockdown_refused:
  "lockdown_authorize p authTime s = (Inl e, u) \<Longrightarrow> lockdown_record u = lockdown_record s"
  by (auto simp: lockdown_authorize_def split: if_splits)

lemma same_more_lockdown: "audit_state.more t = audit_state.more s \<Longrightarrow> lockdown_record t = lockdown_record s"
  by (cases s, cases t) simp

lemma audit_lockdown [simp]: "lockdown_record (snd (audit ty t a p d s)) = lockdown_record s"
  by (rule same_more_lockdown) simp

lemma activate_effect:
  assumes "lockdown_activate p authTime reason corr s = (r, u)"
  shows "(\<exists>e. r = Inl e \<and> lockdown_record u = lockdown_record s) \<or>
    (\<exists>v. r = Inr v \<and> op_role p = Admin \<and> v = lockdown_status u \<and> ld_active v \<and>
      (\<exists>a. authTime = Some a \<and> time_at s (ticks s) div 1000 - a \<le> 300) \<and>
      (ld_active (lockdown_status s) \<longrightarrow> lockdown_record u = lockdown_record s) \<and>
      (\<not> ld_active (lockdown_status s) \<longrightarrow> ld_revision v = ld_revision (lockdown_status s) + 1 \<and>
         ld_activatedBy v = Some (op_id p)))"
proof -
  obtain q w where auth: "lockdown_authorize p authTime s = (q, w)" by fastforce
  show ?thesis
  proof (cases q)
    case (Inl e)
    then show ?thesis using assms auth lockdown_refused [of p authTime s e w]
      by (auto simp: lockdown_activate_def thenS_def bindS_Inl)
  next
    case (Inr x)
    note ok = lockdown_authorized [OF auth [unfolded Inr]]
    have "lockdown_status w = lockdown_status s" using ok(3) by (simp add: lockdown_status_def)
    then show ?thesis
      using assms auth Inr ok
      by (cases "lockdown_reason reason")
        (auto simp: lockdown_activate_def thenS_def [of "lockdown_authorize _ _"] bindS_Inr bindS_Inl
          then_modify put_lockdown_def lockdown_status_def Let_def split: if_splits)
  qed
qed

lemma lift_effect:
  assumes "lockdown_lift p authTime corr s = (r, u)"
  shows "(\<exists>e. r = Inl e \<and> lockdown_record u = lockdown_record s) \<or>
    (\<exists>v. r = Inr v \<and> op_role p = Admin \<and> v = lockdown_status u \<and> \<not> ld_active v \<and>
      (\<exists>a. authTime = Some a \<and> time_at s (ticks s) div 1000 - a \<le> 300) \<and>
      (\<not> ld_active (lockdown_status s) \<longrightarrow> lockdown_record u = lockdown_record s) \<and>
      (ld_active (lockdown_status s) \<longrightarrow> ld_revision v = ld_revision (lockdown_status s) + 1 \<and>
         ld_liftedBy v = Some (op_id p)))"
proof -
  obtain q w where auth: "lockdown_authorize p authTime s = (q, w)" by fastforce
  show ?thesis
  proof (cases q)
    case (Inl e)
    then show ?thesis using assms auth lockdown_refused [of p authTime s e w]
      by (auto simp: lockdown_lift_def thenS_def bindS_Inl)
  next
    case (Inr x)
    note ok = lockdown_authorized [OF auth [unfolded Inr]]
    have "lockdown_status w = lockdown_status s" using ok(3) by (simp add: lockdown_status_def)
    then show ?thesis
      using assms auth Inr ok
      by (auto simp: lockdown_lift_def thenS_def [of "lockdown_authorize _ _"] bindS_Inr
          then_modify put_lockdown_def lockdown_status_def Let_def split: if_splits)
  qed
qed

definition fresh_admin :: "OperatorPrincipal \<Rightarrow> int option \<Rightarrow> 'x lockdown_state_scheme \<Rightarrow> bool" where
  "fresh_admin p authTime s \<longleftrightarrow> op_role p = Admin \<and>
     (\<exists>a. authTime = Some a \<and> time_at s (ticks s) div 1000 - a \<le> 300)"

section \<open>Summaries\<close>

lemma counted_run:
  fixes s t :: "'x account_state_scheme"
  assumes "access_run has True (s, []) (t, cs)" "accounts_ok s"
  shows "activeAdmins t = int (card (active_admins t)) \<and>
    (bootstrapOperatorId s \<noteq> None \<longrightarrow> active_admins t \<noteq> {} \<and>
      (\<forall>i a. stored i s = Some a \<longrightarrow> oa_status a = OaRevoked \<longrightarrow>
        (\<exists>b. stored i t = Some b \<and> oa_status b = OaRevoked)))"
proof -
  have start: "conf_ok (s, [])" using assms(2) by (simp add: conf_ok_def)
  have ok: "accounts_ok t" using run_conf_ok [OF assms(1) start] by (simp add: conf_ok_def)
  show ?thesis
  proof (intro conjI impI)
    show "activeAdmins t = int (card (active_admins t))" using ok by (simp add: accounts_ok_def)
    assume "bootstrapOperatorId s \<noteq> None"
    then have sealed: "sealed s t" using run_sealed [OF assms(1) start] by simp
    then have "activeAdmins t \<ge> 1"
      using ok \<open>bootstrapOperatorId s \<noteq> None\<close> by (simp add: accounts_ok_def sealed_def)
    then show "active_admins t \<noteq> {}" using ok by (auto simp: accounts_ok_def)
    show "\<forall>i a. stored i s = Some a \<longrightarrow> oa_status a = OaRevoked \<longrightarrow>
        (\<exists>b. stored i t = Some b \<and> oa_status b = OaRevoked)"
      using sealed by (simp add: sealed_def)
  qed
qed

text \<open>What a decision may leave in an account.\<close>

definition granted_by :: "(string \<Rightarrow> bool) \<Rightarrow> AccessAction \<Rightarrow> OperatorPrincipal \<Rightarrow> OperatorAccount \<Rightarrow> OperatorAccount \<Rightarrow> bool" where
  "granted_by has action p a b \<longleftrightarrow>
     (if action = Approve \<or> action = ChangeRole
      then (\<exists>r. oa_role b = Some r \<and> ROLE_RANK r \<le> ROLE_RANK (op_role p)) \<and>
        (scope_registered has (oa_allowedProjects b) \<or>
         action = ChangeRole \<and> oa_allowedProjects b = oa_allowedProjects a)
      else oa_role b = oa_role a \<and> oa_allowedProjects b = oa_allowedProjects a)"

lemma decision_sound:
  assumes "accounts_ok s" "access_apply has action who inp s = (Inr v, u)"
  shows "op_role (actor_principal who) = Admin \<and> ai_operatorId inp \<noteq> op_id (actor_principal who) \<and>
      (\<exists>a b. stored (ai_operatorId inp) s = Some a \<and> stored (ai_operatorId inp) u = Some b \<and>
        oa_status a \<in> set (ACCESS_FROM action) \<and> oa_status b = ACCESS_TO action \<and>
        oa_revision b = oa_revision a + 1 \<and> granted_by has action (actor_principal who) a b) \<and>
      (\<forall>j. j \<noteq> ai_operatorId inp \<longrightarrow> stored j u = stored j s)"
proof -
  obtain current reason role scope t where run: "requireManage (actor_principal who) = Inr ()"
    "decide_access has action (actor_principal who) inp (stored (ai_operatorId inp) s) = Inr (current, reason, role, scope)"
    "stored (ai_operatorId inp) u = Some (decided_account action (actor_principal who) current reason role scope t)"
    "\<And>j. j \<noteq> ai_operatorId inp \<Longrightarrow> stored j u = stored j s"
    using access_apply_returns [OF assms(2,1)] by metis
  note d = decide_access_Inr [OF run(2)]
  have "granted_by has action (actor_principal who) current
      (decided_account action (actor_principal who) current reason role scope t)"
    using granted_role [OF d(5)] granted_unchanged [OF d(5)]
    by (auto simp: granted_by_def decided_account_def)
  then show ?thesis
    using run(1,3,4) d(1,2,3) by (simp add: manage_iff) (simp add: decided_account_def)
qed

end
