(* ===== verification/Demo_Access.thy ===== *)
theory Demo_Access
  imports Access_Laws
begin

text \<open>
  Concrete accounts for the witnesses, and the race of the bootstrap: a profile refresh that read
  the account between the read and the commit of the bootstrap overwrites the new administrator.
\<close>

definition no_accounts :: account_state where
  "no_accounts = \<lparr>seq = 0, process_tag = ''t'', ticks = 0, time_at = (\<lambda>n. 5000 + int n), events = [],
     sink_events = [], audit_repo = None, accounts = [], activeAdmins = 0, bootstrapOperatorId = None\<rparr>"

definition owner :: "string \<Rightarrow> VerifiedIdentity" where
  "owner mail = \<lparr>vi_uid = ''u'', vi_email = Some mail, vi_displayName = None, vi_emailVerified = True,
     vi_issuedAt = Some 1\<rparr>"

definition raced_account :: OperatorAccount where
  "raced_account = refreshed_account (owner ''c'')
     (refreshed_account (owner ''b'') (pending_account (owner ''a'') 0) 0) 0"

definition raced :: account_state where
  "raced = no_accounts\<lparr>accounts := [(''u'', raced_account)], activeAdmins := 1, bootstrapOperatorId := Some ''u''\<rparr>"

lemmas race_defs = account_commit_def requireText_def throw_if_def stored_def put_account_def mem_findById_def
  mem_upsert_def validateOperatorAccount_def isActiveAdmin_def no_accounts_def owner_def raced_def raced_account_def
  pending_account_def refreshed_account_def bootstrap_account_def with_profile_def fresh_account_def
  js_trim_def js_space_def profileChanged_def

abbreviation race_first :: OperatorAccount where
  "race_first \<equiv> pending_account (owner ''a'') 0"

abbreviation race_second :: OperatorAccount where
  "race_second \<equiv> refreshed_account (owner ''b'') race_first 0"

abbreviation race_admin :: OperatorAccount where
  "race_admin \<equiv> bootstrap_account (owner ''a'') (Some race_first) 0"

abbreviation race_one :: account_state where
  "race_one \<equiv> no_accounts\<lparr>accounts := [(''u'', race_first)]\<rparr>"

abbreviation race_two :: account_state where
  "race_two \<equiv> no_accounts\<lparr>accounts := [(''u'', race_second)]\<rparr>"

abbreviation race_three :: account_state where
  "race_three \<equiv> no_accounts\<lparr>accounts := [(''u'', race_admin)], activeAdmins := 1, bootstrapOperatorId := Some ''u''\<rparr>"

lemma race_commits:
  "snd (account_commit (CreatePending race_first) no_accounts) = race_one"
  "snd (account_commit (Update race_second 1 0) race_one) = race_two"
  "snd (account_commit (Bootstrap race_admin) race_two) = race_three"
  "snd (account_commit (Update raced_account 2 0) race_three) = raced"
  by (simp_all add: race_defs)

lemma race_requests:
  "request has no_accounts (None, CreatePending race_first)"
  "request has race_one (Some race_first, Update race_second 1 0)"
  "request has race_one (Some race_first, Bootstrap race_admin)"
  "request has race_two (Some race_second, Update raced_account 2 0)"
proof -
  show "request has no_accounts (None, CreatePending race_first)"
    by (rule request_first) (simp add: race_defs)
  have one: "stored ''u'' race_one = Some race_first" and two: "stored ''u'' race_two = Some race_second"
    and rev: "oa_revision race_first = 1" "oa_revision race_second = 2" and uid: "vi_uid (owner m) = ''u''" for m
    by (simp_all add: race_defs)
  have "profileChanged race_first (owner ''b'')" "profileChanged race_second (owner ''c'')"
    by (simp_all add: race_defs)
  then show "request has race_one (Some race_first, Update race_second 1 0)"
    "request has race_two (Some race_second, Update raced_account 2 0)"
    using request_refresh [of "owner ''b''" race_one race_first has 0]
      request_refresh [of "owner ''c''" race_two race_second has 0] one two rev uid
    by (simp_all add: raced_account_def)
  show "request has race_one (Some race_first, Bootstrap race_admin)"
    using request_bootstrap [of has race_one "owner ''a''" 0] one uid by simp
qed

lemma race_run: "access_run has False (no_accounts, []) (raced, [])"
proof -
  let ?boot = "(Some race_first, Bootstrap race_admin)"
  let ?late = "(Some race_second, Update raced_account 2 0)"
  let ?step = "access_step has False"
  have "?step (no_accounts, []) (no_accounts, [(None, CreatePending race_first)])"
    by (rule step_read) (rule race_requests)
  moreover have "?step (no_accounts, [(None, CreatePending race_first)]) (race_one, [])"
    using step_commit [of False no_accounts "(None, CreatePending race_first)" has "[]" "[]"] race_commits(1) by simp
  moreover have "?step (race_one, []) (race_one, [?boot])" by (rule step_read) (rule race_requests)
  moreover have "?step (race_one, [?boot]) (race_one, [(Some race_first, Update race_second 1 0), ?boot])"
    by (rule step_read) (rule race_requests)
  moreover have "?step (race_one, [(Some race_first, Update race_second 1 0), ?boot]) (race_two, [?boot])"
    using step_commit [of False race_one "(Some race_first, Update race_second 1 0)" has "[]" "[?boot]"] race_commits(2)
    by simp
  moreover have "?step (race_two, [?boot]) (race_two, [?late, ?boot])" by (rule step_read) (rule race_requests)
  moreover have "?step (race_two, [?late, ?boot]) (race_three, [?late])"
    using step_commit [of False race_two ?boot has "[?late]" "[]"] race_commits(3) by simp
  moreover have "?step (race_three, [?late]) (raced, [])"
    using step_commit [of False race_three ?late has "[]" "[]"] race_commits(4) by simp
  ultimately show ?thesis by (meson converse_rtranclp_into_rtranclp rtranclp.rtrancl_refl)
qed

lemma raced_no_admin: "active_admins raced = {}"
  by (auto simp: active_admins_def race_defs)

lemma raced_no_principal: "resolvePrincipal v raced = None"
  by (auto simp: resolvePrincipal_def principalFor_def race_defs Let_def)

lemma raced_locked: "\<exists>e. account_commit (Bootstrap (bootstrap_account v c t)) raced = (Inl e, raced)"
  by (cases "validateOperatorAccount (bootstrap_account v c t)")
    (simp_all add: account_commit_def raced_def stored_def mem_findById_def isActiveAdmin_def raced_account_def
      refreshed_account_def with_profile_def pending_account_def fresh_account_def)

definition root_actor :: AccessActor where
  "root_actor = \<lparr>actor_principal = \<lparr>op_id = ''root'', op_role = Admin, op_allowedProjects = AllProjects\<rparr>,
     actor_correlationId = None\<rparr>"

definition grant_viewer :: AccessInput where
  "grant_viewer = \<lparr>ai_operatorId = ''u'', ai_role = JStr ''viewer'', ai_allowedProjects = JArr [JStr ''web''],
     ai_reason = JUndefined\<rparr>"

lemma no_accounts_ok: "accounts_ok no_accounts"
  by (simp add: accounts_ok_def no_accounts_def active_admins_def stored_def mem_findById_def isActiveAdmin_def)

lemma race_one_ok: "accounts_ok race_one"
proof -
  have "active_admins race_one = {}" by (auto simp: active_admins_def race_defs)
  then show ?thesis by (simp add: accounts_ok_def repo_ok_def race_defs)
qed

lemma race_three_ok: "accounts_ok race_three"
proof -
  have "active_admins race_three = {''u''}" by (auto simp: active_admins_def race_defs split: if_splits)
  then show ?thesis by (simp add: accounts_ok_def repo_ok_def race_defs)
qed

lemma approval_runs: "\<exists>v u. access_apply (\<lambda>_. True) Approve root_actor grant_viewer race_one = (Inr v, u)"
proof -
  have "decide_access (\<lambda>_. True) Approve (actor_principal root_actor) grant_viewer (stored ''u'' race_one)
      = Inr (race_first, None, Some Viewer, Projects [''web''])"
    by (simp add: decide_access_def root_actor_def grant_viewer_def race_defs granted_def grantableRole_def
        role_of_def OPERATOR_ROLES_def validScope_def js_unique_def js_default_sort_def js_sort_def)
  moreover have "requireManage (actor_principal root_actor) = Inr ()" by (simp add: manage_iff root_actor_def)
  moreover have "requireId ''u'' = Inr ()" by code_simp
  moreover obtain w where
    "account_commit (Update (decided_account Approve (actor_principal root_actor) race_first None (Some Viewer)
      (Projects [''web'']) 5000) (oa_revision race_first) (active_admin_delta race_first
        (decided_account Approve (actor_principal root_actor) race_first None (Some Viewer) (Projects [''web'']) 5000)))
      (race_one\<lparr>ticks := Suc 0\<rparr>) = (Inr Committed, w)"
    by (simp add: race_defs decided_account_def active_admin_delta_def)
  moreover have "time_at race_one 0 = 5000" "ticks race_one = 0" by (simp_all add: no_accounts_def)
  ultimately have "access_apply (\<lambda>_. True) Approve root_actor grant_viewer race_one =
      thenS (access_event (eventFor Approve) ''root'' ''u'' (apply_data root_actor race_first
         (decided_account Approve (actor_principal root_actor) race_first None (Some Viewer) (Projects [''web'']) 5000)))
      (returnS (toView (decided_account Approve (actor_principal root_actor) race_first None (Some Viewer)
         (Projects [''web'']) 5000) ''root'')) w"
    by (simp add: access_apply_def commit_access_def grant_viewer_def root_actor_def bindS_Inr thenS_def)
  then show ?thesis by (simp add: access_event_def)
qed

lemma revocation_runs: "\<exists>u. revokeOwnSessions None (owner ''a'') None race_three = (Inr (5, False), u)"
proof -
  have "stored ''u'' race_three = Some race_admin" "oa_status race_admin = OaActive"
    "vi_uid (owner ''a'') = ''u''" "oa_revision race_admin = 2"
    by (simp_all add: race_defs)
  moreover obtain w where "try_commit (Update (cutoff_account race_admin 5000 5001) 2 0)
      (race_three\<lparr>ticks := Suc (Suc 0)\<rparr>) = (Inr None, w)"
    by (simp add: try_commit_def catchS_def thenS_def bindS_def race_defs cutoff_account_def)
  moreover have "time_at race_three 0 = 5000" "time_at race_three (Suc 0) = 5001" "ticks race_three = 0"
    by (simp_all add: no_accounts_def)
  moreover have "or_else (sessionsValidAfter (cutoff_account race_admin 5000 5001)) 0 = 5"
    by (simp add: race_defs cutoff_account_def)
  ultimately show ?thesis
    by (simp add: revokeOwnSessions_def numeral_3_eq_3 bindS_Inr sessions_revoked_def access_event_def Let_def)
qed

end
