(* ===== verification/Exec_Paths.thy ===== *)
theory Exec_Paths
  imports Json Contracts "HOL-Library.Sublist"
begin

text \<open>
  \<open>contracts/workspace-paths.ts\<close> and \<open>core/execution/path-confinement.ts\<close>: which path texts stay inside a
  workspace. \<open>resolveWorkspacePath\<close> is the canonical form under both Windows and POSIX rules,
  \<open>isWithinScope\<close> compares canonical paths, \<open>assertRealPathWithinRoot\<close> compares resolved ones, and
  \<open>resolveWithinWorkspace\<close> resolves against a root as \<open>node:path\<close> does on POSIX.
\<close>

section \<open>Splitting paths\<close>

definition backslashes_to_slashes :: "string \<Rightarrow> string" where
  "backslashes_to_slashes p = map (\<lambda>c. if c = CHR 0x5C then CHR ''/'' else c) p"

text \<open>\<open>split(/[\\/]+/)\<close>: splitting at every separator, then a run of separators counts once.\<close>

fun collapse :: "string list \<Rightarrow> string list" where
  "collapse (x # y # ys) = (if y = [] \<and> ys \<noteq> [] then collapse (x # ys) else x # collapse (y # ys))"
| "collapse xs = xs"

definition path_segments :: "string \<Rightarrow> string list" where
  "path_segments p = collapse (js_split (CHR ''/'') (backslashes_to_slashes p))"

definition ascii_letter_char :: "char \<Rightarrow> bool" where
  "ascii_letter_char c = (let n = code_unit c in (65 \<le> n \<and> n \<le> 90) \<or> (97 \<le> n \<and> n \<le> 122))"

fun drive_prefix :: "string \<Rightarrow> bool" where
  "drive_prefix (c # d # cs) = (ascii_letter_char c \<and> d = CHR '':'')"
| "drive_prefix _ = False"

section \<open>Workspace-relative paths\<close>

definition MAX_PATH_LENGTH :: nat where
  "MAX_PATH_LENGTH = 1024"

definition MAX_SEGMENTS :: nat where
  "MAX_SEGMENTS = 64"

definition violation :: "string \<Rightarrow> error" where
  "violation detail = ExecutionDeniedError ''WORKSPACE_VIOLATION'' detail"

definition control_char :: "char \<Rightarrow> bool" where
  "control_char c \<longleftrightarrow> code_unit c < 0x20 \<or> code_unit c = 0x7F"

text \<open>\<open>/%(2e|2f|5c)/i\<close>\<close>

fun encoded_separator :: "string \<Rightarrow> bool" where
  "encoded_separator (a # b # c # cs) =
     ((a = CHR ''%'' \<and> js_lower [b, c] \<in> {''2e'', ''2f'', ''5c''}) \<or> encoded_separator (b # c # cs))"
| "encoded_separator _ = False"

text \<open>The device names of \<open>WINDOWS_RESERVED\<close>: the part before the first dot decides.\<close>

definition device_digit :: "char \<Rightarrow> bool" where
  "device_digit d = (let n = code_unit d in (48 \<le> n \<and> n \<le> 57) \<or> n = 0xB9 \<or> n = 0xB2 \<or> n = 0xB3)"

definition device_name :: "string \<Rightarrow> bool" where
  "device_name b \<longleftrightarrow> b \<in> {''con'', ''prn'', ''aux'', ''nul''} \<or>
     (length b = 4 \<and> take 3 b \<in> {''com'', ''lpt''} \<and> device_digit (b ! 3))"

definition windows_reserved :: "string \<Rightarrow> bool" where
  "windows_reserved s = device_name (js_lower (takeWhile (\<lambda>c. c \<noteq> CHR ''.'') s))"

definition check_segment :: "string \<Rightarrow> unit res" where
  "check_segment s = checks
     [throw_if (s = ''..'') (violation ''parent-directory traversal is not allowed''),
      throw_if (s \<noteq> [] \<and> last s \<in> set ''. '') (violation ''segments must not end with a dot or space''),
      throw_if (windows_reserved s) (violation ''reserved device names are not allowed''),
      throw_if (list_ex (\<lambda>c. c \<in> set [CHR ''<'', CHR ''>'', CHR 0x22, CHR ''|'', CHR ''?'', CHR ''*'']) s)
        (violation ''path contains characters invalid on Windows'')]"

fun keep_segments :: "string list \<Rightarrow> string list res" where
  "keep_segments [] = Inr []"
| "keep_segments (s # ss) =
     (if s = [] \<or> s = ''.'' then keep_segments ss
      else bindE (check_segment s) (\<lambda>_. bindE (keep_segments ss) (\<lambda>out. Inr (s # out))))"

definition check_path :: "string \<Rightarrow> unit res" where
  "check_path p = checks
     [throw_if (length p = 0) (violation ''path must not be empty''),
      throw_if (length p > MAX_PATH_LENGTH) (violation ''path is too long''),
      throw_if (list_ex control_char p) (violation ''path contains control characters''),
      throw_if (js_startsWith p ''~'') (violation ''home expansion is not allowed''),
      throw_if (js_startsWith p ''/'') (violation ''absolute paths are not allowed''),
      throw_if (js_startsWith p [CHR 0x5C]) (violation ''rooted, UNC and device paths are not allowed''),
      throw_if (drive_prefix p) (violation ''drive-letter paths are not allowed''),
      throw_if (CHR '':'' \<in> set p) (violation ''alternate data streams and URLs are not allowed''),
      throw_if (encoded_separator p) (violation ''percent-encoded dots or separators are not allowed''),
      throw_if (length (path_segments p) > MAX_SEGMENTS) (violation ''path is too deep'')]"

definition resolveWorkspacePath :: "string \<Rightarrow> string res" where
  "resolveWorkspacePath p =
     bindE (check_path p) (\<lambda>_. bindE (keep_segments (path_segments p)) (\<lambda>out.
       Inr (if length out = 0 then ''.'' else js_join ''/'' out)))"

definition isWithinScope :: "string \<Rightarrow> string \<Rightarrow> bool res" where
  "isWithinScope path scope =
     bindE (resolveWorkspacePath path) (\<lambda>p. bindE (resolveWorkspacePath scope) (\<lambda>s.
       Inr (s = ''.'' \<or> js_lower p = js_lower s \<or> js_startsWith (js_lower p) (js_lower s @ ''/''))))"

section \<open>Resolved paths\<close>

datatype platform = Win32 | Posix

fun path_sep :: "platform \<Rightarrow> char" where
  "path_sep Win32 = CHR 0x5C"
| "path_sep Posix = CHR ''/''"

definition drive_root :: "string \<Rightarrow> bool" where
  "drive_root v \<longleftrightarrow> length v = 3 \<and> ascii_letter_char (v ! 0) \<and> v ! 1 = CHR '':'' \<and> v ! 2 = CHR 0x5C"

text \<open>The trimming loop of \<open>normalize\<close> drops one separator at a time; the length falls.\<close>

function trim_seps :: "char \<Rightarrow> string \<Rightarrow> string" where
  "trim_seps sep v =
     (if length v > 1 \<and> last v = sep \<and> \<not> drive_root v then trim_seps sep (butlast v) else v)"
  by pat_completeness auto
termination by (relation "measure (length \<circ> snd)") auto

declare trim_seps.simps [simp del]

definition real_normalize :: "platform \<Rightarrow> string \<Rightarrow> string" where
  "real_normalize pf v =
     (let w = trim_seps (path_sep pf) (if pf = Win32 then map (\<lambda>c. if c = CHR ''/'' then CHR 0x5C else c) v else v)
      in if pf = Win32 then js_lower w else w)"

definition real_within :: "platform \<Rightarrow> string \<Rightarrow> string \<Rightarrow> bool" where
  "real_within pf root path \<longleftrightarrow>
     path = root \<or> js_startsWith path (if root \<noteq> [] \<and> last root = path_sep pf then root else root @ [path_sep pf])"

definition assertRealPathWithinRoot :: "string \<Rightarrow> string \<Rightarrow> platform \<Rightarrow> unit res" where
  "assertRealPathWithinRoot realRoot realPath pf =
     throw_if (\<not> real_within pf (real_normalize pf realRoot) (real_normalize pf realPath))
       (violation ''resolved path escapes the workspace root'')"

section \<open>Confinement of tool arguments (POSIX)\<close>

definition relative_error :: "string \<Rightarrow> string \<Rightarrow> error" where
  "relative_error what p = ValidationError (what @ json_quote p)"

definition assertWorkspaceRelative :: "string \<Rightarrow> unit res" where
  "assertWorkspaceRelative p = checks
     [throw_if (length p = 0) (ValidationError ''path must be a non-empty workspace-relative string''),
      throw_if (CHR 0x00 \<in> set p) (ValidationError ''path must not contain null bytes''),
      throw_if (CHR ''%'' \<in> set p) (ValidationError ''path must not contain percent-encoded bytes''),
      throw_if (js_startsWith p ''/'' \<or>
          (drive_prefix p \<and> length p > 2 \<and> p ! 2 \<in> {CHR ''/'', CHR 0x5C}) \<or>
          js_startsWith p [CHR 0x5C, CHR 0x5C])
        (relative_error ''path must be workspace-relative: '' p),
      throw_if (''..'' \<in> set (js_split (CHR ''/'') (backslashes_to_slashes p)))
        (relative_error ''path must not traverse outside the workspace: '' p)]"

text \<open>\<open>path.resolve\<close>: the text is split at \<open>/\<close>, empty and \<open>.\<close> segments vanish, \<open>..\<close> removes its parent.\<close>

fun walk_segments :: "string list \<Rightarrow> string list \<Rightarrow> string list" where
  "walk_segments out [] = out"
| "walk_segments out (s # ss) =
     (if s = [] \<or> s = ''.'' then walk_segments out ss
      else if s = ''..'' then walk_segments (butlast out) ss
      else walk_segments (out @ [s]) ss)"

definition absolute_of :: "string list \<Rightarrow> string" where
  "absolute_of ss = CHR ''/'' # js_join ''/'' ss"

definition posix_resolve :: "string \<Rightarrow> string \<Rightarrow> string" where
  "posix_resolve base p =
     absolute_of (walk_segments [] (js_split (CHR ''/'') (if js_startsWith p ''/'' then p else base @ ''/'' @ p)))"

definition isPathInside :: "string \<Rightarrow> string \<Rightarrow> string \<Rightarrow> bool" where
  "isPathInside cwd root candidate =
     (let r = posix_resolve cwd root; c = posix_resolve cwd candidate in
      c = r \<or> js_startsWith c (if last r = CHR ''/'' then r else r @ ''/''))"

definition resolveWithinWorkspace :: "string \<Rightarrow> string \<Rightarrow> string \<Rightarrow> string res" where
  "resolveWithinWorkspace cwd root p = bindE (assertWorkspaceRelative p) (\<lambda>_.
     let absoluteRoot = posix_resolve cwd root; absolute = posix_resolve absoluteRoot p in
     if \<not> isPathInside cwd absoluteRoot absolute
     then Inl (relative_error ''resolved path escaped workspace root: '' p) else Inr absolute)"

end
