(* ===== verification/Env_Contracts.thy ===== *)
theory Env_Contracts
  imports Sorting Json
begin

text \<open>
  Versions, hosts, environment descriptors and instances of \<open>contracts/environments.ts\<close>, and the
  toolchain arithmetic of \<open>core/environments/capability-mapping.ts\<close>. Version numbers are integers;
  membership of declared enumerations is taken as given.
\<close>

section \<open>Versions\<close>

record VersionInfo =
  v_major :: int
  v_minor :: int
  v_patch :: int
  v_preRelease :: "string option"
  v_build :: "string option"

definition dec_digit :: "char \<Rightarrow> bool" where
  "dec_digit c = (let n = (of_char c :: nat) in 48 \<le> n \<and> n \<le> 57)"

definition tag_char :: "char \<Rightarrow> bool" where
  "tag_char c = (let n = (of_char c :: nat) in
     (48 \<le> n \<and> n \<le> 57) \<or> (65 \<le> n \<and> n \<le> 90) \<or> (97 \<le> n \<and> n \<le> 122) \<or> c = CHR ''.'' \<or> c = CHR ''-'')"

definition digits_ok :: "string \<Rightarrow> bool" where
  "digits_ok s \<longleftrightarrow> s \<noteq> [] \<and> list_all dec_digit s"

definition tag_ok :: "string \<Rightarrow> bool" where
  "tag_ok s \<longleftrightarrow> s \<noteq> [] \<and> list_all tag_char s"

definition decimal :: "string \<Rightarrow> int" where
  "decimal s = foldl (\<lambda>n c. 10 * n + (of_char c - 48)) 0 s"

text \<open>An optional part that starts at the first occurrence of a character.\<close>

definition cut_at :: "char \<Rightarrow> string \<Rightarrow> string \<times> string option" where
  "cut_at c s = (takeWhile (\<lambda>d. d \<noteq> c) s,
     if c \<in> set s then Some (tl (dropWhile (\<lambda>d. d \<noteq> c) s)) else None)"

fun version_numbers :: "string list \<Rightarrow> (int \<times> int \<times> int) option" where
  "version_numbers [a] = (if digits_ok a then Some (decimal a, 0, 0) else None)"
| "version_numbers [a, b] = (if digits_ok a \<and> digits_ok b then Some (decimal a, decimal b, 0) else None)"
| "version_numbers [a, b, c] =
     (if digits_ok a \<and> digits_ok b \<and> digits_ok c then Some (decimal a, decimal b, decimal c) else None)"
| "version_numbers _ = None"

definition tag_opt :: "string option \<Rightarrow> bool" where
  "tag_opt t = (case t of None \<Rightarrow> True | Some s \<Rightarrow> tag_ok s)"

definition parseVersion :: "string \<Rightarrow> VersionInfo option" where
  "parseVersion v = (case cut_at (CHR ''+'') (js_trim v) of (front, bld) \<Rightarrow>
     (case cut_at (CHR ''-'') front of (core, pre) \<Rightarrow>
        (case version_numbers (js_split (CHR ''.'') core) of
           None \<Rightarrow> None
         | Some (a, b, c) \<Rightarrow>
             if tag_opt pre \<and> tag_opt bld
             then Some \<lparr>v_major = a, v_minor = b, v_patch = c, v_preRelease = pre, v_build = bld\<rparr> else None)))"

definition tag_text :: "char \<Rightarrow> string option \<Rightarrow> string" where
  "tag_text c t = (case t of None \<Rightarrow> [] | Some s \<Rightarrow> if s = [] then [] else c # s)"

definition formatVersion :: "VersionInfo \<Rightarrow> string" where
  "formatVersion v = show_int (v_major v) @ ''.'' @ show_int (v_minor v) @ ''.'' @ show_int (v_patch v) @
     tag_text (CHR ''-'') (v_preRelease v) @ tag_text (CHR ''+'') (v_build v)"

definition versionAtLeast :: "VersionInfo option \<Rightarrow> VersionInfo \<Rightarrow> bool" where
  "versionAtLeast actual minimum = (case actual of None \<Rightarrow> False | Some v \<Rightarrow>
     v_major v > v_major minimum \<or> (v_major v = v_major minimum \<and>
       (v_minor v > v_minor minimum \<or> (v_minor v = v_minor minimum \<and> v_patch v \<ge> v_patch minimum))))"

fun compareVersions :: "VersionInfo option \<Rightarrow> VersionInfo option \<Rightarrow> int" where
  "compareVersions None None = 0"
| "compareVersions None (Some b) = -1"
| "compareVersions (Some a) None = 1"
| "compareVersions (Some a) (Some b) =
     (if v_major a - v_major b \<noteq> 0 then v_major a - v_major b
      else if v_minor a - v_minor b \<noteq> 0 then v_minor a - v_minor b
      else v_patch a - v_patch b)"

section \<open>Hosts, environments and their validation\<close>

datatype OsName = Windows | Macos | Linux
datatype Architecture = X64 | Arm64 | X86 | Arm | Universal | UnknownArch
datatype HostType = Local_workstation | Dedicated_runner | Cloud_runner_host | Container_host | Mac_build_host
datatype TrustLevel = Declared | Detected | Verified
datatype Availability = EnvAvailable | EnvUnavailable | EnvDegraded | EnvDisabled
datatype CapabilityId =
    Command_execution | Container_runtime | Web_build | Desktop_build | Mobile_build | Game_build | Gpu
datatype ToolchainKind =
    Tk_node | Tk_dotnet | Tk_swift_xcode | Tk_jdk_gradle | Tk_android_sdk | Tk_cpp_compiler
  | Tk_unity | Tk_unreal | Tk_python | Tk_rust | Tk_go | Tk_dart
datatype EnvironmentType =
    Et_visual_studio_code | Et_visual_studio | Et_xcode | Et_android_studio | Et_docker | Et_unity
  | Et_unreal_engine | Et_cli | Et_cloud_runner | Et_web_build | Et_desktop_build | Et_mobile_build
  | Et_game_build | Et_container_host

fun os_str :: "OsName \<Rightarrow> string" where
  "os_str Windows = ''windows''"
| "os_str Macos = ''macos''"
| "os_str Linux = ''linux''"

fun arch_str :: "Architecture \<Rightarrow> string" where
  "arch_str X64 = ''x64''"
| "arch_str Arm64 = ''arm64''"
| "arch_str X86 = ''x86''"
| "arch_str Arm = ''arm''"
| "arch_str Universal = ''universal''"
| "arch_str UnknownArch = ''unknown''"

fun toolchain_str :: "ToolchainKind \<Rightarrow> string" where
  "toolchain_str Tk_node = ''node''"
| "toolchain_str Tk_dotnet = ''dotnet''"
| "toolchain_str Tk_swift_xcode = ''swift_xcode''"
| "toolchain_str Tk_jdk_gradle = ''jdk_gradle''"
| "toolchain_str Tk_android_sdk = ''android_sdk''"
| "toolchain_str Tk_cpp_compiler = ''cpp_compiler''"
| "toolchain_str Tk_unity = ''unity''"
| "toolchain_str Tk_unreal = ''unreal''"
| "toolchain_str Tk_python = ''python''"
| "toolchain_str Tk_rust = ''rust''"
| "toolchain_str Tk_go = ''go''"
| "toolchain_str Tk_dart = ''dart''"

fun env_type_str :: "EnvironmentType \<Rightarrow> string" where
  "env_type_str Et_visual_studio_code = ''visual_studio_code''"
| "env_type_str Et_visual_studio = ''visual_studio''"
| "env_type_str Et_xcode = ''xcode''"
| "env_type_str Et_android_studio = ''android_studio''"
| "env_type_str Et_docker = ''docker''"
| "env_type_str Et_unity = ''unity''"
| "env_type_str Et_unreal_engine = ''unreal_engine''"
| "env_type_str Et_cli = ''cli''"
| "env_type_str Et_cloud_runner = ''cloud_runner''"
| "env_type_str Et_web_build = ''web_build''"
| "env_type_str Et_desktop_build = ''desktop_build''"
| "env_type_str Et_mobile_build = ''mobile_build''"
| "env_type_str Et_game_build = ''game_build''"
| "env_type_str Et_container_host = ''container_host''"

fun trust_rank :: "TrustLevel \<Rightarrow> int" where
  "trust_rank Declared = 0"
| "trust_rank Detected = 1"
| "trust_rank Verified = 2"

record OperatingSystem =
  os_name :: OsName
  os_version :: "string option"
  os_arch :: Architecture

record CapabilityDeclaration =
  cd_capability :: CapabilityId
  cd_available :: bool
  cd_evidence :: "string option"
  cd_detail :: "string option"

record ToolchainDescriptor =
  tc_kind :: ToolchainKind
  tc_name :: string
  tc_version :: "VersionInfo option"
  tc_components :: "(string \<times> VersionInfo) list option"
  tc_installation :: "string option"

record ToolchainComponentRequirement =
  tcr_name :: string
  tcr_minimum :: "VersionInfo option"

record ToolchainRequirement =
  tr_kind :: ToolchainKind
  tr_minimum :: "VersionInfo option"
  tr_components :: "ToolchainComponentRequirement list option"

record OsRequirement =
  osr_os :: "OsName option"
  osr_arch :: "Architecture option"

record HostInstance =
  host_id :: string
  host_hostId :: string
  host_name :: string
  host_type :: HostType
  host_os :: OperatingSystem
  host_trust :: TrustLevel
  host_availability :: Availability
  host_capabilities :: "CapabilityDeclaration list"
  host_fingerprint :: string
  host_checkedAt :: "timestamp option"

record EnvironmentDescriptor =
  ed_id :: string
  ed_name :: string
  ed_description :: string
  ed_type :: EnvironmentType
  ed_toolchains :: "ToolchainRequirement list"
  ed_required :: "CapabilityId list"
  ed_declared :: "CapabilityId list option"
  ed_minimumOs :: "OsRequirement option"

record EnvironmentInstance =
  ei_id :: string
  ei_descriptorId :: string
  ei_hostId :: string
  ei_type :: EnvironmentType
  ei_name :: string
  ei_version :: "VersionInfo option"
  ei_installation :: "string option"
  ei_availability :: Availability
  ei_capabilities :: "CapabilityDeclaration list"
  ei_toolchains :: "ToolchainDescriptor list"
  ei_trust :: TrustLevel
  ei_fingerprint :: string
  ei_checkedAt :: "timestamp option"
  ei_metadata :: "fields option"

record EnvironmentRequirement =
  er_descriptorId :: "string option"
  er_type :: "EnvironmentType option"
  er_capabilities :: "CapabilityId list option"
  er_toolchains :: "ToolchainRequirement list option"
  er_os :: "OsRequirement option"
  er_minimumTrust :: "TrustLevel option"

definition validateToolchainDescriptor :: "ToolchainDescriptor \<Rightarrow> string \<Rightarrow> unit res" where
  "validateToolchainDescriptor t field = checks
     [requireText (tc_name t) (field @ ''.name''),
      throw_if (case tc_version t of None \<Rightarrow> False | Some v \<Rightarrow> parseVersion (formatVersion v) = None)
        (ValidationError (field @ ''.version is not a valid version''))]"

definition validateToolchainRequirement :: "ToolchainRequirement \<Rightarrow> string \<Rightarrow> unit res" where
  "validateToolchainRequirement t field = (case tr_components t of None \<Rightarrow> Inr ()
     | Some cs \<Rightarrow> check_indexed (\<lambda>i c. requireText (tcr_name c) (field @ ''.components['' @ show_nat i @ ''].name'')) cs)"

definition validateHostInstance :: "HostInstance \<Rightarrow> unit res" where
  "validateHostInstance h = checks
     [requireText (host_id h) ''host.id'', requireText (host_name h) ''host.name'',
      requireText (host_hostId h) ''host.hostId'', requireText (host_fingerprint h) ''host.fingerprint'']"

definition validateEnvironmentDescriptor :: "EnvironmentDescriptor \<Rightarrow> unit res" where
  "validateEnvironmentDescriptor d = checks
     [requireText (ed_id d) ''descriptor.id'', requireText (ed_name d) ''descriptor.name'',
      requireText (ed_description d) ''descriptor.description'',
      check_indexed (\<lambda>i t. validateToolchainRequirement t (''descriptor.supportedToolchains['' @ show_nat i @ '']''))
        (ed_toolchains d)]"

definition validateEnvironmentInstance :: "EnvironmentInstance \<Rightarrow> unit res" where
  "validateEnvironmentInstance i = checks
     [requireText (ei_id i) ''instance.id'', requireText (ei_descriptorId i) ''instance.descriptorId'',
      requireText (ei_hostId i) ''instance.hostId'', requireText (ei_name i) ''instance.name'',
      requireText (ei_fingerprint i) ''instance.fingerprint'',
      check_indexed (\<lambda>n t. validateToolchainDescriptor t (''instance.toolchains['' @ show_nat n @ '']''))
        (ei_toolchains i)]"

definition validateEnvironmentRequirement :: "EnvironmentRequirement \<Rightarrow> unit res" where
  "validateEnvironmentRequirement r = checks
     [throw_if (er_descriptorId r = None \<and> er_type r = None \<and> er_capabilities r = None \<and> er_toolchains r = None)
        (ValidationError ''environment requirement must name a descriptor, type, capability, or toolchain''),
      (case er_toolchains r of None \<Rightarrow> Inr ()
       | Some ts \<Rightarrow> check_indexed (\<lambda>i t. validateToolchainRequirement t (''requirement.toolchains['' @ show_nat i @ '']'')) ts)]"

section \<open>Toolchain shortfalls\<close>

datatype EnvironmentRejectionReason =
    Instance_unavailable | Host_unavailable | Host_unknown | Descriptor_mismatch | Type_mismatch
  | Os_mismatch | Architecture_mismatch | Trust_too_low | Missing_capability_env | Missing_toolchain
  | Toolchain_version_too_low | Missing_toolchain_component | Toolchain_component_version_too_low

type_synonym shortfall = "string \<times> EnvironmentRejectionReason"

definition component_shortfall :: "ToolchainRequirement \<Rightarrow> ToolchainDescriptor \<Rightarrow>
    ToolchainComponentRequirement \<Rightarrow> shortfall list" where
  "component_shortfall r t c =
     (let label = toolchain_str (tr_kind r) @ '':'' @ tcr_name c in
      case (case tc_components t of None \<Rightarrow> None | Some cs \<Rightarrow> map_of cs (tcr_name c)) of
        None \<Rightarrow> [(label, Missing_toolchain_component)]
      | Some v \<Rightarrow> (case tcr_minimum c of None \<Rightarrow> []
          | Some m \<Rightarrow> if versionAtLeast (Some v) m then [] else [(label, Toolchain_component_version_too_low)]))"

definition shortfallFor :: "ToolchainRequirement \<Rightarrow> ToolchainDescriptor \<Rightarrow> shortfall list" where
  "shortfallFor r t =
     (case tr_minimum r of None \<Rightarrow> []
      | Some m \<Rightarrow> if versionAtLeast (tc_version t) m then [] else [(toolchain_str (tr_kind r), Toolchain_version_too_low)]) @
     (case tr_components r of None \<Rightarrow> [] | Some cs \<Rightarrow> concat (map (component_shortfall r t) cs))"

definition requirement_shortfalls :: "ToolchainDescriptor list \<Rightarrow> ToolchainRequirement \<Rightarrow> shortfall list" where
  "requirement_shortfalls ts r =
     (let sameKind = filter (\<lambda>t. tc_kind t = tr_kind r) ts;
          perCandidate = map (shortfallFor r) sameKind in
      if sameKind = [] then [(toolchain_str (tr_kind r), Missing_toolchain)]
      else if list_ex (\<lambda>l. l = []) perCandidate then []
      else hd (js_sort (\<lambda>a b. int (length a) - int (length b)) perCandidate))"

definition toolchainShortfalls :: "ToolchainRequirement list \<Rightarrow> ToolchainDescriptor list \<Rightarrow> shortfall list" where
  "toolchainShortfalls rs ts = concat (map (requirement_shortfalls ts) rs)"

definition satisfiesToolchainRequirements :: "ToolchainRequirement list \<Rightarrow> ToolchainDescriptor list \<Rightarrow> bool" where
  "satisfiesToolchainRequirements rs ts \<longleftrightarrow> toolchainShortfalls rs ts = []"

section \<open>Laws\<close>

text \<open>Versions compare in a total preorder.\<close>

interpretation versions: comparison compareVersions
proof
  fix a b c :: "VersionInfo option"
  show "compareVersions a b \<le> 0 \<or> compareVersions b a \<le> 0"
    by (cases a; cases b) auto
  assume "compareVersions a b \<le> 0" "compareVersions b c \<le> 0"
  then show "compareVersions a c \<le> 0"
    by (cases a; cases b; cases c) (auto split: if_splits)
qed

lemma versionAtLeast_compare: "versionAtLeast a m \<longleftrightarrow> a \<noteq> None \<and> compareVersions (Some m) a \<le> 0"
  by (cases a) (auto simp: versionAtLeast_def)

text \<open>A detected toolchain meets a requirement.\<close>

definition meets :: "ToolchainRequirement \<Rightarrow> ToolchainDescriptor \<Rightarrow> bool" where
  "meets r t \<longleftrightarrow> tc_kind t = tr_kind r \<and>
     (case tr_minimum r of None \<Rightarrow> True | Some m \<Rightarrow> versionAtLeast (tc_version t) m) \<and>
     (\<forall>c \<in> set (case tr_components r of None \<Rightarrow> [] | Some cs \<Rightarrow> cs).
        \<exists>v. (case tc_components t of None \<Rightarrow> None | Some cs \<Rightarrow> map_of cs (tcr_name c)) = Some v \<and>
          (case tcr_minimum c of None \<Rightarrow> True | Some m \<Rightarrow> versionAtLeast (Some v) m))"

lemma component_shortfall_Nil:
  "component_shortfall r t c = [] \<longleftrightarrow>
     (\<exists>v. (case tc_components t of None \<Rightarrow> None | Some cs \<Rightarrow> map_of cs (tcr_name c)) = Some v \<and>
       (case tcr_minimum c of None \<Rightarrow> True | Some m \<Rightarrow> versionAtLeast (Some v) m))"
  by (auto simp: component_shortfall_def Let_def split: option.splits)

lemma shortfallFor_Nil: "tc_kind t = tr_kind r \<Longrightarrow> shortfallFor r t = [] \<longleftrightarrow> meets r t"
  by (auto simp: shortfallFor_def meets_def component_shortfall_Nil split: option.splits)

lemma requirement_shortfalls_Nil: "requirement_shortfalls ts r = [] \<longleftrightarrow> (\<exists>t \<in> set ts. meets r t)"
proof -
  let ?same = "filter (\<lambda>t. tc_kind t = tr_kind r) ts"
  have some: "list_ex (\<lambda>l. l = []) (map (shortfallFor r) ?same) \<longleftrightarrow> (\<exists>t \<in> set ts. meets r t)"
  proof
    assume "list_ex (\<lambda>l. l = []) (map (shortfallFor r) ?same)"
    then obtain t where "t \<in> set ts" "tc_kind t = tr_kind r" "shortfallFor r t = []"
      by (auto simp: list_ex_iff)
    then show "\<exists>t \<in> set ts. meets r t" using shortfallFor_Nil by blast
  next
    assume "\<exists>t \<in> set ts. meets r t"
    then obtain t where t: "t \<in> set ts" "meets r t" by blast
    then have kind: "tc_kind t = tr_kind r" by (simp add: meets_def)
    with t shortfallFor_Nil have "shortfallFor r t = []" by blast
    with t(1) kind show "list_ex (\<lambda>l. l = []) (map (shortfallFor r) ?same)"
      by (auto simp: list_ex_iff intro!: image_eqI [of _ _ t])
  qed
  show ?thesis
  proof (cases "?same = []")
    case True
    then have "\<not> (\<exists>t \<in> set ts. meets r t)" by (auto simp: filter_empty_conv meets_def)
    with True show ?thesis by (simp add: requirement_shortfalls_def)
  next
    case False
    let ?xs = "js_sort (\<lambda>a b. int (length a) - int (length b)) (map (shortfallFor r) ?same)"
    have "set ?xs = set (map (shortfallFor r) ?same)" by simp
    with False have "?xs \<noteq> []" by (metis (no_types) empty_set map_is_Nil_conv set_empty)
    then have hd: "hd ?xs \<in> set (map (shortfallFor r) ?same)" using hd_in_set [of ?xs] by simp
    show ?thesis
    proof (cases "list_ex (\<lambda>l. l = []) (map (shortfallFor r) ?same)")
      case True
      then have "requirement_shortfalls ts r = []" using False by (simp add: requirement_shortfalls_def Let_def)
      with True some show ?thesis by simp
    next
      case none: False
      then have "requirement_shortfalls ts r = hd ?xs" using False by (simp add: requirement_shortfalls_def Let_def)
      moreover have "[] \<notin> set (map (shortfallFor r) ?same)" using none unfolding list_ex_iff by blast
      then have "hd ?xs \<noteq> []" using hd by metis
      ultimately show ?thesis using none some by metis
    qed
  qed
qed

lemma toolchains_met: "toolchainShortfalls rs ts = [] \<longleftrightarrow> (\<forall>r \<in> set rs. \<exists>t \<in> set ts. meets r t)"
  by (auto simp: toolchainShortfalls_def requirement_shortfalls_Nil)

text \<open>Parsing what \<open>formatVersion\<close> prints.\<close>

definition version_wf :: "VersionInfo \<Rightarrow> bool" where
  "version_wf v \<longleftrightarrow> 0 \<le> v_major v \<and> 0 \<le> v_minor v \<and> 0 \<le> v_patch v \<and> tag_opt (v_preRelease v) \<and> tag_opt (v_build v)"

lemma cut_at_none: "c \<notin> set s \<Longrightarrow> cut_at c s = (s, None)"
  by (auto simp: cut_at_def)

lemma cut_at_append: "c \<notin> set s \<Longrightarrow> cut_at c (s @ c # t) = (s, Some t)"
  by (induction s) (auto simp: cut_at_def)

lemma cut_tag: "c \<notin> set s \<Longrightarrow> tag_opt t \<Longrightarrow> cut_at c (s @ tag_text c t) = (s, t)"
  by (auto simp: tag_opt_def tag_ok_def tag_text_def cut_at_none cut_at_append split: option.splits)

lemma decimal_snoc: "decimal (s @ [c]) = 10 * decimal s + (of_char c - 48)"
  by (simp add: decimal_def)

lemma of_char_digit: "d < 10 \<Longrightarrow> of_char (digit d) = (48 + of_nat d :: 'a :: comm_semiring_1)"
proof -
  assume "d < 10"
  then have "d = 0 \<or> d = 1 \<or> d = 2 \<or> d = 3 \<or> d = 4 \<or> d = 5 \<or> d = 6 \<or> d = 7 \<or> d = 8 \<or> d = 9"
    by arith
  then show ?thesis by (elim disjE) (simp_all add: digit_def)
qed

lemma dec_digit_digit: "d < 10 \<Longrightarrow> dec_digit (digit d)"
  by (simp add: dec_digit_def of_char_digit Let_def)

lemma digits_show_nat: "list_all dec_digit (to_base 10 n) \<and> to_base 10 n \<noteq> [] \<and> decimal (to_base 10 n) = int n"
proof (induction n rule: less_induct)
  case (less n)
  show ?case
  proof (cases "n < 10")
    case True
    then show ?thesis
      by (simp add: to_base.simps [of 10 n] dec_digit_digit decimal_def of_char_digit)
  next
    case False
    with less [of "n div 10"]
    have IH: "list_all dec_digit (to_base 10 (n div 10))" "decimal (to_base 10 (n div 10)) = int (n div 10)" by auto
    have "to_base 10 n = to_base 10 (n div 10) @ [digit (n mod 10)]"
      using False by (simp add: to_base.simps [of 10 n])
    moreover have "10 * int (n div 10) + int (n mod 10) = int n"
      using mult_div_mod_eq [of 10 n] by (metis of_nat_add of_nat_mult of_nat_numeral)
    ultimately show ?thesis
      using IH by (simp add: dec_digit_digit decimal_snoc of_char_digit del: of_nat_mod)
  qed
qed

lemma show_int_digits: "0 \<le> i \<Longrightarrow> digits_ok (show_int i) \<and> decimal (show_int i) = i"
  using digits_show_nat [of "nat i"] by (simp add: show_int_def show_nat_def digits_ok_def)

lemma dec_digit_chars: "dec_digit c \<Longrightarrow> c \<noteq> CHR ''+'' \<and> c \<noteq> CHR ''-'' \<and> c \<noteq> CHR ''.'' \<and> \<not> js_space c"
  by (auto simp: dec_digit_def js_space_def Let_def)

lemma tag_char_chars: "tag_char c \<Longrightarrow> c \<noteq> CHR ''+'' \<and> \<not> js_space c"
  by (auto simp: tag_char_def js_space_def Let_def)

lemma tag_text_chars:
  "tag_opt t \<Longrightarrow> x \<in> set (tag_text c t) \<Longrightarrow> x = c \<or> x \<noteq> CHR ''+'' \<and> \<not> js_space x"
  using tag_char_chars
  by (cases t) (auto simp: tag_text_def tag_opt_def tag_ok_def list_all_iff split: if_splits)

lemma js_trim_id: "list_all (\<lambda>c. \<not> js_space c) s \<Longrightarrow> js_trim s = s"
proof -
  have drop: "list_all (\<lambda>c. \<not> js_space c) t \<Longrightarrow> dropWhile js_space t = t" for t
    by (cases t) auto
  assume "list_all (\<lambda>c. \<not> js_space c) s"
  then show ?thesis using drop [of s] drop [of "rev s"] by (simp add: js_trim_def list_all_rev)
qed

lemma version_roundtrip:
  assumes "version_wf (v :: VersionInfo)"
  shows "parseVersion (formatVersion v) = Some v"
proof -
  define core where "core = show_int (v_major v) @ ''.'' @ show_int (v_minor v) @ ''.'' @ show_int (v_patch v)"
  define front where "front = core @ tag_text (CHR ''-'') (v_preRelease v)"
  have nums: "digits_ok (show_int (v_major v))" "digits_ok (show_int (v_minor v))" "digits_ok (show_int (v_patch v))"
    and vals: "decimal (show_int (v_major v)) = v_major v" "decimal (show_int (v_minor v)) = v_minor v"
      "decimal (show_int (v_patch v)) = v_patch v"
    and tags: "tag_opt (v_preRelease v)" "tag_opt (v_build v)"
    using assms show_int_digits by (auto simp: version_wf_def)
  have digit: "dec_digit c" if "c \<in> set (show_int (v_major v)) \<union> set (show_int (v_minor v)) \<union> set (show_int (v_patch v))" for c
    using that nums by (auto simp: digits_ok_def list_all_iff)
  have core_chars: "c = CHR ''.'' \<or> dec_digit c" if "c \<in> set core" for c
    using that digit by (auto simp: core_def)
  have no_dot: "CHR ''.'' \<notin> set (show_int (v_major v))" "CHR ''.'' \<notin> set (show_int (v_minor v))"
      "CHR ''.'' \<notin> set (show_int (v_patch v))"
    using digit dec_digit_chars by blast+
  have core1: "CHR ''-'' \<notin> set core" "CHR ''+'' \<notin> set core" "list_all (\<lambda>c. \<not> js_space c) core"
  proof -
    have "c \<noteq> CHR ''-'' \<and> c \<noteq> CHR ''+'' \<and> \<not> js_space c" if "c \<in> set core" for c
      using core_chars [OF that]
    proof
      assume "c = CHR ''.''"
      then show ?thesis by (simp add: js_space_def)
    qed (use dec_digit_chars in blast)
    then show "CHR ''-'' \<notin> set core" "CHR ''+'' \<notin> set core" "list_all (\<lambda>c. \<not> js_space c) core"
      by (auto simp: list_all_iff)
  qed
  have sep: "\<not> js_space (CHR ''-'')" "\<not> js_space (CHR ''+'')" by (simp_all add: js_space_def)
  have front1: "CHR ''+'' \<notin> set front" "list_all (\<lambda>c. \<not> js_space c) front"
    using core1(2,3) tag_text_chars [OF tags(1), of _ "CHR ''-''"] sep
    by (auto simp: front_def list_all_iff)
  have "list_all (\<lambda>c. \<not> js_space c) (front @ tag_text (CHR ''+'') (v_build v))"
    using front1(2) tag_text_chars [OF tags(2), of _ "CHR ''+''"] sep by (auto simp: list_all_iff)
  moreover have "formatVersion v = front @ tag_text (CHR ''+'') (v_build v)"
    by (simp add: formatVersion_def front_def core_def)
  ultimately have "js_trim (formatVersion v) = front @ tag_text (CHR ''+'') (v_build v)" by (simp add: js_trim_id)
  moreover have "js_split (CHR ''.'') core = [show_int (v_major v), show_int (v_minor v), show_int (v_patch v)]"
    using no_dot by (simp add: core_def js_split_append js_split_atom)
  ultimately show ?thesis
    using tags nums vals cut_tag [OF front1(1) tags(2)] cut_tag [OF core1(1) tags(1)]
    by (simp add: parseVersion_def front_def)
qed

end
