(* ===== verification/Env_Registry.thy ===== *)
theory Env_Registry
  imports Env_Contracts Repository
begin

text \<open>
  \<open>core/environments/environment-registry.ts\<close> and \<open>core/environments/environment-router.ts\<close>: the
  registered descriptors, hosts and instances, and which instance a requirement is routed to.
  \<open>at\<close> is the time an operation is given or reads from the clock.
\<close>

section \<open>Registry\<close>

record env_registry =
  env_descriptors :: "(string \<times> EnvironmentDescriptor) list"
  env_hosts :: "HostInstance repo"
  env_instances :: "EnvironmentInstance repo"

definition registerDescriptor :: "EnvironmentDescriptor \<Rightarrow> (env_registry, EnvironmentDescriptor) op" where
  "registerDescriptor d =
     thenS (liftE (validateEnvironmentDescriptor d))
       (thenS (modifyS (env_descriptors_update (map_set (ed_id d) d))) (returnS d))"

definition getDescriptor :: "string \<Rightarrow> env_registry \<Rightarrow> EnvironmentDescriptor option" where
  "getDescriptor i r = map_of (env_descriptors r) i"

definition listEnvDescriptors :: "env_registry \<Rightarrow> EnvironmentDescriptor list" where
  "listEnvDescriptors r = map snd (env_descriptors r)"

definition descriptorForType :: "EnvironmentType \<Rightarrow> env_registry \<Rightarrow> EnvironmentDescriptor option" where
  "descriptorForType ty r = js_find (\<lambda>d. ed_type d = ty) (listEnvDescriptors r)"

definition requireEnvDescriptor :: "string \<Rightarrow> env_registry \<Rightarrow> EnvironmentDescriptor res" where
  "requireEnvDescriptor i r = (case getDescriptor i r of
     None \<Rightarrow> Inl (ValidationError (''unknown environment descriptor: '' @ i)) | Some d \<Rightarrow> Inr d)"

definition descriptorIdsOffering :: "CapabilityId \<Rightarrow> env_registry \<Rightarrow> string list" where
  "descriptorIdsOffering c r =
     map ed_id (filter (\<lambda>d. case ed_declared d of None \<Rightarrow> False | Some cs \<Rightarrow> c \<in> set cs) (listEnvDescriptors r))"

definition upsertHost :: "HostInstance \<Rightarrow> (env_registry, HostInstance) op" where
  "upsertHost h = thenS (liftE (validateHostInstance h))
     (thenS (modifyS (env_hosts_update (mem_upsert host_id h))) (returnS h))"

definition getHost :: "string \<Rightarrow> env_registry \<Rightarrow> HostInstance option" where
  "getHost i r = mem_findById i (env_hosts r)"

definition listHosts :: "env_registry \<Rightarrow> HostInstance list" where
  "listHosts r = mem_list (env_hosts r)"

definition listInstances :: "env_registry \<Rightarrow> EnvironmentInstance list" where
  "listInstances r = mem_list (env_instances r)"

definition instancesForHost :: "string \<Rightarrow> env_registry \<Rightarrow> EnvironmentInstance list" where
  "instancesForHost h r = filter (\<lambda>i. ei_hostId i = h) (listInstances r)"

definition removeHost :: "string \<Rightarrow> (env_registry, bool) op" where
  "removeHost h = bindS (getsS (getHost h)) (\<lambda>existing. case existing of
     None \<Rightarrow> returnS False
   | Some _ \<Rightarrow> thenS (modifyS (env_hosts_update (\<lambda>hs. snd (mem_delete h hs))))
       (bindS (getsS (instancesForHost h)) (\<lambda>is.
         thenS (modifyS (env_instances_update (fold (\<lambda>i rs. snd (mem_delete (ei_id i) rs)) is))) (returnS True))))"

definition markHostUnavailable :: "string \<Rightarrow> timestamp \<Rightarrow> (env_registry, HostInstance option) op" where
  "markHostUnavailable h at = bindS (getsS (getHost h)) (\<lambda>existing. case existing of
     None \<Rightarrow> returnS None
   | Some host \<Rightarrow> bindS (upsertHost (host \<lparr>host_availability := EnvUnavailable, host_checkedAt := Some at\<rparr>))
       (\<lambda>u. returnS (Some u)))"

definition getEnvInstance :: "string \<Rightarrow> env_registry \<Rightarrow> EnvironmentInstance option" where
  "getEnvInstance i r = mem_findById i (env_instances r)"

text \<open>Instances that are usable right now.\<close>

definition usableInstances :: "env_registry \<Rightarrow> EnvironmentInstance list" where
  "usableInstances r =
     (let hostIds = map host_hostId (filter (\<lambda>h. host_availability h = EnvAvailable) (listHosts r)) in
      filter (\<lambda>i. ei_availability i = EnvAvailable \<and> ei_hostId i \<in> set hostIds) (listInstances r))"

definition findByFingerprint :: "string \<Rightarrow> string \<Rightarrow> env_registry \<Rightarrow> EnvironmentInstance option" where
  "findByFingerprint h fp r = js_find (\<lambda>i. ei_hostId i = h \<and> ei_fingerprint i = fp) (listInstances r)"

definition env_quoted :: "string \<Rightarrow> string" where
  "env_quoted s = CHR 0x22 # s @ [CHR 0x22]"

definition assertOsCompatibility :: "EnvironmentDescriptor \<Rightarrow> HostInstance \<Rightarrow> unit res" where
  "assertOsCompatibility d h = (case ed_minimumOs d of None \<Rightarrow> Inr () | Some m \<Rightarrow> checks
     [(case osr_os m of None \<Rightarrow> Inr () | Some os \<Rightarrow> throw_if (os \<noteq> os_name (host_os h))
         (ValidationError (''environment descriptor '' @ env_quoted (ed_id d) @ '' requires OS '' @ os_str os @
           ''; host '' @ env_quoted (host_hostId h) @ '' is '' @ os_str (os_name (host_os h))))),
      (case osr_arch m of None \<Rightarrow> Inr () | Some a \<Rightarrow> throw_if (a \<noteq> os_arch (host_os h))
         (ValidationError (''environment descriptor '' @ env_quoted (ed_id d) @ '' requires architecture '' @ arch_str a @
           ''; host '' @ env_quoted (host_hostId h) @ '' is '' @ arch_str (os_arch (host_os h)))))])"

text \<open>The JSON text the credential check searches; absent fields are left out.\<close>

definition opt_json :: "('a \<Rightarrow> json) \<Rightarrow> 'a option \<Rightarrow> json" where
  "opt_json f x = (case x of None \<Rightarrow> JUndefined | Some v \<Rightarrow> f v)"

definition version_json :: "VersionInfo \<Rightarrow> json" where
  "version_json v = JObj [(''major'', JNum (v_major v)), (''minor'', JNum (v_minor v)), (''patch'', JNum (v_patch v)),
     (''preRelease'', opt_json JStr (v_preRelease v)), (''build'', opt_json JStr (v_build v))]"

definition toolchain_json :: "ToolchainDescriptor \<Rightarrow> json" where
  "toolchain_json t = JObj [(''kind'', JStr (toolchain_str (tc_kind t))), (''name'', JStr (tc_name t)),
     (''version'', opt_json version_json (tc_version t)),
     (''componentVersions'', opt_json (\<lambda>cs. JObj (map (\<lambda>(n, v). (n, version_json v)) cs)) (tc_components t)),
     (''installation'', opt_json JStr (tc_installation t))]"

definition credential_text :: "EnvironmentInstance \<Rightarrow> string" where
  "credential_text i = (case json_stringify (JObj [(''safeMetadata'', opt_json JObj (ei_metadata i)),
       (''toolchains'', JArr (map toolchain_json (ei_toolchains i)))]) of
     None \<Rightarrow> [] | Some s \<Rightarrow> js_lower s)"

fun js_includes :: "string \<Rightarrow> string \<Rightarrow> bool" where
  "js_includes s n = (js_startsWith s n \<or> (case s of [] \<Rightarrow> False | c # cs \<Rightarrow> js_includes cs n))"

definition CREDENTIAL_NEEDLES :: "string list" where
  "CREDENTIAL_NEEDLES = [''apikey'', ''api_key'', ''secret'', ''password'', ''token'']"

definition assertNoCredentials :: "EnvironmentInstance \<Rightarrow> unit res" where
  "assertNoCredentials i = check_all (\<lambda>n. throw_if (js_includes (credential_text i) n)
     (ValidationError ''environment instance metadata must not contain credential fields'')) CREDENTIAL_NEEDLES"

definition check_instance :: "EnvironmentInstance \<Rightarrow> env_registry \<Rightarrow> unit res" where
  "check_instance i r =
     bindE (validateEnvironmentInstance i) (\<lambda>_. bindE (requireEnvDescriptor (ei_descriptorId i) r) (\<lambda>d.
       case mem_findById (ei_hostId i) (env_hosts r) of
         None \<Rightarrow> Inl (ValidationError (''unknown host '' @ env_quoted (ei_hostId i) @ '' for environment instance '' @ env_quoted (ei_id i)))
       | Some h \<Rightarrow> checks
           [assertOsCompatibility d h, assertNoCredentials i,
            (case findByFingerprint (ei_hostId i) (ei_fingerprint i) r of None \<Rightarrow> Inr ()
             | Some clash \<Rightarrow> throw_if (ei_id clash \<noteq> ei_id i)
                 (ValidationError (''environment instance '' @ env_quoted (ei_id i) @ '' duplicates fingerprint '' @
                   env_quoted (ei_fingerprint i) @ '' already held by instance '' @ env_quoted (ei_id clash))))]))"

definition upsertInstance :: "EnvironmentInstance \<Rightarrow> (env_registry, EnvironmentInstance) op" where
  "upsertInstance i = bindS (getsS (check_instance i)) (\<lambda>c. thenS (liftE c)
     (thenS (modifyS (env_instances_update (mem_upsert ei_id i))) (returnS i)))"

definition markInstanceUnavailable :: "string \<Rightarrow> timestamp \<Rightarrow> (env_registry, EnvironmentInstance option) op" where
  "markInstanceUnavailable i at = bindS (getsS (getEnvInstance i)) (\<lambda>existing. case existing of
     None \<Rightarrow> returnS None
   | Some e \<Rightarrow> bindS (upsertInstance (e \<lparr>ei_availability := EnvUnavailable, ei_checkedAt := Some at\<rparr>))
       (\<lambda>u. returnS (Some u)))"

definition removeEnvInstance :: "string \<Rightarrow> (env_registry, bool) op" where
  "removeEnvInstance i = bindS (getsS (\<lambda>r. fst (mem_delete i (env_instances r)))) (\<lambda>b.
     thenS (modifyS (env_instances_update (\<lambda>rs. snd (mem_delete i rs)))) (returnS b))"

end
