(* ===== verification/Env_Router.thy ===== *)
theory Env_Router
  imports Env_Registry
begin

text \<open>\<open>core/environments/environment-router.ts\<close>: a requirement is evaluated against every registered
  instance, and the best eligible one is selected.\<close>

record EnvironmentCandidateEvidence =
  evc_instanceId :: string
  evc_hostId :: string
  evc_descriptorId :: string
  evc_type :: EnvironmentType
  evc_trust :: TrustLevel
  evc_eligible :: bool
  evc_reasonCodes :: "EnvironmentRejectionReason list"
  evc_matched :: "CapabilityId list"
  evc_missing :: "CapabilityId list"
  evc_missingToolchains :: "string list"

definition reason_if :: "bool \<Rightarrow> EnvironmentRejectionReason \<Rightarrow> EnvironmentRejectionReason list" where
  "reason_if b reason = (if b then [reason] else [])"

definition wants :: "'a option \<Rightarrow> 'a \<Rightarrow> bool" where
  "wants required actual = (case required of None \<Rightarrow> False | Some x \<Rightarrow> x \<noteq> actual)"

definition host_reasons :: "EnvironmentRequirement \<Rightarrow> HostInstance option \<Rightarrow> EnvironmentRejectionReason list" where
  "host_reasons req host = (case host of None \<Rightarrow> [] | Some h \<Rightarrow> (case er_os req of None \<Rightarrow> [] | Some o' \<Rightarrow>
     reason_if (wants (osr_os o') (os_name (host_os h))) Os_mismatch @
     reason_if (wants (osr_arch o') (os_arch (host_os h))) Architecture_mismatch))"

definition available_capabilities :: "EnvironmentInstance \<Rightarrow> CapabilityId list" where
  "available_capabilities i = map cd_capability (filter cd_available (ei_capabilities i))"

definition required_capabilities :: "EnvironmentRequirement \<Rightarrow> CapabilityId list" where
  "required_capabilities req = (case er_capabilities req of None \<Rightarrow> [] | Some cs \<Rightarrow> cs)"

definition required_toolchains :: "EnvironmentRequirement \<Rightarrow> ToolchainRequirement list" where
  "required_toolchains req = (case er_toolchains req of None \<Rightarrow> [] | Some ts \<Rightarrow> ts)"

text \<open>The loop over the shortfalls adds each reason that is not there yet.\<close>

fun add_reasons :: "EnvironmentRejectionReason list \<Rightarrow> shortfall list \<Rightarrow> EnvironmentRejectionReason list" where
  "add_reasons rs [] = rs"
| "add_reasons rs ((label, reason) # ss) = add_reasons (if reason \<in> set rs then rs else rs @ [reason]) ss"

definition instance_reasons :: "EnvironmentRequirement \<Rightarrow> EnvironmentInstance \<Rightarrow> HostInstance option \<Rightarrow>
    EnvironmentRejectionReason list" where
  "instance_reasons req i host =
     reason_if (ei_availability i \<noteq> EnvAvailable) Instance_unavailable @
     (case host of None \<Rightarrow> [Host_unknown] | Some h \<Rightarrow> reason_if (host_availability h \<noteq> EnvAvailable) Host_unavailable) @
     reason_if (wants (er_descriptorId req) (ei_descriptorId i)) Descriptor_mismatch @
     reason_if (wants (er_type req) (ei_type i)) Type_mismatch @
     host_reasons req host @
     reason_if (case er_minimumTrust req of None \<Rightarrow> False | Some t \<Rightarrow> trust_rank (ei_trust i) < trust_rank t) Trust_too_low @
     reason_if (filter (\<lambda>c. c \<notin> set (available_capabilities i)) (required_capabilities req) \<noteq> []) Missing_capability_env"

definition evaluateInstance :: "EnvironmentRequirement \<Rightarrow> EnvironmentInstance \<Rightarrow> HostInstance option \<Rightarrow>
    EnvironmentCandidateEvidence" where
  "evaluateInstance req i host =
     (let shortfalls = toolchainShortfalls (required_toolchains req) (ei_toolchains i);
          reasons = add_reasons (instance_reasons req i host) shortfalls in
      \<lparr>evc_instanceId = ei_id i, evc_hostId = ei_hostId i, evc_descriptorId = ei_descriptorId i, evc_type = ei_type i,
       evc_trust = ei_trust i, evc_eligible = (reasons = []), evc_reasonCodes = reasons,
       evc_matched = filter (\<lambda>c. c \<in> set (available_capabilities i)) (required_capabilities req),
       evc_missing = filter (\<lambda>c. c \<notin> set (available_capabilities i)) (required_capabilities req),
       evc_missingToolchains = map fst shortfalls\<rparr>)"

definition compareCandidates :: "(string \<Rightarrow> string \<Rightarrow> int) \<Rightarrow> EnvironmentInstance \<Rightarrow> EnvironmentInstance \<Rightarrow> int" where
  "compareCandidates lc a b =
     (let trust = trust_rank (ei_trust b) - trust_rank (ei_trust a); ver = compareVersions (ei_version b) (ei_version a) in
      if trust \<noteq> 0 then trust else if ver \<noteq> 0 then ver else lc (ei_id a) (ei_id b))"

fun first_offering :: "env_registry \<Rightarrow> CapabilityId list \<Rightarrow> string option" where
  "first_offering r [] = None"
| "first_offering r (c # cs) = (case descriptorIdsOffering c r of [] \<Rightarrow> first_offering r cs
     | d # ds \<Rightarrow> if d \<noteq> [] then Some d else first_offering r cs)"

definition provisionableDescriptorId :: "env_registry \<Rightarrow> EnvironmentRequirement \<Rightarrow> string option" where
  "provisionableDescriptorId r req = (case er_descriptorId req of Some d \<Rightarrow> Some d | None \<Rightarrow>
     (case (case er_type req of None \<Rightarrow> None | Some ty \<Rightarrow> map_option ed_id (descriptorForType ty r)) of
        Some d \<Rightarrow> Some d
      | None \<Rightarrow> first_offering r (required_capabilities req)))"

datatype routing_kind = Routed | Requires_provisioning | No_available_environment

record EnvironmentMatchEvidence =
  me_outcome :: routing_kind
  me_selectedInstanceId :: "string option"
  me_selectedHostId :: "string option"
  me_supportingDescriptorId :: "string option"
  me_candidates :: "EnvironmentCandidateEvidence list"

text \<open>\<open>new Map(hosts.map((h) => [h.hostId, h]))\<close>: the last host of an id stays.\<close>

definition host_of :: "env_registry \<Rightarrow> string \<Rightarrow> HostInstance option" where
  "host_of r h = map_of (rev (map (\<lambda>x. (host_hostId x, x)) (listHosts r))) h"

definition evaluated_instances :: "(string \<Rightarrow> string \<Rightarrow> int) \<Rightarrow> EnvironmentRequirement \<Rightarrow> env_registry \<Rightarrow>
    (EnvironmentInstance \<times> EnvironmentCandidateEvidence) list" where
  "evaluated_instances lc req r = js_sort (\<lambda>a b. lc (ei_id (fst a)) (ei_id (fst b)))
     (map (\<lambda>i. (i, evaluateInstance req i (host_of r (ei_hostId i)))) (listInstances r))"

definition eligible_instances :: "(string \<Rightarrow> string \<Rightarrow> int) \<Rightarrow> EnvironmentRequirement \<Rightarrow> env_registry \<Rightarrow>
    EnvironmentInstance list" where
  "eligible_instances lc req r =
     js_sort (compareCandidates lc) (map fst (filter (evc_eligible \<circ> snd) (evaluated_instances lc req r)))"

definition match_evidence :: "(string \<Rightarrow> string \<Rightarrow> int) \<Rightarrow> EnvironmentRequirement \<Rightarrow> env_registry \<Rightarrow> EnvironmentMatchEvidence" where
  "match_evidence lc req r =
     (let candidates = map snd (evaluated_instances lc req r); supporting = provisionableDescriptorId r req in
      case eligible_instances lc req r of
        sel # rest \<Rightarrow> \<lparr>me_outcome = Routed, me_selectedInstanceId = Some (ei_id sel), me_selectedHostId = Some (ei_hostId sel),
          me_supportingDescriptorId = Some (ei_descriptorId sel), me_candidates = candidates\<rparr>
      | [] \<Rightarrow> \<lparr>me_outcome = (if supporting \<noteq> None then Requires_provisioning else No_available_environment),
          me_selectedInstanceId = None, me_selectedHostId = None,
          me_supportingDescriptorId = supporting, me_candidates = candidates\<rparr>)"

definition evaluate_requirement :: "(string \<Rightarrow> string \<Rightarrow> int) \<Rightarrow> EnvironmentRequirement \<Rightarrow> env_registry \<Rightarrow>
    EnvironmentMatchEvidence res" where
  "evaluate_requirement lc req r = bindE (validateEnvironmentRequirement req) (\<lambda>_.
     bindE (case er_descriptorId req of None \<Rightarrow> Inr ()
        | Some d \<Rightarrow> throw_if (getDescriptor d r = None) (ForeignError (''unknown environment descriptor: '' @ d))) (\<lambda>_.
       Inr (match_evidence lc req r)))"

datatype EnvironmentRoutingOutcome =
    ROUTED EnvironmentInstance HostInstance
  | REQUIRES_PROVISIONING string string
  | NO_AVAILABLE_ENVIRONMENT string

definition routed_to :: "env_registry \<Rightarrow> EnvironmentMatchEvidence \<Rightarrow> EnvironmentRoutingOutcome option" where
  "routed_to r ev = (case me_selectedInstanceId ev of None \<Rightarrow> None
     | Some i \<Rightarrow> (case getEnvInstance i r of None \<Rightarrow> None
         | Some inst \<Rightarrow> map_option (ROUTED inst) (getHost (ei_hostId inst) r)))"

definition route :: "(string \<Rightarrow> string \<Rightarrow> int) \<Rightarrow> EnvironmentRequirement \<Rightarrow> env_registry \<Rightarrow> EnvironmentRoutingOutcome res" where
  "route lc req r = bindE (evaluate_requirement lc req r) (\<lambda>ev.
     Inr (case routed_to r ev of
       Some out \<Rightarrow> out
     | None \<Rightarrow> (case (me_outcome ev, me_supportingDescriptorId ev) of
         (Requires_provisioning, Some d) \<Rightarrow> REQUIRES_PROVISIONING (''descriptor '' @ env_quoted d @
           '' is supported but no usable environment instance is registered'') d
       | _ \<Rightarrow> NO_AVAILABLE_ENVIRONMENT ''no registered descriptor can satisfy this requirement'')))"

end
