(* ===== verification/Env_Requirements.thy ===== *)
theory Env_Requirements
  imports Env_Contracts Env_Router
begin

text \<open>
  \<open>contracts/environment-adapters.ts\<close>: what one registered operation needs from an execution environment,
  the facts discovery attached to an instance, and the evaluation of one against the other. A fact that
  was not discovered is not assumed.
\<close>

section \<open>Requirements\<close>

datatype EnvironmentFamily = Fam_windows | Fam_macos | Fam_android | Fam_linux | Fam_docker | Fam_cloud | Fam_unity | Fam_unreal

fun family_str :: "EnvironmentFamily \<Rightarrow> string" where
  "family_str Fam_windows = ''windows''"
| "family_str Fam_macos = ''macos''"
| "family_str Fam_android = ''android''"
| "family_str Fam_linux = ''linux''"
| "family_str Fam_docker = ''docker''"
| "family_str Fam_cloud = ''cloud''"
| "family_str Fam_unity = ''unity''"
| "family_str Fam_unreal = ''unreal''"

definition GPU_MEMORY_CLASSES :: "string list" where
  "GPU_MEMORY_CLASSES = [''low'', ''medium'', ''high'', ''very_high'']"

record GpuRequirement =
  gq_vendors :: "string list option"
  gq_memoryClass :: "string option"
  gq_graphicsApis :: "string list option"
  gq_compute :: bool

record ExactToolchainVersion =
  ex_kind :: ToolchainKind
  ex_version :: VersionInfo
  ex_majorMinor :: bool

datatype MountSource = Mount_workspace | Mount_artifacts

record ContainerMount =
  cm_source :: MountSource
  cm_target :: string
  cm_readOnly :: bool

record ContainerRequest =
  cn_image :: string
  cn_version :: string
  cn_digest :: "string option"
  cn_mounts :: "ContainerMount list"
  cn_privileged :: bool
  cn_hostNetwork :: bool
  cn_hostPid :: bool
  cn_dockerSocket :: bool
  cn_devices :: "string list option"

record EnvironmentOperationRequirement =
  eo_family :: EnvironmentFamily
  eo_toolchains :: "ToolchainRequirement list"
  eo_exactVersions :: "ExactToolchainVersion list option"
  eo_targets :: "string list option"
  eo_gpu :: "GpuRequirement option"
  eo_container :: "ContainerRequest option"
  eo_signing :: bool
  eo_publishing :: bool
  eo_interactive :: bool

definition opt_list :: "'a list option \<Rightarrow> 'a list" where
  "opt_list xs = (case xs of None \<Rightarrow> [] | Some ys \<Rightarrow> ys)"

section \<open>Discovery\<close>

record GpuDescriptor =
  gd_vendor :: string
  gd_memoryClass :: string
  gd_graphicsApis :: "string list"
  gd_compute :: bool

record ExecutionDiscovery =
  xd_targets :: "string list"
  xd_gpu :: "GpuDescriptor option"
  xd_daemon :: "string option"

definition json_field :: "json \<Rightarrow> string \<Rightarrow> json" where
  "json_field v k = (case v of JObj fs \<Rightarrow> (case map_of fs k of None \<Rightarrow> JUndefined | Some x \<Rightarrow> x) | _ \<Rightarrow> JUndefined)"

fun json_texts :: "json list \<Rightarrow> string list" where
  "json_texts [] = []"
| "json_texts (JStr s # vs) = s # json_texts vs"
| "json_texts (_ # vs) = json_texts vs"

definition json_strings :: "json \<Rightarrow> string list" where
  "json_strings v = (case v of JArr vs \<Rightarrow> json_texts vs | _ \<Rightarrow> [])"

definition gpu_descriptor :: "json \<Rightarrow> GpuDescriptor option" where
  "gpu_descriptor raw = (case (json_field raw ''vendor'', json_field raw ''memoryClass'') of
     (JStr v, JStr m) \<Rightarrow> if m \<in> set GPU_MEMORY_CLASSES
       then Some \<lparr>gd_vendor = v, gd_memoryClass = m, gd_graphicsApis = json_strings (json_field raw ''graphicsApis''),
         gd_compute = (json_field raw ''compute'' = JBool True)\<rparr>
       else None
   | _ \<Rightarrow> None)"

definition readExecutionDiscovery :: "EnvironmentInstance \<Rightarrow> ExecutionDiscovery" where
  "readExecutionDiscovery i =
     (let raw = (case ei_metadata i of None \<Rightarrow> JUndefined | Some fs \<Rightarrow> json_field (JObj fs) ''execution'') in
      \<lparr>xd_targets = json_strings (json_field raw ''targets''), xd_gpu = gpu_descriptor (json_field raw ''gpu''),
       xd_daemon = (case json_field raw ''containerDaemon'' of JStr s \<Rightarrow>
           if s = ''operational'' \<or> s = ''unreachable'' then Some s else None | _ \<Rightarrow> None)\<rparr>)"

section \<open>Evaluation\<close>

type_synonym ExecutionReason = "string \<times> string"

definition version_or_unknown :: "VersionInfo option \<Rightarrow> string" where
  "version_or_unknown v = (case v of None \<Rightarrow> ''(unknown)'' | Some x \<Rightarrow> formatVersion x)"

definition find_toolchain :: "EnvironmentInstance \<Rightarrow> ToolchainKind \<Rightarrow> ToolchainDescriptor option" where
  "find_toolchain i k = js_find (\<lambda>t. tc_kind t = k) (ei_toolchains i)"

definition component_reasons :: "ToolchainRequirement \<Rightarrow> ToolchainDescriptor \<Rightarrow> ToolchainComponentRequirement \<Rightarrow>
    ExecutionReason list" where
  "component_reasons need found c =
     (case map_of (opt_list (tc_components found)) (tcr_name c) of
        None \<Rightarrow> [(''TOOLCHAIN_MISSING'', toolchain_str (tr_kind need) @ '' component '' @ tcr_name c @ '' was not discovered'')]
      | Some v \<Rightarrow> (case tcr_minimum c of None \<Rightarrow> []
          | Some m \<Rightarrow> if versionAtLeast (Some v) m then []
              else [(''TOOLCHAIN_VERSION_MISMATCH'', toolchain_str (tr_kind need) @ '' '' @ tcr_name c @ '' '' @
                formatVersion v @ '' is below '' @ formatVersion m)]))"

definition toolchain_reasons :: "EnvironmentInstance \<Rightarrow> ToolchainRequirement \<Rightarrow> ExecutionReason list" where
  "toolchain_reasons i need = (case find_toolchain i (tr_kind need) of
     None \<Rightarrow> [(''TOOLCHAIN_MISSING'',
       ''toolchain '' @ toolchain_str (tr_kind need) @ '' was not discovered on this environment'')]
   | Some found \<Rightarrow>
       (case tr_minimum need of None \<Rightarrow> [] | Some m \<Rightarrow> if versionAtLeast (tc_version found) m then []
         else [(''TOOLCHAIN_VERSION_MISMATCH'', toolchain_str (tr_kind need) @ '' '' @
           version_or_unknown (tc_version found) @ '' is below '' @ formatVersion m)]) @
       concat (map (component_reasons need found) (opt_list (tr_components need))))"

definition exact_matches :: "ExactToolchainVersion \<Rightarrow> VersionInfo option \<Rightarrow> bool" where
  "exact_matches e v = (case v of None \<Rightarrow> False | Some x \<Rightarrow>
     v_major x = v_major (ex_version e) \<and> v_minor x = v_minor (ex_version e) \<and>
     (ex_majorMinor e \<or> v_patch x = v_patch (ex_version e)))"

definition exact_reasons :: "EnvironmentInstance \<Rightarrow> ToolchainRequirement list \<Rightarrow> ExactToolchainVersion \<Rightarrow>
    ExecutionReason list" where
  "exact_reasons i needs e = (case find_toolchain i (ex_kind e) of
     None \<Rightarrow> if list_ex (\<lambda>t. tr_kind t = ex_kind e) needs then []
       else [(''TOOLCHAIN_MISSING'', ''toolchain '' @ toolchain_str (ex_kind e) @ '' was not discovered on this environment'')]
   | Some found \<Rightarrow> if exact_matches e (tc_version found) then []
       else [(''TOOLCHAIN_VERSION_MISMATCH'', toolchain_str (ex_kind e) @ '' '' @ version_or_unknown (tc_version found) @
         '' does not match required '' @ formatVersion (ex_version e) @ '' ('' @
         (if ex_majorMinor e then ''major_minor'' else ''exact'') @ ''); projects are never migrated silently'')])"

definition evaluateToolchains :: "EnvironmentInstance \<Rightarrow> EnvironmentOperationRequirement \<Rightarrow> ExecutionReason list" where
  "evaluateToolchains i req = concat (map (toolchain_reasons i) (eo_toolchains req)) @
     concat (map (exact_reasons i (eo_toolchains req)) (opt_list (eo_exactVersions req)))"

text \<open>The toolchains the decision relied on.\<close>

definition observed_toolchains :: "EnvironmentInstance \<Rightarrow> EnvironmentOperationRequirement \<Rightarrow> (string \<times> string option) list" where
  "observed_toolchains i req = concat (map (\<lambda>need. case find_toolchain i (tr_kind need) of None \<Rightarrow> []
     | Some t \<Rightarrow> [(toolchain_str (tc_kind t), map_option formatVersion (tc_version t))]) (eo_toolchains req))"

definition evaluateTargets :: "EnvironmentInstance \<Rightarrow> string list \<Rightarrow> ExecutionReason list" where
  "evaluateTargets i targets = map (\<lambda>t. (''MODULE_MISSING'', ''target/module '' @ t @ '' was not discovered on this environment''))
     (filter (\<lambda>t. t \<notin> set (xd_targets (readExecutionDiscovery i))) targets)"

definition memory_rank :: "string \<Rightarrow> nat" where
  "memory_rank m = length (takeWhile (\<lambda>x. x \<noteq> m) GPU_MEMORY_CLASSES)"

definition gpu_reasons :: "GpuRequirement \<Rightarrow> GpuDescriptor \<Rightarrow> ExecutionReason list" where
  "gpu_reasons need gpu =
     (case gq_vendors need of None \<Rightarrow> [] | Some vs \<Rightarrow> if gd_vendor gpu \<in> set vs then []
        else [(''GPU_UNAVAILABLE'', ''GPU vendor '' @ gd_vendor gpu @ '' is not accepted'')]) @
     (case gq_memoryClass need of None \<Rightarrow> [] | Some m \<Rightarrow> if memory_rank (gd_memoryClass gpu) < memory_rank m
        then [(''GPU_UNAVAILABLE'', ''GPU memory class is too low'')] else []) @
     map (\<lambda>a. (''GPU_UNAVAILABLE'', ''graphics API '' @ a @ '' is not available''))
       (filter (\<lambda>a. a \<notin> set (gd_graphicsApis gpu)) (opt_list (gq_graphicsApis need))) @
     (if gq_compute need \<and> \<not> gd_compute gpu then [(''GPU_UNAVAILABLE'', ''GPU compute is not available'')] else [])"

definition evaluateGpu :: "EnvironmentInstance \<Rightarrow> EnvironmentOperationRequirement \<Rightarrow> ExecutionReason list" where
  "evaluateGpu i req = (case eo_gpu req of None \<Rightarrow> [] | Some need \<Rightarrow>
     (case (xd_gpu (readExecutionDiscovery i), Gpu \<in> set (available_capabilities i)) of
        (Some gpu, True) \<Rightarrow> gpu_reasons need gpu
      | _ \<Rightarrow> [(''GPU_UNAVAILABLE'', ''no GPU was discovered on this environment'')]))"

text \<open>The remark in parentheses that ends the first two details of the code is left out.\<close>

definition evaluateDistribution :: "EnvironmentOperationRequirement \<Rightarrow> ExecutionReason list" where
  "evaluateDistribution req =
     (if eo_signing req then [(''SIGNING_NOT_AUTHORIZED'', ''code signing is a separate protected capability'')] else []) @
     (if eo_publishing req then [(''PUBLISHING_NOT_AUTHORIZED'', ''publishing/upload is never automatic'')] else []) @
     (if eo_interactive req
      then [(''ADAPTER_ERROR'', ''interactive/GUI automation is not supported; use headless profiles'')] else [])"

section \<open>Containers\<close>

record ApprovedImage =
  ai_name :: string
  ai_versions :: "string list"
  ai_digest :: "string option"

record ContainerPolicy =
  cp_approvedImages :: "ApprovedImage list"
  cp_requireDigest :: bool

definition mount_char :: "char \<Rightarrow> bool" where
  "mount_char c = (let n = code_unit c in (48 \<le> n \<and> n \<le> 57) \<or> (65 \<le> n \<and> n \<le> 90) \<or> (97 \<le> n \<and> n \<le> 122) \<or>
     c = CHR ''.'' \<or> c = CHR ''_'' \<or> c = CHR ''/'' \<or> c = CHR ''-'')"

definition strip_slashes :: "string \<Rightarrow> string" where
  "strip_slashes s = rev (dropWhile (\<lambda>c. c = CHR ''/'') (rev s))"

definition mount_target_ok :: "string \<Rightarrow> bool" where
  "mount_target_ok t \<longleftrightarrow> js_startsWith t ''/'' \<and> 2 \<le> length t \<and> length t \<le> 201 \<and> list_all mount_char (tl t) \<and>
     ''..'' \<notin> set (js_split (CHR ''/'') t) \<and>
     (if strip_slashes t = [] then ''/'' else strip_slashes t) \<notin>
       set [''/'', ''/proc'', ''/sys'', ''/dev'', ''/etc'', ''/var/run'']"

definition container_denied :: "string \<Rightarrow> ExecutionReason" where
  "container_denied d = (''CONTAINER_POLICY_DENIED'', d)"

definition image_reasons :: "ContainerRequest \<Rightarrow> ContainerPolicy \<Rightarrow> ExecutionReason list" where
  "image_reasons c p = (case js_find (\<lambda>i. ai_name i = cn_image c) (cp_approvedImages p) of
     None \<Rightarrow> [container_denied (''image '' @ cn_image c @ '':'' @ cn_version c @ '' is not approved'')]
   | Some a \<Rightarrow> if cn_version c \<notin> set (ai_versions a)
       then [container_denied (''image '' @ cn_image c @ '':'' @ cn_version c @ '' is not approved'')]
       else (if cp_requireDigest p \<and> opt_list (cn_digest c) = [] then [container_denied ''image digest pinning is required''] else []) @
         (if opt_list (ai_digest a) \<noteq> [] \<and> opt_list (cn_digest c) \<noteq> [] \<and> ai_digest a \<noteq> cn_digest c
          then [container_denied ''image digest does not match the approved digest''] else []))"

definition evaluateContainerRequest :: "ContainerRequest \<Rightarrow> ContainerPolicy \<Rightarrow> ExecutionReason list" where
  "evaluateContainerRequest c p =
     (if cn_privileged c then [container_denied ''privileged containers are not allowed''] else []) @
     (if cn_hostNetwork c then [container_denied ''host networking is not allowed''] else []) @
     (if cn_hostPid c then [container_denied ''the host PID namespace is not allowed''] else []) @
     (if cn_dockerSocket c then [container_denied ''Docker socket access is never granted''] else []) @
     (if opt_list (cn_devices c) \<noteq> [] then [container_denied ''device passthrough is not allowed''] else []) @
     map (\<lambda>m. container_denied (''mount target '' @ take 60 (cm_target m) @ '' is not allowed''))
       (filter (\<lambda>m. \<not> mount_target_ok (cm_target m)) (cn_mounts c)) @
     image_reasons c p"

section \<open>Laws\<close>

lemma container_allowed: "evaluateContainerRequest c p = [] \<longleftrightarrow>
    \<not> cn_privileged c \<and> \<not> cn_hostNetwork c \<and> \<not> cn_hostPid c \<and> \<not> cn_dockerSocket c \<and> opt_list (cn_devices c) = [] \<and>
    (\<forall>m \<in> set (cn_mounts c). mount_target_ok (cm_target m)) \<and> image_reasons c p = []"
  by (auto simp: evaluateContainerRequest_def filter_empty_conv)

lemma distribution_none: "evaluateDistribution req = [] \<longleftrightarrow> \<not> eo_signing req \<and> \<not> eo_publishing req \<and> \<not> eo_interactive req"
  by (simp add: evaluateDistribution_def)

lemma targets_none: "evaluateTargets i ts = [] \<longleftrightarrow> set ts \<subseteq> set (xd_targets (readExecutionDiscovery i))"
  by (auto simp: evaluateTargets_def filter_empty_conv)

lemma component_reasons_Nil:
  "component_reasons need found c = [] \<longleftrightarrow> (\<exists>v. map_of (opt_list (tc_components found)) (tcr_name c) = Some v \<and>
     (case tcr_minimum c of None \<Rightarrow> True | Some m \<Rightarrow> versionAtLeast (Some v) m))"
  by (auto simp: component_reasons_def split: option.splits)

text \<open>The first toolchain of the kind meets the requirement.\<close>

lemma toolchain_reasons_Nil:
  "toolchain_reasons i need = [] \<longleftrightarrow> (\<exists>t. find_toolchain i (tr_kind need) = Some t \<and> meets need t)"
proof (cases "find_toolchain i (tr_kind need)")
  case None
  then show ?thesis by (simp add: toolchain_reasons_def)
next
  case (Some t)
  then have kind: "tc_kind t = tr_kind need" unfolding find_toolchain_def by (rule js_find_Some [THEN conjunct2])
  have comps: "(case tc_components t of None \<Rightarrow> None | Some cs \<Rightarrow> map_of cs x) = map_of (opt_list (tc_components t)) x" for x
    by (simp add: opt_list_def split: option.splits)
  show ?thesis
    using Some kind by (auto simp: toolchain_reasons_def meets_def comps component_reasons_Nil opt_list_def split: option.splits)
qed

lemma exact_reasons_Nil:
  "exact_reasons i needs e = [] \<longleftrightarrow> (case find_toolchain i (ex_kind e) of
     None \<Rightarrow> \<exists>t \<in> set needs. tr_kind t = ex_kind e | Some t \<Rightarrow> exact_matches e (tc_version t))"
  by (auto simp: exact_reasons_def list_ex_iff split: option.splits)

text \<open>Every requirement is met, and a pinned version is the discovered one.\<close>

lemma toolchains_none:
  "evaluateToolchains i req = [] \<longleftrightarrow>
     (\<forall>need \<in> set (eo_toolchains req). \<exists>t. find_toolchain i (tr_kind need) = Some t \<and> meets need t) \<and>
     (\<forall>e \<in> set (opt_list (eo_exactVersions req)).
        \<exists>t. find_toolchain i (ex_kind e) = Some t \<and> exact_matches e (tc_version t))"
  (is "_ \<longleftrightarrow> ?needs \<and> ?pins")
proof -
  have split: "evaluateToolchains i req = [] \<longleftrightarrow> ?needs \<and>
      (\<forall>e \<in> set (opt_list (eo_exactVersions req)). exact_reasons i (eo_toolchains req) e = [])"
    by (auto simp: evaluateToolchains_def toolchain_reasons_Nil)
  show ?thesis
  proof (cases "?needs")
    case True
    have "exact_reasons i (eo_toolchains req) e = [] \<longleftrightarrow>
        (\<exists>t. find_toolchain i (ex_kind e) = Some t \<and> exact_matches e (tc_version t))" for e
    proof (cases "find_toolchain i (ex_kind e)")
      case None
      then have "\<not> (\<exists>t \<in> set (eo_toolchains req). tr_kind t = ex_kind e)" using True by force
      with None show ?thesis by (simp add: exact_reasons_Nil)
    qed (simp add: exact_reasons_Nil)
    with split show ?thesis by blast
  qed (use split in blast)
qed

end
