(* ===== verification/Exec_Contracts.thy ===== *)
theory Exec_Contracts
  imports Exec_Paths Env_Requirements
begin

text \<open>
  \<open>contracts/execution.ts\<close>: risk, execution capabilities, resource limits, network and secret
  references, operations, policies and grants of the execution control boundary. Membership of a
  declared enumeration and the absence of unknown properties are taken from the declared types.
  Denial codes are the strings of the code.
\<close>

section \<open>Identifiers, risk, capabilities\<close>

definition host_char :: "char \<Rightarrow> bool" where
  "host_char c = (let n = code_unit c in (48 \<le> n \<and> n \<le> 57) \<or> (97 \<le> n \<and> n \<le> 122))"

definition alnum :: "char \<Rightarrow> bool" where
  "alnum c \<longleftrightarrow> dec_digit c \<or> ascii_letter_char c"

definition execution_id :: "string \<Rightarrow> bool" where
  "execution_id v \<longleftrightarrow> v \<noteq> [] \<and> length v \<le> 160 \<and> alnum (hd v) \<and>
     list_all (\<lambda>c. alnum c \<or> c \<in> set ''._:@/-'') (tl v)"

definition requireExecutionId :: "string \<Rightarrow> string \<Rightarrow> unit res" where
  "requireExecutionId v field = throw_if (\<not> execution_id v) (ValidationError (field @ '' must be a valid identifier''))"

datatype ExecutionRiskLevel = Er_low | Er_medium | Er_high | Er_critical

fun EXECUTION_RISK_RANK :: "ExecutionRiskLevel \<Rightarrow> nat" where
  "EXECUTION_RISK_RANK Er_low = 0"
| "EXECUTION_RISK_RANK Er_medium = 1"
| "EXECUTION_RISK_RANK Er_high = 2"
| "EXECUTION_RISK_RANK Er_critical = 3"

fun exec_risk_str :: "ExecutionRiskLevel \<Rightarrow> string" where
  "exec_risk_str Er_low = ''low''"
| "exec_risk_str Er_medium = ''medium''"
| "exec_risk_str Er_high = ''high''"
| "exec_risk_str Er_critical = ''critical''"

definition riskAtLeast :: "ExecutionRiskLevel \<Rightarrow> ExecutionRiskLevel \<Rightarrow> bool" where
  "riskAtLeast risk threshold \<longleftrightarrow> EXECUTION_RISK_RANK risk \<ge> EXECUTION_RISK_RANK threshold"

datatype ExecutionCapability =
    Filesystem_read | Filesystem_write_workspace | Filesystem_delete_workspace | Filesystem_write_protected
  | Repository_read | Repository_write | Repository_commit | Repository_push | Repository_branch_manage
  | Process_invoke_bounded | Network_outbound_allowed_host | Artifact_write | Test_invoke | Build_invoke
  | Security_scan_invoke | Deploy_invoke | Secret_reference_use

fun capability_str :: "ExecutionCapability \<Rightarrow> string" where
  "capability_str Filesystem_read = ''filesystem.read''"
| "capability_str Filesystem_write_workspace = ''filesystem.write.workspace''"
| "capability_str Filesystem_delete_workspace = ''filesystem.delete.workspace''"
| "capability_str Filesystem_write_protected = ''filesystem.write.protected''"
| "capability_str Repository_read = ''repository.read''"
| "capability_str Repository_write = ''repository.write''"
| "capability_str Repository_commit = ''repository.commit''"
| "capability_str Repository_push = ''repository.push''"
| "capability_str Repository_branch_manage = ''repository.branch.manage''"
| "capability_str Process_invoke_bounded = ''process.invoke.bounded''"
| "capability_str Network_outbound_allowed_host = ''network.outbound.allowed-host''"
| "capability_str Artifact_write = ''artifact.write''"
| "capability_str Test_invoke = ''test.invoke''"
| "capability_str Build_invoke = ''build.invoke''"
| "capability_str Security_scan_invoke = ''security.scan.invoke''"
| "capability_str Deploy_invoke = ''deploy.invoke''"
| "capability_str Secret_reference_use = ''secret.reference.use''"

section \<open>Resource limits\<close>

datatype ResourceLimitKey =
    SessionTimeoutMs | OperationTimeoutMs | MaxOutputBytes | MaxArtifactBytes | MaxToolCalls
  | CpuMillicores | MemoryBytes | MaxProcesses | FilesystemQuotaBytes | MaxModelCalls

fun limit_str :: "ResourceLimitKey \<Rightarrow> string" where
  "limit_str SessionTimeoutMs = ''sessionTimeoutMs''"
| "limit_str OperationTimeoutMs = ''operationTimeoutMs''"
| "limit_str MaxOutputBytes = ''maxOutputBytes''"
| "limit_str MaxArtifactBytes = ''maxArtifactBytes''"
| "limit_str MaxToolCalls = ''maxToolCalls''"
| "limit_str CpuMillicores = ''cpuMillicores''"
| "limit_str MemoryBytes = ''memoryBytes''"
| "limit_str MaxProcesses = ''maxProcesses''"
| "limit_str FilesystemQuotaBytes = ''filesystemQuotaBytes''"
| "limit_str MaxModelCalls = ''maxModelCalls''"

definition REQUIRED_LIMIT_KEYS :: "ResourceLimitKey list" where
  "REQUIRED_LIMIT_KEYS = [SessionTimeoutMs, OperationTimeoutMs, MaxOutputBytes, MaxArtifactBytes, MaxToolCalls]"

definition OPTIONAL_LIMIT_KEYS :: "ResourceLimitKey list" where
  "OPTIONAL_LIMIT_KEYS = [CpuMillicores, MemoryBytes, MaxProcesses, FilesystemQuotaBytes, MaxModelCalls]"

fun LIMIT_CEILINGS :: "ResourceLimitKey \<Rightarrow> int" where
  "LIMIT_CEILINGS SessionTimeoutMs = 6 * 60 * 60 * 1000"
| "LIMIT_CEILINGS OperationTimeoutMs = 60 * 60 * 1000"
| "LIMIT_CEILINGS MaxOutputBytes = 16 * 1024 * 1024"
| "LIMIT_CEILINGS MaxArtifactBytes = 2 * 1024 * 1024 * 1024"
| "LIMIT_CEILINGS MaxToolCalls = 1000"
| "LIMIT_CEILINGS CpuMillicores = 64000"
| "LIMIT_CEILINGS MemoryBytes = 64 * 1024 * 1024 * 1024"
| "LIMIT_CEILINGS MaxProcesses = 256"
| "LIMIT_CEILINGS FilesystemQuotaBytes = 100 * 1024 * 1024 * 1024"
| "LIMIT_CEILINGS MaxModelCalls = 1000"

type_synonym limits = "ResourceLimitKey \<Rightarrow> int option"

definition check_limit :: "limits \<Rightarrow> string \<Rightarrow> bool \<Rightarrow> ResourceLimitKey \<Rightarrow> unit res" where
  "check_limit ls field required k = (case ls k of
     None \<Rightarrow> throw_if required (ValidationError (field @ ''.'' @ limit_str k @ '' is required (unbounded)''))
   | Some raw \<Rightarrow> checks
       [throw_if (raw \<le> 0) (ValidationError (field @ ''.'' @ limit_str k @ '' must be a positive integer'')),
        throw_if (raw > LIMIT_CEILINGS k)
          (ValidationError (field @ ''.'' @ limit_str k @ '' exceeds the ceiling of '' @ show_int (LIMIT_CEILINGS k)))])"

definition limit_value :: "limits \<Rightarrow> ResourceLimitKey \<Rightarrow> int" where
  "limit_value ls k = (case ls k of None \<Rightarrow> 0 | Some v \<Rightarrow> v)"

definition validateResourceLimits :: "limits \<Rightarrow> string \<Rightarrow> unit res" where
  "validateResourceLimits ls field = checks
     (map (check_limit ls field True) REQUIRED_LIMIT_KEYS @
      map (check_limit ls field False) OPTIONAL_LIMIT_KEYS @
      [throw_if (limit_value ls OperationTimeoutMs > limit_value ls SessionTimeoutMs)
         (ValidationError (field @ ''.operationTimeoutMs must not exceed sessionTimeoutMs''))])"

text \<open>The stricter of two limit sets, entry by entry of the override.\<close>

fun tighten_entries :: "limits \<Rightarrow> (ResourceLimitKey \<times> int) list \<Rightarrow> limits" where
  "tighten_entries out [] = out"
| "tighten_entries out ((k, v) # es) =
     tighten_entries (out(k := Some (case out k of None \<Rightarrow> v | Some c \<Rightarrow> min c v))) es"

definition tightenLimits :: "limits \<Rightarrow> (ResourceLimitKey \<times> int) list option \<Rightarrow> limits" where
  "tightenLimits base override = (case override of None \<Rightarrow> base | Some es \<Rightarrow> tighten_entries base es)"

section \<open>Network destinations\<close>

record NetworkDestination =
  nd_host :: string
  nd_port :: "int option"
  nd_scheme :: string

datatype NetworkPolicy = Deny_all | Allow_hosts "NetworkDestination list"

definition js_endsWith :: "string \<Rightarrow> string \<Rightarrow> bool" where
  "js_endsWith s t = js_startsWith (rev s) (rev t)"

definition host_label :: "string \<Rightarrow> bool" where
  "host_label l \<longleftrightarrow> l \<noteq> [] \<and> length l \<le> 63 \<and> host_char (hd l) \<and> host_char (last l) \<and>
     list_all (\<lambda>c. host_char c \<or> c = CHR ''-'') l"

definition host_name_ok :: "string \<Rightarrow> bool" where
  "host_name_ok h \<longleftrightarrow> 1 \<le> length h \<and> length h \<le> 253 \<and> 2 \<le> length (js_split (CHR ''.'') h) \<and>
     list_all host_label (js_split (CHR ''.'') h)"

definition FORBIDDEN_HOST_SUFFIXES :: "string list" where
  "FORBIDDEN_HOST_SUFFIXES =
     [''localhost'', ''.localhost'', ''.local'', ''.internal'', ''.home.arpa'', ''.intranet'', ''.lan'']"

definition FORBIDDEN_IP_DNS_SUFFIXES :: "string list" where
  "FORBIDDEN_IP_DNS_SUFFIXES =
     [''.nip.io'', ''.sslip.io'', ''.xip.io'', ''.localtest.me'', ''.lvh.me'', ''.traefik.me'']"

definition FORBIDDEN_HOSTS :: "string list" where
  "FORBIDDEN_HOSTS = [''metadata'', ''metadata.google.internal'', ''metadata.azure.com'', ''instance-data'']"

definition hex_digit :: "char \<Rightarrow> bool" where
  "hex_digit c = (let n = code_unit c in (48 \<le> n \<and> n \<le> 57) \<or> (97 \<le> n \<and> n \<le> 102))"

definition numeric_label :: "string \<Rightarrow> bool" where
  "numeric_label l \<longleftrightarrow> digits_ok l \<or>
     (js_startsWith l ''0x'' \<and> 2 < length l \<and> list_all hex_digit (drop 2 l))"

definition tld_ok :: "string \<Rightarrow> bool" where
  "tld_ok l \<longleftrightarrow> l \<noteq> [] \<and> (let n = code_unit (hd l) in 97 \<le> n \<and> n \<le> 122) \<and>
     list_all (\<lambda>c. host_char c \<or> c = CHR ''-'') l"

definition ip_literal :: "string \<Rightarrow> bool" where
  "ip_literal h \<longleftrightarrow> (h \<noteq> [] \<and> list_all (\<lambda>c. dec_digit c \<or> c = CHR ''.'') h) \<or> CHR '':'' \<in> set h \<or> js_startsWith h ''[''"

definition check_host :: "string \<Rightarrow> string \<Rightarrow> unit res" where
  "check_host field h = checks
     [throw_if (h \<noteq> js_lower h) (ValidationError (field @ ''.host must be a lowercase host name'')),
      throw_if (CHR ''*'' \<in> set h) (ValidationError (field @ ''.host must not be a wildcard'')),
      throw_if (ip_literal h) (ValidationError (field @ ''.host must not be an IP literal'')),
      throw_if (h \<in> set FORBIDDEN_HOSTS \<or> list_ex (\<lambda>s. h = s \<or> js_endsWith h s) FORBIDDEN_HOST_SUFFIXES)
        (ValidationError (field @ ''.host targets a local or internal network'')),
      throw_if (\<not> host_name_ok h) (ValidationError (field @ ''.host must be a fully qualified host name'')),
      throw_if (\<not> tld_ok (last (js_split (CHR ''.'') h)) \<or> list_all numeric_label (js_split (CHR ''.'') h))
        (ValidationError (field @ ''.host must not encode an IP address'')),
      throw_if (list_ex (\<lambda>s. js_endsWith h s \<or> h = drop 1 s) FORBIDDEN_IP_DNS_SUFFIXES)
        (ValidationError (field @ ''.host resolves to embedded IP addresses (not allowed)''))]"

definition destination_port :: "NetworkDestination \<Rightarrow> int" where
  "destination_port d = (case nd_port d of None \<Rightarrow> 443 | Some p \<Rightarrow> p)"

definition validateNetworkDestination :: "NetworkDestination \<Rightarrow> string \<Rightarrow> NetworkDestination res" where
  "validateNetworkDestination d field = bindE (checks
     [check_host field (nd_host d),
      throw_if (nd_scheme d \<noteq> ''https'') (ValidationError (field @ ''.scheme must be https'')),
      throw_if (destination_port d < 1 \<or> destination_port d > 65535)
        (ValidationError (field @ ''.port must be a valid port''))])
     (\<lambda>_. Inr (d \<lparr>nd_port := Some (destination_port d)\<rparr>))"

definition validateNetworkPolicy :: "NetworkPolicy \<Rightarrow> string \<Rightarrow> unit res" where
  "validateNetworkPolicy n field = (case n of Deny_all \<Rightarrow> Inr ()
     | Allow_hosts ds \<Rightarrow> checks
         [throw_if (ds = []) (ValidationError (field @ ''.destinations must list at least one approved host'')),
          check_indexed (\<lambda>i d. bindE (validateNetworkDestination d (field @ ''.destinations['' @ show_nat i @ '']''))
            (\<lambda>_. Inr ())) ds])"

section \<open>Secret references\<close>

definition secret_ref_ok :: "string \<Rightarrow> bool" where
  "secret_ref_ok v \<longleftrightarrow> js_startsWith v ''secret://'' \<and> (let n = drop 9 v in
     2 \<le> length n \<and> length n \<le> 100 \<and> host_char (hd n) \<and>
     list_all (\<lambda>c. host_char c \<or> c \<in> set ''._-'') n)"

definition validateSecretReference :: "string \<Rightarrow> unit res" where
  "validateSecretReference v = throw_if (\<not> secret_ref_ok v)
     (ValidationError ''secretRef must be a secret reference (secret://name)'')"

section \<open>Operations and tools\<close>

datatype ExecutionStageKind = Build_stage | Test_stage | Security_stage | Deployment_stage

fun stage_str :: "ExecutionStageKind \<Rightarrow> string" where
  "stage_str Build_stage = ''build''"
| "stage_str Test_stage = ''test''"
| "stage_str Security_stage = ''security''"
| "stage_str Deployment_stage = ''deployment''"

datatype field_kind =
    F_enum "string list"
  | F_integer int int
  | F_workspace_path
  | F_text int
  | F_sha256

record OperationInputField =
  if_kind :: field_kind
  if_required :: bool

datatype WorkspaceAccess = Wa_none | Wa_read | Wa_write
datatype ExecutionClass = Diagnostic | Project_code | Adapter_class

text \<open>How the standard output of an operation is validated.\<close>

datatype OperationOutputSpec = Out_text | Out_json | Out_semver

text \<open>\<open>od_environment\<close> is the environment requirement of a routed operation.\<close>

record ExecutionOperationDefinition =
  od_id :: string
  od_toolId :: string
  od_stageKind :: ExecutionStageKind
  od_required :: "ExecutionCapability list"
  od_optional :: "ExecutionCapability list option"
  od_risk :: ExecutionRiskLevel
  od_input :: "(string \<times> OperationInputField) list"
  od_toolchains :: "string list option"
  od_workspaceAccess :: "WorkspaceAccess option"
  od_network :: "bool option"
  od_timeoutMs :: "int option"
  od_class :: "ExecutionClass option"
  od_environment :: "EnvironmentOperationRequirement option"
  od_output :: "OperationOutputSpec option"

definition operationWorkspaceAccess :: "ExecutionOperationDefinition \<Rightarrow> WorkspaceAccess" where
  "operationWorkspaceAccess op = (case od_workspaceAccess op of Some a \<Rightarrow> a
     | None \<Rightarrow> if Filesystem_write_workspace \<in> set (od_required op) then Wa_write
               else if Filesystem_read \<in> set (od_required op) then Wa_read else Wa_none)"

definition MAX_INVOCATION_TEXT_BYTES :: int where
  "MAX_INVOCATION_TEXT_BYTES = 1024 * 1024"

definition input_name_ok :: "string \<Rightarrow> bool" where
  "input_name_ok n \<longleftrightarrow> n \<noteq> [] \<and> length n \<le> 40 \<and> ascii_letter_char (hd n) \<and> list_all alnum (tl n)"

definition check_input_field :: "string \<times> OperationInputField \<Rightarrow> unit res" where
  "check_input_field nf = (case nf of (n, f) \<Rightarrow> checks
     [throw_if (\<not> input_name_ok n) (ValidationError (''operation.input.'' @ n @ '' is not a valid name'')),
      (case if_kind f of F_enum vs \<Rightarrow>
         throw_if (vs = []) (ValidationError (''operation.input.'' @ n @ '' needs enum values'')) | _ \<Rightarrow> Inr ()),
      (case if_kind f of F_text m \<Rightarrow> throw_if (m \<le> 0 \<or> m > MAX_INVOCATION_TEXT_BYTES)
         (ValidationError (''operation.input.'' @ n @ '' needs bounded maxBytes'')) | _ \<Rightarrow> Inr ())])"

definition validateOperationDefinition :: "ExecutionOperationDefinition \<Rightarrow> unit res" where
  "validateOperationDefinition d = checks
     [requireExecutionId (od_id d) ''operation.id'', requireExecutionId (od_toolId d) ''operation.toolId'',
      throw_if (od_required d = [])
        (ValidationError ''operation.requiredCapabilities must list known execution capabilities''),
      (case od_timeoutMs d of None \<Rightarrow> Inr () | Some t \<Rightarrow>
         throw_if (t \<le> 0 \<or> t > LIMIT_CEILINGS OperationTimeoutMs) (ValidationError ''operation.timeoutMs must be bounded'')),
      throw_if (od_network d = Some True \<and> Network_outbound_allowed_host \<notin> set (od_required d))
        (ValidationError ''network access requires the network.outbound.allowed-host capability''),
      check_all check_input_field (od_input d)]"

datatype ArgumentSlot =
    Literal string
  | Enum_input string "string list"
  | Integer_input string int int
  | Workspace_path_input string

record ExecutableDefinition =
  xd_executableId :: string
  xd_operations :: "(string \<times> ArgumentSlot list) list"
  xd_environmentVariables :: "string list"
  xd_requiredPaths :: "(string \<times> string list) list option"

record ExecutionToolDefinition =
  xt_toolId :: string
  xt_version :: string
  xt_required :: "ExecutionCapability list"
  xt_environments :: "CapabilityId list"
  xt_executable :: ExecutableDefinition
  xt_operations :: "string list"

definition upper_char :: "char \<Rightarrow> bool" where
  "upper_char c = (let n = code_unit c in 65 \<le> n \<and> n \<le> 90)"

definition variable_name_ok :: "string \<Rightarrow> bool" where
  "variable_name_ok n \<longleftrightarrow> n \<noteq> [] \<and> length n \<le> 64 \<and> upper_char (hd n) \<and>
     list_all (\<lambda>c. upper_char c \<or> dec_digit c \<or> c = CHR ''_'') (tl n)"

definition validateExecutionToolDefinition :: "ExecutionToolDefinition \<Rightarrow> unit res" where
  "validateExecutionToolDefinition d = checks
     [requireExecutionId (xt_toolId d) ''tool.toolId'',
      requireExecutionId (xd_executableId (xt_executable d)) ''tool.executable.executableId'',
      throw_if (js_trim (xt_version d) = []) (ValidationError ''tool.version is required''),
      throw_if (xt_operations d = []) (ValidationError ''tool.operations must not be empty''),
      check_all (\<lambda>op. checks
         [requireExecutionId op ''tool.operations[]'',
          throw_if (map_of (xd_operations (xt_executable d)) op = None)
            (ValidationError (''tool '' @ xt_toolId d @ '' exposes '' @ op @ '' without an argument template''))])
        (xt_operations d),
      check_all (\<lambda>n. throw_if (\<not> variable_name_ok n) (ValidationError (''tool env var '' @ n @ '' is not a valid name'')))
        (xd_environmentVariables (xt_executable d))]"

section \<open>Policies\<close>

record FilesystemScope =
  fs_write :: bool
  fs_path :: string

record ExecutionPolicyRule =
  pr_id :: string
  pr_operationIds :: "string list"
  pr_capabilities :: "ExecutionCapability list"
  pr_filesystem :: "FilesystemScope list"
  pr_environments :: "CapabilityId list"
  pr_network :: "NetworkPolicy option"
  pr_secretRefs :: "string list option"
  pr_limits :: "(ResourceLimitKey \<times> int) list option"
  pr_hostProcess :: bool
  pr_trustedHostBuild :: bool

record ExecutionPolicy =
  pol_policyId :: string
  pol_version :: int
  pol_rules :: "ExecutionPolicyRule list"
  pol_forbidden :: "ExecutionCapability list"
  pol_maxRisk :: ExecutionRiskLevel
  pol_approvalAt :: ExecutionRiskLevel
  pol_limits :: limits
  pol_network :: NetworkPolicy
  pol_grantTtlMs :: int

definition check_rule :: "ExecutionPolicyRule \<Rightarrow> unit res" where
  "check_rule r = checks
     [throw_if (list_ex (\<lambda>i. CHR ''*'' \<in> set i) (pr_operationIds r))
        (ValidationError ''policy rules must not use wildcards''),
      (case pr_network r of None \<Rightarrow> Inr () | Some n \<Rightarrow> validateNetworkPolicy n (''rule '' @ pr_id r)),
      (case pr_secretRefs r of None \<Rightarrow> Inr () | Some rs \<Rightarrow> check_all validateSecretReference rs),
      (case pr_limits r of None \<Rightarrow> Inr () | Some es \<Rightarrow> check_all (\<lambda>(k, v). throw_if (v \<le> 0)
         (ValidationError (''rule '' @ pr_id r @ '' limit '' @ limit_str k @ '' is invalid''))) es)]"

fun check_rules :: "string list \<Rightarrow> ExecutionPolicyRule list \<Rightarrow> unit res" where
  "check_rules ids [] = Inr ()"
| "check_rules ids (r # rs) = bindE (checks
     [requireExecutionId (pr_id r) ''policy.rules[].id'',
      throw_if (pr_id r \<in> set ids) (ValidationError (''policy rule '' @ pr_id r @ '' is duplicated'')),
      check_rule r]) (\<lambda>_. check_rules (pr_id r # ids) rs)"

definition validateExecutionPolicy :: "ExecutionPolicy \<Rightarrow> unit res" where
  "validateExecutionPolicy p = checks
     [requireExecutionId (pol_policyId p) ''policy.policyId'',
      throw_if (pol_version p < 1) (ValidationError ''policy.version must be a positive integer''),
      validateResourceLimits (pol_limits p) ''policy.defaultLimits'',
      validateNetworkPolicy (pol_network p) ''policy.network'',
      throw_if (pol_grantTtlMs p \<le> 0 \<or> pol_grantTtlMs p > LIMIT_CEILINGS SessionTimeoutMs)
        (ValidationError ''policy.grantTtlMs must be bounded''),
      check_rules [] (pol_rules p)]"

section \<open>Capability grants and workspaces\<close>

record CapabilityGrant =
  gr_grantId :: string
  gr_sessionId :: string
  gr_projectId :: string
  gr_agentId :: string
  gr_environmentInstanceId :: string
  gr_workspaceId :: string
  gr_toolId :: string
  gr_operationId :: string
  gr_capability :: ExecutionCapability
  gr_filesystem :: "FilesystemScope list option"
  gr_network :: "NetworkPolicy option"
  gr_policyId :: string
  gr_policyVersion :: int
  gr_issuedAt :: timestamp
  gr_expiresAt :: timestamp

record GrantUseContext =
  gu_sessionId :: string
  gu_projectId :: string
  gu_agentId :: string
  gu_environmentInstanceId :: string
  gu_workspaceId :: string
  gu_toolId :: string
  gu_operationId :: string
  gu_capability :: ExecutionCapability
  gu_at :: timestamp

definition grantAllows :: "CapabilityGrant \<Rightarrow> GrantUseContext \<Rightarrow> bool" where
  "grantAllows g u \<longleftrightarrow> gr_sessionId g = gu_sessionId u \<and> gr_projectId g = gu_projectId u \<and>
     gr_agentId g = gu_agentId u \<and> gr_environmentInstanceId g = gu_environmentInstanceId u \<and>
     gr_workspaceId g = gu_workspaceId u \<and> gr_toolId g = gu_toolId u \<and>
     gr_operationId g = gu_operationId u \<and> gr_capability g = gu_capability u \<and> gu_at u < gr_expiresAt g"

datatype WorkspaceStatus = Ws_requested | Ws_prepared | Ws_released

record ExecutionWorkspace =
  ws_workspaceId :: string
  ws_sessionId :: string
  ws_projectId :: string
  ws_rootRef :: string
  ws_writable :: bool
  ws_status :: WorkspaceStatus

end
