(* ===== verification/Exec_Plans.thy ===== *)
theory Exec_Plans
  imports Exec_Contracts Env_Router Contracts
begin

text \<open>
  The parts of an execution plan that the control boundary reads: \<open>contracts/planning.ts\<close>, the
  revisions of \<open>core/planning/execution-plan-repository.ts\<close>, the stage lookup of
  \<open>core/execution/execution-manager.ts\<close> and \<open>evaluateCandidates\<close> of
  \<open>core/environments/agent-qualification-router.ts\<close>.
\<close>

section \<open>Plans\<close>

datatype PlanStatus = Pl_draft | Pl_blocked | Pl_ready | Pl_awaiting_approval | Pl_approved | Pl_superseded

fun plan_status_str :: "PlanStatus \<Rightarrow> string" where
  "plan_status_str Pl_draft = ''draft''"
| "plan_status_str Pl_blocked = ''blocked''"
| "plan_status_str Pl_ready = ''ready''"
| "plan_status_str Pl_awaiting_approval = ''awaiting_approval''"
| "plan_status_str Pl_approved = ''approved''"
| "plan_status_str Pl_superseded = ''superseded''"

fun PLAN_TRANSITIONS :: "PlanStatus \<Rightarrow> PlanStatus list" where
  "PLAN_TRANSITIONS Pl_draft = [Pl_blocked, Pl_ready]"
| "PLAN_TRANSITIONS Pl_blocked = [Pl_superseded]"
| "PLAN_TRANSITIONS Pl_ready = [Pl_awaiting_approval, Pl_superseded]"
| "PLAN_TRANSITIONS Pl_awaiting_approval = [Pl_approved, Pl_blocked, Pl_superseded]"
| "PLAN_TRANSITIONS Pl_approved = [Pl_superseded]"
| "PLAN_TRANSITIONS Pl_superseded = []"

definition canTransitionPlan :: "PlanStatus \<Rightarrow> PlanStatus \<Rightarrow> bool" where
  "canTransitionPlan a b \<longleftrightarrow> b \<in> set (PLAN_TRANSITIONS a)"

datatype AgentRequirementPurpose = Purpose_build | Purpose_test | Purpose_security_review | Purpose_other

record PlanAgentRequirement =
  arq_id :: string
  arq_purpose :: AgentRequirementPurpose
  arq_componentIds :: "string list"
  arq_capabilities :: "string list"

record PlanAgentAssignment =
  paa_requirementId :: string
  paa_agentId :: "string option"

record PlannedEnvironment =
  pen_id :: string
  pen_requirement :: EnvironmentRequirement
  pen_selectedInstanceId :: "string option"

record BuildStage =
  bs_id :: string
  bs_componentId :: string
  bs_environment :: string
  bs_agent :: string

record TestStage =
  tst_id :: string
  tst_componentId :: string
  tst_environment :: string

record SecurityStage =
  ss_id :: string
  ss_agent_review :: bool
  ss_componentIds :: "string list"
  ss_agent :: "string option"

record DeploymentRequirement =
  dr_id :: string
  dr_componentId :: string
  dr_environment :: "string option"

record PlanApprovalRequirement =
  par_reason :: string
  par_subjectIds :: "string list"

record ExecutionPlan =
  plan_id :: string
  plan_planId :: string
  plan_version :: int
  plan_projectId :: string
  plan_status :: PlanStatus
  plan_environments :: "PlannedEnvironment list"
  plan_agentRequirements :: "PlanAgentRequirement list"
  plan_agents :: "PlanAgentAssignment list"
  plan_build :: "BuildStage list"
  plan_tests :: "TestStage list"
  plan_security :: "SecurityStage list"
  plan_deployment :: "DeploymentRequirement list"
  plan_approvalRequirements :: "PlanApprovalRequirement list"
  plan_approvalId :: "string option"
  plan_approvalState :: string
  plan_blockers :: "string list"

definition EXECUTION_PLAN_APPROVAL_ACTION :: string where
  "EXECUTION_PLAN_APPROVAL_ACTION = ''execution_plan.approve''"

type_synonym plan_repo = "ExecutionPlan repo"

definition plan_versions :: "string \<Rightarrow> plan_repo \<Rightarrow> ExecutionPlan list" where
  "plan_versions planId r = js_sort (\<lambda>a b. plan_version b - plan_version a)
     (filter (\<lambda>p. plan_planId p = planId) (mem_list r))"

definition latestVersion :: "string \<Rightarrow> plan_repo \<Rightarrow> ExecutionPlan option" where
  "latestVersion planId r = (case plan_versions planId r of [] \<Rightarrow> None | p # ps \<Rightarrow> Some p)"

section \<open>Stages\<close>

record StageInfo =
  stg_kind :: ExecutionStageKind
  stg_componentIds :: "string list"
  stg_environment :: "string option"
  stg_agent :: "string option"

definition requirementFor :: "ExecutionPlan \<Rightarrow> AgentRequirementPurpose \<Rightarrow> string list \<Rightarrow> string option" where
  "requirementFor p purpose cs = map_option arq_id (js_find (\<lambda>r. arq_purpose r = purpose \<and>
     list_ex (\<lambda>c. c \<in> set (arq_componentIds r)) cs) (plan_agentRequirements p))"

definition first_opt :: "'a option \<Rightarrow> 'a option \<Rightarrow> 'a option" where
  "first_opt a b = (case a of None \<Rightarrow> b | Some x \<Rightarrow> Some x)"

text \<open>A present but empty environment id counts as none where the code tests it for truth.\<close>

definition non_empty :: "string option \<Rightarrow> string option" where
  "non_empty x = (case x of Some [] \<Rightarrow> None | _ \<Rightarrow> x)"

definition security_stage :: "ExecutionPlan \<Rightarrow> SecurityStage \<Rightarrow> StageInfo" where
  "security_stage p s =
     (let b = js_find (\<lambda>b. bs_componentId b \<in> set (ss_componentIds s)) (plan_build p) in
      \<lparr>stg_kind = Security_stage, stg_componentIds = ss_componentIds s,
       stg_environment = non_empty (map_option bs_environment b),
       stg_agent = first_opt (ss_agent s) (first_opt (requirementFor p Purpose_security_review (ss_componentIds s))
         (if ss_agent_review s then None else map_option bs_agent b))\<rparr>)"

definition stageOf :: "ExecutionPlan \<Rightarrow> string \<Rightarrow> StageInfo option" where
  "stageOf p stageId =
     (case js_find (\<lambda>s. bs_id s = stageId) (plan_build p) of
        Some b \<Rightarrow> Some \<lparr>stg_kind = Build_stage, stg_componentIds = [bs_componentId b],
          stg_environment = Some (bs_environment b), stg_agent = Some (bs_agent b)\<rparr>
      | None \<Rightarrow> (case js_find (\<lambda>s. tst_id s = stageId) (plan_tests p) of
        Some t \<Rightarrow> Some \<lparr>stg_kind = Test_stage, stg_componentIds = [tst_componentId t],
          stg_environment = Some (tst_environment t),
          stg_agent = first_opt (requirementFor p Purpose_test [tst_componentId t])
            (requirementFor p Purpose_build [tst_componentId t])\<rparr>
      | None \<Rightarrow> (case js_find (\<lambda>s. ss_id s = stageId) (plan_security p) of
        Some s \<Rightarrow> Some (security_stage p s)
      | None \<Rightarrow> (case js_find (\<lambda>s. dr_id s = stageId) (plan_deployment p) of
        Some d \<Rightarrow> Some \<lparr>stg_kind = Deployment_stage, stg_componentIds = [dr_componentId d],
          stg_environment = non_empty (dr_environment d), stg_agent = None\<rparr>
      | None \<Rightarrow> None))))"

section \<open>Agent candidates\<close>

record PlanCandidateEvidence =
  pce_agentId :: string
  pce_qualifies :: bool
  pce_matched :: "string list"
  pce_missing :: "string list"
  pce_reasonCodes :: "string list"

definition candidate_evidence :: "string \<Rightarrow> string list \<Rightarrow> (string \<Rightarrow> string \<Rightarrow> bool) \<Rightarrow> Agent \<Rightarrow> PlanCandidateEvidence" where
  "candidate_evidence projectId required isEnabled a =
     (let missing = filter (\<lambda>c. c \<notin> set (capabilities a)) required;
          reasons = (if \<not> isEnabled (agent_id a) projectId then [''agent_disabled''] else []) @
            (if length (allowedProjects a) > 0 \<and> projectId \<notin> set (allowedProjects a) then [''project_not_allowed''] else []) @
            (if missing \<noteq> [] then [''missing_capability''] else []) in
      \<lparr>pce_agentId = agent_id a, pce_qualifies = (reasons = []),
       pce_matched = filter (\<lambda>c. c \<in> set (capabilities a)) required, pce_missing = missing, pce_reasonCodes = reasons\<rparr>)"

definition evaluateCandidates :: "(string \<Rightarrow> string \<Rightarrow> int) \<Rightarrow> Agent list \<Rightarrow> string \<Rightarrow> string list \<Rightarrow>
    (string \<Rightarrow> string \<Rightarrow> bool) \<Rightarrow> PlanCandidateEvidence list" where
  "evaluateCandidates lc as projectId required isEnabled =
     js_sort (\<lambda>a b. if of_bool (pce_qualifies b) - of_bool (pce_qualifies a) \<noteq> (0 :: int)
         then of_bool (pce_qualifies b) - of_bool (pce_qualifies a) else lc (pce_agentId a) (pce_agentId b))
       (map (candidate_evidence projectId required isEnabled)
         (js_sort (\<lambda>a b. lc (agent_id a) (agent_id b)) as))"

end
