(* ===== verification/Exec_Policy.thy ===== *)
theory Exec_Policy
  imports Exec_Contracts
begin

text \<open>
  \<open>core/execution/execution-policy.ts\<close>: the registry of immutable policy versions and the evaluation
  of one operation, deny unless permitted.
\<close>

section \<open>Policy registry\<close>

record policy_registry =
  reg_policies :: "(string \<times> ExecutionPolicy) list"
  reg_bindings :: "(string \<times> (string \<times> int)) list"
  reg_fallback :: "string \<times> int"

definition policy_key :: "string \<Rightarrow> int \<Rightarrow> string" where
  "policy_key i v = i @ ''@'' @ show_int v"

definition getPolicy :: "string \<Rightarrow> int \<Rightarrow> policy_registry \<Rightarrow> ExecutionPolicy option" where
  "getPolicy i v r = map_of (reg_policies r) (policy_key i v)"

definition registerPolicy :: "ExecutionPolicy \<Rightarrow> (policy_registry, ExecutionPolicy) op" where
  "registerPolicy p = thenS (liftE (validateExecutionPolicy p))
     (bindS (getsS (getPolicy (pol_policyId p) (pol_version p))) (\<lambda>existing.
        if existing \<noteq> None
        then throwS (ValidationError (''policy '' @ policy_key (pol_policyId p) (pol_version p) @
               '' is already registered (immutable)''))
        else thenS (modifyS (reg_policies_update (map_set (policy_key (pol_policyId p) (pol_version p)) p))) (returnS p)))"

definition bindProject :: "string \<Rightarrow> string \<Rightarrow> int \<Rightarrow> (policy_registry, unit) op" where
  "bindProject projectId i v = bindS (getsS (getPolicy i v)) (\<lambda>p.
     if p = None then throwS (ValidationError (''unknown policy '' @ policy_key i v))
     else modifyS (reg_bindings_update (map_set projectId (i, v))))"

definition forProject :: "string \<Rightarrow> policy_registry \<Rightarrow> ExecutionPolicy option" where
  "forProject projectId r =
     (case (case map_of (reg_bindings r) projectId of None \<Rightarrow> reg_fallback r | Some b \<Rightarrow> b) of (i, v) \<Rightarrow> getPolicy i v r)"

section \<open>Evaluation\<close>

record PolicyEvaluation =
  pe_reasons :: "ExecutionReason list"
  pe_rule :: "ExecutionPolicyRule option"
  pe_capabilities :: "ExecutionCapability list"
  pe_limits :: limits
  pe_network :: NetworkPolicy
  pe_filesystem :: "FilesystemScope list"
  pe_secretRefs :: "string list"
  pe_requiresApproval :: bool

definition grants_all :: "ExecutionPolicyRule \<Rightarrow> ExecutionOperationDefinition \<Rightarrow> bool" where
  "grants_all r op \<longleftrightarrow> od_id op \<in> set (pr_operationIds r) \<and> set (od_required op) \<subseteq> set (pr_capabilities r)"

definition policy_reasons :: "ExecutionPolicy \<Rightarrow> ExecutionOperationDefinition \<Rightarrow> ExecutionReason list" where
  "policy_reasons p op =
     (let forbidden = filter (\<lambda>c. c \<in> set (pol_forbidden p)) (od_required op) in
      (if forbidden \<noteq> []
       then [(''POLICY_DENIED'', ''capability explicitly forbidden: '' @ js_join '', '' (map capability_str forbidden))] else []) @
      (if \<not> riskAtLeast (pol_maxRisk p) (od_risk op)
       then [(''POLICY_DENIED'', ''operation risk '' @ exec_risk_str (od_risk op) @ '' exceeds policy maximum '' @ exec_risk_str (pol_maxRisk p))]
       else []) @
      (if js_find (\<lambda>r. grants_all r op) (pol_rules p) = None
       then [(''POLICY_DENIED'',
         if list_ex (\<lambda>r. od_id op \<in> set (pr_operationIds r)) (pol_rules p)
         then ''no policy rule grants every capability this operation requires''
         else ''no policy rule permits this operation (deny by default)'')]
       else []))"

definition optional_capabilities :: "ExecutionPolicy \<Rightarrow> ExecutionPolicyRule option \<Rightarrow> ExecutionOperationDefinition \<Rightarrow>
    ExecutionCapability list" where
  "optional_capabilities p rule op = (case rule of None \<Rightarrow> []
     | Some r \<Rightarrow> filter (\<lambda>c. c \<in> set (pr_capabilities r) \<and> c \<notin> set (pol_forbidden p) \<and> c \<notin> set (od_required op))
         (case od_optional op of None \<Rightarrow> [] | Some cs \<Rightarrow> cs))"

definition evaluatePolicy :: "ExecutionPolicy \<Rightarrow> ExecutionOperationDefinition \<Rightarrow> PolicyEvaluation" where
  "evaluatePolicy p op =
     (let reasons = policy_reasons p op; rule = js_find (\<lambda>r. grants_all r op) (pol_rules p) in
      \<lparr>pe_reasons = reasons, pe_rule = rule,
       pe_capabilities = (if reasons = [] then od_required op @ optional_capabilities p rule op else []),
       pe_limits = tightenLimits (pol_limits p) (case rule of None \<Rightarrow> None | Some r \<Rightarrow> pr_limits r),
       pe_network = (case rule of None \<Rightarrow> pol_network p
          | Some r \<Rightarrow> (case pr_network r of None \<Rightarrow> pol_network p | Some n \<Rightarrow> n)),
       pe_filesystem = (case rule of None \<Rightarrow> [] | Some r \<Rightarrow> pr_filesystem r),
       pe_secretRefs = (case rule of None \<Rightarrow> [] | Some r \<Rightarrow> (case pr_secretRefs r of None \<Rightarrow> [] | Some rs \<Rightarrow> rs)),
       pe_requiresApproval = riskAtLeast (od_risk op) (pol_approvalAt p)\<rparr>)"

definition BASELINE_DENY_ALL_POLICY :: ExecutionPolicy where
  "BASELINE_DENY_ALL_POLICY =
     \<lparr>pol_policyId = ''baseline-deny-all'', pol_version = 1, pol_rules = [],
      pol_forbidden = [Deploy_invoke, Repository_push], pol_maxRisk = Er_low, pol_approvalAt = Er_low,
      pol_limits = Map.empty(SessionTimeoutMs \<mapsto> 15 * 60 * 1000, OperationTimeoutMs \<mapsto> 5 * 60 * 1000,
        MaxOutputBytes \<mapsto> 1024 * 1024, MaxArtifactBytes \<mapsto> 256 * 1024 * 1024, MaxToolCalls \<mapsto> 25),
      pol_network = Deny_all, pol_grantTtlMs = 15 * 60 * 1000\<rparr>"

section \<open>Laws of the registry\<close>

lemma show_int_no_at: "CHR ''@'' \<notin> set (show_int v)"
proof (cases "v < 0")
  case True
  then show ?thesis
    using show_int_digits [of "- v"]
    by (auto simp: show_int_def digits_ok_def list_all_iff dec_digit_def)
next
  case False
  then show ?thesis
    using show_int_digits [of v] by (auto simp: digits_ok_def list_all_iff dec_digit_def)
qed

lemma show_int_inj: "show_int v = show_int w \<Longrightarrow> v = w"
proof -
  assume eq: "show_int v = show_int w"
  have digits: "\<And>i. 0 \<le> i \<Longrightarrow> CHR ''-'' \<notin> set (show_int i)"
    using show_int_digits by (force simp: digits_ok_def list_all_iff dec_digit_def)
  show "v = w"
  proof (cases "v < 0"; cases "w < 0")
    assume "v < 0" "w < 0"
    then show ?thesis using eq by (simp add: show_int_def show_nat_inj)
  next
    assume "v < 0" "\<not> w < 0"
    then have "CHR ''-'' \<in> set (show_int v)" by (simp add: show_int_def)
    with eq digits [of w] \<open>\<not> w < 0\<close> show ?thesis by simp
  next
    assume "\<not> v < 0" "w < 0"
    then have "CHR ''-'' \<in> set (show_int w)" by (simp add: show_int_def)
    with eq digits [of v] \<open>\<not> v < 0\<close> show ?thesis by simp
  next
    assume "\<not> v < 0" "\<not> w < 0"
    then show ?thesis using eq by (simp add: show_int_def show_nat_inj)
  qed
qed

lemma last_part: "c \<notin> set s \<Longrightarrow> c \<notin> set t \<Longrightarrow> a @ c # s = b @ c # t \<Longrightarrow> a = b \<and> s = t"
proof -
  assume st: "c \<notin> set s" "c \<notin> set t" and eq: "a @ c # s = b @ c # t"
  have cut: "takeWhile (\<lambda>x. x \<noteq> c) (rev (a @ c # s)) = rev s" if "c \<notin> set s" for a s
    using that by (auto simp: takeWhile_tail takeWhile_eq_all_conv)
  have "rev s = rev t" using cut [OF st(1), of a] cut [OF st(2), of b] eq by metis
  with eq show ?thesis by simp
qed

lemma policy_key_inj: "policy_key i v = policy_key j w \<longleftrightarrow> i = j \<and> v = w"
proof
  assume "policy_key i v = policy_key j w"
  then have "i @ CHR ''@'' # show_int v = j @ CHR ''@'' # show_int w" by (simp add: policy_key_def)
  with last_part [OF show_int_no_at show_int_no_at] have "i = j" "show_int v = show_int w" by blast+
  then show "i = j \<and> v = w" using show_int_inj by blast
qed simp

end
