(* ===== verification/Exec_Operations.thy ===== *)
theory Exec_Operations
  imports Exec_Contracts Sorting
begin

text \<open>
  \<open>core/execution/execution-operations.ts\<close> (registered operations, validation of structured input,
  rendering of argument templates) and \<open>core/execution/sandbox.ts\<close> (selection of a provider).
\<close>

section \<open>Operation registry\<close>

type_synonym operation_registry = "(string \<times> ExecutionOperationDefinition) list"

definition getOperation :: "string \<Rightarrow> operation_registry \<Rightarrow> ExecutionOperationDefinition option" where
  "getOperation i r = map_of r i"

definition registerOperation :: "ExecutionOperationDefinition \<Rightarrow> (operation_registry, ExecutionOperationDefinition) op" where
  "registerOperation op = thenS (liftE (validateOperationDefinition op))
     (bindS (getsS (getOperation (od_id op))) (\<lambda>existing.
        if existing \<noteq> None then throwS (ValidationError (''operation '' @ od_id op @ '' is already registered''))
        else thenS (modifyS (map_set (od_id op) op)) (returnS op)))"

definition forStageKind :: "(string \<Rightarrow> string \<Rightarrow> int) \<Rightarrow> ExecutionStageKind \<Rightarrow> operation_registry \<Rightarrow>
    ExecutionOperationDefinition list" where
  "forStageKind lc k r = js_sort (\<lambda>a b. lc (od_id a) (od_id b)) (filter (\<lambda>op. od_stageKind op = k) (map snd r))"

definition listOperations :: "(string \<Rightarrow> string \<Rightarrow> int) \<Rightarrow> operation_registry \<Rightarrow> ExecutionOperationDefinition list" where
  "listOperations lc r = js_sort (\<lambda>a b. lc (od_id a) (od_id b)) (map snd r)"

section \<open>Structured input\<close>

text \<open>Property access on a plain object also finds what it inherits; inherited values are no strings or numbers.\<close>

definition OBJECT_PROTOTYPE :: "string list" where
  "OBJECT_PROTOTYPE = [''constructor'', ''__defineGetter__'', ''__defineSetter__'', ''hasOwnProperty'',
     ''__lookupGetter__'', ''__lookupSetter__'', ''isPrototypeOf'', ''propertyIsEnumerable'', ''toString'',
     ''valueOf'', ''__proto__'', ''toLocaleString'']"

definition js_get :: "fields \<Rightarrow> string \<Rightarrow> json" where
  "js_get o' k = (case map_of o' k of Some v \<Rightarrow> v
     | None \<Rightarrow> if k \<in> set OBJECT_PROTOTYPE then JObj [] else JUndefined)"

definition js_in :: "string \<Rightarrow> string list \<Rightarrow> bool" where
  "js_in k keys \<longleftrightarrow> k \<in> set keys \<or> k \<in> set OBJECT_PROTOTYPE"

definition invalid_input :: "string \<Rightarrow> error" where
  "invalid_input detail = ExecutionDeniedError ''INVALID_TOOL_INPUT'' detail"

definition sha256_ok :: "string \<Rightarrow> bool" where
  "sha256_ok s \<longleftrightarrow> length s = 64 \<and> list_all hex_digit s"

definition check_value :: "string \<Rightarrow> field_kind \<Rightarrow> json \<Rightarrow> json res" where
  "check_value n k v = (case k of
     F_enum vs \<Rightarrow> (case v of JStr s \<Rightarrow>
         if s \<in> set vs then Inr v else Inl (invalid_input (''input.'' @ n @ '' must be one of the allowed values''))
       | _ \<Rightarrow> Inl (invalid_input (''input.'' @ n @ '' must be one of the allowed values'')))
   | F_text m \<Rightarrow> (case v of JStr s \<Rightarrow> bindE (checks
         [throw_if (int (utf8_length s) > m)
            (ExecutionDeniedError ''RESOURCE_LIMIT'' (''input.'' @ n @ '' exceeds '' @ show_int m @ '' bytes'')),
          throw_if (CHR 0x00 \<in> set s) (invalid_input (''input.'' @ n @ '' must not contain NUL characters''))])
         (\<lambda>_. Inr v)
       | _ \<Rightarrow> Inl (invalid_input (''input.'' @ n @ '' must be text'')))
   | F_sha256 \<Rightarrow> (case v of JStr s \<Rightarrow>
         if sha256_ok s then Inr v else Inl (invalid_input (''input.'' @ n @ '' must be a lowercase hex sha256''))
       | _ \<Rightarrow> Inl (invalid_input (''input.'' @ n @ '' must be a lowercase hex sha256'')))
   | F_integer lo hi \<Rightarrow> (case v of JNum i \<Rightarrow>
         if lo \<le> i \<and> i \<le> hi then Inr v
         else Inl (invalid_input (''input.'' @ n @ '' must be an integer in ['' @ show_int lo @ '', '' @ show_int hi @ '']''))
       | _ \<Rightarrow> Inl (invalid_input (''input.'' @ n @ '' must be an integer in ['' @ show_int lo @ '', '' @ show_int hi @ '']'')))
   | F_workspace_path \<Rightarrow> (case v of JStr s \<Rightarrow> bindE (resolveWorkspacePath s) (\<lambda>q.
         if js_startsWith q ''-'' then Inl (violation (''input.'' @ n @ '' must not start with '' @ [CHR 0x22, CHR ''-'', CHR 0x22]))
         else Inr (JStr q))
       | _ \<Rightarrow> Inl (invalid_input (''input.'' @ n @ '' must be a path''))))"

fun check_fields :: "fields \<Rightarrow> (string \<times> OperationInputField) list \<Rightarrow> fields res" where
  "check_fields provided [] = Inr []"
| "check_fields provided ((n, f) # fs) =
     (if js_get provided n = JUndefined
      then if if_required f then Inl (invalid_input (''input.'' @ n @ '' is required'')) else check_fields provided fs
      else bindE (check_value n (if_kind f) (js_get provided n)) (\<lambda>v.
             bindE (check_fields provided fs) (\<lambda>out. Inr ((n, v) # out))))"

definition validateOperationInput :: "ExecutionOperationDefinition \<Rightarrow> fields option \<Rightarrow> fields res" where
  "validateOperationInput op input =
     (let provided = (case input of None \<Rightarrow> [] | Some fs \<Rightarrow> fs);
          unexpected = filter (\<lambda>k. \<not> js_in k (map fst (od_input op))) (map fst provided) in
      if unexpected \<noteq> [] then Inl (invalid_input (''unexpected input: '' @ js_join '', '' (js_default_sort unexpected)))
      else check_fields provided (od_input op))"

section \<open>Structured invocations\<close>

record StructuredInvocation =
  si_executableId :: string
  si_operationId :: string
  si_argv :: "string list"
  si_workingDirectoryRef :: string
  si_environmentVariables :: "string list"
  si_timeoutMs :: int
  si_input :: fields
  si_requiredPaths :: "string list option"

definition render_slot :: "fields \<Rightarrow> ArgumentSlot \<Rightarrow> string res" where
  "render_slot input slot = (case slot of
     Literal s \<Rightarrow> Inr s
   | Enum_input n vs \<Rightarrow> (case js_get input n of
         JStr s \<Rightarrow> if s \<in> set vs then Inr s else Inl (invalid_input (''argument '' @ n @ '' is invalid''))
       | _ \<Rightarrow> Inl (invalid_input (''argument '' @ n @ '' is invalid'')))
   | Integer_input n lo hi \<Rightarrow> (case js_get input n of
         JNum i \<Rightarrow> if lo \<le> i \<and> i \<le> hi then Inr (show_int i) else Inl (invalid_input (''argument '' @ n @ '' is invalid''))
       | _ \<Rightarrow> Inl (invalid_input (''argument '' @ n @ '' is invalid'')))
   | Workspace_path_input n \<Rightarrow> (case js_get input n of
         JStr s \<Rightarrow> bindE (resolveWorkspacePath s) (\<lambda>q.
           if js_startsWith q ''-'' then Inl (violation (''argument '' @ n @ '' looks like a flag'')) else Inr q)
       | _ \<Rightarrow> Inl (violation ''path must be a string'')))"

fun render_slots :: "fields \<Rightarrow> ArgumentSlot list \<Rightarrow> string list res" where
  "render_slots input [] = Inr []"
| "render_slots input (s # ss) = bindE (render_slot input s) (\<lambda>a. bindE (render_slots input ss) (\<lambda>as. Inr (a # as)))"

definition buildStructuredInvocation :: "ExecutableDefinition \<Rightarrow> string \<Rightarrow> fields \<Rightarrow> string \<Rightarrow> int \<Rightarrow>
    StructuredInvocation res" where
  "buildStructuredInvocation x operationId input cwd timeoutMs = (case map_of (xd_operations x) operationId of
     None \<Rightarrow> Inl (ExecutionDeniedError ''TOOL_NOT_ALLOWED''
       (''executable '' @ xd_executableId x @ '' has no operation '' @ operationId))
   | Some template \<Rightarrow> bindE (render_slots input template) (\<lambda>argv.
       if timeoutMs \<le> 0 then Inl (ExecutionDeniedError ''RESOURCE_LIMIT'' ''invocation must be time-bounded'')
       else Inr \<lparr>si_executableId = xd_executableId x, si_operationId = operationId, si_argv = argv,
         si_workingDirectoryRef = cwd, si_environmentVariables = xd_environmentVariables x,
         si_timeoutMs = timeoutMs, si_input = input,
         si_requiredPaths = (case xd_requiredPaths x of None \<Rightarrow> None | Some m \<Rightarrow> map_of m operationId)\<rparr>))"

section \<open>Sandbox providers\<close>

text \<open>A provider is code behind a port; \<open>sp_available\<close> is its answer for an instance, \<open>sp_caps\<close> what it declares.\<close>

record SandboxCapabilities =
  sc_enforcedLimits :: "ResourceLimitKey list"
  sc_denyAll :: bool
  sc_allowHosts :: bool
  sc_networkIsolation :: bool
  sc_filesystemIsolation :: bool
  sc_maxConcurrent :: int
  sc_executables :: "string list option"
  sc_workspaceExecution :: bool
  sc_simulated :: bool
  sc_requiresRouting :: bool

record SandboxProvider =
  sp_providerId :: string
  sp_kind :: string
  sp_caps :: SandboxCapabilities
  sp_available :: "string \<Rightarrow> bool"

type_synonym sandbox_registry = "(string \<times> SandboxProvider) list"

record SandboxNeeds =
  sn_workspaceAccess :: WorkspaceAccess
  sn_network :: bool
  sn_hostProcess :: bool
  sn_executableId :: "string option"
  sn_class :: "ExecutionClass option"
  sn_trustedHostBuild :: bool
  sn_providerId :: "string option"

definition registerProvider :: "SandboxProvider \<Rightarrow> (sandbox_registry, unit) op" where
  "registerProvider p = bindS (getsS (\<lambda>r. map_of r (sp_providerId p))) (\<lambda>existing.
     if existing \<noteq> None then throwS (ForeignError (''sandbox provider '' @ sp_providerId p @ '' is already registered''))
     else modifyS (map_set (sp_providerId p) p))"

definition isolation :: "SandboxProvider \<Rightarrow> int" where
  "isolation p = of_bool (sc_filesystemIsolation (sp_caps p)) + of_bool (sc_networkIsolation (sp_caps p))"

definition compareProviders :: "(string \<Rightarrow> string \<Rightarrow> int) \<Rightarrow> SandboxProvider \<Rightarrow> SandboxProvider \<Rightarrow> int" where
  "compareProviders lc a b = (if isolation b - isolation a \<noteq> 0 then isolation b - isolation a
     else lc (sp_providerId a) (sp_providerId b))"

definition supports_mode :: "SandboxCapabilities \<Rightarrow> NetworkPolicy \<Rightarrow> bool" where
  "supports_mode c n = (case n of Deny_all \<Rightarrow> sc_denyAll c | Allow_hosts ds \<Rightarrow> sc_allowHosts c)"

definition can_serve :: "string \<Rightarrow> NetworkPolicy \<Rightarrow> SandboxNeeds \<Rightarrow> SandboxProvider \<Rightarrow> bool" where
  "can_serve instanceId network needs p = (let caps = sp_caps p in
     if (case sn_providerId needs of Some i \<Rightarrow> sp_providerId p \<noteq> i | None \<Rightarrow> sc_requiresRouting caps) then False
     else if \<not> sp_available p instanceId then False
     else if (case (sn_executableId needs, sc_executables caps) of (Some x, Some xs) \<Rightarrow> x \<notin> set xs | _ \<Rightarrow> False) then False
     else if \<not> supports_mode caps network then False
     else if \<not> list_all (\<lambda>k. k \<in> set (sc_enforcedLimits caps)) REQUIRED_LIMIT_KEYS then False
     else if (network \<noteq> Deny_all \<or> sn_network needs) \<and> \<not> sc_networkIsolation caps then False
     else if sc_filesystemIsolation caps \<and> sc_networkIsolation caps then True
     else if sn_hostProcess needs \<and> \<not> sc_workspaceExecution caps \<and> sn_workspaceAccess needs = Wa_none \<and> \<not> sn_network needs
     then True
     else sn_trustedHostBuild needs \<and> sn_class needs = Some Project_code \<and> sc_workspaceExecution caps \<and> \<not> sn_network needs)"

definition selectProvider :: "(string \<Rightarrow> string \<Rightarrow> int) \<Rightarrow> sandbox_registry \<Rightarrow> string \<Rightarrow> NetworkPolicy \<Rightarrow> SandboxNeeds \<Rightarrow>
    SandboxProvider option" where
  "selectProvider lc r instanceId network needs =
     js_find (can_serve instanceId network needs) (js_sort (compareProviders lc) (map snd r))"

text \<open>\<open>limitEnforcementFor\<close>: per limit that is set, whether the provider enforces it.\<close>

definition limitEnforcementFor :: "SandboxProvider option \<Rightarrow> limits \<Rightarrow> (ResourceLimitKey \<times> bool) list" where
  "limitEnforcementFor p ls =
     map (\<lambda>k. (k, case p of None \<Rightarrow> False | Some q \<Rightarrow> k \<in> set (sc_enforcedLimits (sp_caps q))))
       (filter (\<lambda>k. ls k \<noteq> None) (REQUIRED_LIMIT_KEYS @ OPTIONAL_LIMIT_KEYS))"

section \<open>Laws\<close>

text \<open>Where a rendered argument comes from.\<close>

definition argument_from :: "fields \<Rightarrow> ArgumentSlot \<Rightarrow> string \<Rightarrow> bool" where
  "argument_from input slot a = (case slot of
     Literal s \<Rightarrow> a = s
   | Enum_input n vs \<Rightarrow> a \<in> set vs \<and> js_get input n = JStr a
   | Integer_input n lo hi \<Rightarrow> (\<exists>i. lo \<le> i \<and> i \<le> hi \<and> js_get input n = JNum i \<and> a = show_int i)
   | Workspace_path_input n \<Rightarrow> (\<exists>s. js_get input n = JStr s \<and> resolveWorkspacePath s = Inr a \<and> \<not> js_startsWith a ''-''))"

lemma render_slot_Inr: "render_slot input slot = Inr a \<Longrightarrow> argument_from input slot a"
  by (cases slot)
    (auto simp: render_slot_def argument_from_def bindE_Inr_iff split: json.splits if_splits)

lemma render_slots_Inr: "render_slots input ss = Inr as \<Longrightarrow> list_all2 (argument_from input) ss as"
  by (induction ss arbitrary: "as") (auto simp: bindE_Inr_iff dest: render_slot_Inr)

text \<open>What input validation accepts for a field.\<close>

definition field_value :: "field_kind \<Rightarrow> json \<Rightarrow> bool" where
  "field_value k v = (case k of
     F_enum vs \<Rightarrow> (\<exists>s \<in> set vs. v = JStr s)
   | F_text m \<Rightarrow> (\<exists>s. v = JStr s \<and> int (utf8_length s) \<le> m \<and> CHR 0x00 \<notin> set s)
   | F_sha256 \<Rightarrow> (\<exists>s. v = JStr s \<and> sha256_ok s)
   | F_integer lo hi \<Rightarrow> (\<exists>i. v = JNum i \<and> lo \<le> i \<and> i \<le> hi)
   | F_workspace_path \<Rightarrow> (\<exists>p q. v = JStr q \<and> resolveWorkspacePath p = Inr q \<and> \<not> js_startsWith q ''-''))"

lemma check_value_Inr: "check_value n k v = Inr w \<Longrightarrow> field_value k w"
  by (cases k)
    (auto simp: check_value_def field_value_def bindE_Inr_iff checks_Inr_iff split: json.splits if_splits)

lemma check_fields_cases:
  assumes "check_fields provided ((n, f) # fs) = Inr out"
  obtains (absent) "js_get provided n = JUndefined" "\<not> if_required f" "check_fields provided fs = Inr out"
  | (present) v rest where "js_get provided n \<noteq> JUndefined" "field_value (if_kind f) v"
      "check_fields provided fs = Inr rest" "out = (n, v) # rest"
  using assms by (auto simp: bindE_Inr_iff split: if_splits dest: check_value_Inr)

lemma check_fields_Inr:
  "check_fields provided fs = Inr out \<Longrightarrow>
     map fst out = map fst (filter (\<lambda>(n, f). js_get provided n \<noteq> JUndefined) fs) \<and>
     (\<forall>(n, v) \<in> set out. \<exists>f. (n, f) \<in> set fs \<and> field_value (if_kind f) v) \<and>
     (\<forall>(n, f) \<in> set fs. if_required f \<longrightarrow> n \<in> fst ` set out)"
proof (induction fs arbitrary: out)
  case (Cons nf fs)
  obtain n f where nf: "nf = (n, f)" by (cases nf)
  have "check_fields provided ((n, f) # fs) = Inr out" using Cons.prems by (simp only: nf)
  then show ?case
  proof (cases rule: check_fields_cases)
    case absent
    from Cons.IH [OF absent(3)] absent(1,2) show ?thesis by (auto simp: nf)
  next
    case (present v rest)
    from Cons.IH [OF present(3)] present(1,2,4) show ?thesis by (auto simp: nf)
  qed
qed simp

lemma compareProviders_le:
  "compareProviders lc a b \<le> 0 \<longleftrightarrow> isolation b < isolation a \<or>
     (isolation b = isolation a \<and> lc (sp_providerId a) (sp_providerId b) \<le> 0)"
  by (auto simp: compareProviders_def)

lemma comparison_providers:
  assumes lc: "comparison lc"
  shows "comparison (compareProviders lc)"
proof
  fix a b c
  show "compareProviders lc a b \<le> 0 \<or> compareProviders lc b a \<le> 0"
    using comparison.total [OF lc, of "sp_providerId a" "sp_providerId b"] by (auto simp: compareProviders_le)
  assume "compareProviders lc a b \<le> 0" "compareProviders lc b c \<le> 0"
  then show "compareProviders lc a c \<le> 0"
    using comparison.trans [OF lc, of "sp_providerId a" "sp_providerId b" "sp_providerId c"]
    unfolding compareProviders_le by linarith
qed

lemma js_find_split:
  "js_find p xs = Some x \<Longrightarrow> \<exists>ys zs. xs = ys @ x # zs \<and> p x \<and> (\<forall>y \<in> set ys. \<not> p y)"
proof (induction xs)
  case (Cons y xs)
  show ?case
  proof (cases "p y")
    case True
    with Cons.prems show ?thesis by (intro exI [of _ "[]"] exI [of _ xs]) auto
  next
    case False
    with Cons obtain ys zs where "xs = ys @ x # zs" "p x" "\<forall>y \<in> set ys. \<not> p y" by auto
    with False show ?thesis by (intro exI [of _ "y # ys"] exI [of _ zs]) auto
  qed
qed simp

text \<open>The selected provider serves the operation, and none that does is better isolated.\<close>

lemma selectProvider_best:
  assumes "comparison lc" "selectProvider lc r i n needs = Some p"
  shows "p \<in> snd ` set r \<and> can_serve i n needs p \<and>
    (\<forall>q \<in> snd ` set r. can_serve i n needs q \<longrightarrow> isolation q \<le> isolation p)"
proof -
  let ?xs = "js_sort (compareProviders lc) (map snd r)"
  from assms(2) obtain ys zs where xs: "?xs = ys @ p # zs" and p: "can_serve i n needs p"
    and before: "\<forall>q \<in> set ys. \<not> can_serve i n needs q"
    using js_find_split [of "can_serve i n needs" ?xs p] unfolding selectProvider_def by metis
  have elems: "set ?xs = snd ` set r" by simp
  have "sorted_wrt (\<lambda>a b. compareProviders lc a b \<le> 0) ?xs"
    by (rule comparison.sort_sorted [OF comparison_providers [OF assms(1)]])
  then have after: "\<forall>q \<in> set zs. compareProviders lc p q \<le> 0" unfolding xs by (auto simp: sorted_wrt_append)
  have "isolation q \<le> isolation p" if q: "q \<in> snd ` set r" "can_serve i n needs q" for q
  proof -
    have "q \<in> set (ys @ p # zs)" using q(1) elems xs by metis
    with before q(2) after have "q = p \<or> compareProviders lc p q \<le> 0" by auto
    then show ?thesis unfolding compareProviders_le by auto
  qed
  moreover have "p \<in> snd ` set r" using elems xs by (metis in_set_conv_decomp)
  ultimately show ?thesis using p by blast
qed

text \<open>A served operation that reaches network or workspace is isolated, or its rule opted in.\<close>

lemma can_serve_isolated:
  assumes "can_serve i n needs p"
  shows "n \<noteq> Deny_all \<or> sn_network needs \<Longrightarrow>
      sc_networkIsolation (sp_caps p)"
    and "\<not> (sc_filesystemIsolation (sp_caps p) \<and> sc_networkIsolation (sp_caps p)) \<Longrightarrow>
      \<not> sn_network needs \<and>
      (sn_hostProcess needs \<and> sn_workspaceAccess needs = Wa_none \<and> \<not> sc_workspaceExecution (sp_caps p) \<or>
       sn_trustedHostBuild needs \<and> sn_class needs = Some Project_code \<and> sc_workspaceExecution (sp_caps p))"
    and "\<forall>k \<in> set REQUIRED_LIMIT_KEYS. k \<in> set (sc_enforcedLimits (sp_caps p))"
  using assms by (auto simp: can_serve_def Let_def list_all_iff split: if_splits)

end
