(* ===== verification/Exec_Sessions.thy ===== *)
theory Exec_Sessions
  imports Exec_Contracts Sorting
begin

text \<open>
  \<open>core/execution/execution-sessions.ts\<close> with the session data of \<open>contracts/execution.ts\<close>: the
  lifecycle of an execution session, its attempts, cancellation, and the compare-and-swap store.
\<close>

section \<open>Sessions\<close>

datatype ExecutionSessionStatus =
    Es_created | Es_validating | Es_ready | Es_running | Es_cancelling | Es_cancelled | Es_succeeded
  | Es_failed | Es_timed_out | Es_denied

fun session_status_str :: "ExecutionSessionStatus \<Rightarrow> string" where
  "session_status_str Es_created = ''created''"
| "session_status_str Es_validating = ''validating''"
| "session_status_str Es_ready = ''ready''"
| "session_status_str Es_running = ''running''"
| "session_status_str Es_cancelling = ''cancelling''"
| "session_status_str Es_cancelled = ''cancelled''"
| "session_status_str Es_succeeded = ''succeeded''"
| "session_status_str Es_failed = ''failed''"
| "session_status_str Es_timed_out = ''timed_out''"
| "session_status_str Es_denied = ''denied''"

fun SESSION_TRANSITIONS :: "ExecutionSessionStatus \<Rightarrow> ExecutionSessionStatus list" where
  "SESSION_TRANSITIONS Es_created = [Es_validating, Es_cancelled]"
| "SESSION_TRANSITIONS Es_validating = [Es_ready, Es_denied, Es_cancelled]"
| "SESSION_TRANSITIONS Es_ready = [Es_running, Es_cancelled, Es_denied]"
| "SESSION_TRANSITIONS Es_running = [Es_cancelling, Es_succeeded, Es_failed, Es_timed_out]"
| "SESSION_TRANSITIONS Es_cancelling = [Es_cancelled, Es_failed, Es_timed_out]"
| "SESSION_TRANSITIONS _ = []"

definition isTerminalSession :: "ExecutionSessionStatus \<Rightarrow> bool" where
  "isTerminalSession st \<longleftrightarrow> st \<in> set [Es_cancelled, Es_succeeded, Es_failed, Es_timed_out, Es_denied]"

definition canTransitionSession :: "ExecutionSessionStatus \<Rightarrow> ExecutionSessionStatus \<Rightarrow> bool" where
  "canTransitionSession a b \<longleftrightarrow> b \<in> set (SESSION_TRANSITIONS a)"

datatype ExecutionAttemptStatus = At_pending | At_running | At_succeeded | At_failed | At_timed_out | At_cancelled

fun attempt_status_str :: "ExecutionAttemptStatus \<Rightarrow> string" where
  "attempt_status_str At_pending = ''pending''"
| "attempt_status_str At_running = ''running''"
| "attempt_status_str At_succeeded = ''succeeded''"
| "attempt_status_str At_failed = ''failed''"
| "attempt_status_str At_timed_out = ''timed_out''"
| "attempt_status_str At_cancelled = ''cancelled''"

definition attempt_closed :: "ExecutionAttemptStatus \<Rightarrow> bool" where
  "attempt_closed st \<longleftrightarrow> st \<in> set [At_succeeded, At_failed, At_timed_out, At_cancelled]"

record ExecutionAttempt =
  ea_attemptId :: string
  ea_sessionId :: string
  ea_number :: nat
  ea_status :: ExecutionAttemptStatus
  ea_startedAt :: "timestamp option"
  ea_endedAt :: "timestamp option"
  ea_receiptId :: "string option"

record CancellationRequest =
  cr_requestedBy :: string
  cr_requestedAt :: timestamp
  cr_reason :: string
  cr_kill :: bool

record ExecutionSession =
  es_sessionId :: string
  es_projectId :: string
  es_planId :: string
  es_planVersion :: int
  es_stageId :: string
  es_stageKind :: ExecutionStageKind
  es_operationId :: string
  es_toolId :: string
  es_operationIds :: "string list option"
  es_persistent :: bool
  es_agentId :: string
  es_environmentInstanceId :: string
  es_policy :: "string \<times> int"
  es_approvalIds :: "string list"
  es_risk :: ExecutionRiskLevel
  es_workspace :: ExecutionWorkspace
  es_grants :: "CapabilityGrant list"
  es_limits :: limits
  es_enforcement :: "(ResourceLimitKey \<times> bool) list"
  es_network :: NetworkPolicy
  es_sandbox :: "(string \<times> string) option"
  es_status :: ExecutionSessionStatus
  es_reasons :: "ExecutionReason list"
  es_requestedBy :: string
  es_idempotencyKey :: string
  es_cancellation :: "CancellationRequest option"
  es_attempts :: "ExecutionAttempt list"
  es_createdAt :: timestamp
  es_startedAt :: "timestamp option"
  es_endedAt :: "timestamp option"
  es_revision :: int

text \<open>The patch of a transition: new reasons, a cancellation.\<close>

record session_patch =
  sp_reasons :: "ExecutionReason list option"
  sp_cancellation :: "CancellationRequest option"

definition plain_patch :: session_patch where
  "plain_patch = \<lparr>sp_reasons = None, sp_cancellation = None\<rparr>"

definition transitionSession :: "ExecutionSession \<Rightarrow> ExecutionSessionStatus \<Rightarrow> timestamp \<Rightarrow> session_patch \<Rightarrow>
    ExecutionSession res" where
  "transitionSession s to at patch =
     (if \<not> canTransitionSession (es_status s) to
      then Inl (StateTransitionError (''execution session '' @ es_sessionId s @ '' cannot move from '' @
        session_status_str (es_status s) @ '' to '' @ session_status_str to))
      else Inr (s \<lparr>es_reasons := (case sp_reasons patch of None \<Rightarrow> es_reasons s | Some rs \<Rightarrow> rs),
        es_cancellation := (case sp_cancellation patch of None \<Rightarrow> es_cancellation s | Some c \<Rightarrow> Some c),
        es_status := to,
        es_startedAt := (if to = Es_running \<and> es_startedAt s = None then Some at else es_startedAt s),
        es_endedAt := (if isTerminalSession to then Some at else es_endedAt s),
        es_revision := es_revision s + 1\<rparr>))"

definition beginAttempt :: "ExecutionSession \<Rightarrow> string \<Rightarrow> timestamp \<Rightarrow> ExecutionSession res" where
  "beginAttempt s attemptId at =
     (if es_status s \<noteq> Es_running
      then Inl (StateTransitionError (''execution session '' @ es_sessionId s @ '' is '' @
        session_status_str (es_status s) @ ''; attempts need a running session''))
      else if list_ex (\<lambda>a. \<not> attempt_closed (ea_status a)) (es_attempts s)
      then Inl (StateTransitionError (''execution session '' @ es_sessionId s @ '' already has an open attempt''))
      else Inr (s \<lparr>es_attempts := es_attempts s @ [\<lparr>ea_attemptId = attemptId, ea_sessionId = es_sessionId s,
          ea_number = length (es_attempts s) + 1, ea_status = At_running, ea_startedAt = Some at,
          ea_endedAt = None, ea_receiptId = None\<rparr>],
        es_revision := es_revision s + 1\<rparr>))"

text \<open>\<open>receiptId\<close> is kept when it is given and not empty.\<close>

definition close_attempt :: "ExecutionAttemptStatus \<Rightarrow> timestamp \<Rightarrow> string option \<Rightarrow> ExecutionAttempt \<Rightarrow> ExecutionAttempt" where
  "close_attempt st at receiptId a = a \<lparr>ea_status := st, ea_endedAt := Some at,
     ea_receiptId := (case receiptId of None \<Rightarrow> ea_receiptId a | Some r \<Rightarrow> if r = [] then ea_receiptId a else Some r)\<rparr>"

definition finishAttempt :: "ExecutionSession \<Rightarrow> string \<Rightarrow> ExecutionAttemptStatus \<Rightarrow> timestamp \<Rightarrow> string option \<Rightarrow>
    ExecutionSession res" where
  "finishAttempt s attemptId st at receiptId =
     (case js_find (\<lambda>a. ea_attemptId a = attemptId) (es_attempts s) of
        None \<Rightarrow> Inl (ValidationError (''unknown attempt '' @ attemptId))
      | Some a \<Rightarrow>
          if attempt_closed (ea_status a)
          then Inl (StateTransitionError (''attempt '' @ attemptId @ '' is already '' @ attempt_status_str (ea_status a)))
          else Inr (s \<lparr>es_attempts := map (\<lambda>b. if ea_attemptId b = attemptId then close_attempt st at receiptId b else b) (es_attempts s),
            es_revision := es_revision s + 1\<rparr>))"

datatype CancelOutcome =
    Co_cancelled | Co_cancelling | Co_already_cancelled | Co_already_cancelling | Co_already_terminal

definition planCancellation :: "ExecutionSession \<Rightarrow> CancellationRequest \<Rightarrow> (CancelOutcome \<times> ExecutionSession) res" where
  "planCancellation s req =
     (if es_status s = Es_cancelled then Inr (Co_already_cancelled, s)
      else if es_status s = Es_cancelling then Inr (Co_already_cancelling, s)
      else if isTerminalSession (es_status s) then Inr (Co_already_terminal, s)
      else if es_status s = Es_running
      then bindE (transitionSession s Es_cancelling (cr_requestedAt req) \<lparr>sp_reasons = None, sp_cancellation = Some req\<rparr>)
        (\<lambda>t. Inr (Co_cancelling, t))
      else bindE (transitionSession s Es_cancelled (cr_requestedAt req)
          \<lparr>sp_reasons = Some (es_reasons s @ [(''CANCELLED'', (if cr_kill req then ''kill'' else ''cancel'') @ '' requested by an operator'')]),
           sp_cancellation = Some req\<rparr>)
        (\<lambda>t. Inr (Co_cancelled, t)))"

section \<open>Store\<close>

record session_store =
  st_sessions :: "(string \<times> ExecutionSession) list"
  st_keys :: "(string \<times> string) list"

definition idempotency_key :: "string \<Rightarrow> string \<Rightarrow> string" where
  "idempotency_key by k = by @ CHR 0x00 # k"

definition getSession :: "string \<Rightarrow> session_store \<Rightarrow> ExecutionSession option" where
  "getSession i st = map_of (st_sessions st) i"

definition findByIdempotencyKey :: "string \<Rightarrow> string \<Rightarrow> session_store \<Rightarrow> ExecutionSession option" where
  "findByIdempotencyKey by k st = (case map_of (st_keys st) (idempotency_key by k) of
     None \<Rightarrow> None | Some i \<Rightarrow> if i = [] then None else getSession i st)"

definition listSessions :: "(string \<Rightarrow> string \<Rightarrow> int) \<Rightarrow> string \<Rightarrow> session_store \<Rightarrow> ExecutionSession list" where
  "listSessions lc projectId st = js_sort (\<lambda>a b. if es_createdAt b \<noteq> es_createdAt a then es_createdAt b - es_createdAt a
       else lc (es_sessionId a) (es_sessionId b))
     (filter (\<lambda>s. es_projectId s = projectId) (map snd (st_sessions st)))"

text \<open>\<open>commit\<close>: the Boolean is true for \<open>committed\<close>, false for \<open>conflict\<close>.\<close>

definition insertSession :: "ExecutionSession \<Rightarrow> session_store \<Rightarrow> bool \<times> session_store" where
  "insertSession s st = (let key = idempotency_key (es_requestedBy s) (es_idempotencyKey s) in
     if getSession (es_sessionId s) st \<noteq> None \<or> map_of (st_keys st) key \<noteq> None then (False, st)
     else (True, st \<lparr>st_keys := map_set key (es_sessionId s) (st_keys st),
       st_sessions := map_set (es_sessionId s) s (st_sessions st)\<rparr>))"

definition updateSession :: "ExecutionSession \<Rightarrow> int \<Rightarrow> session_store \<Rightarrow> bool \<times> session_store" where
  "updateSession s expectedRevision st = (case getSession (es_sessionId s) st of
     None \<Rightarrow> (False, st)
   | Some current \<Rightarrow> if es_revision current \<noteq> expectedRevision then (False, st)
       else (True, st \<lparr>st_sessions := map_set (es_sessionId s) s (st_sessions st)\<rparr>))"

end
