(* ===== verification/Env_Laws.thy ===== *)
theory Env_Laws
  imports Env_Router
begin

text \<open>
  The registry of environments keeps its rules, and routing is exact: the selected instance fits the
  requirement, no fitting instance ranks before it, and nothing is selected only when nothing fits.
\<close>

section \<open>The registry invariant\<close>

definition instance_ok :: "env_registry \<Rightarrow> EnvironmentInstance \<Rightarrow> bool" where
  "instance_ok r i \<longleftrightarrow> validateEnvironmentInstance i = Inr () \<and> assertNoCredentials i = Inr () \<and>
     getDescriptor (ei_descriptorId i) r \<noteq> None \<and> getHost (ei_hostId i) r \<noteq> None"

definition env_ok :: "env_registry \<Rightarrow> bool" where
  "env_ok r \<longleftrightarrow> repo_ok host_id (env_hosts r) \<and> repo_ok ei_id (env_instances r) \<and>
     (\<forall>i \<in> set (listInstances r). instance_ok r i) \<and>
     (\<forall>i \<in> set (listInstances r). \<forall>j \<in> set (listInstances r).
        ei_hostId i = ei_hostId j \<and> ei_fingerprint i = ei_fingerprint j \<longrightarrow> i = j)"

lemma env_okI:
  assumes "repo_ok host_id (env_hosts r)" "repo_ok ei_id (env_instances r)"
    and "\<And>i. i \<in> set (listInstances r) \<Longrightarrow> instance_ok r i"
    and "\<And>i j. i \<in> set (listInstances r) \<Longrightarrow> j \<in> set (listInstances r) \<Longrightarrow>
      ei_hostId i = ei_hostId j \<Longrightarrow> ei_fingerprint i = ei_fingerprint j \<Longrightarrow> i = j"
  shows "env_ok r"
  using assms by (auto simp: env_ok_def)

lemma set_instances_upsert:
  "repo_ok ei_id (env_instances r) \<Longrightarrow>
     set (mem_list (mem_upsert ei_id i (env_instances r))) = insert i {x \<in> set (listInstances r). ei_id x \<noteq> ei_id i}"
  by (simp add: listInstances_def mem.list_upsert_set)

lemma registerDescriptor_ok: "env_ok r \<Longrightarrow> env_ok (snd (registerDescriptor d r))"
  by (cases "validateEnvironmentDescriptor d")
    (auto simp: registerDescriptor_def op_simps env_ok_def instance_ok_def getDescriptor_def getHost_def
      listInstances_def AList.update_conv')

lemma upsertHost_ok: "env_ok r \<Longrightarrow> env_ok (snd (upsertHost h r))"
  by (cases "validateHostInstance h")
    (auto simp: upsertHost_def op_simps env_ok_def instance_ok_def getDescriptor_def getHost_def
      listInstances_def repo_ok_upsert)

lemma findByFingerprint_None:
  "findByFingerprint h fp r = None \<longleftrightarrow> (\<forall>i \<in> set (listInstances r). \<not> (ei_hostId i = h \<and> ei_fingerprint i = fp))"
  by (simp add: findByFingerprint_def js_find_None)

lemma check_instance_Inr:
  assumes "check_instance i r = Inr ()"
  shows "instance_ok r i"
    and "findByFingerprint (ei_hostId i) (ei_fingerprint i) r = Some c \<Longrightarrow> ei_id c = ei_id i"
  using assms
  by (auto simp: check_instance_def bindE_Inr_iff requireEnvDescriptor_def instance_ok_def getHost_def checks_Inr_iff
      split: option.splits)

lemma store_instance_ok:
  assumes ok: "env_ok r" and check: "check_instance i r = Inr ()"
  shows "env_ok (env_instances_update (mem_upsert ei_id i) r)"
proof (rule env_okI)
  let ?r = "env_instances_update (mem_upsert ei_id i) r"
  have repo: "repo_ok ei_id (env_instances r)" using ok by (simp add: env_ok_def)
  have elems: "set (listInstances ?r) = insert i {x \<in> set (listInstances r). ei_id x \<noteq> ei_id i}"
    using set_instances_upsert [OF repo, of i] by (simp add: listInstances_def)
  show "repo_ok host_id (env_hosts ?r)" "repo_ok ei_id (env_instances ?r)"
    using ok by (simp_all add: env_ok_def repo_ok_upsert)
  have same: "instance_ok ?r x = instance_ok r x" for x
    by (simp add: instance_ok_def getDescriptor_def getHost_def)
  show "instance_ok ?r x" if "x \<in> set (listInstances ?r)" for x
    using that elems ok check_instance_Inr(1) [OF check] by (auto simp: same env_ok_def)
  have free: "ei_id x = ei_id i" if "x \<in> set (listInstances r)" "ei_hostId x = ei_hostId i" "ei_fingerprint x = ei_fingerprint i" for x
  proof -
    have "findByFingerprint (ei_hostId i) (ei_fingerprint i) r \<noteq> None"
      using that by (auto simp: findByFingerprint_None)
    then obtain c where c: "findByFingerprint (ei_hostId i) (ei_fingerprint i) r = Some c" by blast
    then have "c \<in> set (listInstances r)" "ei_hostId c = ei_hostId i" "ei_fingerprint c = ei_fingerprint i"
      by (auto simp: findByFingerprint_def dest: js_find_Some)
    with that ok have "x = c" by (auto simp: env_ok_def)
    then show ?thesis using check_instance_Inr(2) [OF check c] by simp
  qed
  show "x = y" if "x \<in> set (listInstances ?r)" "y \<in> set (listInstances ?r)"
      "ei_hostId x = ei_hostId y" "ei_fingerprint x = ei_fingerprint y" for x y
    using that ok free unfolding elems by (auto simp: env_ok_def)
qed

lemma upsertInstance_ok: "env_ok r \<Longrightarrow> env_ok (snd (upsertInstance i r))"
  by (cases "check_instance i r") (auto simp: upsertInstance_def op_simps store_instance_ok)

lemma drop_instances_ok:
  assumes ok: "env_ok r"
  shows "env_ok (env_instances_update (fold (\<lambda>i rs. snd (mem_delete (ei_id i) rs)) is) r)"
  using ok
proof (induction "is" arbitrary: r)
  case (Cons i "is")
  have repo: "repo_ok ei_id (env_instances r)" using Cons.prems by (simp add: env_ok_def)
  have "env_ok (env_instances_update (\<lambda>rs. snd (mem_delete (ei_id i) rs)) r)"
    using Cons.prems repo_ok_delete [OF repo, of "ei_id i"] mem.list_delete_set [OF repo, of "ei_id i"]
    by (auto simp: env_ok_def listInstances_def instance_ok_def getDescriptor_def getHost_def)
  from Cons.IH [OF this] show ?case by (simp add: comp_def)
next
  case Nil
  then show ?case by (cases r) simp
qed

lemma set_drop_instances:
  "repo_ok ei_id rs \<Longrightarrow> set (mem_list (fold (\<lambda>i rs. snd (mem_delete (ei_id i) rs)) is rs)) =
     {x \<in> set (mem_list rs). ei_id x \<notin> ei_id ` set is}"
proof (induction "is" arbitrary: rs)
  case (Cons i "is")
  from Cons.IH [OF repo_ok_delete [OF Cons.prems, of "ei_id i"]] show ?case
    by (auto simp: mem.list_delete_set [OF Cons.prems])
qed simp

lemma removeHost_ok:
  assumes ok: "env_ok r"
  shows "env_ok (snd (removeHost h r))"
proof (cases "getHost h r")
  case None
  then show ?thesis using ok by (simp add: removeHost_def op_simps)
next
  case (Some host)
  let ?q = "env_instances_update (fold (\<lambda>i rs. snd (mem_delete (ei_id i) rs)) (instancesForHost h r)) r"
  let ?r = "env_hosts_update (\<lambda>hs. snd (mem_delete h hs)) ?q"
  have run: "snd (removeHost h r) = ?r"
    using Some by (simp add: removeHost_def op_simps instancesForHost_def listInstances_def)
  have q: "env_ok ?q" by (rule drop_instances_ok [OF ok])
  have repos: "repo_ok host_id (env_hosts r)" "repo_ok ei_id (env_instances r)" using ok by (auto simp: env_ok_def)
  have one: "x = y" if "x \<in> set (listInstances r)" "y \<in> set (listInstances r)" "ei_id x = ei_id y" for x y
    using that mem.list_find [OF repos(2)] unfolding listInstances_def by (metis option.inject)
  have elems: "set (listInstances ?r) = {x \<in> set (listInstances r). ei_hostId x \<noteq> h}"
    using set_drop_instances [OF repos(2), of "instancesForHost h r"] one
    by (auto simp: listInstances_def instancesForHost_def)
  have kept: "listInstances ?r = listInstances ?q" by (simp add: listInstances_def)
  have "instance_ok ?r x" if "x \<in> set (listInstances ?r)" for x
  proof -
    have "instance_ok ?q x" using that q unfolding kept by (simp add: env_ok_def)
    moreover have "ei_hostId x \<noteq> h" using that elems by auto
    ultimately show ?thesis
      by (simp add: instance_ok_def getDescriptor_def getHost_def mem.find_delete [OF repos(1)])
  qed
  then show ?thesis unfolding run
    using q repo_ok_delete [OF repos(1), of h] by (simp add: env_ok_def kept [unfolded listInstances_def] listInstances_def)
qed

lemma bind_getsS: "bindS (getsS f) k s = k (f s) s"
  by (simp add: op_simps)

lemma snd_bind_return [simp]: "snd (bindS m (\<lambda>u. returnS (f u)) r) = snd (m r)"
  by (cases "m r"; cases "fst (m r)") (auto simp: op_simps)

lemma marks_ok:
  "env_ok r \<Longrightarrow> env_ok (snd (markHostUnavailable h at r))"
  "env_ok r \<Longrightarrow> env_ok (snd (markInstanceUnavailable i at r))"
proof -
  assume ok: "env_ok r"
  show "env_ok (snd (markHostUnavailable h at r))"
    using upsertHost_ok [OF ok] ok
    by (cases "getHost h r") (simp_all add: markHostUnavailable_def bind_getsS returnS_def del: snd_bind_return, simp add: returnS_def [symmetric])
  show "env_ok (snd (markInstanceUnavailable i at r))"
    using upsertInstance_ok [OF ok] ok
    by (cases "getEnvInstance i r") (simp_all add: markInstanceUnavailable_def bind_getsS returnS_def del: snd_bind_return, simp add: returnS_def [symmetric])
qed

lemma removeEnvInstance_ok: "env_ok r \<Longrightarrow> env_ok (snd (removeEnvInstance i r))"
  using drop_instances_ok [of r] mem.list_delete_set
  by (auto simp: removeEnvInstance_def op_simps env_ok_def listInstances_def instance_ok_def getDescriptor_def getHost_def
      repo_ok_delete mem.list_delete_set)

text \<open>Any call on the registry, returning or throwing.\<close>

inductive env_call :: "env_registry \<Rightarrow> env_registry \<Rightarrow> bool" where
  register_descriptor: "env_call r (snd (registerDescriptor d r))"
| upsert_host: "env_call r (snd (upsertHost h r))"
| upsert_instance: "env_call r (snd (upsertInstance i r))"
| remove_host: "env_call r (snd (removeHost hostId r))"
| remove_instance: "env_call r (snd (removeEnvInstance instanceId r))"
| mark_host: "env_call r (snd (markHostUnavailable hostId at r))"
| mark_instance: "env_call r (snd (markInstanceUnavailable instanceId at r))"

lemma env_call_ok: "env_call r r' \<Longrightarrow> env_ok r \<Longrightarrow> env_ok r'"
  by (induction rule: env_call.induct)
    (simp_all only: registerDescriptor_ok upsertHost_ok upsertInstance_ok removeHost_ok removeEnvInstance_ok marks_ok)

lemma env_calls_ok: "env_call\<^sup>*\<^sup>* r r' \<Longrightarrow> env_ok r \<Longrightarrow> env_ok r'"
  by (induction rule: rtranclp_induct) (auto dest: env_call_ok)

lemma env_ok_empty: "env_ok \<lparr>env_descriptors = ds, env_hosts = [], env_instances = []\<rparr>"
  by (simp add: env_ok_def repo_ok_def listInstances_def mem_list_def)

section \<open>Routing\<close>

text \<open>What a requirement asks of an instance on its host.\<close>

definition fits :: "EnvironmentRequirement \<Rightarrow> EnvironmentInstance \<Rightarrow> HostInstance \<Rightarrow> bool" where
  "fits req i h \<longleftrightarrow> ei_availability i = EnvAvailable \<and> host_availability h = EnvAvailable \<and>
     (\<forall>d. er_descriptorId req = Some d \<longrightarrow> ei_descriptorId i = d) \<and>
     (\<forall>ty. er_type req = Some ty \<longrightarrow> ei_type i = ty) \<and>
     (\<forall>o'. er_os req = Some o' \<longrightarrow> (\<forall>x. osr_os o' = Some x \<longrightarrow> os_name (host_os h) = x) \<and>
        (\<forall>x. osr_arch o' = Some x \<longrightarrow> os_arch (host_os h) = x)) \<and>
     (\<forall>t. er_minimumTrust req = Some t \<longrightarrow> trust_rank t \<le> trust_rank (ei_trust i)) \<and>
     set (required_capabilities req) \<subseteq> set (available_capabilities i) \<and>
     (\<forall>t \<in> set (required_toolchains req). \<exists>d \<in> set (ei_toolchains i). meets t d)"

lemma add_reasons_Nil: "add_reasons rs ss = [] \<longleftrightarrow> rs = [] \<and> ss = []"
proof (induction rs ss rule: add_reasons.induct)
  case (2 rs label reason ss)
  then show ?case by (cases "reason \<in> set rs") auto
qed simp

lemma wants_False: "\<not> wants x a \<longleftrightarrow> (\<forall>y. x = Some y \<longrightarrow> a = y)"
  by (auto simp: wants_def split: option.splits)

lemma reason_if_Nil [simp]: "reason_if b x = [] \<longleftrightarrow> \<not> b"
  by (simp add: reason_if_def)

lemma instance_reasons_Nil:
  "instance_reasons req i (Some h) = [] \<and> toolchainShortfalls (required_toolchains req) (ei_toolchains i) = [] \<longleftrightarrow> fits req i h"
proof -
  have os: "host_reasons req (Some h) = [] \<longleftrightarrow> (\<forall>o'. er_os req = Some o' \<longrightarrow>
      (\<forall>x. osr_os o' = Some x \<longrightarrow> os_name (host_os h) = x) \<and> (\<forall>x. osr_arch o' = Some x \<longrightarrow> os_arch (host_os h) = x))"
    by (cases "er_os req") (simp_all add: host_reasons_def wants_False)
  have trust: "(case er_minimumTrust req of None \<Rightarrow> False | Some t \<Rightarrow> trust_rank (ei_trust i) < trust_rank t) \<longleftrightarrow>
      \<not> (\<forall>t. er_minimumTrust req = Some t \<longrightarrow> trust_rank t \<le> trust_rank (ei_trust i))"
    by (cases "er_minimumTrust req") auto
  have caps: "filter (\<lambda>c. c \<notin> set (available_capabilities i)) (required_capabilities req) \<noteq> [] \<longleftrightarrow>
      \<not> set (required_capabilities req) \<subseteq> set (available_capabilities i)"
    by (auto simp: filter_empty_conv)
  show ?thesis
    unfolding instance_reasons_def fits_def toolchains_met append_is_Nil_conv reason_if_Nil os trust caps wants_False
      option.simps
    by auto
qed

lemma evaluateInstance_eligible:
  "evc_eligible (evaluateInstance req i host) \<longleftrightarrow> (\<exists>h. host = Some h \<and> fits req i h)"
proof (cases host)
  case None
  then show ?thesis by (simp add: evaluateInstance_def Let_def add_reasons_Nil instance_reasons_def)
next
  case (Some h)
  then show ?thesis using instance_reasons_Nil [of req i h]
    by (simp add: evaluateInstance_def Let_def add_reasons_Nil)
qed

text \<open>Every host is stored under the host id it names itself. The detector registers hosts so; the registry
  does not ask for it, and stores by \<open>id\<close> while the router looks hosts up by \<open>hostId\<close>.\<close>

definition hosts_consistent :: "env_registry \<Rightarrow> bool" where
  "hosts_consistent r \<longleftrightarrow> (\<forall>h \<in> set (listHosts r). host_id h = host_hostId h)"

lemma host_of_get:
  assumes "env_ok r" "hosts_consistent r"
  shows "host_of r h = getHost h r"
proof -
  have repo: "repo_ok host_id (env_hosts r)" using assms(1) by (simp add: env_ok_def)
  have "map (\<lambda>x. (host_hostId x, x)) (listHosts r) = map (\<lambda>x. (host_id x, x)) (listHosts r)"
    using assms(2) by (simp add: hosts_consistent_def)
  also have "\<dots> = env_hosts r"
    using repo by (auto simp: listHosts_def mem_list_def repo_ok_def intro!: map_idI)
  finally have "host_of r h = map_of (rev (env_hosts r)) h" by (simp add: host_of_def)
  also have "\<dots> = map_of (env_hosts r) h"
    using repo by (intro map_of_inject_set [THEN iffD2, THEN fun_cong]) (simp_all add: repo_ok_def rev_map [symmetric])
  finally show ?thesis by (simp add: getHost_def mem_findById_def)
qed

lemma compareVersions_flip: "compareVersions b a = - compareVersions a b"
  by (cases a; cases b) simp_all

lemma compareCandidates_le:
  "compareCandidates lc a b \<le> 0 \<longleftrightarrow> trust_rank (ei_trust b) < trust_rank (ei_trust a) \<or>
     (trust_rank (ei_trust b) = trust_rank (ei_trust a) \<and>
       (compareVersions (ei_version b) (ei_version a) < 0 \<or>
        (compareVersions (ei_version b) (ei_version a) = 0 \<and> lc (ei_id a) (ei_id b) \<le> 0)))"
  by (auto simp: compareCandidates_def Let_def)

lemma candidates_compare:
  assumes lc: "comparison lc"
  shows "comparison (compareCandidates lc)"
proof
  fix a b c :: EnvironmentInstance
  let ?v = "\<lambda>x y. compareVersions (ei_version x) (ei_version y)"
  show "compareCandidates lc a b \<le> 0 \<or> compareCandidates lc b a \<le> 0"
    using comparison.total [OF lc, of "ei_id a" "ei_id b"] compareVersions_flip [of "ei_version a" "ei_version b"]
    by (auto simp: compareCandidates_le)
  assume ab: "compareCandidates lc a b \<le> 0" and bc: "compareCandidates lc b c \<le> 0"
  show "compareCandidates lc a c \<le> 0"
  proof (cases "trust_rank (ei_trust c) < trust_rank (ei_trust a)")
    case True
    then show ?thesis by (simp add: compareCandidates_le)
  next
    case False
    with ab bc have trust: "trust_rank (ei_trust c) = trust_rank (ei_trust a)"
      and ba: "?v b a < 0 \<or> (?v b a = 0 \<and> lc (ei_id a) (ei_id b) \<le> 0)"
      and cb: "?v c b < 0 \<or> (?v c b = 0 \<and> lc (ei_id b) (ei_id c) \<le> 0)"
      by (auto simp: compareCandidates_le)
    have le: "?v c a \<le> 0" using ba cb versions.trans [of "ei_version c" "ei_version b" "ei_version a"] by auto
    show ?thesis
    proof (cases "?v c a = 0")
      case True
      then have "?v a c \<le> 0" using compareVersions_flip [of "ei_version a" "ei_version c"] by simp
      then have "?v a b \<le> 0" "?v b c \<le> 0"
        using ba cb versions.trans [of "ei_version a" "ei_version c" "ei_version b"]
          versions.trans [of "ei_version b" "ei_version a" "ei_version c"] by auto
      then have "?v b a = 0" "?v c b = 0"
        using ba cb compareVersions_flip [of "ei_version a" "ei_version b"]
          compareVersions_flip [of "ei_version b" "ei_version c"] by auto
      then have "lc (ei_id a) (ei_id c) \<le> 0"
        using ba cb comparison.trans [OF lc, of "ei_id a" "ei_id b" "ei_id c"] by auto
      with True trust show ?thesis by (simp add: compareCandidates_le)
    next
      case False
      with le trust show ?thesis by (simp add: compareCandidates_le)
    qed
  qed
qed

lemma set_eligible:
  "set (eligible_instances lc req r) =
     {i \<in> set (listInstances r). \<exists>h. host_of r (ei_hostId i) = Some h \<and> fits req i h}"
  by (auto simp: eligible_instances_def evaluated_instances_def evaluateInstance_eligible image_iff)

lemma eligible_first:
  assumes "comparison lc" "eligible_instances lc req r = i # rest" "j \<in> set (eligible_instances lc req r)"
  shows "compareCandidates lc i j \<le> 0"
proof (cases "j = i")
  case True
  then show ?thesis using comparison.total [OF candidates_compare [OF assms(1)], of i i] by simp
next
  case False
  with assms(2,3) have "j \<in> set rest" by simp
  moreover have "sorted_wrt (\<lambda>a b. compareCandidates lc a b \<le> 0) (eligible_instances lc req r)"
    unfolding eligible_instances_def by (rule comparison.sort_sorted [OF candidates_compare [OF assms(1)]])
  ultimately show ?thesis using assms(2) by simp
qed

text \<open>
  Routing on an accepted requirement: what is selected, and when nothing is. The host that fits is the one that
  names itself by the instance's host id; the one handed out is the one registered under that id.
\<close>

lemma routing:
  assumes lc: "comparison lc" and ok: "env_ok r" and ev: "evaluate_requirement lc req r = Inr ev"
  shows "me_selectedInstanceId ev = Some s \<Longrightarrow>
      \<exists>i h h'. route lc req r = Inr (ROUTED i h') \<and> ei_id i = s \<and> getEnvInstance s r = Some i \<and>
        host_of r (ei_hostId i) = Some h \<and> fits req i h \<and>
        getHost (ei_hostId i) r = Some h' \<and> (hosts_consistent r \<longrightarrow> h' = h) \<and>
        (\<forall>j \<in> set (listInstances r). \<forall>k. host_of r (ei_hostId j) = Some k \<and> fits req j k \<longrightarrow> compareCandidates lc i j \<le> 0)"
    and "me_selectedInstanceId ev = None \<Longrightarrow>
      j \<in> set (listInstances r) \<Longrightarrow> host_of r (ei_hostId j) = Some k \<Longrightarrow> \<not> fits req j k"
proof -
  have def: "ev = match_evidence lc req r" using ev by (auto simp: evaluate_requirement_def bindE_Inr_iff)
  have repo: "repo_ok ei_id (env_instances r)" using ok by (simp add: env_ok_def)
  show "\<exists>i h h'. route lc req r = Inr (ROUTED i h') \<and> ei_id i = s \<and> getEnvInstance s r = Some i \<and>
      host_of r (ei_hostId i) = Some h \<and> fits req i h \<and>
      getHost (ei_hostId i) r = Some h' \<and> (hosts_consistent r \<longrightarrow> h' = h) \<and>
      (\<forall>j \<in> set (listInstances r). \<forall>k. host_of r (ei_hostId j) = Some k \<and> fits req j k \<longrightarrow> compareCandidates lc i j \<le> 0)"
    if sel: "me_selectedInstanceId ev = Some s"
  proof -
    from sel obtain i rest where first: "eligible_instances lc req r = i # rest" and id: "ei_id i = s"
      by (auto simp: def match_evidence_def Let_def split: list.splits)
    then have "i \<in> set (eligible_instances lc req r)" by simp
    then obtain h where i: "i \<in> set (listInstances r)" and h: "host_of r (ei_hostId i) = Some h" and fit: "fits req i h"
      by (auto simp: set_eligible)
    have get: "getEnvInstance s r = Some i"
      using mem.list_find [OF repo, of i] i id by (simp add: getEnvInstance_def listInstances_def)
    obtain h' where h': "getHost (ei_hostId i) r = Some h'"
      using ok i by (auto simp: env_ok_def instance_ok_def)
    have "route lc req r = Inr (ROUTED i h')" using ev sel get h' by (simp add: route_def routed_to_def)
    moreover have "hosts_consistent r \<longrightarrow> h' = h" using host_of_get [OF ok, of "ei_hostId i"] h h' by auto
    moreover have "compareCandidates lc i j \<le> 0"
      if "j \<in> set (listInstances r)" "host_of r (ei_hostId j) = Some k" "fits req j k" for j k
      by (rule eligible_first [OF lc first]) (use that in \<open>auto simp: set_eligible\<close>)
    ultimately show ?thesis using id get h h' fit by blast
  qed
  assume "me_selectedInstanceId ev = None"
  then have "eligible_instances lc req r = []" by (auto simp: def match_evidence_def Let_def split: list.splits)
  then have "set (eligible_instances lc req r) = {}" by simp
  then show "j \<in> set (listInstances r) \<Longrightarrow> host_of r (ei_hostId j) = Some k \<Longrightarrow> \<not> fits req j k"
    unfolding set_eligible by blast
qed

end
