(* ===== verification/Exec_State.thy ===== *)
theory Exec_State
  imports Exec_Plans Exec_Policy Exec_Operations Exec_Sessions Env_Laws Tools
begin

text \<open>
  The state of the execution control boundary, and what its composition fixes: the order of ids, the
  known projects, the enablement of agents, whether environment adapters are configured. The runners and
  their leases are those of \<open>core/execution/environment-adapters.ts\<close>; the latest heartbeat a runner
  reports is part of the state.
\<close>

section \<open>Adapters and runners\<close>

text \<open>The \<open>AdapterDefinition\<close> of \<open>adapters/environments/platform-adapters.ts\<close>.\<close>

record AdapterDefinition =
  ad_adapterId :: string
  ad_family :: EnvironmentFamily
  ad_executables :: "string list"
  ad_hostOs :: "OsName list option"
  ad_environmentTypes :: "EnvironmentType list option"
  ad_baseToolchains :: "ToolchainKind list option"
  ad_targetEvidence :: "EnvironmentInstance \<Rightarrow> string list"
  ad_extra :: "EnvironmentInstance \<Rightarrow> HostInstance \<Rightarrow> EnvironmentOperationRequirement \<Rightarrow> ExecutionReason list"

datatype RunnerStatus = Rs_online | Rs_busy | Rs_draining | Rs_offline | Rs_stale
datatype RunnerClass = Rc_local | Rc_self_hosted | Rc_cloud | Rc_shared

fun runner_class_str :: "RunnerClass \<Rightarrow> string" where
  "runner_class_str Rc_local = ''local''"
| "runner_class_str Rc_self_hosted = ''self_hosted''"
| "runner_class_str Rc_cloud = ''cloud''"
| "runner_class_str Rc_shared = ''shared''"

text \<open>\<open>rd_routing\<close> lists the free texts of the routing metadata; the region is one of them.\<close>

record RunnerDescriptor =
  rd_runnerId :: string
  rd_adapterId :: string
  rd_instances :: "string list"
  rd_class :: RunnerClass
  rd_trusted :: bool
  rd_fingerprint :: string
  rd_verified :: bool
  rd_capacity :: int
  rd_projects :: "string list option"
  rd_region :: "string option"
  rd_routing :: "string list"

record RunnerLease =
  rl_leaseId :: string
  rl_runnerId :: string
  rl_sessionId :: string
  rl_projectId :: string
  rl_acquiredAt :: timestamp
  rl_expiresAt :: timestamp

record ProjectRunnerPolicy =
  rp_classes :: "RunnerClass list option"
  rp_requireTrusted :: bool
  rp_regions :: "string list option"

record adapter_registry =
  ar_adapters :: "(string \<times> AdapterDefinition) list"
  ar_runners :: "(string \<times> RunnerDescriptor) list"
  ar_leases :: "(string \<times> RunnerLease) list"
  ar_policies :: "(string \<times> ProjectRunnerPolicy) list"
  ar_heartbeats :: "string \<Rightarrow> (RunnerStatus \<times> timestamp) option"

section \<open>The state\<close>

record exec_state = tool_state +
  x_environments :: env_registry
  x_operations :: operation_registry
  x_policies :: policy_registry
  x_sandboxes :: sandbox_registry
  x_tools :: "(string \<times> ExecutionToolDefinition) list"
  x_plans :: plan_repo
  x_sessions :: session_store
  x_active :: "(string \<times> string) list"
  x_adapters :: adapter_registry

record exec_config =
  xc_lc :: "string \<Rightarrow> string \<Rightarrow> int"
  xc_projects :: "string \<Rightarrow> bool"
  xc_isAgentEnabled :: "string \<Rightarrow> string \<Rightarrow> bool"
  xc_adaptersConfigured :: bool
  xc_staleAfterMs :: "int option"
  xc_maxConcurrent :: "int option"
  xc_bounded :: bool

end
