(* ===== verification/Exec_Adapters.thy ===== *)
theory Exec_Adapters
  imports Exec_State
begin

text \<open>
  \<open>adapters/environments/platform-adapters.ts\<close>: whether an environment serves a requirement; and
  \<open>core/execution/environment-adapters.ts\<close>: runners, their liveness, leases and the resolution of an
  operation to one runner. The bridge that runs jobs on a runner is not modelled.
\<close>

section \<open>Platform adapters\<close>

definition distinct_reasons :: "ExecutionReason list \<Rightarrow> ExecutionReason list" where
  "distinct_reasons rs = js_unique rs"

definition base_reasons :: "AdapterDefinition \<Rightarrow> EnvironmentInstance \<Rightarrow> ExecutionReason list" where
  "base_reasons d i = map (\<lambda>k. (''TOOLCHAIN_MISSING'',
       family_str (ad_family d) @ '' execution requires the '' @ toolchain_str k @ '' toolchain''))
     (filter (\<lambda>k. find_toolchain i k = None) (opt_list (ad_baseToolchains d)))"

definition platform_reasons :: "AdapterDefinition \<Rightarrow> EnvironmentInstance \<Rightarrow> HostInstance \<Rightarrow>
    EnvironmentOperationRequirement \<Rightarrow> ExecutionReason list" where
  "platform_reasons d i h req =
     (if eo_family req \<noteq> ad_family d
      then [(''ADAPTER_ERROR'', ''the '' @ ad_adapterId d @ '' adapter serves '' @ family_str (ad_family d) @
        '', not '' @ family_str (eo_family req))] else []) @
     (case ad_hostOs d of None \<Rightarrow> [] | Some os \<Rightarrow> if os_name (host_os h) \<in> set os then []
        else [(''PLATFORM_MISMATCH'', family_str (ad_family d) @ '' execution requires a '' @
          js_join ''/'' (map os_str os) @ '' host (found '' @ os_str (os_name (host_os h)) @ '')'')]) @
     (case ad_environmentTypes d of None \<Rightarrow> [] | Some ts \<Rightarrow> if ei_type i \<in> set ts then []
        else [(''PLATFORM_MISMATCH'', ''environment type '' @ env_type_str (ei_type i) @
          '' is not driven by the '' @ ad_adapterId d @ '' adapter'')]) @
     base_reasons d i"

text \<open>The reasons before duplicates are dropped, and the verdict.\<close>

definition adapter_reasons :: "AdapterDefinition \<Rightarrow> EnvironmentInstance \<Rightarrow> HostInstance \<Rightarrow>
    EnvironmentOperationRequirement \<Rightarrow> ExecutionReason list" where
  "adapter_reasons d i h req = platform_reasons d i h req @ evaluateToolchains i req @
     evaluateTargets i (filter (\<lambda>t. t \<notin> set (ad_targetEvidence d i)) (opt_list (eo_targets req))) @
     evaluateGpu i req @ evaluateDistribution req @ ad_extra d i h req"

definition evaluate_adapter :: "AdapterDefinition \<Rightarrow> EnvironmentInstance \<Rightarrow> HostInstance \<Rightarrow>
    EnvironmentOperationRequirement \<Rightarrow> ExecutionReason list" where
  "evaluate_adapter d i h req = distinct_reasons (adapter_reasons d i h req)"

definition plain_adapter :: "string \<Rightarrow> EnvironmentFamily \<Rightarrow> string list \<Rightarrow> AdapterDefinition" where
  "plain_adapter i f xs = \<lparr>ad_adapterId = i, ad_family = f, ad_executables = xs, ad_hostOs = None,
     ad_environmentTypes = None, ad_baseToolchains = None, ad_targetEvidence = \<lambda>_. [], ad_extra = \<lambda>_ _ _. []\<rparr>"

definition createWindowsAdapter :: AdapterDefinition where
  "createWindowsAdapter = (plain_adapter ''windows-toolchain'' Fam_windows [''dotnet'', ''msbuild'', ''node''])
     \<lparr>ad_hostOs := Some [Windows]\<rparr>"

definition sdk_targets :: "EnvironmentInstance \<Rightarrow> string list" where
  "sdk_targets i = (case find_toolchain i Tk_swift_xcode of None \<Rightarrow> []
     | Some t \<Rightarrow> map (\<lambda>n. take (length n - 4) n)
         (filter (\<lambda>n. js_endsWith n ''_sdk'') (map fst (opt_list (tc_components t)))))"

definition createMacosXcodeAdapter :: AdapterDefinition where
  "createMacosXcodeAdapter = (plain_adapter ''macos-xcode'' Fam_macos [''xcodebuild'', ''swift'', ''node''])
     \<lparr>ad_hostOs := Some [Macos], ad_targetEvidence := sdk_targets\<rparr>"

definition createAndroidAdapter :: AdapterDefinition where
  "createAndroidAdapter = (plain_adapter ''android-gradle'' Fam_android [''gradle'', ''java''])
     \<lparr>ad_baseToolchains := Some [Tk_jdk_gradle, Tk_android_sdk]\<rparr>"

definition createLinuxAdapter :: AdapterDefinition where
  "createLinuxAdapter = (plain_adapter ''linux-toolchain'' Fam_linux [''node'', ''python'', ''go'', ''cargo'', ''make''])
     \<lparr>ad_hostOs := Some [Linux]\<rparr>"

definition docker_extra :: "ContainerPolicy \<Rightarrow> EnvironmentInstance \<Rightarrow> HostInstance \<Rightarrow>
    EnvironmentOperationRequirement \<Rightarrow> ExecutionReason list" where
  "docker_extra p i h req =
     (if Container_runtime \<notin> set (available_capabilities i)
      then [(''TOOLCHAIN_MISSING'', ''no container runtime was discovered on this environment'')]
      else if xd_daemon (readExecutionDiscovery i) \<noteq> Some ''operational''
      then [(''ENVIRONMENT_OFFLINE'', ''the container daemon is not operational'')] else []) @
     (case eo_container req of
        None \<Rightarrow> [(''ADAPTER_ERROR'', ''container operations must declare a container request'')]
      | Some c \<Rightarrow> evaluateContainerRequest c p)"

definition createDockerAdapter :: "ContainerPolicy \<Rightarrow> AdapterDefinition" where
  "createDockerAdapter p = (plain_adapter ''docker-container'' Fam_docker [''docker'']) \<lparr>ad_extra := docker_extra p\<rparr>"

definition cloud_extra :: "EnvironmentInstance \<Rightarrow> HostInstance \<Rightarrow> EnvironmentOperationRequirement \<Rightarrow> ExecutionReason list" where
  "cloud_extra i h req = (if host_type h = Cloud_runner_host then []
     else [(''PLATFORM_MISMATCH'', ''the host is not a registered cloud runner'')])"

definition createCloudRunnerAdapter :: "string list \<Rightarrow> AdapterDefinition" where
  "createCloudRunnerAdapter xs = (plain_adapter ''cloud-runner'' Fam_cloud xs)
     \<lparr>ad_environmentTypes := Some [Et_cloud_runner], ad_extra := cloud_extra\<rparr>"

definition pinned_extra :: "ToolchainKind \<Rightarrow> string \<Rightarrow> EnvironmentInstance \<Rightarrow> HostInstance \<Rightarrow>
    EnvironmentOperationRequirement \<Rightarrow> ExecutionReason list" where
  "pinned_extra k detail i h req = (if list_ex (\<lambda>v. ex_kind v = k) (opt_list (eo_exactVersions req)) then []
     else [(''ADAPTER_ERROR'', detail)])"

definition createUnityAdapter :: AdapterDefinition where
  "createUnityAdapter = (plain_adapter ''unity-editor'' Fam_unity [''unity''])
     \<lparr>ad_baseToolchains := Some [Tk_unity],
      ad_extra := pinned_extra Tk_unity ''Unity operations must pin an editor version explicitly''\<rparr>"

definition createUnrealAdapter :: AdapterDefinition where
  "createUnrealAdapter = (plain_adapter ''unreal-engine'' Fam_unreal [''unreal-uat''])
     \<lparr>ad_baseToolchains := Some [Tk_unreal, Tk_cpp_compiler],
      ad_extra := pinned_extra Tk_unreal ''Unreal operations must pin an engine version explicitly''\<rparr>"

definition createPlatformAdapters :: "ContainerPolicy \<Rightarrow> string list option \<Rightarrow> AdapterDefinition list" where
  "createPlatformAdapters p cloud = [createWindowsAdapter, createMacosXcodeAdapter, createAndroidAdapter,
     createLinuxAdapter, createDockerAdapter p,
     createCloudRunnerAdapter (case cloud of None \<Rightarrow> [''node''] | Some xs \<Rightarrow> xs), createUnityAdapter, createUnrealAdapter]"

section \<open>Registration\<close>

type_synonym 'x exec_op = "('x exec_state_scheme, unit) op"

definition get_adapter :: "string \<Rightarrow> 'x exec_state_scheme \<Rightarrow> AdapterDefinition option" where
  "get_adapter i s = map_of (ar_adapters (x_adapters s)) i"

definition getRunner :: "string \<Rightarrow> 'x exec_state_scheme \<Rightarrow> RunnerDescriptor option" where
  "getRunner i s = map_of (ar_runners (x_adapters s)) i"

definition set_adapters :: "(adapter_registry \<Rightarrow> adapter_registry) \<Rightarrow> ('x exec_state_scheme, unit) op" where
  "set_adapters f = modifyS (x_adapters_update f)"

definition registerAdapter :: "AdapterDefinition \<Rightarrow> ('x exec_state_scheme, unit) op" where
  "registerAdapter d = thenS (liftE (requireExecutionId (ad_adapterId d) ''adapterId''))
     (bindS (getsS (get_adapter (ad_adapterId d))) (\<lambda>existing.
        if existing \<noteq> None then throwS (ForeignError (''adapter '' @ ad_adapterId d @ '' is already registered''))
        else set_adapters (ar_adapters_update (map_set (ad_adapterId d) d))))"

text \<open>A letter followed by \<open>://\<close>, anywhere in a text.\<close>

fun has_url :: "string \<Rightarrow> bool" where
  "has_url [] = False"
| "has_url (c # cs) = (ascii_letter_char c \<and> js_startsWith cs ''://'' \<or> has_url cs)"

definition runner_texts :: "RunnerDescriptor \<Rightarrow> string list" where
  "runner_texts d = [rd_runnerId d, rd_adapterId d, rd_fingerprint d] @ rd_instances d @ opt_list (rd_projects d) @
     (case rd_region d of None \<Rightarrow> [] | Some r \<Rightarrow> [r]) @ rd_routing d"

definition validateRunnerDescriptor :: "RunnerDescriptor \<Rightarrow> unit res" where
  "validateRunnerDescriptor d = checks
     [requireExecutionId (rd_runnerId d) ''runner.runnerId'', requireExecutionId (rd_adapterId d) ''runner.adapterId'',
      throw_if (rd_instances d = []) (ValidationError ''runner must serve at least one instance''),
      check_all (\<lambda>i. requireExecutionId i ''runner instance'') (rd_instances d),
      throw_if (rd_capacity d < 1 \<or> rd_capacity d > 64) (ValidationError ''runner.capacity must be 1-64''),
      throw_if (rd_fingerprint d = []) (ValidationError ''runner.identity.fingerprint is required''),
      throw_if (list_ex has_url (runner_texts d)) (ValidationError ''runner descriptors must not contain endpoint URLs'')]"

definition registerRunner :: "RunnerDescriptor \<Rightarrow> ('x exec_state_scheme, unit) op" where
  "registerRunner d = thenS (liftE (validateRunnerDescriptor d))
     (bindS (getsS (get_adapter (rd_adapterId d))) (\<lambda>adapter.
        if adapter = None then throwS (ForeignError (''unknown adapter '' @ rd_adapterId d))
        else bindS (getsS (getRunner (rd_runnerId d))) (\<lambda>existing.
          if existing \<noteq> None then throwS (ForeignError (''runner '' @ rd_runnerId d @ '' is already registered''))
          else set_adapters (ar_runners_update (map_set (rd_runnerId d) d)))))"

definition setProjectPolicy :: "string \<Rightarrow> ProjectRunnerPolicy \<Rightarrow> ('x exec_state_scheme, unit) op" where
  "setProjectPolicy projectId p = thenS (liftE (requireExecutionId projectId ''projectId''))
     (set_adapters (ar_policies_update (map_set projectId p)))"

section \<open>Liveness and project policy\<close>

definition runner_unavailable :: "string \<Rightarrow> ExecutionReason" where
  "runner_unavailable detail = (''RUNNER_UNAVAILABLE'', detail)"

definition liveness_at :: "int \<Rightarrow> timestamp \<Rightarrow> RunnerStatus \<times> timestamp \<Rightarrow> ExecutionReason option" where
  "liveness_at age t beat = (case beat of (status, at) \<Rightarrow>
     if status = Rs_stale \<or> t - at > age then Some (runner_unavailable ''the runner heartbeat is stale'')
     else if status = Rs_offline then Some (runner_unavailable ''the runner is offline'')
     else if status = Rs_draining then Some (runner_unavailable ''the runner is draining'')
     else None)"

definition stale_after :: "exec_config \<Rightarrow> int" where
  "stale_after cfg = (case xc_staleAfterMs cfg of None \<Rightarrow> 60000 | Some n \<Rightarrow> n)"

definition liveness :: "exec_config \<Rightarrow> string \<Rightarrow> ('x exec_state_scheme, ExecutionReason option) op" where
  "liveness cfg runnerId = bindS (getsS (\<lambda>s. ar_heartbeats (x_adapters s) runnerId)) (\<lambda>beat. case beat of
     None \<Rightarrow> returnS (Some (runner_unavailable ''the runner has never reported a heartbeat''))
   | Some b \<Rightarrow> bindS now (\<lambda>t. returnS (liveness_at (stale_after cfg) t b)))"

definition projectDenial :: "RunnerDescriptor \<Rightarrow> string \<Rightarrow> ProjectRunnerPolicy option \<Rightarrow> ExecutionReason option" where
  "projectDenial d projectId policy =
     (if \<not> rd_verified d then Some (''RUNNER_IDENTITY_UNVERIFIED'', ''the runner identity is not verified'')
      else if (case rd_projects d of None \<Rightarrow> False | Some ps \<Rightarrow> projectId \<notin> set ps)
      then Some (''POLICY_DENIED'', ''the runner is restricted to other projects'')
      else (case policy of None \<Rightarrow> None | Some p \<Rightarrow>
        if (case rp_classes p of None \<Rightarrow> False | Some cs \<Rightarrow> rd_class d \<notin> set cs)
        then Some (''POLICY_DENIED'', ''runner class '' @ runner_class_str (rd_class d) @ '' is not allowed for this project'')
        else if rp_requireTrusted p \<and> \<not> rd_trusted d
        then Some (''POLICY_DENIED'', ''this project requires a trusted runner'')
        else if (case rp_regions p of None \<Rightarrow> False
          | Some rs \<Rightarrow> \<not> (case rd_region d of None \<Rightarrow> False | Some r \<Rightarrow> r \<noteq> [] \<and> r \<in> set rs))
        then Some (''POLICY_DENIED'', ''the runner region is not allowed for this project'')
        else None))"

section \<open>Leases\<close>

definition adapter_record :: "string \<Rightarrow> string \<Rightarrow> fields \<Rightarrow> ('x exec_state_scheme, unit) op" where
  "adapter_record action projectId data =
     audit ''execution_event'' None None (non_empty (Some projectId)) (data @ [(''action'', JStr action)])"

definition lease_record :: "string \<Rightarrow> RunnerLease \<Rightarrow> ('x exec_state_scheme, unit) op" where
  "lease_record action l = adapter_record action (rl_projectId l)
     [(''runnerId'', JStr (rl_runnerId l)), (''leaseId'', JStr (rl_leaseId l)), (''execution'', JStr (rl_sessionId l))]"

definition drop_lease :: "string \<Rightarrow> ('x exec_state_scheme, unit) op" where
  "drop_lease i = set_adapters (ar_leases_update (AList.delete i))"

definition reclaimExpired :: "('x exec_state_scheme, unit) op" where
  "reclaimExpired = bindS now (\<lambda>t. bindS (getsS (\<lambda>s. ar_leases (x_adapters s))) (\<lambda>ls.
     for_each (filter (\<lambda>(i, l). rl_expiresAt l \<le> t) ls) (\<lambda>(i, l).
       thenS (drop_lease i) (lease_record ''runner_lease_expired'' l))))"

definition leases_of :: "string \<Rightarrow> 'x exec_state_scheme \<Rightarrow> RunnerLease list" where
  "leases_of runnerId s = filter (\<lambda>l. rl_runnerId l = runnerId) (map snd (ar_leases (x_adapters s)))"

definition activeLeases :: "string \<Rightarrow> ('x exec_state_scheme, RunnerLease list) op" where
  "activeLeases runnerId = thenS reclaimExpired (getsS (leases_of runnerId))"

definition acquireLease :: "string \<Rightarrow> string \<Rightarrow> string \<Rightarrow> int \<Rightarrow> ('x exec_state_scheme, RunnerLease) op" where
  "acquireLease runnerId sessionId projectId ttlMs = bindS (getsS (getRunner runnerId)) (\<lambda>runner. case runner of
     None \<Rightarrow> throwS (ExecutionDeniedError ''RUNNER_UNAVAILABLE'' ''unknown runner'')
   | Some d \<Rightarrow> bindS (activeLeases runnerId) (\<lambda>active.
       if int (length active) \<ge> rd_capacity d
       then throwS (ExecutionDeniedError ''RESOURCE_UNAVAILABLE''
         ''the runner is at capacity; retry when it has a free slot'')
       else bindS now (\<lambda>t. bindS (createId ''rls'') (\<lambda>i.
         let lease = \<lparr>rl_leaseId = i, rl_runnerId = runnerId, rl_sessionId = sessionId, rl_projectId = projectId,
               rl_acquiredAt = t, rl_expiresAt = t + max 1 ttlMs\<rparr> in
         thenS (set_adapters (ar_leases_update (map_set i lease)))
           (thenS (lease_record ''runner_lease_acquired'' lease) (returnS lease))))))"

definition releaseLease :: "string \<Rightarrow> ('x exec_state_scheme, unit) op" where
  "releaseLease i = bindS (getsS (\<lambda>s. map_of (ar_leases (x_adapters s)) i)) (\<lambda>found. case found of
     None \<Rightarrow> returnS ()
   | Some l \<Rightarrow> thenS (drop_lease i) (lease_record ''runner_lease_released'' l))"

section \<open>Resolution\<close>

record AdapterResolution =
  as_ready :: bool
  as_compatible :: bool
  as_reasons :: "ExecutionReason list"
  as_adapterId :: "string option"
  as_runnerId :: "string option"
  as_providerId :: "string option"
  as_toolchains :: "(string \<times> string option) list"
  as_rejected :: "(string \<times> string) list"

definition not_ready :: "ExecutionReason list \<Rightarrow> AdapterResolution" where
  "not_ready rs = \<lparr>as_ready = False, as_compatible = False, as_reasons = rs, as_adapterId = None, as_runnerId = None,
     as_providerId = None, as_toolchains = [], as_rejected = []\<rparr>"

definition runnerProviderId :: "string \<Rightarrow> string" where
  "runnerProviderId i = ''runner:'' @ i"

definition runner_reason :: "exec_config \<Rightarrow> string \<Rightarrow> RunnerDescriptor \<Rightarrow>
    ('x exec_state_scheme, ExecutionReason option) op" where
  "runner_reason cfg projectId d =
     bindS (getsS (\<lambda>s. projectDenial d projectId (map_of (ar_policies (x_adapters s)) projectId))) (\<lambda>denial.
     case denial of Some r \<Rightarrow> returnS (Some r)
     | None \<Rightarrow> bindS (liveness cfg (rd_runnerId d)) (\<lambda>lost. case lost of Some r \<Rightarrow> returnS (Some r)
       | None \<Rightarrow> bindS (activeLeases (rd_runnerId d)) (\<lambda>active.
           returnS (if int (length active) \<ge> rd_capacity d
             then Some (''RESOURCE_UNAVAILABLE'', ''the runner is at capacity'') else None))))"

text \<open>The first runner without a reason, and the runners rejected before it.\<close>

fun pick_runner :: "exec_config \<Rightarrow> string \<Rightarrow> string \<Rightarrow> string \<Rightarrow> RunnerDescriptor list \<Rightarrow>
    ('x exec_state_scheme, RunnerDescriptor option \<times> (string \<times> ExecutionReason) list) op" where
  "pick_runner cfg projectId adapterId instanceId [] = returnS (None, [])"
| "pick_runner cfg projectId adapterId instanceId (d # ds) = bindS (runner_reason cfg projectId d) (\<lambda>reason.
     case reason of None \<Rightarrow> returnS (Some d, [])
     | Some r \<Rightarrow> thenS (adapter_record ''runner_rejected'' projectId
           [(''runnerId'', JStr (rd_runnerId d)), (''adapterId'', JStr adapterId),
            (''environmentInstanceId'', JStr instanceId), (''code'', JStr (fst r))])
         (bindS (pick_runner cfg projectId adapterId instanceId ds) (\<lambda>(found, rejected).
           returnS (found, (rd_runnerId d, r) # rejected))))"

definition runners_for :: "exec_config \<Rightarrow> string \<Rightarrow> string \<Rightarrow> 'x exec_state_scheme \<Rightarrow> RunnerDescriptor list" where
  "runners_for cfg adapterId instanceId s = js_sort (\<lambda>a b. xc_lc cfg (rd_runnerId a) (rd_runnerId b))
     (filter (\<lambda>d. rd_adapterId d = adapterId \<and> instanceId \<in> set (rd_instances d)) (map snd (ar_runners (x_adapters s))))"

definition serve :: "exec_config \<Rightarrow> string \<Rightarrow> EnvironmentInstance \<Rightarrow> ExecutionOperationDefinition \<Rightarrow>
    EnvironmentOperationRequirement \<Rightarrow> AdapterDefinition \<Rightarrow> ('x exec_state_scheme, AdapterResolution) op" where
  "serve cfg projectId i op req d = bindS (getsS (runners_for cfg (ad_adapterId d) (ei_id i))) (\<lambda>runners.
     bindS (pick_runner cfg projectId (ad_adapterId d) (ei_id i) runners) (\<lambda>(found, rejected).
       let base = (not_ready []) \<lparr>as_adapterId := Some (ad_adapterId d), as_toolchains := observed_toolchains i req,
             as_rejected := map (\<lambda>(i, r). (i, fst r)) rejected\<rparr> in
       case found of
         Some r \<Rightarrow> thenS (adapter_record ''adapter_selected'' projectId
             [(''adapterId'', JStr (ad_adapterId d)), (''adapterVersion'', JStr ''1.0.0''),
              (''runnerId'', JStr (rd_runnerId r)), (''environmentInstanceId'', JStr (ei_id i)),
              (''operationId'', JStr (od_id op))])
           (returnS (base \<lparr>as_ready := True, as_runnerId := Some (rd_runnerId r),
              as_providerId := Some (runnerProviderId (rd_runnerId r))\<rparr>))
       | None \<Rightarrow> returnS (base \<lparr>as_compatible := True, as_reasons :=
           (if runners = [] then [runner_unavailable (''no '' @ family_str (ad_family d) @
              '' runner is configured for this environment'')] else map snd rejected)\<rparr>)))"

definition first_failure :: "AdapterResolution option \<Rightarrow> AdapterResolution \<Rightarrow> AdapterResolution option" where
  "first_failure acc r = (case acc of None \<Rightarrow> Some r | Some x \<Rightarrow> Some x)"

fun try_adapters :: "exec_config \<Rightarrow> string \<Rightarrow> EnvironmentInstance \<Rightarrow> HostInstance \<Rightarrow> ExecutionOperationDefinition \<Rightarrow>
    EnvironmentOperationRequirement \<Rightarrow> string option \<Rightarrow> AdapterResolution option \<Rightarrow> AdapterDefinition list \<Rightarrow>
    ('x exec_state_scheme, AdapterResolution) op" where
  "try_adapters cfg projectId i h op req executableId acc [] =
     returnS (case acc of None \<Rightarrow> not_ready [] | Some r \<Rightarrow> r)"
| "try_adapters cfg projectId i h op req executableId acc (d # ds) =
     (let reasons = evaluate_adapter d i h req;
          base = (not_ready []) \<lparr>as_adapterId := Some (ad_adapterId d), as_toolchains := observed_toolchains i req\<rparr> in
      if reasons \<noteq> []
      then try_adapters cfg projectId i h op req executableId (first_failure acc (base \<lparr>as_reasons := reasons\<rparr>)) ds
      else if (case non_empty executableId of None \<Rightarrow> False | Some x \<Rightarrow> x \<notin> set (ad_executables d))
      then try_adapters cfg projectId i h op req executableId (first_failure acc (base \<lparr>as_reasons :=
        [(''ADAPTER_ERROR'', ''the '' @ ad_adapterId d @ '' adapter does not serve executable '' @
          (case executableId of None \<Rightarrow> [] | Some x \<Rightarrow> x))]\<rparr>)) ds
      else bindS (serve cfg projectId i op req d) (\<lambda>r.
        if as_ready r then returnS r
        else try_adapters cfg projectId i h op req executableId (first_failure acc r) ds))"

definition adapters_for :: "exec_config \<Rightarrow> EnvironmentFamily \<Rightarrow> 'x exec_state_scheme \<Rightarrow> AdapterDefinition list" where
  "adapters_for cfg f s = js_sort (\<lambda>a b. xc_lc cfg (ad_adapterId a) (ad_adapterId b))
     (filter (\<lambda>d. ad_family d = f) (map snd (ar_adapters (x_adapters s))))"

definition resolve :: "exec_config \<Rightarrow> string \<Rightarrow> string \<Rightarrow> ExecutionOperationDefinition \<Rightarrow> string option \<Rightarrow>
    ('x exec_state_scheme, AdapterResolution) op" where
  "resolve cfg projectId instanceId op executableId = (case od_environment op of
     None \<Rightarrow> returnS (not_ready [(''ADAPTER_ERROR'', ''the operation declares no environment requirement'')])
   | Some req \<Rightarrow> bindS (getsS (adapters_for cfg (eo_family req))) (\<lambda>adapters.
       if adapters = [] then returnS (not_ready [(''ADAPTER_UNAVAILABLE'',
         ''no '' @ family_str (eo_family req) @ '' execution adapter is registered'')])
       else bindS (getsS (\<lambda>s. getEnvInstance instanceId (x_environments s))) (\<lambda>inst.
       bindS (getsS (\<lambda>s. case inst of None \<Rightarrow> None | Some i \<Rightarrow> getHost (ei_hostId i) (x_environments s))) (\<lambda>host.
         case (inst, host) of
           (Some i, Some h) \<Rightarrow> if ei_availability i \<noteq> EnvAvailable \<or> host_availability h \<noteq> EnvAvailable
             then returnS (not_ready [(''ENVIRONMENT_OFFLINE'', ''the environment or its host is not available'')])
             else try_adapters cfg projectId i h op req executableId None adapters
         | _ \<Rightarrow> returnS (not_ready [(''ENVIRONMENT_OFFLINE'', ''the environment or its host is not available'')])))))"

end
