(* ===== verification/Exec_Preflight.thy ===== *)
theory Exec_Preflight
  imports Exec_Adapters Tools Accounts
begin

text \<open>
  The pre-flight of \<open>core/execution/execution-manager.ts\<close>: every gate of one plan stage, evaluated against
  the authoritative records. The plans are those of the authoritative store, which the code reloads first.
\<close>

section \<open>Requests\<close>

record ExecutionRequest =
  xr_projectId :: string
  xr_planId :: string
  xr_planVersion :: int
  xr_stageId :: string
  xr_operationId :: "string option"
  xr_operationIds :: "string list option"
  xr_input :: "fields option"

definition check_input_value :: "nat \<Rightarrow> string \<times> json \<Rightarrow> unit res" where
  "check_input_value mx kv = (case kv of (k, v) \<Rightarrow> (case v of
     JStr s \<Rightarrow> throw_if (length s > mx) (ValidationError (''input.'' @ k @ '' is too long''))
   | JNum i \<Rightarrow> Inr ()
   | _ \<Rightarrow> Inl (ValidationError (''input.'' @ k @ '' must be a string or number''))))"

definition validateOperationIds :: "string list \<Rightarrow> unit res" where
  "validateOperationIds ids = checks
     [throw_if (length ids = 0 \<or> length ids > 20) (ValidationError ''operationIds must list 1-20 operations''),
      check_indexed (\<lambda>i v. requireExecutionId v (''operationIds['' @ show_nat i @ '']'')) ids,
      throw_if (\<not> distinct ids) (ValidationError ''operationIds must not repeat'')]"

definition validateExecutionRequest :: "ExecutionRequest \<Rightarrow> unit res" where
  "validateExecutionRequest r = checks
     [throw_if (xr_planVersion r < 1) (ValidationError ''planVersion must be a positive integer''),
      (case xr_input r of None \<Rightarrow> Inr () | Some fs \<Rightarrow> check_all (check_input_value 512) fs),
      requireExecutionId (xr_projectId r) ''projectId'', requireExecutionId (xr_planId r) ''planId'',
      requireExecutionId (xr_stageId r) ''stageId'',
      (case xr_operationId r of None \<Rightarrow> Inr () | Some i \<Rightarrow> requireExecutionId i ''operationId''),
      (case xr_operationIds r of None \<Rightarrow> Inr () | Some ids \<Rightarrow> validateOperationIds ids)]"

section \<open>Gates\<close>

datatype PreflightCheck =
    C_authorization | C_plan | C_stage | C_approval | C_policy | C_agent | C_environment | C_tool
  | C_input | C_workspace | C_sandbox

datatype CheckState = Chk_pass | Chk_fail | Chk_skipped

text \<open>The checks so far and the reasons collected, in order.\<close>

type_synonym gate_state = "(PreflightCheck \<Rightarrow> CheckState) \<times> ExecutionReason list"

definition freshChecks :: gate_state where
  "freshChecks = ((\<lambda>_. Chk_skipped), [])"

definition gate_fail :: "PreflightCheck \<Rightarrow> ExecutionReason \<Rightarrow> gate_state \<Rightarrow> gate_state" where
  "gate_fail c r g = ((fst g)(c := Chk_fail), snd g @ [r])"

definition gate_pass :: "PreflightCheck \<Rightarrow> gate_state \<Rightarrow> gate_state" where
  "gate_pass c g = (if fst g c = Chk_fail then fst g else (fst g)(c := Chk_pass), snd g)"

definition gate_fails :: "PreflightCheck \<Rightarrow> ExecutionReason list \<Rightarrow> gate_state \<Rightarrow> gate_state" where
  "gate_fails c rs g = foldl (\<lambda>g r. gate_fail c r g) g rs"

definition authorizeExecution :: "exec_config \<Rightarrow> OperatorPrincipal \<Rightarrow> string \<Rightarrow> string \<Rightarrow> unit res" where
  "authorizeExecution cfg p projectId capability = checks
     [throw_if (\<not> operatorCan p capability)
        (PermissionDeniedError (''operator '' @ op_id p @ '' lacks the '' @ capability @ '' capability'')),
      throw_if (\<not> operatorCanAccessProject p projectId \<or> \<not> xc_projects cfg projectId) (NotFoundError ''resource not found'')]"

definition plan_gate :: "ExecutionPlan \<Rightarrow> ExecutionPlan option \<Rightarrow> gate_state \<Rightarrow> gate_state" where
  "plan_gate plan latest g = gate_pass C_plan
     (if plan_status plan = Pl_superseded \<or> (case latest of None \<Rightarrow> False | Some l \<Rightarrow> plan_version l \<noteq> plan_version plan)
      then gate_fail C_plan (''STALE_PLAN'', ''plan revision v'' @ show_int (plan_version plan) @ '' is superseded'' @
        (case latest of None \<Rightarrow> [] | Some l \<Rightarrow> '' by v'' @ show_int (plan_version l))) g
      else if plan_status plan = Pl_blocked \<or> plan_status plan = Pl_draft
      then gate_fail C_plan (''PLAN_NOT_EXECUTABLE'', ''plan revision is '' @ plan_status_str (plan_status plan) @
        (if plan_blockers plan \<noteq> [] then '': '' @ js_join '', '' (js_unique (plan_blockers plan)) else [])) g
      else g)"

definition resolveOperation :: "exec_config \<Rightarrow> ExecutionRequest \<Rightarrow> ExecutionStageKind \<Rightarrow> operation_registry \<Rightarrow> gate_state \<Rightarrow>
    ExecutionOperationDefinition option \<times> gate_state" where
  "resolveOperation cfg r kind ops g = (case xr_operationId r of
     Some i \<Rightarrow> (case getOperation i ops of
         None \<Rightarrow> (None, gate_fail C_tool (''TOOL_NOT_ALLOWED'', ''unknown operation (not registered)'') g)
       | Some op \<Rightarrow> if od_stageKind op \<noteq> kind
           then (None, gate_fail C_tool (''TOOL_NOT_ALLOWED'', ''operation is not valid for a '' @ stage_str kind @ '' stage'') g)
           else (Some op, g))
   | None \<Rightarrow> (case forStageKind (xc_lc cfg) kind ops of
         [op] \<Rightarrow> (Some op, g)
       | [] \<Rightarrow> (None, gate_fail C_tool (''TOOL_NOT_ALLOWED'',
           ''no execution operation is registered for '' @ stage_str kind @ '' stages'') g)
       | _ \<Rightarrow> (None, gate_fail C_tool (''TOOL_NOT_ALLOWED'',
           ''several operations match this stage; operationId is required'') g)))"

definition tool_gate :: "ExecutionRequest \<Rightarrow> ExecutionOperationDefinition option \<Rightarrow> Tool option \<Rightarrow> gate_state \<Rightarrow> gate_state" where
  "tool_gate r op tool g = (case op of None \<Rightarrow> g | Some o' \<Rightarrow> (case tool of
     None \<Rightarrow> gate_fail C_tool (''TOOL_NOT_ALLOWED'', ''tool '' @ od_toolId o' @ '' is not registered'') g
   | Some t \<Rightarrow> if \<not> projectAllowed t (xr_projectId r)
       then gate_fail C_tool (''TOOL_NOT_ALLOWED'', ''the tool is not allowed for this project'') g else g))"

definition input_gate :: "ExecutionRequest \<Rightarrow> bool \<Rightarrow> ExecutionOperationDefinition option \<Rightarrow> gate_state \<Rightarrow> gate_state res" where
  "input_gate r skipInput op g = (case op of None \<Rightarrow> Inr g | Some o' \<Rightarrow>
     if skipInput then Inr g
     else (case validateOperationInput o' (xr_input r) of
         Inr v \<Rightarrow> Inr (gate_pass C_workspace (gate_pass C_input g))
       | Inl (ExecutionDeniedError c m) \<Rightarrow>
           Inr (gate_fail (if c = ''WORKSPACE_VIOLATION'' then C_workspace else C_input) (c, m) g)
       | Inl e \<Rightarrow> Inl e))"

definition not_qualified :: "string \<Rightarrow> ExecutionReason" where
  "not_qualified detail = (''AGENT_NOT_QUALIFIED'', detail)"

definition revalidateAgent :: "exec_config \<Rightarrow> Agent repo \<Rightarrow> ExecutionPlan \<Rightarrow> StageInfo \<Rightarrow> string + string" where
  "revalidateAgent cfg as plan stage =
     (case (case non_empty (stg_agent stage) of None \<Rightarrow> None
        | Some i \<Rightarrow> js_find (\<lambda>r. arq_id r = i) (plan_agentRequirements plan)) of
        None \<Rightarrow> Inl (''no agent requirement is planned for this '' @ stage_str (stg_kind stage) @ '' stage'')
      | Some requirement \<Rightarrow>
          (case non_empty (case js_find (\<lambda>a. paa_requirementId a = arq_id requirement) (plan_agents plan) of
             None \<Rightarrow> None | Some a \<Rightarrow> paa_agentId a) of
             None \<Rightarrow> Inl ''the plan assigned no qualified agent''
           | Some i \<Rightarrow> (case mem_findById i as of
               None \<Rightarrow> Inl ''the assigned agent is no longer registered''
             | Some agent \<Rightarrow>
                 (let ev = candidate_evidence (plan_projectId plan) (arq_capabilities requirement) (xc_isAgentEnabled cfg) agent in
                  if \<not> pce_qualifies ev
                  then Inl (''the assigned agent no longer qualifies: '' @ js_join '', '' (pce_reasonCodes ev))
                  else Inr (agent_id agent)))))"

fun rejection_code :: "EnvironmentRejectionReason \<Rightarrow> string" where
  "rejection_code Instance_unavailable = ''instance_unavailable''"
| "rejection_code Host_unavailable = ''host_unavailable''"
| "rejection_code Host_unknown = ''host_unknown''"
| "rejection_code Descriptor_mismatch = ''descriptor_mismatch''"
| "rejection_code Type_mismatch = ''environment_type_mismatch''"
| "rejection_code Os_mismatch = ''os_mismatch''"
| "rejection_code Architecture_mismatch = ''architecture_mismatch''"
| "rejection_code Trust_too_low = ''trust_too_low''"
| "rejection_code Missing_capability_env = ''missing_capability''"
| "rejection_code Missing_toolchain = ''missing_toolchain''"
| "rejection_code Toolchain_version_too_low = ''toolchain_version_too_low''"
| "rejection_code Missing_toolchain_component = ''missing_toolchain_component''"
| "rejection_code Toolchain_component_version_too_low = ''toolchain_component_version_too_low''"

fun capability_id_str :: "CapabilityId \<Rightarrow> string" where
  "capability_id_str Command_execution = ''command_execution_available''"
| "capability_id_str Container_runtime = ''container_runtime_available''"
| "capability_id_str Web_build = ''web_build_capable''"
| "capability_id_str Desktop_build = ''desktop_build_capable''"
| "capability_id_str Mobile_build = ''mobile_build_capable''"
| "capability_id_str Game_build = ''game_build_capable''"
| "capability_id_str Gpu = ''gpu_available''"

text \<open>Whether the router still finds the planned instance eligible, with the codes it reports otherwise.\<close>

definition still_eligible :: "exec_config \<Rightarrow> env_registry \<Rightarrow> EnvironmentRequirement \<Rightarrow> string \<Rightarrow> string list + unit" where
  "still_eligible cfg r req instanceId = (case evaluate_requirement (xc_lc cfg) req r of
     Inl e \<Rightarrow> Inl [''requirement_unresolvable'']
   | Inr ev \<Rightarrow> (case js_find (\<lambda>c. evc_instanceId c = instanceId) (me_candidates ev) of
       None \<Rightarrow> Inl [''not_evaluated'']
     | Some c \<Rightarrow> if evc_eligible c then Inr () else Inl (map rejection_code (evc_reasonCodes c))))"

definition revalidateEnvironment :: "exec_config \<Rightarrow> env_registry \<Rightarrow> ExecutionPlan \<Rightarrow> StageInfo \<Rightarrow> CapabilityId list \<Rightarrow>
    string + string" where
  "revalidateEnvironment cfg r plan stage required =
     (case (case non_empty (stg_environment stage) of None \<Rightarrow> None
        | Some e \<Rightarrow> js_find (\<lambda>x. pen_id x = e) (plan_environments plan)) of
        None \<Rightarrow> Inl ''the plan selected no environment for this stage''
      | Some planned \<Rightarrow> (case non_empty (pen_selectedInstanceId planned) of
          None \<Rightarrow> Inl ''the plan selected no environment for this stage''
        | Some instanceId \<Rightarrow> (case getEnvInstance instanceId r of
            None \<Rightarrow> Inl ''the selected environment is no longer registered''
          | Some i \<Rightarrow> (case getHost (ei_hostId i) r of
              None \<Rightarrow> Inl ''the selected environment is no longer registered''
            | Some h \<Rightarrow>
                if ei_availability i \<noteq> EnvAvailable \<or> host_availability h \<noteq> EnvAvailable
                then Inl ''the selected environment or its host is not available''
                else (case still_eligible cfg r (pen_requirement planned) instanceId of
                    Inl codes \<Rightarrow> Inl (''the selected environment is no longer eligible: '' @ js_join '', '' codes)
                  | Inr u \<Rightarrow>
                      (let missing = filter (\<lambda>c. c \<notin> set (available_capabilities i)) required in
                       if missing \<noteq> []
                       then Inl (''the environment lacks policy-required capabilities: '' @
                         js_join '', '' (map capability_id_str missing))
                       else Inr (ei_id i)))))))"

text \<open>The approvals this stage needs, by reason.\<close>

definition needed_approvals :: "ExecutionPlan \<Rightarrow> string \<Rightarrow> PolicyEvaluation option \<Rightarrow> string list" where
  "needed_approvals plan stageId ev =
     map par_reason (filter (\<lambda>r. stageId \<in> set (par_subjectIds r)) (plan_approvalRequirements plan)) @
     (case ev of None \<Rightarrow> [] | Some e \<Rightarrow> if pe_requiresApproval e then [''operation_risk''] else [])"

text \<open>The record grants this exact revision; its expiry is compared with the clock afterwards.\<close>

definition approval_matches :: "ExecutionPlan \<Rightarrow> Approval \<Rightarrow> bool" where
  "approval_matches plan a \<longleftrightarrow> plan_approvalState plan = ''approved'' \<and> approval_status a = Approved \<and>
     approval_action a = EXECUTION_PLAN_APPROVAL_ACTION \<and>
     map_of (decisionMetadata a) ''executionPlanId'' = Some (JStr (plan_id plan)) \<and>
     map_of (decisionMetadata a) ''projectId'' = Some (JStr (plan_projectId plan)) \<and>
     map_of (decisionMetadata a) ''planVersion'' = Some (JNum (plan_version plan))"

definition plan_approval :: "ExecutionPlan \<Rightarrow> Approval repo \<Rightarrow> Approval option" where
  "plan_approval plan as = (case non_empty (plan_approvalId plan) of None \<Rightarrow> None | Some i \<Rightarrow> mem_findById i as)"

definition approval_valid :: "ExecutionPlan \<Rightarrow> Approval option \<Rightarrow> ('x exec_state_scheme, bool) op" where
  "approval_valid plan approval = (case approval of None \<Rightarrow> returnS False | Some a \<Rightarrow>
     if \<not> approval_matches plan a then returnS False
     else (case expiresAt a of None \<Rightarrow> returnS True | Some e \<Rightarrow> bindS now (\<lambda>t. returnS (t < e))))"

type_synonym required_approval = "string \<times> string option \<times> string"

definition revalidateApprovals :: "ExecutionPlan \<Rightarrow> string \<Rightarrow> PolicyEvaluation option \<Rightarrow> gate_state \<Rightarrow>
    ('x exec_state_scheme, required_approval list \<times> gate_state) op" where
  "revalidateApprovals plan stageId ev g = (let needed = needed_approvals plan stageId ev in
     if needed = [] then returnS ([], g)
     else bindS (getsS (\<lambda>s. plan_approval plan (approvals s))) (\<lambda>approval.
       bindS (approval_valid plan approval) (\<lambda>valid.
         let state = (if valid then ''approved'' else
               case approval of Some a \<Rightarrow> approval_status_str (approval_status a) | None \<Rightarrow> plan_approvalState plan)
         in returnS (map (\<lambda>reason. (reason, non_empty (plan_approvalId plan), state)) needed,
           if valid then g else gate_fail C_approval (''APPROVAL_REQUIRED'',
             ''an approved approval for this exact plan revision is required ('' @ js_join '', '' needed @ '')'') g))))"

definition network_gate :: "ExecutionOperationDefinition option \<Rightarrow> PolicyEvaluation option \<Rightarrow> gate_state \<Rightarrow> gate_state" where
  "network_gate op ev g = (case (op, ev) of
     (Some o', Some e) \<Rightarrow> if od_network o' = Some True \<and> pe_network e = Deny_all
       then gate_fail C_policy (''POLICY_DENIED'', ''the operation needs network access the policy does not grant'') g else g
   | _ \<Rightarrow> g)"

definition absent_toolchains :: "env_registry \<Rightarrow> string \<Rightarrow> ExecutionOperationDefinition \<Rightarrow> string list" where
  "absent_toolchains r instanceId op = filter (\<lambda>k. \<not> (case getEnvInstance instanceId r of None \<Rightarrow> False
       | Some i \<Rightarrow> list_ex (\<lambda>t. toolchain_str (tc_kind t) = k) (ei_toolchains i)))
     (case od_toolchains op of None \<Rightarrow> [] | Some ks \<Rightarrow> ks)"

definition toolchain_gate :: "env_registry \<Rightarrow> ExecutionOperationDefinition option \<Rightarrow> string option \<Rightarrow> gate_state \<Rightarrow> gate_state" where
  "toolchain_gate r op instanceId g = (case (op, instanceId) of
     (Some o', Some i) \<Rightarrow> (let absent = absent_toolchains r i o' in
        if absent \<noteq> [] then gate_fail C_environment (''TOOLCHAIN_UNAVAILABLE'',
          ''required toolchain not present: '' @ js_join '', '' absent) g else g)
   | _ \<Rightarrow> g)"

definition executable_of :: "(string \<times> ExecutionToolDefinition) list \<Rightarrow> ExecutionOperationDefinition \<Rightarrow> string option" where
  "executable_of tools op = map_option (xd_executableId \<circ> xt_executable) (map_of tools (od_toolId op))"

text \<open>The routed provider, whether routing failed, and the gates.\<close>

definition routing_gate :: "exec_config \<Rightarrow> string \<Rightarrow> ExecutionOperationDefinition option \<Rightarrow> string option \<Rightarrow> gate_state \<Rightarrow>
    ('x exec_state_scheme, string option \<times> bool \<times> gate_state) op" where
  "routing_gate cfg projectId op instanceId g = (case (op, instanceId) of
     (Some o', Some i) \<Rightarrow>
       if od_environment o' = None then returnS (None, False, g)
       else if \<not> xc_adaptersConfigured cfg then returnS (None, True, gate_fail C_environment
         (''ADAPTER_UNAVAILABLE'', ''no environment execution adapters are configured'') g)
       else bindS (getsS (\<lambda>s. executable_of (x_tools s) o')) (\<lambda>executableId.
         bindS (resolve cfg projectId i o' executableId) (\<lambda>res.
           returnS (if \<not> as_ready res then (None, True, gate_fails C_environment (as_reasons res) g)
             else (as_providerId res, False, g))))
   | _ \<Rightarrow> returnS (None, False, g))"

definition sandbox_needs :: "(string \<times> ExecutionToolDefinition) list \<Rightarrow> ExecutionOperationDefinition \<Rightarrow> PolicyEvaluation \<Rightarrow>
    string option \<Rightarrow> SandboxNeeds" where
  "sandbox_needs tools op ev providerId =
     \<lparr>sn_workspaceAccess = operationWorkspaceAccess op, sn_network = (od_network op = Some True),
      sn_hostProcess = (case pe_rule ev of None \<Rightarrow> False | Some r \<Rightarrow> pr_hostProcess r),
      sn_executableId = executable_of tools op,
      sn_class = Some (case od_class op of None \<Rightarrow> Diagnostic | Some c \<Rightarrow> c),
      sn_trustedHostBuild = (case pe_rule ev of None \<Rightarrow> False | Some r \<Rightarrow> pr_trustedHostBuild r),
      sn_providerId = non_empty providerId\<rparr>"

definition sandbox_gate :: "exec_config \<Rightarrow> sandbox_registry \<Rightarrow> (string \<times> ExecutionToolDefinition) list \<Rightarrow>
    ExecutionOperationDefinition option \<Rightarrow> PolicyEvaluation option \<Rightarrow> string option \<Rightarrow> string option \<Rightarrow> bool \<Rightarrow> gate_state \<Rightarrow>
    SandboxProvider option \<times> gate_state" where
  "sandbox_gate cfg sandboxes tools op ev instanceId providerId routingFailed g = (case (op, ev, instanceId) of
     (Some o', Some e, Some i) \<Rightarrow>
       if routingFailed then (None, g)
       else (case selectProvider (xc_lc cfg) sandboxes i (pe_network e) (sandbox_needs tools o' e providerId) of
           None \<Rightarrow> (None, gate_fail C_sandbox
             (''SANDBOX_UNAVAILABLE'', ''no sandbox provider can isolate and bound this execution'') g)
         | Some p \<Rightarrow> (Some p, gate_pass C_sandbox g))
   | _ \<Rightarrow> (None, g))"

end
