(* ===== verification/Exec_Manager.thy ===== *)
theory Exec_Manager
  imports Exec_Preflight
begin

text \<open>
  \<open>core/execution/execution-manager.ts\<close>: the evaluation of all gates, the pre-flight, and the creation of
  governed sessions. The workspace control and the durable receipt store are absent, as in a manager
  composed without them.
\<close>

section \<open>Evaluation\<close>

record InternalContext =
  ic_operation :: ExecutionOperationDefinition
  ic_evaluation :: PolicyEvaluation
  ic_agentId :: string
  ic_environmentInstanceId :: string
  ic_policyId :: string
  ic_policyVersion :: int
  ic_grantTtlMs :: int
  ic_approvalIds :: "string list"

record PreflightResult =
  pf_eligible :: bool
  pf_reasons :: "ExecutionReason list"
  pf_checks :: "PreflightCheck \<Rightarrow> CheckState"
  pf_stageKind :: "ExecutionStageKind option"
  pf_operation :: "ExecutionOperationDefinition option"
  pf_agentId :: "string option"
  pf_environmentInstanceId :: "string option"
  pf_policy :: "(string \<times> int) option"
  pf_requiredApprovals :: "required_approval list"
  pf_limits :: "limits option"
  pf_enforcement :: "(ResourceLimitKey \<times> bool) list"
  pf_network :: "NetworkPolicy option"
  pf_sandbox :: "(string \<times> string) option"
  pf_internal :: "InternalContext option"

text \<open>The gates up to the environment: operation, evaluation, policy, agent, instance, gates.\<close>

record stage_gates =
  sg_operation :: "ExecutionOperationDefinition option"
  sg_evaluation :: "PolicyEvaluation option"
  sg_policy :: "ExecutionPolicy option"
  sg_agentId :: "string option"
  sg_instanceId :: "string option"
  sg_gates :: gate_state

definition ok_of :: "'e + 'a \<Rightarrow> 'a option" where
  "ok_of r = (case r of Inl e \<Rightarrow> None | Inr x \<Rightarrow> Some x)"

definition agent_gate :: "Tool option \<Rightarrow> string + string \<Rightarrow> gate_state \<Rightarrow> gate_state" where
  "agent_gate tool agent g = (case agent of
     Inl detail \<Rightarrow> gate_fail C_agent (not_qualified detail) g
   | Inr a \<Rightarrow> if a = [] then g else (case tool of
       Some t \<Rightarrow> if \<not> agentAllowed t a
         then gate_fail C_tool (''TOOL_NOT_ALLOWED'', ''the tool is not allowed for the assigned agent'') (gate_pass C_agent g)
         else gate_pass C_agent g
     | None \<Rightarrow> gate_pass C_agent g))"

definition policy_gate :: "ExecutionPolicy option \<Rightarrow> PolicyEvaluation option \<Rightarrow> gate_state \<Rightarrow> gate_state" where
  "policy_gate policy ev g = (case policy of
     None \<Rightarrow> gate_fail C_policy (''POLICY_DENIED'', ''no execution policy governs this project'') g
   | Some p \<Rightarrow> (case ev of None \<Rightarrow> g | Some e \<Rightarrow> gate_pass C_policy (gate_fails C_policy (pe_reasons e) g)))"

definition environment_gate :: "string + string \<Rightarrow> gate_state \<Rightarrow> gate_state" where
  "environment_gate env g = (case env of
     Inl detail \<Rightarrow> gate_fail C_environment (''ENVIRONMENT_UNAVAILABLE'', detail) g
   | Inr i \<Rightarrow> if i = [] then g else gate_pass C_environment g)"

definition stage_gates_of :: "exec_config \<Rightarrow> ExecutionRequest \<Rightarrow> bool \<Rightarrow> ExecutionPlan \<Rightarrow> StageInfo \<Rightarrow> gate_state \<Rightarrow>
    'x exec_state_scheme \<Rightarrow> stage_gates res" where
  "stage_gates_of cfg r skipInput plan stage g s =
     (case resolveOperation cfg r (stg_kind stage) (x_operations s) g of (op, g1) \<Rightarrow>
       (let tool = (case op of None \<Rightarrow> None | Some o' \<Rightarrow> map_of (toolset s) (od_toolId o')) in
        bindE (input_gate r skipInput op (tool_gate r op tool g1)) (\<lambda>g2.
          let agent = revalidateAgent cfg (agents s) plan stage;
              g3 = agent_gate tool agent g2;
              g4 = (if tool \<noteq> None then gate_pass C_tool g3 else g3);
              policy = forProject (xr_projectId r) (x_policies s);
              ev = (case (policy, op) of (Some p, Some o') \<Rightarrow> Some (evaluatePolicy p o') | _ \<Rightarrow> None);
              g5 = policy_gate policy ev g4;
              env = revalidateEnvironment cfg (x_environments s) plan stage
                (case ev of None \<Rightarrow> [] | Some e \<Rightarrow> (case pe_rule e of None \<Rightarrow> [] | Some rl \<Rightarrow> pr_environments rl));
              g6 = environment_gate env g5
          in Inr \<lparr>sg_operation = op, sg_evaluation = ev, sg_policy = policy, sg_agentId = non_empty (ok_of agent),
                  sg_instanceId = non_empty (ok_of env), sg_gates = g6\<rparr>)))"

definition internal_context :: "stage_gates \<Rightarrow> required_approval list \<Rightarrow> InternalContext option" where
  "internal_context sg approvals' = (case (sg_operation sg, sg_evaluation sg, sg_agentId sg, sg_instanceId sg, sg_policy sg) of
     (Some op, Some ev, Some a, Some i, Some p) \<Rightarrow> Some \<lparr>ic_operation = op, ic_evaluation = ev, ic_agentId = a,
       ic_environmentInstanceId = i, ic_policyId = pol_policyId p, ic_policyVersion = pol_version p,
       ic_grantTtlMs = pol_grantTtlMs p,
       ic_approvalIds = concat (map (\<lambda>(reason, i, st). case i of None \<Rightarrow> [] | Some x \<Rightarrow> [x]) approvals')\<rparr>
   | _ \<Rightarrow> None)"

definition gate_result :: "StageInfo \<Rightarrow> stage_gates \<Rightarrow> required_approval list \<Rightarrow> SandboxProvider option \<Rightarrow> gate_state \<Rightarrow>
    PreflightResult" where
  "gate_result stage sg approvals' sandbox g =
     \<lparr>pf_eligible = (snd g = []), pf_reasons = snd g, pf_checks = fst g, pf_stageKind = Some (stg_kind stage),
      pf_operation = sg_operation sg, pf_agentId = sg_agentId sg, pf_environmentInstanceId = sg_instanceId sg,
      pf_policy = map_option (\<lambda>p. (pol_policyId p, pol_version p)) (sg_policy sg),
      pf_requiredApprovals = approvals',
      pf_limits = map_option pe_limits (sg_evaluation sg),
      pf_enforcement = (case sg_evaluation sg of None \<Rightarrow> [] | Some e \<Rightarrow> limitEnforcementFor sandbox (pe_limits e)),
      pf_network = map_option pe_network (sg_evaluation sg),
      pf_sandbox = map_option (\<lambda>p. (sp_providerId p, sp_kind p)) sandbox,
      pf_internal = (if snd g = [] then internal_context sg approvals' else None)\<rparr>"

definition final_gates :: "exec_config \<Rightarrow> ExecutionRequest \<Rightarrow> StageInfo \<Rightarrow> stage_gates \<Rightarrow> required_approval list \<Rightarrow> gate_state \<Rightarrow>
    ('x exec_state_scheme, PreflightResult) op" where
  "final_gates cfg r stage sg approvals' g =
     bindS (getsS (\<lambda>s. toolchain_gate (x_environments s) (sg_operation sg) (sg_instanceId sg)
       (network_gate (sg_operation sg) (sg_evaluation sg) (gate_pass C_approval g)))) (\<lambda>g3.
     bindS (routing_gate cfg (xr_projectId r) (sg_operation sg) (sg_instanceId sg) g3) (\<lambda>(providerId, routingFailed, g4).
     getsS (\<lambda>s. case sandbox_gate cfg (x_sandboxes s) (x_tools s) (sg_operation sg) (sg_evaluation sg) (sg_instanceId sg)
         providerId routingFailed g4 of (sandbox, g5) \<Rightarrow> gate_result stage sg approvals' sandbox g5)))"

definition no_stage :: "gate_state \<Rightarrow> PreflightResult" where
  "no_stage g = (let g' = gate_fail C_stage (''PLAN_NOT_EXECUTABLE'', ''the plan revision has no such stage'') g in
     \<lparr>pf_eligible = False, pf_reasons = snd g', pf_checks = fst g', pf_stageKind = None, pf_operation = None,
      pf_agentId = None, pf_environmentInstanceId = None, pf_policy = None, pf_requiredApprovals = [],
      pf_limits = None, pf_enforcement = [], pf_network = None, pf_sandbox = None, pf_internal = None\<rparr>)"

definition find_plan :: "ExecutionRequest \<Rightarrow> plan_repo \<Rightarrow> ExecutionPlan option" where
  "find_plan r plans = (case mem_findById (xr_planId r @ ''@v'' @ show_int (xr_planVersion r)) plans of
     None \<Rightarrow> None | Some p \<Rightarrow> if plan_projectId p \<noteq> xr_projectId r then None else Some p)"

definition evaluateRequest :: "exec_config \<Rightarrow> OperatorPrincipal \<Rightarrow> ExecutionRequest \<Rightarrow> bool \<Rightarrow>
    ('x exec_state_scheme, PreflightResult) op" where
  "evaluateRequest cfg p r skipInput =
     bindS (liftE (authorizeExecution cfg p (xr_projectId r) ''prepare_execution'')) (\<lambda>_.
     bindS (getsS (\<lambda>s. (find_plan r (x_plans s), latestVersion (xr_planId r) (x_plans s)))) (\<lambda>(found, latest).
     case found of None \<Rightarrow> throwS (NotFoundError ''resource not found'')
     | Some plan \<Rightarrow>
       (let g = plan_gate plan latest (gate_pass C_authorization freshChecks) in
        case stageOf plan (xr_stageId r) of
          None \<Rightarrow> returnS (no_stage g)
        | Some stage \<Rightarrow>
            bindS (getsS (stage_gates_of cfg r skipInput plan stage (gate_pass C_stage g))) (\<lambda>sg'.
            bindS (liftE sg') (\<lambda>sg.
            bindS (revalidateApprovals plan (xr_stageId r) (sg_evaluation sg) (sg_gates sg)) (\<lambda>(approvals', g').
            final_gates cfg r stage sg approvals' g'))))))"

definition exec_record :: "string \<Rightarrow> string \<Rightarrow> string \<Rightarrow> fields \<Rightarrow> ('x exec_state_scheme, unit) op" where
  "exec_record action actor projectId data = audit ''execution_event'' None None (Some projectId)
     ([(''action'', JStr action), (''actor'', JStr actor)] @ data)"

definition plan_doc :: "string \<Rightarrow> int \<Rightarrow> string" where
  "plan_doc planId v = planId @ ''@v'' @ show_int v"

definition preflight :: "exec_config \<Rightarrow> OperatorPrincipal \<Rightarrow> ExecutionRequest \<Rightarrow>
    ('x exec_state_scheme, PreflightResult) op" where
  "preflight cfg p r = thenS (liftE (validateExecutionRequest r))
     (bindS (evaluateRequest cfg p r False) (\<lambda>result.
       thenS (exec_record ''preflight'' (op_id p) (xr_projectId r)
         ([(''decision'', JStr (if pf_eligible result then ''ELIGIBLE'' else ''DENIED'')),
           (''reasonCodes'', jstrs (map fst (pf_reasons result))),
           (''executionPlanId'', JStr (plan_doc (xr_planId r) (xr_planVersion r))),
           (''stageId'', JStr (xr_stageId r))] @
          (case pf_operation result of None \<Rightarrow> [] | Some op \<Rightarrow> [(''operationId'', JStr (od_id op))]) @
          (case pf_policy result of None \<Rightarrow> [] | Some (i, v) \<Rightarrow> [(''policyId'', JStr i), (''policyVersion'', JNum v)])))
       (returnS (result \<lparr>pf_internal := None\<rparr>))))"

section \<open>Creating a session\<close>

definition sameRequest :: "ExecutionSession \<Rightarrow> ExecutionRequest \<Rightarrow> bool" where
  "sameRequest s r \<longleftrightarrow>
     js_default_sort (filter (\<lambda>i. i \<noteq> es_operationId s) (case xr_operationIds r of None \<Rightarrow> [] | Some ids \<Rightarrow> ids)) =
       js_default_sort (drop 1 (case es_operationIds s of None \<Rightarrow> [] | Some ids \<Rightarrow> ids)) \<and>
     es_projectId s = xr_projectId r \<and> es_planId s = xr_planId r \<and> es_planVersion s = xr_planVersion r \<and>
     es_stageId s = xr_stageId r \<and> (case xr_operationId r of None \<Rightarrow> True | Some i \<Rightarrow> es_operationId s = i)"

text \<open>The additional operations of a persistent session, each evaluated on its own.\<close>

fun evaluate_extras :: "exec_config \<Rightarrow> OperatorPrincipal \<Rightarrow> ExecutionRequest \<Rightarrow> string list \<Rightarrow>
    ('x exec_state_scheme, InternalContext list \<times> ExecutionReason list) op" where
  "evaluate_extras cfg p r [] = returnS ([], [])"
| "evaluate_extras cfg p r (i # ids) =
     bindS (evaluateRequest cfg p (r \<lparr>xr_operationIds := None, xr_input := None, xr_operationId := Some i\<rparr>) True) (\<lambda>e.
     bindS (evaluate_extras cfg p r ids) (\<lambda>(cs, rs). returnS (case pf_internal e of
        Some c \<Rightarrow> (c # cs, rs)
      | None \<Rightarrow> (cs, map (\<lambda>(c, d). (c, i @ '': '' @ d)) (pf_reasons e) @ rs))))"

definition mk_grant :: "string \<Rightarrow> string \<Rightarrow> string \<Rightarrow> timestamp \<Rightarrow> InternalContext \<Rightarrow> string \<Rightarrow> ExecutionCapability \<Rightarrow> CapabilityGrant" where
  "mk_grant projectId sessionId workspaceId at c grantId capability =
     \<lparr>gr_grantId = grantId, gr_sessionId = sessionId, gr_projectId = projectId, gr_agentId = ic_agentId c,
      gr_environmentInstanceId = ic_environmentInstanceId c, gr_workspaceId = workspaceId,
      gr_toolId = od_toolId (ic_operation c), gr_operationId = od_id (ic_operation c), gr_capability = capability,
      gr_filesystem = (if js_startsWith (capability_str capability) ''filesystem.'' then Some (pe_filesystem (ic_evaluation c)) else None),
      gr_network = (if capability = Network_outbound_allowed_host then Some (pe_network (ic_evaluation c)) else None),
      gr_policyId = ic_policyId c, gr_policyVersion = ic_policyVersion c, gr_issuedAt = at,
      gr_expiresAt = at + ic_grantTtlMs c\<rparr>"

text \<open>One grant per capability of each context, each under a new id.\<close>

fun mk_grants :: "string \<Rightarrow> string \<Rightarrow> string \<Rightarrow> timestamp \<Rightarrow> (InternalContext \<times> ExecutionCapability) list \<Rightarrow>
    ('x exec_state_scheme, CapabilityGrant list) op" where
  "mk_grants projectId sessionId workspaceId at [] = returnS []"
| "mk_grants projectId sessionId workspaceId at ((c, cap) # xs) = bindS (createId ''grt'') (\<lambda>i.
     bindS (mk_grants projectId sessionId workspaceId at xs) (\<lambda>gs.
       returnS (mk_grant projectId sessionId workspaceId at c i cap # gs)))"

definition context_capabilities :: "InternalContext list \<Rightarrow> (InternalContext \<times> ExecutionCapability) list" where
  "context_capabilities cs = concat (map (\<lambda>c. map (Pair c) (pe_capabilities (ic_evaluation c))) cs)"

definition fallback_limits :: limits where
  "fallback_limits = Map.empty(SessionTimeoutMs \<mapsto> 1, OperationTimeoutMs \<mapsto> 1, MaxOutputBytes \<mapsto> 1,
     MaxArtifactBytes \<mapsto> 1, MaxToolCalls \<mapsto> 1)"

definition opt_else :: "'a \<Rightarrow> 'a option \<Rightarrow> 'a" where
  "opt_else d x = (case x of None \<Rightarrow> d | Some y \<Rightarrow> y)"

definition new_session :: "OperatorPrincipal \<Rightarrow> ExecutionRequest \<Rightarrow> string \<Rightarrow> PreflightResult \<Rightarrow> string list \<Rightarrow>
    InternalContext list \<Rightarrow> CapabilityGrant list \<Rightarrow> string \<Rightarrow> string \<Rightarrow> timestamp \<Rightarrow> ExecutionSession" where
  "new_session p r key e extraIds contexts grants sessionId workspaceId at =
     \<lparr>es_sessionId = sessionId, es_projectId = xr_projectId r, es_planId = xr_planId r,
      es_planVersion = xr_planVersion r, es_stageId = xr_stageId r,
      es_stageKind = opt_else Build_stage (pf_stageKind e),
      es_operationId = opt_else [] (map_option od_id (pf_operation e)),
      es_toolId = opt_else [] (map_option od_toolId (pf_operation e)),
      es_operationIds = (if extraIds \<noteq> [] then Some (opt_else [] (map_option od_id (pf_operation e)) # extraIds) else None),
      es_persistent = (extraIds \<noteq> []),
      es_agentId = opt_else [] (pf_agentId e), es_environmentInstanceId = opt_else [] (pf_environmentInstanceId e),
      es_policy = opt_else ([], 0) (pf_policy e),
      es_approvalIds = js_unique (concat (map ic_approvalIds contexts)),
      es_risk = opt_else Er_critical (map_option od_risk (pf_operation e)),
      es_workspace = \<lparr>ws_workspaceId = workspaceId, ws_sessionId = sessionId, ws_projectId = xr_projectId r,
        ws_rootRef = ''workspace://'' @ xr_projectId r @ ''/'' @ workspaceId,
        ws_writable = list_ex (\<lambda>c. operationWorkspaceAccess (ic_operation c) = Wa_write) contexts,
        ws_status = (if contexts \<noteq> [] then Ws_requested else Ws_released)\<rparr>,
      es_grants = grants, es_limits = opt_else fallback_limits (pf_limits e), es_enforcement = pf_enforcement e,
      es_network = opt_else Deny_all (pf_network e), es_sandbox = pf_sandbox e, es_status = Es_created, es_reasons = [],
      es_requestedBy = op_id p, es_idempotencyKey = key, es_cancellation = None, es_attempts = [],
      es_createdAt = at, es_startedAt = None, es_endedAt = None, es_revision = 1\<rparr>"

definition prepared :: "ExecutionSession \<Rightarrow> bool \<Rightarrow> ExecutionReason list \<Rightarrow> timestamp \<Rightarrow> ExecutionSession res" where
  "prepared s granted reasons at = bindE (transitionSession s Es_validating at plain_patch) (\<lambda>t.
     if granted then transitionSession t Es_ready at plain_patch
     else transitionSession t Es_denied at \<lparr>sp_reasons = Some reasons, sp_cancellation = None\<rparr>)"

definition session_insert :: "ExecutionSession \<Rightarrow> ('x exec_state_scheme, bool) op" where
  "session_insert t s = (case insertSession t (x_sessions s) of (ok, st) \<Rightarrow> (Inr ok, s \<lparr>x_sessions := st\<rparr>))"

definition store_new :: "OperatorPrincipal \<Rightarrow> ExecutionRequest \<Rightarrow> string \<Rightarrow> ExecutionSession \<Rightarrow>
    ('x exec_state_scheme, ExecutionSession \<times> bool) op" where
  "store_new p r key t = bindS (session_insert t) (\<lambda>ok.
     if \<not> ok then bindS (getsS (\<lambda>s. findByIdempotencyKey (op_id p) key (x_sessions s))) (\<lambda>winner. case winner of
         Some w \<Rightarrow> if sameRequest w r then returnS (w, True)
           else throwS (StateTransitionError ''execution session could not be created (conflict)'')
       | None \<Rightarrow> throwS (StateTransitionError ''execution session could not be created (conflict)''))
     else thenS (exec_record ''session_created'' (op_id p) (xr_projectId r)
         [(''execution'', JStr (es_sessionId t)), (''status'', JStr (session_status_str (es_status t))),
          (''reasonCodes'', jstrs (map fst (es_reasons t))),
          (''executionPlanId'', JStr (plan_doc (xr_planId r) (xr_planVersion r))), (''stageId'', JStr (xr_stageId r)),
          (''grants'', jstrs (map (capability_str \<circ> gr_capability) (es_grants t)))])
       (returnS (t, False)))"

definition create_fresh :: "exec_config \<Rightarrow> OperatorPrincipal \<Rightarrow> ExecutionRequest \<Rightarrow> string \<Rightarrow>
    ('x exec_state_scheme, ExecutionSession \<times> bool) op" where
  "create_fresh cfg p r key =
     (let ids = (case xr_operationIds r of None \<Rightarrow> [] | Some ids \<Rightarrow> ids) in
      bindS (evaluateRequest cfg p r (ids \<noteq> [] \<and> xr_input r = None)) (\<lambda>e.
        let extraIds = filter (\<lambda>i. Some i \<noteq> map_option od_id (pf_operation e)) ids in
        bindS (evaluate_extras cfg p r extraIds) (\<lambda>(extras, extraReasons).
          let granted = (pf_eligible e \<and> extraReasons = []) in
          bindS now (\<lambda>at. bindS (createId ''exs'') (\<lambda>sessionId. bindS (createId ''ews'') (\<lambda>workspaceId.
            let contexts = (case (granted, pf_internal e) of (True, Some c) \<Rightarrow> c # extras | _ \<Rightarrow> []) in
            bindS (mk_grants (xr_projectId r) sessionId workspaceId at (context_capabilities contexts)) (\<lambda>grants.
            bindS (liftE (prepared (new_session p r key e extraIds contexts grants sessionId workspaceId at)
                granted (pf_reasons e @ extraReasons) at))
              (store_new p r key))))))))"

definition createSession :: "exec_config \<Rightarrow> OperatorPrincipal \<Rightarrow> ExecutionRequest \<Rightarrow> string \<Rightarrow>
    ('x exec_state_scheme, ExecutionSession \<times> bool) op" where
  "createSession cfg p r key = thenS (liftE (requireExecutionId key ''idempotencyKey''))
     (thenS (liftE (validateExecutionRequest r))
     (bindS (getsS (\<lambda>s. findByIdempotencyKey (op_id p) key (x_sessions s))) (\<lambda>existing. case existing of
        Some x \<Rightarrow> if es_projectId x \<noteq> xr_projectId r \<or> \<not> sameRequest x r
          then throwS (StateTransitionError ''idempotency key was already used for a different request'')
          else returnS (x, True)
      | None \<Rightarrow> create_fresh cfg p r key)))"

end
