(* ===== verification/Exec_Frames.thy ===== *)
theory Exec_Frames
  imports Exec_Manager Audited
begin

text \<open>
  What evaluating an execution leaves alone: every record but the audit log, the clock readings, the id
  counter and the leases of expired runners; and what a resolution to a runner promises.
\<close>

section \<open>The frame\<close>

definition adapter_setup :: "adapter_registry \<Rightarrow> adapter_registry" where
  "adapter_setup a = a\<lparr>ar_leases := []\<rparr>"

definition same_execution :: "'x exec_state_scheme \<Rightarrow> 'x exec_state_scheme \<Rightarrow> bool" where
  "same_execution s t \<longleftrightarrow> x_environments t = x_environments s \<and> x_operations t = x_operations s \<and>
     x_policies t = x_policies s \<and> x_sandboxes t = x_sandboxes s \<and> x_tools t = x_tools s \<and>
     x_plans t = x_plans s \<and> x_sessions t = x_sessions s \<and> toolset t = toolset s \<and> agents t = agents s \<and>
     approvals t = approvals s \<and> time_at t = time_at s \<and> ticks s \<le> ticks t \<and>
     adapter_setup (x_adapters t) = adapter_setup (x_adapters s)"

interpretation exec_frame: evolution same_execution
  by unfold_locales (simp_all add: same_execution_def)

lemma same_refl [simp]: "same_execution s s"
  by (rule exec_frame.refl)

lemma keeps_exec_now [keeps_rules]: "keeps same_execution now"
  by (simp add: keeps_def now_def same_execution_def)

lemma keeps_exec_createId [keeps_rules]: "keeps same_execution (createId p)"
  by (simp add: keeps_def createId_eq same_execution_def)

lemma audit_time: "time_at (snd (audit ty t a p d s)) = time_at s" "ticks s \<le> ticks (snd (audit ty t a p d s))"
  by (auto simp: audit_def record_event_def now_def createId_eq op_simps Let_def split: option.splits prod.splits)

lemma exec_more_fields:
  assumes "audit_state.more t = audit_state.more s"
  shows "x_environments t = x_environments s" "x_operations t = x_operations s" "x_policies t = x_policies s"
    "x_sandboxes t = x_sandboxes s" "x_tools t = x_tools s" "x_plans t = x_plans s" "x_sessions t = x_sessions s"
    "toolset t = toolset s" "agents t = agents s" "approvals t = approvals s" "x_adapters t = x_adapters s"
  using assms by (cases s, cases t, simp)+

lemma keeps_exec_audit [keeps_rules]: "keeps same_execution (audit ty t a p d)"
  unfolding keeps_def same_execution_def using audit_time exec_more_fields [OF audit_more] by metis

lemma keeps_exec_records [keeps_rules]: "keeps same_execution (adapter_record action projectId data)"
    "keeps same_execution (lease_record action l)" "keeps same_execution (exec_record action actor projectId data)"
  unfolding lease_record_def adapter_record_def exec_record_def by (rule keeps_exec_audit)+

lemma keeps_exec_drop [keeps_rules]: "keeps same_execution (drop_lease i)"
  by (simp add: keeps_def drop_lease_def set_adapters_def same_execution_def adapter_setup_def)

lemma keeps_exec_leases [keeps_rules]:
  "keeps same_execution reclaimExpired" "keeps same_execution (activeLeases runnerId)"
  unfolding activeLeases_def reclaimExpired_def case_prod_beta
  by (intro exec_frame.keeps_intros keeps_rules)+

lemma keeps_exec_liveness [keeps_rules]: "keeps same_execution (liveness cfg runnerId)"
  unfolding liveness_def by (intro exec_frame.keeps_intros keeps_rules)

lemma keeps_exec_runner [keeps_rules]: "keeps same_execution (runner_reason cfg projectId d)"
  unfolding runner_reason_def by (intro exec_frame.keeps_intros keeps_rules)

lemma keeps_exec_pick [keeps_rules]: "keeps same_execution (pick_runner cfg projectId adapterId instanceId ds)"
proof (induction ds)
  case Nil
  show ?case unfolding pick_runner.simps by (rule exec_frame.keeps_returnS)
next
  case (Cons d ds)
  show ?case unfolding pick_runner.simps case_prod_beta
    by (intro exec_frame.keeps_intros keeps_rules Cons.IH)
qed

lemma keeps_exec_serve [keeps_rules]: "keeps same_execution (serve cfg projectId i op req d)"
  unfolding serve_def case_prod_beta Let_def by (intro exec_frame.keeps_intros keeps_rules)

lemma keeps_exec_try [keeps_rules]: "keeps same_execution (try_adapters cfg projectId i h op req x acc ds)"
proof (induction ds arbitrary: acc)
  case Nil
  show ?case unfolding try_adapters.simps by (rule exec_frame.keeps_returnS)
next
  case (Cons d ds)
  show ?case unfolding try_adapters.simps Let_def
    by (intro exec_frame.keeps_intros keeps_rules Cons.IH)
qed

lemma keeps_case_pair:
  "(\<And>i h. keeps same_execution (m i h)) \<Longrightarrow>
     keeps same_execution (case p of (Some i, Some h) \<Rightarrow> m i h | _ \<Rightarrow> returnS r)"
  by (cases p; cases "fst p"; cases "snd p") (simp_all add: exec_frame.keeps_returnS del: returnS_apply)

lemma keeps_exec_resolve [keeps_rules]: "keeps same_execution (resolve cfg projectId instanceId op x)"
  unfolding resolve_def by (intro exec_frame.keeps_intros keeps_case_pair keeps_rules)

lemma keeps_exec_routing [keeps_rules]: "keeps same_execution (routing_gate cfg projectId op instanceId g)"
  unfolding routing_gate_def
  by (cases op; cases instanceId) (auto intro!: exec_frame.keeps_intros keeps_rules)

lemma keeps_exec_approvals [keeps_rules]: "keeps same_execution (revalidateApprovals plan stageId ev g)"
  unfolding revalidateApprovals_def approval_valid_def Let_def
  by (intro exec_frame.keeps_intros keeps_rules)

lemma keeps_exec_final [keeps_rules]: "keeps same_execution (final_gates cfg r stage sg as g)"
  unfolding final_gates_def case_prod_beta by (intro exec_frame.keeps_intros keeps_rules)

lemma keeps_exec_evaluate [keeps_rules]: "keeps same_execution (evaluateRequest cfg p r skip)"
  unfolding evaluateRequest_def case_prod_beta Let_def
  by (intro exec_frame.keeps_intros keeps_rules)

end
