(* ===== verification/Exec_Routing_Laws.thy ===== *)
theory Exec_Routing_Laws
  imports Exec_Frames
begin

text \<open>
  What a resolution promises: the runner it selects serves the instance for the selected adapter, its
  identity, project and policy are accepted, its heartbeat is recent and it has a free slot; and a
  resolution that is not ready says why.
\<close>

section \<open>Runners\<close>

text \<open>The runner serves the project: judged in state \<open>s\<close>, with a slot free in state \<open>t\<close>.\<close>

definition runner_serves :: "exec_config \<Rightarrow> string \<Rightarrow> RunnerDescriptor \<Rightarrow> 'x exec_state_scheme \<Rightarrow> 'x exec_state_scheme \<Rightarrow> bool" where
  "runner_serves cfg projectId d s t \<longleftrightarrow> same_execution s t \<and>
     projectDenial d projectId (map_of (ar_policies (x_adapters s)) projectId) = None \<and>
     (\<exists>b k. ar_heartbeats (x_adapters s) (rd_runnerId d) = Some b \<and> ticks s \<le> k \<and>
        liveness_at (stale_after cfg) (time_at s k) b = None) \<and>
     int (length (leases_of (rd_runnerId d) t)) < rd_capacity d"

lemma same_trans: "same_execution s t \<Longrightarrow> same_execution t u \<Longrightarrow> same_execution s u"
  by (rule exec_frame.trans)

lemma same_setup:
  assumes "same_execution s t"
  shows "ar_adapters (x_adapters t) = ar_adapters (x_adapters s)" "ar_runners (x_adapters t) = ar_runners (x_adapters s)"
    "ar_policies (x_adapters t) = ar_policies (x_adapters s)" "ar_heartbeats (x_adapters t) = ar_heartbeats (x_adapters s)"
proof -
  have "adapter_setup (x_adapters t) = adapter_setup (x_adapters s)" using assms by (simp add: same_execution_def)
  then show "ar_adapters (x_adapters t) = ar_adapters (x_adapters s)" "ar_runners (x_adapters t) = ar_runners (x_adapters s)"
    "ar_policies (x_adapters t) = ar_policies (x_adapters s)" "ar_heartbeats (x_adapters t) = ar_heartbeats (x_adapters s)"
    by (cases "x_adapters s"; cases "x_adapters t"; simp add: adapter_setup_def)+
qed

lemma same_fields:
  assumes "same_execution s t"
  shows "x_environments t = x_environments s" "x_operations t = x_operations s" "x_policies t = x_policies s"
    "x_sandboxes t = x_sandboxes s" "x_tools t = x_tools s" "x_plans t = x_plans s" "x_sessions t = x_sessions s"
    "toolset t = toolset s" "agents t = agents s" "approvals t = approvals s" "time_at t = time_at s" "ticks s \<le> ticks t"
  using assms by (simp_all add: same_execution_def)

lemma serves_later: "same_execution s t \<Longrightarrow> runner_serves cfg projectId d t u \<Longrightarrow> runner_serves cfg projectId d s u"
  using same_setup [of s t] same_fields(11,12) [of s t] same_trans [of s t u]
  unfolding runner_serves_def by (metis le_trans)

lemma then_then: "thenS (thenS a b) k s = thenS a (thenS b k) s"
  by (auto simp: op_simps split: prod.splits sum.splits)

lemma bind_leases:
  fixes s :: "'x exec_state_scheme"
  shows "bindS (activeLeases i) f s = f (leases_of i (snd (activeLeases i s))) (snd (activeLeases i s))"
proof -
  obtain r t where run: "reclaimExpired s = (r, t)" by fastforce
  have audits: "fst (for_each ls (\<lambda>(i, l). thenS (drop_lease i) (lease_record ''runner_lease_expired'' l)) u) = Inr ()"
    for ls and u :: "'x exec_state_scheme"
    by (induction ls arbitrary: u)
      (auto simp: drop_lease_def set_adapters_def then_modify then_then lease_record_def adapter_record_def)
  have "r = fst (reclaimExpired s)" using run by simp
  also have "\<dots> = Inr ()" unfolding reclaimExpired_def bind_now bind_gets by (rule audits)
  finally show ?thesis using run by (simp add: activeLeases_def thenS_def bindS_def getsS_def)
qed

lemma runner_reason_None:
  assumes "runner_reason cfg projectId d s = (Inr None, t)"
  shows "runner_serves cfg projectId d s t"
proof -
  let ?policy = "map_of (ar_policies (x_adapters s)) projectId"
  have denial: "projectDenial d projectId ?policy = None"
    using assms by (cases "projectDenial d projectId ?policy") (auto simp: runner_reason_def)
  obtain b where b: "ar_heartbeats (x_adapters s) (rd_runnerId d) = Some b"
    using assms denial by (cases "ar_heartbeats (x_adapters s) (rd_runnerId d)")
      (auto simp: runner_reason_def liveness_def bindS_def returnS_def)
  let ?t = "s\<lparr>ticks := Suc (ticks s)\<rparr>"
  have live: "liveness_at (stale_after cfg) (time_at s (ticks s)) b = None"
    using assms denial b by (cases "liveness_at (stale_after cfg) (time_at s (ticks s)) b")
      (auto simp: runner_reason_def liveness_def bindS_Inr_iff now_def)
  then have "t = snd (activeLeases (rd_runnerId d) ?t) \<and> int (length (leases_of (rd_runnerId d) t)) < rd_capacity d"
    using assms denial b
    by (auto simp: runner_reason_def liveness_def bindS_Inr [where x = None] bind_leases split: if_splits)
  moreover have "same_execution s t"
    using keepsD [OF keeps_exec_runner assms] .
  ultimately show ?thesis using denial b live by (auto simp: runner_serves_def)
qed

lemma picked:
  "pick_runner cfg projectId a i ds s = (Inr (Some d, rejected), t) \<Longrightarrow>
     d \<in> set ds \<and> (\<exists>u. runner_serves cfg projectId d s u)"
proof (induction ds arbitrary: s rejected)
  case (Cons e ds)
  obtain r u where first: "runner_reason cfg projectId e s = (r, u)" by fastforce
  have same: "same_execution s u" using keepsD [OF keeps_exec_runner first] .
  from first Cons.prems obtain q where r: "r = Inr q" by (cases r) (auto simp: bindS_def)
  show ?case
  proof (cases q)
    case None
    then show ?thesis using Cons.prems first r runner_reason_None [of cfg projectId e s u]
      by (auto simp: bindS_def)
  next
    case (Some x)
    let ?v = "snd (audit ''execution_event'' None None (non_empty (Some projectId))
      ([(''runnerId'', JStr (rd_runnerId e)), (''adapterId'', JStr a), (''environmentInstanceId'', JStr i),
        (''code'', JStr (fst x))] @ [(''action'', JStr ''runner_rejected'')]) u)"
    have v: "same_execution s ?v"
      using same keeps_apply [OF keeps_exec_audit] same_trans by blast
    have "\<exists>rejected'. pick_runner cfg projectId a i ds ?v = (Inr (Some d, rejected'), t)"
      using Cons.prems first r Some
      by (auto simp: bindS_Inr [where m = "runner_reason cfg projectId e", OF first [unfolded r]] adapter_record_def bindS_Inr_iff)
    then have "d \<in> set ds \<and> (\<exists>u. runner_serves cfg projectId d ?v u)" using Cons.IH by blast
    moreover from this obtain w where "runner_serves cfg projectId d ?v w" by blast
    then have "runner_serves cfg projectId d s w" by (rule serves_later [OF v])
    ultimately show ?thesis by (meson list.set_intros(2))
  qed
qed simp

lemma picked_none:
  "pick_runner cfg projectId a i ds s = (Inr (None, rejected), t) \<Longrightarrow> ds \<noteq> [] \<Longrightarrow> rejected \<noteq> []"
  by (cases ds) (auto simp: bindS_Inr_iff thenS_def split: option.splits)

section \<open>Adapters\<close>

definition adapter_fits :: "AdapterDefinition \<Rightarrow> EnvironmentInstance \<Rightarrow> HostInstance \<Rightarrow> EnvironmentOperationRequirement \<Rightarrow>
    string option \<Rightarrow> bool" where
  "adapter_fits a i h req x \<longleftrightarrow> evaluate_adapter a i h req = [] \<and>
     (\<forall>e. non_empty x = Some e \<longrightarrow> e \<in> set (ad_executables a))"

text \<open>The adapter and the runner a resolution selected.\<close>

definition routed_by :: "exec_config \<Rightarrow> string \<Rightarrow> EnvironmentInstance \<Rightarrow> AdapterDefinition \<Rightarrow> RunnerDescriptor \<Rightarrow>
    AdapterResolution \<Rightarrow> 'x exec_state_scheme \<Rightarrow> bool" where
  "routed_by cfg projectId i a d r s \<longleftrightarrow> d \<in> set (runners_for cfg (ad_adapterId a) (ei_id i) s) \<and>
     as_adapterId r = Some (ad_adapterId a) \<and> as_runnerId r = Some (rd_runnerId d) \<and>
     as_providerId r = Some (runnerProviderId (rd_runnerId d)) \<and> (\<exists>t. runner_serves cfg projectId d s t)"

lemma runners_for_same: "same_execution s t \<Longrightarrow> runners_for cfg a i t = runners_for cfg a i s"
  by (simp add: runners_for_def same_setup)

lemma routed_later: "same_execution s t \<Longrightarrow> routed_by cfg projectId i a d r t \<Longrightarrow> routed_by cfg projectId i a d r s"
  using serves_later runners_for_same unfolding routed_by_def by metis

lemma served:
  assumes "serve cfg projectId i op req a s = (Inr r, t)"
  shows "as_ready r \<Longrightarrow> \<exists>d. routed_by cfg projectId i a d r s"
    and "\<not> as_ready r \<Longrightarrow> as_reasons r \<noteq> []"
proof -
  let ?ds = "runners_for cfg (ad_adapterId a) (ei_id i) s"
  obtain found rejected u where pick: "pick_runner cfg projectId (ad_adapterId a) (ei_id i) ?ds s = (Inr (found, rejected), u)"
    using assms by (auto simp: serve_def bindS_Inr_iff)
  note run = assms [unfolded serve_def bind_gets bindS_Inr [where m = "pick_runner cfg projectId (ad_adapterId a) (ei_id i) ?ds", OF pick] prod.case Let_def adapter_record_def]
  show "\<exists>d. routed_by cfg projectId i a d r s" if "as_ready r"
    using that run picked [of cfg projectId "ad_adapterId a" "ei_id i" ?ds s _ rejected u] pick
    by (cases found) (auto simp: not_ready_def routed_by_def)
  show "as_reasons r \<noteq> []" if "\<not> as_ready r"
    using that run picked_none [of cfg projectId "ad_adapterId a" "ei_id i" ?ds s rejected u] pick
    by (cases found) (auto simp: not_ready_def split: if_splits)
qed

definition failed_before :: "AdapterResolution option \<Rightarrow> bool" where
  "failed_before acc \<longleftrightarrow> (\<forall>r. acc = Some r \<longrightarrow> \<not> as_ready r \<and> as_reasons r \<noteq> [])"

lemma failed_first: "failed_before acc \<Longrightarrow> \<not> as_ready r \<Longrightarrow> as_reasons r \<noteq> [] \<Longrightarrow> failed_before (first_failure acc r)"
  by (auto simp: failed_before_def first_failure_def split: option.splits)

lemma first_failure_Some [simp]: "first_failure acc r \<noteq> None"
  by (simp add: first_failure_def split: option.splits)

lemma tried:
  "try_adapters cfg projectId i h op req x acc ds s = (Inr r, t) \<Longrightarrow> failed_before acc \<Longrightarrow> acc \<noteq> None \<or> ds \<noteq> [] \<Longrightarrow>
     (if as_ready r then \<exists>a d. a \<in> set ds \<and> adapter_fits a i h req x \<and> routed_by cfg projectId i a d r s
      else as_reasons r \<noteq> [])"
proof (induction ds arbitrary: acc s)
  case Nil
  then show ?case by (auto simp: failed_before_def)
next
  case (Cons a ds)
  let ?base = "(not_ready []) \<lparr>as_adapterId := Some (ad_adapterId a), as_toolchains := observed_toolchains i req\<rparr>"
  have next_one: ?case if "try_adapters cfg projectId i h op req x (first_failure acc q) ds u = (Inr r, t)"
      "\<not> as_ready q" "as_reasons q \<noteq> []" "same_execution s u" for q u
    using Cons.IH [OF that(1) failed_first [OF Cons.prems(2) that(2,3)]] routed_later [OF that(4)] by fastforce
  show ?case
  proof (cases "evaluate_adapter a i h req \<noteq> []")
    case True
    then show ?thesis using Cons.prems(1) next_one [of "?base\<lparr>as_reasons := evaluate_adapter a i h req\<rparr>" s]
      by (simp add: not_ready_def Let_def)
  next
    case fit: False
    show ?thesis
    proof (cases "case non_empty x of None \<Rightarrow> False | Some x \<Rightarrow> x \<notin> set (ad_executables a)")
      case True
      then show ?thesis using Cons.prems(1) fit next_one
        by (force simp: not_ready_def Let_def simp del: next_one split del: if_split)
    next
      case False
      then have fits: "adapter_fits a i h req x" using fit by (auto simp: adapter_fits_def split: option.splits)
      obtain q u where q: "serve cfg projectId i op req a s = (Inr q, u)"
        and rest: "(if as_ready q then returnS q else try_adapters cfg projectId i h op req x (first_failure acc q) ds) u = (Inr r, t)"
        using Cons.prems(1) fit False by (auto simp: Let_def bindS_Inr_iff)
      have same: "same_execution s u" using keepsD [OF keeps_exec_serve q] .
      show ?thesis
      proof (cases "as_ready q")
        case True
        then show ?thesis using rest served(1) [OF q] fits by auto
      next
        case False
        then show ?thesis using rest served(2) [OF q] next_one [of q u] same by simp
      qed
    qed
  qed
qed

text \<open>The instance is registered and available, and so is its host.\<close>

definition usable_instance :: "env_registry \<Rightarrow> string \<Rightarrow> EnvironmentInstance \<Rightarrow> HostInstance \<Rightarrow> bool" where
  "usable_instance r instanceId i h \<longleftrightarrow> getEnvInstance instanceId r = Some i \<and> getHost (ei_hostId i) r = Some h \<and>
     ei_availability i = EnvAvailable \<and> host_availability h = EnvAvailable"

lemma resolved:
  assumes "resolve cfg projectId instanceId op x s = (Inr r, t)"
  shows "as_ready r \<Longrightarrow> \<exists>req i h a d. od_environment op = Some req \<and> usable_instance (x_environments s) instanceId i h \<and>
      a \<in> set (adapters_for cfg (eo_family req) s) \<and> adapter_fits a i h req x \<and> routed_by cfg projectId i a d r s"
    and "\<not> as_ready r \<Longrightarrow> as_reasons r \<noteq> []"
proof -
  have off: "\<not> as_ready (not_ready rs) \<and> as_reasons (not_ready rs) = rs" for rs by (simp add: not_ready_def)
  show "\<exists>req i h a d. od_environment op = Some req \<and> usable_instance (x_environments s) instanceId i h \<and>
      a \<in> set (adapters_for cfg (eo_family req) s) \<and> adapter_fits a i h req x \<and> routed_by cfg projectId i a d r s"
    if ready: "as_ready r"
  proof -
    obtain req where req: "od_environment op = Some req"
      using assms ready off by (cases "od_environment op") (auto simp: resolve_def)
    let ?as = "adapters_for cfg (eo_family req) s"
    have as': "?as \<noteq> []" using assms ready off req by (auto simp: resolve_def split: if_splits)
    obtain i where i: "getEnvInstance instanceId (x_environments s) = Some i"
      using assms ready off req as' by (cases "getEnvInstance instanceId (x_environments s)") (auto simp: resolve_def)
    obtain h where h: "getHost (ei_hostId i) (x_environments s) = Some h"
      using assms ready off req as' i by (cases "getHost (ei_hostId i) (x_environments s)") (auto simp: resolve_def)
    have up: "ei_availability i = EnvAvailable" "host_availability h = EnvAvailable"
      and run: "try_adapters cfg projectId i h op req x None ?as s = (Inr r, t)"
      using assms ready off req as' i h by (auto simp: resolve_def split: if_splits)
    show ?thesis
      using tried [OF run] ready as' req i h up by (auto simp: failed_before_def usable_instance_def)
  qed
  show "as_reasons r \<noteq> []" if fail: "\<not> as_ready r"
  proof (cases "\<exists>i h req. try_adapters cfg projectId i h op req x None (adapters_for cfg (eo_family req) s) s = (Inr r, t) \<and>
      adapters_for cfg (eo_family req) s \<noteq> []")
    case True
    then show ?thesis using tried fail unfolding failed_before_def by fastforce
  next
    case False
    then show ?thesis using assms off by (auto simp: resolve_def split: option.splits if_splits)
  qed
qed

end
