(* ===== verification/Exec_Gate_Laws.thy ===== *)
theory Exec_Gate_Laws
  imports Exec_Routing_Laws
begin

text \<open>
  The gates of the pre-flight: each leaves the reasons as they are exactly when its condition holds, so an
  eligible verdict means that every condition holds of the records the evaluation read.
\<close>

section \<open>One gate at a time\<close>

named_theorems gate_rules

lemma gate_fail_reasons [simp]: "snd (gate_fail c r g) = snd g @ [r]"
  by (simp add: gate_fail_def)

lemma gate_pass_reasons [simp]: "snd (gate_pass c g) = snd g"
  by (simp add: gate_pass_def)

lemma gate_fails_reasons [simp]: "snd (gate_fails c rs g) = snd g @ rs"
proof (induction rs arbitrary: g)
  case (Cons r rs)
  then show ?case by (simp add: gate_fails_def)
qed (simp add: gate_fails_def)

text \<open>The plan revision is the latest one and neither draft, blocked nor superseded.\<close>

definition plan_current :: "ExecutionPlan \<Rightarrow> ExecutionPlan option \<Rightarrow> bool" where
  "plan_current plan latest \<longleftrightarrow> plan_status plan \<notin> {Pl_superseded, Pl_blocked, Pl_draft} \<and>
     (\<forall>l. latest = Some l \<longrightarrow> plan_version l = plan_version plan)"

lemma plan_gate_Nil [gate_rules]: "snd (plan_gate plan latest g) = [] \<longleftrightarrow> snd g = [] \<and> plan_current plan latest"
  by (cases latest) (auto simp: plan_gate_def plan_current_def)

text \<open>The operation the request names, or the only one of the stage kind.\<close>

definition operation_for :: "exec_config \<Rightarrow> ExecutionRequest \<Rightarrow> ExecutionStageKind \<Rightarrow> operation_registry \<Rightarrow>
    ExecutionOperationDefinition \<Rightarrow> bool" where
  "operation_for cfg r kind ops op \<longleftrightarrow> (case xr_operationId r of
     Some i \<Rightarrow> getOperation i ops = Some op \<and> od_stageKind op = kind
   | None \<Rightarrow> forStageKind (xc_lc cfg) kind ops = [op])"

lemma resolveOperation_Nil [gate_rules]:
  "snd (snd (resolveOperation cfg r kind ops g)) = [] \<longleftrightarrow>
     snd g = [] \<and> (\<exists>op. fst (resolveOperation cfg r kind ops g) = Some op)"
  by (auto simp: resolveOperation_def split: option.splits list.splits)

lemma resolveOperation_found:
  "fst (resolveOperation cfg r kind ops g) = Some op \<longleftrightarrow> operation_for cfg r kind ops op"
  by (auto simp: resolveOperation_def operation_for_def split: option.splits list.splits)

lemma tool_gate_Nil [gate_rules]:
  "snd (tool_gate r op tool g) = [] \<longleftrightarrow> snd g = [] \<and>
     (op \<noteq> None \<longrightarrow> (\<exists>t. tool = Some t \<and> projectAllowed t (xr_projectId r)))"
  by (auto simp: tool_gate_def split: option.splits)

lemma input_gate_Nil [gate_rules]:
  "input_gate r skipInput op g = Inr g' \<Longrightarrow>
     snd g' = [] \<longleftrightarrow> snd g = [] \<and> (skipInput \<or> (\<forall>o'. op = Some o' \<longrightarrow> (\<exists>v. validateOperationInput o' (xr_input r) = Inr v)))"
  by (auto simp: input_gate_def split: option.splits sum.splits error.splits if_splits)

lemma agent_gate_Nil [gate_rules]:
  "snd (agent_gate tool agent g) = [] \<longleftrightarrow> snd g = [] \<and>
     (\<exists>a. agent = Inr a \<and> (a \<noteq> [] \<longrightarrow> (\<forall>t. tool = Some t \<longrightarrow> agentAllowed t a)))"
  by (auto simp: agent_gate_def split: sum.splits option.splits)

lemma policy_gate_Nil [gate_rules]:
  "snd (policy_gate policy ev g) = [] \<longleftrightarrow> snd g = [] \<and> policy \<noteq> None \<and> (\<forall>e. ev = Some e \<longrightarrow> pe_reasons e = [])"
  by (auto simp: policy_gate_def split: option.splits)

lemma environment_gate_Nil [gate_rules]:
  "snd (environment_gate env g) = [] \<longleftrightarrow> snd g = [] \<and> (\<exists>i. env = Inr i)"
  by (auto simp: environment_gate_def split: sum.splits)

lemma network_gate_Nil [gate_rules]:
  "snd (network_gate op ev g) = [] \<longleftrightarrow> snd g = [] \<and>
     (\<forall>o' e. op = Some o' \<longrightarrow> ev = Some e \<longrightarrow> od_network o' = Some True \<longrightarrow> pe_network e \<noteq> Deny_all)"
  by (auto simp: network_gate_def split: option.splits)

lemma toolchain_gate_Nil [gate_rules]:
  "snd (toolchain_gate r op instanceId g) = [] \<longleftrightarrow> snd g = [] \<and>
     (\<forall>o' i. op = Some o' \<longrightarrow> instanceId = Some i \<longrightarrow> absent_toolchains r i o' = [])"
  by (auto simp: toolchain_gate_def Let_def split: option.splits)

lemma sandbox_gate_Nil [gate_rules]:
  "snd (snd (sandbox_gate cfg sbs tools op ev instanceId providerId failed g)) = [] \<longleftrightarrow> snd g = [] \<and>
     (\<forall>o' e i. op = Some o' \<longrightarrow> ev = Some e \<longrightarrow> instanceId = Some i \<longrightarrow> \<not> failed \<longrightarrow>
        (\<exists>p. selectProvider (xc_lc cfg) sbs i (pe_network e) (sandbox_needs tools o' e providerId) = Some p))"
  by (auto simp: sandbox_gate_def split: option.splits)

text \<open>The provider the routing gate hands on, for an operation that asks for an environment.\<close>

lemma routing_gate_Nil:
  assumes "routing_gate cfg projectId (Some op) (Some i) g s = (Inr (providerId, failed, g'), t)" "snd g' = []"
  shows "snd g = [] \<and> \<not> failed \<and> (od_environment op = None \<longrightarrow> providerId = None) \<and>
    (od_environment op \<noteq> None \<longrightarrow> xc_adaptersConfigured cfg \<and>
      (\<exists>res. resolve cfg projectId i op (executable_of (x_tools s) op) s = (Inr res, t) \<and> as_ready res \<and> providerId = as_providerId res))"
proof (cases "od_environment op = None \<or> \<not> xc_adaptersConfigured cfg")
  case True
  then show ?thesis using assms by (auto simp: routing_gate_def split: if_splits)
next
  case False
  then obtain res where "resolve cfg projectId i op (executable_of (x_tools s) op) s = (Inr res, t)"
      "(providerId, failed, g') = (if \<not> as_ready res then (None, True, gate_fails C_environment (as_reasons res) g)
         else (as_providerId res, False, g))"
    using assms by (auto simp: routing_gate_def bindS_Inr_iff)
  moreover from this have "as_ready res" using resolved(2) [of cfg projectId i op _ s res t] assms(2) by (auto split: if_splits)
  ultimately show ?thesis using assms(2) False by auto
qed

lemma routing_gate_mono: "routing_gate cfg projectId op i g s = (Inr (p, failed, g'), t) \<Longrightarrow> snd g' = [] \<Longrightarrow> snd g = []"
  by (auto simp: routing_gate_def bindS_Inr_iff split: option.splits if_splits)

section \<open>Agent, environment and approval\<close>

text \<open>The agent the plan assigned to the requirement of the stage is registered and still qualifies.\<close>

definition agent_qualified :: "exec_config \<Rightarrow> Agent repo \<Rightarrow> ExecutionPlan \<Rightarrow> StageInfo \<Rightarrow> string \<Rightarrow> bool" where
  "agent_qualified cfg as plan stage a \<longleftrightarrow> a \<noteq> [] \<and> (\<exists>qi q x agent.
     non_empty (stg_agent stage) = Some qi \<and> js_find (\<lambda>r. arq_id r = qi) (plan_agentRequirements plan) = Some q \<and>
     js_find (\<lambda>x. paa_requirementId x = arq_id q) (plan_agents plan) = Some x \<and> paa_agentId x = Some a \<and>
     mem_findById a as = Some agent \<and> xc_isAgentEnabled cfg a (plan_projectId plan) \<and>
     (allowedProjects agent = [] \<or> plan_projectId plan \<in> set (allowedProjects agent)) \<and>
     set (arq_capabilities q) \<subseteq> set (capabilities agent))"

lemma candidate_qualifies:
  "pce_qualifies (candidate_evidence projectId required en a) \<longleftrightarrow> en (agent_id a) projectId \<and>
     (allowedProjects a = [] \<or> projectId \<in> set (allowedProjects a)) \<and> set required \<subseteq> set (capabilities a)"
  by (auto simp: candidate_evidence_def Let_def filter_empty_conv)

lemma non_empty_Some: "non_empty v = Some x \<Longrightarrow> v = Some x \<and> x \<noteq> []"
  by (auto simp: non_empty_def split: option.splits list.splits)

lemma revalidateAgent_Inr:
  assumes "revalidateAgent cfg as plan stage = Inr a" and ok: "repo_ok agent_id as"
  shows "agent_qualified cfg as plan stage a"
proof -
  obtain qi q where q: "non_empty (stg_agent stage) = Some qi" "js_find (\<lambda>r. arq_id r = qi) (plan_agentRequirements plan) = Some q"
    using assms(1) by (auto simp: revalidateAgent_def split: option.splits)
  obtain x i where x: "js_find (\<lambda>x. paa_requirementId x = arq_id q) (plan_agents plan) = Some x"
      "non_empty (paa_agentId x) = Some i"
    using assms(1) unfolding revalidateAgent_def q option.case by (auto simp: non_empty_def split: option.splits)
  obtain agent where agent: "mem_findById i as = Some agent"
    using assms(1) unfolding revalidateAgent_def q x option.case by (auto split: option.splits)
  have rest: "pce_qualifies (candidate_evidence (plan_projectId plan) (arq_capabilities q) (xc_isAgentEnabled cfg) agent)"
      "a = agent_id agent"
    using assms(1) unfolding revalidateAgent_def q x agent option.case by (auto simp: Let_def split: if_splits)
  then have "a = i" using mem_find_key [OF ok agent] by simp
  with q x agent rest non_empty_Some [OF x(2)] show ?thesis
    unfolding agent_qualified_def candidate_qualifies by auto
qed

text \<open>
  The instance planned for the stage is registered, available on an available host, offers what the policy's
  rule asks of it, and fits the requirement the plan was made for. Availability is read on the host registered
  under the id the instance names, the fit on the host that names itself so (the registry keeps hosts by
  \<open>id\<close>, the router by \<open>hostId\<close>).
\<close>

definition environment_fit :: "env_registry \<Rightarrow> ExecutionPlan \<Rightarrow> StageInfo \<Rightarrow> CapabilityId list \<Rightarrow> string \<Rightarrow> bool" where
  "environment_fit r plan stage required instanceId \<longleftrightarrow> (\<exists>ei e i h k. non_empty (stg_environment stage) = Some ei \<and>
     js_find (\<lambda>x. pen_id x = ei) (plan_environments plan) = Some e \<and>
     pen_selectedInstanceId e = Some instanceId \<and> usable_instance r instanceId i h \<and>
     set required \<subseteq> set (available_capabilities i) \<and> host_of r (ei_hostId i) = Some k \<and> fits (pen_requirement e) i k)"

lemma still_eligible_Inr:
  assumes "still_eligible cfg r req instanceId = Inr ()"
  shows "\<exists>i h. i \<in> set (listInstances r) \<and> ei_id i = instanceId \<and> host_of r (ei_hostId i) = Some h \<and> fits req i h"
proof -
  obtain ev c where ev: "evaluate_requirement (xc_lc cfg) req r = Inr ev"
    and c: "js_find (\<lambda>c. evc_instanceId c = instanceId) (me_candidates ev) = Some c" "evc_eligible c"
    using assms by (auto simp: still_eligible_def split: sum.splits option.splits if_splits)
  have cs: "me_candidates ev = map snd (evaluated_instances (xc_lc cfg) req r)"
    using ev by (auto simp: evaluate_requirement_def bindE_Inr_iff match_evidence_def Let_def split: list.splits)
  have "c \<in> set (me_candidates ev)" "evc_instanceId c = instanceId" using c(1) by (auto dest: js_find_Some)
  then obtain i where i: "i \<in> set (listInstances r)" "c = evaluateInstance req i (host_of r (ei_hostId i))"
    unfolding cs by (auto simp: evaluated_instances_def)
  moreover have "ei_id i = instanceId" using i(2) \<open>evc_instanceId c = instanceId\<close> by (simp add: evaluateInstance_def Let_def)
  ultimately show ?thesis using c(2) evaluateInstance_eligible by metis
qed

lemma revalidateEnvironment_Inr:
  assumes "revalidateEnvironment cfg r plan stage required = Inr x" and ok: "env_ok r"
  shows "environment_fit r plan stage required x \<and> x \<noteq> []"
proof -
  obtain ei e where e: "non_empty (stg_environment stage) = Some ei" "js_find (\<lambda>x. pen_id x = ei) (plan_environments plan) = Some e"
    using assms by (auto simp: revalidateEnvironment_def split: option.splits)
  obtain y where y: "non_empty (pen_selectedInstanceId e) = Some y"
    using assms(1) unfolding revalidateEnvironment_def e option.case by (auto split: option.splits)
  obtain i where i: "getEnvInstance y r = Some i"
    using assms(1) unfolding revalidateEnvironment_def e option.case y by (cases "getEnvInstance y r") auto
  obtain h where h: "getHost (ei_hostId i) r = Some h"
    using assms(1) unfolding revalidateEnvironment_def e option.case y i by (cases "getHost (ei_hostId i) r") auto
  have rest: "ei_availability i = EnvAvailable" "host_availability h = EnvAvailable"
      "still_eligible cfg r (pen_requirement e) y = Inr ()" "set required \<subseteq> set (available_capabilities i)" "x = ei_id i"
    using assms(1) unfolding revalidateEnvironment_def e option.case y i h
    by (auto simp: Let_def filter_empty_conv split: if_splits sum.splits)
  have repo: "repo_ok ei_id (env_instances r)" using ok by (simp add: env_ok_def)
  obtain j k where j: "j \<in> set (listInstances r)" "ei_id j = y" "host_of r (ei_hostId j) = Some k" "fits (pen_requirement e) j k"
    using still_eligible_Inr [OF rest(3)] by blast
  have "getEnvInstance y r = Some j"
    using mem.list_find [OF repo, of j] j(1,2) by (simp add: getEnvInstance_def listInstances_def)
  then have "j = i" using i by simp
  then have "x = y" "fits (pen_requirement e) i k" "host_of r (ei_hostId i) = Some k" using rest(5) j by auto
  moreover note non_empty_Some [OF y]
  ultimately show ?thesis using e i h rest unfolding environment_fit_def usable_instance_def by blast
qed

text \<open>An approval of exactly this plan revision, granted and not expired when the clock was read.\<close>

definition approval_granted :: "ExecutionPlan \<Rightarrow> 'x exec_state_scheme \<Rightarrow> bool" where
  "approval_granted plan s \<longleftrightarrow> (\<exists>a. plan_approval plan (approvals s) = Some a \<and> approval_matches plan a \<and>
     (\<forall>e. expiresAt a = Some e \<longrightarrow> time_at s (ticks s) < e))"

lemma approval_valid_run:
  "\<exists>u. approval_valid plan (plan_approval plan (approvals s)) s = (Inr (approval_granted plan s), u)"
proof (cases "plan_approval plan (approvals s)")
  case (Some a)
  then show ?thesis
    by (cases "approval_matches plan a"; cases "expiresAt a") (simp_all add: approval_valid_def approval_granted_def)
qed (simp add: approval_valid_def approval_granted_def)

lemma revalidateApprovals_Nil [gate_rules]:
  assumes "revalidateApprovals plan stageId ev g s = (Inr (as, g'), t)"
  shows "snd g' = [] \<longleftrightarrow> snd g = [] \<and> (needed_approvals plan stageId ev = [] \<or> approval_granted plan s)"
proof (cases "needed_approvals plan stageId ev = []")
  case True
  then show ?thesis using assms by (auto simp: revalidateApprovals_def Let_def)
next
  case False
  then show ?thesis using assms approval_valid_run [of plan s]
    by (auto simp: revalidateApprovals_def Let_def bindS_def split: if_splits)
qed

section \<open>All gates\<close>

text \<open>The capabilities the rule that granted an operation asks of the environment.\<close>

definition rule_environments :: "PolicyEvaluation \<Rightarrow> CapabilityId list" where
  "rule_environments e = (case pe_rule e of None \<Rightarrow> [] | Some rl \<Rightarrow> pr_environments rl)"

text \<open>Plan, operation, tool and input of an admitted request.\<close>

definition work_admitted :: "exec_config \<Rightarrow> ExecutionRequest \<Rightarrow> bool \<Rightarrow> ExecutionPlan \<Rightarrow> StageInfo \<Rightarrow>
    ExecutionOperationDefinition \<Rightarrow> string \<Rightarrow> 'x exec_state_scheme \<Rightarrow> bool" where
  "work_admitted cfg r skipInput plan stage op a s \<longleftrightarrow>
     find_plan r (x_plans s) = Some plan \<and> plan_current plan (latestVersion (xr_planId r) (x_plans s)) \<and>
     stageOf plan (xr_stageId r) = Some stage \<and> operation_for cfg r (stg_kind stage) (x_operations s) op \<and>
     (\<exists>tool. map_of (toolset s) (od_toolId op) = Some tool \<and> projectAllowed tool (xr_projectId r) \<and> agentAllowed tool a) \<and>
     (skipInput \<or> (\<exists>v. validateOperationInput op (xr_input r) = Inr v)) \<and> agent_qualified cfg (agents s) plan stage a"

text \<open>Policy, approval, environment, runner and sandbox of an admitted operation.\<close>

definition policy_admitted :: "ExecutionRequest \<Rightarrow> ExecutionPlan \<Rightarrow> ExecutionOperationDefinition \<Rightarrow> ExecutionPolicy \<Rightarrow>
    'x exec_state_scheme \<Rightarrow> bool" where
  "policy_admitted r plan op policy s \<longleftrightarrow> forProject (xr_projectId r) (x_policies s) = Some policy \<and>
     policy_reasons policy op = [] \<and>
     (od_network op = Some True \<longrightarrow> pe_network (evaluatePolicy policy op) \<noteq> Deny_all) \<and>
     (needed_approvals plan (xr_stageId r) (Some (evaluatePolicy policy op)) = [] \<or> approval_granted plan s)"

definition runner_admitted :: "exec_config \<Rightarrow> ExecutionRequest \<Rightarrow> ExecutionOperationDefinition \<Rightarrow> string \<Rightarrow> string option \<Rightarrow>
    'x exec_state_scheme \<Rightarrow> bool" where
  "runner_admitted cfg r op instanceId providerId s \<longleftrightarrow> (case od_environment op of None \<Rightarrow> providerId = None
     | Some req \<Rightarrow> xc_adaptersConfigured cfg \<and> (\<exists>i h a d res. usable_instance (x_environments s) instanceId i h \<and>
         a \<in> set (adapters_for cfg (eo_family req) s) \<and> adapter_fits a i h req (executable_of (x_tools s) op) \<and>
         routed_by cfg (xr_projectId r) i a d res s \<and> providerId = as_providerId res))"

definition place_admitted :: "exec_config \<Rightarrow> ExecutionRequest \<Rightarrow> ExecutionPlan \<Rightarrow> StageInfo \<Rightarrow> ExecutionOperationDefinition \<Rightarrow>
    PolicyEvaluation \<Rightarrow> string \<Rightarrow> 'x exec_state_scheme \<Rightarrow> bool" where
  "place_admitted cfg r plan stage op e instanceId s \<longleftrightarrow>
     environment_fit (x_environments s) plan stage (rule_environments e) instanceId \<and>
     absent_toolchains (x_environments s) instanceId op = [] \<and>
     (\<exists>providerId sandbox. runner_admitted cfg r op instanceId providerId s \<and>
        selectProvider (xc_lc cfg) (x_sandboxes s) instanceId (pe_network e)
          (sandbox_needs (x_tools s) op e providerId) = Some sandbox)"

lemma runner_admittedI:
  assumes "routing_gate cfg (xr_projectId r) (Some op) (Some i) g t = (Inr (providerId, failed, g'), u)" "snd g' = []"
    and same: "same_execution s t"
  shows "runner_admitted cfg r op i providerId s"
proof (cases "od_environment op")
  case None
  then show ?thesis using routing_gate_Nil [OF assms(1,2)] by (simp add: runner_admitted_def)
next
  case (Some req)
  then obtain res where conf: "xc_adaptersConfigured cfg"
    and res: "resolve cfg (xr_projectId r) i op (executable_of (x_tools t) op) t = (Inr res, u)"
      "as_ready res" "providerId = as_providerId res"
    using routing_gate_Nil [OF assms(1,2)] by auto
  obtain req' e h a d where "od_environment op = Some req'" "usable_instance (x_environments t) i e h"
      "a \<in> set (adapters_for cfg (eo_family req') t)" "adapter_fits a e h req' (executable_of (x_tools t) op)"
      "routed_by cfg (xr_projectId r) e a d res t"
    using resolved(1) [OF res(1,2)] by blast
  moreover have "adapters_for cfg (eo_family req) t = adapters_for cfg (eo_family req) s"
    using same_setup [OF same] by (simp add: adapters_for_def)
  ultimately have "usable_instance (x_environments s) i e h" "a \<in> set (adapters_for cfg (eo_family req) s)"
      "adapter_fits a e h req (executable_of (x_tools s) op)" "routed_by cfg (xr_projectId r) e a d res s"
    using Some same_fields [OF same] routed_later [OF same] by auto
  then show ?thesis unfolding runner_admitted_def Some option.case using conf res(3) by blast
qed

text \<open>The gates of the stage, on the records of one state.\<close>

lemma stage_gates_Nil:
  assumes "stage_gates_of cfg r skipInput plan stage g s = Inr sg" "snd (sg_gates sg) = []"
  shows "snd g = [] \<and> (\<exists>op policy a i. sg_operation sg = Some op \<and> sg_policy sg = Some policy \<and>
     sg_evaluation sg = Some (evaluatePolicy policy op) \<and> sg_agentId sg = non_empty (Some a) \<and>
     sg_instanceId sg = non_empty (Some i) \<and> operation_for cfg r (stg_kind stage) (x_operations s) op \<and>
     (\<exists>tool. map_of (toolset s) (od_toolId op) = Some tool \<and> projectAllowed tool (xr_projectId r) \<and> (a \<noteq> [] \<longrightarrow> agentAllowed tool a)) \<and>
     (skipInput \<or> (\<exists>v. validateOperationInput op (xr_input r) = Inr v)) \<and>
     revalidateAgent cfg (agents s) plan stage = Inr a \<and>
     forProject (xr_projectId r) (x_policies s) = Some policy \<and> policy_reasons policy op = [] \<and>
     revalidateEnvironment cfg (x_environments s) plan stage (rule_environments (evaluatePolicy policy op)) = Inr i)"
proof -
  obtain op' g1 where op': "resolveOperation cfg r (stg_kind stage) (x_operations s) g = (op', g1)"
    by (metis surj_pair)
  define tool where "tool = (case op' of None \<Rightarrow> None | Some o' \<Rightarrow> map_of (toolset s) (od_toolId o'))"
  obtain g2 where g2: "input_gate r skipInput op' (tool_gate r op' tool g1) = Inr g2"
    using assms(1) by (auto simp: stage_gates_of_def op' tool_def Let_def bindE_Inr_iff)
  define policy where "policy = forProject (xr_projectId r) (x_policies s)"
  define ev where "ev = (case (policy, op') of (Some p, Some o') \<Rightarrow> Some (evaluatePolicy p o') | _ \<Rightarrow> None)"
  define env where "env = revalidateEnvironment cfg (x_environments s) plan stage
    (case ev of None \<Rightarrow> [] | Some e \<Rightarrow> (case pe_rule e of None \<Rightarrow> [] | Some rl \<Rightarrow> pr_environments rl))"
  define agent where "agent = revalidateAgent cfg (agents s) plan stage"
  let ?g3 = "agent_gate tool agent g2"
  let ?g4 = "if tool \<noteq> None then gate_pass C_tool ?g3 else ?g3"
  have sg: "sg = \<lparr>sg_operation = op', sg_evaluation = ev, sg_policy = policy, sg_agentId = non_empty (ok_of agent),
      sg_instanceId = non_empty (ok_of env), sg_gates = environment_gate env (policy_gate policy ev ?g4)\<rparr>"
    using assms(1) g2 [unfolded tool_def]
    unfolding stage_gates_of_def op' prod.case Let_def env_def agent_def ev_def policy_def tool_def
    by (simp only: bindE.simps sum.inject)
  have g4: "snd ?g4 = [] \<longleftrightarrow> snd ?g3 = []" by simp
  have all: "\<exists>i. env = Inr i" "policy \<noteq> None" "\<forall>e. ev = Some e \<longrightarrow> pe_reasons e = []"
      "\<exists>a. agent = Inr a \<and> (a \<noteq> [] \<longrightarrow> (\<forall>t. tool = Some t \<longrightarrow> agentAllowed t a))" "snd g2 = []"
    using assms(2) unfolding sg stage_gates.simps environment_gate_Nil policy_gate_Nil g4 agent_gate_Nil by blast+
  have inp: "snd (tool_gate r op' tool g1) = []"
      "skipInput \<or> (\<forall>o'. op' = Some o' \<longrightarrow> (\<exists>v. validateOperationInput o' (xr_input r) = Inr v))"
    using all(5) unfolding input_gate_Nil [OF g2] by blast+
  then have g1: "snd g1 = []" "op' \<noteq> None \<longrightarrow> (\<exists>t. tool = Some t \<and> projectAllowed t (xr_projectId r))"
    unfolding tool_gate_Nil by blast+
  then have g: "snd g = []" "\<exists>op. op' = Some op"
    using resolveOperation_Nil [of cfg r "stg_kind stage" "x_operations s" g] op' by simp_all
  then obtain op where op: "op' = Some op" by blast
  obtain p where p: "policy = Some p" using all(2) by blast
  have ev': "ev = Some (evaluatePolicy p op)" by (simp add: ev_def p op)
  then have "policy_reasons p op = []" using all(3) by (simp add: evaluatePolicy_def Let_def)
  moreover have "operation_for cfg r (stg_kind stage) (x_operations s) op"
    using resolveOperation_found [of cfg r "stg_kind stage" "x_operations s" g op] op' op by simp
  ultimately show ?thesis
    using all(1,4) inp(2) g g1(2) op p ev' unfolding sg stage_gates.simps
    by (auto simp: tool_def policy_def agent_def env_def rule_environments_def ok_of_def)
qed

text \<open>The gates after the approvals.\<close>

lemma final_gates_admitted:
  assumes run: "final_gates cfg r stage sg approvals' g t = (Inr result, u)" and none: "pf_reasons result = []"
    and same: "same_execution s t"
    and sg: "sg_operation sg = Some op" "sg_evaluation sg = Some e" "sg_instanceId sg = Some i"
  shows "snd g = [] \<and> (od_network op = Some True \<longrightarrow> pe_network e \<noteq> Deny_all) \<and>
    absent_toolchains (x_environments s) i op = [] \<and>
    (\<exists>providerId sandbox. runner_admitted cfg r op i providerId s \<and>
      selectProvider (xc_lc cfg) (x_sandboxes s) i (pe_network e) (sandbox_needs (x_tools s) op e providerId) = Some sandbox \<and>
      pf_sandbox result = Some (sp_providerId sandbox, sp_kind sandbox))"
proof -
  let ?g3 = "toolchain_gate (x_environments t) (Some op) (Some i) (network_gate (Some op) (Some e) (gate_pass C_approval g))"
  obtain providerId failed g4 v where routing: "routing_gate cfg (xr_projectId r) (Some op) (Some i) ?g3 t = (Inr (providerId, failed, g4), v)"
    and out: "(case sandbox_gate cfg (x_sandboxes v) (x_tools v) (Some op) (Some e) (Some i) providerId failed g4 of
      (sandbox, g5) \<Rightarrow> gate_result stage sg approvals' sandbox g5) = result"
    using run unfolding final_gates_def sg by (auto simp: bindS_Inr_iff)
  obtain sandbox g5 where sb: "sandbox_gate cfg (x_sandboxes v) (x_tools v) (Some op) (Some e) (Some i) providerId failed g4 = (sandbox, g5)"
    by (metis surj_pair)
  have v: "same_execution s v" using same_trans [OF same keepsD [OF keeps_exec_routing routing]] .
  have res: "result = gate_result stage sg approvals' sandbox g5" using out sb by simp
  have g5: "snd g5 = []" using none res by (simp add: gate_result_def)
  have g4: "snd g4 = []" and sel: "\<not> failed \<longrightarrow>
      (\<exists>p. selectProvider (xc_lc cfg) (x_sandboxes v) i (pe_network e) (sandbox_needs (x_tools v) op e providerId) = Some p)"
    using sandbox_gate_Nil [of cfg "x_sandboxes v" "x_tools v" "Some op" "Some e" "Some i" providerId failed g4] sb g5 by auto
  have "\<not> failed" and g3: "snd ?g3 = []" using routing_gate_Nil [OF routing g4] by auto
  then obtain p where p: "selectProvider (xc_lc cfg) (x_sandboxes s) i (pe_network e) (sandbox_needs (x_tools s) op e providerId) = Some p"
    using sel same_fields [OF v] by auto
  then have "sandbox = Some p"
    using sb \<open>\<not> failed\<close> same_fields [OF v] by (simp add: sandbox_gate_def)
  moreover have "runner_admitted cfg r op i providerId s" by (rule runner_admittedI [OF routing g4 same])
  ultimately show ?thesis
    using g3 p same_fields(1) [OF same] unfolding toolchain_gate_Nil network_gate_Nil
    by (auto simp: res gate_result_def)
qed

lemma final_gates_result:
  assumes run: "final_gates cfg r stage sg approvals' g t = (Inr result, u)" and ok: "pf_eligible result"
  shows "pf_reasons result = [] \<and> snd g = [] \<and> pf_internal result = internal_context sg approvals' \<and>
    pf_operation result = sg_operation sg \<and> pf_agentId result = sg_agentId sg \<and>
    pf_environmentInstanceId result = sg_instanceId sg \<and>
    pf_policy result = map_option (\<lambda>p. (pol_policyId p, pol_version p)) (sg_policy sg) \<and>
    pf_limits result = map_option pe_limits (sg_evaluation sg) \<and> pf_network result = map_option pe_network (sg_evaluation sg)"
proof -
  let ?g3 = "toolchain_gate (x_environments t) (sg_operation sg) (sg_instanceId sg)
    (network_gate (sg_operation sg) (sg_evaluation sg) (gate_pass C_approval g))"
  obtain providerId failed g4 v where routing:
      "routing_gate cfg (xr_projectId r) (sg_operation sg) (sg_instanceId sg) ?g3 t = (Inr (providerId, failed, g4), v)"
    and out: "(case sandbox_gate cfg (x_sandboxes v) (x_tools v) (sg_operation sg) (sg_evaluation sg) (sg_instanceId sg)
      providerId failed g4 of (sandbox, g5) \<Rightarrow> gate_result stage sg approvals' sandbox g5) = result"
    using run unfolding final_gates_def by (auto simp: bindS_Inr_iff)
  obtain sandbox g5 where sb: "sandbox_gate cfg (x_sandboxes v) (x_tools v) (sg_operation sg) (sg_evaluation sg)
      (sg_instanceId sg) providerId failed g4 = (sandbox, g5)"
    by (metis surj_pair)
  then have res: "result = gate_result stage sg approvals' sandbox g5" using out by simp
  then have g5: "snd g5 = []" using ok by (simp add: gate_result_def)
  have "snd g4 = []"
    using sandbox_gate_Nil [of cfg "x_sandboxes v" "x_tools v" "sg_operation sg" "sg_evaluation sg" "sg_instanceId sg"
        providerId failed g4] sb g5 by simp
  then have "snd ?g3 = []" using routing_gate_mono [OF routing] by simp
  then show ?thesis using res g5 by (simp add: toolchain_gate_Nil network_gate_Nil gate_result_def)
qed

text \<open>What a verdict reports of the operation, agent, environment and policy it was reached for.\<close>

definition verdict_names :: "PreflightResult \<Rightarrow> ExecutionOperationDefinition \<Rightarrow> ExecutionPolicy \<Rightarrow> string \<Rightarrow> string \<Rightarrow> bool" where
  "verdict_names result op policy a i \<longleftrightarrow> pf_operation result = Some op \<and> pf_agentId result = Some a \<and>
     pf_environmentInstanceId result = Some i \<and> pf_policy result = Some (pol_policyId policy, pol_version policy) \<and>
     pf_limits result = Some (pe_limits (evaluatePolicy policy op)) \<and>
     pf_network result = Some (pe_network (evaluatePolicy policy op))"

text \<open>An evaluation that gives no reason, and the context it hands to the creation of a session.\<close>

lemma evaluation_admitted:
  assumes run: "evaluateRequest cfg p r skipInput s = (Inr result, t)" and ok: "pf_eligible result"
    and env: "env_ok (x_environments s)"
    and agents: "repo_ok agent_id (agents s)"
  shows "authorizeExecution cfg p (xr_projectId r) ''prepare_execution'' = Inr () \<and>
    (\<exists>plan stage op policy a i approvals'. work_admitted cfg r skipInput plan stage op a s \<and>
       policy_admitted r plan op policy s \<and> place_admitted cfg r plan stage op (evaluatePolicy policy op) i s \<and>
       verdict_names result op policy a i \<and> pf_internal result = Some \<lparr>ic_operation = op,
         ic_evaluation = evaluatePolicy policy op, ic_agentId = a, ic_environmentInstanceId = i,
         ic_policyId = pol_policyId policy, ic_policyVersion = pol_version policy,
         ic_grantTtlMs = pol_grantTtlMs policy, ic_approvalIds = approvals'\<rparr>)"
proof -
  have auth: "authorizeExecution cfg p (xr_projectId r) ''prepare_execution'' = Inr ()"
    using run by (cases "authorizeExecution cfg p (xr_projectId r) ''prepare_execution''") (auto simp: evaluateRequest_def bindS_def)
  obtain plan where plan: "find_plan r (x_plans s) = Some plan"
    using run auth by (cases "find_plan r (x_plans s)") (auto simp: evaluateRequest_def bindS_Inr_iff)
  let ?g = "plan_gate plan (latestVersion (xr_planId r) (x_plans s)) (gate_pass C_authorization freshChecks)"
  obtain stage where stage: "stageOf plan (xr_stageId r) = Some stage"
    using run auth plan ok by (cases "stageOf plan (xr_stageId r)") (auto simp: evaluateRequest_def bindS_Inr_iff no_stage_def Let_def)
  obtain sg approvals' g' u where sg: "stage_gates_of cfg r skipInput plan stage (gate_pass C_stage ?g) s = Inr sg"
    and app: "revalidateApprovals plan (xr_stageId r) (sg_evaluation sg) (sg_gates sg) s = (Inr (approvals', g'), u)"
    and fin: "final_gates cfg r stage sg approvals' g' u = (Inr result, t)"
    using run auth plan stage by (auto simp: evaluateRequest_def bindS_Inr_iff Let_def)
  have u: "same_execution s u" using keepsD [OF keeps_exec_approvals app] .
  note result = final_gates_result [OF fin ok]
  have sg0: "snd (sg_gates sg) = []" using revalidateApprovals_Nil [OF app] result by blast
  from stage_gates_Nil [OF sg sg0] obtain op policy a i where g: "snd ?g = []" and sgs: "sg_operation sg = Some op" "sg_policy sg = Some policy"
      "sg_evaluation sg = Some (evaluatePolicy policy op)" "sg_agentId sg = non_empty (Some a)" "sg_instanceId sg = non_empty (Some i)"
    and op: "operation_for cfg r (stg_kind stage) (x_operations s) op"
    and tool: "\<exists>tool. map_of (toolset s) (od_toolId op) = Some tool \<and> projectAllowed tool (xr_projectId r) \<and> (a \<noteq> [] \<longrightarrow> agentAllowed tool a)"
    and inp: "skipInput \<or> (\<exists>v. validateOperationInput op (xr_input r) = Inr v)"
    and agent: "revalidateAgent cfg (agents s) plan stage = Inr a"
    and policy: "forProject (xr_projectId r) (x_policies s) = Some policy" "policy_reasons policy op = []"
    and place: "revalidateEnvironment cfg (x_environments s) plan stage (rule_environments (evaluatePolicy policy op)) = Inr i"
    unfolding gate_pass_reasons by blast
  have able: "agent_qualified cfg (agents s) plan stage a" by (rule revalidateAgent_Inr [OF agent agents])
  then have a: "a \<noteq> []" by (simp add: agent_qualified_def)
  have fit: "environment_fit (x_environments s) plan stage (rule_environments (evaluatePolicy policy op)) i" "i \<noteq> []"
    using revalidateEnvironment_Inr [OF place env] by auto
  have ids: "sg_agentId sg = Some a" "sg_instanceId sg = Some i"
    using sgs(4,5) a fit(2) by (auto simp: non_empty_def split: list.splits)
  have "work_admitted cfg r skipInput plan stage op a s"
    using plan g stage op tool a inp able unfolding work_admitted_def plan_gate_Nil by auto
  moreover have "policy_admitted r plan op policy s"
    using policy final_gates_admitted [OF fin _ u sgs(1,3) ids(2)] revalidateApprovals_Nil [OF app] result sgs(3)
    unfolding policy_admitted_def by auto
  moreover have "place_admitted cfg r plan stage op (evaluatePolicy policy op) i s"
    using fit(1) final_gates_admitted [OF fin _ u sgs(1,3) ids(2)] result unfolding place_admitted_def by blast
  moreover have "pf_internal result = Some \<lparr>ic_operation = op,
         ic_evaluation = evaluatePolicy policy op, ic_agentId = a, ic_environmentInstanceId = i,
         ic_policyId = pol_policyId policy, ic_policyVersion = pol_version policy,
         ic_grantTtlMs = pol_grantTtlMs policy,
         ic_approvalIds = concat (map (\<lambda>(reason, i, st). case i of None \<Rightarrow> [] | Some x \<Rightarrow> [x]) approvals')\<rparr>"
    using result sgs ids by (simp add: internal_context_def)
  moreover have "verdict_names result op policy a i"
    using result sgs ids by (simp add: verdict_names_def)
  ultimately show ?thesis using auth by metis
qed

end
