(* ===== verification/Exec_Creation_Laws.thy ===== *)
theory Exec_Creation_Laws
  imports Exec_Gate_Laws
begin

text \<open>
  The creation of a governed session: it is stored once per operator and idempotency key, it is ready with
  grants that an admitted operation accounts for, or denied without any.
\<close>

section \<open>Contexts\<close>

text \<open>The context of one operation, and the records that admit it.\<close>

definition context_admitted ::
  "exec_config \<Rightarrow> bool \<Rightarrow> ExecutionRequest \<Rightarrow> InternalContext \<Rightarrow> 'x exec_state_scheme \<Rightarrow> bool" where
  "context_admitted cfg skipInput r c s \<longleftrightarrow> (\<exists>plan stage policy.
     work_admitted cfg r skipInput plan stage (ic_operation c) (ic_agentId c) s \<and>
     policy_admitted r plan (ic_operation c) policy s \<and>
     ic_evaluation c = evaluatePolicy policy (ic_operation c) \<and>
     place_admitted cfg r plan stage (ic_operation c) (ic_evaluation c) (ic_environmentInstanceId c) s \<and>
     ic_policyId c = pol_policyId policy \<and> ic_policyVersion c = pol_version policy \<and> ic_grantTtlMs c = pol_grantTtlMs policy)"

text \<open>What an evaluation reports, read off its context.\<close>

definition reports :: "PreflightResult \<Rightarrow> InternalContext \<Rightarrow> bool" where
  "reports e c \<longleftrightarrow> pf_operation e = Some (ic_operation c) \<and> pf_agentId e = Some (ic_agentId c) \<and>
     pf_environmentInstanceId e = Some (ic_environmentInstanceId c) \<and>
     pf_policy e = Some (ic_policyId c, ic_policyVersion c) \<and> pf_limits e = Some (pe_limits (ic_evaluation c)) \<and>
     pf_network e = Some (pe_network (ic_evaluation c))"

text \<open>The records an evaluation relies on keep the rules of their registries.\<close>

definition records_sound :: "'x exec_state_scheme \<Rightarrow> bool" where
  "records_sound s \<longleftrightarrow> env_ok (x_environments s) \<and> repo_ok agent_id (agents s)"

lemma sound_later: "same_execution s t \<Longrightarrow> records_sound s \<Longrightarrow> records_sound t"
  by (simp add: records_sound_def same_fields)

lemma evaluation_context:
  assumes "evaluateRequest cfg p r skipInput s = (Inr e, t)" "pf_eligible e" "records_sound s"
  shows "\<exists>c. pf_internal e = Some c \<and> context_admitted cfg skipInput r c s \<and> reports e c"
  using evaluation_admitted [OF assms(1,2)] assms(3)
  unfolding records_sound_def context_admitted_def reports_def verdict_names_def by fastforce

lemma final_verdict:
  assumes "final_gates cfg r stage sg approvals' g t = (Inr e, u)"
  shows "(pf_eligible e \<longleftrightarrow> pf_reasons e = []) \<and> (pf_internal e \<noteq> None \<longrightarrow> pf_eligible e)"
proof -
  have "\<exists>sandbox g5. e = gate_result stage sg approvals' sandbox g5"
    using assms unfolding final_gates_def case_prod_beta bindS_Inr_iff getsS_apply prod.inject sum.inject by blast
  then show ?thesis by (auto simp: gate_result_def split: if_splits)
qed

lemma evaluation_verdict:
  assumes "evaluateRequest cfg p r skipInput s = (Inr e, t)"
  shows "(pf_eligible e \<longleftrightarrow> pf_reasons e = []) \<and> (pf_internal e \<noteq> None \<longrightarrow> pf_eligible e)"
  using assms unfolding evaluateRequest_def
  by (auto simp: bindS_Inr_iff Let_def no_stage_def dest: final_verdict split: option.splits)

text \<open>The request one of the additional operations is evaluated with.\<close>

definition request_for :: "ExecutionRequest \<Rightarrow> string \<Rightarrow> ExecutionRequest" where
  "request_for r i = r\<lparr>xr_operationIds := None, xr_input := None, xr_operationId := Some i\<rparr>"

lemma extras_admitted:
  "evaluate_extras cfg p r ids s = (Inr (cs, []), t) \<Longrightarrow> records_sound s \<Longrightarrow>
     list_all2 (\<lambda>i c. \<exists>u. same_execution s u \<and> context_admitted cfg True (request_for r i) c u) ids cs"
proof (induction ids arbitrary: s cs)
  case (Cons i ids)
  obtain e v cs' rs where e: "evaluateRequest cfg p (request_for r i) True s = (Inr e, v)"
    and rest: "evaluate_extras cfg p r ids v = (Inr (cs', rs), t)"
    and out: "(case pf_internal e of Some c \<Rightarrow> (c # cs', rs)
      | None \<Rightarrow> (cs', map (\<lambda>(c, d). (c, i @ '': '' @ d)) (pf_reasons e) @ rs)) = (cs, [])"
    using Cons.prems(1) by (fastforce simp: request_for_def bindS_Inr_iff)
  have v: "same_execution s v" using keepsD [OF keeps_exec_evaluate e] .
  have "pf_eligible e"
    using out evaluation_verdict [OF e] by (auto split: option.splits)
  then obtain c where c: "pf_internal e = Some c" "context_admitted cfg True (request_for r i) c s"
    using evaluation_context [OF e _ Cons.prems(2)] by blast
  then have cs: "cs = c # cs'" "rs = []" using out by simp_all
  have "list_all2 (\<lambda>i c. \<exists>u. same_execution v u \<and> context_admitted cfg True (request_for r i) c u) ids cs'"
    using Cons.IH sound_later [OF v Cons.prems(2)] rest cs(2) by blast
  then have "list_all2 (\<lambda>i c. \<exists>u. same_execution s u \<and> context_admitted cfg True (request_for r i) c u) ids cs'"
    by (rule list_all2_mono) (use same_trans [OF v] in blast)
  then show ?case using c(2) unfolding cs(1) by (auto intro: same_refl)
qed simp

section \<open>Grants\<close>

text \<open>A grant of the session carries a capability the policy gave the context's operation, to the
  context's agent, environment and policy version, until the policy's time to live is over.\<close>

definition grant_of :: "ExecutionSession \<Rightarrow> InternalContext \<Rightarrow> CapabilityGrant \<Rightarrow> bool" where
  "grant_of t c g \<longleftrightarrow> gr_sessionId g = es_sessionId t \<and> gr_projectId g = es_projectId t \<and>
     gr_workspaceId g = ws_workspaceId (es_workspace t) \<and> gr_agentId g = ic_agentId c \<and>
     gr_environmentInstanceId g = ic_environmentInstanceId c \<and> gr_operationId g = od_id (ic_operation c) \<and>
     gr_toolId g = od_toolId (ic_operation c) \<and> gr_capability g \<in> set (pe_capabilities (ic_evaluation c)) \<and>
     gr_policyId g = ic_policyId c \<and> gr_policyVersion g = ic_policyVersion c \<and>
     gr_issuedAt g = es_createdAt t \<and> gr_expiresAt g = es_createdAt t + ic_grantTtlMs c"

text \<open>Exactly one grant for each capability of each context.\<close>

definition grants_exact :: "ExecutionSession \<Rightarrow> InternalContext list \<Rightarrow> bool" where
  "grants_exact t cs \<longleftrightarrow>
     list_all2 (\<lambda>(c, cap) g. grant_of t c g \<and> gr_capability g = cap) (context_capabilities cs) (es_grants t)"

lemma granted_of:
  "mk_grants projectId sessionId workspaceId at xs s = (Inr gs, t) \<Longrightarrow>
     list_all2 (\<lambda>(c, cap) g. \<exists>i. g = mk_grant projectId sessionId workspaceId at c i cap) xs gs"
proof (induction xs arbitrary: s gs)
  case (Cons x xs)
  obtain c cap where x: "x = (c, cap)" by fastforce
  obtain i u gs' where "mk_grants projectId sessionId workspaceId at xs u = (Inr gs', t)"
      "gs = mk_grant projectId sessionId workspaceId at c i cap # gs'"
    using Cons.prems(1) unfolding x by (auto simp: bindS_Inr_iff)
  then show ?case using Cons.IH [of u gs'] x by auto
qed simp

lemma capability_of: "(c, cap) \<in> set (context_capabilities cs) \<Longrightarrow> cap \<in> set (pe_capabilities (ic_evaluation c))"
  by (auto simp: context_capabilities_def)

lemma keeps_exec_grants [keeps_rules]: "keeps same_execution (mk_grants projectId sessionId workspaceId at xs)"
proof (induction xs)
  case Nil
  show ?case unfolding mk_grants.simps by (rule exec_frame.keeps_returnS)
next
  case (Cons x xs)
  obtain c cap where x: "x = (c, cap)" by fastforce
  show ?case unfolding x mk_grants.simps by (intro exec_frame.keeps_intros keeps_rules Cons.IH)
qed

lemma keeps_exec_extras [keeps_rules]: "keeps same_execution (evaluate_extras cfg p r ids)"
proof (induction ids)
  case Nil
  show ?case unfolding evaluate_extras.simps by (rule exec_frame.keeps_returnS)
next
  case (Cons i ids)
  show ?case unfolding evaluate_extras.simps case_prod_beta
    by (intro exec_frame.keeps_intros keeps_rules Cons.IH)
qed

section \<open>Sessions\<close>

lemma prepared_status:
  assumes "prepared (new_session p r key e extraIds contexts grants sessionId workspaceId at) granted reasons at = Inr t"
  shows "es_status t = (if granted then Es_ready else Es_denied) \<and> es_grants t = grants \<and> es_sessionId t = sessionId \<and>
    es_projectId t = xr_projectId r \<and> ws_workspaceId (es_workspace t) = workspaceId \<and> es_createdAt t = at \<and>
    es_requestedBy t = op_id p \<and> es_idempotencyKey t = key \<and> (\<not> granted \<longrightarrow> es_reasons t = reasons)"
  using assms by (auto simp: prepared_def bindE_Inr_iff transitionSession_def new_session_def plain_patch_def split: if_splits)

text \<open>The session names what it was admitted for.\<close>

definition session_of :: "ExecutionRequest \<Rightarrow> InternalContext \<Rightarrow> string list \<Rightarrow> ExecutionSession \<Rightarrow> bool" where
  "session_of r c extraIds t \<longleftrightarrow> es_projectId t = xr_projectId r \<and> es_planId t = xr_planId r \<and>
     es_planVersion t = xr_planVersion r \<and> es_stageId t = xr_stageId r \<and>
     es_operationId t = od_id (ic_operation c) \<and> es_toolId t = od_toolId (ic_operation c) \<and>
     es_operationIds t = (if extraIds = [] then None else Some (od_id (ic_operation c) # extraIds)) \<and>
     es_agentId t = ic_agentId c \<and> es_environmentInstanceId t = ic_environmentInstanceId c \<and>
     es_policy t = (ic_policyId c, ic_policyVersion c) \<and> es_limits t = pe_limits (ic_evaluation c) \<and>
     es_network t = pe_network (ic_evaluation c) \<and> es_risk t = od_risk (ic_operation c)"

lemma prepared_session:
  assumes "prepared (new_session p r key e extraIds contexts grants sessionId workspaceId at) granted reasons at = Inr t"
    and "reports e c"
  shows "session_of r c extraIds t"
  using assms by (auto simp: prepared_def bindE_Inr_iff transitionSession_def new_session_def plain_patch_def opt_else_def
      session_of_def reports_def split: if_splits)

text \<open>The additional operations of a request whose own operation is that of a context, and when its input is
  left to the invocations.\<close>

definition extra_ids :: "ExecutionRequest \<Rightarrow> InternalContext \<Rightarrow> string list" where
  "extra_ids r c = filter (\<lambda>i. i \<noteq> od_id (ic_operation c)) (or_else (xr_operationIds r) [])"

definition input_later :: "ExecutionRequest \<Rightarrow> bool" where
  "input_later r \<longleftrightarrow> or_else (xr_operationIds r) [] \<noteq> [] \<and> xr_input r = None"

text \<open>
  What a new session is: ready, and then the operator may prepare executions, an admitted context accounts for
  its operation, agent, environment, policy and limits, every additional operation has an admitted context of
  its own, and the grants are exactly those of the contexts; or denied with reasons and without any grant.
\<close>

definition accounted ::
  "exec_config \<Rightarrow> OperatorPrincipal \<Rightarrow> ExecutionRequest \<Rightarrow> 'x exec_state_scheme \<Rightarrow> ExecutionSession \<Rightarrow> bool" where
  "accounted cfg p r s t \<longleftrightarrow>
     (if es_status t = Es_ready
      then authorizeExecution cfg p (xr_projectId r) ''prepare_execution'' = Inr () \<and>
        (\<exists>c extras. context_admitted cfg (input_later r) r c s \<and>
           list_all2 (\<lambda>i x. \<exists>u. same_execution s u \<and> context_admitted cfg True (request_for r i) x u) (extra_ids r c) extras \<and>
           session_of r c (extra_ids r c) t \<and> grants_exact t (c # extras))
      else es_status t = Es_denied \<and> es_grants t = [] \<and> es_reasons t \<noteq> [])"

lemma stored_new:
  assumes "store_new p r key t s = (Inr (t', replayed), s')"
  shows "if replayed then x_sessions s' = x_sessions s \<and> findByIdempotencyKey (op_id p) key (x_sessions s) = Some t' \<and> sameRequest t' r
    else t' = t \<and> insertSession t (x_sessions s) = (True, x_sessions s')"
proof -
  obtain ok st where ins: "insertSession t (x_sessions s) = (ok, st)" by fastforce
  show ?thesis
  proof (cases ok)
    case True
    have kept: "x_sessions (snd (exec_record action actor projectId data (s\<lparr>x_sessions := st\<rparr>))) = st"
      for action actor projectId data
      by (simp add: same_fields(7) [OF keeps_apply [OF keeps_exec_records(3)]])
    have "(t', replayed) = (t, False) \<and> x_sessions s' = st"
      using assms ins True kept
      by (auto simp: store_new_def session_insert_def bindS_def [of "session_insert _"] exec_record_def)
    then show ?thesis using ins True by simp
  next
    case False
    then have "st = x_sessions s" using ins by (auto simp: insertSession_def Let_def split: if_splits)
    with False show ?thesis using assms ins
      by (cases "findByIdempotencyKey (op_id p) key (x_sessions s)")
        (auto simp: store_new_def session_insert_def bindS_def getsS_def split: if_splits)
  qed
qed

lemma grants_prepared:
  assumes "mk_grants (xr_projectId r) sessionId workspaceId at (context_capabilities cs) v = (Inr grants, w)"
    and "prepared (new_session p r key e extraIds cs grants sessionId workspaceId at) granted reasons at = Inr t"
  shows "grants_exact t cs"
proof -
  note status = prepared_status [OF assms(2)]
  have "list_all2 (\<lambda>(c, cap) g. grant_of t c g \<and> gr_capability g = cap) (context_capabilities cs) grants"
    using granted_of [OF assms(1)]
  proof (rule list.rel_mono_strong)
    fix x g
    assume x: "x \<in> set (context_capabilities cs)" "g \<in> set grants"
      and g: "(\<lambda>(c, cap) g. \<exists>i. g = mk_grant (xr_projectId r) sessionId workspaceId at c i cap) x g"
    obtain c cap where "x = (c, cap)" by fastforce
    with x g show "(\<lambda>(c, cap) g. grant_of t c g \<and> gr_capability g = cap) x g"
      using status capability_of by (auto simp: grant_of_def mk_grant_def)
  qed
  then show ?thesis using status by (simp add: grants_exact_def)
qed

lemma fresh_created:
  assumes run: "create_fresh cfg p r key s = (Inr (t, replayed), s')" and sound: "records_sound s"
  shows "if replayed then x_sessions s' = x_sessions s \<and> findByIdempotencyKey (op_id p) key (x_sessions s) = Some t \<and> sameRequest t r
    else insertSession t (x_sessions s) = (True, x_sessions s') \<and> es_requestedBy t = op_id p \<and> es_idempotencyKey t = key \<and>
      es_sessionId t \<noteq> [] \<and> accounted cfg p r s t"
proof -
  let ?ids = "case xr_operationIds r of None \<Rightarrow> [] | Some ids \<Rightarrow> ids"
  have later: "(?ids \<noteq> [] \<and> xr_input r = None) = input_later r" by (auto simp: input_later_def split: option.split)
  obtain e u where e: "evaluateRequest cfg p r (input_later r) s = (Inr e, u)"
    using run unfolding create_fresh_def Let_def later by (auto simp: bindS_Inr_iff)
  let ?extra = "filter (\<lambda>i. Some i \<noteq> map_option od_id (pf_operation e)) ?ids"
  obtain extras reasons v where v: "evaluate_extras cfg p r ?extra u = (Inr (extras, reasons), v)"
    using run e unfolding create_fresh_def Let_def later by (auto simp: bindS_Inr_iff)
  define granted where "granted \<longleftrightarrow> pf_eligible e \<and> reasons = []"
  define contexts where "contexts = (case (granted, pf_internal e) of (True, Some c) \<Rightarrow> c # extras | _ \<Rightarrow> [])"
  define at where "at = time_at v (ticks v)"
  define w1 where "w1 = v\<lparr>ticks := Suc (ticks v)\<rparr>"
  obtain sessionId workspaceId w2 w3 grants w t0 where
      steps: "createId ''exs'' w1 = (Inr sessionId, w2)" "createId ''ews'' w2 = (Inr workspaceId, w3)"
    and grants: "mk_grants (xr_projectId r) sessionId workspaceId at (context_capabilities contexts) w3 = (Inr grants, w)"
    and t0: "prepared (new_session p r key e ?extra contexts grants sessionId workspaceId at) granted (pf_reasons e @ reasons) at = Inr t0"
    and store: "store_new p r key t0 w = (Inr (t, replayed), s')"
    using run e v unfolding granted_def contexts_def at_def w1_def create_fresh_def Let_def later
    by (auto simp: bindS_Inr_iff)
  have u: "same_execution s u" using keepsD [OF keeps_exec_evaluate e] .
  have "now v = (Inr at, w1)" by (simp add: now_def at_def w1_def)
  then have "same_execution v w"
    using keepsD [OF keeps_exec_now] keepsD [OF keeps_exec_createId steps(1)] keepsD [OF keeps_exec_createId steps(2)]
      keepsD [OF keeps_exec_grants grants] same_trans by meson
  then have w: "x_sessions w = x_sessions s"
    using u keepsD [OF keeps_exec_extras v] same_trans same_fields(7) by meson
  note status = prepared_status [OF t0]
  have "accounted cfg p r s t0"
  proof (cases granted)
    case False
    then have "contexts = []" by (simp add: contexts_def)
    then have "grants = []" using grants by (simp add: context_capabilities_def)
    moreover have "pf_reasons e @ reasons \<noteq> []" using False evaluation_verdict [OF e] by (auto simp: granted_def)
    ultimately show ?thesis using status False by (simp add: accounted_def)
  next
    case True
    then have ok: "pf_eligible e" "reasons = []" by (simp_all add: granted_def)
    obtain c where c: "pf_internal e = Some c" "context_admitted cfg (input_later r) r c s" "reports e c"
      using evaluation_context [OF e ok(1) sound] by blast
    have ids: "?extra = extra_ids r c"
      using c(3) by (auto simp: extra_ids_def reports_def split: option.split intro: filter_cong)
    have cs: "contexts = c # extras" using True c(1) by (simp add: contexts_def)
    have "list_all2 (\<lambda>i x. \<exists>y. same_execution s y \<and> context_admitted cfg True (request_for r i) x y) (extra_ids r c) extras"
      using extras_admitted [OF v [unfolded ok(2)] sound_later [OF u sound]] unfolding ids
      by (rule list_all2_mono) (use same_trans [OF u] in blast)
    moreover have "session_of r c (extra_ids r c) t0" using prepared_session [OF t0 c(3)] unfolding ids .
    moreover have "grants_exact t0 (c # extras)" using grants_prepared [OF grants t0] unfolding cs .
    moreover have "authorizeExecution cfg p (xr_projectId r) ''prepare_execution'' = Inr ()"
      using evaluation_admitted [OF e ok(1)] sound by (simp add: records_sound_def)
    ultimately show ?thesis using c(2) status True unfolding accounted_def by auto
  qed
  moreover have "sessionId \<noteq> []" using steps(1) by (auto simp: createId_eq id_of_not_Nil)
  ultimately show ?thesis using stored_new [OF store] status w by (auto split: if_splits)
qed

text \<open>Creating a session with a key that was used returns the session of that key and changes nothing; with a
  new key it stores one accounted session under a new id and the key.\<close>

lemma created:
  assumes run: "createSession cfg p r key s = (Inr (t, replayed), s')" and sound: "records_sound s"
  shows "case findByIdempotencyKey (op_id p) key (x_sessions s) of
      Some x \<Rightarrow> t = x \<and> replayed \<and> s' = s \<and> sameRequest t r
    | None \<Rightarrow> \<not> replayed \<and> getSession (es_sessionId t) (x_sessions s) = None \<and>
        getSession (es_sessionId t) (x_sessions s') = Some t \<and>
        findByIdempotencyKey (op_id p) key (x_sessions s') = Some t \<and> accounted cfg p r s t"
proof (cases "findByIdempotencyKey (op_id p) key (x_sessions s)")
  case (Some x)
  then show ?thesis using run by (auto simp: createSession_def thenS_def bindS_Inr_iff split: if_splits)
next
  case None
  then have new: "create_fresh cfg p r key s = (Inr (t, replayed), s')"
    using run by (auto simp: createSession_def thenS_def bindS_Inr_iff)
  have fresh: "\<not> replayed" "insertSession t (x_sessions s) = (True, x_sessions s')" "es_requestedBy t = op_id p"
      "es_idempotencyKey t = key" "es_sessionId t \<noteq> []" "accounted cfg p r s t"
    using fresh_created [OF new sound] None by (auto split: if_splits)
  moreover from fresh(2) have "x_sessions s' = snd (insertSession t (x_sessions s))" by simp
  ultimately show ?thesis using None
    by (auto simp: insertSession_def Let_def getSession_def findByIdempotencyKey_def update_conv split: if_splits)
qed

end
