(* ===== verification/Exec_Lease_Laws.thy ===== *)
theory Exec_Lease_Laws
  imports Exec_Routing_Laws
begin

text \<open>
  Leases on runners: at most as many per runner as its capacity, each for a registered runner, whatever
  sequence of registrations, acquisitions, releases, expirations, resolutions, pre-flights and session
  creations the boundary serves.
\<close>

section \<open>The invariant\<close>

definition held_by :: "string \<Rightarrow> (string \<times> RunnerLease) list \<Rightarrow> nat" where
  "held_by runnerId ls = length (filter (\<lambda>l. rl_runnerId l = runnerId) (map snd ls))"

definition leases_bounded :: "'x exec_state_scheme \<Rightarrow> bool" where
  "leases_bounded s \<longleftrightarrow>
     (\<forall>(i, l) \<in> set (ar_leases (x_adapters s)). getRunner (rl_runnerId l) s \<noteq> None) \<and>
     (\<forall>runnerId d. getRunner runnerId s = Some d \<longrightarrow> int (held_by runnerId (ar_leases (x_adapters s))) \<le> rd_capacity d)"

definition lease_safe :: "'x exec_state_scheme \<Rightarrow> 'x exec_state_scheme \<Rightarrow> bool" where
  "lease_safe s t \<longleftrightarrow> (leases_bounded s \<longrightarrow> leases_bounded t) \<and>
     (\<forall>i d. getRunner i s = Some d \<longrightarrow> getRunner i t = Some d)"

interpretation lease_evo: evolution lease_safe
  by unfold_locales (auto simp: lease_safe_def)

lemma leases_of_length: "length (leases_of runnerId s) = held_by runnerId (ar_leases (x_adapters s))"
  by (simp add: leases_of_def held_by_def)

lemma bounded_adapters: "x_adapters t = x_adapters s \<Longrightarrow> leases_bounded t = leases_bounded s"
  by (simp add: leases_bounded_def getRunner_def)

lemma safe_adapters: "x_adapters t = x_adapters s \<Longrightarrow> lease_safe s t"
  using bounded_adapters [of t s] by (simp only: lease_safe_def getRunner_def simp_thms)

lemma held_delete: "held_by r (AList.delete i ls) \<le> held_by r ls"
  by (induction ls) (auto simp: held_by_def AList.delete_eq)

lemma held_set: "held_by r (map_set i l ls) \<le> held_by r ls + (if rl_runnerId l = r then 1 else 0)"
  by (induction ls) (auto simp: held_by_def)

lemma set_map_set: "x \<in> set (map_set k v m) \<Longrightarrow> x = (k, v) \<or> x \<in> set m"
  by (induction m) (auto split: if_splits)

lemma held_none: "\<forall>(i, l) \<in> set ls. rl_runnerId l \<noteq> r \<Longrightarrow> held_by r ls = 0"
  by (auto simp: held_by_def filter_empty_conv)

section \<open>Operations\<close>

lemma safe_now [keeps_rules]: "keeps lease_safe now"
  by (simp add: keeps_def now_def safe_adapters)

lemma safe_createId [keeps_rules]: "keeps lease_safe (createId p)"
  by (simp add: keeps_def createId_eq safe_adapters)

lemma safe_audit [keeps_rules]: "keeps lease_safe (audit ty t a p d)"
  unfolding keeps_def using exec_more_fields(11) [OF audit_more] safe_adapters by blast

lemma safe_records [keeps_rules]: "keeps lease_safe (adapter_record action projectId data)"
    "keeps lease_safe (lease_record action l)" "keeps lease_safe (exec_record action actor projectId data)"
  unfolding lease_record_def adapter_record_def exec_record_def by (rule safe_audit)+

lemma safe_drop [keeps_rules]: "keeps lease_safe (drop_lease i)"
proof (rule keepsI)
  fix s :: "'x exec_state_scheme"
  have "int (held_by r (AList.delete i (ar_leases (x_adapters s)))) \<le> n"
    if "int (held_by r (ar_leases (x_adapters s))) \<le> n" for r n
    using that held_delete [of r i "ar_leases (x_adapters s)"] by linarith
  then show "lease_safe s (snd (drop_lease i s))"
    by (auto simp: lease_safe_def leases_bounded_def drop_lease_def set_adapters_def getRunner_def
        AList.delete_eq)
qed

lemma safe_leases [keeps_rules]:
  "keeps lease_safe reclaimExpired" "keeps lease_safe (activeLeases runnerId)" "keeps lease_safe (releaseLease i)"
  unfolding activeLeases_def reclaimExpired_def releaseLease_def case_prod_beta
  by (intro lease_evo.keeps_intros keeps_rules)+

lemma safe_acquire [keeps_rules]: "keeps lease_safe (acquireLease runnerId sessionId projectId ttlMs)"
proof (rule keepsI)
  fix s :: "'x exec_state_scheme"
  let ?m = "acquireLease runnerId sessionId projectId ttlMs"
  define t where "t = snd (activeLeases runnerId s)"
  have t: "lease_safe s t" unfolding t_def by (rule keeps_apply [OF safe_leases(2)])
  show "lease_safe s (snd (?m s))"
  proof (cases "getRunner runnerId s")
    case None
    then show ?thesis by (simp add: acquireLease_def lease_evo.refl)
  next
    case (Some d)
    show ?thesis
    proof (cases "int (length (leases_of runnerId t)) \<ge> rd_capacity d")
      case True
      then show ?thesis using Some t by (simp add: acquireLease_def bind_leases t_def [symmetric])
    next
      case False
      let ?l = "\<lparr>rl_leaseId = id_of ''rls'' (process_tag t) (Suc (seq t)), rl_runnerId = runnerId,
        rl_sessionId = sessionId, rl_projectId = projectId, rl_acquiredAt = time_at t (ticks t),
        rl_expiresAt = time_at t (ticks t) + max 1 ttlMs\<rparr>"
      let ?u = "t\<lparr>ticks := Suc (ticks t), seq := Suc (seq t)\<rparr>"
      let ?v = "x_adapters_update (ar_leases_update (map_set (rl_leaseId ?l) ?l)) ?u"
      have d: "getRunner runnerId t = Some d" using t Some by (simp add: lease_safe_def)
      have "leases_bounded ?v" if ok: "leases_bounded t"
      proof -
        have "int (held_by r (map_set (rl_leaseId ?l) ?l (ar_leases (x_adapters t)))) \<le> rd_capacity e"
          if e: "getRunner r t = Some e" for r e
        proof -
          have "int (held_by r (ar_leases (x_adapters t))) \<le> rd_capacity e" using ok e by (simp add: leases_bounded_def)
          moreover have "int (held_by r (ar_leases (x_adapters t))) < rd_capacity e" if "runnerId = r"
            using that d e False by (simp add: leases_of_length)
          ultimately show ?thesis using held_set [of r "rl_leaseId ?l" ?l "ar_leases (x_adapters t)"]
            by (auto split: if_splits)
        qed
        then show ?thesis using ok d
          by (auto simp: leases_bounded_def getRunner_def dest!: set_map_set)
      qed
      then have "lease_safe t ?v" by (simp add: lease_safe_def getRunner_def)
      moreover have "lease_safe ?v (snd (?m s))"
        using Some False keeps_apply [OF safe_records(2), of ?v "''runner_lease_acquired''" ?l]
        by (simp add: acquireLease_def bind_leases t_def [symmetric] createId_eq bindS_def [of "createId _"] set_adapters_def then_modify Let_def
            lease_record_def adapter_record_def)
      ultimately show ?thesis using t lease_evo.trans by blast
    qed
  qed
qed

section \<open>Registration\<close>

lemma safe_setup:
  assumes "ar_runners (x_adapters t) = ar_runners (x_adapters s)" "ar_leases (x_adapters t) = ar_leases (x_adapters s)"
  shows "lease_safe s t"
  unfolding lease_safe_def leases_bounded_def getRunner_def assms by blast

lemma safe_set_setup [keeps_rules]: "keeps lease_safe (set_adapters (ar_adapters_update f))"
    "keeps lease_safe (set_adapters (ar_policies_update g))"
  by (rule keepsI, rule safe_setup, simp add: set_adapters_def, simp add: set_adapters_def)+

lemma safe_registrations [keeps_rules]: "keeps lease_safe (registerAdapter d)" "keeps lease_safe (setProjectPolicy projectId p)"
  unfolding registerAdapter_def setProjectPolicy_def by (intro lease_evo.keeps_intros keeps_rules)+

lemma registerRunner_cases:
  obtains (refused) e where "registerRunner d s = (Inl e, s)"
  | (stored) "validateRunnerDescriptor d = Inr ()" "getRunner (rd_runnerId d) s = None"
      "registerRunner d s = (Inr (), x_adapters_update (ar_runners_update (map_set (rd_runnerId d) d)) s)"
proof (cases "validateRunnerDescriptor d")
  case (Inl e)
  then show thesis by (intro refused) (simp add: registerRunner_def op_simps)
next
  case (Inr u)
  show thesis
  proof (cases "get_adapter (rd_adapterId d) s = None \<or> getRunner (rd_runnerId d) s \<noteq> None")
    case True
    with Inr have "\<exists>e. registerRunner d s = (Inl e, s)" by (auto simp: registerRunner_def op_simps)
    then show thesis using refused by blast
  next
    case False
    with Inr show thesis by (intro stored) (simp_all add: registerRunner_def set_adapters_def op_simps)
  qed
qed

lemma safe_registerRunner [keeps_rules]: "keeps lease_safe (registerRunner d)"
proof (rule keepsI)
  fix s :: "'x exec_state_scheme"
  show "lease_safe s (snd (registerRunner d s))"
  proof (cases rule: registerRunner_cases [of d s])
    case (refused e)
    then show ?thesis by (simp add: lease_evo.refl)
  next
    case stored
    have cap: "0 < rd_capacity d" using stored(1) by (auto simp: validateRunnerDescriptor_def checks_Inr_iff)
    have get: "getRunner i (snd (registerRunner d s)) = (if i = rd_runnerId d then Some d else getRunner i s)" for i
      using stored(3) by (simp add: getRunner_def update_conv)
    have "held_by (rd_runnerId d) (ar_leases (x_adapters s)) = 0" if "leases_bounded s"
      using that stored(2) by (intro held_none) (fastforce simp: leases_bounded_def)
    then show ?thesis
      using stored(2) cap unfolding lease_safe_def leases_bounded_def get by (auto simp: stored(3))
  qed
qed

section \<open>Evaluation\<close>

lemma safe_liveness [keeps_rules]: "keeps lease_safe (liveness cfg runnerId)"
  unfolding liveness_def by (intro lease_evo.keeps_intros keeps_rules)

lemma safe_runner [keeps_rules]: "keeps lease_safe (runner_reason cfg projectId d)"
  unfolding runner_reason_def by (intro lease_evo.keeps_intros keeps_rules)

lemma safe_pick [keeps_rules]: "keeps lease_safe (pick_runner cfg projectId adapterId instanceId ds)"
proof (induction ds)
  case Nil
  show ?case unfolding pick_runner.simps by (rule lease_evo.keeps_returnS)
next
  case (Cons d ds)
  show ?case unfolding pick_runner.simps case_prod_beta by (intro lease_evo.keeps_intros keeps_rules Cons.IH)
qed

lemma safe_serve [keeps_rules]: "keeps lease_safe (serve cfg projectId i op req d)"
  unfolding serve_def case_prod_beta Let_def by (intro lease_evo.keeps_intros keeps_rules)

lemma safe_try [keeps_rules]: "keeps lease_safe (try_adapters cfg projectId i h op req x acc ds)"
proof (induction ds arbitrary: acc)
  case Nil
  show ?case unfolding try_adapters.simps by (rule lease_evo.keeps_returnS)
next
  case (Cons d ds)
  show ?case unfolding try_adapters.simps Let_def by (intro lease_evo.keeps_intros keeps_rules Cons.IH)
qed

lemma safe_case_pair:
  "(\<And>i h. keeps lease_safe (m i h)) \<Longrightarrow>
     keeps lease_safe (case p of (Some i, Some h) \<Rightarrow> m i h | _ \<Rightarrow> returnS r)"
  by (cases p; cases "fst p"; cases "snd p") (simp_all add: lease_evo.keeps_returnS del: returnS_apply)

lemma safe_resolve [keeps_rules]: "keeps lease_safe (resolve cfg projectId instanceId op x)"
  unfolding resolve_def by (intro lease_evo.keeps_intros safe_case_pair keeps_rules)

lemma safe_routing [keeps_rules]: "keeps lease_safe (routing_gate cfg projectId op instanceId g)"
  unfolding routing_gate_def
  by (cases op; cases instanceId) (auto intro!: lease_evo.keeps_intros keeps_rules)

lemma safe_evaluate [keeps_rules]: "keeps lease_safe (evaluateRequest cfg p r skip)"
  unfolding evaluateRequest_def revalidateApprovals_def approval_valid_def final_gates_def case_prod_beta Let_def
  by (intro lease_evo.keeps_intros keeps_rules)

lemma safe_preflight [keeps_rules]: "keeps lease_safe (preflight cfg p r)"
  unfolding preflight_def by (intro lease_evo.keeps_intros keeps_rules)

section \<open>Creation\<close>

lemma safe_extras [keeps_rules]: "keeps lease_safe (evaluate_extras cfg p r ids)"
proof (induction ids)
  case Nil
  show ?case unfolding evaluate_extras.simps by (rule lease_evo.keeps_returnS)
next
  case (Cons i ids)
  show ?case unfolding evaluate_extras.simps case_prod_beta
    by (intro lease_evo.keeps_intros keeps_rules Cons.IH)
qed

lemma safe_grants [keeps_rules]: "keeps lease_safe (mk_grants projectId sessionId workspaceId at xs)"
proof (induction xs)
  case Nil
  show ?case unfolding mk_grants.simps by (rule lease_evo.keeps_returnS)
next
  case (Cons x xs)
  obtain c cap where x: "x = (c, cap)" by fastforce
  show ?case unfolding x mk_grants.simps by (intro lease_evo.keeps_intros keeps_rules Cons.IH)
qed

lemma safe_insert [keeps_rules]: "keeps lease_safe (session_insert t)"
  by (simp add: keeps_def session_insert_def safe_adapters split: prod.splits)

lemma safe_create [keeps_rules]: "keeps lease_safe (createSession cfg p r key)"
  unfolding createSession_def create_fresh_def store_new_def case_prod_beta Let_def
  by (intro lease_evo.keeps_intros keeps_rules)

section \<open>Any sequence of calls\<close>

text \<open>A call on the boundary, returning or throwing, or any step that leaves the adapters alone but for a heartbeat.\<close>

inductive boundary_call :: "'x exec_state_scheme \<Rightarrow> 'x exec_state_scheme \<Rightarrow> bool" where
  adapter: "boundary_call s (snd (registerAdapter d s))"
| runner: "boundary_call s (snd (registerRunner rd s))"
| policy: "boundary_call s (snd (setProjectPolicy projectId pol s))"
| acquire_lease: "boundary_call s (snd (acquireLease runnerId sessionId projectId ttlMs s))"
| release_lease: "boundary_call s (snd (releaseLease leaseId s))"
| active_leases: "boundary_call s (snd (activeLeases runnerId s))"
| resolve_op: "boundary_call s (snd (resolve cfg projectId instanceId op x s))"
| preflight_op: "boundary_call s (snd (preflight cfg p r s))"
| create_session: "boundary_call s (snd (createSession cfg p r key s))"
| elsewhere: "x_adapters t = (x_adapters s)\<lparr>ar_heartbeats := h\<rparr> \<Longrightarrow> boundary_call s t"

lemma boundary_safe: "boundary_call s t \<Longrightarrow> lease_safe s t"
proof (induction rule: boundary_call.induct)
  case (elsewhere t s h)
  then show ?case by (intro safe_setup) simp_all
qed (rule keeps_apply, intro keeps_rules)+

lemma boundary_calls_safe: "boundary_call\<^sup>*\<^sup>* s t \<Longrightarrow> lease_safe s t"
proof (induction rule: rtranclp_induct)
  case (step t u)
  then show ?case using boundary_safe lease_evo.trans by blast
qed (rule lease_evo.refl)

end
