(* ===== verification/Exec_Session_Laws.thy ===== *)
theory Exec_Session_Laws
  imports Exec_Sessions
begin

text \<open>
  The invariant of a session, what successive versions of it have in common, and the guarantee of the
  compare-and-swap store under interleaved reads and writes: no write is lost, closed attempts and
  terminal states are final, and an idempotency key names one session.
\<close>

section \<open>Sessions\<close>

definition started_status :: "ExecutionSessionStatus \<Rightarrow> bool" where
  "started_status st \<longleftrightarrow> st \<in> {Es_running, Es_cancelling, Es_succeeded, Es_failed, Es_timed_out}"

definition session_ok :: "ExecutionSession \<Rightarrow> bool" where
  "session_ok s \<longleftrightarrow>
     (\<forall>i < length (es_attempts s). ea_number (es_attempts s ! i) = i + 1 \<and>
        ea_sessionId (es_attempts s ! i) = es_sessionId s) \<and>
     (\<forall>i. Suc i < length (es_attempts s) \<longrightarrow> attempt_closed (ea_status (es_attempts s ! i))) \<and>
     (es_endedAt s \<noteq> None \<longleftrightarrow> isTerminalSession (es_status s)) \<and>
     (started_status (es_status s) \<or> es_attempts s \<noteq> [] \<longrightarrow> es_startedAt s \<noteq> None)"

text \<open>What no operation changes.\<close>

definition identity :: "ExecutionSession \<Rightarrow> ExecutionSession" where
  "identity s = s \<lparr>es_status := Es_created, es_reasons := [], es_cancellation := None, es_attempts := [],
     es_startedAt := None, es_endedAt := None, es_revision := 0\<rparr>"

definition attempts_kept :: "ExecutionAttempt list \<Rightarrow> ExecutionAttempt list \<Rightarrow> bool" where
  "attempts_kept xs ys \<longleftrightarrow> length xs \<le> length ys \<and>
     (\<forall>i < length xs. ea_attemptId (ys ! i) = ea_attemptId (xs ! i) \<and>
        (attempt_closed (ea_status (xs ! i)) \<longrightarrow> ys ! i = xs ! i))"

definition session_evolves :: "ExecutionSession \<Rightarrow> ExecutionSession \<Rightarrow> bool" where
  "session_evolves s t \<longleftrightarrow> s = t \<or> es_revision s < es_revision t \<and> identity s = identity t \<and>
     canTransitionSession\<^sup>*\<^sup>* (es_status s) (es_status t) \<and> attempts_kept (es_attempts s) (es_attempts t) \<and>
     (es_startedAt s \<noteq> None \<longrightarrow> es_startedAt t = es_startedAt s) \<and>
     (es_endedAt s \<noteq> None \<longrightarrow> es_endedAt t = es_endedAt s)"

lemma attempts_kept_refl [simp]: "attempts_kept xs xs"
  by (simp add: attempts_kept_def)

lemma attempts_kept_trans: "attempts_kept xs ys \<Longrightarrow> attempts_kept ys zs \<Longrightarrow> attempts_kept xs zs"
proof -
  assume a: "attempts_kept xs ys" "attempts_kept ys zs"
  have "ea_attemptId (zs ! i) = ea_attemptId (xs ! i) \<and> (attempt_closed (ea_status (xs ! i)) \<longrightarrow> zs ! i = xs ! i)"
    if "i < length xs" for i
  proof -
    have "i < length ys" using a(1) that by (simp add: attempts_kept_def)
    with a that show ?thesis by (auto simp: attempts_kept_def)
  qed
  then show ?thesis using a by (auto simp: attempts_kept_def)
qed

lemma session_evolves_refl [simp]: "session_evolves s s"
  by (simp add: session_evolves_def)

lemma session_evolves_trans:
  assumes "session_evolves s t" "session_evolves t u"
  shows "session_evolves s u"
proof (cases "s = t \<or> t = u")
  case True
  with assms show ?thesis by auto
next
  case False
  with assms have st: "es_revision s < es_revision t" "identity s = identity t"
      "canTransitionSession\<^sup>*\<^sup>* (es_status s) (es_status t)" "attempts_kept (es_attempts s) (es_attempts t)"
      "es_startedAt s \<noteq> None \<longrightarrow> es_startedAt t = es_startedAt s" "es_endedAt s \<noteq> None \<longrightarrow> es_endedAt t = es_endedAt s"
    and tu: "es_revision t < es_revision u" "identity t = identity u"
      "canTransitionSession\<^sup>*\<^sup>* (es_status t) (es_status u)" "attempts_kept (es_attempts t) (es_attempts u)"
      "es_startedAt t \<noteq> None \<longrightarrow> es_startedAt u = es_startedAt t" "es_endedAt t \<noteq> None \<longrightarrow> es_endedAt u = es_endedAt t"
    by (auto simp: session_evolves_def)
  have "canTransitionSession\<^sup>*\<^sup>* (es_status s) (es_status u)" using st(3) tu(3) by (rule rtranclp_trans)
  moreover have "attempts_kept (es_attempts s) (es_attempts u)" using st(4) tu(4) by (rule attempts_kept_trans)
  ultimately show ?thesis using st tu by (auto simp: session_evolves_def)
qed

lemma identity_id: "identity s = identity t \<Longrightarrow> es_sessionId s = es_sessionId t \<and>
    es_requestedBy s = es_requestedBy t \<and> es_idempotencyKey s = es_idempotencyKey t"
  by (cases s; cases t) (simp add: identity_def)

lemma session_evolves_id: "session_evolves s t \<Longrightarrow> es_sessionId t = es_sessionId s \<and>
    es_requestedBy t = es_requestedBy s \<and> es_idempotencyKey t = es_idempotencyKey s"
  using identity_id [of s t] by (auto simp: session_evolves_def)

lemma terminal_no_exit: "isTerminalSession a \<Longrightarrow> \<not> canTransitionSession a b"
  by (cases a) (auto simp: isTerminalSession_def canTransitionSession_def)

lemma terminal_session_final: "session_evolves s t \<Longrightarrow> isTerminalSession (es_status s) \<Longrightarrow> es_status t = es_status s"
  using terminal_no_exit by (auto simp: session_evolves_def elim: converse_rtranclpE)

subsection \<open>Operations\<close>

definition evolved :: "ExecutionSession \<Rightarrow> ExecutionSession \<Rightarrow> bool" where
  "evolved s t \<longleftrightarrow> session_ok t \<and> session_evolves s t \<and> es_revision s < es_revision t"

lemma transition_evolves:
  assumes ok: "session_ok s" and run: "transitionSession s to at p = Inr t"
  shows "evolved s t"
proof -
  have can: "canTransitionSession (es_status s) to" using run by (auto simp: transitionSession_def split: if_splits)
  have live: "\<not> isTerminalSession (es_status s)" using can terminal_no_exit by blast
  have start: "started_status to \<Longrightarrow> to \<noteq> Es_running \<Longrightarrow> started_status (es_status s)"
    using can by (cases "es_status s") (auto simp: canTransitionSession_def started_status_def)
  have t: "es_status t = to" "es_attempts t = es_attempts s" "es_sessionId t = es_sessionId s"
      "es_startedAt t = (if to = Es_running \<and> es_startedAt s = None then Some at else es_startedAt s)"
      "es_endedAt t = (if isTerminalSession to then Some at else es_endedAt s)"
      "es_revision t = es_revision s + 1" "identity t = identity s"
    using run can by (auto simp: transitionSession_def identity_def)
  have "session_ok t"
    using ok live start by (auto simp: session_ok_def t)
  moreover have "session_evolves s t"
    using can live ok by (auto simp: session_evolves_def t session_ok_def)
  ultimately show ?thesis by (simp add: evolved_def t)
qed

lemma begin_evolves:
  assumes ok: "session_ok s" and run: "beginAttempt s i at = Inr t"
  shows "evolved s t"
proof -
  have running: "es_status s = Es_running" and closed: "\<forall>a \<in> set (es_attempts s). attempt_closed (ea_status a)"
    using run by (auto simp: beginAttempt_def list_ex_iff split: if_splits)
  obtain a where t: "es_attempts t = es_attempts s @ [a]" "ea_number a = length (es_attempts s) + 1"
      "ea_sessionId a = es_sessionId s"
    and rest: "es_status t = es_status s" "es_sessionId t = es_sessionId s" "es_startedAt t = es_startedAt s"
      "es_endedAt t = es_endedAt s" "es_revision t = es_revision s + 1" "identity t = identity s"
    using run running closed by (auto simp: beginAttempt_def identity_def list_ex_iff split: if_splits)
  have "session_ok t"
    unfolding session_ok_def rest t(1)
  proof (intro conjI allI impI)
    fix i
    assume "i < length (es_attempts s @ [a])"
    then show "ea_number ((es_attempts s @ [a]) ! i) = i + 1" "ea_sessionId ((es_attempts s @ [a]) ! i) = es_sessionId s"
      using ok t(2,3) by (auto simp: session_ok_def nth_append less_Suc_eq)
  next
    fix i
    assume "Suc i < length (es_attempts s @ [a])"
    then show "attempt_closed (ea_status ((es_attempts s @ [a]) ! i))"
      using closed by (auto simp: nth_append)
  qed (use ok running in \<open>auto simp: session_ok_def started_status_def\<close>)
  moreover have "attempts_kept (es_attempts s) (es_attempts t)" by (simp add: attempts_kept_def t nth_append)
  ultimately show ?thesis by (simp add: evolved_def session_evolves_def rest)
qed

lemma js_find_index:
  "js_find p xs = Some x \<Longrightarrow> \<exists>n < length xs. xs ! n = x \<and> p x \<and> (\<forall>m < n. \<not> p (xs ! m))"
proof (induction xs)
  case (Cons y ys)
  show ?case
  proof (cases "p y")
    case True
    with Cons.prems show ?thesis by (intro exI [of _ 0]) simp
  next
    case False
    with Cons obtain n where "n < length ys" "ys ! n = x" "p x" "\<forall>m < n. \<not> p (ys ! m)" by auto
    with False show ?thesis by (intro exI [of _ "Suc n"]) (auto simp: less_Suc_eq_0_disj)
  qed
qed simp

lemma finish_evolves:
  assumes ok: "session_ok s" and run: "finishAttempt s i st at r = Inr t" and st: "attempt_closed st"
  shows "evolved s t"
proof -
  let ?f = "\<lambda>b. if ea_attemptId b = i then close_attempt st at r b else b"
  obtain a where found: "js_find (\<lambda>a. ea_attemptId a = i) (es_attempts s) = Some a"
    and opened: "\<not> attempt_closed (ea_status a)"
    and t: "es_attempts t = map ?f (es_attempts s)" and rest: "es_status t = es_status s" "es_sessionId t = es_sessionId s"
      "es_startedAt t = es_startedAt s" "es_endedAt t = es_endedAt s" "es_revision t = es_revision s + 1" "identity t = identity s"
    using run by (auto simp: finishAttempt_def identity_def split: option.splits if_splits)
  from found obtain n where n: "n < length (es_attempts s)" "es_attempts s ! n = a" "ea_attemptId a = i"
      "\<forall>m < n. ea_attemptId (es_attempts s ! m) \<noteq> i"
    using js_find_index [OF found] by blast
  have last: "Suc n = length (es_attempts s)"
  proof (rule ccontr)
    assume "Suc n \<noteq> length (es_attempts s)"
    with n(1) have "Suc n < length (es_attempts s)" by simp
    with ok have "attempt_closed (ea_status (es_attempts s ! n))" by (simp add: session_ok_def)
    with n(2) opened show False by simp
  qed
  have other: "es_attempts t ! m = es_attempts s ! m" if "m < length (es_attempts s)" "m \<noteq> n" for m
  proof -
    have "m < n" using that last by simp
    with n(4) that show ?thesis by (simp add: t)
  qed
  have fields: "ea_attemptId (?f b) = ea_attemptId b" "ea_number (?f b) = ea_number b" "ea_sessionId (?f b) = ea_sessionId b" for b
    by (simp_all add: close_attempt_def)
  have "attempts_kept (es_attempts s) (es_attempts t)"
    unfolding attempts_kept_def
  proof (intro conjI allI impI)
    fix m
    assume m: "m < length (es_attempts s)"
    then show "ea_attemptId (es_attempts t ! m) = ea_attemptId (es_attempts s ! m)" by (simp add: t fields)
    assume "attempt_closed (ea_status (es_attempts s ! m))"
    with n(2) opened have "m \<noteq> n" by auto
    with m show "es_attempts t ! m = es_attempts s ! m" by (rule other)
  qed (simp add: t)
  moreover have "session_ok t"
    unfolding session_ok_def rest
  proof (intro conjI allI impI)
    fix m
    assume "m < length (es_attempts t)"
    then show "ea_number (es_attempts t ! m) = m + 1" "ea_sessionId (es_attempts t ! m) = es_sessionId s"
      using ok by (simp_all add: t fields session_ok_def)
  next
    fix m
    assume "Suc m < length (es_attempts t)"
    then have "m < length (es_attempts s)" "m \<noteq> n" "Suc m < length (es_attempts s)" using last by (simp_all add: t)
    with other ok show "attempt_closed (ea_status (es_attempts t ! m))" by (simp add: session_ok_def)
  qed (use ok in \<open>auto simp: session_ok_def t\<close>)
  ultimately show ?thesis by (simp add: evolved_def session_evolves_def rest)
qed

text \<open>Cancellation on every branch; only a session that has not ended changes.\<close>

lemma cancellation:
  "planCancellation s req =
     (if es_status s = Es_cancelled then Inr (Co_already_cancelled, s)
      else if es_status s = Es_cancelling then Inr (Co_already_cancelling, s)
      else if isTerminalSession (es_status s) then Inr (Co_already_terminal, s)
      else if es_status s = Es_running
      then Inr (Co_cancelling, s \<lparr>es_cancellation := Some req, es_status := Es_cancelling, es_revision := es_revision s + 1\<rparr>)
      else Inr (Co_cancelled, s \<lparr>es_reasons := es_reasons s @
             [(''CANCELLED'', (if cr_kill req then ''kill'' else ''cancel'') @ '' requested by an operator'')],
           es_cancellation := Some req, es_status := Es_cancelled, es_endedAt := Some (cr_requestedAt req),
           es_revision := es_revision s + 1\<rparr>))"
  by (cases "es_status s")
    (simp_all add: planCancellation_def transitionSession_def canTransitionSession_def isTerminalSession_def)

text \<open>A write of a client: a sequence of operations on the version it read.\<close>

datatype session_update =
    Upd_transition ExecutionSessionStatus timestamp session_patch
  | Upd_begin string timestamp
  | Upd_finish string ExecutionAttemptStatus timestamp "string option"

fun apply_update :: "ExecutionSession \<Rightarrow> session_update \<Rightarrow> ExecutionSession res" where
  "apply_update s (Upd_transition to at p) = transitionSession s to at p"
| "apply_update s (Upd_begin i at) = beginAttempt s i at"
| "apply_update s (Upd_finish i st at r) = finishAttempt s i st at r"

fun apply_updates :: "ExecutionSession \<Rightarrow> session_update list \<Rightarrow> ExecutionSession res" where
  "apply_updates s [] = Inr s"
| "apply_updates s (u # us) = bindE (apply_update s u) (\<lambda>t. apply_updates t us)"

text \<open>The declared type of \<open>finishAttempt\<close> excludes open states.\<close>

fun typed_update :: "session_update \<Rightarrow> bool" where
  "typed_update (Upd_finish i st at r) = attempt_closed st"
| "typed_update _ = True"

lemma update_evolves: "session_ok s \<Longrightarrow> typed_update u \<Longrightarrow> apply_update s u = Inr t \<Longrightarrow> evolved s t"
  by (cases u) (auto dest: transition_evolves begin_evolves finish_evolves)

lemma updates_evolve:
  "session_ok s \<Longrightarrow> list_all typed_update us \<Longrightarrow> apply_updates s us = Inr t \<Longrightarrow>
     session_ok t \<and> session_evolves s t \<and> (us \<noteq> [] \<longrightarrow> es_revision s < es_revision t)"
proof (induction us arbitrary: s)
  case (Cons u us)
  from Cons.prems obtain s' where s': "apply_update s u = Inr s'" "apply_updates s' us = Inr t"
    by (auto simp: bindE_Inr_iff)
  with Cons.prems have e: "evolved s s'" by (auto intro: update_evolves)
  with Cons.IH [of s'] Cons.prems s' have t: "session_ok t" "session_evolves s' t" by (auto simp: evolved_def)
  have "es_revision s' \<le> es_revision t" using t(2) by (auto simp: session_evolves_def)
  then show ?case using e t session_evolves_trans by (auto simp: evolved_def)
qed simp

section \<open>The store under interleaved clients\<close>

type_synonym 'c clients = "'c \<Rightarrow> ExecutionSession option"

text \<open>A client reads a session and keeps it, creates one, or writes back what it computed from the version it
  read, expecting that version's revision.\<close>

inductive store_step :: "'c clients \<times> session_store \<Rightarrow> 'c clients \<times> session_store \<Rightarrow> bool" where
  read: "store_step (h, st) (h(c := getSession i st), st)"
| create: "session_ok s \<Longrightarrow> store_step (h, st) (h, snd (insertSession s st))"
| save: "h c = Some s \<Longrightarrow> us \<noteq> [] \<Longrightarrow> list_all typed_update us \<Longrightarrow> apply_updates s us = Inr t \<Longrightarrow>
    store_step (h, st) (h, snd (updateSession t (es_revision s) st))"

definition session_key :: "ExecutionSession \<Rightarrow> string" where
  "session_key s = idempotency_key (es_requestedBy s) (es_idempotencyKey s)"

definition session_store_ok :: "'c clients \<times> session_store \<Rightarrow> bool" where
  "session_store_ok w \<longleftrightarrow> (case w of (h, st) \<Rightarrow>
     (\<forall>i s. getSession i st = Some s \<longrightarrow> es_sessionId s = i \<and> session_ok s \<and> map_of (st_keys st) (session_key s) = Some i) \<and>
     (\<forall>k i. map_of (st_keys st) k = Some i \<longrightarrow> (\<exists>s. getSession i st = Some s \<and> session_key s = k)) \<and>
     (\<forall>c s. h c = Some s \<longrightarrow> session_ok s \<and> (\<exists>t. getSession (es_sessionId s) st = Some t \<and> session_evolves s t)))"

lemma held_session_ok:
  assumes "session_store_ok (h, st)" "h c = Some s"
  shows "session_ok s \<and> (\<exists>t. getSession (es_sessionId s) st = Some t \<and> session_evolves s t)"
  using assms unfolding session_store_ok_def prod.case by blast

definition sessions_advance :: "session_store \<Rightarrow> session_store \<Rightarrow> bool" where
  "sessions_advance st st' \<longleftrightarrow> (\<forall>i s. getSession i st = Some s \<longrightarrow>
     (\<exists>t. getSession i st' = Some t \<and> session_evolves s t))"

lemma sessions_advance_trans: "sessions_advance a b \<Longrightarrow> sessions_advance b c \<Longrightarrow> sessions_advance a c"
  unfolding sessions_advance_def by (meson session_evolves_trans)

lemma insertSession_cases:
  obtains (conflict) "insertSession s st = (False, st)"
  | (stored) "getSession (es_sessionId s) st = None" "map_of (st_keys st) (session_key s) = None"
      "fst (insertSession s st)" "st_keys (snd (insertSession s st)) = map_set (session_key s) (es_sessionId s) (st_keys st)"
      "\<And>i. getSession i (snd (insertSession s st)) = (if i = es_sessionId s then Some s else getSession i st)"
proof (cases "getSession (es_sessionId s) st \<noteq> None \<or> map_of (st_keys st) (session_key s) \<noteq> None")
  case True
  then show ?thesis by (intro conflict) (auto simp: insertSession_def session_key_def Let_def)
next
  case False
  then show ?thesis
    by (intro stored) (auto simp: insertSession_def session_key_def Let_def getSession_def AList.update_conv')
qed

lemma create_ok:
  assumes ok: "session_store_ok (h, st)" and s: "session_ok s"
  shows "session_store_ok (h, snd (insertSession s st)) \<and> sessions_advance st (snd (insertSession s st))"
proof (cases rule: insertSession_cases [of s st])
  case conflict
  then show ?thesis using ok by (auto simp: sessions_advance_def)
next
  case stored
  let ?t = "snd (insertSession s st)"
  have keys: "map_of (st_keys ?t) k = (if k = session_key s then Some (es_sessionId s) else map_of (st_keys st) k)" for k
    by (simp add: stored AList.update_conv')
  have adv: "sessions_advance st ?t" using stored(1,5) by (auto simp: sessions_advance_def)
  have "session_store_ok (h, ?t)"
    unfolding session_store_ok_def prod.case keys stored(5)
  proof (intro conjI allI impI)
    fix i u
    assume u: "(if i = es_sessionId s then Some s else getSession i st) = Some u"
    show "es_sessionId u = i" "session_ok u"
      using u ok s by (auto simp: session_store_ok_def split: if_splits)
    show "(if session_key u = session_key s then Some (es_sessionId s) else map_of (st_keys st) (session_key u)) = Some i"
      using u ok stored(2) by (cases "i = es_sessionId s") (fastforce simp: session_store_ok_def)+
  next
    fix k i
    assume "(if k = session_key s then Some (es_sessionId s) else map_of (st_keys st) k) = Some i"
    then show "\<exists>u. (if i = es_sessionId s then Some s else getSession i st) = Some u \<and> session_key u = k"
      using ok stored(1) by (cases "k = session_key s") (fastforce simp: session_store_ok_def)+
  next
    fix c u
    assume u: "h c = Some u"
    note held = held_session_ok [OF ok u]
    from held show "session_ok u" by blast
    from held obtain t where "getSession (es_sessionId u) st = Some t" "session_evolves u t" by blast
    with stored(1) show "\<exists>t. (if es_sessionId u = es_sessionId s then Some s else getSession (es_sessionId u) st) = Some t \<and>
        session_evolves u t" by auto
  qed
  with adv show ?thesis by blast
qed

lemma save_ok:
  assumes ok: "session_store_ok (h, st)" and c: "h c = Some s" and us: "us \<noteq> []" "list_all typed_update us"
    and t: "apply_updates s us = Inr t"
  shows "session_store_ok (h, snd (updateSession t (es_revision s) st)) \<and> sessions_advance st (snd (updateSession t (es_revision s) st))"
proof -
  let ?st = "snd (updateSession t (es_revision s) st)"
  from ok c obtain cur where s: "session_ok s" and cur: "getSession (es_sessionId s) st = Some cur" "session_evolves s cur"
    using held_session_ok [of h st c s] by blast
  from updates_evolve [OF s us(2) t] us(1) have t': "session_ok t" "session_evolves s t" by auto
  have ids: "es_sessionId t = es_sessionId s" "session_key t = session_key s"
    using session_evolves_id [OF t'(2)] by (simp_all add: session_key_def)
  show ?thesis
  proof (cases "es_revision cur = es_revision s")
    case False
    then have "?st = st" using cur ids by (simp add: updateSession_def)
    then show ?thesis using ok by (auto simp: sessions_advance_def)
  next
    case True
    with cur(2) have same: "cur = s" by (auto simp: session_evolves_def)
    have get: "getSession i ?st = (if i = es_sessionId s then Some t else getSession i st)"
      and keys: "st_keys ?st = st_keys st" for i
      using cur True ids by (auto simp: updateSession_def getSession_def AList.update_conv')
    have adv: "sessions_advance st ?st" using t'(2) cur same by (auto simp: sessions_advance_def get)
    have "session_store_ok (h, ?st)"
      unfolding session_store_ok_def prod.case get keys
    proof (intro conjI allI impI)
      fix i u
      assume u: "(if i = es_sessionId s then Some t else getSession i st) = Some u"
      have stored: "es_sessionId v = j \<and> session_ok v \<and> map_of (st_keys st) (session_key v) = Some j"
        if "getSession j st = Some v" for j v
        using ok that unfolding session_store_ok_def prod.case by blast
      have "es_sessionId u = i \<and> session_ok u \<and> map_of (st_keys st) (session_key u) = Some i"
      proof (cases "i = es_sessionId s")
        case True
        then have "u = t" using u by simp
        with True t'(1) ids stored [OF cur(1)] same show ?thesis by simp
      next
        case False
        with u stored show ?thesis by simp
      qed
      then show "es_sessionId u = i" "session_ok u" "map_of (st_keys st) (session_key u) = Some i" by blast+
    next
      fix k i
      assume "map_of (st_keys st) k = Some i"
      with ok obtain u where "getSession i st = Some u" "session_key u = k" unfolding session_store_ok_def prod.case by blast
      then show "\<exists>u. (if i = es_sessionId s then Some t else getSession i st) = Some u \<and> session_key u = k"
        using ids cur(1) same by auto
    next
      fix d u
      assume u: "h d = Some u"
      note held = held_session_ok [OF ok u]
      from held show "session_ok u" by blast
      from held obtain v where "getSession (es_sessionId u) st = Some v" "session_evolves u v" by blast
      with cur(1) same t'(2) show "\<exists>v. (if es_sessionId u = es_sessionId s then Some t else getSession (es_sessionId u) st) = Some v \<and>
          session_evolves u v" by (auto intro: session_evolves_trans)
    qed
    with adv show ?thesis by blast
  qed
qed

lemma store_step_ok:
  assumes "store_step w w'" "session_store_ok w"
  shows "session_store_ok w' \<and> sessions_advance (snd w) (snd w')"
  using assms
proof (cases rule: store_step.cases)
  case (read h st c i)
  then show ?thesis using assms(2) by (fastforce simp: session_store_ok_def sessions_advance_def)
next
  case (create s h st)
  then show ?thesis using create_ok assms(2) by simp
next
  case (save h c s us t st)
  then show ?thesis using save_ok assms(2) by simp
qed

lemma store_history:
  assumes "store_step\<^sup>*\<^sup>* w w'" "session_store_ok w"
  shows "session_store_ok w' \<and> sessions_advance (snd w) (snd w')"
  using assms
proof (induction rule: rtranclp_induct)
  case base
  then show ?case by (auto simp: sessions_advance_def)
next
  case (step v u)
  then show ?case using store_step_ok sessions_advance_trans by blast
qed

end
