(* ===== verification/Utf.thy ===== *)
theory Utf
  imports Prelude "HOL-Library.Word"
begin

text \<open>
  JavaScript strings as sequences of UTF-16 code units, and the conversions of Node's \<open>Buffer\<close>:
  \<open>Buffer.from(text, "utf8")\<close> and \<open>toString("utf8")\<close>, both with U+FFFD for what is not well formed, as
  the Encoding Standard has it. Bytes and code points are natural numbers within the bounds proved below.
\<close>

section \<open>UTF-16\<close>

type_synonym units = "16 word list"

definition replacement :: nat where
  "replacement = 0xFFFD"

definition high_surrogate :: "16 word \<Rightarrow> bool" where
  "high_surrogate u \<longleftrightarrow> 0xD800 \<le> unat u \<and> unat u \<le> 0xDBFF"

definition low_surrogate :: "16 word \<Rightarrow> bool" where
  "low_surrogate u \<longleftrightarrow> 0xDC00 \<le> unat u \<and> unat u \<le> 0xDFFF"

text \<open>The scalar values of a text; a surrogate without its partner is replaced.\<close>

fun scalars :: "units \<Rightarrow> nat list" where
  "scalars [] = []"
| "scalars [u] = [if high_surrogate u \<or> low_surrogate u then replacement else unat u]"
| "scalars (u # v # us) =
     (if high_surrogate u \<and> low_surrogate v
      then (0x10000 + (unat u - 0xD800) * 0x400 + (unat v - 0xDC00)) # scalars us
      else (if high_surrogate u \<or> low_surrogate u then replacement else unat u) # scalars (v # us))"

definition utf16 :: "nat \<Rightarrow> units" where
  "utf16 c = (if c < 0x10000 then [word_of_nat c]
     else [word_of_nat (0xD800 + (c - 0x10000) div 0x400), word_of_nat (0xDC00 + (c - 0x10000) mod 0x400)])"

definition text_of_scalars :: "nat list \<Rightarrow> units" where
  "text_of_scalars cs = concat (map utf16 cs)"

definition is_scalar :: "nat \<Rightarrow> bool" where
  "is_scalar c \<longleftrightarrow> c < 0xD800 \<or> (0xE000 \<le> c \<and> c < 0x110000)"

lemma unat_unit: "unat (u :: 16 word) < 0x10000"
  using unsigned_less [of u, where 'a = nat] by simp

lemma single_scalar: "is_scalar (if high_surrogate u \<or> low_surrogate u then replacement else unat u)"
  using unat_unit [of u] by (auto simp: is_scalar_def replacement_def high_surrogate_def low_surrogate_def)

lemma pair_scalar:
  assumes "high_surrogate u" "low_surrogate v"
  shows "is_scalar (0x10000 + (unat u - 0xD800) * 0x400 + (unat v - 0xDC00))"
proof -
  have "unat u - 0xD800 \<le> 0x3FF" "unat v - 0xDC00 \<le> 0x3FF"
    using assms by (auto simp: high_surrogate_def low_surrogate_def)
  then show ?thesis by (simp add: is_scalar_def)
qed

lemma scalars_scalar: "c \<in> set (scalars t) \<Longrightarrow> is_scalar c"
proof (induction t rule: scalars.induct)
  case (2 u)
  then show ?case using single_scalar [of u] by simp
next
  case (3 u v us)
  show ?case
  proof (cases "high_surrogate u \<and> low_surrogate v")
    case True
    then show ?thesis using 3 pair_scalar by auto
  next
    case False
    then show ?thesis using 3 single_scalar [of u] by (auto simp del: if_split_asm)
  qed
qed simp

section \<open>UTF-8\<close>

definition utf8_of :: "nat \<Rightarrow> nat list" where
  "utf8_of c = (if c < 0x80 then [c]
     else if c < 0x800 then [0xC0 + c div 0x40, 0x80 + c mod 0x40]
     else if c < 0x10000 then [0xE0 + c div 0x1000, 0x80 + c div 0x40 mod 0x40, 0x80 + c mod 0x40]
     else [0xF0 + c div 0x40000, 0x80 + c div 0x1000 mod 0x40, 0x80 + c div 0x40 mod 0x40, 0x80 + c mod 0x40])"

definition utf8_bytes :: "nat list \<Rightarrow> nat list" where
  "utf8_bytes cs = concat (map utf8_of cs)"

text \<open>\<open>Buffer.from(text, "utf8")\<close>\<close>

definition buffer_from :: "units \<Rightarrow> nat list" where
  "buffer_from t = utf8_bytes (scalars t)"

text \<open>How many bytes a lead byte asks for, the bounds of the first of them, and the bits it brings.\<close>

definition utf8_lead :: "nat \<Rightarrow> (nat \<times> nat \<times> nat \<times> nat) option" where
  "utf8_lead b = (if 0xC2 \<le> b \<and> b \<le> 0xDF then Some (1, 0x80, 0xBF, b - 0xC0)
     else if 0xE0 \<le> b \<and> b \<le> 0xEF
     then Some (2, if b = 0xE0 then 0xA0 else 0x80, if b = 0xED then 0x9F else 0xBF, b - 0xE0)
     else if 0xF0 \<le> b \<and> b \<le> 0xF4
     then Some (3, if b = 0xF0 then 0x90 else 0x80, if b = 0xF4 then 0x8F else 0xBF, b - 0xF0)
     else None)"

text \<open>The bytes that complete a sequence, or where it breaks off.\<close>

fun utf8_tail :: "nat \<Rightarrow> nat \<Rightarrow> nat \<Rightarrow> nat \<Rightarrow> nat list \<Rightarrow> nat option \<times> nat list" where
  "utf8_tail 0 lo hi c bs = (Some c, bs)"
| "utf8_tail (Suc k) lo hi c [] = (None, [])"
| "utf8_tail (Suc k) lo hi c (b # bs) =
     (if lo \<le> b \<and> b \<le> hi then utf8_tail k 0x80 0xBF (c * 0x40 + (b - 0x80)) bs else (None, b # bs))"

lemma utf8_tail_length: "length (snd (utf8_tail k lo hi c bs)) \<le> length bs"
  by (induction k lo hi c bs rule: utf8_tail.induct) auto

function utf8_decode :: "nat list \<Rightarrow> nat list" where
  "utf8_decode [] = []"
| "utf8_decode (b # bs) = (if b < 0x80 then b # utf8_decode bs
     else (case utf8_lead b of None \<Rightarrow> replacement # utf8_decode bs
       | Some (k, lo, hi, c) \<Rightarrow> (case fst (utf8_tail k lo hi c bs) of None \<Rightarrow> replacement | Some d \<Rightarrow> d) #
           utf8_decode (snd (utf8_tail k lo hi c bs))))"
  by pat_completeness auto
termination
  by (relation "measure length") (auto simp: less_Suc_eq_le utf8_tail_length)

text \<open>\<open>buffer.toString("utf8")\<close>\<close>

definition buffer_text :: "nat list \<Rightarrow> units" where
  "buffer_text bs = text_of_scalars (utf8_decode bs)"

section \<open>Round trip\<close>

lemma utf8_of_pos [simp]: "utf8_of c \<noteq> []" "0 < length (utf8_of c)"
  by (simp_all add: utf8_of_def)

lemma utf8_of_byte: "is_scalar c \<Longrightarrow> b \<in> set (utf8_of c) \<Longrightarrow> b < 0x100"
  by (auto simp: utf8_of_def is_scalar_def split: if_splits)

text \<open>The digits of a code point to the base 64.\<close>

lemma sextets:
  fixes c :: nat
  shows "c = (c div 0x1000) * 0x1000 + (c div 0x40 mod 0x40) * 0x40 + c mod 0x40"
    and "c div 0x1000 = (c div 0x40000) * 0x40 + c div 0x1000 mod 0x40"
proof -
  have "c div 0x1000 = c div 0x40 div 0x40" "c div 0x40000 = c div 0x1000 div 0x40"
    by (simp_all add: div_mult2_eq [symmetric])
  then show "c = (c div 0x1000) * 0x1000 + (c div 0x40 mod 0x40) * 0x40 + c mod 0x40"
    "c div 0x1000 = (c div 0x40000) * 0x40 + c div 0x1000 mod 0x40"
    using div_mult_mod_eq [of c "0x40"] div_mult_mod_eq [of "c div 0x40" "0x40"]
      div_mult_mod_eq [of "c div 0x1000" "0x40"] by linarith+
qed

text \<open>The four lengths of an encoding, with the lead byte read back.\<close>

lemma utf8_of_cases:
  assumes "is_scalar c"
  obtains (one) "utf8_of c = [c]" "c < 0x80"
  | (two) a b where "utf8_of c = [0xC0 + a, 0x80 + b]" "b < 0x40" "c = a * 0x40 + b"
      "utf8_lead (0xC0 + a) = Some (1, 0x80, 0xBF, a)" "\<not> 0xC0 + a < 0x80"
  | (three) a b d lo hi where "utf8_of c = [0xE0 + a, 0x80 + b, 0x80 + d]" "b < 0x40" "d < 0x40"
      "c = (a * 0x40 + b) * 0x40 + d" "utf8_lead (0xE0 + a) = Some (2, lo, hi, a)" "lo \<le> 0x80 + b" "0x80 + b \<le> hi"
      "\<not> 0xE0 + a < 0x80"
  | (four) a b d e lo hi where "utf8_of c = [0xF0 + a, 0x80 + b, 0x80 + d, 0x80 + e]" "b < 0x40" "d < 0x40" "e < 0x40"
      "c = ((a * 0x40 + b) * 0x40 + d) * 0x40 + e" "utf8_lead (0xF0 + a) = Some (3, lo, hi, a)" "lo \<le> 0x80 + b"
      "0x80 + b \<le> hi" "\<not> 0xF0 + a < 0x80"
proof -
  have less: "c div 0x40 mod 0x40 < 0x40" "c mod 0x40 < 0x40" "c div 0x1000 mod 0x40 < 0x40" by simp_all
  have max: "c < 0x110000" using assms by (auto simp: is_scalar_def)
  consider "c < 0x80" | "0x80 \<le> c" "c < 0x800" | "0x800 \<le> c" "c < 0x10000" | "0x10000 \<le> c" "c < 0x110000"
    using max not_le by metis
  then show thesis
  proof cases
    case 1
    then show thesis by (intro one) (simp_all add: utf8_of_def)
  next
    case 2
    have "c = (c div 0x40) * 0x40 + c mod 0x40" by simp
    then have "2 \<le> c div 0x40" "c div 0x40 \<le> 0x1F" using 2 less(2) by linarith+
    with 2 show thesis by (intro two [of "c div 0x40" "c mod 0x40"]) (simp_all add: utf8_of_def utf8_lead_def)
  next
    case 3
    define a b d where abd: "a = c div 0x1000" "b = c div 0x40 mod 0x40" "d = c mod 0x40"
    have c: "c = a * 0x1000 + b * 0x40 + d" and small: "b < 0x40" "d < 0x40"
      unfolding abd by (rule sextets) simp_all
    have a: "a \<le> 0xF" using 3 c by linarith
    have lo: "a = 0 \<Longrightarrow> 0x20 \<le> b" using 3 c small by linarith
    have hi: "a = 0xD \<Longrightarrow> b < 0x20" using assms c small by (auto simp: is_scalar_def)
    have "utf8_of c = [0xE0 + a, 0x80 + b, 0x80 + d]" using 3 by (simp add: utf8_of_def abd)
    with a lo hi small c show thesis
      by (intro three [of a b d "if a = 0 then 0xA0 else 0x80" "if a = 0xD then 0x9F else 0xBF"])
        (auto simp: utf8_lead_def)
  next
    case 4
    define a b d e where abde: "a = c div 0x40000" "b = c div 0x1000 mod 0x40" "d = c div 0x40 mod 0x40" "e = c mod 0x40"
    have c: "c = a * 0x40000 + b * 0x1000 + d * 0x40 + e" and small: "b < 0x40" "d < 0x40" "e < 0x40"
      using sextets [of c] unfolding abde by (linarith, simp_all)
    have a: "a \<le> 4" using 4 c by linarith
    have lo: "a = 0 \<Longrightarrow> 0x10 \<le> b" using 4 c small by linarith
    have hi: "a = 4 \<Longrightarrow> b < 0x10" using 4 c small by linarith
    have "utf8_of c = [0xF0 + a, 0x80 + b, 0x80 + d, 0x80 + e]" using 4 by (simp add: utf8_of_def abde)
    with a lo hi small c show thesis
      by (intro four [of a b d e "if a = 0 then 0x90 else 0x80" "if a = 4 then 0x8F else 0xBF"])
        (auto simp: utf8_lead_def)
  qed
qed

lemma tail_steps [simp]:
  "utf8_tail 1 lo hi c (b # bs) = (if lo \<le> b \<and> b \<le> hi then (Some (c * 0x40 + (b - 0x80)), bs) else (None, b # bs))"
  "utf8_tail 2 lo hi c (b # bs) =
     (if lo \<le> b \<and> b \<le> hi then utf8_tail 1 0x80 0xBF (c * 0x40 + (b - 0x80)) bs else (None, b # bs))"
  "utf8_tail 3 lo hi c (b # bs) =
     (if lo \<le> b \<and> b \<le> hi then utf8_tail 2 0x80 0xBF (c * 0x40 + (b - 0x80)) bs else (None, b # bs))"
  "utf8_tail 1 lo hi c [] = (None, [])" "utf8_tail 2 lo hi c [] = (None, [])" "utf8_tail 3 lo hi c [] = (None, [])"
  by (simp_all add: numeral_2_eq_2 numeral_3_eq_3)

lemma decode_of:
  assumes "is_scalar c"
  shows "utf8_decode (utf8_of c @ bs) = c # utf8_decode bs"
  using assms by (cases rule: utf8_of_cases) (simp_all del: One_nat_def)

lemma decode_broken:
  assumes "is_scalar c" "0 < k" "k < length (utf8_of c)"
  shows "utf8_decode (take k (utf8_of c)) = [replacement]"
  using assms(1)
proof (cases rule: utf8_of_cases)
  case (three a b d lo hi)
  then have "k = 1 \<or> k = 2" using assms(2,3) by auto
  then show ?thesis using three by (auto simp: numeral_2_eq_2 numeral_3_eq_3)
next
  case (four a b d e lo hi)
  then have "k = 1 \<or> k = 2 \<or> k = 3" using assms(2,3) by auto
  then show ?thesis using four by (auto simp: numeral_2_eq_2 numeral_3_eq_3)
qed (use assms(2,3) in \<open>auto simp: less_Suc_eq\<close>)

lemma utf8_bytes_simps [simp]:
  "utf8_bytes [] = []" "utf8_bytes (c # cs) = utf8_of c @ utf8_bytes cs" "utf8_bytes (cs @ ds) = utf8_bytes cs @ utf8_bytes ds"
  by (simp_all add: utf8_bytes_def)

lemma text_of_scalars_simps [simp]:
  "text_of_scalars [] = []" "text_of_scalars (c # cs) = utf16 c @ text_of_scalars cs"
  "text_of_scalars (cs @ ds) = text_of_scalars cs @ text_of_scalars ds"
  by (simp_all add: text_of_scalars_def)

lemma decode_bytes: "(\<And>c. c \<in> set cs \<Longrightarrow> is_scalar c) \<Longrightarrow> utf8_decode (utf8_bytes cs) = cs"
  by (induction cs) (simp_all add: decode_of)

text \<open>\<open>String.prototype.toWellFormed\<close>: what a text is after its bytes are read back.\<close>

definition well_formed :: "units \<Rightarrow> units" where
  "well_formed t = text_of_scalars (scalars t)"

lemma buffer_round_trip: "buffer_text (buffer_from t) = well_formed t"
  unfolding buffer_text_def buffer_from_def well_formed_def by (simp add: decode_bytes scalars_scalar)

section \<open>Reading a prefix of the bytes\<close>

text \<open>The characters that fit are read back, and one replacement follows where the cut falls inside another.\<close>

lemma decode_take:
  assumes "\<And>c. c \<in> set cs \<Longrightarrow> is_scalar c"
  shows "\<exists>j \<le> length cs. (utf8_decode (take k (utf8_bytes cs)) = take j cs \<and>
        length (utf8_bytes (take j cs)) = min k (length (utf8_bytes cs))) \<or>
      (utf8_decode (take k (utf8_bytes cs)) = take j cs @ [replacement] \<and> j < length cs \<and>
        length (utf8_bytes (take j cs)) < k \<and> k < length (utf8_bytes (take (Suc j) cs)))"
  using assms
proof (induction cs arbitrary: k)
  case Nil
  then show ?case by simp
next
  case (Cons c cs)
  have c: "is_scalar c" using Cons.prems by simp
  show ?case
  proof (cases "k < length (utf8_of c)")
    case True
    then have cut: "take k (utf8_bytes (c # cs)) = take k (utf8_of c)" by simp
    show ?thesis
    proof (cases "k = 0")
      case True
      then show ?thesis by (intro exI [of _ 0]) simp
    next
      case False
      then show ?thesis unfolding cut using True decode_broken [OF c, of k]
        by (intro exI [of _ 0]) simp
    qed
  next
    case False
    define l where "l = k - length (utf8_of c)"
    have k: "k = length (utf8_of c) + l" using False by (simp add: l_def)
    have cut: "utf8_decode (take k (utf8_bytes (c # cs))) = c # utf8_decode (take l (utf8_bytes cs))"
      using decode_of [OF c] by (simp add: k)
    obtain j where j: "j \<le> length cs"
      "(utf8_decode (take l (utf8_bytes cs)) = take j cs \<and> length (utf8_bytes (take j cs)) = min l (length (utf8_bytes cs))) \<or>
       (utf8_decode (take l (utf8_bytes cs)) = take j cs @ [replacement] \<and> j < length cs \<and>
        length (utf8_bytes (take j cs)) < l \<and> l < length (utf8_bytes (take (Suc j) cs)))"
      using Cons.IH [of l] Cons.prems by fastforce
    then show ?thesis unfolding cut by (intro exI [of _ "Suc j"]) (auto simp: k)
  qed
qed

section \<open>Units and scalar values\<close>

lemma unat_unit_of_nat [simp]: "a < 0x10000 \<Longrightarrow> unat (word_of_nat a :: 16 word) = a"
  by (simp add: unat_of_nat)

lemma unit_eq_iff: "a < 0x10000 \<Longrightarrow> b < 0x10000 \<Longrightarrow> (word_of_nat a :: 16 word) = word_of_nat b \<longleftrightarrow> a = b"
  by (metis unat_unit_of_nat)

lemma utf16_not_Nil [simp]: "utf16 c \<noteq> []"
  by (simp add: utf16_def)

lemma utf16_last: "is_scalar c \<Longrightarrow> last (utf16 c) = word_of_nat replacement \<longleftrightarrow> c = replacement"
proof (cases "c < 0x10000")
  case True
  then show ?thesis using unit_eq_iff [of c replacement] by (simp add: utf16_def replacement_def)
next
  case False
  have low: "0xDC00 + (c - 0x10000) mod 0x400 < 0xE000"
    using mod_less_divisor [of "0x400" "c - 0x10000"] by linarith
  then show ?thesis using False unit_eq_iff [of "0xDC00 + (c - 0x10000) mod 0x400" replacement]
    by (simp add: utf16_def replacement_def)
qed

lemma text_last:
  assumes "is_scalar c"
  shows "last (text_of_scalars (cs @ [c])) = word_of_nat replacement \<longleftrightarrow> c = replacement"
    "butlast (text_of_scalars (cs @ [replacement])) = text_of_scalars cs"
  using utf16_last [OF assms] by (simp_all add: butlast_append) (simp add: utf16_def replacement_def)

lemma scalars_units: "length (well_formed t) = length t \<and>
    (\<forall>i < length t. well_formed t ! i = t ! i \<or>
       (well_formed t ! i = word_of_nat replacement \<and> (high_surrogate (t ! i) \<or> low_surrogate (t ! i))))"
  unfolding well_formed_def
proof (induction t rule: scalars.induct)
  case (2 u)
  then show ?case using unat_unit [of u] by (auto simp: utf16_def replacement_def)
next
  case (3 u v us)
  show ?case
  proof (cases "high_surrogate u \<and> low_surrogate v")
    case True
    define x y where xy: "x = unat u - 0xD800" "y = unat v - 0xDC00"
    have y: "y < 0x400" "unat u = 0xD800 + x" "unat v = 0xDC00 + y"
      using True by (auto simp: xy high_surrogate_def low_surrogate_def)
    then have "utf16 (0x10000 + x * 0x400 + y) = [word_of_nat (unat u), word_of_nat (unat v)]"
      by (simp add: utf16_def)
    then have "text_of_scalars (scalars (u # v # us)) = u # v # text_of_scalars (scalars us)"
      using True by (simp add: xy)
    then show ?thesis using 3(1) [OF True] by (simp add: nth_Cons split: nat.split)
  next
    case False
    have "utf16 (if high_surrogate u \<or> low_surrogate u then replacement else unat u) =
        [if high_surrogate u \<or> low_surrogate u then word_of_nat replacement else u]"
      using unat_unit [of u] by (simp add: utf16_def replacement_def)
    then have "text_of_scalars (scalars (u # v # us)) =
        (if high_surrogate u \<or> low_surrogate u then word_of_nat replacement else u) # text_of_scalars (scalars (v # us))"
      by (simp only: scalars.simps if_not_P [OF False] text_of_scalars_simps append_Cons append_Nil)
    then show ?thesis using 3(2) [OF False] by (simp add: nth_Cons split: nat.split)
  qed
qed simp

lemma scalars_utf16: "is_scalar c \<Longrightarrow> scalars (utf16 c @ t) = c # scalars t"
proof (cases "c < 0x10000")
  case True
  assume "is_scalar c"
  with True have "\<not> high_surrogate (word_of_nat c)" "\<not> low_surrogate (word_of_nat c)" "utf16 c = [word_of_nat c]"
    by (auto simp: is_scalar_def high_surrogate_def low_surrogate_def utf16_def)
  with True show ?thesis by (cases t) simp_all
next
  case False
  assume "is_scalar c"
  define x y where xy: "x = (c - 0x10000) div 0x400" "y = (c - 0x10000) mod 0x400"
  have "c - 0x10000 = x * 0x400 + y" "y < 0x400" unfolding xy by simp_all
  then have c: "c = 0x10000 + x * 0x400 + y" "y < 0x400" using False by linarith+
  then have "x < 0x400" using \<open>is_scalar c\<close> by (simp add: is_scalar_def)
  then have "high_surrogate (word_of_nat (0xD800 + x))" "low_surrogate (word_of_nat (0xDC00 + y))"
    using c(2) by (simp_all add: high_surrogate_def low_surrogate_def del: of_nat_add)
  moreover have "utf16 c = [word_of_nat (0xD800 + x), word_of_nat (0xDC00 + y)]" using False by (simp add: utf16_def xy)
  ultimately show ?thesis using \<open>x < 0x400\<close> c by (simp del: of_nat_add)
qed

lemma scalars_text: "(\<And>c. c \<in> set cs \<Longrightarrow> is_scalar c) \<Longrightarrow> scalars (text_of_scalars cs) = cs"
  by (induction cs) (simp_all add: scalars_utf16)

text \<open>ASCII text in a sequence of units: what is not ASCII is one character outside of it.\<close>

definition ascii_view :: "16 word \<Rightarrow> char" where
  "ascii_view u = (if unat u < 0x80 then char_of (unat u) else CHR 0x80)"

definition unit_of :: "char \<Rightarrow> 16 word" where
  "unit_of c = word_of_nat (of_char c)"

lemma ascii_view_unit: "(of_char c :: nat) < 0x80 \<Longrightarrow> ascii_view (unit_of c) = c"
  by (simp add: ascii_view_def unit_of_def)

lemma ascii_well_formed: "map ascii_view (well_formed t) = map ascii_view t"
proof (rule nth_equalityI)
  fix i assume "i < length (map ascii_view (well_formed t))"
  then have i: "i < length t" using scalars_units [of t] by simp
  then have "ascii_view (well_formed t ! i) = ascii_view (t ! i)"
    using scalars_units [of t]
    by (auto simp: ascii_view_def replacement_def high_surrogate_def low_surrogate_def)
  then show "map ascii_view (well_formed t) ! i = map ascii_view t ! i" using i scalars_units [of t] by simp
qed (use scalars_units [of t] in simp)

end
