(* ===== verification/Exec_Receipts.thy ===== *)
theory Exec_Receipts
  imports Exec_Sessions Exec_Operations Exec_Plans Utf
begin

text \<open>
  \<open>core/execution/execution-receipts.ts\<close>: redaction of known secret shapes, bounded output, and the
  append-only store of receipts. \<open>KNOWN_SECRET_VALUE_PATTERN\<close> of \<open>contracts/execution.ts\<close> is the
  function \<open>secret_at\<close>: the length of the match its alternatives have at the start of a text. Its classes are
  ASCII, so redaction is written once for texts of any units with a \<open>view\<close> of them as characters: the texts of
  receipts are strings, output is a sequence of UTF-16 units seen through \<open>ascii_view\<close>.
\<close>

section \<open>Redaction\<close>

definition secret_char :: "char \<Rightarrow> bool" where
  "secret_char c \<longleftrightarrow> alnum c \<or> c = CHR ''_'' \<or> c = CHR ''-''"

definition dash_char :: "char \<Rightarrow> bool" where
  "dash_char c \<longleftrightarrow> alnum c \<or> c = CHR ''-''"

definition upper_digit :: "char \<Rightarrow> bool" where
  "upper_digit c \<longleftrightarrow> upper_char c \<or> dec_digit c"

definition upper_space :: "char \<Rightarrow> bool" where
  "upper_space c \<longleftrightarrow> upper_char c \<or> c = CHR '' ''"

text \<open>A fixed prefix followed by at least \<open>n\<close> characters of a class, as many as there are.\<close>

definition run_after :: "string \<Rightarrow> (char \<Rightarrow> bool) \<Rightarrow> nat \<Rightarrow> string \<Rightarrow> nat option" where
  "run_after pre cls n t = (if js_startsWith t pre
     then let r = length (takeWhile cls (drop (length pre) t)) in if n \<le> r then Some (length pre + r) else None
     else None)"

text \<open>\<open>-----BEGIN [A-Z ]+PRIVATE KEY-----\<close>: the class cannot match a dash, so the run is maximal.\<close>

definition pem_at :: "string \<Rightarrow> nat option" where
  "pem_at t = (if js_startsWith t ''-----BEGIN ''
     then let r = takeWhile upper_space (drop 11 t) in
       if js_endsWith r ''PRIVATE KEY'' \<and> 11 < length r \<and> js_startsWith (drop (11 + length r) t) ''-----''
       then Some (16 + length r) else None
     else None)"

definition slack_at :: "string \<Rightarrow> nat option" where
  "slack_at t = (if js_startsWith t ''xox'' \<and> 4 < length t \<and> t ! 3 \<in> set ''baprs'' \<and> t ! 4 = CHR ''-''
     then let r = length (takeWhile dash_char (drop 5 t)) in if 10 \<le> r then Some (5 + r) else None
     else None)"

fun first_some :: "'a option list \<Rightarrow> 'a option" where
  "first_some [] = None"
| "first_some (Some x # xs) = Some x"
| "first_some (None # xs) = first_some xs"

definition secret_at :: "string \<Rightarrow> nat option" where
  "secret_at t = first_some [run_after ''sk-'' secret_char 12 t, run_after ''ghp_'' alnum 16 t, slack_at t,
     run_after ''AKIA'' upper_digit 12 t, pem_at t]"

lemma first_some_None [simp]: "first_some xs = None \<longleftrightarrow> set xs \<subseteq> {None}"
  by (induction xs rule: first_some.induct) auto

lemma first_some_Some: "first_some xs = Some x \<Longrightarrow> Some x \<in> set xs"
  by (induction xs rule: first_some.induct) auto

definition REDACTED_VALUE :: string where
  "REDACTED_VALUE = ''[redacted]''"

lemma run_after_pos: "run_after p cls k t = Some n \<Longrightarrow> p \<noteq> [] \<Longrightarrow> 0 < n"
  by (cases p) (auto simp: run_after_def Let_def split: if_splits)

lemma guarded_Some: "(if b then x else None) = Some n \<longleftrightarrow> b \<and> x = Some n"
  by simp

lemma slack_at_pos: "slack_at t = Some n \<Longrightarrow> 0 < n"
  unfolding slack_at_def Let_def guarded_Some option.inject by linarith

lemma pem_at_pos: "pem_at t = Some n \<Longrightarrow> 0 < n"
  unfolding pem_at_def Let_def guarded_Some option.inject by linarith

lemma secret_at_pos: "secret_at t = Some n \<Longrightarrow> 0 < n"
proof -
  assume "secret_at t = Some n"
  then have "Some n \<in> set [run_after ''sk-'' secret_char 12 t, run_after ''ghp_'' alnum 16 t, slack_at t,
     run_after ''AKIA'' upper_digit 12 t, pem_at t]"
    unfolding secret_at_def by (rule first_some_Some)
  then consider "run_after ''sk-'' secret_char 12 t = Some n" | "run_after ''ghp_'' alnum 16 t = Some n"
    | "slack_at t = Some n" | "run_after ''AKIA'' upper_digit 12 t = Some n" | "pem_at t = Some n"
    unfolding list.set insert_iff empty_iff by metis
  then show ?thesis
    by cases (blast dest: run_after_pos slack_at_pos pem_at_pos)+
qed

text \<open>\<open>text.replace(pattern, ...)\<close> with the global flag: leftmost matches, each replaced once by \<open>mark\<close>.\<close>

function replace_secrets :: "('c \<Rightarrow> char) \<Rightarrow> 'c list \<Rightarrow> 'c list \<Rightarrow> 'c list \<times> nat" where
  "replace_secrets view mark t = (case t of [] \<Rightarrow> ([], 0)
     | c # cs \<Rightarrow> (case secret_at (map view t) of
         None \<Rightarrow> (case replace_secrets view mark cs of (u, k) \<Rightarrow> (c # u, k))
       | Some n \<Rightarrow> (case replace_secrets view mark (drop n t) of (u, k) \<Rightarrow> (mark @ u, Suc k))))"
  by pat_completeness auto
termination by (relation "measure (\<lambda>(view, mark, t). length t)") (auto dest: secret_at_pos)

declare replace_secrets.simps [simp del]

text \<open>\<open>out.split(secret)\<close> on a non-empty separator.\<close>

function split_on :: "'c list \<Rightarrow> 'c list \<Rightarrow> 'c list list" where
  "split_on sep t = (case t of [] \<Rightarrow> [[]]
     | c # cs \<Rightarrow> if sep \<noteq> [] \<and> take (length sep) t = sep then [] # split_on sep (drop (length sep) t)
         else (case split_on sep cs of [] \<Rightarrow> [[c]] | x # xs \<Rightarrow> (c # x) # xs))"
  by pat_completeness auto
termination by (relation "measure (length \<circ> snd)") auto

declare split_on.simps [simp del]

fun join_parts :: "'c list \<Rightarrow> 'c list list \<Rightarrow> 'c list" where
  "join_parts mark [] = []"
| "join_parts mark [x] = x"
| "join_parts mark (x # y # zs) = x @ mark @ join_parts mark (y # zs)"

definition redact_known :: "'c list \<Rightarrow> 'c list \<times> nat \<Rightarrow> 'c list \<Rightarrow> 'c list \<times> nat" where
  "redact_known mark acc secret = (if length secret < 4 then acc
     else let parts = split_on secret (fst acc) in
       if length parts > 1 then (join_parts mark parts, snd acc + (length parts - 1)) else acc)"

definition redact_with :: "('c \<Rightarrow> char) \<Rightarrow> 'c list \<Rightarrow> 'c list \<Rightarrow> 'c list list \<Rightarrow> 'c list \<times> nat" where
  "redact_with view mark t known = foldl (redact_known mark) (replace_secrets view mark t) known"

definition redactSecrets :: "string \<Rightarrow> string list \<Rightarrow> string \<times> nat" where
  "redactSecrets = redact_with id REDACTED_VALUE"

definition redactUnits :: "units \<Rightarrow> units list \<Rightarrow> units \<times> nat" where
  "redactUnits = redact_with ascii_view (map unit_of REDACTED_VALUE)"

section \<open>Bounded output\<close>

record BoundedOutput =
  bo_text :: units
  bo_truncated :: bool
  bo_originalBytes :: nat
  bo_redactions :: nat

text \<open>\<open>bytes.subarray(0, n)\<close>: a negative end counts from the end of the bytes.\<close>

definition subarray :: "'a list \<Rightarrow> int \<Rightarrow> 'a list" where
  "subarray bs n = take (nat (if n < 0 then int (length bs) + n else n)) bs"

text \<open>\<open>if (cut.endsWith("\uFFFD")) cut = cut.slice(0, -1)\<close>\<close>

definition drop_replacement :: "units \<Rightarrow> units" where
  "drop_replacement t = (if t \<noteq> [] \<and> last t = word_of_nat replacement then butlast t else t)"

definition boundOutput :: "units \<Rightarrow> int \<Rightarrow> units list \<Rightarrow> BoundedOutput" where
  "boundOutput t maxBytes known = (case redactUnits t known of (clean, k) \<Rightarrow>
     let bytes = buffer_from clean in
     if int (length bytes) \<le> maxBytes
     then \<lparr>bo_text = clean, bo_truncated = False, bo_originalBytes = length bytes, bo_redactions = k\<rparr>
     else \<lparr>bo_text = drop_replacement (buffer_text (subarray bytes maxBytes)), bo_truncated = True,
       bo_originalBytes = length bytes, bo_redactions = k\<rparr>)"

datatype LogSeverity = Log_debug | Log_info | Log_warning | Log_error

record ExecutionLogEntry =
  le_sessionId :: string
  le_attemptId :: "string option"
  le_toolId :: "string option"
  le_timestamp :: string
  le_severity :: LogSeverity
  le_message :: units
  le_truncated :: bool

definition createLogEntry :: "string \<Rightarrow> string option \<Rightarrow> string option \<Rightarrow> string \<Rightarrow> LogSeverity \<Rightarrow> units \<Rightarrow> int option \<Rightarrow>
    units list \<Rightarrow> ExecutionLogEntry" where
  "createLogEntry sessionId attemptId toolId at severity message' maxBytes known =
     (let bounded = boundOutput message' (or_else maxBytes 2048) known in
      \<lparr>le_sessionId = sessionId, le_attemptId = non_empty attemptId, le_toolId = non_empty toolId,
       le_timestamp = at, le_severity = severity, le_message = bo_text bounded, le_truncated = bo_truncated bounded\<rparr>)"

section \<open>Receipts\<close>

text \<open>
  A receipt is the object it is in the code: its fields, with every value as it came. \<open>scrub\<close> rewrites every
  text in it, whatever the field, and counts what it redacted; freezing and copying are the identity on values.
\<close>

fun scrub :: "string list \<Rightarrow> json \<Rightarrow> json \<times> nat" where
  "scrub known (JStr t) = (case redactSecrets t known of (u, k) \<Rightarrow> (JStr u, k))"
| "scrub known (JArr vs) = (let rs = map (scrub known) vs in (JArr (map fst rs), sum_list (map snd rs)))"
| "scrub known (JObj fs) = (let rs = map (\<lambda>(k, v). (k, scrub known v)) fs in
     (JObj (map (\<lambda>(k, r). (k, fst r)) rs), sum_list (map (\<lambda>(k, r). snd r) rs)))"
| "scrub known v = (v, 0)"

fun is_boolean :: "json \<Rightarrow> bool" where
  "is_boolean (JBool b) = True"
| "is_boolean v = False"

text \<open>\<open>Date.parse\<close> is the parameter \<open>parse\<close>; a comparison with \<open>NaN\<close> (\<open>None\<close>) is false.\<close>

fun parsed :: "(string \<Rightarrow> int option) \<Rightarrow> json \<Rightarrow> int option" where
  "parsed parse (JStr t) = parse t"
| "parsed parse v = None"

definition precedes :: "(string \<Rightarrow> int option) \<Rightarrow> json \<Rightarrow> json \<Rightarrow> bool" where
  "precedes parse a b = (case (parsed parse a, parsed parse b) of (Some x, Some y) \<Rightarrow> x < y | _ \<Rightarrow> False)"

fun object_fields :: "json \<Rightarrow> fields" where
  "object_fields (JObj fs) = fs"
| "object_fields v = []"

definition createExecutionReceipt :: "(string \<Rightarrow> int option) \<Rightarrow> fields \<Rightarrow> string list \<Rightarrow> fields res" where
  "createExecutionReceipt parse input known =
     (if \<not> is_boolean (js_get input ''simulated'')
      then Inl (ValidationError ''receipt.simulated must be stated explicitly'')
      else if precedes parse (js_get input ''endedAt'') (js_get input ''startedAt'')
      then Inl (ValidationError ''receipt.endedAt precedes startedAt'')
      else let (clean, redactedValues) = scrub known (JObj input) in
        Inr (spread (object_fields clean)
          [(''redaction'', JObj [(''applied'', JBool True), (''redactedValues'', JNum (int redactedValues))])]))"

text \<open>The store, by the receipt's id.\<close>

type_synonym receipt_store = "(json \<times> fields) list"

fun receipt_key :: "json \<Rightarrow> string" where
  "receipt_key (JStr t) = t"
| "receipt_key v = []"

definition recordReceipt :: "fields \<Rightarrow> (receipt_store, fields) op" where
  "recordReceipt r st = (let i = js_get r ''receiptId'' in if map_of st i \<noteq> None
     then (Inl (ValidationError (''receipt '' @ receipt_key i @ '' already exists; receipts are immutable'')), st)
     else (Inr r, map_set i r st))"

definition getReceipt :: "string \<Rightarrow> receipt_store \<Rightarrow> fields option" where
  "getReceipt i st = map_of st (JStr i)"

definition receiptsForSession :: "string \<Rightarrow> receipt_store \<Rightarrow> fields list" where
  "receiptsForSession sid st = filter (\<lambda>r. js_get r ''sessionId'' = JStr sid) (map snd st)"

end
