(* ===== verification/Exec_Redaction.thy ===== *)
theory Exec_Redaction
  imports Exec_Receipts
begin

text \<open>
  Redaction is complete: what it returns has no known secret shape at any position, also after the text
  is cut to its bound, and the bound holds.
\<close>

section \<open>Matches and extensions\<close>

lemma starts_append: "js_startsWith t p \<Longrightarrow> js_startsWith (t @ u) p"
  by (auto simp: js_startsWith_iff)

lemma starts_before:
  assumes "js_startsWith (w @ c # z) p" "c \<notin> set p"
  shows "js_startsWith w p"
proof -
  from assms(1) obtain t where t: "w @ c # z = p @ t" by (auto simp: js_startsWith_iff)
  have "length p \<le> length w"
  proof (rule ccontr)
    assume "\<not> length p \<le> length w"
    then have "(w @ c # z) ! length w \<in> set p" unfolding t by (simp add: nth_append)
    with assms(2) show False by simp
  qed
  with t show ?thesis by (auto simp: js_startsWith_iff append_eq_append_conv2)
qed

lemma run_extend: "length (takeWhile cls s) \<le> length (takeWhile cls (s @ u))"
  by (induction s) auto

lemma run_before: "\<not> cls c \<Longrightarrow> takeWhile cls (w @ c # z) = takeWhile cls w"
  by (induction w) auto

lemma starts_length: "js_startsWith w p \<Longrightarrow> length p \<le> length w"
  by (auto simp: js_startsWith_iff)

lemma drop_starts: "js_startsWith w p \<Longrightarrow> drop (length p) (w @ u) = drop (length p) w @ u"
  by (auto simp: js_startsWith_iff)

lemma run_after_iff: "run_after p cls n t \<noteq> None \<longleftrightarrow>
    js_startsWith t p \<and> n \<le> length (takeWhile cls (drop (length p) t))"
  by (simp add: run_after_def Let_def)

lemma run_after_extend: "run_after p cls n t \<noteq> None \<Longrightarrow> run_after p cls n (t @ u) \<noteq> None"
  unfolding run_after_iff
  using run_extend [of cls "drop (length p) t" u] starts_append [of t p u] drop_starts [of t p u] by auto

lemma run_after_before:
  assumes "c \<notin> set p" "\<not> cls c" "run_after p cls n (w @ c # z) \<noteq> None"
  shows "run_after p cls n w \<noteq> None"
proof -
  have t: "js_startsWith (w @ c # z) p" "n \<le> length (takeWhile cls (drop (length p) (w @ c # z)))"
    using assms(3) unfolding run_after_iff by auto
  have st: "js_startsWith w p" using t(1) assms(1) by (rule starts_before)
  have "takeWhile cls (drop (length p) (w @ c # z)) = takeWhile cls (drop (length p) w)"
    unfolding drop_starts [OF st] using assms(2) by (rule run_before)
  with t(2) st show ?thesis unfolding run_after_iff by simp
qed

lemma slack_extend:
  assumes "slack_at t \<noteq> None"
  shows "slack_at (t @ u) \<noteq> None"
proof -
  have t: "js_startsWith t ''xox''" "4 < length t" "t ! 3 \<in> set ''baprs''" "t ! 4 = CHR ''-''"
      "10 \<le> length (takeWhile dash_char (drop 5 t))"
    using assms by (auto simp: slack_at_def Let_def split: if_splits)
  have "10 \<le> length (takeWhile dash_char (drop 5 (t @ u)))"
    using t(2,5) run_extend [of dash_char "drop 5 t" u] by simp
  then show ?thesis using t starts_append [OF t(1), of u] by (simp add: slack_at_def nth_append Let_def)
qed

lemma not_class: "\<not> secret_char (CHR ''['')" "\<not> alnum (CHR ''['')" "\<not> dash_char (CHR ''['')"
    "\<not> upper_digit (CHR ''['')" "\<not> upper_space (CHR ''['')"
  by (simp_all add: secret_char_def alnum_def dash_char_def upper_digit_def upper_space_def upper_char_def dec_digit_def
    ascii_letter_char_def code_unit_def)

lemma slack_before:
  assumes "slack_at (w @ CHR ''['' # z) \<noteq> None"
  shows "slack_at w \<noteq> None"
proof -
  let ?t = "w @ CHR ''['' # z"
  have t: "js_startsWith ?t ''xox''" "4 < length ?t" "?t ! 3 \<in> set ''baprs''" "?t ! 4 = CHR ''-''"
      "10 \<le> length (takeWhile dash_char (drop 5 ?t))"
    using assms by (auto simp: slack_at_def Let_def split: if_splits)
  have w: "js_startsWith w ''xox''" using starts_before [OF t(1)] by simp
  then have "3 \<le> length w" by (auto simp: js_startsWith_iff)
  moreover have "length w \<noteq> 3" "length w \<noteq> 4"
    using t(3,4) by (auto simp: nth_append)
  ultimately have len: "4 < length w" by linarith
  then have "takeWhile dash_char (drop 5 ?t) = takeWhile dash_char (drop 5 w)"
    using not_class(3) by (simp add: run_before)
  with t w len show ?thesis by (simp add: slack_at_def nth_append Let_def)
qed

lemma run_fixed: "r = takeWhile cls s \<Longrightarrow> drop (length r) s = y # ys \<Longrightarrow> takeWhile cls (s @ u) = r"
proof -
  assume r: "r = takeWhile cls s" and rest: "drop (length r) s = y # ys"
  have "s = takeWhile cls s @ drop (length (takeWhile cls s)) s"
    by (simp add: dropWhile_eq_drop [symmetric])
  then have s: "s = r @ y # ys" using r rest by simp
  have "\<not> cls y"
  proof -
    have "dropWhile cls s = y # ys" using rest r by (simp add: dropWhile_eq_drop)
    then show ?thesis by (auto simp: dropWhile_eq_Cons_conv)
  qed
  moreover have "\<forall>x \<in> set r. cls x" using r by (auto dest: set_takeWhileD)
  ultimately show ?thesis unfolding s by (simp add: takeWhile_append)
qed

lemma pem_extend:
  assumes "pem_at t \<noteq> None"
  shows "pem_at (t @ u) \<noteq> None"
proof -
  define s where "s = drop 11 t"
  define r where "r = takeWhile upper_space s"
  have t: "js_startsWith t ''-----BEGIN ''" "js_endsWith r ''PRIVATE KEY''" "11 < length r"
      "js_startsWith (drop (11 + length r) t) ''-----''"
    using assms by (auto simp: pem_at_def Let_def s_def r_def split: if_splits)
  have after: "drop (length r) s = drop (11 + length r) t" by (simp add: s_def add.commute)
  then obtain y ys where rest: "drop (length r) s = y # ys"
    using t(4) by (cases "drop (11 + length r) t") auto
  have run: "takeWhile upper_space (s @ u) = r" using r_def rest by (rule run_fixed)
  have drop1: "drop 11 (t @ u) = s @ u"
    using starts_length [OF t(1)] by (simp add: s_def)
  have "drop (11 + length r) (t @ u) = drop (length r) (drop 11 (t @ u))"
    unfolding drop_drop by (simp only: add.commute)
  also have "\<dots> = drop (length r) s @ u" unfolding drop1 using rest by (cases "length r \<le> length s") auto
  finally have "js_startsWith (drop (11 + length r) (t @ u)) ''-----''"
    using t(4) after starts_append by metis
  then show ?thesis
    using t(1-3) run drop1 starts_append [OF t(1), of u] by (simp add: pem_at_def Let_def)
qed

lemma pem_before:
  assumes "pem_at (w @ CHR ''['' # z) \<noteq> None"
  shows "pem_at w \<noteq> None"
proof -
  let ?t = "w @ CHR ''['' # z"
  define r where "r = takeWhile upper_space (drop 11 ?t)"
  have t: "js_startsWith ?t ''-----BEGIN ''" "js_endsWith r ''PRIVATE KEY''" "11 < length r"
      "js_startsWith (drop (11 + length r) ?t) ''-----''"
    using assms by (auto simp: pem_at_def Let_def r_def split: if_splits)
  have w: "js_startsWith w ''-----BEGIN ''" using starts_before [OF t(1)] by simp
  then have d: "drop 11 ?t = drop 11 w @ CHR ''['' # z" using starts_length [OF w] by simp
  have r: "r = takeWhile upper_space (drop 11 w)" unfolding r_def d by (rule run_before [where cls = upper_space, OF not_class(5)])
  have len: "length r \<le> length (drop 11 w)" unfolding r by (rule length_takeWhile_le)
  have "drop (11 + length r) ?t = drop (length r) (drop 11 ?t)" unfolding drop_drop by (simp only: add.commute)
  also have "\<dots> = drop (length r) (drop 11 w) @ CHR ''['' # z" unfolding d using len by simp
  finally have "drop (11 + length r) ?t = drop (length r) (drop 11 w) @ CHR ''['' # z" .
  then have "js_startsWith (drop (length r) (drop 11 w)) ''-----''"
    using t(4) starts_before [of "drop (length r) (drop 11 w)" "CHR ''[''" z "''-----''"] by simp
  then show ?thesis using w t(2,3) r by (simp add: pem_at_def Let_def add.commute)
qed

lemma secret_Some: "secret_at t \<noteq> None \<longleftrightarrow> run_after ''sk-'' secret_char 12 t \<noteq> None \<or> run_after ''ghp_'' alnum 16 t \<noteq> None \<or>
    slack_at t \<noteq> None \<or> run_after ''AKIA'' upper_digit 12 t \<noteq> None \<or> pem_at t \<noteq> None"
  by (auto simp: secret_at_def)

lemma secret_extend: "secret_at t \<noteq> None \<Longrightarrow> secret_at (t @ u) \<noteq> None"
  unfolding secret_Some using run_after_extend slack_extend pem_extend by blast

lemma secret_before: "secret_at (w @ CHR ''['' # z) \<noteq> None \<Longrightarrow> secret_at w \<noteq> None"
  unfolding secret_Some
  using run_after_before [of "CHR ''[''" "''sk-''" secret_char 12 w z, OF _ not_class(1)]
    run_after_before [of "CHR ''[''" "''ghp_''" alnum 16 w z, OF _ not_class(2)]
    run_after_before [of "CHR ''[''" "''AKIA''" upper_digit 12 w z, OF _ not_class(4)]
    slack_before [of w z] pem_before [of w z]
  by (elim disjE) (simp_all only: list.set insert_iff empty_iff char.inject simp_thms)

lemma secret_head: "c \<notin> set ''sgxA-'' \<Longrightarrow> secret_at (c # t) = None"
  by (simp add: secret_at_def run_after_def slack_at_def pem_at_def)

section \<open>Completeness\<close>

definition no_secret :: "string \<Rightarrow> bool" where
  "no_secret t \<longleftrightarrow> (\<forall>k. secret_at (drop k t) = None)"

lemma no_secret_Nil [simp]: "no_secret []"
  by (simp add: no_secret_def secret_at_def run_after_def slack_at_def pem_at_def)

lemma no_secret_Cons: "no_secret (c # t) \<longleftrightarrow> secret_at (c # t) = None \<and> no_secret t"
proof
  assume n: "no_secret (c # t)"
  then have "secret_at (drop (Suc k) (c # t)) = None" for k unfolding no_secret_def by blast
  then show "secret_at (c # t) = None \<and> no_secret t"
    using n unfolding no_secret_def by (metis drop0 drop_Suc_Cons)
next
  assume n: "secret_at (c # t) = None \<and> no_secret t"
  show "no_secret (c # t)"
    unfolding no_secret_def
  proof
    fix k
    show "secret_at (drop k (c # t)) = None"
      using n by (cases k) (auto simp: no_secret_def)
  qed
qed

lemma no_secret_redacted: "no_secret t \<Longrightarrow> no_secret (REDACTED_VALUE @ t)"
  by (simp add: REDACTED_VALUE_def no_secret_Cons secret_head)

lemma no_secret_prefix: "no_secret (t @ u) \<Longrightarrow> no_secret t"
proof (induction t)
  case (Cons c t)
  then have n: "secret_at (c # t @ u) = None" "no_secret (t @ u)" by (simp_all add: no_secret_Cons)
  have "secret_at (c # t) = None"
    using secret_extend [of "c # t" u] n(1) by (metis append_Cons)
  then show ?case using Cons.IH n(2) by (simp add: no_secret_Cons)
qed simp

lemma no_secret_drop: "no_secret t \<Longrightarrow> no_secret (drop n t)"
  by (simp add: no_secret_def)

lemma no_secret_takeI: "no_secret t \<Longrightarrow> no_secret (take n t)"
  using no_secret_prefix [of "take n t" "drop n t"] by simp

text \<open>A piece followed by the marker has no shape it did not have.\<close>

lemma no_secret_before_marker: "no_secret p \<Longrightarrow> no_secret u \<Longrightarrow> no_secret (p @ REDACTED_VALUE @ u)"
proof (induction p)
  case (Cons c p)
  then have n: "secret_at (c # p) = None" "no_secret p" by (simp_all add: no_secret_Cons)
  have "secret_at ((c # p) @ CHR ''['' # (''redacted]'' @ u)) = None"
    using secret_before n(1) by blast
  then show ?case using Cons n(2) by (simp add: no_secret_Cons REDACTED_VALUE_def)
qed (simp add: no_secret_redacted)

lemma replace_step:
  "replace_secrets view mark [] = ([], 0)"
  "replace_secrets view mark (c # cs) = (case secret_at (map view (c # cs)) of
      None \<Rightarrow> (case replace_secrets view mark cs of (u, k) \<Rightarrow> (c # u, k))
    | Some n \<Rightarrow> (case replace_secrets view mark (drop n (c # cs)) of (u, k) \<Rightarrow> (mark @ u, Suc k)))"
  by (simp_all add: replace_secrets.simps [of view mark "[]"] replace_secrets.simps [of view mark "c # cs"])

lemma split_step:
  "split_on sep [] = [[]]"
  "split_on sep (c # cs) = (if sep \<noteq> [] \<and> take (length sep) (c # cs) = sep
     then [] # split_on sep (drop (length sep) (c # cs))
     else (case split_on sep cs of [] \<Rightarrow> [[c]] | x # xs \<Rightarrow> (c # x) # xs))"
  by (simp_all add: split_on.simps [of sep "[]"] split_on.simps [of sep "c # cs"])

lemma split_absent: "sep \<noteq> [] \<Longrightarrow> \<not> sublist sep t \<Longrightarrow> split_on sep t = [t]"
proof (induction t)
  case (Cons c cs)
  then have "\<not> sublist sep cs" by (meson sublist_Cons_right)
  moreover have "take (length sep) (c # cs) \<noteq> sep"
    using Cons.prems(2) by (metis sublist_take)
  ultimately show ?case using Cons by (simp add: split_step)
qed (simp add: split_step)

text \<open>A text without a known form and without any known secret of four units or more.\<close>

definition harmless :: "('c \<Rightarrow> char) \<Rightarrow> 'c list list \<Rightarrow> 'c list \<Rightarrow> bool" where
  "harmless view known t \<longleftrightarrow> no_secret (map view t) \<and> (\<forall>k \<in> set known. 4 \<le> length k \<longrightarrow> \<not> sublist k t)"

text \<open>What redaction relies on of a view: it shows the marker as it is.\<close>

locale text_view =
  fixes view :: "'c \<Rightarrow> char" and mark :: "'c list"
  assumes marked: "map view mark = REDACTED_VALUE"
begin

lemma replaced_shape:
  "map view (fst (replace_secrets view mark t)) = map view t \<or>
     (\<exists>w y z. map view t = w @ y \<and> map view (fst (replace_secrets view mark t)) = w @ CHR ''['' # z)"
proof (induction t rule: measure_induct_rule [where f = length])
  case (less t)
  show ?case
  proof (cases t)
    case Nil
    then show ?thesis by (simp add: replace_step)
  next
    case (Cons c cs)
    show ?thesis
    proof (cases "secret_at (map view t)")
      case None
      have run: "fst (replace_secrets view mark t) = c # fst (replace_secrets view mark cs)"
        using Cons None by (simp add: replace_step split: prod.split)
      have "length cs < length t" using Cons by simp
      from less [OF this] show ?thesis
      proof
        assume "map view (fst (replace_secrets view mark cs)) = map view cs"
        then show ?thesis using run Cons by simp
      next
        assume "\<exists>w y z. map view cs = w @ y \<and> map view (fst (replace_secrets view mark cs)) = w @ CHR ''['' # z"
        then obtain w y z where "map view t = (view c # w) @ y"
            "map view (fst (replace_secrets view mark t)) = (view c # w) @ CHR ''['' # z"
          using run Cons by auto
        then show ?thesis by blast
      qed
    next
      case (Some n)
      then have "map view (fst (replace_secrets view mark t)) =
          CHR ''['' # (''redacted]'' @ map view (fst (replace_secrets view mark (drop n t))))"
        using Cons marked by (simp add: replace_step REDACTED_VALUE_def split: prod.split)
      then show ?thesis by (metis append_Nil)
    qed
  qed
qed

lemma kept_no_secret:
  assumes "secret_at (map view (c # cs)) = None"
  shows "secret_at (view c # map view (fst (replace_secrets view mark cs))) = None"
  using replaced_shape [of cs]
proof (elim disjE exE conjE)
  fix w y z
  assume cs: "map view cs = w @ y" and u: "map view (fst (replace_secrets view mark cs)) = w @ CHR ''['' # z"
  show ?thesis
  proof (rule ccontr)
    assume "secret_at (view c # map view (fst (replace_secrets view mark cs))) \<noteq> None"
    then have "secret_at (view c # w) \<noteq> None" using secret_before [of "view c # w" z] u by simp
    then have "secret_at ((view c # w) @ y) \<noteq> None" by (rule secret_extend)
    with assms cs show False by simp
  qed
qed (use assms in simp)

lemma replaced_no_secret: "no_secret (map view (fst (replace_secrets view mark t)))"
proof (induction t rule: measure_induct_rule [where f = length])
  case (less t)
  show ?case
  proof (cases t)
    case Nil
    then show ?thesis by (simp add: replace_step)
  next
    case (Cons c cs)
    show ?thesis
    proof (cases "secret_at (map view t)")
      case None
      then have "fst (replace_secrets view mark t) = c # fst (replace_secrets view mark cs)"
        using Cons by (simp add: replace_step split: prod.splits)
      moreover have "no_secret (map view (fst (replace_secrets view mark cs)))" using less Cons by simp
      ultimately show ?thesis using kept_no_secret [of c cs] None Cons by (simp add: no_secret_Cons)
    next
      case (Some n)
      then have "map view (fst (replace_secrets view mark t)) =
          REDACTED_VALUE @ map view (fst (replace_secrets view mark (drop n t)))"
        using Cons marked by (simp add: replace_step split: prod.splits)
      moreover have "length (drop n t) < length t" using secret_at_pos [OF Some] Cons by simp
      ultimately show ?thesis using less by (simp add: no_secret_redacted)
    qed
  qed
qed

lemma replaced_same: "no_secret (map view t) \<Longrightarrow> replace_secrets view mark t = (t, 0)"
  by (induction t) (simp_all add: replace_step no_secret_Cons)

text \<open>Known secrets: the text is split at them, and the pieces are joined by the marker.\<close>

lemma split_pieces: "no_secret (map view t) \<Longrightarrow>
    \<exists>n x xs. split_on sep t = x # xs \<and> x = take n t \<and> (\<forall>p \<in> set (x # xs). no_secret (map view p))"
proof (induction t rule: measure_induct_rule [where f = length])
  case (less t)
  show ?case
  proof (cases t)
    case Nil
    then show ?thesis by (simp add: split_step)
  next
    case (Cons c cs)
    show ?thesis
    proof (cases "sep \<noteq> [] \<and> take (length sep) t = sep")
      case True
      have "no_secret (map view (drop (length sep) t))"
        using less.prems by (simp add: drop_map [symmetric] no_secret_drop)
      moreover have "length (drop (length sep) t) < length t" using True Cons by simp
      ultimately obtain x xs where "split_on sep (drop (length sep) t) = x # xs"
          "\<forall>p \<in> set (x # xs). no_secret (map view p)"
        using less.IH by blast
      then have "split_on sep t = [] # x # xs" "\<forall>p \<in> set ([] # x # xs). no_secret (map view p)" "[] = take 0 t"
        using True Cons by (simp_all add: split_step)
      then show ?thesis by blast
    next
      case False
      have "no_secret (map view cs)" using less.prems Cons by (simp add: no_secret_Cons)
      then obtain n x xs where
        x: "split_on sep cs = x # xs" "x = take n cs" "\<forall>p \<in> set (x # xs). no_secret (map view p)"
        using less.IH [of cs] Cons by auto
      then have "split_on sep t = (c # x) # xs" "c # x = take (Suc n) t"
        using False Cons by (simp_all add: split_step)
      moreover have "no_secret (map view (take (Suc n) t))"
        using less.prems by (simp add: take_map [symmetric] no_secret_takeI)
      ultimately show ?thesis using x(3) by (metis set_ConsD list.set_intros(2))
    qed
  qed
qed

lemma join_no_secret: "\<forall>p \<in> set ps. no_secret (map view p) \<Longrightarrow> no_secret (map view (join_parts mark ps))"
  using marked by (induction mark ps rule: join_parts.induct) (auto simp: no_secret_before_marker)

lemma known_no_secret: "no_secret (map view (fst acc)) \<Longrightarrow> no_secret (map view (fst (redact_known mark acc k)))"
proof -
  assume n: "no_secret (map view (fst acc))"
  then have "\<forall>p \<in> set (split_on k (fst acc)). no_secret (map view p)" using split_pieces [of "fst acc" k] by fastforce
  then have "no_secret (map view (join_parts mark (split_on k (fst acc))))" by (rule join_no_secret)
  with n show ?thesis by (simp add: redact_known_def Let_def)
qed

lemma redacted_no_secret: "no_secret (map view (fst (redact_with view mark t known)))"
proof -
  have "no_secret (map view (fst acc)) \<Longrightarrow> no_secret (map view (fst (foldl (redact_known mark) acc known)))" for acc
    by (induction known arbitrary: acc) (auto simp: known_no_secret)
  then show ?thesis by (simp add: redact_with_def replaced_no_secret)
qed

text \<open>A text without any of them is left as it is.\<close>

lemma redacted_same: "harmless view known t \<Longrightarrow> redact_with view mark t known = (t, 0)"
proof -
  assume h: "harmless view known t"
  have "foldl (redact_known mark) (t, 0) ks = (t, 0)" if "set ks \<subseteq> set known" for ks
    using that
  proof (induction ks)
    case (Cons k ks)
    have "redact_known mark (t, 0) k = (t, 0)"
    proof (cases "length k < 4")
      case False
      then have "split_on k t = [t]" using h Cons.prems by (intro split_absent) (auto simp: harmless_def)
      then show ?thesis by (simp add: redact_known_def)
    qed (simp add: redact_known_def)
    then show ?case using Cons by simp
  qed simp
  then show ?thesis using h replaced_same by (simp add: redact_with_def harmless_def)
qed

end

interpretation plain: text_view id REDACTED_VALUE
  by unfold_locales simp

interpretation wide: text_view ascii_view "map unit_of REDACTED_VALUE"
  by unfold_locales (simp add: REDACTED_VALUE_def ascii_view_unit)

section \<open>Bounded output\<close>

lemma units_no_secret: "no_secret (map ascii_view (fst (redactUnits t known)))"
  unfolding redactUnits_def by (rule wide.redacted_no_secret)

lemma cut_on_bytes:
  assumes cs: "\<And>c. c \<in> set cs \<Longrightarrow> is_scalar c"
  shows "\<exists>m \<le> length cs. drop_replacement (buffer_text (take k (utf8_bytes cs))) = text_of_scalars (take m cs) \<and>
    length (utf8_bytes (take m cs)) \<le> k \<and>
    (m < length cs \<longrightarrow> k < length (utf8_bytes (take (Suc m) cs)) \<or> cs ! m = replacement)"
proof -
  obtain j where j: "j \<le> length cs"
    and read: "(utf8_decode (take k (utf8_bytes cs)) = take j cs \<and> length (utf8_bytes (take j cs)) = min k (length (utf8_bytes cs))) \<or>
      (utf8_decode (take k (utf8_bytes cs)) = take j cs @ [replacement] \<and> j < length cs \<and>
        length (utf8_bytes (take j cs)) < k \<and> k < length (utf8_bytes (take (Suc j) cs)))"
    using decode_take [OF cs] by blast
  from read show ?thesis
  proof (elim disjE conjE)
    assume dec: "utf8_decode (take k (utf8_bytes cs)) = take j cs @ [replacement]"
      and fit: "length (utf8_bytes (take j cs)) < k" "k < length (utf8_bytes (take (Suc j) cs))"
    have r: "is_scalar replacement" by (simp add: is_scalar_def replacement_def)
    have "drop_replacement (buffer_text (take k (utf8_bytes cs))) = text_of_scalars (take j cs)"
      using text_last [OF r, of "take j cs"] unfolding buffer_text_def dec drop_replacement_def by auto
    then show ?thesis using j fit by (intro exI [of _ j]) simp
  next
    assume dec: "utf8_decode (take k (utf8_bytes cs)) = take j cs"
      and len: "length (utf8_bytes (take j cs)) = min k (length (utf8_bytes cs))"
    have next_fits: "k < length (utf8_bytes (take (Suc j) cs))" if "j < length cs"
    proof -
      have "utf8_bytes cs = utf8_bytes (take (Suc j) cs) @ utf8_bytes (drop (Suc j) cs)"
        by (simp flip: utf8_bytes_simps(3))
      moreover have "utf8_bytes (take (Suc j) cs) = utf8_bytes (take j cs) @ utf8_of (cs ! j)"
        using that by (simp add: take_Suc_conv_app_nth)
      ultimately have "length (utf8_bytes (take j cs)) < length (utf8_bytes cs)"
          "length (utf8_bytes (take j cs)) < length (utf8_bytes (take (Suc j) cs))" by simp_all
      then show ?thesis using len by linarith
    qed
    show ?thesis
    proof (cases "j \<noteq> 0 \<and> cs ! (j - 1) = replacement")
      case True
      then obtain i where i: "j = Suc i" "cs ! i = replacement" by (cases j) auto
      then have take_j: "take j cs = take i cs @ [replacement]" using j by (simp add: take_Suc_conv_app_nth)
      have r: "is_scalar replacement" by (simp add: is_scalar_def replacement_def)
      have "drop_replacement (buffer_text (take k (utf8_bytes cs))) = text_of_scalars (take i cs)"
        using text_last [OF r, of "take i cs"] unfolding buffer_text_def dec take_j drop_replacement_def by auto
      moreover have "length (utf8_bytes (take i cs)) \<le> k" using len unfolding take_j by simp
      ultimately show ?thesis using i j by (intro exI [of _ i]) simp
    next
      case False
      have "drop_replacement (text_of_scalars (take j cs)) = text_of_scalars (take j cs)"
      proof (cases j)
        case (Suc i)
        then have take_j: "take j cs = take i cs @ [cs ! i]" and "is_scalar (cs ! i)"
          using j cs by (simp_all add: take_Suc_conv_app_nth)
        then show ?thesis using text_last(1) [of "cs ! i" "take i cs"] False Suc unfolding drop_replacement_def by auto
      qed (simp add: drop_replacement_def)
      then show ?thesis using j len next_fits unfolding buffer_text_def dec by (intro exI [of _ j]) auto
    qed
  qed
qed

text \<open>The kept text is a prefix of the redacted text, with lone surrogates replaced, and as long as the bound
  allows, but for a replacement character at the cut.\<close>

definition cut_text :: "units \<Rightarrow> int \<Rightarrow> units \<Rightarrow> bool" where
  "cut_text clean n kept \<longleftrightarrow> (\<exists>m \<le> length (scalars clean). kept = text_of_scalars (take m (scalars clean)) \<and>
     (0 \<le> n \<longrightarrow> int (length (buffer_from kept)) \<le> n \<and>
       (m < length (scalars clean) \<longrightarrow> scalars clean ! m = replacement \<or>
          n < int (length (buffer_from (text_of_scalars (take (Suc m) (scalars clean))))))))"

lemma buffer_of_prefix: "buffer_from (text_of_scalars (take m (scalars t))) = utf8_bytes (take m (scalars t))"
  unfolding buffer_from_def by (subst scalars_text) (auto intro: scalars_scalar dest: in_set_takeD)

lemma bounded_cut: "cut_text clean n (drop_replacement (buffer_text (subarray (buffer_from clean) n)))"
proof -
  let ?cs = "scalars clean"
  define k where "k = nat (if n < 0 then int (length (utf8_bytes ?cs)) + n else n)"
  have sc: "is_scalar c" if "c \<in> set ?cs" for c using that by (rule scalars_scalar)
  have cut: "subarray (buffer_from clean) n = take k (utf8_bytes ?cs)"
    by (simp add: subarray_def buffer_from_def k_def)
  obtain m where m: "m \<le> length ?cs" "drop_replacement (buffer_text (take k (utf8_bytes ?cs))) = text_of_scalars (take m ?cs)"
    "length (utf8_bytes (take m ?cs)) \<le> k" "m < length ?cs \<longrightarrow> k < length (utf8_bytes (take (Suc m) ?cs)) \<or> ?cs ! m = replacement"
    using cut_on_bytes [of ?cs k, OF sc] by blast
  have k: "0 \<le> n \<Longrightarrow> int k = n" by (simp add: k_def)
  show ?thesis
    unfolding cut_text_def cut m(2) buffer_of_prefix using m(1,3,4) k by (intro exI [of _ m]) auto
qed

lemma cut_text_prefix: "cut_text clean n kept \<Longrightarrow> \<exists>u. well_formed clean = kept @ u"
  unfolding cut_text_def well_formed_def by (metis append_take_drop_id text_of_scalars_simps(3))

lemma cut_no_secret: "no_secret (map ascii_view clean) \<Longrightarrow> cut_text clean n kept \<Longrightarrow> no_secret (map ascii_view kept)"
  using cut_text_prefix [of clean n kept] ascii_well_formed [of clean] no_secret_prefix by (metis map_append)

lemma boundOutput_eq:
  "boundOutput t n known = (let clean = fst (redactUnits t known); long = n < int (length (buffer_from clean)) in
     \<lparr>bo_text = (if long then drop_replacement (buffer_text (subarray (buffer_from clean) n)) else clean),
      bo_truncated = long, bo_originalBytes = length (buffer_from clean), bo_redactions = snd (redactUnits t known)\<rparr>)"
  by (simp add: boundOutput_def Let_def split: prod.split)

lemma bounded_no_secret: "no_secret (map ascii_view (bo_text (boundOutput t n known)))"
  using units_no_secret cut_no_secret [OF units_no_secret bounded_cut, of t known n] by (simp add: boundOutput_eq Let_def)

section \<open>Receipts\<close>

text \<open>The texts of a value, and the value with each of them rewritten: keys, numbers, booleans and the shape stay.\<close>

fun texts_of :: "json \<Rightarrow> string list" where
  "texts_of (JStr t) = [t]"
| "texts_of (JArr vs) = concat (map texts_of vs)"
| "texts_of (JObj fs) = concat (map (\<lambda>(k, v). texts_of v) fs)"
| "texts_of v = []"

fun map_texts :: "(string \<Rightarrow> string) \<Rightarrow> json \<Rightarrow> json" where
  "map_texts f (JStr t) = JStr (f t)"
| "map_texts f (JArr vs) = JArr (map (map_texts f) vs)"
| "map_texts f (JObj fs) = JObj (map (\<lambda>(k, v). (k, map_texts f v)) fs)"
| "map_texts f v = v"

definition clean_text :: "string list \<Rightarrow> string \<Rightarrow> string" where
  "clean_text known t = fst (redactSecrets t known)"

lemma texts_map_texts: "texts_of (map_texts f v) = map f (texts_of v)"
  by (induction v rule: texts_of.induct) (auto simp: map_concat comp_def split_beta intro!: arg_cong [of _ _ concat])

lemma scrub_texts: "fst (scrub known v) = map_texts (clean_text known) v"
  by (induction known v rule: scrub.induct)
    (auto simp: clean_text_def Let_def split_beta split: prod.split)

lemma sum_list_concat_map: "sum_list (map f (concat xss)) = sum_list (map (\<lambda>xs. sum_list (map f xs)) xss)"
  by (induction xss) simp_all

lemma scrub_count: "snd (scrub known v) = sum_list (map (\<lambda>t. snd (redactSecrets t known)) (texts_of v))"
proof (induction known v rule: scrub.induct)
  case (2 known vs)
  then have "map (\<lambda>v. snd (scrub known v)) vs = map (\<lambda>v. sum_list (map (\<lambda>t. snd (redactSecrets t known)) (texts_of v))) vs"
    by (intro map_cong) simp_all
  then show ?case by (simp add: Let_def sum_list_concat_map comp_def del: map_eq_conv)
next
  case (3 known fs)
  then have "map (\<lambda>x. snd (scrub known (snd x))) fs =
      map (\<lambda>x. sum_list (map (\<lambda>t. snd (redactSecrets t known)) (texts_of (snd x)))) fs"
    by (intro map_cong) (auto simp: split_beta)
  then show ?case by (simp add: Let_def sum_list_concat_map comp_def split_beta del: map_eq_conv)
qed (simp_all split: prod.split)

lemma clean_text_no_secret: "no_secret (clean_text known t)"
  using plain.redacted_no_secret [of t known] by (simp add: clean_text_def redactSecrets_def)

lemma clean_text_same: "harmless id known t \<Longrightarrow> clean_text known t = t"
  by (simp add: clean_text_def redactSecrets_def plain.redacted_same)

lemma js_get_map_texts: "js_get (object_fields (map_texts f (JObj fs))) k = map_texts f (js_get fs k)"
  by (simp add: js_get_def map_of_map split: option.split)

lemma receipt_shape:
  assumes "createExecutionReceipt parse input known = Inr q"
  shows "\<not> precedes parse (js_get input ''endedAt'') (js_get input ''startedAt'') \<and>
    is_boolean (js_get input ''simulated'') \<and>
    q = spread (object_fields (map_texts (clean_text known) (JObj input)))
      [(''redaction'', JObj [(''applied'', JBool True), (''redactedValues'',
         JNum (int (sum_list (map (\<lambda>t. snd (redactSecrets t known)) (texts_of (JObj input))))))])]"
proof -
  have "scrub known (JObj input) = (map_texts (clean_text known) (JObj input),
      sum_list (map (\<lambda>t. snd (redactSecrets t known)) (texts_of (JObj input))))"
    using scrub_texts [of known "JObj input"] scrub_count [of known "JObj input"] by (metis prod.collapse)
  then show ?thesis using assms
    unfolding createExecutionReceipt_def by (auto simp: Let_def split: if_splits simp del: map_texts.simps)
qed

lemma receipt_fields:
  assumes "createExecutionReceipt parse input known = Inr q"
  shows "js_get q ''redaction'' = JObj [(''applied'', JBool True), (''redactedValues'',
         JNum (int (sum_list (map (\<lambda>t. snd (redactSecrets t known)) (texts_of (JObj input))))))]"
    and "k \<noteq> ''redaction'' \<Longrightarrow> js_get q k = map_texts (clean_text known) (js_get input k)"
  using receipt_shape [OF assms] js_get_map_texts [of "clean_text known" input k]
  by (simp_all add: spread_def js_get_def update_conv del: map_texts.simps)

lemma receipt_no_secret:
  assumes "createExecutionReceipt parse input known = Inr q" "t \<in> set (texts_of (JObj q))"
  shows "no_secret t"
proof -
  let ?clean = "object_fields (map_texts (clean_text known) (JObj input))"
  obtain x where q: "q = map_set ''redaction'' x ?clean" and x: "texts_of x = []"
    using receipt_shape [OF assms(1)] by (simp add: spread_def del: map_texts.simps)
  obtain k v where v: "(k, v) \<in> set q" "t \<in> set (texts_of v)" using assms(2) by auto
  have "(k, v) \<in> set ?clean" using v x set_map_set_subset [of "''redaction''" x ?clean] unfolding q by auto
  then have "t \<in> set (texts_of (map_texts (clean_text known) (JObj input)))" using v(2) by force
  then show ?thesis unfolding texts_map_texts by (auto simp: clean_text_no_secret)
qed

end
