(* ===== verification/Exec_Policy_Laws.thy ===== *)
theory Exec_Policy_Laws
  imports Exec_Policy
begin

text \<open>
  Laws of the policy registry and of the evaluation: registered versions never change, a project resolves
  to a registered version, and a verdict without reasons is backed by one rule that grants every
  required capability.
\<close>

section \<open>The registry\<close>

text \<open>Any call on the registry, returning or throwing.\<close>

inductive registry_call :: "policy_registry \<Rightarrow> policy_registry \<Rightarrow> bool" where
  register: "registry_call r (snd (registerPolicy p r))"
| bind: "registry_call r (snd (bindProject projectId i v r))"

definition policies_ok :: "policy_registry \<Rightarrow> bool" where
  "policies_ok r \<longleftrightarrow>
     (\<forall>k p. map_of (reg_policies r) k = Some p \<longrightarrow>
        k = policy_key (pol_policyId p) (pol_version p) \<and> validateExecutionPolicy p = Inr ()) \<and>
     (\<forall>projectId i v. map_of (reg_bindings r) projectId = Some (i, v) \<longrightarrow> getPolicy i v r \<noteq> None)"

lemma registerPolicy_cases:
  obtains (refused) e where "registerPolicy p r = (Inl e, r)"
  | (stored) "validateExecutionPolicy p = Inr ()" "getPolicy (pol_policyId p) (pol_version p) r = None"
      "registerPolicy p r =
         (Inr p, r\<lparr>reg_policies := map_set (policy_key (pol_policyId p) (pol_version p)) p (reg_policies r)\<rparr>)"
proof (cases "validateExecutionPolicy p")
  case (Inl e)
  then have "registerPolicy p r = (Inl e, r)" by (simp add: registerPolicy_def op_simps)
  then show thesis by (rule refused)
next
  case (Inr u)
  then show thesis using refused stored
    by (cases "getPolicy (pol_policyId p) (pol_version p) r") (auto simp: registerPolicy_def op_simps)
qed

lemma bindProject_cases:
  obtains (refused) e where "bindProject projectId i v r = (Inl e, r)"
  | (bound) "getPolicy i v r \<noteq> None"
      "bindProject projectId i v r = (Inr (), r\<lparr>reg_bindings := map_set projectId (i, v) (reg_bindings r)\<rparr>)"
  using that by (cases "getPolicy i v r") (auto simp: bindProject_def op_simps)

lemma registerPolicy_get:
  "getPolicy i v (r\<lparr>reg_policies := map_set (policy_key j w) p (reg_policies r)\<rparr>) =
     (if i = j \<and> v = w then Some p else getPolicy i v r)"
  by (simp add: getPolicy_def policy_key_inj update_conv)

lemma call_keeps:
  assumes "registry_call r r'" "getPolicy i v r = Some p"
  shows "getPolicy i v r' = Some p"
  using assms(1)
proof cases
  case (register q)
  then show ?thesis
    using assms(2) by (cases rule: registerPolicy_cases [of q r]) (auto simp: registerPolicy_get)
next
  case (bind projectId j w)
  then show ?thesis
    using assms(2) by (cases rule: bindProject_cases [of projectId j w r]) (auto simp: getPolicy_def)
qed

lemma call_ok: "registry_call r r' \<Longrightarrow> policies_ok r \<Longrightarrow> policies_ok r'"
proof (induction rule: registry_call.induct)
  case (register r q)
  show ?case
  proof (cases rule: registerPolicy_cases [of q r])
    case stored
    have bound: "getPolicy i v (snd (registerPolicy q r)) \<noteq> None" if "getPolicy i v r \<noteq> None" for i v
      using that call_keeps [OF registry_call.register] by fast
    show ?thesis
      unfolding policies_ok_def
    proof (intro conjI allI impI)
      fix k p
      assume "map_of (reg_policies (snd (registerPolicy q r))) k = Some p"
      then have "k = policy_key (pol_policyId q) (pol_version q) \<and> p = q \<or> map_of (reg_policies r) k = Some p"
        using stored by (auto simp: update_conv split: if_splits)
      then show "k = policy_key (pol_policyId p) (pol_version p)" "validateExecutionPolicy p = Inr ()"
        using stored(1) register unfolding policies_ok_def by auto
    next
      fix projectId i v
      assume "map_of (reg_bindings (snd (registerPolicy q r))) projectId = Some (i, v)"
      then have "map_of (reg_bindings r) projectId = Some (i, v)" using stored by simp
      then have "getPolicy i v r \<noteq> None" using register unfolding policies_ok_def by blast
      then show "getPolicy i v (snd (registerPolicy q r)) \<noteq> None" by (rule bound)
    qed
  qed (use register in simp)
next
  case (bind r projectId i v)
  show ?case
  proof (cases rule: bindProject_cases [of projectId i v r])
    case bound
    then show ?thesis using bind by (auto simp: policies_ok_def getPolicy_def update_conv split: if_splits)
  qed (use bind in simp)
qed

lemma calls_keep:
  "registry_call\<^sup>*\<^sup>* r r' \<Longrightarrow> getPolicy i v r = Some p \<Longrightarrow> getPolicy i v r' = Some p"
  by (induction rule: rtranclp_induct) (auto dest: call_keeps)

lemma calls_ok: "registry_call\<^sup>*\<^sup>* r r' \<Longrightarrow> policies_ok r \<Longrightarrow> policies_ok r'"
  by (induction rule: rtranclp_induct) (auto dest: call_ok)

lemma found_policy:
  "policies_ok r \<Longrightarrow> getPolicy i v r = Some p \<Longrightarrow>
     pol_policyId p = i \<and> pol_version p = v \<and> validateExecutionPolicy p = Inr ()"
  unfolding policies_ok_def getPolicy_def by (metis policy_key_inj)

lemma forProject_found:
  "policies_ok r \<Longrightarrow> getPolicy (fst (reg_fallback r)) (snd (reg_fallback r)) r \<noteq> None \<Longrightarrow> forProject projectId r \<noteq> None"
  unfolding policies_ok_def forProject_def by (cases "map_of (reg_bindings r) projectId") (auto split: prod.splits)

section \<open>Verdicts\<close>

lemma policy_reasons_none:
  "policy_reasons p op = [] \<longleftrightarrow> set (od_required op) \<inter> set (pol_forbidden p) = {} \<and>
     riskAtLeast (pol_maxRisk p) (od_risk op) \<and> (\<exists>r \<in> set (pol_rules p). grants_all r op)"
proof -
  have "filter (\<lambda>c. c \<in> set (pol_forbidden p)) (od_required op) = [] \<longleftrightarrow>
      set (od_required op) \<inter> set (pol_forbidden p) = {}" by (auto simp: filter_empty_conv)
  moreover have "js_find (\<lambda>r. grants_all r op) (pol_rules p) = None \<longleftrightarrow>
      \<not> (\<exists>r \<in> set (pol_rules p). grants_all r op)" by (auto simp: js_find_None)
  ultimately show ?thesis by (auto simp: policy_reasons_def Let_def)
qed

lemma granting_rule: "js_find (\<lambda>r. grants_all r op) rs = Some r \<Longrightarrow> r \<in> set rs \<and> grants_all r op"
  by (auto dest: js_find_Some)

lemma granted_by_rule:
  assumes "c \<in> set (pe_capabilities (evaluatePolicy p op))"
  shows "policy_reasons p op = [] \<and> c \<notin> set (pol_forbidden p) \<and>
    (\<exists>r \<in> set (pol_rules p). pe_rule (evaluatePolicy p op) = Some r \<and> grants_all r op \<and> c \<in> set (pr_capabilities r))"
proof -
  have reasons: "policy_reasons p op = []"
    using assms by (auto simp: evaluatePolicy_def Let_def split: if_splits)
  then have clean: "set (od_required op) \<inter> set (pol_forbidden p) = {}"
    and "\<exists>r \<in> set (pol_rules p). grants_all r op" by (simp_all add: policy_reasons_none)
  then obtain r where r: "js_find (\<lambda>r. grants_all r op) (pol_rules p) = Some r"
    by (metis js_find_None option.exhaust)
  then have in_rule: "r \<in> set (pol_rules p)" "grants_all r op" using granting_rule by blast+
  have "c \<in> set (od_required op) \<or> c \<in> set (pr_capabilities r) \<and> c \<notin> set (pol_forbidden p)"
    using assms reasons r by (auto simp: evaluatePolicy_def Let_def optional_capabilities_def)
  then have "c \<in> set (pr_capabilities r)" "c \<notin> set (pol_forbidden p)"
    using clean in_rule(2) by (auto simp: grants_all_def)
  moreover have "pe_rule (evaluatePolicy p op) = Some r" using r by (simp add: evaluatePolicy_def Let_def)
  ultimately show ?thesis using reasons in_rule by blast
qed

section \<open>Limits\<close>

lemma tighten_entries_le:
  "out k = Some b \<Longrightarrow> \<exists>c. tighten_entries out es k = Some c \<and> c \<le> b"
proof (induction out es arbitrary: b rule: tighten_entries.induct)
  case (2 out l v es)
  let ?out = "out(l := Some (case out l of None \<Rightarrow> v | Some c \<Rightarrow> min c v))"
  obtain b' where "?out k = Some b'" "b' \<le> b" using 2(2) by (cases "l = k") auto
  with 2(1) obtain c where "tighten_entries ?out es k = Some c" "c \<le> b'" by blast
  with \<open>b' \<le> b\<close> show ?case by simp
qed simp

lemma tighten_entries_override:
  "(k, v) \<in> set es \<Longrightarrow> \<exists>c. tighten_entries out es k = Some c \<and> c \<le> v"
proof (induction out es rule: tighten_entries.induct)
  case (2 out l w es)
  let ?out = "out(l := Some (case out l of None \<Rightarrow> w | Some c \<Rightarrow> min c w))"
  show ?case
  proof (cases "(k, v) = (l, w)")
    case True
    then obtain b where "?out k = Some b" "b \<le> v" by (cases "out l") auto
    moreover from this(1) obtain c where "tighten_entries ?out es k = Some c" "c \<le> b"
      using tighten_entries_le by blast
    ultimately show ?thesis by simp
  next
    case False
    with 2(2) have "(k, v) \<in> set es" by auto
    then show ?thesis using 2(1) by (simp only: tighten_entries.simps)
  qed
qed simp

lemma tightened:
  "base k = Some b \<Longrightarrow> \<exists>c. tightenLimits base ov k = Some c \<and> c \<le> b"
  using tighten_entries_le [of base k b] by (cases ov) (auto simp: tightenLimits_def)

section \<open>The evaluation\<close>

lemma evaluation_rule:
  assumes "policy_reasons p op = []"
  obtains r where "r \<in> set (pol_rules p)" "grants_all r op" "pe_rule (evaluatePolicy p op) = Some r"
    "js_find (\<lambda>r. grants_all r op) (pol_rules p) = Some r"
proof -
  obtain r where r: "js_find (\<lambda>r. grants_all r op) (pol_rules p) = Some r"
    using assms by (metis policy_reasons_none js_find_None option.exhaust)
  moreover have "pe_rule (evaluatePolicy p op) = Some r" using r by (simp add: evaluatePolicy_def Let_def)
  ultimately show thesis using granting_rule [OF r] that by blast
qed

lemma evaluation_capabilities:
  assumes "policy_reasons p op = []" "js_find (\<lambda>r. grants_all r op) (pol_rules p) = Some r"
  shows "set (pe_capabilities (evaluatePolicy p op)) = set (od_required op) \<union>
    {c \<in> set (opt_list (od_optional op)). c \<in> set (pr_capabilities r) \<and> c \<notin> set (pol_forbidden p)}"
  using assms by (auto simp: evaluatePolicy_def Let_def optional_capabilities_def opt_list_def split: option.splits)

lemma evaluation_limits:
  "pol_limits p k = Some b \<Longrightarrow> \<exists>c. pe_limits (evaluatePolicy p op) k = Some c \<and> c \<le> b"
  "pe_rule (evaluatePolicy p op) = Some r \<Longrightarrow> (k, v) \<in> set (opt_list (pr_limits r)) \<Longrightarrow>
     \<exists>c. pe_limits (evaluatePolicy p op) k = Some c \<and> c \<le> v"
proof -
  assume "pol_limits p k = Some b"
  then show "\<exists>c. pe_limits (evaluatePolicy p op) k = Some c \<and> c \<le> b"
    using tightened [of "pol_limits p" k b] by (simp add: evaluatePolicy_def Let_def)
next
  assume r: "pe_rule (evaluatePolicy p op) = Some r" and e: "(k, v) \<in> set (opt_list (pr_limits r))"
  then obtain es where es: "pr_limits r = Some es" "(k, v) \<in> set es" by (cases "pr_limits r") (auto simp: opt_list_def)
  moreover have "pe_limits (evaluatePolicy p op) = tightenLimits (pol_limits p) (pr_limits r)"
    using r by (simp add: evaluatePolicy_def Let_def)
  ultimately show "\<exists>c. pe_limits (evaluatePolicy p op) k = Some c \<and> c \<le> v"
    using tighten_entries_override [OF es(2), of "pol_limits p"] by (simp add: tightenLimits_def)
qed

lemma evaluation_exact:
  "(pe_reasons (evaluatePolicy p op) = [] \<longleftrightarrow> set (od_required op) \<inter> set (pol_forbidden p) = {} \<and>
      riskAtLeast (pol_maxRisk p) (od_risk op) \<and> (\<exists>r \<in> set (pol_rules p). grants_all r op)) \<and>
   (pe_reasons (evaluatePolicy p op) \<noteq> [] \<longrightarrow> pe_capabilities (evaluatePolicy p op) = []) \<and>
   (pe_reasons (evaluatePolicy p op) = [] \<longrightarrow> (\<exists>r \<in> set (pol_rules p). pe_rule (evaluatePolicy p op) = Some r \<and>
      grants_all r op \<and> set (pe_capabilities (evaluatePolicy p op)) = set (od_required op) \<union>
        {c \<in> set (opt_list (od_optional op)). c \<in> set (pr_capabilities r) \<and> c \<notin> set (pol_forbidden p)})) \<and>
   (\<forall>k b. pol_limits p k = Some b \<longrightarrow> (\<exists>c. pe_limits (evaluatePolicy p op) k = Some c \<and> c \<le> b)) \<and>
   (\<forall>r k v. pe_rule (evaluatePolicy p op) = Some r \<and> (k, v) \<in> set (opt_list (pr_limits r)) \<longrightarrow>
      (\<exists>c. pe_limits (evaluatePolicy p op) k = Some c \<and> c \<le> v))"
proof -
  have reasons: "pe_reasons (evaluatePolicy p op) = policy_reasons p op" by (simp add: evaluatePolicy_def Let_def)
  have "\<exists>r \<in> set (pol_rules p). pe_rule (evaluatePolicy p op) = Some r \<and>
      grants_all r op \<and> set (pe_capabilities (evaluatePolicy p op)) = set (od_required op) \<union>
        {c \<in> set (opt_list (od_optional op)). c \<in> set (pr_capabilities r) \<and> c \<notin> set (pol_forbidden p)}"
    if none: "policy_reasons p op = []"
    by (rule evaluation_rule [OF none]) (use evaluation_capabilities [OF none] in blast)
  moreover have "policy_reasons p op \<noteq> [] \<longrightarrow> pe_capabilities (evaluatePolicy p op) = []"
    by (simp add: evaluatePolicy_def Let_def)
  ultimately show ?thesis unfolding reasons using policy_reasons_none [of p op] evaluation_limits by blast
qed

end
