(* ===== verification/Demo_Execution.thy ===== *)
theory Demo_Execution
  imports Exec_Creation_Laws Exec_Lease_Laws Exec_Session_Laws Exec_Redaction Exec_Policy_Laws Demo
begin

text \<open>
  A concrete control boundary for the witnesses: one Linux host with one instance, one runner, one plan whose
  build stage needs an approval, one policy, one operation and one sandbox provider.
\<close>

definition run_host :: HostInstance where
  "run_host = \<lparr>host_id = ''h'', host_hostId = ''h'', host_name = ''Host'', host_type = Dedicated_runner,
     host_os = \<lparr>os_name = Linux, os_version = None, os_arch = X64\<rparr>, host_trust = Verified,
     host_availability = EnvAvailable, host_capabilities = [], host_fingerprint = ''fp'', host_checkedAt = None\<rparr>"

definition run_instance :: EnvironmentInstance where
  "run_instance = \<lparr>ei_id = ''env'', ei_descriptorId = ''cli'', ei_hostId = ''h'', ei_type = Et_cli, ei_name = ''CLI'',
     ei_version = None, ei_installation = None, ei_availability = EnvAvailable,
     ei_capabilities = [\<lparr>cd_capability = Command_execution, cd_available = True, cd_evidence = None, cd_detail = None\<rparr>],
     ei_toolchains = [\<lparr>tc_kind = Tk_node, tc_name = ''node'', tc_version = None, tc_components = None, tc_installation = None\<rparr>],
     ei_trust = Verified, ei_fingerprint = ''fe'', ei_checkedAt = None, ei_metadata = None\<rparr>"

definition run_descriptor :: EnvironmentDescriptor where
  "run_descriptor = \<lparr>ed_id = ''cli'', ed_name = ''CLI'', ed_description = ''command line'', ed_type = Et_cli,
     ed_toolchains = [], ed_required = [], ed_declared = None, ed_minimumOs = None\<rparr>"

definition run_environments :: env_registry where
  "run_environments = \<lparr>env_descriptors = [(''cli'', run_descriptor)], env_hosts = [(''h'', run_host)],
     env_instances = [(''env'', run_instance)]\<rparr>"

definition run_requirement :: EnvironmentRequirement where
  "run_requirement = \<lparr>er_descriptorId = Some ''cli'', er_type = None, er_capabilities = None, er_toolchains = None,
     er_os = None, er_minimumTrust = None\<rparr>"

definition run_operation :: ExecutionOperationDefinition where
  "run_operation = \<lparr>od_id = ''npm.build'', od_toolId = ''npm'', od_stageKind = Build_stage,
     od_required = [Build_invoke], od_optional = None, od_risk = Er_low, od_input = [], od_toolchains = Some [''node''],
     od_workspaceAccess = Some Wa_none, od_network = None, od_timeoutMs = None, od_class = Some Project_code,
     od_environment = Some \<lparr>eo_family = Fam_linux, eo_toolchains = [], eo_exactVersions = None, eo_targets = None,
       eo_gpu = None, eo_container = None, eo_signing = False, eo_publishing = False, eo_interactive = False\<rparr>,
     od_output = None\<rparr>"

definition run_rule :: ExecutionPolicyRule where
  "run_rule = \<lparr>pr_id = ''r'', pr_operationIds = [''npm.build''], pr_capabilities = [Build_invoke], pr_filesystem = [],
     pr_environments = [Command_execution], pr_network = None, pr_secretRefs = None, pr_limits = Some [(MaxToolCalls, 5)],
     pr_hostProcess = False, pr_trustedHostBuild = False\<rparr>"

definition run_policy :: ExecutionPolicy where
  "run_policy = BASELINE_DENY_ALL_POLICY\<lparr>pol_policyId := ''web'', pol_rules := [run_rule], pol_approvalAt := Er_high\<rparr>"

lemma run_policy_valid: "validateExecutionPolicy run_policy = Inr ()"
proof -
  have ids: "execution_id ''web''" "execution_id ''r''" by code_simp+
  show ?thesis
    by (simp add: validateExecutionPolicy_def checks_Inr_iff requireExecutionId_def validateResourceLimits_def
        REQUIRED_LIMIT_KEYS_def OPTIONAL_LIMIT_KEYS_def check_limit_def limit_value_def validateNetworkPolicy_def
        check_rule_def run_rule_def run_policy_def BASELINE_DENY_ALL_POLICY_def ids throw_if_def check_all_def)
qed

definition run_plan :: ExecutionPlan where
  "run_plan = \<lparr>plan_id = ''p1'', plan_planId = ''plan'', plan_version = 1, plan_projectId = ''web'', plan_status = Pl_approved,
     plan_environments = [\<lparr>pen_id = ''e1'', pen_requirement = run_requirement, pen_selectedInstanceId = Some ''env''\<rparr>],
     plan_agentRequirements = [\<lparr>arq_id = ''q1'', arq_purpose = Purpose_build, arq_componentIds = [''c''],
       arq_capabilities = [''software.backend'']\<rparr>],
     plan_agents = [\<lparr>paa_requirementId = ''q1'', paa_agentId = Some ''coder''\<rparr>],
     plan_build = [\<lparr>bs_id = ''b1'', bs_componentId = ''c'', bs_environment = ''e1'', bs_agent = ''q1''\<rparr>],
     plan_tests = [], plan_security = [], plan_deployment = [],
     plan_approvalRequirements = [\<lparr>par_reason = ''production'', par_subjectIds = [''b1'']\<rparr>],
     plan_approvalId = Some ''a1'', plan_approvalState = ''approved'', plan_blockers = []\<rparr>"

definition run_approval :: Approval where
  "run_approval = demo_approval\<lparr>approval_status := Approved, approval_action := EXECUTION_PLAN_APPROVAL_ACTION,
     expiresAt := Some 100, decisionMetadata := [(''executionPlanId'', JStr ''p1''), (''projectId'', JStr ''web''),
       (''planVersion'', JNum 1)]\<rparr>"

definition run_tool :: Tool where
  "run_tool = \<lparr>tool_id = ''npm'', tool_name = ''npm'', tool_description = ''builds'', tool_version = ''1'',
     tool_capabilities = [], tool_action = AExecute, approvalRule = None,
     tool_allowedAgents = [''coder''], tool_allowedProjects = [TOOL_WILDCARD], tool_allowedEnvironments = [Local],
     timeoutMs = 100, tool_limits = DEFAULT_TOOL_LIMITS, inputSchema = None, outputSchema = None, tool_metadata = []\<rparr>"

definition run_provider :: SandboxProvider where
  "run_provider = \<lparr>sp_providerId = ''runner:r1'', sp_kind = ''runner'', sp_caps =
     \<lparr>sc_enforcedLimits = REQUIRED_LIMIT_KEYS, sc_denyAll = True, sc_allowHosts = False, sc_networkIsolation = True,
      sc_filesystemIsolation = True, sc_maxConcurrent = 1, sc_executables = None, sc_workspaceExecution = True,
      sc_simulated = False, sc_requiresRouting = True\<rparr>, sp_available = (\<lambda>i. True)\<rparr>"

definition run_runner :: RunnerDescriptor where
  "run_runner = \<lparr>rd_runnerId = ''r1'', rd_adapterId = ''linux-toolchain'', rd_instances = [''env''], rd_class = Rc_local,
     rd_trusted = True, rd_fingerprint = ''fr'', rd_verified = True, rd_capacity = 1, rd_projects = None,
     rd_region = None, rd_routing = []\<rparr>"

definition run_state :: exec_state where
  "run_state = \<lparr>seq = 0, process_tag = ''p'', ticks = 0, time_at = int, events = [], sink_events = [],
     audit_repo = None, tasks = [], approvals = [(''a1'', run_approval)], handoffs = [], records = [],
     agents = [(''coder'', demo_agent)], instances = [], toolset = [(''npm'', run_tool)], taskCalls = [], agentCalls = [],
     pendingApprovals = [], x_environments = run_environments, x_operations = [(''npm.build'', run_operation)],
     x_policies = \<lparr>reg_policies = [(policy_key ''web'' 1, run_policy)], reg_bindings = [(''web'', ''web'', 1)],
       reg_fallback = (''baseline-deny-all'', 1)\<rparr>,
     x_sandboxes = [(''runner:r1'', run_provider)], x_tools = [], x_plans = [(''plan@v1'', run_plan)],
     x_sessions = \<lparr>st_sessions = [], st_keys = []\<rparr>, x_active = [],
     x_adapters = \<lparr>ar_adapters = [(''linux-toolchain'', createLinuxAdapter)], ar_runners = [(''r1'', run_runner)],
       ar_leases = [], ar_policies = [], ar_heartbeats = [''r1'' \<mapsto> (Rs_online, 0)]\<rparr>\<rparr>"

definition run_config :: exec_config where
  "run_config = \<lparr>xc_lc = code_unit_cmp, xc_projects = (\<lambda>i. i = ''web''), xc_isAgentEnabled = (\<lambda>a i. True),
     xc_adaptersConfigured = True, xc_staleAfterMs = None, xc_maxConcurrent = None, xc_bounded = True\<rparr>"

definition run_operator :: OperatorPrincipal where
  "run_operator = \<lparr>op_id = ''root'', op_role = Admin, op_allowedProjects = AllProjects\<rparr>"

definition run_request :: ExecutionRequest where
  "run_request = \<lparr>xr_projectId = ''web'', xr_planId = ''plan'', xr_planVersion = 1, xr_stageId = ''b1'',
     xr_operationId = None, xr_operationIds = None, xr_input = None\<rparr>"

lemma run_instance_ok: "validateEnvironmentInstance run_instance = Inr ()" "assertNoCredentials run_instance = Inr ()"
  by code_simp+

lemma boundary_sound: "records_sound run_state"
proof -
  have "env_ok run_environments"
    by (simp add: env_ok_def instance_ok_def run_instance_ok repo_ok_def listInstances_def mem_list_def getDescriptor_def
        getHost_def mem_findById_def run_environments_def run_host_def)
      (simp add: run_instance_def)
  then show ?thesis
    by (simp add: records_sound_def run_state_def repo_ok_def demo_agent_def)
qed

definition verdict_of :: "PreflightResult res \<Rightarrow> ExecutionReason list option" where
  "verdict_of r = (case r of Inl e \<Rightarrow> None | Inr x \<Rightarrow> Some (pf_reasons x))"

lemma run_verdict: "verdict_of (fst (evaluateRequest run_config run_operator run_request False run_state)) = Some []"
  by code_simp

text \<open>Creating a session from that request succeeds and is not a replay.\<close>

definition created_of :: "(ExecutionSession \<times> bool) res \<Rightarrow> (ExecutionSessionStatus \<times> ExecutionCapability list \<times> bool) option" where
  "created_of r = (case r of Inl e \<Rightarrow> None | Inr (t, b) \<Rightarrow> Some (es_status t, map gr_capability (es_grants t), b))"

lemma run_created:
  "created_of (fst (createSession run_config run_operator run_request ''k1'' run_state)) = Some (Es_ready, [Build_invoke], False)"
  by code_simp

text \<open>A boundary that starts without adapters, then registers one runner and leases it twice: the second
  acquisition is refused.\<close>

definition bare_state :: exec_state where
  "bare_state = run_state\<lparr>x_adapters := \<lparr>ar_adapters = [], ar_runners = [], ar_leases = [], ar_policies = [],
     ar_heartbeats = Map.empty\<rparr>\<rparr>"

definition runner_state :: exec_state where
  "runner_state = snd (registerRunner run_runner (snd (registerAdapter createLinuxAdapter bare_state)))"

definition leased_state :: exec_state where
  "leased_state = snd (acquireLease ''r1'' ''s2'' ''web'' 50 (snd (acquireLease ''r1'' ''s1'' ''web'' 50 runner_state)))"

lemma leased_reachable: "boundary_call\<^sup>*\<^sup>* bare_state leased_state"
proof -
  have "boundary_call\<^sup>*\<^sup>* bare_state runner_state"
    unfolding runner_state_def by (meson boundary_call.adapter boundary_call.runner converse_rtranclp_into_rtranclp r_into_rtranclp)
  then show ?thesis
    unfolding leased_state_def by (meson boundary_call.acquire_lease rtranclp.rtrancl_into_rtrancl)
qed

text \<open>A session in its first state, and a client that reads it, moves it on and writes it back.\<close>

definition first_session :: ExecutionSession where
  "first_session = \<lparr>es_sessionId = ''s1'', es_projectId = ''web'', es_planId = ''plan'', es_planVersion = 1,
     es_stageId = ''b1'', es_stageKind = Build_stage, es_operationId = ''npm.build'', es_toolId = ''npm'',
     es_operationIds = None, es_persistent = False, es_agentId = ''coder'', es_environmentInstanceId = ''env'',
     es_policy = (''web'', 1), es_approvalIds = [], es_risk = Er_low,
     es_workspace = \<lparr>ws_workspaceId = ''w1'', ws_sessionId = ''s1'', ws_projectId = ''web'', ws_rootRef = ''workspace://web/w1'',
       ws_writable = False, ws_status = Ws_requested\<rparr>,
     es_grants = [], es_limits = Map.empty, es_enforcement = [], es_network = Deny_all, es_sandbox = None,
     es_status = Es_created, es_reasons = [], es_requestedBy = ''root'', es_idempotencyKey = ''k1'', es_cancellation = None,
     es_attempts = [], es_createdAt = 0, es_startedAt = None, es_endedAt = None, es_revision = 1\<rparr>"

definition moved_session :: ExecutionSession where
  "moved_session = first_session\<lparr>es_status := Es_validating, es_revision := 2\<rparr>"

definition one_session :: session_store where
  "one_session = snd (insertSession first_session \<lparr>st_sessions = [], st_keys = []\<rparr>)"

definition saved_session :: session_store where
  "saved_session = snd (updateSession moved_session 1 one_session)"

lemma first_session_ok: "session_ok first_session"
  by (simp add: session_ok_def first_session_def isTerminalSession_def started_status_def)

lemma no_sessions_ok: "session_store_ok (\<lambda>c. None, \<lparr>st_sessions = [], st_keys = []\<rparr>)"
  by (simp add: session_store_ok_def getSession_def)

lemma one_session_get: "getSession ''s1'' one_session = Some first_session"
  by (simp add: one_session_def insertSession_def getSession_def first_session_def)

lemma sessions_run:
  "store_step\<^sup>*\<^sup>* ((\<lambda>c. None) :: nat clients, \<lparr>st_sessions = [], st_keys = []\<rparr>) ((\<lambda>c. None)(0 := Some first_session), one_session)"
  "store_step\<^sup>*\<^sup>* (((\<lambda>c. None) :: nat clients)(0 := Some first_session), one_session)
     ((\<lambda>c. None)(0 := Some first_session), saved_session)"
proof -
  have "store_step ((\<lambda>c. None) :: nat clients, \<lparr>st_sessions = [], st_keys = []\<rparr>) (\<lambda>c. None, one_session)"
    unfolding one_session_def by (rule store_step.create [OF first_session_ok])
  moreover have "store_step ((\<lambda>c. None) :: nat clients, one_session) ((\<lambda>c. None)(0 := Some first_session), one_session)"
    using store_step.read [of "\<lambda>c. None" one_session 0 "''s1''"] one_session_get by simp
  ultimately show "store_step\<^sup>*\<^sup>* ((\<lambda>c. None) :: nat clients, \<lparr>st_sessions = [], st_keys = []\<rparr>)
      ((\<lambda>c. None)(0 := Some first_session), one_session)"
    by (meson converse_rtranclp_into_rtranclp r_into_rtranclp)
  have "apply_updates first_session [Upd_transition Es_validating 5 plain_patch] = Inr moved_session"
    by (simp add: transitionSession_def canTransitionSession_def first_session_def plain_patch_def isTerminalSession_def
        moved_session_def)
  from store_step.save [OF _ _ _ this, where h = "((\<lambda>c. None) :: nat clients)(0 := Some first_session)" and c = 0 and st = one_session]
  have "store_step (((\<lambda>c. None) :: nat clients)(0 := Some first_session), one_session)
      ((\<lambda>c. None)(0 := Some first_session), snd (updateSession moved_session (es_revision first_session) one_session))"
    by simp
  then show "store_step\<^sup>*\<^sup>* (((\<lambda>c. None) :: nat clients)(0 := Some first_session), one_session)
     ((\<lambda>c. None)(0 := Some first_session), saved_session)"
    by (simp add: saved_session_def first_session_def r_into_rtranclp)
qed

text \<open>A receipt whose reason quotes a credential.\<close>

definition leaking_receipt :: fields where
  "leaking_receipt = [(''receiptId'', JStr ''rcp1''), (''sessionId'', JStr ''s1''), (''startedAt'', JStr ''t1''),
     (''endedAt'', JStr ''t2''), (''outcome'', JStr ''failed''), (''simulated'', JBool False), (''outputBytes'', JNum 9),
     (''reasons'', JArr [JObj [(''code'', JStr ''TOOL_FAILED''), (''detail'', JStr ''login with sk-abcdefghijklmnop failed'')]])]"

text \<open>A clock that reads the two times of it.\<close>

definition demo_parse :: "string \<Rightarrow> int option" where
  "demo_parse t = (if t = ''t1'' then Some 1 else if t = ''t2'' then Some 2 else None)"

text \<open>Output of one byte, a surrogate pair of four and a character of three.\<close>

definition demo_output :: units where
  "demo_output = [unit_of (CHR ''a''), 0xD83D, 0xDE00, 0x20AC]"

lemma demo_output_clean: "redactUnits demo_output [] = (demo_output, 0)"
  by (simp add: redactUnits_def redact_with_def demo_output_def replace_step secret_head ascii_view_unit)
    (simp add: replace_step ascii_view_def secret_head)

lemma demo_output_bytes: "buffer_from demo_output = [0x61, 0xF0, 0x9F, 0x98, 0x80, 0xE2, 0x82, 0xAC]"
  by (simp add: buffer_from_def demo_output_def unit_of_def high_surrogate_def low_surrogate_def utf8_of_def)

lemma demo_output_read: "buffer_text [0x61, 0xF0, 0x9F, 0x98, 0x80, 0xE2] = [0x61, 0xD83D, 0xDE00, 0xFFFD]"
  by (simp add: buffer_text_def utf8_lead_def replacement_def utf16_def)

lemma demo_output_bounded: "boundOutput demo_output 6 [] =
    \<lparr>bo_text = [0x61, 0xD83D, 0xDE00], bo_truncated = True, bo_originalBytes = 8, bo_redactions = 0\<rparr>"
  by (simp add: boundOutput_def demo_output_clean demo_output_bytes subarray_def demo_output_read drop_replacement_def
      replacement_def)
end
