(* ===== verification/Further_Facts.thy ===== *)
theory Further_Facts
  imports Demo_Workflow Demo_Tools Demo_Access Demo_Execution
begin

text \<open>
  Further facts about the modelled components, each with an instance: smaller behaviours and the
  places where the code does less than its documentation says.
\<close>

text \<open>
  No agent instance can be created: the id the registry builds ends in \<open>#1\<close>, which the
  instance validator's identifier pattern rejects, so every call fails.
\<close>

theorem instance_creation_fails:
  "fst (createInstance dId projectId metadata s) \<noteq> Inr inst \<and>
   instances (snd (createInstance dId projectId metadata s)) = instances s"
  using instance_id_unsafe [of dId]
  by (auto simp: createInstance_def validateAgentInstance_def throw_if_def now_def op_simps Let_def
      split: option.split)

text \<open>
  The satisfaction order, as it is implemented: a declared capability covers itself and its
  descendants. On well-formed ids \<open>a\<close> covers \<open>b\<close> exactly when \<open>b\<close> is \<open>a\<close> or extends \<open>a\<close> by
  further segments; this is a partial order, under which the broad \<open>software\<close> covers
  \<open>software.frontend\<close> and not the other way round.
\<close>

theorem capability_order:
  "(capabilitySatisfies a b \<longleftrightarrow>
      a = b \<or> (isCapabilityId a \<and> isCapabilityId b \<and> (\<exists>t. b = a @ ''.'' @ t))) \<and>
   reflp capabilitySatisfies \<and> transp capabilitySatisfies \<and> antisymp capabilitySatisfies \<and>
   capabilitySatisfies ''software'' ''software.frontend'' \<and>
   \<not> capabilitySatisfies ''software.frontend'' ''software''"
proof (intro conjI)
  show "capabilitySatisfies a b \<longleftrightarrow>
      a = b \<or> (isCapabilityId a \<and> isCapabilityId b \<and> (\<exists>t. b = a @ ''.'' @ t))" by (rule satisfies_iff)
  show "reflp capabilitySatisfies" by (simp add: reflp_def)
  show "transp capabilitySatisfies" by (rule transpI) (rule satisfies_trans)
  show "antisymp capabilitySatisfies" by (rule antisympI) (rule satisfies_antisym)
  show "capabilitySatisfies ''software'' ''software.frontend''" by code_simp
  show "\<not> capabilitySatisfies ''software.frontend'' ''software''" by code_simp
qed

text \<open>
  Canonical labels: whatever canonicalisation returns is a known, well-formed id and a
  fixed point; a list is accepted exactly when every label is known, and the result has no
  duplicates and the canonical forms of exactly the given labels.
\<close>

theorem canonical_capabilities:
  assumes "canonicalizeCapabilities raw field = Inr cs"
  shows "distinct cs \<and> set cs = {c. \<exists>e \<in> set raw. canonicalizeCapability e = Some c} \<and>
    (\<forall>e \<in> set raw. canonicalizeCapability e \<noteq> None) \<and>
    (\<forall>c \<in> set cs. isKnownCapability c \<and> isCapabilityId c \<and> canonicalizeCapability c = Some c)"
  using canonicalizeCapabilities_Inr [OF assms] canonicalize_from_total [of field "[]" raw] assms
  by (auto simp: canonicalizeCapabilities_def known_is_capability canonicalize_fixpoint)

theorem canonical_capabilities_witness:
  "canonicalizeCapabilities ['' git'', ''coding'', ''debugging''] ''f'' = Inr [''integration.github'', ''software.general'']
   \<and> distinct [''integration.github'', ''software.general'']"
proof -
  have "canonicalizeCapabilities ['' git'', ''coding'', ''debugging''] ''f'' = Inr [''integration.github'', ''software.general'']"
    by code_simp
  from canonical_capabilities [OF this] this show ?thesis by blast
qed

text \<open>
  Recording appends: the event goes to the end of the log and of the sink, under an id that
  neither the log nor the durable repository has used, and nothing recorded before is changed.
\<close>

theorem audit_appends:
  "\<exists>e t. record_event ty f s = (Inr e, t) \<and> events t = events s @ [e] \<and> sink_events t = sink_events s @ [e] \<and>
     ev_type e = ty \<and> ev_id e \<notin> set (taken_audit_ids s) \<and> audit_grows s t"
proof -
  obtain e t where run: "record_event ty f s = (Inr e, t)"
    by (simp add: record_event_def Let_def)
  then have "audit_grows s t" using record_event_grows by (rule keepsD [rotated])
  moreover have "ev_id e \<notin> set (taken_audit_ids s)"
    using run free_seq_free by (auto simp: record_event_def Let_def)
  moreover have "events t = events s @ [e]" "sink_events t = sink_events s @ [e]" "ev_type e = ty"
    using run by (auto simp: record_event_def Let_def)
  ultimately show ?thesis using run by blast
qed

text \<open>
  Resumption does not check the call limits again: resuming an approved request whose tool is
  registered and whose permission is granted adds one to its counts however large they are, so a
  task can exceed the limit of its tool.
\<close>

theorem resumed_calls_unlimited:
  assumes "handler_leaves_ledger eng" "map_of (pendingApprovals s) i = Some p"
    and "mem_findById (pa_approvalId p) (approvals s) = Some a" "approval_status a = Approved"
    and "map_of (toolset s) (tq_toolId (pa_request p)) = Some t" "Tool_Calls.granted eng (pa_request p)"
  shows "call_count (taskCalls (snd (tool_resume eng i None s))) (taskKey (pa_request p)) =
    call_count (taskCalls s) (taskKey (pa_request p)) + 1"
  using tool_resume_counts [OF assms] by (simp add: same_ledger_def counted_def call_count_bump)

theorem resumed_calls_unlimited_witness:
  "maxCallsPerTask (call_limits demo_tools guarded_tool) = 1 \<and>
   call_count (taskCalls (snd (tool_resume demo_tools ''r1'' None used_up_state))) (taskKey demo_call) = 2"
proof
  show "maxCallsPerTask (call_limits demo_tools guarded_tool) = 1" by code_simp
  have "call_count (taskCalls used_up_state) (taskKey demo_call) = 1"
    by (simp add: used_up_state_def call_count_def)
  then show "call_count (taskCalls (snd (tool_resume demo_tools ''r1'' None used_up_state))) (taskKey demo_call) = 2"
    using resumed_calls_unlimited [OF demo_tools_ledger used_up_facts(1), of _ guarded_tool] used_up_facts(2-) by simp
qed

text \<open>
  The lease of an assignment is not linked to it: when a lease is taken for the task, it is
  active and names the task, agent, workspace and scope, but the assignment that is stored and
  returned names no lease.
\<close>

theorem lease_link_lost:
  assumes "distinct (map agent_id ds)" "comparison lc"
    and "assign lc ds r o' s = (Inr (OutcomeAssigned a), u)" "wants_lease o'"
  shows "holds_lease (leases u) a o' \<and> mem_findById (assignmentId a) (assignments u) = Some a \<and> asg_leaseId a = None"
  by (cases rule: assign_cases [OF assms(1,2), of r o' s]) (use assms(3,4) in auto)

theorem lease_link_lost_witness:
  "\<exists>a u. assign code_unit_cmp [demo_descriptor] (review_requirements demo_review) lease_options staff_state
       = (Inr (OutcomeAssigned a), u) \<and> holds_lease (leases u) a lease_options \<and> asg_leaseId a = None"
proof -
  obtain a u where run: "assign code_unit_cmp [demo_descriptor] (review_requirements demo_review) lease_options staff_state
       = (Inr (OutcomeAssigned a), u)" using demo_leased by blast
  have "wants_lease lease_options" by (simp add: wants_lease_def lease_options_def)
  with lease_link_lost [OF demo_distinct demo_comparison run] run show ?thesis by blast
qed

text \<open>
  What a failure skips: the computed specs are exactly the pending ones that depend on the
  failed spec, directly or through other such specs.
\<close>

theorem skipping_exact: "set (skip_closure w f []) = {i. downstream w f i}"
  using skip_closure_exact by blast

text \<open>
  A cleared call is delivered: it is counted, its handler runs with the request's input and
  the deadline of the effective timeout, and the call always returns a result that reports what
  the handler did: a timeout, the handler's error, an output that is too large or that the output
  schema rejects, or the output itself.
\<close>

theorem tool_call_delivered:
  assumes "call_cleared eng r s" "map_of (toolset s) (tq_toolId r) = Some t"
  shows "\<exists>s1 at run s2 x u. same_ledger (counted r s) s1 \<and>
    te_handler eng (tool_id t) (tq_input r) (context_of r (at + call_timeout eng t)) s1 = (run, s2) \<and>
    tool_execute eng r s = (Inr x, u) \<and>
    reported r t (call_limits eng t) (withTimeout run (call_timeout eng t)) x"
  using assms by (rule tool_execute_cleared)

theorem tool_call_delivered_witness:
  "\<exists>x u. tool_execute demo_tools demo_call (tool_state_of demo_tool) = (Inr x, u) \<and>
     tr_requestId x = ''r1'' \<and> tr_status x \<in> {ToolSuccess, ToolTimeout}"
proof -
  have stored: "map_of (toolset (tool_state_of demo_tool)) (tq_toolId demo_call) = Some demo_tool"
    by (simp add: tool_state_of_def demo_tool_def demo_call_def)
  have answer: "withTimeout (Settles 5 (Inr (JStr ''text''))) (call_timeout demo_tools demo_tool) = CallReturned (JStr ''text'')"
    "output_fits demo_tool (call_limits demo_tools demo_tool) (JStr ''text'')"
    by code_simp+
  from tool_call_delivered [OF demo_call_cleared stored] answer show ?thesis
    by (fastforce simp: demo_tools_handler answering_def reported_def delivered_def failed_with_def demo_call_def)
qed

text \<open>
  The tool registry: registering and updating keep every stored tool valid and under its own
  id; registration never replaces a tool, and an update never changes an id.
\<close>

theorem tool_registry_valid:
  assumes "tools_valid s"
  shows "tools_valid (snd (tool_register audited t s)) \<and> tools_valid (snd (tool_update audited i f s)) \<and>
    (\<forall>x u j y. tool_register audited t s = (Inr x, u) \<longrightarrow> map_of (toolset s) j = Some y \<longrightarrow> map_of (toolset u) j = Some y) \<and>
    (\<forall>x u. tool_update audited i f s = (Inr x, u) \<longrightarrow> tool_id x = i \<and> map_of (toolset u) i = Some x)"
proof (intro conjI allI impI)
  fix x u j y
  assume "tool_register audited t s = (Inr x, u)" "map_of (toolset s) j = Some y"
  then show "map_of (toolset u) j = Some y"
    by (cases rule: tool_register_cases [of audited t s]) (auto simp: AList.update_conv')
qed (use assms update_keeps_id tools_valid_register tools_valid_update in blast)+

theorem tool_registry_valid_witness:
  "tools_valid (snd (tool_register False (demo_tool\<lparr>tool_id := ''git''\<rparr>) (tool_state_of demo_tool)))"
  using tool_registry_valid [OF demo_tools_valid] by blast

text \<open>
  Timeouts: a call that does not settle, or settles after the timer, times out, and one that
  settles earlier does not. The timer of a valid tool fires at the declared timeout up to the
  largest delay of the platform, and after one millisecond above it.
\<close>

theorem tool_timeout_bounds:
  assumes "validateToolDefinition t = Inr ()"
  shows "withTimeout Hangs (timeoutMs t) = CallTimedOut \<and>
    (withTimeout (Settles d out) (timeoutMs t) = CallTimedOut \<longleftrightarrow>
       (if timeoutMs t \<le> 2147483647 then timeoutMs t \<le> d else 1 \<le> d))"
  using valid_tool_limits [OF assms] by (auto simp: withTimeout_bounds timer_delay_def)

theorem tool_timeout_bounds_witness:
  "withTimeout (Settles 1 (Inr JNull)) (timeoutMs (demo_tool\<lparr>timeoutMs := 3000000000\<rparr>)) = CallTimedOut"
proof -
  have "validateToolDefinition (demo_tool\<lparr>timeoutMs := 3000000000\<rparr>) = Inr ()" by code_simp
  from tool_timeout_bounds [OF this, of 1 "Inr JNull"] show ?thesis by simp
qed

text \<open>
  Access calls are runs: each operation of the access service is, on its own, an interleaving
  of its read and its commit, so what holds of every interleaving holds of sequences of calls.
\<close>

theorem access_calls_run:
  "access_run has True (s, []) (snd (myAccess v s), []) \<and>
   access_run has True (s, []) (snd (revokeOwnSessions idp v corr s), []) \<and>
   access_run has True (s, []) (snd (access_apply has action who inp s), []) \<and>
   access_run has True (s, []) (snd (bootstrapInitialAdmin v s), [])"
  using call_myAccess call_revoke_attempts call_access_apply call_bootstrap
  unfolding calls_def revokeOwnSessions_def by blast

text \<open>
  The bootstrap does not check the revision it read. There is an interleaving of two profile
  refreshes and one bootstrap of the same person after which the counter says one administrator,
  none exists, nobody resolves to a principal, and every further bootstrap is refused.
\<close>

theorem bootstrap_race:
  "\<exists>t :: account_state. access_run has False (no_accounts, []) (t, []) \<and> activeAdmins t = 1 \<and>
     active_admins t = {} \<and> (\<forall>v. resolvePrincipal v t = None) \<and>
     (\<forall>v c n. \<exists>e. account_commit (Bootstrap (bootstrap_account v c n)) t = (Inl e, t))"
  using race_run [of has] raced_no_admin raced_no_principal raced_locked
  by (intro exI [of _ raced]) (simp add: raced_def)

text \<open>
  The emergency lockdown: activating and lifting take effect for an administrator who signed in
  within the last 300 seconds; each is idempotent and counts one revision when it changes something,
  and a call that throws leaves the lockdown as it was.
\<close>

theorem lockdown_guarded:
  "(case lockdown_activate p authTime reason corr s of
      (Inl e, u) \<Rightarrow> lockdown_record u = lockdown_record s
    | (Inr v, u) \<Rightarrow> fresh_admin p authTime s \<and> v = lockdown_status u \<and> ld_active v \<and>
        (if ld_active (lockdown_status s) then lockdown_record u = lockdown_record s
         else ld_revision v = ld_revision (lockdown_status s) + 1 \<and> ld_activatedBy v = Some (op_id p))) \<and>
   (case lockdown_lift p authTime corr s of
      (Inl e, u) \<Rightarrow> lockdown_record u = lockdown_record s
    | (Inr v, u) \<Rightarrow> fresh_admin p authTime s \<and> v = lockdown_status u \<and> \<not> ld_active v \<and>
        (if ld_active (lockdown_status s)
         then ld_revision v = ld_revision (lockdown_status s) + 1 \<and> ld_liftedBy v = Some (op_id p)
         else lockdown_record u = lockdown_record s))"
  using activate_effect [of p authTime reason corr s] lift_effect [of p authTime corr s]
  by (auto simp: fresh_admin_def split: prod.split sum.split)

text \<open>
  The registry keeps history: through any registration and any administrative transition
  a registered id stays registered, its revisions are extended and never rewritten, its
  versions strictly increase, and one version of an id names one definition for ever.
\<close>

theorem registry_history:
  "keeps registry_keeps (register lc input :: ('x registry_state_scheme, Agent) op) \<and>
   keeps registry_keeps (transitionAdministrative i to :: ('x registry_state_scheme, AgentDescriptor) op)"
  by (intro conjI keeps_register keeps_transitionAdministrative)

text \<open>
  What a registrable descriptor promises: a safe id, a version in range, a risk profile
  within its ceiling, disjoint allowed and denied execution capabilities, no unrestricted
  shell, no self review, an independent reviewer where review is required, and only
  capabilities the taxonomy knows.
\<close>

theorem descriptor_promises:
  assumes "validateAgentDescriptor d = Inr ()"
  shows "isSafeIdentifier (agent_id d) \<and> 1 \<le> agent_version d \<and> agent_version d \<le> 100000 \<and>
    riskProfile d \<le> maxRiskLevel (qualification d) \<and>
    set (maxExecutionCapabilities (toolPolicy d)) \<inter> set (deniedExecutionCapabilities (toolPolicy d)) = {} \<and>
    \<not> allowsUnrestrictedShell (toolPolicy d) \<and> \<not> selfReviewAllowed (reviewPolicy d) \<and>
    (requiresIndependentReview (reviewPolicy d) \<longrightarrow> 1 \<le> minimumReviewers (reviewPolicy d)) \<and>
    (\<forall>c \<in> set (capabilities d). \<exists>k. canonicalizeCapability c = Some k \<and> isKnownCapability k)"
  using descriptor_safe_id [OF assms] descriptor_version_pos [OF assms] descriptor_risk_ceiling [OF assms]
    descriptor_tool_policy [OF assms] descriptor_no_self_review [OF assms]
    descriptor_capabilities_known [OF assms] by blast

theorem descriptor_promises_witness:
  "riskProfile demo_descriptor \<le> maxRiskLevel (qualification demo_descriptor) \<and>
   \<not> selfReviewAllowed (reviewPolicy demo_descriptor)"
  using descriptor_promises [OF demo_descriptor_valid] by blast

text \<open>
  A task transition, on every branch: an unknown id and an edge that is not in the
  transition table are errors that change nothing; a legal edge writes the patched task, and
  nothing else but the clock.
\<close>

theorem task_transition_behaviour:
  "task_transition i to p s =
     (case mem_findById i (tasks s) of
        None \<Rightarrow> (Inl (NotFoundError (''unknown task: '' @ i)), s)
      | Some t \<Rightarrow>
          if to \<in> set (TRANSITIONS (task_status t))
          then (Inr (apply_patch t to (time_at s (ticks s)) p),
                s\<lparr>ticks := Suc (ticks s),
                  tasks := mem_upsert task_id (apply_patch t to (time_at s (ticks s)) p) (tasks s)\<rparr>)
          else (Inl (StateTransitionError (''invalid task transition: '' @ task_status_str (task_status t)
                 @ '' -> '' @ task_status_str to)), s))"
  by (simp add: task_transition_def task_require_def canTransition_def upsert_task_def now_def op_simps
      Let_def split: option.split)

text \<open>
  Every stored workflow stays sound: submitting, running and resuming maintain, for every
  workflow of the store, that its records match its specs and that the machine's invariant holds.
\<close>

theorem workflow_store_sound:
  assumes "leaves_workflows eng" "all_sound s"
  shows "all_sound (snd (engine_submit eng d s)) \<and> all_sound (snd (engine_run eng i s)) \<and>
    all_sound (snd (engine_resume eng i s))"
  by (intro conjI submit_sound run_sound assms)

theorem workflow_store_sound_witness: "all_sound (snd (engine_submit demo_engine demo_workflow_draft demo_workflow_state))"
  using workflow_store_sound [OF demo_leaves_workflows demo_sound] by blast

text \<open>
  An accepted workflow graph: task ids are unique, every dependency names another declared
  task, and the dependency relation is acyclic.
\<close>

theorem workflow_graph_acyclic:
  assumes "validateWorkflowDraft d = Inr ()"
  shows "distinct (map tsd_id (wd_tasks d)) \<and>
    (\<forall>t \<in> set (wd_tasks d). \<forall>dep \<in> set (or_else (tsd_dependsOn t) []).
       dep \<in> set (map tsd_id (wd_tasks d)) \<and> dep \<noteq> tsd_id t) \<and>
    acyclic {(x, y). edge (deps_of (draft_nodes (wd_tasks d))) x y}"
  using validateWorkflowDraft_graph [OF assms] by blast

theorem workflow_graph_acyclic_witness: "distinct (map tsd_id (wd_tasks demo_workflow_draft))"
  using workflow_graph_acyclic [OF demo_workflow_draft_valid] by blast

text \<open>
  A validated assignment: the candidate is the spec's explicit agent or the first eligible
  one, is registered, participates in the workflow, supports the task type on the project, has
  the requested capability and may use every expected tool; and every candidate of that kind is
  accepted.
\<close>

theorem assignment_checked:
  "(as_validated (assignAgent lc grants tools spec w s) \<longleftrightarrow>
     (\<exists>c. candidate_id lc spec w s = Some c \<and> assignable lc tools spec w s c)) \<and>
   (as_validated (assignAgent lc grants tools spec w s) \<longrightarrow>
     as_agentId (assignAgent lc grants tools spec w s) = candidate_id lc spec w s)"
  using assignAgent_validated assignAgent_agent by blast

theorem assignment_checked_witness:
  "assignable code_unit_cmp None (spec_of (demo_spec ''a'' [])) demo_workflow demo_workflow_state ''coder''"
proof -
  have "as_validated (assignAgent code_unit_cmp [] None (spec_of (demo_spec ''a'' [])) demo_workflow demo_workflow_state)"
    and "candidate_id code_unit_cmp (spec_of (demo_spec ''a'' [])) demo_workflow demo_workflow_state = Some ''coder''"
    by code_simp+
  with assignment_checked [of code_unit_cmp "[]" None "spec_of (demo_spec ''a'' [])" demo_workflow demo_workflow_state]
  show ?thesis by simp
qed

section \<open>Execution\<close>

text \<open>
  Runner resolution: a resolution that is ready names an available instance on an available host, an
  adapter of the family the operation asks for that accepts them, and a runner of that adapter that serves
  the instance, whose identity is verified, whose project, class, trust and region the project's policy
  allows, whose heartbeat is recent and neither offline nor draining, and which has a free slot; a
  resolution that is not ready says why.
\<close>

theorem runner_resolution:
  assumes "resolve cfg projectId instanceId op x s = (Inr r, t)"
  shows "if as_ready r
    then \<exists>req i h a d. od_environment op = Some req \<and> usable_instance (x_environments s) instanceId i h \<and>
      a \<in> set (adapters_for cfg (eo_family req) s) \<and> adapter_fits a i h req x \<and> routed_by cfg projectId i a d r s
    else as_reasons r \<noteq> []"
  using resolved [OF assms] by simp

theorem runner_resolution_witness:
  "\<exists>a d r. adapter_fits a run_instance run_host (the (od_environment run_operation)) None \<and>
     routed_by run_config ''web'' run_instance a d r run_state"
proof -
  have "(case resolve run_config ''web'' ''env'' run_operation None run_state of (r, t) \<Rightarrow>
      case r of Inl e \<Rightarrow> False | Inr x \<Rightarrow> as_ready x)"
    by code_simp
  then obtain r t where r: "resolve run_config ''web'' ''env'' run_operation None run_state = (Inr r, t)" "as_ready r"
    by (auto split: prod.splits sum.splits)
  then obtain req i h a d where res: "od_environment run_operation = Some req"
      "usable_instance (x_environments run_state) ''env'' i h" "adapter_fits a i h req None"
      "routed_by run_config ''web'' i a d r run_state"
    using runner_resolution [OF r(1)] by auto
  have "i = run_instance" "h = run_host"
    using res(2) by (auto simp: usable_instance_def run_state_def run_environments_def getEnvInstance_def getHost_def
        mem_findById_def run_instance_def split: if_splits)
  then show ?thesis using res by auto
qed

text \<open>
  Structured arguments: an invocation that is built has an argument template of the executable, a positive
  time bound, and one argument per slot that is the slot's literal, a declared value of its enumeration, an
  integer within its bounds, or a canonical workspace path that does not begin with a dash.
\<close>

theorem structured_arguments:
  assumes "buildStructuredInvocation x operationId input cwd timeout = Inr call"
  shows "0 < si_timeoutMs call \<and> si_timeoutMs call = timeout \<and> si_executableId call = xd_executableId x \<and>
    (\<exists>template. map_of (xd_operations x) operationId = Some template \<and> list_all2 (argument_from input) template (si_argv call))"
  using assms
  by (auto simp: buildStructuredInvocation_def bindE_Inr_iff dest: render_slots_Inr split: option.splits if_splits)

theorem structured_arguments_witness:
  "argument_from [(''path'', JStr ''src//a'')] (Workspace_path_input ''path'') ''src/a''"
proof -
  let ?x = "\<lparr>xd_executableId = ''node'', xd_operations = [(''lint'', [Literal ''--check'', Workspace_path_input ''path''])],
    xd_environmentVariables = [], xd_requiredPaths = None\<rparr>"
  have "map_option si_argv (ok_of (buildStructuredInvocation ?x ''lint'' [(''path'', JStr ''src//a'')] ''.'' 10)) = Some [''--check'', ''src/a'']"
    by code_simp
  then obtain call where call: "buildStructuredInvocation ?x ''lint'' [(''path'', JStr ''src//a'')] ''.'' 10 = Inr call"
      "si_argv call = [''--check'', ''src/a'']" by (auto simp: ok_of_def split: sum.splits)
  from structured_arguments [OF call(1)] call(2) show ?thesis by auto
qed

end
