(* ===== verification/Exec_Path_Laws.thy ===== *)
theory Exec_Path_Laws
  imports Exec_Paths
begin

text \<open>
  What the path checks guarantee: the canonical form is a fixed point of canonicalisation (but for a
  leading \<open>~\<close>), its segments only descend, scopes are segment prefixes up to case, and the
  containment check of \<open>resolveWithinWorkspace\<close> never fires after the relative-path check.
\<close>

section \<open>Segments\<close>

lemma subseq_collapse: "subseq (collapse xs) xs"
proof (induction xs rule: collapse.induct)
  case (1 x y ys)
  have skip: "subseq (x # ys) (x # y # ys)" by (intro subseq_Cons2 list_emb_Cons subseq_order.refl)
  show ?case
  proof (cases "y = [] \<and> ys \<noteq> []")
    case True
    then have "subseq (collapse (x # ys)) (x # ys)" by (rule 1(1))
    with True skip show ?thesis by (auto intro: subseq_order.trans)
  next
    case False
    then have "subseq (collapse (y # ys)) (y # ys)" by (rule 1(2))
    with False show ?thesis by (auto simp del: collapse.simps simp: collapse.simps(1))
  qed
qed simp_all

lemma set_collapse: "set (collapse xs) \<subseteq> set xs"
  by (induction xs rule: collapse.induct) auto

lemma collapse_full: "[] \<notin> set xs \<Longrightarrow> collapse xs = xs"
  by (induction xs rule: collapse.induct) auto

lemma length_bs [simp]: "length (backslashes_to_slashes p) = length p"
  by (simp add: backslashes_to_slashes_def)

lemma bs_append: "backslashes_to_slashes (u @ v) = backslashes_to_slashes u @ backslashes_to_slashes v"
  by (simp add: backslashes_to_slashes_def)

lemma bs_slash: "backslashes_to_slashes (CHR ''/'' # v) = CHR ''/'' # backslashes_to_slashes v"
  "backslashes_to_slashes (CHR ''.'' # v) = CHR ''.'' # backslashes_to_slashes v"
  "backslashes_to_slashes [] = []"
  by (simp_all add: backslashes_to_slashes_def)

lemma no_backslash: "CHR 0x5C \<notin> set (backslashes_to_slashes p)"
  by (auto simp: backslashes_to_slashes_def)

lemma set_bs: "set (backslashes_to_slashes p) \<subseteq> insert (CHR ''/'') (set p)"
  by (auto simp: backslashes_to_slashes_def)

lemma bs_id: "CHR 0x5C \<notin> set p \<Longrightarrow> backslashes_to_slashes p = p"
  unfolding backslashes_to_slashes_def by (rule map_idI) auto

lemma js_split_chars: "s \<in> set (js_split c p) \<Longrightarrow> set s \<subseteq> set p - {c}"
proof (induction p arbitrary: s)
  case (Cons d p)
  then show ?case by (cases "js_split c p") (auto split: if_splits, fastforce+)
qed simp

lemma segment_chars:
  assumes "s \<in> set (path_segments p)"
  shows "CHR ''/'' \<notin> set s" "CHR 0x5C \<notin> set s" "set s \<subseteq> set p"
proof -
  have "s \<in> set (js_split (CHR ''/'') (backslashes_to_slashes p))"
    using assms set_collapse unfolding path_segments_def by blast
  from js_split_chars [OF this] show "CHR ''/'' \<notin> set s" "CHR 0x5C \<notin> set s" "set s \<subseteq> set p"
    using no_backslash [of p] set_bs [of p] by auto
qed

lemma keep_segments_Inr:
  "keep_segments ss = Inr out \<longleftrightarrow>
     out = filter (\<lambda>s. s \<noteq> [] \<and> s \<noteq> ''.'') ss \<and> (\<forall>s \<in> set out. check_segment s = Inr ())"
  by (induction ss arbitrary: out) (auto simp: bindE_Inr_iff)

lemma js_split_join:
  "ss \<noteq> [] \<Longrightarrow> (\<And>s. s \<in> set ss \<Longrightarrow> c \<notin> set s) \<Longrightarrow> js_split c (js_join [c] ss) = ss"
proof (induction ss)
  case (Cons s ss)
  then show ?case
    by (cases ss) (simp_all add: js_split_atom js_split_append)
qed simp

lemma js_join_append:
  "xs \<noteq> [] \<Longrightarrow> js_join sep (xs @ ys) = (if ys = [] then js_join sep xs else js_join sep xs @ sep @ js_join sep ys)"
  by (induction xs rule: induct_list012) (auto simp: js_join_Cons_Cons)

lemma set_js_join: "set (js_join [c] ss) \<subseteq> insert c (\<Union>s \<in> set ss. set s)"
  by (induction ss rule: induct_list012) auto

lemma join_cost: "ss \<noteq> [] \<Longrightarrow> Suc (length (js_join [c] ss)) = sum_list (map (\<lambda>s. Suc (length s)) ss)"
  by (induction ss rule: induct_list012) auto

lemma subseq_set: "subseq xs ys \<Longrightarrow> set xs \<subseteq> set ys"
  by (induction rule: list_emb.induct) auto

lemma subseq_cost: "subseq xs ys \<Longrightarrow> sum_list (map (\<lambda>s. Suc (length s)) xs) \<le> sum_list (map (\<lambda>s. Suc (length s)) ys)"
  by (induction rule: list_emb.induct) auto

lemma split_cost: "sum_list (map (\<lambda>s. Suc (length s)) (js_split c p)) = Suc (length p)"
  using join_cost [of "js_split c p" c] js_join_split [of c p] by simp

section \<open>Percent-encoded separators\<close>

lemma lower_slash [simp]: "js_lower_char (CHR ''/'') = CHR ''/''"
  by (simp add: js_lower_char_def code_unit_def)

lemma encoded_cons_slash: "encoded_separator (CHR ''/'' # v) = encoded_separator v"
  by (cases v rule: encoded_separator.cases) auto

lemma encoded_second_slash: "encoded_separator (a # CHR ''/'' # v) = encoded_separator v"
  by (cases v) (auto simp: encoded_cons_slash js_lower_def js_lower_char_def code_unit_def Let_def)

lemma encoded_append_slash:
  "encoded_separator (u @ CHR ''/'' # v) \<longleftrightarrow> encoded_separator u \<or> encoded_separator v"
proof (induction u rule: encoded_separator.induct)
  case (1 a b c cs)
  then show ?case by auto
qed (auto simp: encoded_cons_slash encoded_second_slash js_lower_def)

lemma encoded_join: "encoded_separator (js_join ''/'' ss) \<longleftrightarrow> (\<exists>s \<in> set ss. encoded_separator s)"
  by (induction ss rule: induct_list012) (auto simp: encoded_append_slash)

lemma encoded_bs: "encoded_separator (backslashes_to_slashes p) \<longleftrightarrow> encoded_separator p"
  by (induction p rule: encoded_separator.induct)
    (auto simp: backslashes_to_slashes_def js_lower_def js_lower_char_def code_unit_def Let_def)

section \<open>The canonical form\<close>

lemma check_path_Inr:
  "check_path p = Inr () \<longleftrightarrow> p \<noteq> [] \<and> length p \<le> MAX_PATH_LENGTH \<and> \<not> list_ex control_char p \<and>
     \<not> js_startsWith p ''~'' \<and> \<not> js_startsWith p ''/'' \<and> \<not> js_startsWith p [CHR 0x5C] \<and>
     \<not> drive_prefix p \<and> CHR '':'' \<notin> set p \<and> \<not> encoded_separator p \<and>
     length (path_segments p) \<le> MAX_SEGMENTS"
  by (auto simp: check_path_def checks_Inr_iff)

lemma resolve_Inr:
  "resolveWorkspacePath p = Inr q \<longleftrightarrow> check_path p = Inr () \<and>
     (\<exists>out. keep_segments (path_segments p) = Inr out \<and> q = (if out = [] then ''.'' else js_join ''/'' out))"
  by (auto simp: resolveWorkspacePath_def bindE_Inr_iff)

lemma path_segments_join:
  assumes "ss \<noteq> []" and "\<And>s. s \<in> set ss \<Longrightarrow> s \<noteq> [] \<and> CHR ''/'' \<notin> set s \<and> CHR 0x5C \<notin> set s"
  shows "path_segments (js_join ''/'' ss) = ss"
proof -
  have "CHR 0x5C \<notin> set (js_join ''/'' ss)" using set_js_join [of "CHR ''/''" ss] assms(2) by auto
  moreover have "[] \<notin> set ss" using assms(2) by blast
  ultimately show ?thesis
    using assms by (simp add: path_segments_def bs_id js_split_join collapse_full)
qed

lemma drive_colon: "drive_prefix p \<Longrightarrow> CHR '':'' \<in> set p"
  by (cases p rule: drive_prefix.cases) auto

lemma kept_segments:
  assumes "keep_segments (path_segments p) = Inr out" "s \<in> set out"
  shows "s \<noteq> []" "s \<noteq> ''.''" "s \<noteq> ''..''" "CHR ''/'' \<notin> set s" "CHR 0x5C \<notin> set s" "set s \<subseteq> set p"
    "\<not> windows_reserved s"
  using assms segment_chars [of s p]
  by (auto simp: keep_segments_Inr check_segment_def checks_Inr_iff)

lemma kept_subseq:
  assumes "keep_segments (path_segments p) = Inr out"
  shows "subseq out (js_split (CHR ''/'') (backslashes_to_slashes p))"
proof -
  have "subseq out (path_segments p)" using assms by (simp add: keep_segments_Inr)
  then show ?thesis unfolding path_segments_def using subseq_collapse by (rule subseq_order.trans)
qed

lemma kept_not_encoded:
  assumes "keep_segments (path_segments p) = Inr out" "\<not> encoded_separator p"
  shows "\<not> encoded_separator (js_join ''/'' out)"
proof -
  let ?ss = "js_split (CHR ''/'') (backslashes_to_slashes p)"
  have "\<not> encoded_separator (js_join ''/'' ?ss)"
    using assms(2) by (simp add: js_join_split encoded_bs)
  moreover have "set out \<subseteq> set ?ss" using kept_subseq [OF assms(1)] by (rule subseq_set)
  ultimately show ?thesis by (auto simp: encoded_join)
qed

lemma joined_length:
  assumes "keep_segments (path_segments p) = Inr out"
  shows "length (js_join ''/'' out) \<le> length p"
proof (cases "out = []")
  case False
  have "Suc (length (js_join ''/'' out)) \<le> Suc (length p)"
    unfolding join_cost [OF False]
    using subseq_cost [OF kept_subseq [OF assms]] by (simp only: split_cost length_bs)
  then show ?thesis by simp
qed simp

lemma check_dot: "check_path ''.'' = Inr ()"
  by (simp add: check_path_Inr MAX_PATH_LENGTH_def MAX_SEGMENTS_def control_char_def code_unit_def
    path_segments_def backslashes_to_slashes_def)

lemma resolve_dot: "resolveWorkspacePath ''.'' = Inr ''.''"
  by (simp add: resolve_Inr check_dot) (simp add: path_segments_def backslashes_to_slashes_def)

lemma join_head:
  "ss \<noteq> ([] :: string list) \<Longrightarrow> hd ss \<noteq> [] \<Longrightarrow> js_join sep ss \<noteq> [] \<and> hd (js_join sep ss) = hd (hd ss)"
  by (cases ss rule: remdups_adj.cases) auto

lemma starts1: "js_startsWith p [c] \<longleftrightarrow> p \<noteq> [] \<and> hd p = c"
  by (cases p) auto

lemma canonical_checked:
  assumes ok: "check_path p = Inr ()" and kept: "keep_segments (path_segments p) = Inr out"
    and some: "out \<noteq> []" and home: "\<not> js_startsWith (js_join ''/'' out) ''~''"
  shows "check_path (js_join ''/'' out) = Inr ()"
proof -
  let ?q = "js_join ''/'' out"
  note seg = kept_segments [OF kept]
  have chars: "set ?q \<subseteq> insert (CHR ''/'') (set p)"
    using set_js_join [of "CHR ''/''" out] seg(6) by auto
  have head: "?q \<noteq> []" "hd ?q = hd (hd out)"
    using some seg(1) [of "hd out"] join_head [of out "''/''"] by auto
  have "hd (hd out) \<in> set (hd out)" "hd out \<in> set out" using some seg(1) [of "hd out"] by auto
  then have first: "hd ?q \<noteq> CHR ''/''" "hd ?q \<noteq> CHR 0x5C"
    using seg(4,5) [of "hd out"] head(2) by metis+
  have "CHR '':'' \<notin> set ?q" "\<not> list_ex control_char ?q"
    using chars ok by (auto simp: check_path_Inr list_ex_iff control_char_def code_unit_def)
  moreover have "length ?q \<le> MAX_PATH_LENGTH"
    using joined_length [OF kept] ok by (simp add: check_path_Inr)
  moreover have "length (path_segments ?q) \<le> MAX_SEGMENTS"
  proof -
    have "path_segments ?q = out" by (rule path_segments_join [OF some]) (use seg in blast)
    moreover have "length out \<le> length (path_segments p)"
      using kept by (simp add: keep_segments_Inr)
    ultimately show ?thesis using ok by (simp add: check_path_Inr)
  qed
  ultimately show ?thesis
    using head first home ok kept_not_encoded [OF kept] drive_colon [of ?q]
    by (auto simp: check_path_Inr starts1)
qed

text \<open>The canonical form is a fixed point, but for a leading \<open>~\<close> that canonicalisation itself exposes.\<close>

lemma canonical_fixed:
  assumes "resolveWorkspacePath p = Inr q"
  shows "resolveWorkspacePath q =
    (if js_startsWith q ''~'' then Inl (violation ''home expansion is not allowed'') else Inr q)"
proof -
  from assms obtain out where ok: "check_path p = Inr ()" and kept: "keep_segments (path_segments p) = Inr out"
    and q: "q = (if out = [] then ''.'' else js_join ''/'' out)" by (auto simp: resolve_Inr)
  show ?thesis
  proof (cases "out = []")
    case True
    then show ?thesis using q resolve_dot by simp
  next
    case False
    note seg = kept_segments [OF kept]
    have again: "path_segments q = out" using path_segments_join [OF False] seg q False by auto
    have len: "q \<noteq> []" "length q \<le> MAX_PATH_LENGTH"
      using joined_length [OF kept] ok q False seg(1) [of "hd out"] join_head [of out "''/''"]
      by (auto simp: check_path_Inr)
    have ctl: "\<not> list_ex control_char q"
    proof -
      have "set q \<subseteq> insert (CHR ''/'') (set p)"
        using set_js_join [of "CHR ''/''" out] seg(6) q False by auto
      moreover have "\<not> control_char (CHR ''/'')" by (simp add: control_char_def code_unit_def)
      moreover have "\<forall>c \<in> set p. \<not> control_char c" using ok by (auto simp: check_path_Inr list_ex_iff)
      ultimately show ?thesis unfolding list_ex_iff by blast
    qed
    show ?thesis
    proof (cases "js_startsWith q ''~''")
      case True
      with len ctl show ?thesis
        by (auto simp: resolveWorkspacePath_def check_path_def throw_if_def MAX_PATH_LENGTH_def)
    next
      case nohome: False
      have "check_path q = Inr ()"
        using canonical_checked [OF ok kept False] nohome q False by simp
      moreover have "keep_segments out = Inr out"
        using kept by (auto simp: keep_segments_Inr)
      ultimately show ?thesis using nohome again q False by (simp add: resolve_Inr)
    qed
  qed
qed

section \<open>Segments of a canonical path\<close>

definition canonical_segments :: "string \<Rightarrow> string list" where
  "canonical_segments q = (if q = ''.'' then [] else js_split (CHR ''/'') q)"

lemma canonical_shape:
  assumes "resolveWorkspacePath p = Inr q"
  shows "s \<in> set (canonical_segments q) \<Longrightarrow>
      s \<noteq> [] \<and> s \<noteq> ''.'' \<and> s \<noteq> ''..'' \<and> CHR ''/'' \<notin> set s \<and> CHR 0x5C \<notin> set s \<and> CHR '':'' \<notin> set s \<and>
      \<not> list_ex control_char s \<and> \<not> windows_reserved s"
    and "q = (if canonical_segments q = [] then ''.'' else js_join ''/'' (canonical_segments q))"
proof -
  from assms obtain out where ok: "check_path p = Inr ()" and kept: "keep_segments (path_segments p) = Inr out"
    and q: "q = (if out = [] then ''.'' else js_join ''/'' out)" by (auto simp: resolve_Inr)
  note seg = kept_segments [OF kept]
  have split: "out \<noteq> [] \<Longrightarrow> js_split (CHR ''/'') (js_join ''/'' out) = out"
    using seg(4) by (auto intro: js_split_join)
  have "canonical_segments q = out"
  proof (cases "out = []")
    case False
    have "js_join ''/'' out \<noteq> ''.''"
    proof
      assume "js_join ''/'' out = ''.''"
      with split [OF False] have "out = [''.'']" by simp
      with seg(2) [of "''.''"] show False by simp
    qed
    then show ?thesis using False q split by (simp add: canonical_segments_def)
  qed (simp add: canonical_segments_def q)
  moreover have "CHR '':'' \<notin> set p" "\<not> list_ex control_char p" using ok by (auto simp: check_path_Inr)
  ultimately show "s \<in> set (canonical_segments q) \<Longrightarrow>
      s \<noteq> [] \<and> s \<noteq> ''.'' \<and> s \<noteq> ''..'' \<and> CHR ''/'' \<notin> set s \<and> CHR 0x5C \<notin> set s \<and> CHR '':'' \<notin> set s \<and>
      \<not> list_ex control_char s \<and> \<not> windows_reserved s"
    and "q = (if canonical_segments q = [] then ''.'' else js_join ''/'' (canonical_segments q))"
    using seg [of s] q by (auto simp: list_ex_iff)
qed

section \<open>Scopes\<close>

lemma lower_char_low:
  assumes "code_unit d \<le> 64"
  shows "js_lower_char c = d \<longleftrightarrow> c = d"
proof (cases "js_lower_char c = c")
  case False
  define n where "n = code_unit c"
  have n: "(65 \<le> n \<and> n \<le> 90) \<or> (192 \<le> n \<and> n \<le> 222)" and eq: "js_lower_char c = char_of (n + 32)"
    using False unfolding js_lower_char_def n_def Let_def by (auto split: if_splits)
  have "code_unit (js_lower_char c) = n + 32"
    using n unfolding eq code_unit_def of_char_of by auto
  moreover have "code_unit c = n" by (simp add: n_def)
  ultimately show ?thesis using assms n by auto
qed simp

lemma lower_char_slash [simp]: "js_lower_char c = CHR ''/'' \<longleftrightarrow> c = CHR ''/''"
  by (rule lower_char_low) (simp add: code_unit_def)

lemma lower_dot: "js_lower p = ''.'' \<longleftrightarrow> p = ''.''"
proof -
  have "js_lower_char c = CHR ''.'' \<longleftrightarrow> c = CHR ''.''" for c
    by (rule lower_char_low) (simp add: code_unit_def)
  then show ?thesis by (simp add: js_lower_def map_eq_Cons_conv)
qed

lemma lower_split: "js_split (CHR ''/'') (js_lower p) = map js_lower (js_split (CHR ''/'') p)"
proof (induction p)
  case (Cons c p)
  then show ?case by (cases "js_split (CHR ''/'') p") (auto simp: js_lower_def)
qed (simp add: js_lower_def)

lemma starts_segments:
  "p = s \<or> js_startsWith p (s @ ''/'') \<longleftrightarrow> prefix (js_split (CHR ''/'') s) (js_split (CHR ''/'') p)"
proof
  assume "p = s \<or> js_startsWith p (s @ ''/'')"
  then show "prefix (js_split (CHR ''/'') s) (js_split (CHR ''/'') p)"
    by (auto simp: js_startsWith_iff js_split_append)
next
  assume "prefix (js_split (CHR ''/'') s) (js_split (CHR ''/'') p)"
  then obtain zs where *: "js_split (CHR ''/'') p = js_split (CHR ''/'') s @ zs" by (auto simp: prefix_def)
  have "p = js_join ''/'' (js_split (CHR ''/'') s @ zs)" unfolding * [symmetric] by (simp add: js_join_split)
  also have "\<dots> = (if zs = [] then s else s @ ''/'' @ js_join ''/'' zs)"
    by (simp add: js_join_append js_join_split)
  finally show "p = s \<or> js_startsWith p (s @ ''/'')" by (auto simp: js_startsWith_iff split: if_splits)
qed

lemma scope_segments:
  assumes "resolveWorkspacePath path = Inr p" "resolveWorkspacePath scope = Inr s"
  shows "isWithinScope path scope =
    Inr (prefix (map js_lower (canonical_segments s)) (map js_lower (canonical_segments p)))"
proof (cases "s = ''.'' \<or> p = ''.''")
  case True
  have "js_lower s = ''.'' \<longleftrightarrow> s = ''.''" by (rule lower_dot)
  moreover have "\<not> js_startsWith ''.'' (js_lower s @ ''/'')" by (auto simp: js_startsWith_iff Cons_eq_append_conv)
  ultimately show ?thesis
    using True assms lower_dot [of p] by (auto simp: isWithinScope_def canonical_segments_def)
next
  case False
  then show ?thesis
    using assms starts_segments [of "js_lower p" "js_lower s"]
    by (auto simp: isWithinScope_def canonical_segments_def lower_split)
qed

section \<open>Confinement\<close>

lemma walk_append: "walk_segments out (xs @ ys) = walk_segments (walk_segments out xs) ys"
  by (induction out xs rule: walk_segments.induct) auto

lemma walk_no_parent:
  "''..'' \<notin> set ss \<Longrightarrow> walk_segments out ss = out @ filter (\<lambda>s. s \<noteq> [] \<and> s \<noteq> ''.'') ss"
  by (induction out ss rule: walk_segments.induct) auto

definition plain_segments :: "string list \<Rightarrow> bool" where
  "plain_segments ss \<longleftrightarrow> (\<forall>s \<in> set ss. s \<noteq> [] \<and> s \<noteq> ''.'' \<and> s \<noteq> ''..'' \<and> CHR ''/'' \<notin> set s)"

lemma walk_plain:
  "plain_segments out \<Longrightarrow> \<forall>s \<in> set ss. CHR ''/'' \<notin> set s \<Longrightarrow> plain_segments (walk_segments out ss)"
proof (induction out ss rule: walk_segments.induct)
  case (2 out s ss)
  note IH = "2.IH" and prems = "2.prems"
  have up: "plain_segments (butlast out)"
    using prems(1) by (auto simp: plain_segments_def dest: in_set_butlastD)
  have down: "s \<noteq> [] \<Longrightarrow> s \<noteq> ''.'' \<Longrightarrow> s \<noteq> ''..'' \<Longrightarrow> plain_segments (out @ [s])"
    using prems by (simp add: plain_segments_def)
  consider "s = [] \<or> s = ''.''" | "s = ''..''" | "s \<noteq> []" "s \<noteq> ''.''" "s \<noteq> ''..''" by blast
  then show ?case
  proof cases
    case 1
    then show ?thesis using IH(1) prems by simp
  next
    case 2
    then show ?thesis using IH(2) up prems(2) by simp
  next
    case 3
    then show ?thesis using IH(3) down prems(2) by simp
  qed
qed simp

lemma plain_filter: "plain_segments ss \<Longrightarrow> filter (\<lambda>s. s \<noteq> [] \<and> s \<noteq> ''.'') ss = ss"
  by (auto simp: plain_segments_def filter_id_conv)

text \<open>The segments of a resolved absolute path.\<close>

definition resolved_segments :: "string \<Rightarrow> string list" where
  "resolved_segments p = walk_segments [] (js_split (CHR ''/'') p)"

lemma resolved_plain: "plain_segments (resolved_segments p)"
  unfolding resolved_segments_def
  by (rule walk_plain) (auto simp: plain_segments_def dest: js_split_parts)

lemma split_absolute:
  "plain_segments ss \<Longrightarrow> js_split (CHR ''/'') (absolute_of ss) = [] # (if ss = [] then [[]] else ss)"
  by (auto simp: absolute_of_def plain_segments_def intro!: js_split_join)

lemma resolved_absolute: "plain_segments ss \<Longrightarrow> resolved_segments (absolute_of ss) = ss"
proof -
  assume ss: "plain_segments ss"
  then have "''..'' \<notin> set ([] # (if ss = [] then [[]] else ss))" by (auto simp: plain_segments_def)
  then have "resolved_segments (absolute_of ss) =
      filter (\<lambda>s. s \<noteq> [] \<and> s \<noteq> ''.'') ([] # (if ss = [] then [[]] else ss))"
    unfolding resolved_segments_def split_absolute [OF ss] by (rule trans [OF walk_no_parent append_Nil])
  also have "\<dots> = ss" using plain_filter [OF ss] by simp
  finally show ?thesis .
qed

lemma posix_resolve_segments:
  "posix_resolve base p = absolute_of
     (if js_startsWith p ''/'' then resolved_segments p else walk_segments (resolved_segments base) (js_split (CHR ''/'') p))"
  by (simp add: posix_resolve_def resolved_segments_def js_split_append walk_append)

lemma absolute_prefix:
  assumes "plain_segments rs"
  shows "absolute_of (rs @ xs) = absolute_of rs \<or>
    js_startsWith (absolute_of (rs @ xs))
      (if last (absolute_of rs) = CHR ''/'' then absolute_of rs else absolute_of rs @ ''/'')"
proof (cases "rs = [] \<or> xs = []")
  case True
  then show ?thesis by (auto simp: absolute_of_def js_startsWith_iff)
next
  case False
  then show ?thesis
    by (auto simp: absolute_of_def js_join_append js_startsWith_iff)
qed

text \<open>Resolving a checked relative path appends its segments to those of the root.\<close>

lemma split_bs_parent:
  "''..'' \<in> set (js_split (CHR ''/'') p) \<Longrightarrow> ''..'' \<in> set (js_split (CHR ''/'') (backslashes_to_slashes p))"
proof -
  assume "''..'' \<in> set (js_split (CHR ''/'') p)"
  then obtain xs ys where "js_split (CHR ''/'') p = xs @ ''..'' # ys" by (meson split_list)
  then have p: "p = js_join ''/'' (xs @ ''..'' # ys)" using js_join_split [of "CHR ''/''" p] by simp
  have "set (js_split (CHR ''/'') (u @ CHR ''/'' # v)) =
      set (js_split (CHR ''/'') u) \<union> set (js_split (CHR ''/'') v)" for u v
    by (simp add: js_split_append)
  then show ?thesis
    unfolding p by (cases "xs = []"; cases "ys = []")
      (simp_all add: js_join_append js_join_Cons_Cons bs_append bs_slash)
qed

lemma relative_Inr:
  assumes "assertWorkspaceRelative p = Inr ()"
  shows "\<not> js_startsWith p ''/''" "''..'' \<notin> set (js_split (CHR ''/'') p)"
proof -
  have *: "\<not> js_startsWith p ''/''" "''..'' \<notin> set (js_split (CHR ''/'') (backslashes_to_slashes p))"
    using assms by (auto simp: assertWorkspaceRelative_def checks_Inr_iff)
  show "\<not> js_startsWith p ''/''" by (rule *(1))
  show "''..'' \<notin> set (js_split (CHR ''/'') p)" using split_bs_parent *(2) by blast
qed

lemma resolve_relative:
  assumes "\<not> js_startsWith p ''/''" "''..'' \<notin> set (js_split (CHR ''/'') p)"
  shows "posix_resolve base p =
    absolute_of (resolved_segments base @ filter (\<lambda>s. s \<noteq> [] \<and> s \<noteq> ''.'') (js_split (CHR ''/'') p))"
  using assms by (simp add: posix_resolve_segments walk_no_parent)

lemma posix_resolve_plain: "\<exists>ss. plain_segments ss \<and> posix_resolve base p = absolute_of ss"
  unfolding posix_resolve_def resolved_segments_def [symmetric] using resolved_plain by blast

lemma posix_resolve_absolute: "plain_segments ss \<Longrightarrow> posix_resolve base (absolute_of ss) = absolute_of ss"
proof -
  assume "plain_segments ss"
  moreover have "js_startsWith (absolute_of ss) ''/''" by (simp add: absolute_of_def)
  ultimately show ?thesis by (simp add: posix_resolve_segments resolved_absolute)
qed

lemma confined:
  assumes p: "\<not> js_startsWith p ''/''" "''..'' \<notin> set (js_split (CHR ''/'') p)"
  shows "isPathInside cwd (posix_resolve cwd root) (posix_resolve (posix_resolve cwd root) p)"
proof -
  from posix_resolve_plain obtain rs where rs: "plain_segments rs" "posix_resolve cwd root = absolute_of rs" by blast
  define xs where "xs = filter (\<lambda>s. s \<noteq> [] \<and> s \<noteq> ''.'') (js_split (CHR ''/'') p)"
  have "plain_segments xs"
    using p(2) js_split_parts [of _ "CHR ''/''" p] by (auto simp: plain_segments_def xs_def)
  with rs(1) have all: "plain_segments (rs @ xs)" by (auto simp: plain_segments_def)
  have "posix_resolve (absolute_of rs) p = absolute_of (rs @ xs)"
    using resolve_relative [OF p] resolved_absolute [OF rs(1)] by (simp add: xs_def)
  then show ?thesis
    using posix_resolve_absolute [OF rs(1)] posix_resolve_absolute [OF all] absolute_prefix [OF rs(1), of xs]
    by (simp add: isPathInside_def Let_def rs(2))
qed

lemma canonical_below:
  assumes "resolveWorkspacePath p = Inr q"
  shows "posix_resolve root q = absolute_of (resolved_segments root @ canonical_segments q)"
    and "isPathInside cwd (posix_resolve cwd root) (posix_resolve (posix_resolve cwd root) q)"
proof -
  note shape = canonical_shape [OF assms]
  have proper: "s \<noteq> [] \<and> s \<noteq> ''.'' \<and> s \<noteq> ''..''" if "s \<in> set (canonical_segments q)" for s
    using shape(1) [OF that] by blast
  have dot: "q \<noteq> ''.'' \<Longrightarrow> js_split (CHR ''/'') q = canonical_segments q" by (simp add: canonical_segments_def)
  have parts: "filter (\<lambda>s. s \<noteq> [] \<and> s \<noteq> ''.'') (js_split (CHR ''/'') q) = canonical_segments q"
  proof (cases "q = ''.''")
    case False
    show ?thesis unfolding dot [OF False] filter_id_conv using proper by blast
  qed (simp add: canonical_segments_def)
  have rel: "''..'' \<notin> set (js_split (CHR ''/'') q)"
  proof (cases "q = ''.''")
    case False
    show ?thesis unfolding dot [OF False] using proper by blast
  qed simp
  have "\<not> js_startsWith q ''/''"
  proof (cases "canonical_segments q = []")
    case True
    then have "q = ''.''" using shape(2) by argo
    then show ?thesis by simp
  next
    case False
    then have "hd (canonical_segments q) \<in> set (canonical_segments q)" by simp
    from shape(1) [OF this] have ne: "hd (canonical_segments q) \<noteq> []"
      and no: "CHR ''/'' \<notin> set (hd (canonical_segments q))" by blast+
    have "hd (hd (canonical_segments q)) \<in> set (hd (canonical_segments q))" using ne by (rule hd_in_set)
    with no have c: "hd (hd (canonical_segments q)) \<noteq> CHR ''/''" by metis
    have "q = js_join ''/'' (canonical_segments q)" using shape(2) unfolding if_not_P [OF False] .
    with join_head [OF False ne, of "''/''"] have "hd q = hd (hd (canonical_segments q))" by metis
    with c have "hd q \<noteq> CHR ''/''" by metis
    then show ?thesis by (auto simp: starts1)
  qed
  from resolve_relative [OF this rel] confined [OF this rel] parts
  show "posix_resolve root q = absolute_of (resolved_segments root @ canonical_segments q)"
    and "isPathInside cwd (posix_resolve cwd root) (posix_resolve (posix_resolve cwd root) q)" by simp_all
qed

lemma real_path_segments:
  assumes "real_normalize Posix r \<noteq> []" "last (real_normalize Posix r) \<noteq> CHR ''/''"
  shows "assertRealPathWithinRoot r p Posix = Inr () \<longleftrightarrow>
    prefix (js_split (CHR ''/'') (real_normalize Posix r)) (js_split (CHR ''/'') (real_normalize Posix p))"
  using assms starts_segments [of "real_normalize Posix p" "real_normalize Posix r"]
  by (simp add: assertRealPathWithinRoot_def real_within_def)

end
