(* ===== verification/Spec2Isabelle.thy ===== *)
theory Spec2Isabelle
  imports Further_Facts Demo_Access Demo_Execution Exec_Path_Laws
begin

text \<open>
  Verification of the core of AI Workforce, a platform on which agents do work under human control
  (TypeScript, \<open>src/core\<close> and \<open>src/contracts\<close>).

  The program. A caller submits a task. The \<^bold>\<open>orchestrator\<close> selects a capable registered agent, asks the
  \<^bold>\<open>permission system\<close> about every declared permission, parks the task behind the \<^bold>\<open>approval system\<close> when
  a grant demands a human, and otherwise runs the agent and records the outcome in the
  \<^bold>\<open>task system\<close>. Every step is an event of the \<^bold>\<open>audit log\<close>. The \<^bold>\<open>workflow engine\<close> schedules a graph of
  such tasks, the \<^bold>\<open>tool engine\<close> mediates each tool call an agent makes, the \<^bold>\<open>assignment service\<close>
  staffs tasks with qualified specialists and takes write leases for them, and the \<^bold>\<open>handoff
  service\<close> moves work between agents. Operators act through governed \<^bold>\<open>accounts\<close>. Work that runs programs
  passes the \<^bold>\<open>execution control boundary\<close>: a stage of an approved plan is admitted by a pre-flight of gates
  (plan, operation, tool, agent, policy, approval, environment, runner, sandbox), and becomes a session whose
  grants name exactly what it may do.

  State. The components share one state, built by extending records in the order the code composes
  its services: \<open>world\<close> (the id counter and the clock, \<open>Shared\<close>), \<open>audit_state\<close>, \<open>task_state\<close>,
  \<open>approval_state\<close>, \<open>handoff_state\<close>, \<open>registry_state\<close>, and on top of it \<open>workflow_state\<close>, or \<open>tool_state\<close> and
  \<open>exec_state\<close>, or \<open>lease_state\<close> and \<open>assignment_state\<close>; accounts extend the audit log, \<open>account_state\<close> and
  \<open>lockdown_state\<close>. The environment, policy, plan, session and receipt stores are values of their own that
  \<open>exec_state\<close> holds. An operation is a function from the state to an error or a value
  and the state it leaves, \<open>('s, 'a) op\<close>, also when it throws: writes made before a throw persist, as
  in the code. The \<open>n\<close>-th clock reading is \<open>time_at n\<close>, so nothing is assumed about time; times are milliseconds. Numbers are \<open>int\<close>: the code uses counters, sizes and
  times, which are integers below 2^53. Strings are lists of characters (code units
  below 256), but program output is a sequence of UTF-16 code units (\<open>16 word\<close>). \<open>lc\<close> is \<open>localeCompare\<close>, an
  argument; where an order matters, \<open>comparison lc\<close> is assumed and the code-unit order shown to
  be one. TypeScript's declared types are taken as given.

  Code the repository does not fix is an argument: the agent executor, the selection strategy and the
  operator gate of the orchestrator (fields of the record \<open>orchestrator\<close>), the handlers of tools, the schema validators,
  the identity provider of the access service, the projects and agents the execution manager is told of and its
  adapter configuration (fields of \<open>exec_config\<close>), the answer of a sandbox provider for an instance,
  and \<open>Date.parse\<close>.
  They may throw, and the executors and handlers may change the state. What the code relies on is named
  in the hypotheses (\<open>selects_candidate\<close>, \<open>leaves_workflows\<close> and the like). \<open>executor_calls\<close> says that an agent acts
  on the core through the operations of its components, in any number and order; their stores are private to them.

  The theories, with the code each models:
  \<^item> \<open>Prelude\<close>, \<open>Shared\<close>, \<open>Repository\<close>, \<open>Cached_Repository\<close>, \<open>Lifecycle\<close>: errors, results and state
    passing; \<open>core/shared.ts\<close>; \<open>core/persistence\<close>. \<open>Lifecycle\<close> has the locale of a repository of
    entities with a status, interpreted by tasks, approvals and handoffs.
  \<^item> \<open>Contracts\<close>, \<open>Json\<close>, \<open>Capabilities\<close>, \<open>Workforce\<close>, \<open>Descriptors\<close>: the data and validators of
    \<open>contracts/index.ts\<close>, \<open>capabilities.ts\<close>, \<open>workforce.ts\<close>, \<open>execution.ts\<close>.
  \<^item> \<open>Permissions\<close>, \<open>Audit_Log\<close>, \<open>Tasks\<close>, \<open>Approvals\<close>, \<open>Handoffs\<close>, \<open>Registry\<close>, \<open>Contexts\<close>: the class of
    that name under \<open>src/core\<close>.
  \<^item> \<open>System\<close>, \<open>Orchestrator\<close>, \<open>Orchestration\<close>, \<open>Human_Decision\<close>: \<open>core/orchestrator/orchestrator.ts\<close> and
    what it guarantees over the components it drives. \<open>Core_Calls\<close> is the relation of the calls an agent may make,
    and what the orchestrator keeps whatever calls its agents make.
  \<^item> \<open>Cycle\<close>, \<open>Workflows\<close>, \<open>Workflow_Graph\<close>, \<open>Workflow_Engine\<close>: \<open>contracts/workflow.ts\<close> and
    \<open>core/workflows\<close>. \<open>Workflow_Machine\<close> is the abstract machine of one workflow, \<open>Workflow_Frames\<close>,
    \<open>Workflow_Runs\<close>, \<open>Workflow_Schedule\<close>, \<open>Workflow_Service\<close> show that the engine implements it and that
    scheduling converges; \<open>Snapshot\<close> reasons about a copy carried from write to write;
    \<open>Workflow_Reference\<close> has reference definitions of helpers; \<open>Planning\<close> is \<open>contracts/project-manager.ts\<close>
    and the planning entry point.
  \<^item> \<open>Tools\<close>, \<open>Tool_Engine\<close>, \<open>Tool_Calls\<close>: \<open>contracts/tools.ts\<close>, \<open>core/tools\<close>, and their guarantees.
  \<^item> \<open>Leases\<close>, \<open>Assignments\<close>, \<open>Assignment_Service\<close>, \<open>Staffing\<close>: \<open>core/orchestrator/lease-manager.ts\<close>,
    \<open>contracts/assignment.ts\<close>, \<open>core/environments/agent-qualification-router.ts\<close>,
    \<open>core/orchestrator/assignment-system.ts\<close>, and their guarantees.
  \<^item> \<open>Accounts\<close>, \<open>Access\<close>, \<open>Account_Races\<close>, \<open>Access_Laws\<close>: \<open>contracts/access.ts\<close>, \<open>contracts/control.ts\<close>,
    \<open>core/access\<close>, the commits of interleaved calls and what they keep.
  \<^item> \<open>Env_Contracts\<close>, \<open>Env_Registry\<close>, \<open>Env_Router\<close>, \<open>Env_Requirements\<close>, \<open>Env_Laws\<close>: \<open>contracts/environments.ts\<close>,
    \<open>core/environments\<close> (registry, router, toolchain mapping), \<open>contracts/environment-adapters.ts\<close>, and the
    registry's invariant and exact routing.
  \<^item> \<open>Exec_Paths\<close>, \<open>Exec_Contracts\<close>, \<open>Exec_Policy\<close>, \<open>Exec_Operations\<close>, \<open>Exec_Sessions\<close>, \<open>Exec_Receipts\<close>,
    \<open>Exec_Plans\<close>, \<open>Utf\<close> (the UTF-16 and UTF-8 conversions of Node's \<open>Buffer\<close>): \<open>contracts/workspace-paths.ts\<close>, \<open>contracts/execution.ts\<close>, \<open>contracts/planning.ts\<close> and the files of
    \<open>core/execution\<close> of those names. \<open>Exec_State\<close>, \<open>Exec_Adapters\<close>, \<open>Exec_Preflight\<close>, \<open>Exec_Manager\<close>: the state of the
    boundary, \<open>platform-adapters.ts\<close>, \<open>environment-adapters.ts\<close> and \<open>execution-manager.ts\<close>.
  \<^item> \<open>Exec_Path_Laws\<close>, \<open>Exec_Policy_Laws\<close>, \<open>Exec_Session_Laws\<close>, \<open>Exec_Redaction\<close>: confinement, immutable versions and
    verdicts, the history of the session store, complete redaction and the shape of what is cut. \<open>Exec_Frames\<close> is what an evaluation leaves
    alone, \<open>Exec_Routing_Laws\<close> what a resolution promises, \<open>Exec_Gate_Laws\<close> that an eligible verdict means every
    gate's condition, \<open>Exec_Lease_Laws\<close> the bound on leases, \<open>Exec_Creation_Laws\<close> the sessions that are created.
  \<^item> \<open>Sorting\<close>: comparison functions and the stable sort. \<open>Audited\<close>: running statements step by step. \<open>Demo\<close>,
    \<open>Demo_Workflow\<close>, \<open>Demo_Tools\<close>, \<open>Demo_Access\<close>, \<open>Demo_Execution\<close>: concrete values for the
    witnesses. \<open>Further_Facts\<close>: theorems that are not in the manifest.

  Lemma groups. \<open>keeps R m\<close> says every run of \<open>m\<close> relates the state before and after by \<open>R\<close>; a
  component proves it for its operations, once per relation, and callers compose it. A mediation
  theorem compares two runs that differ in the agent or handler only: if they differ at most where a
  call is cleared, the runs agree, so nothing runs that is not cleared.

  Bounds and fuel. The engine's scheduling loop is bounded in the code by \<open>maxPasses\<close>; the model keeps that
  bound, and \<open>scheduling_converges\<close> shows it is never what stops a run. The depth-first search of
  \<open>findCycle\<close> recurses on a fuel that is the number of nodes, which \<open>cycle_detection_decides\<close> shows is enough.
  The id loop of the audit log ends because only finitely many ids are taken. Redaction and splitting consume
  their text, so they end by its length.

  Not modelled, with reasons in the manifest: transport and user interface, adapters over external services,
  model calls and prompts, floating-point scoring and money, views over the state; of the execution boundary
  the invocation of tools in a sandbox, the bridge to runners, reconciliation after a restart, and verification.
  Asynchronous calls of one engine run one after the other; interleavings of concurrent requests
  appear as sequences of operations.
\<close>

section \<open>Orchestration\<close>

text \<open>
  C1. Submission mediates execution. Two orchestrators that differ in their executor only, and
  whose executors agree on the cleared dispatches (every declared permission granted, no approval
  required, the agent a capable candidate the operator gate has enabled), return the same result
  and the same state for every submission. So a task that is not cleared is never executed.
\<close>

theorem submission_mediated:
  assumes "selects_candidate cfg"
    and "\<And>a t g c. cleared cfg t a \<Longrightarrow> capable t a \<Longrightarrow> enabled cfg a \<Longrightarrow> e1 a t g c = e2 a t g c"
  shows "submit (with_executor cfg e1) d ctx s = submit (with_executor cfg e2) d ctx s"
  using assms by (rule submit_mediated)

theorem submission_mediated_witness:
  "submit (with_executor demo_cfg returning) demo_draft None (demo_state\<lparr>agents := [(''coder'', demo_agent)]\<rparr>)
   = submit (with_executor demo_cfg throwing) demo_draft None (demo_state\<lparr>agents := [(''coder'', demo_agent)]\<rparr>)"
  by (rule submission_mediated [OF demo_selects]) (simp add: demo_not_cleared)

text \<open>
  C2. A parked task runs on an approved record only: unless the approval the task names is
  already approved, resuming it gives the same result and state for every executor, whether
  or not stale requests are expired on the way.
\<close>

theorem resumption_mediated:
  fixes s :: "'x registry_state_scheme"
  assumes "mem_findById i (tasks s) = Some task" "task_approvalId task = Some ai"
    and "\<And>a. mem_findById ai (approvals s) = Some a \<Longrightarrow> approval_status a \<noteq> Approved"
  shows "resume (with_executor cfg e1) i asOf s = resume (with_executor cfg e2) i asOf s"
  using assms by (rule resume_mediated)

theorem resumption_mediated_witness:
  "resume (with_executor demo_cfg returning) ''t1'' (Some 9) parked_state
   = resume (with_executor demo_cfg throwing) ''t1'' (Some 9) parked_state"
  by (rule resumption_mediated [of _ _ demo_task "''a1''"])
    (simp_all add: parked_state_def mem_findById_def demo_task_def demo_approval_def)

text \<open>
  C3. Every submission settles. It is rejected at creation and stores nothing, or returns a task
  under an unused id, stored as returned, that is blocked, failed, awaiting approval or
  completed. The executor may throw or return, and does not write the task store itself; the
  texts an approval policy states are not blank.
\<close>

theorem submission_settles:
  fixes s :: "'x registry_state_scheme"
  assumes "executor_leaves_tasks cfg" "policy_states_texts cfg"
  shows "(\<exists>e u. submit cfg d ctx s = (Inl e, u) \<and> tasks u = tasks s) \<or>
    (\<exists>t u. submit cfg d ctx s = (Inr t, u) \<and> mem_findById (task_id t) (tasks s) = None \<and>
       mem_findById (task_id t) (tasks u) = Some t \<and> settled (task_status t))"
  using assms by (rule submit_settles)

theorem submission_settles_witness:
  "(\<exists>e u. submit demo_cfg demo_draft None demo_state = (Inl e, u) \<and> tasks u = tasks demo_state) \<or>
    (\<exists>t u. submit demo_cfg demo_draft None demo_state = (Inr t, u) \<and>
       mem_findById (task_id t) (tasks demo_state) = None \<and>
       mem_findById (task_id t) (tasks u) = Some t \<and> settled (task_status t))"
  by (rule submission_settles [OF demo_leaves_tasks demo_texts])

text \<open>
  C4. Whatever the orchestrator is asked, the contracts of the components it drives hold between the states
  before and after: tasks, approvals and handoffs move along their lifecycle edges and are never lost, the
  registry keeps its history, and the audit log only grows. The agents it executes may make any sequence of
  calls of the task, approval, handoff, registry and audit components (every public operation but the deletion
  of a task and the unguarded save of a handoff), and change anything outside those stores (\<open>executor_calls\<close>).
\<close>

theorem core_contracts_kept:
  assumes "executor_calls A cfg"
  shows "keeps core_keeps (submit cfg d ctx) \<and> keeps core_keeps (resume cfg i asOf) \<and>
    keeps core_keeps (recordApprovalDecision ai dec who md :: ('x registry_state_scheme, Approval) op) \<and>
    keeps core_keeps (requestHandoff h :: ('x registry_state_scheme, Handoff) op)"
  by (intro conjI core_submit core_resume core_recordApprovalDecision core_requestHandoff
      executor_calls_keep [OF assms])

theorem core_contracts_kept_witness:
  "keeps core_keeps (submit demo_cfg demo_draft None) \<and> keeps core_keeps (resume demo_cfg ''t1'' None)"
  using core_contracts_kept [OF demo_executor_calls] by blast

text \<open>
  C5. The orchestrator approves nothing by itself. If the agents it executes act on the core by its operations
  and decide positively on approvals of a set \<open>A\<close> only, then a submission or a resumption leaves every approved
  record outside \<open>A\<close> as it was: it was approved before, unchanged. An expiry sweep and a negative decision
  approve no record at all, and a recorded decision approves at most the record it names. Each of them keeps
  the rules of the store of approvals (an id is drawn once and names one record), which it relies on.
\<close>

theorem only_decisions_approve:
  assumes "executor_calls A cfg"
  shows "keeps (approved_only A) (submit cfg d ctx) \<and> keeps (approved_only A) (resume cfg i asOf) \<and>
    keeps (approved_only {}) (expireStale at :: ('x registry_state_scheme, Approval list) op) \<and>
    keeps (approved_only {}) (recordApprovalDecision ai DecideRejected who md :: ('x registry_state_scheme, Approval) op) \<and>
    keeps (approved_only {ai}) (recordApprovalDecision ai dec who md :: ('x registry_state_scheme, Approval) op)"
  by (intro conjI approved_submit approved_resume approved_steps approved_recordApprovalDecision assms) simp_all

theorem only_decisions_approve_witness:
  "keeps (approved_only {}) (submit demo_cfg demo_draft None) \<and> keeps (approved_only {}) (resume demo_cfg ''t1'' None)"
  using only_decisions_approve [OF demo_executor_calls [of "{}"]] by blast

section \<open>Workflows\<close>

text \<open>
  C6. The workflow engine implements the abstract workflow machine. Provided no execution of an agent writes
  the store of workflows (\<open>leaves_workflows\<close>; agents may otherwise do, return or throw anything), running or
  resuming a stored workflow changes it by admissible steps only, leaves every other workflow alone, and when
  it returns, it returns the stored workflow, completed, failed or awaiting approval. The steps start a task after its dependencies, retry within the policy,
  skip below a failure, and complete a workflow when all its tasks are.
\<close>

theorem workflow_engine_refines:
  assumes "leaves_workflows eng" "all_sound s" "mem_findById i (workflows s) = Some w"
    and "m \<in> {engine_run eng i, engine_resume eng i}"
  shows "(\<exists>w'. mem_findById i (workflows (snd (m s))) = Some w' \<and> wf_steps UNIV w w' \<and>
      (\<forall>x. fst (m s) = Inr x \<longrightarrow> x = w' \<and> wf_status x \<in> {WCompleted, WFailed, WAwaitingApproval})) \<and>
    (\<forall>j. j \<noteq> i \<longrightarrow> mem_findById j (workflows (snd (m s))) = mem_findById j (workflows s))"
proof -
  have "wf_id w = i" using assms(2,3) by (simp add: all_sound_def)
  with assms(4) track_run [OF assms(1), of w] track_resume [OF assms(1), of w]
  have "wtracks UNIV w m (\<lambda>x w'. w' = x \<and> ended x)" by auto
  from sound_tracked(2,3) [OF assms(2,3) this] show ?thesis by (simp add: ended_def)
qed

theorem workflow_engine_refines_witness:
  "\<exists>w'. mem_findById ''w1'' (workflows (snd (engine_run demo_engine ''w1'' demo_workflow_state))) = Some w' \<and>
     wf_steps UNIV demo_workflow w'"
  using workflow_engine_refines [OF demo_leaves_workflows demo_sound demo_workflow_stored insertI1] by blast

text \<open>
  C7. Dependency order and limits, in the store a submission leaves behind: a task that was ever
  dispatched, or has settled, has all its dependencies completed; a skipped task has a failed,
  blocked or skipped dependency; no task was retried beyond the policy; no more agents were
  executed than the limit allows; and a completed workflow has completed every task.
\<close>

theorem workflow_dependency_order:
  assumes "leaves_workflows eng" "all_sound s"
    and "mem_findById i (workflows (snd (engine_submit eng d s))) = Some w" "spec \<in> set (wf_tasks w)"
  shows "(has_task w (ts_id spec) \<or>
        status_of w (ts_id spec) \<in> {Some SAwaitingApproval, Some SCompleted, Some SFailed, Some SBlocked} \<longrightarrow>
      (\<forall>dep \<in> set (ts_dependsOn spec). status_of w dep = Some SCompleted)) \<and>
    (status_of w (ts_id spec) = Some SSkipped \<longrightarrow>
      (\<exists>dep \<in> set (ts_dependsOn spec). status_of w dep \<in> {Some SFailed, Some SBlocked, Some SSkipped})) \<and>
    (\<forall>n. retry_of w (ts_id spec) = Some n \<longrightarrow> 0 \<le> n \<and> n \<le> max 0 (maxRetries (retryPolicy w))) \<and>
    agentExecutions (counters w) \<le> max 0 (maxAgentExecutions (limits w)) \<and>
    (wf_status w = WCompleted \<longrightarrow> status_of w (ts_id spec) = Some SCompleted)"
proof -
  have inv: "wf_inv w"
    using submit_sound [OF assms(1,2), of d] assms(3) by (auto simp: all_sound_def)
  have deps: "\<forall>dep \<in> set (ts_dependsOn spec). status_of w dep = Some SCompleted" if "attempted w (ts_id spec)"
    using wf_invD(2) [OF inv assms(4) that] by (simp add: deps_done_def list_all_iff)
  have skipped: "\<exists>dep \<in> set (ts_dependsOn spec). status_of w dep \<in> {Some SFailed, Some SBlocked, Some SSkipped}"
    if "status_of w (ts_id spec) = Some SSkipped"
    using wf_invD(3) [OF inv assms(4) that] unfolding list_ex_iff broken_def .
  show ?thesis
    using deps skipped wf_invD(4) [OF inv assms(4)] wf_invD(5) [OF inv] wf_invD(6) [OF inv _ assms(4)]
    unfolding attempted_def by blast
qed

theorem workflow_dependency_order_witness:
  "\<exists>i w. mem_findById i (workflows (snd (engine_submit demo_engine demo_workflow_draft demo_workflow_state))) = Some w \<and>
     map ts_id (wf_tasks w) = [''a'', ''b''] \<and> agentExecutions (counters w) \<le> max 0 (maxAgentExecutions (limits w))"
proof -
  obtain i w where w: "mem_findById i (workflows (snd (engine_submit demo_engine demo_workflow_draft demo_workflow_state))) = Some w"
      "wf_tasks w = map spec_of (wd_tasks demo_workflow_draft)"
    using demo_submission_stored by blast
  then have "spec_of (demo_spec ''a'' []) \<in> set (wf_tasks w)" by (simp add: demo_workflow_draft_def)
  with workflow_dependency_order [OF demo_leaves_workflows demo_sound w(1)]
  have "agentExecutions (counters w) \<le> max 0 (maxAgentExecutions (limits w))" by blast
  moreover have "map ts_id (wf_tasks w) = [''a'', ''b'']"
    by (simp add: w(2) demo_workflow_draft_def demo_spec_def spec_of_def)
  ultimately show ?thesis using w(1) by (intro exI [of _ i] exI [of _ w] conjI)
qed

text \<open>
  C8. Scheduling converges: whenever the retry limit is not negative, the ceiling on scheduling
  passes is never reached. A schedule with any number of additional passes has the same result
  and the same state, so it never ends in the internal error that guards the loop.
\<close>

theorem scheduling_converges:
  assumes "leaves_workflows eng" "wf_inv w" "mem_findById (wf_id w) (workflows s) = Some w"
    and "wf_status w = WRunning" "0 \<le> maxRetries (retryPolicy w)"
  shows "passes eng startedAt (maxPasses w + extra) w s = schedule eng w startedAt s"
  using passes_enough [OF assms(1,4,2) _ budget_bound [OF assms(2,5)]] assms(3)
  by (simp add: schedule_def current_def)

theorem scheduling_converges_witness:
  "passes demo_engine 0 (maxPasses demo_workflow + 7) demo_workflow demo_workflow_state
   = schedule demo_engine demo_workflow 0 demo_workflow_state"
  by (rule scheduling_converges [OF demo_leaves_workflows demo_workflow_inv])
    (simp_all add: demo_workflow_id demo_workflow_stored demo_workflow_budget)

text \<open>
  C9. Cycle detection decides: the search always returns, a reported path is a cycle of the
  dependency graph that begins and ends in the same node, and nothing is reported exactly when
  the graph is acyclic.
\<close>

theorem cycle_detection_decides:
  "search_all (length nodes) (deps_of nodes) (map node_id nodes) (all_white nodes, []) \<noteq> None \<and>
   (case findCycle nodes of
      None \<Rightarrow> acyclic {(x, y). edge (deps_of nodes) x y}
    | Some cyc \<Rightarrow> is_cycle (deps_of nodes) cyc \<and> \<not> acyclic {(x, y). edge (deps_of nodes) x y})"
proof -
  have "is_cycle (deps_of nodes) cyc \<and> \<not> acyclic {(x, y). edge (deps_of nodes) x y}" if "findCycle nodes = Some cyc" for cyc
    using that findCycle_sound findCycle_iff [of nodes] by fastforce
  then show ?thesis
    using search_all_returns findCycle_iff [of nodes] by (simp split: option.split)
qed

text \<open>
  C10. Planning from an objective: at the maximal delegation depth, or when the project manager is not
  registered, it is refused and changes nothing. Otherwise it either throws and leaves every workflow as it
  was, or the planning task completed, the validator accepted its output as a decision, and the workflow
  created from the subtasks of that very decision is stored. A decomposition the validator accepts is not
  empty, has unique ids, names only its own subtasks as dependencies, is acyclic, and recommends an agent or a
  capability for every subtask. Assumed: a store of sound workflows, and agents that do not write it.
\<close>

theorem planning_validated:
  assumes "leaves_workflows eng" "all_sound s"
  shows "(maxDepth p \<le> depth \<or> \<not> registry_has pm s \<longrightarrow> (\<exists>e. planFromObjective eng pm p depth s = (Inl e, s))) \<and>
    ((\<exists>e u. planFromObjective eng pm p depth s = (Inl e, u) \<and> workflows u = workflows s) \<or>
     (\<exists>d w. plan_adopted eng p s d w (workflows (snd (planFromObjective eng pm p depth s))) \<and>
        (pd_mode d = Decompose \<longrightarrow> plan_ok (pd_subtasks d)) \<and>
        all_sound (snd (planFromObjective eng pm p depth s))))"
proof
  show "maxDepth p \<le> depth \<or> \<not> registry_has pm s \<longrightarrow> (\<exists>e. planFromObjective eng pm p depth s = (Inl e, s))"
    by (auto simp: planFromObjective_def bindS_def)
qed (use planFromObjective_cases [OF assms, of pm p depth] plan_adopted_ok in blast)

theorem planning_validated_witness:
  "(\<exists>e. planFromObjective demo_engine ''pm'' demo_objective 1 demo_workflow_state = (Inl e, demo_workflow_state)) \<and>
   (\<exists>d. validateProjectManagerDecision demo_decision = Inr d \<and> plan_ok (pd_subtasks d))"
proof
  have "maxDepth demo_objective \<le> 1" by code_simp
  then show "\<exists>e. planFromObjective demo_engine ''pm'' demo_objective 1 demo_workflow_state = (Inl e, demo_workflow_state)"
    using planning_validated [OF demo_leaves_workflows demo_sound, of demo_objective 1 "''pm''"] by blast
  show "\<exists>d. validateProjectManagerDecision demo_decision = Inr d \<and> plan_ok (pd_subtasks d)"
    by (rule demo_decision_ok)
qed

section \<open>The execution control boundary\<close>

text \<open>
  C11. Pre-flight admission, on an environment registry that keeps the rules of C22 and agents stored under their
  ids: when the pre-flight declares a request eligible, the operator may prepare executions in the project; the
  plan revision is the current one and not draft, blocked or superseded, and has the stage; the operation is
  registered for the stage, its tool is registered and allowed for project and agent, its input is valid; the
  agent is the one the plan assigned to the agent requirement of that stage, is registered, enabled, allowed in
  the project and has its capabilities; the project's policy permits every capability, risk and network access; a
  needed approval names exactly this revision and has not expired; the environment is the one the plan selected
  for that stage, is available and fits; a routed operation has a compatible adapter and a live, permitted runner
  with a free slot; a sandbox provider can serve it; and the verdict reports this operation, agent, environment,
  policy, limits and network.
\<close>

theorem preflight_admission:
  assumes "preflight cfg p r s = (Inr result, t)" "pf_eligible result" "records_sound s"
  shows "authorizeExecution cfg p (xr_projectId r) ''prepare_execution'' = Inr () \<and>
    (\<exists>plan stage op policy a i. work_admitted cfg r False plan stage op a s \<and> policy_admitted r plan op policy s \<and>
       place_admitted cfg r plan stage op (evaluatePolicy policy op) i s \<and> verdict_names result op policy a i)"
proof -
  obtain e u where e: "evaluateRequest cfg p r False s = (Inr e, u)" "result = e\<lparr>pf_internal := None\<rparr>"
    using assms(1) by (auto simp: preflight_def thenS_def bindS_Inr_iff)
  then have "pf_eligible e" and names: "verdict_names result = verdict_names e"
    using assms(2) by (auto simp: verdict_names_def fun_eq_iff)
  with evaluation_admitted [OF e(1)] assms(3) show ?thesis
    unfolding names records_sound_def by blast
qed

theorem preflight_admission_witness:
  "\<exists>result t. preflight run_config run_operator run_request run_state = (Inr result, t) \<and>
     (\<exists>plan stage op a. work_admitted run_config run_request False plan stage op a run_state)"
proof -
  have "(case preflight run_config run_operator run_request run_state of (r, t) \<Rightarrow>
      case r of Inl e \<Rightarrow> False | Inr x \<Rightarrow> pf_eligible x)"
    by code_simp
  then obtain result t where "preflight run_config run_operator run_request run_state = (Inr result, t)" "pf_eligible result"
    by (auto split: prod.splits sum.splits)
  then show ?thesis using preflight_admission [OF _ _ boundary_sound] by blast
qed

text \<open>
  C12. Session creation, on an environment registry that keeps the rules of C22 and agents stored under their ids:
  a call with an operator's idempotency key that was used returns the session of that key and changes nothing;
  with a new key it stores one session, under a new id and the key. The session is ready only if the operator may
  prepare executions, its operation, agent, environment, policy version, limits and network are those of a request
  that passed every gate of C11 (the input left to the invocations when further operations are named without
  one), every further operation passed them on its own, and the session holds exactly one grant per capability
  the policy gave each of these operations, bound to the session, its agent and environment, until the policy's
  time to live; otherwise it is denied with reasons and without any grant.
\<close>

theorem session_creation:
  assumes "createSession cfg p r key s = (Inr (t, replayed), s')" "records_sound s"
  shows "case findByIdempotencyKey (op_id p) key (x_sessions s) of
      Some x \<Rightarrow> t = x \<and> replayed \<and> s' = s \<and> sameRequest t r
    | None \<Rightarrow> \<not> replayed \<and> getSession (es_sessionId t) (x_sessions s) = None \<and>
        getSession (es_sessionId t) (x_sessions s') = Some t \<and>
        findByIdempotencyKey (op_id p) key (x_sessions s') = Some t \<and> accounted cfg p r s t"
  using assms by (rule created)

theorem session_creation_witness:
  "\<exists>t s'. createSession run_config run_operator run_request ''k1'' run_state = (Inr (t, False), s') \<and>
     es_status t = Es_ready \<and> accounted run_config run_operator run_request run_state t"
proof -
  obtain t s' where run: "createSession run_config run_operator run_request ''k1'' run_state = (Inr (t, False), s')"
    "es_status t = Es_ready"
    using run_created by (cases "createSession run_config run_operator run_request ''k1'' run_state")
      (auto simp: created_of_def split: sum.splits)
  moreover have "findByIdempotencyKey (op_id run_operator) ''k1'' (x_sessions run_state) = None" by code_simp
  ultimately show ?thesis using session_creation [OF run(1) boundary_sound] by auto
qed

text \<open>
  C13. Session history under interleaved clients: clients that read sessions, create some and write back what
  they computed from the version they read, expecting its revision, keep the store sound (each session under
  its id, attempts numbered and all but the last closed, one session per operator and key), and every session
  stays, with its identity, its path through the lifecycle, its closed attempts and its times, at a revision
  that only grows, so no write is lost.
\<close>

theorem session_history:
  assumes "store_step\<^sup>*\<^sup>* (h, st) (h', st')" "session_store_ok (h, st)"
  shows "session_store_ok (h', st') \<and>
    (\<forall>i s. getSession i st = Some s \<longrightarrow> (\<exists>t. getSession i st' = Some t \<and> session_evolves s t))"
  using store_history [OF assms] by (simp add: sessions_advance_def)

theorem session_history_witness:
  "session_store_ok (((\<lambda>c. None) :: nat clients)(0 := Some first_session), saved_session) \<and>
     (\<exists>t. getSession ''s1'' saved_session = Some t \<and> session_evolves first_session t)"
proof -
  have "session_store_ok (((\<lambda>c. None) :: nat clients)(0 := Some first_session), one_session)"
    using session_history [OF sessions_run(1) no_sessions_ok] by blast
  from session_history [OF sessions_run(2) this] one_session_get show ?thesis by blast
qed

text \<open>
  C14. Runner capacity: from a boundary without runners and leases, whatever registrations, acquisitions,
  releases, expirations, resolutions, pre-flights and session creations are called, no runner holds more
  leases than its capacity and no lease names an unknown runner.
\<close>

theorem runner_capacity:
  assumes "boundary_call\<^sup>*\<^sup>* s t" "ar_runners (x_adapters s) = []" "ar_leases (x_adapters s) = []"
  shows "(\<forall>runnerId d. getRunner runnerId t = Some d \<longrightarrow> int (length (leases_of runnerId t)) \<le> rd_capacity d) \<and>
    (\<forall>(i, l) \<in> set (ar_leases (x_adapters t)). getRunner (rl_runnerId l) t \<noteq> None)"
proof -
  have "leases_bounded s" using assms(2,3) by (simp add: leases_bounded_def getRunner_def)
  then have "leases_bounded t" using boundary_calls_safe [OF assms(1)] by (simp add: lease_safe_def)
  then show ?thesis by (simp add: leases_bounded_def leases_of_length)
qed

theorem runner_capacity_witness:
  "length (leases_of ''r1'' leased_state) \<le> 1 \<and> map rl_sessionId (leases_of ''r1'' leased_state) = [''s1'']"
proof -
  have held: "map rl_sessionId (leases_of ''r1'' leased_state) = [''s1'']"
    and runner: "map_option rd_capacity (getRunner ''r1'' leased_state) = Some 1" by code_simp+
  from runner obtain d where d: "getRunner ''r1'' leased_state = Some d" "rd_capacity d = 1" by auto
  have "ar_runners (x_adapters bare_state) = []" "ar_leases (x_adapters bare_state) = []" by (simp_all add: bare_state_def)
  from runner_capacity [OF leased_reachable this] d have "int (length (leases_of ''r1'' leased_state)) \<le> 1" by metis
  then show ?thesis using held by simp
qed

text \<open>
  C15. Registered policies are immutable: from an empty registry, after any calls that return or throw, a policy
  version that can be read is valid, carries the id and version it is read by, and reads the same after any
  further calls; and once the fallback version is registered every project has a policy.
\<close>

theorem policy_versions_immutable:
  assumes "registry_call\<^sup>*\<^sup>* \<lparr>reg_policies = [], reg_bindings = [], reg_fallback = fb\<rparr> r" "registry_call\<^sup>*\<^sup>* r r'"
    and "getPolicy i v r = Some p"
  shows "getPolicy i v r' = Some p \<and> pol_policyId p = i \<and> pol_version p = v \<and> validateExecutionPolicy p = Inr () \<and>
    (reg_fallback r' = (i, v) \<longrightarrow> forProject projectId r' \<noteq> None)"
proof -
  have "policies_ok \<lparr>reg_policies = [], reg_bindings = [], reg_fallback = fb\<rparr>" by (simp add: policies_ok_def)
  then have "policies_ok r" "policies_ok r'" using assms(1,2) calls_ok by blast+
  moreover have "getPolicy i v r' = Some p" by (rule calls_keep [OF assms(2,3)])
  ultimately show ?thesis using found_policy forProject_found [of r' projectId] assms(3) by auto
qed

theorem policy_versions_immutable_witness:
  "let r = snd (registerPolicy run_policy \<lparr>reg_policies = [], reg_bindings = [], reg_fallback = (''web'', 1)\<rparr>);
       r' = snd (registerPolicy (run_policy\<lparr>pol_rules := []\<rparr>) r)
   in getPolicy ''web'' 1 r' = Some run_policy"
proof -
  let ?r = "snd (registerPolicy run_policy \<lparr>reg_policies = [], reg_bindings = [], reg_fallback = (''web'', 1)\<rparr>)"
  let ?r' = "snd (registerPolicy (run_policy\<lparr>pol_rules := []\<rparr>) ?r)"
  have "?r = \<lparr>reg_policies = map_set (policy_key (pol_policyId run_policy) (pol_version run_policy)) run_policy [],
      reg_bindings = [], reg_fallback = (''web'', 1)\<rparr>"
    using run_policy_valid by (simp add: registerPolicy_def op_simps getPolicy_def)
  moreover have "pol_policyId run_policy = ''web''" "pol_version run_policy = 1"
    by (simp_all add: run_policy_def BASELINE_DENY_ALL_POLICY_def)
  ultimately have "getPolicy ''web'' 1 ?r = Some run_policy" by (simp add: getPolicy_def)
  moreover have "registry_call\<^sup>*\<^sup>* \<lparr>reg_policies = [], reg_bindings = [], reg_fallback = (''web'', 1)\<rparr> ?r" "registry_call\<^sup>*\<^sup>* ?r ?r'"
    by (intro r_into_rtranclp registry_call.register)+
  ultimately show ?thesis using policy_versions_immutable [of "(''web'', 1)" ?r ?r' "''web''" 1 run_policy] by simp
qed



text \<open>
  C17. Sandbox selection: the selected provider is registered, answers for the instance, supports the network
  mode, enforces every required limit and, unless the policy's rule opted into a host process or a trusted
  host build that needs neither network nor more, isolates both file system and network; no provider that
  could serve is better isolated.
\<close>

theorem sandbox_selection:
  assumes "comparison lc" "selectProvider lc r i n needs = Some p"
  shows "p \<in> snd ` set r \<and> sp_available p i \<and> supports_mode (sp_caps p) n \<and>
    (\<forall>k \<in> set REQUIRED_LIMIT_KEYS. k \<in> set (sc_enforcedLimits (sp_caps p))) \<and>
    (n \<noteq> Deny_all \<or> sn_network needs \<longrightarrow> sc_networkIsolation (sp_caps p)) \<and>
    (sc_filesystemIsolation (sp_caps p) \<and> sc_networkIsolation (sp_caps p) \<or>
     \<not> sn_network needs \<and> sn_hostProcess needs \<and> sn_workspaceAccess needs = Wa_none \<or>
     \<not> sn_network needs \<and> sn_trustedHostBuild needs \<and> sn_class needs = Some Project_code) \<and>
    (\<forall>q \<in> snd ` set r. can_serve i n needs q \<longrightarrow> isolation q \<le> isolation p)"
proof -
  have serve: "can_serve i n needs p" using selectProvider_best [OF assms] by blast
  have "sp_available p i \<and> supports_mode (sp_caps p) n" using serve by (auto simp: can_serve_def Let_def split: if_splits)
  then show ?thesis using selectProvider_best [OF assms] can_serve_isolated [OF serve] by blast
qed

theorem sandbox_selection_witness:
  "isolation run_provider = 2 \<and> set REQUIRED_LIMIT_KEYS \<subseteq> set (sc_enforcedLimits (sp_caps run_provider))"
proof -
  let ?needs = "sandbox_needs [] run_operation (evaluatePolicy run_policy run_operation) (Some ''runner:r1'')"
  have "selectProvider code_unit_cmp [(''runner:r1'', run_provider)] ''env'' Deny_all ?needs =
      (if can_serve ''env'' Deny_all ?needs run_provider then Some run_provider else None)"
    by (simp add: selectProvider_def js_sort_def)
  moreover have "can_serve ''env'' Deny_all ?needs run_provider" by code_simp
  ultimately have "selectProvider code_unit_cmp [(''runner:r1'', run_provider)] ''env'' Deny_all ?needs = Some run_provider" by simp
  from sandbox_selection [OF code_units.comparison_axioms this] show ?thesis
    by (auto simp: isolation_def run_provider_def)
qed

text \<open>
  C18. Workspace paths: a path the workspace rules accept becomes one that consists of plain segments (no empty
  segment, no dot or double dot, no separator, drive, control character or reserved device name), resolves
  below any root it is resolved against, and is accepted unchanged when it is checked again, but for a path
  that begins with a tilde, which the second check refuses.
\<close>

theorem workspace_paths_confined:
  assumes "resolveWorkspacePath p = Inr q"
  shows "(\<forall>s \<in> set (canonical_segments q). s \<noteq> [] \<and> s \<noteq> ''.'' \<and> s \<noteq> ''..'' \<and> \<not> windows_reserved s \<and>
      CHR ''/'' \<notin> set s \<and> CHR 0x5C \<notin> set s \<and> CHR '':'' \<notin> set s \<and> \<not> list_ex control_char s) \<and>
    posix_resolve root q = absolute_of (resolved_segments root @ canonical_segments q) \<and>
    isPathInside cwd (posix_resolve cwd root) (posix_resolve (posix_resolve cwd root) q) \<and>
    resolveWorkspacePath q = (if js_startsWith q ''~'' then Inl (violation ''home expansion is not allowed'') else Inr q)"
  using canonical_shape(1) [OF assms] canonical_below [OF assms] canonical_fixed [OF assms] by blast

theorem workspace_paths_confined_witness:
  "resolveWorkspacePath ''a/b/c'' = Inr ''a/b/c'' \<and> isPathInside ''/'' (posix_resolve ''/'' ''/w'') (posix_resolve (posix_resolve ''/'' ''/w'') ''a/b/c'') \<and>
   resolveWorkspacePath ''~x'' = Inl (violation ''home expansion is not allowed'')"
proof -
  have paths: "resolveWorkspacePath ''./~x'' = Inr ''~x''" "resolveWorkspacePath ''a//b/./c'' = Inr ''a/b/c''" by code_simp+
  show ?thesis
    using workspace_paths_confined [OF paths(1)] workspace_paths_confined [OF paths(2), of "''/w''" "''/''"] by simp
qed



text \<open>
  C20. Receipts carry no secret: a receipt is made only when it states whether it was simulated and did not end
  before it started (as the clock parses its times), no text in any of its fields holds a credential of a known
  form, and every field is the one it was made from with each text in it redacted, whatever the field (numbers,
  booleans, keys and the shape stay), apart from the record of the redaction, which counts what was redacted. A text
  without a credential of a known form and without a known secret stays as it is.
\<close>

theorem receipt_redacted:
  assumes "createExecutionReceipt parse input known = Inr q"
  shows "is_boolean (js_get input ''simulated'') \<and>
    \<not> precedes parse (js_get input ''endedAt'') (js_get input ''startedAt'') \<and>
    (\<forall>t \<in> set (texts_of (JObj q)). no_secret t) \<and>
    (\<forall>k. k \<noteq> ''redaction'' \<longrightarrow> js_get q k = map_texts (clean_text known) (js_get input k)) \<and>
    js_get q ''redaction'' = JObj [(''applied'', JBool True), (''redactedValues'',
      JNum (int (sum_list (map (\<lambda>t. snd (redactSecrets t known)) (texts_of (JObj input))))))] \<and>
    (\<forall>t. harmless id known t \<longrightarrow> clean_text known t = t)"
  using receipt_shape [OF assms] receipt_fields [OF assms] receipt_no_secret [OF assms] clean_text_same by blast

theorem receipt_redacted_witness:
  "\<exists>q. createExecutionReceipt demo_parse leaking_receipt [] = Inr q \<and> js_get q ''outputBytes'' = JNum 9 \<and>
     js_get q ''redaction'' = JObj [(''applied'', JBool True), (''redactedValues'', JNum 1)]"
proof -
  have "\<exists>q. createExecutionReceipt demo_parse leaking_receipt [] = Inr q"
    by (simp add: createExecutionReceipt_def leaking_receipt_def js_get_def precedes_def demo_parse_def split: prod.split)
  then obtain q where q: "createExecutionReceipt demo_parse leaking_receipt [] = Inr q" ..
  have "sum_list (map (\<lambda>t. snd (redactSecrets t [])) (texts_of (JObj leaking_receipt))) = 1" by code_simp
  moreover have "js_get leaking_receipt ''outputBytes'' = JNum 9" by code_simp
  ultimately show ?thesis using receipt_redacted [OF q] q by fastforce
qed

section \<open>Environments\<close>



text \<open>
  C22. The environment registry keeps its rules: from an empty registry, whatever calls return or throw, every
  instance is valid, free of credentials, of a registered descriptor and on a registered host, and no two
  instances share a host and a fingerprint.
\<close>

theorem environment_registry_rules:
  assumes "env_call\<^sup>*\<^sup>* \<lparr>env_descriptors = [], env_hosts = [], env_instances = []\<rparr> r"
  shows "(\<forall>i \<in> set (listInstances r). validateEnvironmentInstance i = Inr () \<and> assertNoCredentials i = Inr () \<and>
      getDescriptor (ei_descriptorId i) r \<noteq> None \<and> getHost (ei_hostId i) r \<noteq> None) \<and>
    (\<forall>i \<in> set (listInstances r). \<forall>j \<in> set (listInstances r).
      ei_hostId i = ei_hostId j \<and> ei_fingerprint i = ei_fingerprint j \<longrightarrow> i = j)"
  using env_calls_ok [OF assms env_ok_empty] by (simp add: env_ok_def instance_ok_def)

theorem environment_registry_rules_witness:
  "let r = snd (upsertInstance run_instance (snd (upsertHost run_host (snd (registerDescriptor run_descriptor
     \<lparr>env_descriptors = [], env_hosts = [], env_instances = []\<rparr>)))))
   in map ei_id (listInstances r) = [''env''] \<and> {i \<in> set (listInstances r). getHost (ei_hostId i) r = None} = {}"
proof -
  define r where "r = snd (upsertInstance run_instance (snd (upsertHost run_host (snd (registerDescriptor run_descriptor
     \<lparr>env_descriptors = [], env_hosts = [], env_instances = []\<rparr>)))))"
  have "map ei_id (listInstances r) = [''env'']" unfolding r_def by code_simp
  moreover have "env_call\<^sup>*\<^sup>* \<lparr>env_descriptors = [], env_hosts = [], env_instances = []\<rparr> r"
    unfolding r_def
    by (meson env_call.register_descriptor env_call.upsert_host env_call.upsert_instance r_into_rtranclp rtranclp.rtrancl_into_rtrancl)
  ultimately show ?thesis using environment_registry_rules [of r] unfolding r_def Let_def by blast
qed

text \<open>
  C23. Versions survive printing: a version with natural numbers and proper pre-release and build tags is what
  parsing its printed form yields.
\<close>

theorem version_print_parse:
  assumes "version_wf v"
  shows "parseVersion (formatVersion v) = Some v"
  using assms by (rule version_roundtrip)

theorem version_print_parse_witness:
  "parseVersion (formatVersion \<lparr>v_major = 18, v_minor = 4, v_patch = 0, v_preRelease = Some ''rc.1'', v_build = None\<rparr>) =
     Some \<lparr>v_major = 18, v_minor = 4, v_patch = 0, v_preRelease = Some ''rc.1'', v_build = None\<rparr>"
  by (rule version_print_parse) (simp add: version_wf_def tag_opt_def tag_ok_def tag_char_def)

section \<open>Tool calls\<close>

text \<open>
  C24. A tool handler runs for cleared calls only. Unless the request is valid, its tool is
  registered, agent, project and environment are allowed, input size and call counts are below the
  limits, the permission system grants the call, no approval is required and the input schema
  accepts the input, executing it has the same result and state for every handler. Resuming a
  parked request has the same result and state for every handler unless a human has approved it
  and the permission system still grants it.
\<close>

theorem tool_calls_mediated:
  "(\<not> call_cleared eng r s \<longrightarrow> tool_execute (with_handler eng h) r s = tool_execute eng r s) \<and>
   (\<not> resume_cleared eng i s \<longrightarrow> tool_resume (with_handler eng h) i asOf s = tool_resume eng i asOf s)"
  by (intro conjI impI tool_execute_mediated tool_resume_mediated)

theorem tool_calls_mediated_witness:
  "tool_execute (with_handler demo_tools hanging) demo_call (tool_state_of guarded_tool)
     = tool_execute demo_tools demo_call (tool_state_of guarded_tool) \<and>
   tool_resume (with_handler demo_tools hanging) ''r1'' None (tool_state_of guarded_tool)
     = tool_resume demo_tools ''r1'' None (tool_state_of guarded_tool)"
proof -
  have "\<not> resume_cleared demo_tools ''r1'' (tool_state_of guarded_tool)"
    by (simp add: resume_cleared_def tool_state_of_def)
  with guarded_call_not_cleared
    tool_calls_mediated [of demo_tools demo_call "tool_state_of guarded_tool" hanging "''r1''" None]
  show ?thesis by blast
qed



text \<open>
  C26. Every result answers its own request: it repeats the request's and the task's id; it carries
  an error exactly when the call did not succeed and was not parked, with a reason that belongs to
  its status; and it names an approval exactly when it is parked.
\<close>

theorem tool_results_coherent:
  "(tool_execute eng r s = (Inr x, u) \<longrightarrow> coherent r x) \<and>
   (tool_resume eng i asOf s = (Inr x, u) \<longrightarrow>
      (\<exists>p. map_of (pendingApprovals s) i = Some p \<and> coherent (pa_request p) x))"
  using tool_execute_coherent tool_resume_coherent by blast

theorem tool_results_coherent_witness:
  "\<exists>x u. tool_execute demo_tools demo_call (tool_state_of demo_tool) = (Inr x, u) \<and> coherent demo_call x"
proof -
  have "map_of (toolset (tool_state_of demo_tool)) (tq_toolId demo_call) = Some demo_tool"
    by (simp add: tool_state_of_def demo_tool_def demo_call_def)
  from tool_execute_cleared [OF demo_call_cleared this] obtain x u
    where "tool_execute demo_tools demo_call (tool_state_of demo_tool) = (Inr x, u)" by blast
  with tool_results_coherent [of demo_tools demo_call "tool_state_of demo_tool" x u] show ?thesis by blast
qed

section \<open>Staffing and write leases\<close>

text \<open>
  C27. Staffing is exact. When the descriptors have distinct ids, an assignment that comes back
  blocked means that no descriptor is suitable for the task, that its evidence is the verdict on each of them,
  and that nothing of the state but the audit log, the clock and the id counter changed; one that comes back assigned names a suitable descriptor and the
  version that was qualified, the first of the suitable ones by id, and is valid and stored.
  Suitable is: active, enabled, admitted to the project, supporting the task type, covering every
  required capability, sharing a technology, within the risk ceiling and the tool ceiling,
  compatible with an environment, not excluded and not the implementer.
\<close>

theorem staffing_exact:
  assumes "distinct (map agent_id ds)" "comparison lc" "assign lc ds r o' s = (Inr out, u)"
  shows "case out of
      OutcomeBlocked ev \<Rightarrow> (\<forall>d \<in> set ds. \<not> suitable d (exclusions r o') (ao_isEnabled o')) \<and>
        set ev = (\<lambda>d. qualifyDescriptor d (exclusions r o') (ao_isEnabled o')) ` set ds \<and>
        assignments u = assignments s \<and> leases u = leases s \<and> only_audit s u
    | OutcomeAssigned a \<Rightarrow> validateAssignment a = Inr () \<and> mem_findById (assignmentId a) (assignments u) = Some a \<and>
        (\<exists>d \<in> set ds. suitable d (exclusions r o') (ao_isEnabled o') \<and> asg_agentId a = agent_id d \<and>
           asg_descriptorVersion a = agent_version d \<and>
           (\<forall>d' \<in> set ds. suitable d' (exclusions r o') (ao_isEnabled o') \<longrightarrow> lc (agent_id d) (agent_id d') \<le> 0))"
  by (cases rule: assign_cases [OF assms(1,2), of r o' s]) (use assms(3) in auto)

theorem staffing_exact_witness:
  "\<exists>a u. selectReviewer code_unit_cmp [demo_descriptor] demo_review staff_state = (Inr (OutcomeAssigned a), u) \<and>
     asg_agentId a = ''reviewer'' \<and> validateAssignment a = Inr ()"
proof -
  obtain a u where run: "selectReviewer code_unit_cmp [demo_descriptor] demo_review staff_state = (Inr (OutcomeAssigned a), u)"
    using demo_reviewed by blast
  with staffing_exact [OF demo_distinct demo_comparison run [unfolded selectReviewer_def]]
  show ?thesis by (auto simp: demo_descriptor_def)
qed

text \<open>
  C28. Independence: the reviewer selected for a change set is never its author, and a reassigned
  task never goes back to the agent that held it; the replacement names the assignment it replaces,
  which was neither reassigned nor cancelled before.
\<close>

theorem staffing_independent:
  assumes "distinct (map agent_id ds)" "comparison lc"
  shows "(selectReviewer lc ds v s = (Inr (OutcomeAssigned a), u) \<longrightarrow> asg_agentId a \<noteq> ri_implementerAgentId v) \<and>
    (reassign lc ds i r reason o' t s = (Inr (OutcomeAssigned a), u) \<longrightarrow>
      (\<exists>failed. mem_findById i (assignments s) = Some failed \<and> asg_status failed \<notin> {AsReassigned, AsCancelled} \<and>
        asg_agentId a \<noteq> asg_agentId failed \<and> replacesAssignmentId a = Some (assignmentId failed) \<and>
        mem_findById (assignmentId a) (assignments u) = Some a))"
  using review_independent [OF assms] reassign_assigned [OF assms] by blast

theorem staffing_independent_witness:
  "\<exists>a u. selectReviewer code_unit_cmp [demo_descriptor] demo_review staff_state = (Inr (OutcomeAssigned a), u) \<and>
     asg_agentId a \<noteq> ''coder''"
proof -
  obtain a u where run: "selectReviewer code_unit_cmp [demo_descriptor] demo_review staff_state = (Inr (OutcomeAssigned a), u)"
    using demo_reviewed by blast
  with staffing_independent [OF demo_distinct demo_comparison, of demo_review staff_state a u] show ?thesis
    by (auto simp: demo_review_def)
qed

text \<open>
  C29. The conflict test of write scopes is exact: two non-empty scopes conflict if and only if some
  path lies in both.
\<close>

theorem scope_conflict_exact:
  assumes "a \<noteq> []" "b \<noteq> []"
  shows "scopesConflict a b \<longleftrightarrow> (\<exists>p. scopeCovers a p \<and> scopeCovers b p)"
  using assms by (rule scopesConflict_exact)

theorem scope_conflict_exact_witness:
  "(\<exists>p. scopeCovers [''src''] p \<and> scopeCovers [''src/api'', ''docs''] p) \<and>
   \<not> (\<exists>p. scopeCovers [''src''] p \<and> scopeCovers [''srcs''] p)"
proof -
  have "scopesConflict [''src''] [''src/api'', ''docs'']" "\<not> scopesConflict [''src''] [''srcs'']"
    by code_simp+
  with scope_conflict_exact [of "[''src'']" "[''src/api'', ''docs'']"] scope_conflict_exact [of "[''src'']" "[''srcs'']"]
  show ?thesis by blast
qed

text \<open>
  C30. Write leases are exclusive within a project: acquiring, releasing, sweeping, assigning, moving
  and reassigning keep the terms of overlapping active leases of one project and workspace
  disjoint. So at any time at most one of them is valid for a path, once both were acquired.
\<close>

theorem leases_exclusive:
  "keeps leases_keep (acquire lc inp :: ('x lease_state_scheme, WriteScopeLease) op) \<and>
   keeps leases_keep (lease_release i :: ('x lease_state_scheme, WriteScopeLease) op) \<and>
   keeps leases_keep (lease_releaseForTask t :: ('x lease_state_scheme, WriteScopeLease list) op) \<and>
   keeps leases_keep (lease_expireStale :: ('x lease_state_scheme, string list) op) \<and>
   keeps leases_keep (assign lc ds r o') \<and> keeps leases_keep (assignment_transition i to reason) \<and>
   keeps leases_keep (reassign lc ds i r reas o' optTask) \<and>
   (leases_ok s \<longrightarrow> a \<in> set (mem_list (leases s)) \<longrightarrow> b \<in> set (mem_list (leases s)) \<longrightarrow>
      lease_workspaceId a = lease_workspaceId b \<longrightarrow> lease_projectId a = lease_projectId b \<longrightarrow>
      isLive a at \<longrightarrow> isLive b at \<longrightarrow> acquiredAt a \<le> at \<longrightarrow> acquiredAt b \<le> at \<longrightarrow>
      scopeCovers (lease_scope a) p \<longrightarrow> scopeCovers (lease_scope b) p \<longrightarrow> a = b)"
  using one_writer [of s a b at p]
  by (intro conjI impI keeps_acquire keeps_lease_release keeps_releaseForTask keeps_expireStale_leases lease_assign
      lease_transition lease_reassign)

theorem leases_exclusive_witness:
  "leases_ok (snd (assign code_unit_cmp [demo_descriptor] (review_requirements demo_review) lease_options staff_state))"
proof -
  have "leases_ok staff_state" by (simp add: leases_ok_def exclusive_def staff_state_def mem_findById_def)
  moreover have "keeps leases_keep (assign code_unit_cmp [demo_descriptor] (review_requirements demo_review) lease_options
      :: (assignment_state, AssignmentOutcome) op)"
    using leases_exclusive by blast
  ultimately show ?thesis by (simp add: keeps_def leases_keep_def)
qed

text \<open>
  C31. An assignment that ends releases: moving it to completed, failed, cancelled or reassigned
  leaves no active write lease of its task.
\<close>

theorem ended_assignment_releases:
  fixes s :: "'x assignment_state_scheme"
  assumes "assignment_transition i to reason s = (Inr a, u)" "releases_leases to" "repo_ok leaseId (leases s)"
  shows "asg_status a = to \<and>
    (\<forall>j l. mem_findById j (leases u) = Some l \<longrightarrow> lease_taskId l = asg_taskId a \<longrightarrow> lease_status l \<noteq> LeaseActive)"
  using assms by (rule transition_releases)

theorem ended_assignment_releases_witness:
  "\<exists>a u. assignment_transition ''as1'' AsCancelled None held_state = (Inr a, u) \<and> asg_status a = AsCancelled \<and>
     map_option lease_status (mem_findById ''l1'' (leases u)) \<noteq> Some LeaseActive"
proof -
  obtain a u where run: "assignment_transition ''as1'' AsCancelled None held_state = (Inr a, u)"
      "asg_taskId a = ''t1''" and held: "map_option lease_taskId (mem_findById ''l1'' (leases u)) = Some ''t1''"
    using held_moves by blast
  then show ?thesis
    using ended_assignment_releases [OF run(1)] held_ok by (fastforce simp: releases_leases_def)
qed

section \<open>Operator access\<close>

text \<open>
  C32. Administrators are counted exactly. Along every interleaving of access requests (first visits,
  profile refreshes, session revocations, decisions, bootstraps), in which nothing else touches an account
  between the read and the commit of its bootstrap, the store's counter is the number of active
  administrators. Once the bootstrap is done, at least one remains and a revoked account stays revoked.
\<close>

theorem administrators_counted:
  fixes s t :: "'x account_state_scheme"
  assumes "access_run has True (s, []) (t, cs)" "accounts_ok s"
  shows "activeAdmins t = int (card (active_admins t)) \<and>
    (bootstrapOperatorId s \<noteq> None \<longrightarrow> active_admins t \<noteq> {} \<and>
      (\<forall>i a. stored i s = Some a \<longrightarrow> oa_status a = OaRevoked \<longrightarrow>
        (\<exists>b. stored i t = Some b \<and> oa_status b = OaRevoked)))"
  using assms by (rule counted_run)

theorem administrators_counted_witness:
  "active_admins (snd (myAccess (owner ''b'') race_three)) \<noteq> {}"
proof -
  have "access_run (\<lambda>_. False) True (race_three, []) (snd (myAccess (owner ''b'') race_three), [])"
    using call_myAccess [of "\<lambda>_. False" race_three "owner ''b''"] by (simp add: calls_def)
  from administrators_counted [OF this race_three_ok] show ?thesis by simp
qed

text \<open>
  C33. An access decision that goes through was taken by an administrator about somebody else, from
  a status the action starts from to the one it leads to; a role it grants is no higher than the
  actor's, its projects are registered, and no other account changes. One that throws changes no account.
\<close>

theorem access_decisions:
  assumes "accounts_ok s"
  shows "(\<forall>v u. access_apply has action who inp s = (Inr v, u) \<longrightarrow>
      op_role (actor_principal who) = Admin \<and> ai_operatorId inp \<noteq> op_id (actor_principal who) \<and>
      (\<exists>a b. stored (ai_operatorId inp) s = Some a \<and> stored (ai_operatorId inp) u = Some b \<and>
        oa_status a \<in> set (ACCESS_FROM action) \<and> oa_status b = ACCESS_TO action \<and>
        oa_revision b = oa_revision a + 1 \<and> granted_by has action (actor_principal who) a b) \<and>
      (\<forall>j. j \<noteq> ai_operatorId inp \<longrightarrow> stored j u = stored j s)) \<and>
    (\<forall>e u. access_apply has action who inp s = (Inl e, u) \<longrightarrow> same_accounts s u)"
  using decision_sound [OF assms] access_apply_throws by blast

theorem access_decisions_witness:
  "\<exists>u a. stored ''u'' u = Some a \<and> oa_status a = OaActive \<and> (\<exists>r. oa_role a = Some r \<and> ROLE_RANK r \<le> 3) \<and>
     access_run (\<lambda>_. True) True (race_one, []) (u, [])"
proof -
  obtain v u where run: "access_apply (\<lambda>_. True) Approve root_actor grant_viewer race_one = (Inr v, u)"
    using approval_runs by blast
  have "access_run (\<lambda>_. True) True (race_one, []) (u, [])"
    using call_access_apply [of "\<lambda>_. True" race_one Approve root_actor grant_viewer] run by (simp add: calls_def)
  moreover have "\<exists>b. stored ''u'' u = Some b \<and> oa_status b = OaActive \<and>
      granted_by (\<lambda>_. True) Approve (actor_principal root_actor) race_first b"
    using access_decisions [OF race_one_ok, of "\<lambda>_. True" Approve root_actor grant_viewer] run
    by (auto simp: grant_viewer_def race_defs)
  ultimately show ?thesis by (auto simp: granted_by_def root_actor_def)
qed

text \<open>
  C34. Signing out all devices holds: from a store whose accounts and pending commits are consistent, after it
  returned a positive cut-off \<open>c\<close>, and after any interleaving of further access requests in which nothing else
  touches an account between the read and the commit of its bootstrap, no token of that person issued before
  \<open>c\<close> or without an issue time resolves to a principal. (In the excluded interleavings the bootstrap can write an
  account it read before the cut-off was set.)
\<close>

theorem session_revocation_holds:
  fixes s u w :: "'x account_state_scheme"
  assumes "revokeOwnSessions idp v corr s = (Inr (c, b), u)" "conf_ok (s, cs)" "c > 0"
    and "access_run has True (u, cs) (w, ds)" "vi_uid x = vi_uid v"
    and "\<And>t. vi_issuedAt x = Some t \<Longrightarrow> t < c"
  shows "resolvePrincipal x w = None"
  using assms by (rule revocation_holds)

theorem session_revocation_holds_witness:
  "resolvePrincipal (owner ''a'') (snd (revokeOwnSessions None (owner ''a'') None race_three)) = None"
proof -
  obtain u where run: "revokeOwnSessions None (owner ''a'') None race_three = (Inr (5, False), u)"
    using revocation_runs by blast
  have "conf_ok (race_three, [])" using race_three_ok by (simp add: conf_ok_def)
  from session_revocation_holds [OF run this, of "\<lambda>_. True" u "[]" "owner ''a''"] run show ?thesis
    by (simp add: owner_def)
qed

section \<open>Permissions, tasks and approvals\<close>

text \<open>
  C35. The permission verdict: a request is allowed exactly when some matching grant allows it
  and no matching grant denies it. Order and duplicates of grants do not matter, a deny always
  wins, and with no matching grant the request is denied.
\<close>

theorem permission_verdict:
  "allowed (evaluate grants r) \<longleftrightarrow>
     (\<exists>g \<in> set grants. grant_matches r g \<and> grant_effect g = Allow) \<and>
     \<not> (\<exists>g \<in> set grants. grant_matches r g \<and> grant_effect g = Deny)"
  using evaluate_allowed [of grants r] by blast

text \<open>
  C36. A terminal task is final: through any history of submissions, resumptions, decisions, handoffs and
  calls of the components, a completed or cancelled task keeps its status, project, type, declared permissions
  and creation time, is never lost, and every further transition of it is a transition error that changes
  nothing. As for C4, the agents act on the core through its operations.
\<close>

theorem terminal_task_final:
  assumes "executor_calls A cfg" "(core_request A cfg)\<^sup>*\<^sup>* s u" "repo_ok task_id (tasks s)"
    and "mem_findById i (tasks s) = Some t" "task_status t = TCompleted \<or> task_status t = TCancelled"
  shows "\<exists>t'. mem_findById i (tasks u) = Some t' \<and> task_status t' = task_status t \<and> task_frozen t' = task_frozen t \<and>
    (\<forall>to p. \<exists>e. task_transition i to p u = (Inl (StateTransitionError e), u))"
proof -
  have final: "TRANSITIONS (task_status t) = []" using assms(5) by auto
  have "tasks_keep s u" using requests_keep [OF assms(2,1)] by (simp add: core_keeps_def)
  then obtain t' where t': "mem_findById i (tasks u) = Some t'" "task_status t' = task_status t" "task_frozen t' = task_frozen t"
    using task_life.terminal_final assms(3,4) final by blast
  then show ?thesis using terminal_refuses final by metis
qed

theorem terminal_task_final_witness:
  "\<exists>t'. mem_findById ''t1'' (tasks (snd (submit demo_cfg demo_draft None
      (demo_state\<lparr>tasks := [(''t1'', demo_task\<lparr>task_status := TCompleted\<rparr>)]\<rparr>)))) = Some t' \<and>
    task_status t' = TCompleted \<and> task_frozen t' = task_frozen (demo_task\<lparr>task_status := TCompleted\<rparr>)"
proof -
  let ?s = "demo_state\<lparr>tasks := [(''t1'', demo_task\<lparr>task_status := TCompleted\<rparr>)]\<rparr>"
  have calls: "executor_calls {} demo_cfg" by (rule demo_executor_calls)
  have "(core_request {} demo_cfg)\<^sup>*\<^sup>* ?s (snd (submit demo_cfg demo_draft None ?s))"
    by (rule r_into_rtranclp) (rule submitted)
  moreover have "repo_ok task_id (tasks ?s)"
    "mem_findById ''t1'' (tasks ?s) = Some (demo_task\<lparr>task_status := TCompleted\<rparr>)"
    by (simp_all add: repo_ok_def mem_findById_def demo_task_def)
  ultimately show ?thesis using terminal_task_final [OF calls] by fastforce
qed

text \<open>
  C37. An approval is decided at most once: after a decision on it, every further decision and
  every expiry of it is a transition error that changes nothing.
\<close>

theorem approval_decided_once:
  assumes "repo_ok approval_id (approvals s)" "approval_decide i dec who md s = (Inr a, t)"
  shows "(\<exists>e. approval_decide i dec' who' md' t = (Inl (StateTransitionError e), t)) \<and>
    (\<exists>e. approval_expire i t = (Inl (StateTransitionError e), t)) \<and>
    mem_findById i (approvals t) = Some a \<and> approval_status a = decision_status dec"
  using approval_decided_final [OF assms] by blast

theorem approval_decided_once_witness:
  "\<exists>a t e. approval_decide ''a1'' DecideApproved ''user:ann'' [] parked_state = (Inr a, t) \<and>
     approval_decide ''a1'' DecideRejected ''user:bob'' [] t = (Inl (StateTransitionError e), t)"
proof -
  obtain a t where run: "approval_decide ''a1'' DecideApproved ''user:ann'' [] parked_state = (Inr a, t)"
    by (simp add: approval_decide_def mustBePending_def approval_require_def mem_findById_def
        parked_state_def demo_approval_def now_def upsert_approval_def op_simps Let_def)
  have "repo_ok approval_id (approvals parked_state)"
    by (simp add: repo_ok_def parked_state_def demo_approval_def)
  from approval_decided_once [OF this run] run show ?thesis by blast
qed

section \<open>Handoffs, registry and descriptors\<close>

text \<open>
  C38. A specialist handoff is accepted only by a destination that qualifies at that moment: a
  registered descriptor, enabled and allowed in the owning project, administratively active,
  whose capabilities cover all the remaining work. The stored record says so; a refused
  acceptance changes nothing, so the handoff stays proposed.
\<close>

theorem handoff_acceptance_requalifies:
  "(case specialist_accept D en i who s of
      (Inl e, t) \<Rightarrow> t = s
    | (Inr h, t) \<Rightarrow> (\<exists>old p. mem_findById i (handoffs s) = Some old \<and> handoff_status old = HProposed \<and>
        handoff_projectId old = Some p \<and>
        qualified_for D en (destinationAgentId old) p (or_else (handoff_requiredCapabilities old) []) \<and>
        handoff_status h = HAccepted \<and> acceptedBy h = Some who \<and>
        destinationAgentId h = destinationAgentId old \<and>
        mem_findById (handoff_id h) (handoffs t) = Some h))"
  by (cases rule: specialist_accept_cases [of D en i who s]) (auto simp: accepted_record_def)

section \<open>Stores, contexts and the audit log\<close>

text \<open>
  C39. The cached repository converges to its backing store: in every state that is reachable by
  hydration, reads, writes and settling writes, once nothing is pending and no write has failed
  the backing store holds exactly what memory holds.
\<close>

theorem cached_repository_synchronised:
  assumes "cached_reachable key c" "failed c = []" "pending c = 0"
  shows "backing c = map_of (cache c)"
  using assms by (rule drained_synchronised)

theorem cached_repository_synchronised_witness:
  "backing (hydrate task_id [demo_task] (fresh_cached [''t1'' \<mapsto> demo_task])) = [''t1'' \<mapsto> demo_task]"
proof -
  have "cached_reachable task_id (hydrate task_id [demo_task] (fresh_cached [''t1'' \<mapsto> demo_task]))"
    by (rule cached_reachable.start) (simp add: enumerates_def demo_task_def)
  from cached_repository_synchronised [OF this] show ?thesis
    by (simp add: hydrate_def fresh_cached_def mem_clear_def mem_upsert_def demo_task_def)
qed

text \<open>
  C40. Context isolation: as long as project ids contain no colon, no call made on behalf of other
  projects changes what a project's view shows, whatever was stored before.
\<close>

theorem context_isolation:
  assumes "\<forall>c \<in> set (before @ cs). CHR '':'' \<notin> set (call_project c)" "\<forall>c \<in> set cs. call_project c \<noteq> p"
  shows "viewForProject p (run_calls (before @ cs) no_contexts) = viewForProject p (run_calls before no_contexts)"
  using assms by (rule isolation_from_empty)

theorem context_isolation_witness:
  "viewForProject ''web'' (run_calls ([CallProject ''web'' []] @ [CallProject ''api'' []]) no_contexts)
   = viewForProject ''web'' (run_calls [CallProject ''web'' []] no_contexts)"
  by (rule context_isolation) simp_all

end
